(* ===== verification/Prelude.thy ===== *)
theory Prelude
  imports Main
begin

text \<open>
  What every component of the model shares: the 64-bit \<open>int\<close> of Go with its
  wrap-around written out, durations in nanoseconds, the early-return style of the
  handlers, \<open>sort.Search\<close>, and the closure of a parent/child table that the
  recursive queries and the cascading deletes compute.
\<close>

named_theorems go_int "arithmetic of Go's 64-bit int"
named_theorems repo_defs "definitions of the repository's statements"

section \<open>Machine integers\<close>

text \<open>
  An \<open>int\<close> or \<open>int64\<close> value of the code is an \<^typ>\<open>int\<close>; every addition,
  subtraction and multiplication that can leave the range goes through \<open>wrap64\<close>.
\<close>

definition in_i64 :: "int \<Rightarrow> bool" where
  "in_i64 x \<longleftrightarrow> - (2 ^ 63) \<le> x \<and> x < 2 ^ 63"

definition wrap64 :: "int \<Rightarrow> int" where
  "wrap64 x = (x + 2 ^ 63) mod 2 ^ 64 - 2 ^ 63"

lemma wrap64_id [simp, go_int]: "in_i64 x \<Longrightarrow> wrap64 x = x"
  by (simp add: in_i64_def wrap64_def)

lemma in_i64_wrap64 [simp, intro]: "in_i64 (wrap64 x)"
proof -
  have "0 \<le> (x + 2 ^ 63) mod 2 ^ 64" and "(x + 2 ^ 63) mod 2 ^ 64 < (2 ^ 64 :: int)"
    by simp_all
  then show ?thesis by (simp add: in_i64_def wrap64_def)
qed

lemma in_i64_between: "in_i64 a \<Longrightarrow> in_i64 b \<Longrightarrow> a \<le> x \<Longrightarrow> x \<le> b \<Longrightarrow> in_i64 x"
  by (simp add: in_i64_def)

text \<open>\<open>int16(n)\<close>: the low sixteen bits, read as two's complement.\<close>

definition wrap16 :: "int \<Rightarrow> int" where
  "wrap16 x = (x + 2 ^ 15) mod 2 ^ 16 - 2 ^ 15"

text \<open>Go's integer division truncates towards zero.\<close>

definition go_div :: "int \<Rightarrow> int \<Rightarrow> int" where
  "go_div a b = sgn a * sgn b * (\<bar>a\<bar> div \<bar>b\<bar>)"

lemma go_div_nonneg [simp, go_int]: "0 \<le> a \<Longrightarrow> 0 < b \<Longrightarrow> go_div a b = a div b"
  by (cases "a = 0") (simp_all add: go_div_def)

section \<open>Time\<close>

type_synonym time = int      \<comment> \<open>\<open>time.Time\<close>: nanoseconds on the server's clock\<close>
type_synonym duration = int  \<comment> \<open>\<open>time.Duration\<close>: nanoseconds\<close>

definition second :: duration where "second = 1000000000"
definition minute :: duration where "minute = 60 * second"
definition hour :: duration where "hour = 60 * minute"

lemma second_pos [simp]: "0 < second"
  by (simp add: second_def)

lemma minute_pos [simp]: "0 < minute"
  by (simp add: minute_def)

lemma hour_pos [simp]: "0 < hour"
  by (simp add: hour_def)

lemmas duration_defs = second_def minute_def hour_def

section \<open>Early return\<close>

text \<open>
  \<open>x, err := m(); if err != nil { h } ; k\<close>: a call that may fail, its error branch and
  the rest of the handler. All three thread the state.
\<close>

definition call_or ::
  "('s \<Rightarrow> ('e + 'a) \<times> 's) \<Rightarrow> ('e \<Rightarrow> 's \<Rightarrow> 'r \<times> 's) \<Rightarrow> ('a \<Rightarrow> 's \<Rightarrow> 'r \<times> 's) \<Rightarrow> 's \<Rightarrow> 'r \<times> 's" where
  "call_or m h k s = (case m s of (Inl e, s') \<Rightarrow> h e s' | (Inr a, s') \<Rightarrow> k a s')"

lemma call_or_Inl [simp]: "m s = (Inl e, s') \<Longrightarrow> call_or m h k s = h e s'"
  by (simp add: call_or_def)

lemma call_or_Inr [simp]: "m s = (Inr a, s') \<Longrightarrow> call_or m h k s = k a s'"
  by (simp add: call_or_def)

lemma call_or_cases:
  obtains (Err) e s' where "m s = (Inl e, s')" and "call_or m h k s = h e s'"
  | (Ok) a s' where "m s = (Inr a, s')" and "call_or m h k s = k a s'"
  by (metis call_or_Inl call_or_Inr obj_sumE surj_pair)

lemma call_or_rule:
  assumes "\<And>e s'. m s = (Inl e, s') \<Longrightarrow> Q (h e s')" and "\<And>a s'. m s = (Inr a, s') \<Longrightarrow> Q (k a s')"
  shows "Q (call_or m h k s)"
  by (rule call_or_cases [of m s h k]) (simp_all add: assms)

text \<open>A call whose error the code ignores or only logs.\<close>

definition call_ignore :: "('s \<Rightarrow> ('e + 'a) \<times> 's) \<Rightarrow> 's \<Rightarrow> 's" where
  "call_ignore m s = snd (m s)"

section \<open>Binary search\<close>

text \<open>\<open>sort.Search(n, f)\<close> of the standard library: the loop over \<open>[i, j)\<close>.\<close>

function search_loop :: "(nat \<Rightarrow> bool) \<Rightarrow> nat \<Rightarrow> nat \<Rightarrow> nat" where
  "search_loop f i j =
     (if i < j
      then let h = (i + j) div 2 in if \<not> f h then search_loop f (h + 1) j else search_loop f i h
      else i)"
  by pat_completeness auto
termination
  by (relation "measure (\<lambda>(f, i, j). j - i)") auto

declare search_loop.simps [simp del]

definition sort_Search :: "nat \<Rightarrow> (nat \<Rightarrow> bool) \<Rightarrow> nat" where
  "sort_Search n f = search_loop f 0 n"

lemma search_loop_spec:
  assumes "i \<le> j" and "\<forall>k < i. \<not> f k" and "\<forall>k \<ge> j. k < n \<longrightarrow> f k"
    and "\<forall>k l. k \<le> l \<and> l < n \<and> f k \<longrightarrow> f l" and "j \<le> n"
  shows "search_loop f i j \<le> j \<and> (\<forall>k < search_loop f i j. \<not> f k)
    \<and> (\<forall>k \<ge> search_loop f i j. k < n \<longrightarrow> f k)"
  using assms
proof (induction f i j rule: search_loop.induct)
  case (1 f i j)
  define h where "h = (i + j) div 2"
  show ?case
  proof (cases "i < j")
    case False
    then have "search_loop f i j = i" by (simp add: search_loop.simps [of f i j])
    moreover have "i = j" using False 1(3) by simp
    ultimately show ?thesis using 1(4,5) by simp
  next
    case True
    then have h: "i \<le> h" "h < j" by (auto simp: h_def)
    show ?thesis
    proof (cases "f h")
      case True
      have above: "\<forall>k \<ge> h. k < n \<longrightarrow> f k" using 1(6) True by blast
      have "search_loop f i j = search_loop f i h"
        using \<open>i < j\<close> True by (simp add: search_loop.simps [of f i j] h_def)
      moreover have "search_loop f i h \<le> h \<and> (\<forall>k < search_loop f i h. \<not> f k)
          \<and> (\<forall>k \<ge> search_loop f i h. k < n \<longrightarrow> f k)"
        by (rule 1(2) [OF \<open>i < j\<close> h_def _ h(1) 1(4) above 1(6)])
          (use True h 1(7) in simp_all)
      ultimately show ?thesis using h(2) by (metis less_imp_le order_trans)
    next
      case False
      have "\<not> f k" if "k \<le> h" for k
        using 1(6) False that h(2) 1(7) by (meson less_le_trans)
      then have below: "\<forall>k < h + 1. \<not> f k" by simp
      have "search_loop f i j = search_loop f (h + 1) j"
        using \<open>i < j\<close> False by (simp add: search_loop.simps [of f i j] h_def)
      moreover have "search_loop f (h + 1) j \<le> j \<and> (\<forall>k < search_loop f (h + 1) j. \<not> f k)
          \<and> (\<forall>k \<ge> search_loop f (h + 1) j. k < n \<longrightarrow> f k)"
        by (rule 1(1) [OF \<open>i < j\<close> h_def False _ below 1(5) 1(6) 1(7)]) (use h in simp)
      ultimately show ?thesis by simp
    qed
  qed
qed

text \<open>On a monotone predicate the search returns the first index that satisfies it.\<close>

lemma sort_Search_spec:
  assumes "\<forall>k l. k \<le> l \<and> l < n \<and> f k \<longrightarrow> f l"
  shows "sort_Search n f \<le> n" and "k < sort_Search n f \<Longrightarrow> \<not> f k"
    and "sort_Search n f \<le> k \<Longrightarrow> k < n \<Longrightarrow> f k"
proof -
  have "sort_Search n f \<le> n \<and> (\<forall>k < sort_Search n f. \<not> f k)
      \<and> (\<forall>k \<ge> sort_Search n f. k < n \<longrightarrow> f k)"
    unfolding sort_Search_def by (rule search_loop_spec [OF _ _ _ assms]) simp_all
  then show "sort_Search n f \<le> n" and "k < sort_Search n f \<Longrightarrow> \<not> f k"
    and "sort_Search n f \<le> k \<Longrightarrow> k < n \<Longrightarrow> f k"
    by blast+
qed

section \<open>Parent/child tables\<close>

text \<open>
  The level-by-level evaluation of \<open>WITH RECURSIVE t AS (seed UNION ALL SELECT child ...
  JOIN t)\<close> over rows with an id and an optional parent id. A table of \<open>n\<close> rows with no
  cycle has at most \<open>n\<close> levels, which is the fuel the queries use.
\<close>

definition children_of :: "('r \<Rightarrow> int) \<Rightarrow> ('r \<Rightarrow> int option) \<Rightarrow> 'r list \<Rightarrow> int list \<Rightarrow> int list" where
  "children_of idf parf rows ids =
     concat (map (\<lambda>i. map idf (filter (\<lambda>r. parf r = Some i) rows)) ids)"

fun tree_levels ::
  "('r \<Rightarrow> int) \<Rightarrow> ('r \<Rightarrow> int option) \<Rightarrow> 'r list \<Rightarrow> nat \<Rightarrow> int list \<Rightarrow> int list" where
  "tree_levels idf parf rows 0 ids = ids"
| "tree_levels idf parf rows (Suc n) ids =
     (if ids = [] then [] else ids @ tree_levels idf parf rows n (children_of idf parf rows ids))"

lemma children_of_set:
  "set (children_of idf parf rows ids) = {idf r |r. r \<in> set rows \<and> (\<exists>i \<in> set ids. parf r = Some i)}"
  by (auto simp: children_of_def)

lemma tree_levels_start: "set ids \<subseteq> set (tree_levels idf parf rows n ids)"
  by (cases n) auto

text \<open>Everything below the starting ids is the id of a row that has a parent.\<close>

lemma tree_levels_parented:
  "x \<in> set (tree_levels idf parf rows n ids) \<Longrightarrow>
    x \<in> set ids \<or> (\<exists>r \<in> set rows. idf r = x \<and> parf r \<noteq> None)"
proof (induction n arbitrary: ids)
  case 0
  then show ?case by simp
next
  case (Suc n)
  then show ?case by (fastforce simp: children_of_set split: if_splits)
qed

section \<open>Lists\<close>

lemma find_Some_iff_ex: "(\<exists>x. find P xs = Some x) \<longleftrightarrow> (\<exists>x \<in> set xs. P x)"
  by (induction xs) auto

lemma find_SomeD: "find P xs = Some x \<Longrightarrow> x \<in> set xs \<and> P x"
  by (induction xs) (auto split: if_splits)

lemma find_NoneD: "find P xs = None \<Longrightarrow> x \<in> set xs \<Longrightarrow> \<not> P x"
  by (induction xs) (auto split: if_splits)

lemma find_map: "find P (map f xs) = map_option f (find (P \<circ> f) xs)"
  by (induction xs) auto

lemma find_unique:
  "distinct (map f xs) \<Longrightarrow> x \<in> set xs \<Longrightarrow> find (\<lambda>y. f y = f x) xs = Some x"
  by (induction xs) (auto simp: rev_image_eqI)

lemma find_only:
  assumes "x \<in> set xs" and "P x" and only: "\<forall>y \<in> set xs. P y \<longrightarrow> y = x"
  shows "find P xs = Some x"
proof -
  obtain y where y: "find P xs = Some y" using assms(1,2) find_Some_iff_ex [of P xs] by blast
  then show ?thesis using only find_SomeD [OF y] by blast
qed

end
