(* ===== verification/SegmentSet.thy ===== *)
theory SegmentSet
  imports Prelude
begin

text \<open>
  \<open>internal/streaming/segmentset.go\<close>: the set of HLS segments that are on disk, kept as
  a sorted list of inclusive, pairwise separated ranges. The abstract value of a
  \<open>segmentSet\<close> is the set of segment numbers its ranges cover; \<open>segmentSet_wf\<close> is the
  representation invariant the code keeps. The locale \<open>segment_store\<close> is what the
  streaming session relies on.
\<close>

section \<open>The code\<close>

record segRange =
  seg_lo :: int
  seg_hi :: int

record segmentSet =
  ranges :: "segRange list"

definition segmentSet_empty :: segmentSet where
  "segmentSet_empty = \<lparr> ranges = [] \<rparr>"

text \<open>The index of the first range whose \<open>lo\<close> is greater than \<open>n\<close>.\<close>

definition seg_pos :: "segRange list \<Rightarrow> int \<Rightarrow> nat" where
  "seg_pos rs n = sort_Search (length rs) (\<lambda>i. seg_lo (rs ! i) > n)"

text \<open>\<open>append(s, zero)\<close>, \<open>copy(s[pos+1:], s[pos:])\<close>, \<open>s[pos] = x\<close>.\<close>

definition insert_at :: "nat \<Rightarrow> 'a \<Rightarrow> 'a list \<Rightarrow> 'a list" where
  "insert_at pos x xs =
     (let ys = xs @ [x];
          zs = take (pos + 1) ys @ take (length ys - (pos + 1)) (drop pos ys)
      in zs[pos := x])"

definition segmentSet_add :: "int \<Rightarrow> segmentSet \<Rightarrow> segmentSet" where
  "segmentSet_add n s =
     (let rs = ranges s; pos = seg_pos rs n in
      if pos > 0 \<and> seg_hi (rs ! (pos - 1)) \<ge> n then s
      else
        let leftAdjacent = (pos > 0 \<and> seg_hi (rs ! (pos - 1)) = wrap64 (n - 1));
            rightAdjacent = (pos < length rs \<and> seg_lo (rs ! pos) = wrap64 (n + 1)) in
        if leftAdjacent \<and> rightAdjacent then
          let rs' = rs[pos - 1 := (rs ! (pos - 1))\<lparr> seg_hi := seg_hi (rs ! pos) \<rparr>]
          in s\<lparr> ranges := take pos rs' @ drop (pos + 1) rs' \<rparr>
        else if leftAdjacent then
          s\<lparr> ranges := rs[pos - 1 := (rs ! (pos - 1))\<lparr> seg_hi := n \<rparr>] \<rparr>
        else if rightAdjacent then
          s\<lparr> ranges := rs[pos := (rs ! pos)\<lparr> seg_lo := n \<rparr>] \<rparr>
        else s\<lparr> ranges := insert_at pos \<lparr> seg_lo = n, seg_hi = n \<rparr> rs \<rparr>)"

definition segmentSet_contains :: "segmentSet \<Rightarrow> int \<Rightarrow> int \<Rightarrow> bool" where
  "segmentSet_contains s n len =
     (let rs = ranges s; pos = seg_pos rs n
      in pos > 0 \<and> seg_hi (rs ! (pos - 1)) \<ge> wrap64 (n + len - 1))"

definition segmentSet_firstAvailableAfter :: "segmentSet \<Rightarrow> int \<Rightarrow> int \<times> bool" where
  "segmentSet_firstAvailableAfter s n =
     (let rs = ranges s; pos = seg_pos rs n
      in if pos \<ge> length rs then (0, False) else (seg_lo (rs ! pos), True))"

section \<open>The abstract value and the invariant\<close>

definition seg_span :: "segRange \<Rightarrow> int set" where
  "seg_span r = {seg_lo r .. seg_hi r}"

definition segmentSet_abs :: "segmentSet \<Rightarrow> int set" where
  "segmentSet_abs s = (\<Union>r \<in> set (ranges s). seg_span r)"

definition seg_ok :: "segRange \<Rightarrow> bool" where
  "seg_ok r \<longleftrightarrow> in_i64 (seg_lo r) \<and> in_i64 (seg_hi r) \<and> seg_lo r \<le> seg_hi r"

text \<open>Sorted, non-overlapping and non-adjacent.\<close>

definition ranges_wf :: "segRange list \<Rightarrow> bool" where
  "ranges_wf rs \<longleftrightarrow> list_all seg_ok rs \<and> sorted_wrt (\<lambda>a b. seg_hi a + 1 < seg_lo b) rs"

definition segmentSet_wf :: "segmentSet \<Rightarrow> bool" where
  "segmentSet_wf s \<longleftrightarrow> ranges_wf (ranges s)"

section \<open>Lemmas\<close>

lemma ranges_wf_Nil [simp]: "ranges_wf []"
  by (simp add: ranges_wf_def)

lemma ranges_wf_Cons [simp]:
  "ranges_wf (r # rs) \<longleftrightarrow> seg_ok r \<and> (\<forall>b \<in> set rs. seg_hi r + 1 < seg_lo b) \<and> ranges_wf rs"
  by (auto simp: ranges_wf_def)

lemma ranges_wf_append [simp]:
  "ranges_wf (xs @ ys) \<longleftrightarrow> ranges_wf xs \<and> ranges_wf ys
     \<and> (\<forall>a \<in> set xs. \<forall>b \<in> set ys. seg_hi a + 1 < seg_lo b)"
  by (auto simp: ranges_wf_def sorted_wrt_append)

lemma ranges_wf_ok: "ranges_wf rs \<Longrightarrow> r \<in> set rs \<Longrightarrow> seg_ok r"
  by (simp add: ranges_wf_def list_all_iff)

lemma ranges_wf_lo_mono:
  assumes "ranges_wf rs" and "i < j" and "j < length rs"
  shows "seg_lo (rs ! i) < seg_lo (rs ! j)"
proof -
  have "seg_hi (rs ! i) + 1 < seg_lo (rs ! j)"
    using assms by (auto simp: ranges_wf_def sorted_wrt_iff_nth_less)
  moreover have "seg_ok (rs ! i)" using assms by (simp add: ranges_wf_ok)
  ultimately show ?thesis by (simp add: seg_ok_def)
qed

text \<open>The binary search splits the list between the ranges that start at or before \<open>n\<close> and
  the ones that start after it.\<close>

lemma seg_pos_spec:
  assumes "ranges_wf rs"
  shows "seg_pos rs n \<le> length rs"
    and "\<forall>r \<in> set (take (seg_pos rs n) rs). seg_lo r \<le> n"
    and "\<forall>r \<in> set (drop (seg_pos rs n) rs). n < seg_lo r"
proof -
  have mono: "\<forall>k l. k \<le> l \<and> l < length rs \<and> n < seg_lo (rs ! k) \<longrightarrow> n < seg_lo (rs ! l)"
    using ranges_wf_lo_mono [OF assms] by (metis le_neq_implies_less less_trans)
  note spec = sort_Search_spec [OF mono, folded seg_pos_def]
  show le: "seg_pos rs n \<le> length rs" by (rule spec(1))
  show "\<forall>r \<in> set (take (seg_pos rs n) rs). seg_lo r \<le> n"
    using spec(2) le by (fastforce simp: in_set_conv_nth)
  show "\<forall>r \<in> set (drop (seg_pos rs n) rs). n < seg_lo r"
    using spec(3) by (fastforce simp: in_set_conv_nth)
qed

lemma seg_split:
  assumes "ranges_wf rs"
  obtains L R where "rs = L @ R" and "length L = seg_pos rs n"
    and "\<forall>r \<in> set L. seg_lo r \<le> n" and "\<forall>r \<in> set R. n < seg_lo r"
  using seg_pos_spec [OF assms, of n]
  by (metis append_take_drop_id length_take min.absorb2)

lemma insert_at_append [simp]: "insert_at (length L) x (L @ R) = L @ x # R"
  by (cases R) (simp_all add: insert_at_def)

lemma wf_span_last:
  assumes "ranges_wf (L @ [l] @ R)" and "n \<in> \<Union> (seg_span ` set (L @ [l] @ R))"
    and "seg_lo l \<le> n" and "\<forall>r \<in> set R. n < seg_lo r"
  shows "n \<le> seg_hi l"
  using assms by (fastforce simp: seg_span_def)

section \<open>Addition refines set insertion\<close>

lemma segmentSet_add_both:
  assumes "ranges s = L' @ l # r # R'" and "seg_pos (ranges s) n = Suc (length L')"
  shows "ranges (segmentSet_add n s) =
      (if n \<le> seg_hi l then L' @ l # r # R'
       else if seg_hi l = wrap64 (n - 1) \<and> seg_lo r = wrap64 (n + 1) then L' @ l\<lparr>seg_hi := seg_hi r\<rparr> # R'
       else if seg_hi l = wrap64 (n - 1) then L' @ l\<lparr>seg_hi := n\<rparr> # r # R'
       else if seg_lo r = wrap64 (n + 1) then L' @ l # r\<lparr>seg_lo := n\<rparr> # R'
       else L' @ l # \<lparr>seg_lo = n, seg_hi = n\<rparr> # r # R')"
  using assms insert_at_append [of "L' @ [l]" _ "r # R'"]
  by (simp add: segmentSet_add_def Let_def nth_append list_update_append Suc_diff_le)

lemma segmentSet_add_left:
  assumes "ranges s = L' @ [l]" and "seg_pos (ranges s) n = Suc (length L')"
  shows "ranges (segmentSet_add n s) =
      (if n \<le> seg_hi l then L' @ [l]
       else if seg_hi l = wrap64 (n - 1) then L' @ [l\<lparr>seg_hi := n\<rparr>]
       else L' @ [l, \<lparr>seg_lo = n, seg_hi = n\<rparr>])"
  using assms insert_at_append [of "L' @ [l]" _ "[]"]
  by (simp add: segmentSet_add_def Let_def)

lemma segmentSet_add_right:
  assumes "ranges s = R" and "seg_pos (ranges s) n = 0"
  shows "ranges (segmentSet_add n s) =
      (case R of [] \<Rightarrow> [\<lparr>seg_lo = n, seg_hi = n\<rparr>]
       | r # R' \<Rightarrow> if seg_lo r = wrap64 (n + 1) then r\<lparr>seg_lo := n\<rparr> # R'
                  else \<lparr>seg_lo = n, seg_hi = n\<rparr> # R)"
  using assms insert_at_append [of "[]" _ R]
  by (simp add: segmentSet_add_def Let_def split: list.split)

text \<open>Next to an existing range \<open>n - 1\<close> and \<open>n + 1\<close> do not wrap.\<close>

lemma wrap_pred: "in_i64 n \<Longrightarrow> in_i64 h \<Longrightarrow> h < n \<Longrightarrow> wrap64 (n - 1) = n - 1"
  by (rule wrap64_id) (simp add: in_i64_def)

lemma wrap_succ: "in_i64 n \<Longrightarrow> in_i64 h \<Longrightarrow> n < h \<Longrightarrow> wrap64 (n + 1) = n + 1"
  by (rule wrap64_id) (simp add: in_i64_def)

lemma segmentSet_abs_ranges: "segmentSet_abs s = \<Union> (seg_span ` set (ranges s))"
  by (simp add: segmentSet_abs_def)

lemma seg_span_single [simp]: "seg_span \<lparr>seg_lo = n, seg_hi = n\<rparr> = {n}"
  by (simp add: seg_span_def)

lemma seg_span_grow_right: "seg_ok l \<Longrightarrow> seg_hi l = n - 1 \<Longrightarrow> seg_span (l\<lparr>seg_hi := n\<rparr>) = insert n (seg_span l)"
  by (auto simp: seg_span_def seg_ok_def)

lemma seg_span_grow_left: "seg_ok r \<Longrightarrow> seg_lo r = n + 1 \<Longrightarrow> seg_span (r\<lparr>seg_lo := n\<rparr>) = insert n (seg_span r)"
  by (auto simp: seg_span_def seg_ok_def)

lemma seg_span_merge:
  "seg_ok l \<Longrightarrow> seg_ok r \<Longrightarrow> seg_hi l = n - 1 \<Longrightarrow> seg_lo r = n + 1 \<Longrightarrow>
    seg_span (l\<lparr>seg_hi := seg_hi r\<rparr>) = insert n (seg_span l \<union> seg_span r)"
  by (auto simp: seg_span_def seg_ok_def)

lemma seg_span_in: "seg_lo r \<le> n \<Longrightarrow> n \<le> seg_hi r \<Longrightarrow> n \<in> seg_span r"
  by (simp add: seg_span_def)

lemmas seg_spans = seg_span_grow_right seg_span_grow_left seg_span_merge

lemma segmentSet_add_correct:
  assumes "segmentSet_wf s" and n: "in_i64 n"
  shows "segmentSet_wf (segmentSet_add n s) \<and> segmentSet_abs (segmentSet_add n s) = insert n (segmentSet_abs s)"
proof -
  have wf: "ranges_wf (ranges s)" using assms(1) by (simp add: segmentSet_wf_def)
  obtain L R where LR: "ranges s = L @ R" and len: "length L = seg_pos (ranges s) n"
    and L: "\<forall>r \<in> set L. seg_lo r \<le> n" and R: "\<forall>r \<in> set R. n < seg_lo r"
    using seg_split [OF wf] by blast
  show ?thesis
  proof (cases L rule: rev_cases)
    case Nil
    then have rs: "ranges s = R" and pos: "seg_pos (ranges s) n = 0" using LR len by simp_all
    show ?thesis
    proof (cases R)
      case Nil
      then show ?thesis using segmentSet_add_right [OF rs pos] rs n
        by (simp add: segmentSet_wf_def segmentSet_abs_ranges seg_ok_def)
    next
      case (Cons r R')
      have "wrap64 (n + 1) = n + 1"
        by (rule wrap_succ [OF n, of "seg_lo r"]) (use wf R Cons rs in \<open>simp_all add: seg_ok_def\<close>)
      note succ = this
      have add: "ranges (segmentSet_add n s) =
          (if seg_lo r = n + 1 then r\<lparr>seg_lo := n\<rparr> # R' else \<lparr>seg_lo = n, seg_hi = n\<rparr> # r # R')"
        using segmentSet_add_right [OF rs pos] Cons succ by simp
      have "segmentSet_wf (segmentSet_add n s)"
        using wf R rs Cons n add by (force simp: segmentSet_wf_def seg_ok_def)
      moreover have "segmentSet_abs (segmentSet_add n s) = insert n (segmentSet_abs s)"
        using wf rs Cons add by (simp add: segmentSet_abs_ranges seg_spans)
      ultimately show ?thesis by blast
    qed
  next
    case (snoc L' l)
    have l: "seg_ok l" "seg_lo l \<le> n" using wf LR L snoc by simp_all
    then have pred: "\<not> n \<le> seg_hi l \<Longrightarrow> wrap64 (n - 1) = n - 1"
      using wrap_pred [OF n, of "seg_hi l"] by (simp add: seg_ok_def)
    show ?thesis
    proof (cases R)
      case Nil
      have "ranges s = L' @ [l]" and "seg_pos (ranges s) n = Suc (length L')"
        using LR len snoc Nil by simp_all
      note rs = this(1) and add = segmentSet_add_left [OF this]
      have "segmentSet_wf (segmentSet_add n s)"
        using wf rs n add pred l by (auto simp: segmentSet_wf_def seg_ok_def)
      moreover have "segmentSet_abs (segmentSet_add n s) = insert n (segmentSet_abs s)"
        using rs add pred l seg_span_in [of l n] by (auto simp: segmentSet_abs_ranges seg_spans)
      ultimately show ?thesis by blast
    next
      case (Cons r R')
      have "wrap64 (n + 1) = n + 1"
        by (rule wrap_succ [OF n, of "seg_lo r"]) (use wf R Cons LR in \<open>simp_all add: seg_ok_def\<close>)
      note succ = this
      have "ranges s = L' @ l # r # R'" and "seg_pos (ranges s) n = Suc (length L')"
        using LR len snoc Cons by simp_all
      note rs = this(1) and add = segmentSet_add_both [OF this]
      have r: "n < seg_lo r" "seg_ok r" using R Cons wf rs by simp_all
      have "segmentSet_wf (segmentSet_add n s)"
        using wf rs n add pred succ l r
        by (auto simp: segmentSet_wf_def seg_ok_def)
      moreover have "segmentSet_abs (segmentSet_add n s) = insert n (segmentSet_abs s)"
        using rs add pred succ l r seg_span_in [of l n] by (auto simp: segmentSet_abs_ranges seg_spans)
      ultimately show ?thesis by blast
    qed
  qed
qed

section \<open>Queries\<close>

lemma segmentSet_contains_abs:
  assumes "segmentSet_wf s" and "1 \<le> len" and "in_i64 n" and "in_i64 (n + len - 1)"
  shows "segmentSet_contains s n len \<longleftrightarrow> {n .. n + len - 1} \<subseteq> segmentSet_abs s"
proof -
  have wf: "ranges_wf (ranges s)" using assms(1) by (simp add: segmentSet_wf_def)
  obtain L R where LR: "ranges s = L @ R" and len: "length L = seg_pos (ranges s) n"
    and L: "\<forall>r \<in> set L. seg_lo r \<le> n" and R: "\<forall>r \<in> set R. n < seg_lo r"
    using seg_split [OF wf] by blast
  show ?thesis
  proof (cases L rule: rev_cases)
    case Nil
    then have "\<not> segmentSet_contains s n len" using len by (simp add: segmentSet_contains_def Let_def)
    moreover have "n \<notin> segmentSet_abs s"
      using R LR Nil by (fastforce simp: segmentSet_abs_ranges seg_span_def)
    moreover have "n \<in> {n .. n + len - 1}" using assms(2) by simp
    ultimately show ?thesis by blast
  next
    case (snoc L' l)
    have "seg_pos (ranges s) n = Suc (length L')" using len snoc by simp
    then have iff: "segmentSet_contains s n len \<longleftrightarrow> n + len - 1 \<le> seg_hi l"
      using LR snoc assms(4) by (simp add: segmentSet_contains_def Let_def nth_append)
    show ?thesis
    proof
      assume "segmentSet_contains s n len"
      then have "{n .. n + len - 1} \<subseteq> seg_span l" using iff L snoc by (auto simp: seg_span_def)
      then show "{n .. n + len - 1} \<subseteq> segmentSet_abs s"
        using LR snoc by (fastforce simp: segmentSet_abs_ranges)
    next
      assume sub: "{n .. n + len - 1} \<subseteq> segmentSet_abs s"
      show "segmentSet_contains s n len"
      proof (rule ccontr)
        assume "\<not> segmentSet_contains s n len"
        then have hi: "seg_hi l < n + len - 1" using iff by simp
        define m where "m = max n (seg_hi l + 1)"
        have "m \<in> segmentSet_abs s" using sub hi assms(2) by (auto simp: m_def)
        then obtain r where r: "r \<in> set (L' @ l # R)" "seg_lo r \<le> m" "m \<le> seg_hi r"
          using LR snoc by (auto simp: segmentSet_abs_ranges seg_span_def)
        have "\<forall>a \<in> set L'. seg_hi a < seg_hi l" and "\<forall>b \<in> set R. seg_hi l + 1 < seg_lo b"
          using wf LR snoc by (fastforce simp: seg_ok_def)+
        then show False using r R by (fastforce simp: m_def)
      qed
    qed
  qed
qed

text \<open>What \<open>firstAvailableAfter\<close> returns: the start of the next range, which is the lowest
  available segment above \<open>n\<close> outside the range \<open>n\<close> itself lies in.\<close>

lemma segmentSet_firstAvailableAfter_abs:
  assumes "segmentSet_wf s"
  shows "segmentSet_firstAvailableAfter s n = (m, True) \<Longrightarrow> m \<in> segmentSet_abs s \<and> n < m"
    and "segmentSet_firstAvailableAfter s n = (m, True) \<Longrightarrow> n \<notin> segmentSet_abs s \<Longrightarrow>
      {n ..< m} \<inter> segmentSet_abs s = {}"
    and "segmentSet_firstAvailableAfter s n = (m, False) \<Longrightarrow> n \<notin> segmentSet_abs s \<Longrightarrow>
      {n ..} \<inter> segmentSet_abs s = {}"
proof -
  have wf: "ranges_wf (ranges s)" using assms(1) by (simp add: segmentSet_wf_def)
  obtain L R where LR: "ranges s = L @ R" and len: "length L = seg_pos (ranges s) n"
    and L: "\<forall>r \<in> set L. seg_lo r \<le> n" and R: "\<forall>r \<in> set R. n < seg_lo r"
    using seg_split [OF wf] by blast
  have eq: "segmentSet_firstAvailableAfter s n = (case R of [] \<Rightarrow> (0, False) | r # _ \<Rightarrow> (seg_lo r, True))"
    unfolding segmentSet_firstAvailableAfter_def Let_def len [symmetric]
    using LR by (simp split: list.split)
  have below: "seg_hi r < n" if "n \<notin> segmentSet_abs s" "r \<in> set L" for r
    using that L LR by (fastforce simp: segmentSet_abs_ranges seg_span_def)
  show "segmentSet_firstAvailableAfter s n = (m, True) \<Longrightarrow> m \<in> segmentSet_abs s \<and> n < m"
    using eq LR wf R
    by (auto simp: segmentSet_abs_ranges seg_span_def seg_ok_def split: list.splits)
  show "{n ..< m} \<inter> segmentSet_abs s = {}"
    if next_m: "segmentSet_firstAvailableAfter s n = (m, True)" and miss: "n \<notin> segmentSet_abs s"
  proof -
    obtain r R' where R': "R = r # R'" "m = seg_lo r" using eq next_m by (auto split: list.splits)
    have "\<forall>b \<in> set R'. seg_lo r < seg_lo b" using wf LR R' by (fastforce simp: seg_ok_def)
    then show ?thesis using below [OF miss] LR R' by (fastforce simp: segmentSet_abs_ranges seg_span_def)
  qed
  show "{n ..} \<inter> segmentSet_abs s = {}"
    if none: "segmentSet_firstAvailableAfter s n = (m, False)" and miss: "n \<notin> segmentSet_abs s"
  proof -
    have "R = []" using eq none by (auto split: list.splits)
    then show ?thesis using below [OF miss] LR by (fastforce simp: segmentSet_abs_ranges seg_span_def)
  qed
qed

section \<open>The representation is canonical\<close>

lemma ranges_wf_min:
  assumes "ranges_wf (r # rs)" and "x \<in> \<Union> (seg_span ` set (r # rs))"
  shows "seg_lo r \<le> x"
  using assms by (fastforce simp: seg_span_def seg_ok_def)

lemma ranges_wf_gap:
  assumes "ranges_wf (r # rs)"
  shows "seg_hi r + 1 \<notin> \<Union> (seg_span ` set (r # rs))"
  using assms by (fastforce simp: seg_span_def)

lemma ranges_wf_rest:
  assumes "ranges_wf (r # rs)"
  shows "\<Union> (seg_span ` set rs) = \<Union> (seg_span ` set (r # rs)) - seg_span r"
  using assms by (fastforce simp: seg_span_def)

lemma ranges_wf_unique:
  assumes "ranges_wf rs" and "ranges_wf rs'" and "\<Union> (seg_span ` set rs) = \<Union> (seg_span ` set rs')"
  shows "rs = rs'"
  using assms
proof (induction rs arbitrary: rs')
  case Nil
  then show ?case by (cases rs') (auto simp: seg_span_def seg_ok_def)
next
  case (Cons r rs)
  obtain r' t' where rs': "rs' = r' # t'"
    using Cons.prems by (cases rs') (auto simp: seg_span_def seg_ok_def)
  note wf = Cons.prems(1) and wf' = Cons.prems(2) [unfolded rs']
    and eq = Cons.prems(3) [unfolded rs']
  have in1: "seg_lo r \<in> \<Union> (seg_span ` set (r # rs))" "seg_lo r' \<in> \<Union> (seg_span ` set (r' # t'))"
    using wf wf' by (auto simp: seg_span_def seg_ok_def)
  have lo: "seg_lo r = seg_lo r'"
    using ranges_wf_min [OF wf] ranges_wf_min [OF wf'] in1 eq by (metis order_antisym)
  have "\<not> seg_hi r < seg_hi r'"
  proof
    assume "seg_hi r < seg_hi r'"
    then have "seg_hi r + 1 \<in> \<Union> (seg_span ` set (r' # t'))"
      using wf lo by (simp add: seg_span_def seg_ok_def)
    then show False using ranges_wf_gap [OF wf] eq by metis
  qed
  moreover have "\<not> seg_hi r' < seg_hi r"
  proof
    assume "seg_hi r' < seg_hi r"
    then have "seg_hi r' + 1 \<in> \<Union> (seg_span ` set (r # rs))"
      using wf' lo by (simp add: seg_span_def seg_ok_def)
    then show False using ranges_wf_gap [OF wf'] eq by metis
  qed
  ultimately have "r = r'" using lo by simp
  moreover have "rs = t'"
  proof (rule Cons.IH)
    show "ranges_wf rs" and "ranges_wf t'" using wf wf' by simp_all
    show "\<Union> (seg_span ` set rs) = \<Union> (seg_span ` set t')"
      unfolding ranges_wf_rest [OF wf] ranges_wf_rest [OF wf'] eq unfolding \<open>r = r'\<close> ..
  qed
  ultimately show ?case using rs' by simp
qed

section \<open>The interface of the streaming session\<close>

text \<open>What \<open>session.go\<close> uses of the set: marking a segment, asking for a window of
  segments, and finding the end of a gap.\<close>

locale segment_store =
  fixes empty :: 's
    and add :: "int \<Rightarrow> 's \<Rightarrow> 's"
    and window :: "'s \<Rightarrow> int \<Rightarrow> int \<Rightarrow> bool"
    and next_after :: "'s \<Rightarrow> int \<Rightarrow> int \<times> bool"
    and inv :: "'s \<Rightarrow> bool"
    and abs :: "'s \<Rightarrow> int set"
  assumes empty_inv: "inv empty"
    and empty_abs: "abs empty = {}"
    and add_inv: "inv s \<Longrightarrow> in_i64 n \<Longrightarrow> inv (add n s)"
    and add_abs: "inv s \<Longrightarrow> in_i64 n \<Longrightarrow> abs (add n s) = insert n (abs s)"
    and window_iff: "inv s \<Longrightarrow> 1 \<le> len \<Longrightarrow> in_i64 n \<Longrightarrow> in_i64 (n + len - 1) \<Longrightarrow>
      window s n len \<longleftrightarrow> {n .. n + len - 1} \<subseteq> abs s"
    and next_Some: "inv s \<Longrightarrow> next_after s n = (m, True) \<Longrightarrow> m \<in> abs s \<and> n < m"
    and next_gap: "inv s \<Longrightarrow> next_after s n = (m, True) \<Longrightarrow> n \<notin> abs s \<Longrightarrow> {n ..< m} \<inter> abs s = {}"
    and next_None: "inv s \<Longrightarrow> next_after s n = (m, False) \<Longrightarrow> n \<notin> abs s \<Longrightarrow> {n ..} \<inter> abs s = {}"
begin

lemma fold_add_inv:
  "inv s \<Longrightarrow> \<forall>n \<in> set ns. in_i64 n \<Longrightarrow> inv (fold add ns s)"
  by (induction ns arbitrary: s) (simp_all add: add_inv)

lemma fold_add_abs:
  "inv s \<Longrightarrow> \<forall>n \<in> set ns. in_i64 n \<Longrightarrow> abs (fold add ns s) = set ns \<union> abs s"
  by (induction ns arbitrary: s) (auto simp: add_inv add_abs)

lemma single_window: "inv s \<Longrightarrow> in_i64 n \<Longrightarrow> window s n 1 \<longleftrightarrow> n \<in> abs s"
  using window_iff [of s 1 n] by simp

lemma window_split:
  assumes "inv s" and "in_i64 n" and "in_i64 (n + 1)"
  shows "window s n 2 \<longleftrightarrow> window s n 1 \<and> window s (n + 1) 1"
proof -
  have "{n .. 1 + n} = {n, n + 1}" by auto
  then show ?thesis
    using window_iff [of s 2 n] single_window [of s n] single_window [of s "n + 1"] assms
    by (simp add: add.commute [of 1])
qed

text \<open>Recording further segments never hides one.\<close>

lemma window_mono:
  assumes "inv s" and "in_i64 n" and "in_i64 m" and "window s n 1"
  shows "window (add m s) n 1"
  using assms by (simp add: single_window add_inv add_abs)

text \<open>A run that fills the gap found from a missing segment touches nothing that is there,
  and joins up with the next block.\<close>

lemma gap_fill:
  assumes "inv s" and "in_i64 n" and "\<not> window s n 1" and "next_after s n = (m, True)"
    and "in_i64 m" and "set ns = {n ..< m}"
  shows "set ns \<inter> abs s = {}" and "window (fold add ns s) n (m - n + 1)"
proof -
  have miss: "n \<notin> abs s" using assms(1-3) by (simp add: single_window)
  then show "set ns \<inter> abs s = {}" using next_gap [OF assms(1,4)] assms(6) by simp
  have m: "m \<in> abs s" "n < m" using next_Some [OF assms(1,4)] by simp_all
  have i64: "\<forall>k \<in> set ns. in_i64 k" using assms(2,5,6) by (auto simp: in_i64_def)
  have "{n .. m} \<subseteq> abs (fold add ns s)" using fold_add_abs [OF assms(1) i64] assms(6) m by auto
  then show "window (fold add ns s) n (m - n + 1)"
    using window_iff [of "fold add ns s" "m - n + 1" n] fold_add_inv [OF assms(1) i64] assms(2,5) m
    by simp
qed

end

interpretation seg: segment_store segmentSet_empty segmentSet_add segmentSet_contains
  segmentSet_firstAvailableAfter segmentSet_wf segmentSet_abs
proof unfold_locales
  show "segmentSet_wf segmentSet_empty" by (simp add: segmentSet_wf_def segmentSet_empty_def)
  show "segmentSet_abs segmentSet_empty = {}" by (simp add: segmentSet_abs_def segmentSet_empty_def)
qed (simp_all add: segmentSet_add_correct segmentSet_contains_abs segmentSet_firstAvailableAfter_abs)

section \<open>Properties\<close>

definition sample_set :: segmentSet where
  "sample_set = segmentSet_add 4 (segmentSet_add 7 (segmentSet_add 2 segmentSet_empty))"

lemma sample_set_wf: "segmentSet_wf sample_set"
  by (simp add: sample_set_def seg.add_inv seg.empty_inv in_i64_def)

lemma sample_set_abs: "segmentSet_abs sample_set = {2, 4, 7}"
  by (auto simp: sample_set_def seg.add_inv seg.add_abs seg.empty_inv seg.empty_abs in_i64_def)

text \<open>C11: marking a segment as available keeps the list of ranges sorted, disjoint and
  non-adjacent, and adds exactly that segment to the set it stands for.\<close>

theorem segmentSet_add_refines_insert:
  assumes "segmentSet_wf s" and "in_i64 n"
  shows "segmentSet_wf (segmentSet_add n s)
    \<and> segmentSet_abs (segmentSet_add n s) = insert n (segmentSet_abs s)"
  using segmentSet_add_correct [OF assms] .

theorem segmentSet_add_refines_insert_witness:
  "segmentSet_wf (segmentSet_add 3 sample_set)
    \<and> segmentSet_abs (segmentSet_add 3 sample_set) = {2, 3, 4, 7}"
  using segmentSet_add_refines_insert [of sample_set 3] sample_set_wf sample_set_abs
  by (auto simp: in_i64_def)

text \<open>The window query answers true exactly when every segment of \<open>[n, n + len)\<close> is
  available, as long as \<open>n + len - 1\<close> is a value of \<open>int\<close>.\<close>

lemma segmentSet_contains_iff_window:
  assumes "segmentSet_wf s" and "1 \<le> len" and "in_i64 n" and "in_i64 (n + len - 1)"
  shows "segmentSet_contains s n len \<longleftrightarrow> (\<forall>k. n \<le> k \<and> k < n + len \<longrightarrow> k \<in> segmentSet_abs s)"
  using segmentSet_contains_abs [OF assms] by auto

text \<open>The list of ranges depends only on which segments were marked, not on the order or
  the repetition of the marks, so it always has as few ranges as possible.\<close>

lemma segmentSet_order_irrelevant:
  assumes "\<forall>n \<in> set ns. in_i64 n" and "set ms = set ns"
  shows "ranges (fold segmentSet_add ms segmentSet_empty) = ranges (fold segmentSet_add ns segmentSet_empty)"
proof (rule ranges_wf_unique)
  have ms: "\<forall>n \<in> set ms. in_i64 n" using assms by simp
  show "ranges_wf (ranges (fold segmentSet_add ms segmentSet_empty))"
    using seg.fold_add_inv [OF seg.empty_inv ms] by (simp add: segmentSet_wf_def)
  show "ranges_wf (ranges (fold segmentSet_add ns segmentSet_empty))"
    using seg.fold_add_inv [OF seg.empty_inv assms(1)] by (simp add: segmentSet_wf_def)
  show "\<Union> (seg_span ` set (ranges (fold segmentSet_add ms segmentSet_empty))) =
      \<Union> (seg_span ` set (ranges (fold segmentSet_add ns segmentSet_empty)))"
    using seg.fold_add_abs [OF seg.empty_inv ms] seg.fold_add_abs [OF seg.empty_inv assms(1)] assms(2)
    by (simp only: segmentSet_abs_ranges)
qed

text \<open>Asked from a segment that is missing, \<open>firstAvailableAfter\<close> returns the lowest
  available segment above it, and (0, false) exactly when there is none.\<close>

lemma segmentSet_firstAvailableAfter_least:
  assumes "segmentSet_wf s" and "n \<notin> segmentSet_abs s"
  shows "case segmentSet_firstAvailableAfter s n of
      (m, True) \<Rightarrow> m \<in> segmentSet_abs s \<and> n < m \<and> (\<forall>k \<in> segmentSet_abs s. n < k \<longrightarrow> m \<le> k)
    | (m, False) \<Rightarrow> m = 0 \<and> (\<forall>k \<in> segmentSet_abs s. k < n)"
proof (cases "segmentSet_firstAvailableAfter s n")
  case (Pair m b)
  show ?thesis
  proof (cases b)
    case True
    with Pair have eq: "segmentSet_firstAvailableAfter s n = (m, True)" by simp
    have "m \<le> k" if "k \<in> segmentSet_abs s" "n < k" for k
      using seg.next_gap [OF assms(1) eq assms(2)] that
      by (metis IntI atLeastLessThan_iff emptyE less_imp_le not_le)
    then show ?thesis using seg.next_Some [OF assms(1) eq] by (simp add: eq)
  next
    case False
    with Pair have eq: "segmentSet_firstAvailableAfter s n = (m, False)" by simp
    moreover have "m = 0" using eq by (auto simp: segmentSet_firstAvailableAfter_def Let_def split: if_splits)
    moreover have "k < n" if "k \<in> segmentSet_abs s" for k
      using seg.next_None [OF assms(1) eq assms(2)] that by (metis IntI atLeast_iff emptyE not_le)
    ultimately show ?thesis by simp
  qed
qed

text \<open>Inside a range the answer is not the next number but the start of the next range.\<close>

lemma segmentSet_firstAvailableAfter_inside:
  "segmentSet_abs (fold segmentSet_add [1, 2, 3, 9] segmentSet_empty) = {1, 2, 3, 9} \<and>
    segmentSet_firstAvailableAfter (fold segmentSet_add [1, 2, 3, 9] segmentSet_empty) 1 = (9, True)"
proof
  show "segmentSet_abs (fold segmentSet_add [1, 2, 3, 9] segmentSet_empty) = {1, 2, 3, 9}"
    using seg.fold_add_abs [OF seg.empty_inv, of "[1, 2, 3, 9]"] seg.empty_abs by (simp add: in_i64_def)
  show "segmentSet_firstAvailableAfter (fold segmentSet_add [1, 2, 3, 9] segmentSet_empty) 1 = (9, True)"
    by code_simp
qed

end
