(* ===== verification/GoStrings.thy ===== *)
theory GoStrings
  imports Prelude
begin

text \<open>
  The functions of \<open>strings\<close>, \<open>strconv\<close> and \<open>fmt\<close> the program uses, on strings as lists
  of bytes. Case folding and white space are those of ASCII; the code's inputs outside
  ASCII are only ever copied.
\<close>

section \<open>Prefixes and suffixes\<close>

definition has_prefix :: "string \<Rightarrow> string \<Rightarrow> bool" where
  "has_prefix s p \<longleftrightarrow> length p \<le> length s \<and> take (length p) s = p"

definition has_suffix :: "string \<Rightarrow> string \<Rightarrow> bool" where
  "has_suffix s p \<longleftrightarrow> length p \<le> length s \<and> drop (length s - length p) s = p"

definition trim_prefix :: "string \<Rightarrow> string \<Rightarrow> string" where
  "trim_prefix s p = (if has_prefix s p then drop (length p) s else s)"

definition trim_suffix :: "string \<Rightarrow> string \<Rightarrow> string" where
  "trim_suffix s p = (if has_suffix s p then take (length s - length p) s else s)"

lemma has_prefix_append [simp]: "has_prefix (p @ s) p"
  by (simp add: has_prefix_def)

lemma has_suffix_append [simp]: "has_suffix (s @ p) p"
  by (simp add: has_suffix_def)

lemma trim_prefix_append [simp]: "trim_prefix (p @ s) p = s"
  by (simp add: trim_prefix_def)

lemma trim_suffix_append [simp]: "trim_suffix (s @ p) p = s"
  by (simp add: trim_suffix_def)

lemma has_prefix_iff: "has_prefix s p \<longleftrightarrow> (\<exists>t. s = p @ t)"
  by (metis append_take_drop_id has_prefix_append has_prefix_def)

lemma has_suffix_iff: "has_suffix s p \<longleftrightarrow> (\<exists>t. s = t @ p)"
  by (metis append_take_drop_id has_suffix_append has_suffix_def)

section \<open>Characters\<close>

definition is_digit :: "char \<Rightarrow> bool" where
  "is_digit c \<longleftrightarrow> 48 \<le> (of_char c :: nat) \<and> (of_char c :: nat) \<le> 57"

definition digit_val :: "char \<Rightarrow> nat" where
  "digit_val c = of_char c - 48"

definition digit_char :: "nat \<Rightarrow> char" where
  "digit_char d = char_of (48 + d)"

lemma of_char_digit_char: "d < 10 \<Longrightarrow> (of_char (digit_char d) :: nat) = 48 + d"
  by (simp add: digit_char_def)

lemma is_digit_digit_char [simp]: "d < 10 \<Longrightarrow> is_digit (digit_char d)"
  by (simp add: is_digit_def of_char_digit_char)

lemma digit_val_digit_char [simp]: "d < 10 \<Longrightarrow> digit_val (digit_char d) = d"
  by (simp add: digit_val_def of_char_digit_char)

lemma digit_char_val [simp]: "is_digit c \<Longrightarrow> digit_char (digit_val c) = c"
  by (simp add: is_digit_def digit_val_def digit_char_def)

lemma digit_val_less [simp]: "is_digit c \<Longrightarrow> digit_val c < 10"
  by (simp add: is_digit_def digit_val_def less_diff_conv2)

lemma digit_char_0: "digit_char 0 = CHR ''0''"
  by code_simp

lemma digit_chars:
  "digit_char (Suc 0) = CHR ''1''" "digit_char 2 = CHR ''2''" "digit_char 3 = CHR ''3''" "digit_char 4 = CHR ''4''"
  "digit_char 5 = CHR ''5''" "digit_char 6 = CHR ''6''" "digit_char 7 = CHR ''7''" "digit_char 8 = CHR ''8''"
  "digit_char 9 = CHR ''9''"
  by code_simp+

lemma is_digit_0 [simp]: "is_digit (CHR ''0'')" and digit_val_0 [simp]: "digit_val (CHR ''0'') = 0"
  by (simp_all add: is_digit_def digit_val_def)

definition is_space :: "char \<Rightarrow> bool" where
  "is_space c \<longleftrightarrow> c = CHR '' '' \<or> (9 \<le> (of_char c :: nat) \<and> (of_char c :: nat) \<le> 13)"

definition lower_char :: "char \<Rightarrow> char" where
  "lower_char c = (if 65 \<le> (of_char c :: nat) \<and> (of_char c :: nat) \<le> 90
     then char_of ((of_char c :: nat) + 32) else c)"

definition to_lower :: "string \<Rightarrow> string" where
  "to_lower s = map lower_char s"

definition trim_left_space :: "string \<Rightarrow> string" where
  "trim_left_space s = dropWhile is_space s"

definition trim_space :: "string \<Rightarrow> string" where
  "trim_space s = rev (dropWhile is_space (rev (dropWhile is_space s)))"

lemma length_to_lower [simp]: "length (to_lower s) = length s"
  by (simp add: to_lower_def)

lemma to_lower_Nil [simp]: "to_lower [] = []"
  by (simp add: to_lower_def)

section \<open>Decimal numbers\<close>

fun nat_dec :: "nat \<Rightarrow> string" where
  "nat_dec n = (if n < 10 then [digit_char n] else nat_dec (n div 10) @ [digit_char (n mod 10)])"

declare nat_dec.simps [simp del]

definition strconv_Itoa :: "int \<Rightarrow> string" where
  "strconv_Itoa i = (if i < 0 then CHR ''-'' # nat_dec (nat (- i)) else nat_dec (nat i))"

definition pad_zeros :: "nat \<Rightarrow> string \<Rightarrow> string" where
  "pad_zeros w s = replicate (w - length s) (CHR ''0'') @ s"

text \<open>\<open>fmt.Sprintf("%0wd", n)\<close>: the sign counts towards the width.\<close>

definition sprintf_0d :: "nat \<Rightarrow> int \<Rightarrow> string" where
  "sprintf_0d w i =
     (if i < 0 then CHR ''-'' # pad_zeros (w - 1) (nat_dec (nat (- i))) else pad_zeros w (nat_dec (nat i)))"

datatype num_error = ErrSyntax | ErrRange

text \<open>The loop of \<open>strconv.ParseUint\<close> in base 10: it stops at the first byte that is not a
  digit, or at the first overflow of 64 bits, whichever comes first.\<close>

fun parse_uint_loop :: "string \<Rightarrow> nat \<Rightarrow> num_error + nat" where
  "parse_uint_loop [] acc = Inr acc"
| "parse_uint_loop (c # cs) acc =
     (if \<not> is_digit c then Inl ErrSyntax
      else if 10 * acc + digit_val c > 2 ^ 64 - 1 then Inl ErrRange
      else parse_uint_loop cs (10 * acc + digit_val c))"

definition strconv_ParseUint :: "string \<Rightarrow> nat \<times> num_error option" where
  "strconv_ParseUint s =
     (if s = [] then (0, Some ErrSyntax)
      else case parse_uint_loop s 0 of
        Inl ErrSyntax \<Rightarrow> (0, Some ErrSyntax)
      | Inl ErrRange \<Rightarrow> (2 ^ 64 - 1, Some ErrRange)
      | Inr n \<Rightarrow> (n, None))"

text \<open>\<open>strconv.Atoi\<close> and \<open>strconv.ParseInt(s, 10, 64)\<close>: the value they return beside the error
  is 0 on a syntax error and the nearest bound on a range error.\<close>

definition strconv_Atoi :: "string \<Rightarrow> int \<times> num_error option" where
  "strconv_Atoi s =
     (if s = [] then (0, Some ErrSyntax)
      else
        let neg = (hd s = CHR ''-'');
            s' = (if hd s = CHR ''+'' \<or> hd s = CHR ''-'' then tl s else s) in
        case strconv_ParseUint s' of
          (_, Some ErrSyntax) \<Rightarrow> (0, Some ErrSyntax)
        | (un, _) \<Rightarrow>
            if \<not> neg \<and> un \<ge> 2 ^ 63 then (2 ^ 63 - 1, Some ErrRange)
            else if neg \<and> un > 2 ^ 63 then (- (2 ^ 63), Some ErrRange)
            else (if neg then - int un else int un, None))"

definition dec_value :: "nat \<Rightarrow> string \<Rightarrow> nat" where
  "dec_value acc s = foldl (\<lambda>a c. 10 * a + digit_val c) acc s"

subsection \<open>Lemmas\<close>

lemma nat_dec_digits: "list_all is_digit (nat_dec n)"
  by (induction n rule: nat_dec.induct) (subst nat_dec.simps, simp)

lemma nat_dec_not_Nil [simp]: "nat_dec n \<noteq> []"
  by (subst nat_dec.simps) simp

lemma hd_nat_dec_digit: "is_digit (hd (nat_dec n))"
  using nat_dec_digits [of n] by (cases "nat_dec n") (simp_all add: nat_dec_not_Nil)

lemma dec_value_simps [simp]:
  "dec_value acc [] = acc"
  "dec_value acc (c # s) = dec_value (10 * acc + digit_val c) s"
  "dec_value acc (s @ [c]) = 10 * dec_value acc s + digit_val c"
  by (simp_all add: dec_value_def)

lemma dec_value_nat_dec: "dec_value 0 (nat_dec n) = n"
proof (induction n rule: nat_dec.induct)
  case (1 n)
  show ?case
  proof (cases "n < 10")
    case True
    then show ?thesis by (subst nat_dec.simps) simp
  next
    case False
    then have "dec_value 0 (nat_dec (n div 10)) = n div 10" by (rule 1)
    then show ?thesis using False by (subst nat_dec.simps) simp
  qed
qed

lemma dec_value_mono: "acc \<le> dec_value acc s"
proof (induction s arbitrary: acc)
  case (Cons c s)
  have "acc \<le> 10 * acc + digit_val c" by simp
  also have "\<dots> \<le> dec_value (10 * acc + digit_val c) s" by (rule Cons.IH)
  finally show ?case by simp
qed simp

lemma dec_value_zeros [simp]: "dec_value 0 (replicate k (CHR ''0'') @ s) = dec_value 0 s"
  by (induction k) (simp_all add: digit_val_def)

text \<open>The parser computes the decimal value of a string of digits below \<open>2 ^ 64\<close>.\<close>

lemma parse_uint_loop_digits:
  "list_all is_digit s \<Longrightarrow> dec_value acc s < 2 ^ 64 \<Longrightarrow> parse_uint_loop s acc = Inr (dec_value acc s)"
proof (induction s arbitrary: acc)
  case (Cons c s)
  have "10 * acc + digit_val c < 2 ^ 64"
    using dec_value_mono [of "10 * acc + digit_val c" s] Cons.prems(2) by simp
  then show ?case using Cons by simp
qed simp

lemma parse_uint_loop_Inr:
  "parse_uint_loop s acc = Inr n \<Longrightarrow> acc < 2 ^ 64 \<Longrightarrow> list_all is_digit s \<and> n = dec_value acc s \<and> n < 2 ^ 64"
  by (induction s arbitrary: acc) (auto split: if_splits)

lemma ParseUint_digits:
  assumes "list_all is_digit s" and "s \<noteq> []" and "dec_value 0 s < 2 ^ 64"
  shows "strconv_ParseUint s = (dec_value 0 s, None)"
  using assms parse_uint_loop_digits [of s 0] by (simp add: strconv_ParseUint_def)

lemma digit_not_sign: "is_digit c \<Longrightarrow> c \<noteq> CHR ''+'' \<and> c \<noteq> CHR ''-''"
  by (auto simp: is_digit_def)

lemma Atoi_digits:
  assumes "list_all is_digit s" and "s \<noteq> []" and "dec_value 0 s < 2 ^ 63"
  shows "strconv_Atoi s = (int (dec_value 0 s), None)"
proof -
  have "is_digit (hd s)" using assms(1,2) by (cases s) simp_all
  then have "hd s \<noteq> CHR ''+''" "hd s \<noteq> CHR ''-''" by (simp_all add: digit_not_sign)
  then show ?thesis
    using assms ParseUint_digits [of s] by (simp add: strconv_Atoi_def Let_def)
qed

lemma Atoi_padded:
  assumes "0 \<le> i" and "in_i64 i"
  shows "strconv_Atoi (pad_zeros w (nat_dec (nat i))) = (i, None)"
proof -
  let ?s = "pad_zeros w (nat_dec (nat i))"
  have val: "dec_value 0 ?s = nat i" by (simp add: pad_zeros_def dec_value_nat_dec)
  have "list_all is_digit ?s"
    using nat_dec_digits by (auto simp: pad_zeros_def list_all_iff)
  moreover have "?s \<noteq> []" by (simp add: pad_zeros_def)
  moreover have "nat i < 2 ^ 63" using assms by (simp add: in_i64_def nat_less_iff)
  ultimately show ?thesis using Atoi_digits [of ?s] val assms(1) by simp
qed

lemma Atoi_Itoa:
  assumes "in_i64 i"
  shows "strconv_Atoi (strconv_Itoa i) = (i, None)"
proof (cases "i < 0")
  case True
  then have "nat (- i) \<le> 2 ^ 63" using assms by (simp add: in_i64_def nat_le_iff)
  then have "strconv_ParseUint (nat_dec (nat (- i))) = (nat (- i), None)"
    using ParseUint_digits [of "nat_dec (nat (- i))"] nat_dec_digits by (simp add: dec_value_nat_dec)
  then show ?thesis using True \<open>nat (- i) \<le> 2 ^ 63\<close>
    by (simp add: strconv_Itoa_def strconv_Atoi_def Let_def)
next
  case False
  then show ?thesis using Atoi_padded [of i 0] assms by (simp add: strconv_Itoa_def pad_zeros_def)
qed

end
