(* ===== verification/SegmentNames.thy ===== *)
theory SegmentNames
  imports GoStrings
begin

text \<open>
  The names of the HLS segment files (\<open>formatSegName\<close>, \<open>isValidSegmentName\<close> and
  \<open>parseSegmentNumber\<close> of \<open>internal/streaming/session.go\<close>) and the path functions the
  sessions use. Names reach \<open>isValidSegmentName\<close> from a URL, so what it accepts decides
  which files of the server a client can name.
\<close>

section \<open>Paths\<close>

text \<open>\<open>filepath.Join\<close> of a clean directory and a name that has no dot segments.\<close>

definition filepath_Join :: "string \<Rightarrow> string \<Rightarrow> string" where
  "filepath_Join dir name = (if dir = [] then name else if name = [] then dir else dir @ ''/'' @ name)"

definition is_slash :: "char \<Rightarrow> bool" where
  "is_slash c \<longleftrightarrow> c = CHR ''/''"

text \<open>\<open>filepath.Base\<close>: the last element, after the trailing slashes are stripped.\<close>

definition filepath_Base :: "string \<Rightarrow> string" where
  "filepath_Base p =
     (if p = [] then ''.''
      else let q = rev (dropWhile is_slash (rev p)) in
           if q = [] then ''/'' else rev (takeWhile (\<lambda>c. \<not> is_slash c) (rev q)))"

section \<open>Segment names\<close>

definition formatSegName :: "int \<Rightarrow> string" where
  "formatSegName n = ''seg_'' @ sprintf_0d 5 n @ ''.ts''"

definition isValidSegmentName :: "string \<Rightarrow> bool" where
  "isValidSegmentName name =
     (if \<not> has_prefix name ''seg_'' \<or> \<not> has_suffix name ''.ts'' then False
      else let inner = take (length name - 3 - 4) (drop 4 name) in
           if \<not> list_all is_digit inner then False else length inner > 0)"

definition parseSegmentNumber :: "string \<Rightarrow> int" where
  "parseSegmentNumber name =
     (let s = trim_suffix (trim_prefix name ''seg_'') ''.ts'' in fst (strconv_Atoi s))"

section \<open>Lemmas\<close>

lemma filepath_Base_Join:
  assumes "dir \<noteq> []" and "name \<noteq> []" and "CHR ''/'' \<notin> set name"
  shows "filepath_Base (filepath_Join dir name) = name"
proof -
  let ?p = "filepath_Join dir name"
  have p: "?p = dir @ ''/'' @ name" using assms by (simp add: filepath_Join_def)
  obtain c r where r: "rev name = c # r" using assms(2) by (cases "rev name") simp_all
  have "c \<in> set name" using arg_cong [OF r, of set] by simp
  then have "\<not> is_slash c" using assms(3) by (auto simp: is_slash_def)
  then have "dropWhile is_slash (rev ?p) = rev ?p" using p r by simp
  moreover have "takeWhile (\<lambda>c. \<not> is_slash c) (rev name @ ''/'' @ rev dir) = rev name"
    using assms(3) by (subst takeWhile_append2) (auto simp: is_slash_def)
  ultimately show ?thesis using p by (simp add: filepath_Base_def Let_def)
qed

text \<open>The check accepts exactly the names \<open>seg_\<close>, one or more digits, \<open>.ts\<close>.\<close>

lemma isValidSegmentName_iff:
  "isValidSegmentName name \<longleftrightarrow>
    (\<exists>ds. name = ''seg_'' @ ds @ ''.ts'' \<and> ds \<noteq> [] \<and> list_all is_digit ds)"
proof
  assume valid: "isValidSegmentName name"
  then obtain t where t: "name = ''seg_'' @ t"
    by (auto simp: isValidSegmentName_def has_prefix_iff split: if_splits)
  obtain u where u: "name = u @ ''.ts''"
    using valid by (auto simp: isValidSegmentName_def has_suffix_iff split: if_splits)
  obtain us where us: "(''seg_'' = u @ us \<and> us @ t = ''.ts'') \<or> (''seg_'' @ us = u \<and> t = us @ ''.ts'')"
    using t u append_eq_append_conv2 [of "''seg_''" t u "''.ts''"] by auto
  have "\<exists>ds. u = ''seg_'' @ ds"
  proof (cases "us = []")
    case False
    have "\<not> (''seg_'' = u @ us \<and> us @ t = ''.ts'')"
    proof
      assume *: "''seg_'' = u @ us \<and> us @ t = ''.ts''"
      then have "last us = CHR ''_''" using False by (metis last.simps last_appendR list.simps(3))
      moreover have "last us \<in> set ''.ts''" using * False by (metis UnI1 last_in_set set_append)
      ultimately show False by simp
    qed
    then show ?thesis using us by blast
  qed (use us in auto)
  then obtain ds where "u = ''seg_'' @ ds" by blast
  then show "\<exists>ds. name = ''seg_'' @ ds @ ''.ts'' \<and> ds \<noteq> [] \<and> list_all is_digit ds"
    using valid u by (auto simp: isValidSegmentName_def Let_def split: if_splits)
next
  assume "\<exists>ds. name = ''seg_'' @ ds @ ''.ts'' \<and> ds \<noteq> [] \<and> list_all is_digit ds"
  then show "isValidSegmentName name"
    by (auto simp: isValidSegmentName_def has_prefix_def has_suffix_def Let_def)
qed

lemma digits_pad: "list_all is_digit s \<Longrightarrow> list_all is_digit (pad_zeros w s)"
  by (auto simp: pad_zeros_def list_all_iff)

lemma pad_zeros_not_Nil [simp]: "s \<noteq> [] \<Longrightarrow> pad_zeros w s \<noteq> []"
  by (simp add: pad_zeros_def)

lemma formatSegName_valid:
  assumes "0 \<le> n"
  shows "isValidSegmentName (formatSegName n)"
  unfolding isValidSegmentName_iff formatSegName_def
  using assms by (intro exI [of _ "sprintf_0d 5 n"]) (simp add: sprintf_0d_def digits_pad nat_dec_digits)

lemma parseSegmentNumber_parts:
  "parseSegmentNumber (''seg_'' @ ds @ ''.ts'') = fst (strconv_Atoi ds)"
  unfolding parseSegmentNumber_def Let_def by (simp only: trim_prefix_append trim_suffix_append)

lemmas parseSegmentNumber_cons = parseSegmentNumber_parts [simplified]

lemma parse_formatSegName:
  assumes "0 \<le> n" and "in_i64 n"
  shows "parseSegmentNumber (formatSegName n) = n"
  using assms Atoi_padded [of n 5]
  by (simp add: formatSegName_def parseSegmentNumber_cons sprintf_0d_def)

lemma parse_uint_loop_digits_not_syntax:
  "list_all is_digit s \<Longrightarrow> parse_uint_loop s acc \<noteq> Inl ErrSyntax"
  by (induction s arbitrary: acc) simp_all

lemma Atoi_nonneg:
  assumes "list_all is_digit ds"
  shows "0 \<le> fst (strconv_Atoi ds) \<and> in_i64 (fst (strconv_Atoi ds))"
proof (cases "ds = []")
  case True
  then show ?thesis by (simp add: strconv_Atoi_def in_i64_def)
next
  case False
  then have "is_digit (hd ds)" using assms by (cases ds) simp_all
  then have "hd ds \<noteq> CHR ''+''" "hd ds \<noteq> CHR ''-''" by (simp_all add: digit_not_sign)
  then show ?thesis using False
    by (auto simp: strconv_Atoi_def Let_def in_i64_def split: option.splits num_error.splits prod.splits)
qed

lemma valid_segment_number:
  assumes "isValidSegmentName name"
  shows "0 \<le> parseSegmentNumber name" and "in_i64 (parseSegmentNumber name)"
  using assms Atoi_nonneg by (auto simp: isValidSegmentName_iff parseSegmentNumber_cons)

lemma slash_not_digit [simp]: "\<not> is_digit (CHR ''/'')"
  by (simp add: is_digit_def)

lemma valid_segment_no_slash:
  assumes "isValidSegmentName name"
  shows "CHR ''/'' \<notin> set name"
  using assms slash_not_digit by (auto simp: isValidSegmentName_iff list_all_iff simp del: slash_not_digit)

section \<open>Properties\<close>

text \<open>The name ffmpeg gives segment \<open>n\<close> is accepted by the check on names and parses back
  to \<open>n\<close>, whatever its width.\<close>

lemma segment_name_roundtrip:
  assumes "0 \<le> n" and "in_i64 n"
  shows "isValidSegmentName (formatSegName n) \<and> parseSegmentNumber (formatSegName n) = n"
  using formatSegName_valid [OF assms(1)] parse_formatSegName [OF assms] by simp

text \<open>a name that passes the check stays inside the session's directory: joined to the
  directory it has that name as its last element, it holds no separator, and its number is
  a non-negative \<open>int\<close> even when its digits overflow 64 bits.\<close>

lemma valid_segment_name_confined:
  assumes "isValidSegmentName name" and "dir \<noteq> []"
  shows "CHR ''/'' \<notin> set name \<and> filepath_Base (filepath_Join dir name) = name
    \<and> filepath_Join dir name = dir @ ''/'' @ name
    \<and> 0 \<le> parseSegmentNumber name \<and> in_i64 (parseSegmentNumber name)"
proof -
  have "name \<noteq> []" using assms(1) by (auto simp: isValidSegmentName_iff)
  then show ?thesis
    using valid_segment_no_slash [OF assms(1)] valid_segment_number [OF assms(1)]
      filepath_Base_Join [OF assms(2)] assms(2)
    by (simp add: filepath_Join_def)
qed

lemma valid_segment_name_confined_witness:
  "filepath_Base (filepath_Join ''/tmp/live'' ''seg_99999999999999999999.ts'') = ''seg_99999999999999999999.ts''
    \<and> parseSegmentNumber ''seg_99999999999999999999.ts'' = 2 ^ 63 - 1"
proof
  have "isValidSegmentName ''seg_99999999999999999999.ts''" by code_simp
  from valid_segment_name_confined [OF this, of "''/tmp/live''"]
  show "filepath_Base (filepath_Join ''/tmp/live'' ''seg_99999999999999999999.ts'')
      = ''seg_99999999999999999999.ts''" by blast
  show "parseSegmentNumber ''seg_99999999999999999999.ts'' = 2 ^ 63 - 1"
    using parseSegmentNumber_parts [of "''99999999999999999999''"]
    by (simp add: strconv_Atoi_def strconv_ParseUint_def is_digit_def digit_val_def)
qed

end
