(* ===== verification/PauseGate.thy ===== *)
theory PauseGate
  imports Main
begin

text \<open>
  The part of \<open>jobs.Dispatcher\<close> that other packages switch: the \<open>paused\<close> flag. The
  dispatcher's own record extends it, and the streaming sessions hold a reference to it.
\<close>

record pause_gate =
  paused :: bool

definition Dispatcher_Pause :: "'a pause_gate_scheme \<Rightarrow> 'a pause_gate_scheme" where
  "Dispatcher_Pause d = d\<lparr> paused := True \<rparr>"

definition Dispatcher_Resume :: "'a pause_gate_scheme \<Rightarrow> 'a pause_gate_scheme" where
  "Dispatcher_Resume d = d\<lparr> paused := False \<rparr>"

lemma paused_Pause [simp]: "paused (Dispatcher_Pause d)"
  by (simp add: Dispatcher_Pause_def)

lemma paused_Resume [simp]: "\<not> paused (Dispatcher_Resume d)"
  by (simp add: Dispatcher_Resume_def)

end
