(* ===== verification/Streaming.thy ===== *)
theory Streaming
  imports SegmentSet SegmentNames PauseGate
begin

text \<open>
  \<open>internal/streaming/session.go\<close>: on-the-fly HLS sessions. A session owns a temporary
  directory, a watcher on it, an ffmpeg process and the set of finished segments; the map
  of sessions, the dispatcher they pause and the operating system's processes, directories
  and watchers form the state.

  Every function that waits takes the events that happen while it waits as a list: files
  ffmpeg writes, notifications of the watcher, the exit of ffmpeg, the deadline and the
  client going away. A function that starts ffmpeg takes the outcome of the start.
\<close>

section \<open>Constants\<close>

definition TranscodeSeekRestartThreshold :: duration where
  "TranscodeSeekRestartThreshold = 18 * second"

definition RemuxSeekRestartThreshold :: duration where
  "RemuxSeekRestartThreshold = 10 * minute"

definition SessionIdleTimeout :: duration where
  "SessionIdleTimeout = 15 * minute"

definition segmentDuration :: int where
  "segmentDuration = 6"

section \<open>State\<close>

record ffmpeg_cmd =
  cmd_args :: "string list"
  cmd_pid :: nat

text \<open>\<open>Session\<close>: the channel \<open>manifestReady\<close> is open or closed; \<open>segmentAdded\<close> is closed and
  replaced on every mark, so it is the number of the channel in use.\<close>

record session =
  lastActivity :: time
  watcher :: nat
  cmd :: "ffmpeg_cmd option"
  manifestReady :: bool
  segmentAdded :: nat
  tempDir :: string
  fsPath :: string
  segments :: segmentSet
  currentSegment :: int
  itemID :: int
  isRemux :: bool

text \<open>What the sessions hold of the operating system: running ffmpeg processes, temporary
  directories with the names of their files, and open watchers.\<close>

record os_state =
  os_procs :: "nat list"
  os_dirs :: "(string \<times> string list) list"
  os_watchers :: "nat list"

record streaming =
  st_clock :: time
  sessions :: "(int \<times> session) list"
  dispatcherRef :: bool
  st_dispatcher :: pause_gate
  st_os :: os_state

definition os_remove_dir :: "string \<Rightarrow> os_state \<Rightarrow> os_state" where
  "os_remove_dir d s = s\<lparr> os_dirs := filter (\<lambda>(d', _). d' \<noteq> d) (os_dirs s) \<rparr>"

definition os_dir_files :: "string \<Rightarrow> os_state \<Rightarrow> string list" where
  "os_dir_files d s = (case map_of (os_dirs s) d of None \<Rightarrow> [] | Some fs \<Rightarrow> fs)"

definition os_update_dir :: "string \<Rightarrow> (string list \<Rightarrow> string list) \<Rightarrow> os_state \<Rightarrow> os_state" where
  "os_update_dir d f s =
     s\<lparr> os_dirs := map (\<lambda>(d', fs). if d' = d then (d', f fs) else (d', fs)) (os_dirs s) \<rparr>"

definition os_file_exists :: "string \<Rightarrow> string \<Rightarrow> os_state \<Rightarrow> bool" where
  "os_file_exists d name s \<longleftrightarrow> name \<in> set (os_dir_files d s)"

definition os_remove_file :: "string \<Rightarrow> string \<Rightarrow> os_state \<Rightarrow> os_state" where
  "os_remove_file d name = os_update_dir d (removeAll name)"

definition os_kill :: "nat \<Rightarrow> os_state \<Rightarrow> os_state" where
  "os_kill p s = s\<lparr> os_procs := removeAll p (os_procs s) \<rparr>"

definition os_close_watcher :: "nat \<Rightarrow> os_state \<Rightarrow> os_state" where
  "os_close_watcher w s = s\<lparr> os_watchers := removeAll w (os_watchers s) \<rparr>"

text \<open>\<open>cmd.Start()\<close>: it fails, or the operating system gives it a process.\<close>

definition cmd_Start :: "string list \<Rightarrow> nat option \<Rightarrow> os_state \<Rightarrow> ffmpeg_cmd option \<times> os_state" where
  "cmd_Start args start s =
     (case start of
        None \<Rightarrow> (None, s)
      | Some p \<Rightarrow> (Some \<lparr> cmd_args = args, cmd_pid = p \<rparr>, s\<lparr> os_procs := p # os_procs s \<rparr>))"

section \<open>The ffmpeg command line\<close>

definition buildFFmpegCommand ::
  "string \<Rightarrow> string \<Rightarrow> bool \<Rightarrow> int \<Rightarrow> int \<Rightarrow> int \<Rightarrow> string list" where
  "buildFFmpegCommand path dir remux offsetSecs startNum durationSecs =
     (let manifestFile =
            (if offsetSecs \<noteq> 0 \<or> durationSecs \<noteq> 0 then ''manifest-seek.m3u8'' else ''manifest.m3u8'');
          manifestPath = filepath_Join dir manifestFile;
          segPattern = filepath_Join dir ''seg_%05d.ts''
      in (if offsetSecs > 0 then [''-ss'', strconv_Itoa offsetSecs] else [])
         @ [''-i'', path]
         @ (if durationSecs > 0 then [''-t'', strconv_Itoa durationSecs] else [])
         @ (if remux then [''-c'', ''copy'']
            else [''-c:v'', ''libx264'', ''-preset'', ''ultrafast'', ''-vf'', ''scale=-2:480'',
                  ''-b:v'', ''1500k'', ''-c:a'', ''aac'', ''-b:a'', ''96k''])
         @ [''-hls_time'', strconv_Itoa segmentDuration, ''-hls_playlist_type'', ''vod'',
            ''-hls_list_size'', ''0'', ''-hls_start_number'', strconv_Itoa startNum,
            ''-hls_segment_filename'', segPattern, manifestPath])"

section \<open>Opening a session\<close>

definition ActiveSessionCount :: "streaming \<Rightarrow> nat" where
  "ActiveSessionCount st = length (sessions st)"

definition GetSession :: "int \<Rightarrow> streaming \<Rightarrow> session option" where
  "GetSession i st = map_of (sessions st) i"

text \<open>Writing a key of the map: an existing entry is replaced.\<close>

definition put_session :: "int \<Rightarrow> session \<Rightarrow> streaming \<Rightarrow> streaming" where
  "put_session i s st =
     st\<lparr> sessions := (if i \<in> fst ` set (sessions st)
          then map (\<lambda>(j, t). if j = i then (j, s) else (j, t)) (sessions st)
          else sessions st @ [(i, s)]) \<rparr>"

text \<open>The outcomes of the four calls that can fail: the name of the new temporary directory,
  the new watcher, whether it could be put on the directory, and the process.\<close>

record open_env =
  env_tempDir :: "string option"
  env_watcher :: "nat option"
  env_watchAdd :: bool
  env_start :: "nat option"

definition GetOrCreateSession ::
  "int \<Rightarrow> int option \<Rightarrow> string \<Rightarrow> int \<Rightarrow> open_env \<Rightarrow> streaming \<Rightarrow> (string + session) \<times> streaming" where
  "GetOrCreateSession i bitrateKbps path bitrateThreshold env st =
     (case map_of (sessions st) i of
        Some s \<Rightarrow>
          let s' = s\<lparr> lastActivity := st_clock st \<rparr> in (Inr s', put_session i s' st)
      | None \<Rightarrow>
     (case env_tempDir env of
        None \<Rightarrow> (Inl ''create temp dir'', st)
      | Some dir \<Rightarrow>
      let st1 = st\<lparr> st_os := (st_os st)\<lparr> os_dirs := (dir, []) # os_dirs (st_os st) \<rparr> \<rparr> in
     (case env_watcher env of
        None \<Rightarrow> (Inl ''create fs watcher'', st1\<lparr> st_os := os_remove_dir dir (st_os st1) \<rparr>)
      | Some w \<Rightarrow>
      let st2 = st1\<lparr> st_os := (st_os st1)\<lparr> os_watchers := w # os_watchers (st_os st1) \<rparr> \<rparr> in
      if \<not> env_watchAdd env then
        (Inl ''watch temp dir'', st2\<lparr> st_os := os_remove_dir dir (os_close_watcher w (st_os st2)) \<rparr>)
      else
        let remux = (case bitrateKbps of None \<Rightarrow> False | Some b \<Rightarrow> b \<le> bitrateThreshold);
            args = buildFFmpegCommand path dir remux 0 0 0 in
        (case cmd_Start args (env_start env) (st_os st2) of
           (None, os) \<Rightarrow>
             (Inl ''start ffmpeg'', st2\<lparr> st_os := os_remove_dir dir (os_close_watcher w os) \<rparr>)
         | (Some c, os) \<Rightarrow>
             let s = \<lparr> lastActivity = st_clock st, watcher = w, cmd = Some c, manifestReady = False,
                       segmentAdded = 0, tempDir = dir, fsPath = path, segments = segmentSet_empty,
                       currentSegment = 0, itemID = i, isRemux = remux \<rparr>;
                 st3 = put_session i s (st2\<lparr> st_os := os \<rparr>)
             in (Inr s, st3\<lparr> dispatcherRef := True,
                             st_dispatcher := Dispatcher_Pause (st_dispatcher st3) \<rparr>)))))"

section \<open>The watcher and the end of ffmpeg\<close>

text \<open>One event of the directory watcher: the path it is about and whether it is a CREATE.\<close>

record fs_event =
  ev_name :: string
  ev_create :: bool

text \<open>One round of the loop of \<open>watchSegments\<close>.\<close>

definition watchSegments_event :: "fs_event \<Rightarrow> os_state \<Rightarrow> session \<Rightarrow> session" where
  "watchSegments_event ev os s =
     (if \<not> ev_create ev then s
      else
        let name = filepath_Base (ev_name ev) in
        if name = ''manifest.m3u8'' then s\<lparr> manifestReady := True \<rparr>
        else if \<not> isValidSegmentName name then s
        else
          let n = parseSegmentNumber name;
              s1 = (if n > 0 then
                      let prevSegName = formatSegName (n - 1) in
                      if \<not> os_file_exists (tempDir s) prevSegName os
                      then s\<lparr> segments := segmentSet_add (n - 1) (segments s) \<rparr> else s
                    else s)
          in s1\<lparr> currentSegment := n, segmentAdded := segmentAdded s1 + 1 \<rparr>)"

text \<open>The highest segment number among the \<open>.ts\<close> files of a directory, from -1.\<close>

definition highest_segment :: "string list \<Rightarrow> int" where
  "highest_segment names =
     foldl (\<lambda>highest name.
        if \<not> has_suffix name ''.ts'' then highest
        else if parseSegmentNumber name > highest then parseSegmentNumber name else highest) (- 1) names"

text \<open>\<open>waitAndLog\<close> for the process \<open>c\<close> it read when it started, once the process has ended.\<close>

definition waitAndLog :: "ffmpeg_cmd option \<Rightarrow> bool \<Rightarrow> os_state \<Rightarrow> session \<Rightarrow> session \<times> os_state" where
  "waitAndLog c exit_ok os s =
     (case c of
        None \<Rightarrow> (s, os)
      | Some c \<Rightarrow>
        let os1 = os_kill (cmd_pid c) os in
        if \<not> exit_ok then (s, os1)
        else
          let highest = highest_segment (os_dir_files (tempDir s) os1) in
          if highest \<ge> 0 then
            (s\<lparr> segments := segmentSet_add highest (segments s), segmentAdded := segmentAdded s + 1 \<rparr>, os1)
          else (s, os1))"

section \<open>Waiting\<close>

text \<open>What can happen to a session while a function waits.\<close>

datatype wait_event =
    Deadline
  | RequestDone
  | FileWritten string   \<comment> \<open>ffmpeg opened a new file in the directory\<close>
  | Watched fs_event     \<comment> \<open>the watcher delivered an event\<close>
  | FfmpegExited bool    \<comment> \<open>the process ended, with its success\<close>

fun session_event :: "wait_event \<Rightarrow> session \<times> os_state \<Rightarrow> session \<times> os_state" where
  "session_event (FileWritten name) (s, os) =
     (s, os_update_dir (tempDir s) (\<lambda>fs. if name \<in> set fs then fs else fs @ [name]) os)"
| "session_event (Watched ev) (s, os) = (watchSegments_event ev os s, os)"
| "session_event (FfmpegExited ok) (s, os) = waitAndLog (cmd s) ok os s"
| "session_event Deadline (s, os) = (s, os)"
| "session_event RequestDone (s, os) = (s, os)"

datatype wait_outcome = Available | TimedOut | ClientGone | StillWaiting

text \<open>The wait loop of \<open>ServeSegment\<close>: re-check after every change, stop at the deadline or
  when the client has gone.\<close>

fun await_segment :: "int \<Rightarrow> wait_event list \<Rightarrow> session \<times> os_state \<Rightarrow> wait_outcome \<times> session \<times> os_state" where
  "await_segment n evs (s, os) =
     (if segmentSet_contains (segments s) n 1 then (Available, s, os)
      else case evs of
        [] \<Rightarrow> (StillWaiting, s, os)
      | Deadline # _ \<Rightarrow> (TimedOut, s, os)
      | RequestDone # _ \<Rightarrow> (ClientGone, s, os)
      | ev # evs' \<Rightarrow> await_segment n evs' (session_event ev (s, os)))"

text \<open>\<open>killAfterCurrentSegment\<close>: its loop has no request to watch, so only the deadline ends it.\<close>

fun await_current :: "int \<Rightarrow> wait_event list \<Rightarrow> session \<times> os_state \<Rightarrow> wait_outcome \<times> session \<times> os_state" where
  "await_current n evs (s, os) =
     (if segmentSet_contains (segments s) n 1 then (Available, s, os)
      else case evs of
        [] \<Rightarrow> (StillWaiting, s, os)
      | Deadline # _ \<Rightarrow> (TimedOut, s, os)
      | ev # evs' \<Rightarrow> await_current n evs' (session_event ev (s, os)))"

declare await_segment.simps [simp del] await_current.simps [simp del]

text \<open>The deadline of seven seconds always comes, so a wait that the events leave open ends
  like one that timed out.\<close>

definition killAfterCurrentSegment :: "wait_event list \<Rightarrow> session \<times> os_state \<Rightarrow> session \<times> os_state" where
  "killAfterCurrentSegment evs so =
     (let current = currentSegment (fst so);
          (outcome, s, os) = await_current current evs so;
          segmentCompleted = (outcome = Available);
          (s1, os1) = (case cmd s of
              None \<Rightarrow> (s, os)
            | Some c \<Rightarrow> (s\<lparr> cmd := None \<rparr>, os_kill (cmd_pid c) os))
      in if segmentCompleted
         then (s1, os_remove_file (tempDir s1) (formatSegName (wrap64 (current + 1))) os1)
         else (s1, os_remove_file (tempDir s1) (formatSegName current) os1))"

definition seekTo ::
  "int \<Rightarrow> wait_event list \<Rightarrow> nat option \<Rightarrow> session \<times> os_state \<Rightarrow> string option \<times> session \<times> os_state" where
  "seekTo targetSeg evs start so =
     (let (s, os) = so in
      if segmentSet_contains (segments s) targetSeg 1 then (None, s, os)
      else
        let firstMissing = targetSeg;
            (nextAvailable, hasNext) = segmentSet_firstAvailableAfter (segments s) firstMissing;
            (s1, os1) = killAfterCurrentSegment evs (s, os);
            offsetSecs = wrap64 (firstMissing * segmentDuration);
            durationSecs = (if hasNext then wrap64 ((nextAvailable - firstMissing) * segmentDuration) else 0);
            args = buildFFmpegCommand (fsPath s1) (tempDir s1) (isRemux s1) offsetSecs firstMissing durationSecs
        in (case cmd_Start args start os1 of
              (None, os2) \<Rightarrow> (Some ''restart ffmpeg'', s1, os2)
            | (Some c, os2) \<Rightarrow> (None, s1\<lparr> cmd := Some c, currentSegment := firstMissing \<rparr>, os2)))"

section \<open>Serving\<close>

datatype serve_result =
    HttpError string nat
  | NoResponse
  | ServeFile string

text \<open>The \<open>select\<close> of \<open>ServeManifest\<close>: which of its three cases is taken.\<close>

datatype manifest_select = ManifestTimeout | ManifestRequestDone | ManifestReady

definition ServeManifest :: "time \<Rightarrow> manifest_select \<Rightarrow> session \<Rightarrow> serve_result \<times> session" where
  "ServeManifest now choice s =
     (case choice of
        ManifestTimeout \<Rightarrow> (HttpError ''stream not ready'' 503, s)
      | ManifestRequestDone \<Rightarrow> (NoResponse, s)
      | ManifestReady \<Rightarrow>
          (ServeFile (filepath_Join (tempDir s) ''manifest.m3u8''), s\<lparr> lastActivity := now \<rparr>))"

definition lookaheadSegs :: "bool \<Rightarrow> int" where
  "lookaheadSegs remux =
     (let threshold = (if remux then RemuxSeekRestartThreshold else TranscodeSeekRestartThreshold)
      in threshold div second div segmentDuration)"

text \<open>The decision of \<open>proactiveGapFill\<close>: the segment to seek to, if any.\<close>

definition gapFill_target :: "int \<Rightarrow> session \<Rightarrow> int option" where
  "gapFill_target nextSeg s =
     (if segmentSet_contains (segments s) nextSeg 2 then None
      else
        let lookaheadOK1 = segmentSet_contains (segments s) nextSeg 1;
            lookaheadOK2 = segmentSet_contains (segments s) (wrap64 (nextSeg + 1)) 1;
            current = currentSegment s in
        if nextSeg \<ge> current \<and> nextSeg \<le> wrap64 (current + lookaheadSegs (isRemux s)) then None
        else if lookaheadOK1 \<and> \<not> lookaheadOK2 then Some (wrap64 (nextSeg + 1))
        else Some nextSeg)"

definition proactiveGapFill ::
  "int \<Rightarrow> wait_event list \<Rightarrow> nat option \<Rightarrow> session \<times> os_state \<Rightarrow> session \<times> os_state" where
  "proactiveGapFill nextSeg evs start so =
     (case gapFill_target nextSeg (fst so) of
        None \<Rightarrow> so
      | Some t \<Rightarrow> snd (seekTo t evs start so))"

text \<open>Whether the slow path of \<open>ServeSegment\<close> restarts ffmpeg.\<close>

definition needs_seek :: "int \<Rightarrow> session \<Rightarrow> bool" where
  "needs_seek requestedNum s \<longleftrightarrow>
     requestedNum > wrap64 (currentSegment s + lookaheadSegs (isRemux s)) \<or> requestedNum < currentSegment s"

text \<open>What happens around one request: the restart it may make and the events while it waits,
  then the gap fill it may trigger.\<close>

record serve_env =
  se_now :: time
  se_seekEvents :: "wait_event list"
  se_seekStart :: "nat option"
  se_waitEvents :: "wait_event list"
  se_gapEvents :: "wait_event list"
  se_gapStart :: "nat option"

definition ServeSegment ::
  "string \<Rightarrow> serve_env \<Rightarrow> session \<times> os_state \<Rightarrow> serve_result \<times> session \<times> os_state" where
  "ServeSegment segName env so =
     (let (s, os) = so in
      if \<not> isValidSegmentName segName then (HttpError ''invalid segment'' 400, s, os)
      else
        let requestedNum = parseSegmentNumber segName in
        if segmentSet_contains (segments s) requestedNum 1 then
          let s1 = s\<lparr> lastActivity := se_now env \<rparr> in
          (ServeFile (filepath_Join (tempDir s1) segName),
           proactiveGapFill (wrap64 (requestedNum + 1)) (se_gapEvents env) (se_gapStart env) (s1, os))
        else
          let so1 = (if needs_seek requestedNum s
                     then snd (seekTo requestedNum (se_seekEvents env) (se_seekStart env) (s, os))
                     else (s, os)) in
          (case await_segment requestedNum (se_waitEvents env) so1 of
             (Available, s2, os2) \<Rightarrow>
               let s3 = s2\<lparr> lastActivity := se_now env \<rparr> in
               (ServeFile (filepath_Join (tempDir s3) segName),
                proactiveGapFill (wrap64 (requestedNum + 1)) (se_gapEvents env) (se_gapStart env) (s3, os2))
           | (ClientGone, s2, os2) \<Rightarrow> (NoResponse, s2, os2)
           | (_, s2, os2) \<Rightarrow> (HttpError ''segment not ready'' 503, s2, os2)))"

section \<open>The idle sweeper\<close>

definition cleanupSession :: "int \<Rightarrow> session \<Rightarrow> streaming \<Rightarrow> streaming" where
  "cleanupSession i s st =
     (let os1 = (case cmd s of None \<Rightarrow> st_os st | Some c \<Rightarrow> os_kill (cmd_pid c) (st_os st));
          os2 = os_close_watcher (watcher s) os1;
          os3 = os_remove_dir (tempDir s) os2
      in st\<lparr> st_os := os3, sessions := filter (\<lambda>(j, _). j \<noteq> i) (sessions st) \<rparr>)"

definition session_idle :: "time \<Rightarrow> session \<Rightarrow> bool" where
  "session_idle now s \<longleftrightarrow> now - lastActivity s > SessionIdleTimeout"

definition sweepIdleSessions :: "streaming \<Rightarrow> streaming" where
  "sweepIdleSessions st =
     (let now = st_clock st;
          st1 = fold (\<lambda>(i, s) acc. if session_idle now s then cleanupSession i s acc else acc) (sessions st) st
      in if sessions st1 = [] \<and> dispatcherRef st1
         then st1\<lparr> st_dispatcher := Dispatcher_Resume (st_dispatcher st1) \<rparr> else st1)"

end
