(* ===== verification/StreamingProps.thy ===== *)
theory StreamingProps
  imports Streaming
begin

text \<open>
  What is proved of the streaming sessions. A request on a session leaves everything of
  other sessions alone (\<open>session_frame\<close>); from it follows that the map of sessions owns
  every process, directory and watcher (\<open>stream_inv\<close>) in every state the package can reach.
\<close>

section \<open>The frame of an operation on one session\<close>

definition pids :: "session \<Rightarrow> nat set" where
  "pids s = (case cmd s of None \<Rightarrow> {} | Some c \<Rightarrow> {cmd_pid c})"

definition session_wf :: "session \<Rightarrow> bool" where
  "session_wf s \<longleftrightarrow> segmentSet_wf (segments s) \<and> in_i64 (currentSegment s)"

text \<open>From \<open>(s, os)\<close> to \<open>(s', os')\<close> with new processes only from \<open>F\<close>.\<close>

definition session_frame :: "nat set \<Rightarrow> session \<times> os_state \<Rightarrow> session \<times> os_state \<Rightarrow> bool" where
  "session_frame F so so' \<longleftrightarrow> (case (so, so') of ((s, os), (s', os')) \<Rightarrow>
     tempDir s' = tempDir s \<and> watcher s' = watcher s \<and> itemID s' = itemID s
     \<and> fsPath s' = fsPath s \<and> isRemux s' = isRemux s
     \<and> map fst (os_dirs os') = map fst (os_dirs os) \<and> os_watchers os' = os_watchers os
     \<and> pids s' \<subseteq> pids s \<union> F
     \<and> set (os_procs os') \<subseteq> (set (os_procs os) - pids s) \<union> pids s'
     \<and> set (os_procs os) - pids s \<subseteq> set (os_procs os')
     \<and> (session_wf s \<longrightarrow> session_wf s'))"

lemma session_frame_refl [simp]: "session_frame F (s, os) (s, os)"
  by (auto simp: session_frame_def)

lemma session_frame_mono: "session_frame F so so' \<Longrightarrow> F \<subseteq> G \<Longrightarrow> session_frame G so so'"
  by (auto simp: session_frame_def)

lemma session_frame_trans:
  assumes "session_frame F so so'" and "session_frame F so' so''"
    and "F \<inter> set (os_procs (snd so)) = {}"
  shows "session_frame F so so''"
proof -
  obtain s os s' os' s'' os'' where so: "so = (s, os)" "so' = (s', os')" "so'' = (s'', os'')"
    by (metis surj_pair)
  have f1: "pids s' \<subseteq> pids s \<union> F" "set (os_procs os') \<subseteq> (set (os_procs os) - pids s) \<union> pids s'"
    "set (os_procs os) - pids s \<subseteq> set (os_procs os')"
    using assms(1) unfolding so by (simp_all add: session_frame_def)
  have f2: "pids s'' \<subseteq> pids s' \<union> F" "set (os_procs os'') \<subseteq> (set (os_procs os') - pids s') \<union> pids s''"
    "set (os_procs os') - pids s' \<subseteq> set (os_procs os'')"
    using assms(2) unfolding so by (simp_all add: session_frame_def)
  have "F \<inter> set (os_procs os) = {}" using assms(3) so by simp
  then have "set (os_procs os) - pids s \<subseteq> set (os_procs os'')" using f1 f2 by blast
  moreover have "set (os_procs os'') \<subseteq> (set (os_procs os) - pids s) \<union> pids s''" using f1 f2 by blast
  moreover have "pids s'' \<subseteq> pids s \<union> F" using f1 f2 by blast
  ultimately show ?thesis using assms(1,2) unfolding so session_frame_def by auto
qed

lemma os_update_dir_simps [simp]:
  "map fst (os_dirs (os_update_dir d f os)) = map fst (os_dirs os)"
  "os_watchers (os_update_dir d f os) = os_watchers os"
  "os_procs (os_update_dir d f os) = os_procs os"
  by (auto simp: os_update_dir_def)

lemma os_remove_file_simps [simp]:
  "map fst (os_dirs (os_remove_file d n os)) = map fst (os_dirs os)"
  "os_watchers (os_remove_file d n os) = os_watchers os"
  "os_procs (os_remove_file d n os) = os_procs os"
  by (simp_all add: os_remove_file_def)

lemma os_kill_simps [simp]:
  "os_dirs (os_kill p os) = os_dirs os" "os_watchers (os_kill p os) = os_watchers os"
  "set (os_procs (os_kill p os)) = set (os_procs os) - {p}"
  by (auto simp: os_kill_def)

lemma frame_file_written [simp]:
  "session_frame F (s, os) (s, os_update_dir d f os)"
  "session_frame F (s, os) (s, os_remove_file d n os)"
  by (auto simp: session_frame_def)

lemma watchSegments_event_wf:
  assumes "session_wf s"
  shows "session_wf (watchSegments_event ev os s)"
proof -
  have "segmentSet_wf (segmentSet_add (n - 1) (segments s))" if "0 < n" "in_i64 n" for n
    using seg.add_inv [of "segments s" "n - 1"] assms that by (simp add: session_wf_def in_i64_def)
  then show ?thesis
    using assms valid_segment_number [of "filepath_Base (ev_name ev)"]
    by (auto simp: watchSegments_event_def Let_def session_wf_def)
qed

lemma frame_watch [simp]: "session_frame F (s, os) (watchSegments_event ev os s, os)"
proof -
  have "session_wf s \<longrightarrow> session_wf (watchSegments_event ev os s)"
    by (simp add: watchSegments_event_wf)
  then show ?thesis by (auto simp: session_frame_def watchSegments_event_def Let_def pids_def)
qed

lemma highest_segment_range:
  "h = - 1 \<or> in_i64 h \<Longrightarrow> h \<ge> - 1 \<Longrightarrow>
    (let r = foldl (\<lambda>highest name.
        if \<not> has_suffix name ''.ts'' then highest
        else if parseSegmentNumber name > highest then parseSegmentNumber name else highest) h names
     in r \<ge> - 1 \<and> (r = - 1 \<or> in_i64 r))"
proof (induction names arbitrary: h)
  case (Cons a names)
  have "in_i64 (parseSegmentNumber a)"
    by (auto simp: parseSegmentNumber_def strconv_Atoi_def strconv_ParseUint_def Let_def in_i64_def
        split: option.splits num_error.splits sum.splits prod.splits dest!: parse_uint_loop_Inr)
  then show ?case using Cons by (auto simp: Let_def)
qed (simp add: Let_def)

lemma waitAndLog_frame: "session_frame F (s, os) (waitAndLog (cmd s) ok os s)"
proof (cases "cmd s")
  case None
  then show ?thesis by (simp add: waitAndLog_def)
next
  case (Some c)
  have "in_i64 (highest_segment names) \<or> highest_segment names = - 1" for names
    using highest_segment_range [of "- 1" names] by (auto simp: highest_segment_def Let_def)
  then have wf: "session_wf s \<Longrightarrow> 0 \<le> highest_segment names \<Longrightarrow>
      segmentSet_wf (segmentSet_add (highest_segment names) (segments s))" for names
    using seg.add_inv by (fastforce simp: session_wf_def)
  then show ?thesis using Some
    by (auto simp: waitAndLog_def session_frame_def Let_def pids_def session_wf_def)
qed

lemma session_event_frame: "session_frame F (s, os) (session_event ev (s, os))"
  by (cases ev) (simp_all add: waitAndLog_frame)

lemma empty_frame_step:
  assumes "session_frame {} (s, os) (session_event ev (s, os))"
    and "session_frame {} (session_event ev (s, os)) so''"
  shows "session_frame {} (s, os) so''"
  by (rule session_frame_trans [OF assms]) simp

lemma await_segment_frame: "session_frame {} so (snd (await_segment n evs so))"
proof (induction evs arbitrary: so)
  case Nil
  show ?case by (cases so) (simp add: await_segment.simps)
next
  case (Cons ev evs)
  obtain s os where so: "so = (s, os)" by (cases so)
  have "session_frame {} (s, os) (snd (await_segment n evs (session_event ev (s, os))))"
    by (rule empty_frame_step [OF session_event_frame Cons.IH])
  then show ?case unfolding so
    by (subst await_segment.simps) (auto split: wait_event.split)
qed

lemma await_current_frame: "session_frame {} so (snd (await_current n evs so))"
proof (induction evs arbitrary: so)
  case Nil
  show ?case by (cases so) (simp add: await_current.simps)
next
  case (Cons ev evs)
  obtain s os where so: "so = (s, os)" by (cases so)
  have "session_frame {} (s, os) (snd (await_current n evs (session_event ev (s, os))))"
    by (rule empty_frame_step [OF session_event_frame Cons.IH])
  then show ?case unfolding so
    by (subst await_current.simps) (auto split: wait_event.split)
qed

lemma killAfterCurrentSegment_frame:
  "session_frame {} so (killAfterCurrentSegment evs so)"
  "cmd (fst (killAfterCurrentSegment evs so)) = None"
proof -
  obtain out s os where w: "await_current (currentSegment (fst so)) evs so = (out, s, os)"
    by (metis surj_pair)
  have fr: "session_frame {} so (s, os)" using await_current_frame [of so _ evs] w by (metis snd_conv)
  have kill: "session_frame {} (s, os) (s\<lparr>cmd := None\<rparr>, os_kill (cmd_pid c) os)"
    if "cmd s = Some c" for c
    using that by (auto simp: session_frame_def pids_def session_wf_def)
  show "session_frame {} so (killAfterCurrentSegment evs so)"
  proof (cases "cmd s")
    case None
    have "session_frame {} so (s, os_remove_file d n os)" for d n
      by (rule session_frame_trans [OF fr]) simp_all
    then show ?thesis using w None by (simp add: killAfterCurrentSegment_def Let_def)
  next
    case (Some c)
    have "session_frame {} so (s\<lparr>cmd := None\<rparr>, os_remove_file d n (os_kill (cmd_pid c) os))" for d n
      by (rule session_frame_trans [OF session_frame_trans [OF fr kill [OF Some]]]) simp_all
    then show ?thesis using w Some by (simp add: killAfterCurrentSegment_def Let_def)
  qed
  show "cmd (fst (killAfterCurrentSegment evs so)) = None"
    using w by (simp add: killAfterCurrentSegment_def Let_def split: option.split)
qed

definition opt_set :: "'a option \<Rightarrow> 'a set" where
  "opt_set x = (case x of None \<Rightarrow> {} | Some a \<Rightarrow> {a})"

lemma opt_set_simps [simp]: "opt_set None = {}" "opt_set (Some a) = {a}"
  by (simp_all add: opt_set_def)

lemma cmd_Start_frame:
  assumes "cmd_Start args start os = (c, os')" and "cmd s = None" and "in_i64 n"
    and "opt_set start \<inter> set (os_procs os) = {}"
  shows "session_frame (opt_set start) (s, os)
    (case c of None \<Rightarrow> (s, os') | Some c \<Rightarrow> (s\<lparr>cmd := Some c, currentSegment := n\<rparr>, os'))"
  using assms by (auto simp: cmd_Start_def session_frame_def pids_def session_wf_def split: option.splits)

lemma seekTo_frame:
  assumes "in_i64 t" and fresh: "opt_set start \<inter> set (os_procs (snd so)) = {}"
  shows "session_frame (opt_set start) so (snd (seekTo t evs start so))"
proof -
  obtain s os where so: "so = (s, os)" by (cases so)
  show ?thesis
  proof (cases "segmentSet_contains (segments s) t 1")
    case True
    then show ?thesis by (simp add: so seekTo_def)
  next
    case False
    obtain next_seg has where nx: "segmentSet_firstAvailableAfter (segments s) t = (next_seg, has)"
      by (metis surj_pair)
    obtain s1 os1 where k: "killAfterCurrentSegment evs (s, os) = (s1, os1)" by (metis surj_pair)
    have fr: "session_frame {} (s, os) (s1, os1)" and none: "cmd s1 = None"
      using killAfterCurrentSegment_frame [where so = "(s, os)" and evs = evs] k by simp_all
    then have fresh1: "opt_set start \<inter> set (os_procs os1) = {}"
      using fresh so by (auto simp: session_frame_def pids_def)
    obtain args c os2 where start: "cmd_Start args start os1 = (c, os2)"
      and eq: "snd (seekTo t evs start (s, os)) =
        (case c of None \<Rightarrow> (s1, os2) | Some c \<Rightarrow> (s1\<lparr>cmd := Some c, currentSegment := t\<rparr>, os2))"
      using False nx k by (fastforce simp: seekTo_def Let_def split: prod.splits option.splits)
    show ?thesis unfolding so eq
      by (rule session_frame_trans [OF session_frame_mono [OF fr] cmd_Start_frame
            [OF start none assms(1) fresh1]]) (use fresh so in simp_all)
  qed
qed

lemma gapFill_target_i64: "in_i64 n \<Longrightarrow> gapFill_target n s = Some t \<Longrightarrow> in_i64 t"
  by (auto simp: gapFill_target_def Let_def split: if_splits)

lemma proactiveGapFill_frame:
  assumes "in_i64 n" and "opt_set start \<inter> set (os_procs (snd so)) = {}"
  shows "session_frame (opt_set start) so (proactiveGapFill n evs start so)"
proof (cases "gapFill_target n (fst so)")
  case None
  then show ?thesis by (cases so) (simp add: proactiveGapFill_def)
next
  case (Some t)
  then show ?thesis
    using seekTo_frame [OF gapFill_target_i64 [OF assms(1) Some] assms(2)]
    by (simp add: proactiveGapFill_def)
qed

text \<open>The processes a request may start are new and distinct.\<close>

definition fresh_serve :: "serve_env \<Rightarrow> nat set \<Rightarrow> bool" where
  "fresh_serve env used \<longleftrightarrow> opt_set (se_seekStart env) \<inter> used = {} \<and> opt_set (se_gapStart env) \<inter> used = {}
     \<and> opt_set (se_seekStart env) \<inter> opt_set (se_gapStart env) = {}"

lemma frame_procs_in:
  "session_frame F (s, os) (s', os') \<Longrightarrow> set (os_procs os') \<subseteq> set (os_procs os) \<union> pids s' \<and> pids s' \<subseteq> pids s \<union> F"
  by (auto simp: session_frame_def)

lemma frame_serve_fast:
  assumes "session_frame F (s, os) (s', os')"
  shows "session_frame F (s, os) (s'\<lparr>lastActivity := t\<rparr>, os')"
  using assms by (auto simp: session_frame_def pids_def session_wf_def)

lemma ServeSegment_frame:
  assumes fresh: "fresh_serve env (pids s \<union> set (os_procs os))"
  shows "session_frame (opt_set (se_seekStart env) \<union> opt_set (se_gapStart env)) (s, os)
    (snd (ServeSegment name env (s, os)))" (is "session_frame ?F _ _")
proof (cases "isValidSegmentName name")
  case False
  then show ?thesis by (simp add: ServeSegment_def)
next
  case True
  define n where "n = parseSegmentNumber name"
  have i64: "in_i64 n" using valid_segment_number [OF True] by (simp add: n_def)
  have F: "?F \<inter> set (os_procs os) = {}" using fresh by (auto simp: fresh_serve_def)
  have gap: "session_frame ?F (s, os)
      (proactiveGapFill (wrap64 (n + 1)) evs (se_gapStart env) (s2\<lparr>lastActivity := t\<rparr>, os2))"
    if fr: "session_frame (opt_set (se_seekStart env)) (s, os) (s2, os2)" for s2 os2 t evs
  proof -
    have "opt_set (se_gapStart env) \<inter> set (os_procs os2) = {}"
      using frame_procs_in [OF fr] fresh unfolding fresh_serve_def by blast
    then have "session_frame (opt_set (se_gapStart env)) (s2\<lparr>lastActivity := t\<rparr>, os2)
        (proactiveGapFill (wrap64 (n + 1)) evs (se_gapStart env) (s2\<lparr>lastActivity := t\<rparr>, os2))"
      by (intro proactiveGapFill_frame) simp_all
    from session_frame_trans [OF session_frame_mono [OF frame_serve_fast [OF fr]]
        session_frame_mono [OF this], of ?F] show ?thesis using F by auto
  qed
  show ?thesis
  proof (cases "segmentSet_contains (segments s) n 1")
    case True
    then show ?thesis
      using gap [OF session_frame_refl] \<open>isValidSegmentName name\<close>
      by (simp add: ServeSegment_def Let_def flip: n_def)
  next
    case False
    define so1 where "so1 = (if needs_seek n s
        then snd (seekTo n (se_seekEvents env) (se_seekStart env) (s, os)) else (s, os))"
    have "session_frame (opt_set (se_seekStart env)) (s, os) so1"
      using seekTo_frame [OF i64, of "se_seekStart env" "(s, os)"] fresh
      by (auto simp: so1_def fresh_serve_def)
    moreover obtain out s2 os2 where w: "await_segment n (se_waitEvents env) so1 = (out, s2, os2)"
      by (metis surj_pair)
    then have "session_frame {} so1 (s2, os2)" using await_segment_frame [of so1 n] by (metis snd_conv)
    ultimately have fr: "session_frame (opt_set (se_seekStart env)) (s, os) (s2, os2)"
      using session_frame_trans [OF _ session_frame_mono] fresh
      by (metis fresh_serve_def empty_subsetI inf_sup_distrib1 snd_conv sup_eq_bot_iff)
    have "snd (ServeSegment name env (s, os)) =
        (if out = Available then proactiveGapFill (wrap64 (n + 1)) (se_gapEvents env) (se_gapStart env)
            (s2\<lparr>lastActivity := se_now env\<rparr>, os2) else (s2, os2))"
      using True False w
      by (cases out) (simp_all add: ServeSegment_def Let_def flip: n_def so1_def)
    then show ?thesis using gap [OF fr] session_frame_mono [OF fr] by auto
  qed
qed

section \<open>The system\<close>

text \<open>What the package does over time: sessions are opened, requests served, events delivered,
  the sweeper runs, the clock advances. New names and processes are fresh.\<close>

definition used_pids :: "streaming \<Rightarrow> nat set" where
  "used_pids st = set (os_procs (st_os st)) \<union> (\<Union>(i, s) \<in> set (sessions st). pids s)"

definition fresh_env :: "open_env \<Rightarrow> streaming \<Rightarrow> bool" where
  "fresh_env env st \<longleftrightarrow> opt_set (env_tempDir env) \<inter> set (map fst (os_dirs (st_os st))) = {}
     \<and> opt_set (env_watcher env) \<inter> set (os_watchers (st_os st)) = {}
     \<and> opt_set (env_start env) \<inter> used_pids st = {}"

definition with_session :: "int \<Rightarrow> session \<times> os_state \<Rightarrow> streaming \<Rightarrow> streaming" where
  "with_session i so st = put_session i (fst so) (st\<lparr> st_os := snd so \<rparr>)"

inductive stream_step :: "streaming \<Rightarrow> streaming \<Rightarrow> bool" where
  step_open: "fresh_env env st \<Longrightarrow>
    stream_step st (snd (GetOrCreateSession i bitrate path threshold env st))"
| step_serve: "map_of (sessions st) i = Some s \<Longrightarrow> fresh_serve env (used_pids st) \<Longrightarrow>
    stream_step st (with_session i (snd (ServeSegment name env (s, st_os st))) st)"
| step_manifest: "map_of (sessions st) i = Some s \<Longrightarrow>
    stream_step st (with_session i (snd (ServeManifest (st_clock st) choice s), st_os st) st)"
| step_event: "map_of (sessions st) i = Some s \<Longrightarrow>
    stream_step st (with_session i (session_event ev (s, st_os st)) st)"
| step_sweep: "stream_step st (sweepIdleSessions st)"
| step_tick: "st_clock st \<le> t \<Longrightarrow> stream_step st (st\<lparr> st_clock := t \<rparr>)"

definition stream_init :: "time \<Rightarrow> pause_gate \<Rightarrow> streaming" where
  "stream_init now d = \<lparr> st_clock = now, sessions = [], dispatcherRef = False, st_dispatcher = d,
     st_os = \<lparr> os_procs = [], os_dirs = [], os_watchers = [] \<rparr> \<rparr>"

inductive stream_reachable :: "streaming \<Rightarrow> bool" where
  reach_init: "stream_reachable (stream_init now d)"
| reach_step: "stream_reachable st \<Longrightarrow> stream_step st st' \<Longrightarrow> stream_reachable st'"

inductive_cases stream_stepE: "stream_step st st'"

section \<open>The map of sessions owns its resources\<close>

definition owns :: "(int \<times> session) list \<Rightarrow> os_state \<Rightarrow> bool" where
  "owns ss os \<longleftrightarrow> set (os_procs os) \<subseteq> (\<Union>(i, s) \<in> set ss. pids s)
     \<and> set (map fst (os_dirs os)) = (\<lambda>(i, s). tempDir s) ` set ss
     \<and> set (os_watchers os) = (\<lambda>(i, s). watcher s) ` set ss"

definition apart :: "session \<Rightarrow> session \<Rightarrow> bool" where
  "apart s t \<longleftrightarrow> tempDir s \<noteq> tempDir t \<and> watcher s \<noteq> watcher t \<and> pids s \<inter> pids t = {}"

lemma apart_sym: "apart s t \<longleftrightarrow> apart t s"
  by (auto simp: apart_def)

definition separate :: "(int \<times> session) list \<Rightarrow> bool" where
  "separate ss \<longleftrightarrow> distinct (map fst ss)
     \<and> (\<forall>(i, s) \<in> set ss. itemID s = i \<and> session_wf s
        \<and> (\<forall>(j, t) \<in> set ss. i \<noteq> j \<longrightarrow> apart s t))"

definition stream_inv :: "streaming \<Rightarrow> bool" where
  "stream_inv st \<longleftrightarrow> separate (sessions st) \<and> owns (sessions st) (st_os st)
     \<and> (sessions st \<noteq> [] \<longrightarrow> paused (st_dispatcher st) \<and> dispatcherRef st)"

lemma put_session_simps [simp]:
  "st_os (put_session i s st) = st_os st" "st_clock (put_session i s st) = st_clock st"
  "dispatcherRef (put_session i s st) = dispatcherRef st"
  "st_dispatcher (put_session i s st) = st_dispatcher st"
  by (simp_all add: put_session_def)

lemma map_fst_replace: "map fst (map (\<lambda>(j, t). if j = i then (j, x) else (j, t)) xs) = map fst xs"
  by (induction xs) auto

lemma set_replace:
  "i \<in> fst ` set xs \<Longrightarrow> set (map (\<lambda>(j, t). if j = i then (j, x) else (j, t)) xs) =
    insert (i, x) {(j, t) \<in> set xs. j \<noteq> i}"
  by (fastforce simp: image_iff split: if_splits intro: rev_bexI)

lemma map_of_replace:
  "i \<in> fst ` set xs \<Longrightarrow> map_of (map (\<lambda>(j, t). if j = i then (j, x) else (j, t)) xs) i = Some x"
  by (induction xs) auto

lemma sessions_put:
  assumes "map_of (sessions st) i = Some s"
  shows "map fst (sessions (put_session i s' st)) = map fst (sessions st)
    \<and> set (sessions (put_session i s' st)) = insert (i, s') {(j, t) \<in> set (sessions st). j \<noteq> i}"
proof -
  have "i \<in> fst ` set (sessions st)" using map_of_SomeD [OF assms] by force
  moreover from this have "sessions (put_session i s' st) =
      map (\<lambda>(j, t). if j = i then (j, s') else (j, t)) (sessions st)"
    by (simp add: put_session_def)
  ultimately show ?thesis by (simp only: map_fst_replace set_replace simp_thms)
qed

lemma sessions_put_new:
  "map_of (sessions st) i = None \<Longrightarrow> sessions (put_session i s st) = sessions st @ [(i, s)]"
  by (simp add: put_session_def map_of_eq_None_iff)

lemma image_replace:
  assumes "(i, s) \<in> A" and "\<And>t. (i, t) \<in> A \<Longrightarrow> t = s" and "f s' = f s"
  shows "(\<lambda>(i, s). f s) ` insert (i, s') {(j, t) \<in> A. j \<noteq> i} = (\<lambda>(i, s). f s) ` A"
proof
  show "(\<lambda>(i, s). f s) ` insert (i, s') {(j, t) \<in> A. j \<noteq> i} \<subseteq> (\<lambda>(i, s). f s) ` A"
    using assms(1,3) by force
  show "(\<lambda>(i, s). f s) ` A \<subseteq> (\<lambda>(i, s). f s) ` insert (i, s') {(j, t) \<in> A. j \<noteq> i}"
  proof clarify
    fix j t assume "(j, t) \<in> A"
    then show "f t \<in> (\<lambda>(i, s). f s) ` insert (i, s') {(j, t) \<in> A. j \<noteq> i}"
      using assms(2) [of t] assms(3) by (cases "j = i") (auto intro: rev_image_eqI)
  qed
qed

text \<open>An operation on one session keeps the invariant.\<close>

lemma with_session_inv:
  assumes inv: "stream_inv st" and s: "map_of (sessions st) i = Some s"
    and frame: "session_frame F (s, st_os st) so'" and fresh: "F \<inter> used_pids st = {}"
  shows "stream_inv (with_session i so' st)"
proof -
  obtain s' os' where so': "so' = (s', os')" by (cases so')
  define st1 where "st1 = st\<lparr>st_os := os'\<rparr>"
  have dist: "distinct (map fst (sessions st))" using inv by (auto simp: stream_inv_def separate_def)
  have mem: "(i, s) \<in> set (sessions st)" by (rule map_of_SomeD [OF s])
  have put: "map fst (sessions (put_session i s' st1)) = map fst (sessions st)"
    "set (sessions (put_session i s' st1)) = insert (i, s') {(j, t) \<in> set (sessions st). j \<noteq> i}"
    using sessions_put [of st1 i s s'] s by (simp_all add: st1_def)
  have uniq: "t = s" if "(i, t) \<in> set (sessions st)" for t
    using that mem dist by (metis map_of_is_SomeI option.inject)
  note fr = frame [unfolded so' session_frame_def, simplified]
  have sep: "separate (sessions st)" and own: "owns (sessions st) (st_os st)"
    using inv by (simp_all add: stream_inv_def)
  have own': "set (os_procs (st_os st)) \<subseteq> (\<Union>(i, s) \<in> set (sessions st). pids s)"
    "set (map fst (os_dirs (st_os st))) = (\<lambda>(i, s). tempDir s) ` set (sessions st)"
    "set (os_watchers (st_os st)) = (\<lambda>(i, s). watcher s) ` set (sessions st)"
    using own by (simp_all add: owns_def)
  have fresh_t: "F \<inter> pids t = {}" if "(j, t) \<in> set (sessions st)" for j t
    using fresh that by (auto simp: used_pids_def)
  have disj: "pids s' \<inter> pids t = {}" if "(j, t) \<in> set (sessions st)" "j \<noteq> i" for j t
  proof -
    have "apart s t" using sep mem that by (auto simp: separate_def)
    then have "pids s \<inter> pids t = {}" by (simp add: apart_def)
    then show ?thesis using fr fresh_t [OF that(1)] by blast
  qed
  have "separate (sessions (put_session i s' st1))"
  proof -
    have wf: "itemID s' = i" "session_wf s'" using sep mem fr by (auto simp: separate_def)
    have old: "itemID t = j \<and> session_wf t" if "(j, t) \<in> set (sessions st)" for j t
      using sep that by (auto simp: separate_def)
    have ap: "apart t u"
      if "(j, t) \<in> set (sessions st)" "(k, u) \<in> set (sessions st)" "j \<noteq> k" for j t k u
      using sep that by (auto simp: separate_def)
    have ap': "apart s' t \<and> apart t s'" if "(j, t) \<in> set (sessions st)" "j \<noteq> i" for j t
      using ap [OF mem that(1)] that fr disj [OF that] apart_sym by (auto simp: apart_def)
    show ?thesis unfolding separate_def put
      using dist wf old ap ap' by auto
  qed
  moreover have "owns (sessions (put_session i s' st1)) os'"
  proof -
    have p: "set (os_procs os') \<subseteq> (\<Union>(i, s) \<in> set (sessions (put_session i s' st1)). pids s)"
    proof
      fix x assume x: "x \<in> set (os_procs os')"
      show "x \<in> (\<Union>(i, s) \<in> set (sessions (put_session i s' st1)). pids s)"
      proof (cases "x \<in> pids s'")
        case False
        then have "x \<in> set (os_procs (st_os st)) - pids s" using x fr by blast
        then obtain j t where "(j, t) \<in> set (sessions st)" "x \<in> pids t" "x \<notin> pids s"
          using own'(1) by auto
        then show ?thesis using uniq unfolding put(2) by fastforce
      qed (use put(2) in auto)
    qed
    have "(\<lambda>(i, s). tempDir s) ` set (sessions (put_session i s' st1)) = (\<lambda>(i, s). tempDir s) ` set (sessions st)"
      "(\<lambda>(i, s). watcher s) ` set (sessions (put_session i s' st1)) = (\<lambda>(i, s). watcher s) ` set (sessions st)"
      unfolding put(2) by (rule image_replace [OF mem uniq]; use fr in simp)+
    then show ?thesis using p own'(2,3) fr by (simp add: owns_def flip: set_map)
  qed
  ultimately show ?thesis
    using inv put(1) by (auto simp: stream_inv_def with_session_def so' st1_def)
qed

section \<open>Opening a session\<close>

lemma removeAll_fresh: "d \<notin> set (map fst xs) \<Longrightarrow> filter (\<lambda>(d', _). d' \<noteq> d) xs = xs"
  by (auto simp: filter_id_conv image_iff)

text \<open>The directory and the watcher that a failed attempt created are gone again.\<close>

lemma undo_dir:
  assumes "d \<notin> set (map fst (os_dirs os))"
  shows "os_remove_dir d (os\<lparr> os_dirs := (d, fs) # os_dirs os \<rparr>) = os"
  using removeAll_fresh [OF assms] by (simp add: os_remove_dir_def)

lemma undo_watcher:
  assumes "d \<notin> set (map fst (os_dirs os))" and "w \<notin> set (os_watchers os)"
  shows "os_remove_dir d (os_close_watcher w (os\<lparr> os_dirs := (d, fs) # os_dirs os, os_watchers := w # os_watchers os \<rparr>)) = os"
  using removeAll_fresh [OF assms(1)] assms(2)
  by (simp add: os_remove_dir_def os_close_watcher_def)

lemma GetOrCreateSession_error:
  assumes "fresh_env env st" and "GetOrCreateSession i b path th env st = (Inl e, st')"
  shows "st' = st"
  using assms
  by (auto simp: GetOrCreateSession_def Let_def cmd_Start_def fresh_env_def undo_dir undo_watcher
      split: option.splits if_splits)

lemma GetOrCreateSession_existing:
  assumes "map_of (sessions st) i = Some s"
  shows "GetOrCreateSession i b path th env st =
    (Inr (s\<lparr>lastActivity := st_clock st\<rparr>), put_session i (s\<lparr>lastActivity := st_clock st\<rparr>) st)"
  using assms by (simp add: GetOrCreateSession_def Let_def)

lemma GetOrCreateSession_new:
  assumes "map_of (sessions st) i = None" and "GetOrCreateSession i b path th env st = (Inr s, st')"
  obtains dir w p where "env_tempDir env = Some dir" and "env_watcher env = Some w" and "env_start env = Some p"
    and "s = \<lparr> lastActivity = st_clock st, watcher = w,
        cmd = Some \<lparr> cmd_args = buildFFmpegCommand path dir (case b of None \<Rightarrow> False | Some b \<Rightarrow> b \<le> th) 0 0 0,
                     cmd_pid = p \<rparr>,
        manifestReady = False, segmentAdded = 0, tempDir = dir, fsPath = path, segments = segmentSet_empty,
        currentSegment = 0, itemID = i, isRemux = (case b of None \<Rightarrow> False | Some b \<Rightarrow> b \<le> th) \<rparr>"
    and "sessions st' = sessions st @ [(i, s)]"
    and "st_os st' = \<lparr> os_procs = p # os_procs (st_os st), os_dirs = (dir, []) # os_dirs (st_os st),
                      os_watchers = w # os_watchers (st_os st) \<rparr>"
    and "st_dispatcher st' = Dispatcher_Pause (st_dispatcher st)" and "dispatcherRef st'"
    and "st_clock st' = st_clock st"
proof -
  have put: "sessions (put_session i s (st\<lparr>st_os := os\<rparr>)) = sessions st @ [(i, s)]" for s os
    using assms(1) by (simp add: sessions_put_new)
  show thesis
    using assms(2) unfolding GetOrCreateSession_def assms(1)
    by (auto simp: Let_def cmd_Start_def put split: option.splits if_splits intro!: that)
qed

lemma stream_inv_open:
  assumes inv: "stream_inv st" and fresh: "fresh_env env st"
  shows "stream_inv (snd (GetOrCreateSession i b path th env st))"
proof (cases "map_of (sessions st) i")
  case (Some s)
  have "session_frame {} (s, st_os st) (s\<lparr>lastActivity := st_clock st\<rparr>, st_os st)"
    by (rule frame_serve_fast) simp
  from with_session_inv [OF inv Some this] show ?thesis
    by (simp add: GetOrCreateSession_existing [OF Some] with_session_def)
next
  case None
  obtain r st' where eq: "GetOrCreateSession i b path th env st = (r, st')" by (metis surj_pair)
  show ?thesis
  proof (cases r)
    case (Inl e)
    then show ?thesis using GetOrCreateSession_error [OF fresh eq [unfolded Inl]] eq inv by simp
  next
    case (Inr s)
    from GetOrCreateSession_new [OF None eq [unfolded Inr]]
    obtain dir w p where e: "env_tempDir env = Some dir" "env_watcher env = Some w" "env_start env = Some p"
      and s: "tempDir s = dir" "watcher s = w" "pids s = {p}" "itemID s = i"
        "segments s = segmentSet_empty" "currentSegment s = 0"
      and ss: "sessions st' = sessions st @ [(i, s)]"
      and os: "st_os st' = \<lparr> os_procs = p # os_procs (st_os st), os_dirs = (dir, []) # os_dirs (st_os st),
                      os_watchers = w # os_watchers (st_os st) \<rparr>"
      and d: "paused (st_dispatcher st')" "dispatcherRef st'"
      by (rule) (simp add: pids_def)
    have wf: "session_wf s" using s(5,6) seg.empty_inv by (simp add: session_wf_def in_i64_def)
    have old: "tempDir t \<noteq> dir \<and> watcher t \<noteq> w \<and> p \<notin> pids t" if "(j, t) \<in> set (sessions st)" for j t
      using fresh inv that e by (force simp: fresh_env_def stream_inv_def owns_def used_pids_def)
    have ap: "apart s t \<and> apart t s" if "(j, t) \<in> set (sessions st)" for j t
      using old [OF that] s by (auto simp: apart_def)
    have i: "i \<notin> fst ` set (sessions st)" using None by (simp add: map_of_eq_None_iff)
    have "separate (sessions st')"
      using inv s wf ap i unfolding ss stream_inv_def separate_def by auto
    moreover have "owns (sessions st') (st_os st')"
      using inv s by (auto simp: owns_def ss os stream_inv_def)
    ultimately show ?thesis using d eq by (simp add: stream_inv_def)
  qed
qed

section \<open>The sweep\<close>

definition sweep_one :: "time \<Rightarrow> int \<times> session \<Rightarrow> streaming \<Rightarrow> streaming" where
  "sweep_one now = (\<lambda>(i, s) acc. if session_idle now s then cleanupSession i s acc else acc)"

lemma cleanupSession_simps [simp]:
  "sessions (cleanupSession i s st) = filter (\<lambda>(j, _). j \<noteq> i) (sessions st)"
  "set (os_procs (st_os (cleanupSession i s st))) = set (os_procs (st_os st)) - pids s"
  "os_dirs (st_os (cleanupSession i s st)) = filter (\<lambda>(d, _). d \<noteq> tempDir s) (os_dirs (st_os st))"
  "os_watchers (st_os (cleanupSession i s st)) = removeAll (watcher s) (os_watchers (st_os st))"
  "st_clock (cleanupSession i s st) = st_clock st" "dispatcherRef (cleanupSession i s st) = dispatcherRef st"
  "st_dispatcher (cleanupSession i s st) = st_dispatcher st"
  by (auto simp: cleanupSession_def Let_def os_kill_def os_close_watcher_def os_remove_dir_def pids_def
      split: option.split)

definition gone :: "time \<Rightarrow> (int \<times> session) list \<Rightarrow> (int \<times> session) list" where
  "gone now xs = filter (\<lambda>p. session_idle now (snd p)) xs"

lemma sweep_fold:
  "sessions (fold (sweep_one now) xs st) = filter (\<lambda>p. fst p \<notin> fst ` set (gone now xs)) (sessions st)"
  "set (os_procs (st_os (fold (sweep_one now) xs st))) =
    set (os_procs (st_os st)) - (\<Union>p \<in> set (gone now xs). pids (snd p))"
  "os_dirs (st_os (fold (sweep_one now) xs st)) =
    filter (\<lambda>d. fst d \<notin> (tempDir \<circ> snd) ` set (gone now xs)) (os_dirs (st_os st))"
  "set (os_watchers (st_os (fold (sweep_one now) xs st))) =
    set (os_watchers (st_os st)) - (watcher \<circ> snd) ` set (gone now xs)"
  "st_clock (fold (sweep_one now) xs st) = st_clock st"
  "dispatcherRef (fold (sweep_one now) xs st) = dispatcherRef st"
  "st_dispatcher (fold (sweep_one now) xs st) = st_dispatcher st"
  by (induction xs arbitrary: st)
    (auto simp: sweep_one_def gone_def split_beta intro!: filter_cong)

lemma sweepIdleSessions_fold:
  "sweepIdleSessions st = (let st1 = fold (sweep_one (st_clock st)) (sessions st) st
     in if sessions st1 = [] \<and> dispatcherRef st1
        then st1\<lparr> st_dispatcher := Dispatcher_Resume (st_dispatcher st1) \<rparr> else st1)"
  by (simp add: sweepIdleSessions_def sweep_one_def Let_def)

text \<open>With distinct keys the sweep keeps exactly the entries that are not idle.\<close>

lemma sweep_sessions:
  assumes "distinct (map fst (sessions st))"
  shows "sessions (sweepIdleSessions st) = filter (\<lambda>p. \<not> session_idle (st_clock st) (snd p)) (sessions st)"
proof -
  let ?gone = "gone (st_clock st) (sessions st)"
  have "sessions (sweepIdleSessions st) = filter (\<lambda>p. fst p \<notin> fst ` set ?gone) (sessions st)"
    using sweep_fold(1) [of "st_clock st" "sessions st" st]
    by (simp add: sweepIdleSessions_fold Let_def)
  also have "\<dots> = filter (\<lambda>p. \<not> session_idle (st_clock st) (snd p)) (sessions st)"
  proof (rule filter_cong [OF refl])
    fix x assume x: "x \<in> set (sessions st)"
    have "y = x" if "y \<in> set (sessions st)" "fst y = fst x" for y
      using that x assms by (auto simp: distinct_map dest: inj_onD)
    then show "(fst x \<notin> fst ` set ?gone) = (\<not> session_idle (st_clock st) (snd x))"
      using x by (force simp: gone_def)
  qed
  finally show ?thesis .
qed

lemma image_kept:
  assumes "\<And>p q. p \<in> S \<Longrightarrow> q \<in> S \<Longrightarrow> P q \<Longrightarrow> \<not> P p \<Longrightarrow> f p \<noteq> f q"
  shows "f ` S - f ` {q \<in> S. P q} = f ` {q \<in> S. \<not> P q}"
proof
  show "f ` S - f ` {q \<in> S. P q} \<subseteq> f ` {q \<in> S. \<not> P q}" by auto
  show "f ` {q \<in> S. \<not> P q} \<subseteq> f ` S - f ` {q \<in> S. P q}"
  proof clarify
    fix p assume p: "p \<in> S" "\<not> P p"
    then have "f p \<notin> f ` {q \<in> S. P q}" using assms by auto
    then show "f p \<in> f ` S - f ` {q \<in> S. P q}" using p by simp
  qed
qed

lemma stream_inv_sweep:
  assumes inv: "stream_inv st"
  shows "stream_inv (sweepIdleSessions st)"
proof -
  let ?now = "st_clock st" and ?S = "set (sessions st)"
  let ?kept = "filter (\<lambda>p. \<not> session_idle ?now (snd p)) (sessions st)"
  have sep: "separate (sessions st)" and own: "owns (sessions st) (st_os st)"
    using inv by (simp_all add: stream_inv_def)
  have dist: "distinct (map fst (sessions st))" using sep by (simp add: separate_def)
  have ss: "sessions (sweepIdleSessions st) = ?kept" by (rule sweep_sessions [OF dist])
  have os: "st_os (sweepIdleSessions st) = st_os (fold (sweep_one ?now) (sessions st) st)"
    by (simp add: sweepIdleSessions_fold Let_def)
  have ap: "apart (snd p) (snd q)" if "p \<in> ?S" "q \<in> ?S" "p \<noteq> q" for p q
  proof -
    have "fst p \<noteq> fst q" using that dist by (auto simp: distinct_map dest: inj_onD)
    then show ?thesis using sep that unfolding separate_def by (cases p, cases q) fastforce
  qed
  have fields: "tempDir (snd p) \<noteq> tempDir (snd q)" "watcher (snd p) \<noteq> watcher (snd q)"
    if "p \<in> ?S" "q \<in> ?S" "p \<noteq> q" for p q using ap [OF that] by (simp_all add: apart_def)
  have idle: "set (gone ?now (sessions st)) = {q \<in> ?S. session_idle ?now (snd q)}" by (auto simp: gone_def)
  have "separate ?kept" using sep dist by (auto simp: separate_def distinct_map_filter)
  moreover have "owns ?kept (st_os (sweepIdleSessions st))"
  proof -
    have "set (os_procs (st_os (sweepIdleSessions st))) \<subseteq> (\<Union>(i, s) \<in> set ?kept. pids s)"
    proof
      fix x assume "x \<in> set (os_procs (st_os (sweepIdleSessions st)))"
      then have x: "x \<in> set (os_procs (st_os st))" "\<forall>p \<in> set (gone ?now (sessions st)). x \<notin> pids (snd p)"
        unfolding os sweep_fold by auto
      then obtain p where p: "p \<in> ?S" "x \<in> pids (snd p)" using own by (auto simp: owns_def split_beta)
      then have "\<not> session_idle ?now (snd p)" using x(2) unfolding idle by blast
      then show "x \<in> (\<Union>(i, s) \<in> set ?kept. pids s)" using p by (cases p) auto
    qed
    moreover have "set (map fst (os_dirs (st_os (sweepIdleSessions st)))) = (tempDir \<circ> snd) ` set ?kept"
    proof -
      have "set (map fst (os_dirs (st_os (sweepIdleSessions st)))) =
          set (map fst (os_dirs (st_os st))) - (tempDir \<circ> snd) ` set (gone ?now (sessions st))"
        unfolding os sweep_fold by auto
      also have "\<dots> = (tempDir \<circ> snd) ` ?S - (tempDir \<circ> snd) ` {q \<in> ?S. session_idle ?now (snd q)}"
        using own idle by (simp add: owns_def split_beta)
      also have "\<dots> = (tempDir \<circ> snd) ` {q \<in> ?S. \<not> session_idle ?now (snd q)}"
        by (rule image_kept) (use fields(1) in fastforce)
      also have "{q \<in> ?S. \<not> session_idle ?now (snd q)} = set ?kept" by simp
      finally show ?thesis .
    qed
    moreover have "set (os_watchers (st_os (sweepIdleSessions st))) = (watcher \<circ> snd) ` set ?kept"
    proof -
      have "set (os_watchers (st_os (sweepIdleSessions st))) =
          (watcher \<circ> snd) ` ?S - (watcher \<circ> snd) ` {q \<in> ?S. session_idle ?now (snd q)}"
        using own unfolding os sweep_fold idle by (simp add: owns_def split_beta)
      also have "\<dots> = (watcher \<circ> snd) ` {q \<in> ?S. \<not> session_idle ?now (snd q)}"
        by (rule image_kept) (use fields(2) in fastforce)
      also have "{q \<in> ?S. \<not> session_idle ?now (snd q)} = set ?kept" by simp
      finally show ?thesis .
    qed
    ultimately show ?thesis by (simp add: owns_def split_beta)
  qed
  moreover have "?kept \<noteq> [] \<Longrightarrow> paused (st_dispatcher (sweepIdleSessions st)) \<and> dispatcherRef (sweepIdleSessions st)"
  proof -
    assume ne: "?kept \<noteq> []"
    then have "sessions st \<noteq> []" by auto
    moreover have "sessions (fold (sweep_one ?now) (sessions st) st) \<noteq> []"
      using ne ss by (auto simp: sweepIdleSessions_fold Let_def split: if_splits)
    ultimately show ?thesis
      using inv by (simp add: stream_inv_def sweepIdleSessions_fold Let_def sweep_fold)
  qed
  ultimately show ?thesis by (simp add: stream_inv_def ss)
qed

lemma stream_inv_step:
  assumes "stream_step st st'" and inv: "stream_inv st"
  shows "stream_inv st'"
  using assms(1)
proof (cases rule: stream_step.cases)
  case (step_open env i b path th)
  then show ?thesis using stream_inv_open [OF inv] by simp
next
  case (step_serve i s env name)
  let ?F = "opt_set (se_seekStart env) \<union> opt_set (se_gapStart env)"
  have mem: "(i, s) \<in> set (sessions st)" by (rule map_of_SomeD [OF step_serve(2)])
  have "fresh_serve env (pids s \<union> set (os_procs (st_os st)))"
    using step_serve(3) mem by (fastforce simp: fresh_serve_def used_pids_def)
  from with_session_inv [OF inv step_serve(2) ServeSegment_frame [OF this]]
  show ?thesis using step_serve(1,3) by (auto simp: fresh_serve_def)
next
  case (step_manifest i s choice)
  have "session_frame {} (s, st_os st) (snd (ServeManifest (st_clock st) choice s), st_os st)"
    using frame_serve_fast [OF session_frame_refl]
    by (auto simp: ServeManifest_def split: manifest_select.split)
  from with_session_inv [OF inv step_manifest(2) this] show ?thesis using step_manifest(1) by simp
next
  case (step_event i s ev)
  from with_session_inv [OF inv step_event(2) session_event_frame [of "{}"]]
  show ?thesis using step_event(1) by simp
next
  case step_sweep
  then show ?thesis using stream_inv_sweep [OF inv] by simp
next
  case (step_tick t)
  then show ?thesis using inv by (simp add: stream_inv_def)
qed

lemma stream_inv_reachable: "stream_reachable st \<Longrightarrow> stream_inv st"
proof (induction rule: stream_reachable.induct)
  case (reach_init now d)
  then show ?case by (simp add: stream_inv_def stream_init_def separate_def owns_def)
next
  case (reach_step st st')
  then show ?case using stream_inv_step by blast
qed

section \<open>What the watcher marks\<close>

text \<open>The events of a run in which ffmpeg writes its segments in order and keeps running: every
  notification about segment \<open>n\<close> finds segment \<open>n - 1\<close> on disk.\<close>

fun encoding_in_order :: "wait_event list \<Rightarrow> string \<Rightarrow> os_state \<Rightarrow> bool" where
  "encoding_in_order [] dir os \<longleftrightarrow> True"
| "encoding_in_order (FileWritten name # evs) dir os \<longleftrightarrow>
     encoding_in_order evs dir (os_update_dir dir (\<lambda>fs. if name \<in> set fs then fs else fs @ [name]) os)"
| "encoding_in_order (Watched ev # evs) dir os \<longleftrightarrow>
     (let n = parseSegmentNumber (filepath_Base (ev_name ev))
      in n > 0 \<longrightarrow> os_file_exists dir (formatSegName (n - 1)) os) \<and> encoding_in_order evs dir os"
| "encoding_in_order (FfmpegExited ok # evs) dir os \<longleftrightarrow> False"
| "encoding_in_order (ev # evs) dir os \<longleftrightarrow> encoding_in_order evs dir os"

lemma watch_in_order:
  assumes "let n = parseSegmentNumber (filepath_Base (ev_name ev))
      in n > 0 \<longrightarrow> os_file_exists (tempDir s) (formatSegName (n - 1)) os"
  shows "segments (watchSegments_event ev os s) = segments s"
    and "tempDir (watchSegments_event ev os s) = tempDir s"
  using assms by (simp_all add: watchSegments_event_def Let_def)

lemma await_segment_in_order:
  assumes "\<not> segmentSet_contains (segments s) n 1" and "encoding_in_order evs (tempDir s) os"
  shows "fst (await_segment n evs (s, os)) \<noteq> Available
    \<and> (RequestDone \<notin> set evs \<and> Deadline \<in> set evs \<longrightarrow> fst (await_segment n evs (s, os)) = TimedOut)"
  using assms
proof (induction evs arbitrary: s os)
  case Nil
  then show ?case by (simp add: await_segment.simps)
next
  case (Cons ev evs)
  show ?case
  proof (cases ev)
    case (FileWritten name)
    then show ?thesis
      using Cons.IH [of s "os_update_dir (tempDir s) (\<lambda>fs. if name \<in> set fs then fs else fs @ [name]) os"]
        Cons.prems by (simp add: await_segment.simps [of n "_ # _"])
  next
    case (Watched e)
    then show ?thesis
      using Cons.IH [of "watchSegments_event e os s" os] Cons.prems watch_in_order [of e s os]
      by (simp add: await_segment.simps [of n "_ # _"])
  qed (use Cons.prems in \<open>simp_all add: await_segment.simps [of n "_ # _"]\<close>)
qed

section \<open>Properties\<close>

definition sample_env :: open_env where
  "sample_env = \<lparr> env_tempDir = Some ''/tmp/bokeh-live-1'', env_watcher = Some 3, env_watchAdd = True,
     env_start = Some 42 \<rparr>"

definition sample_streaming :: streaming where
  "sample_streaming =
     snd (GetOrCreateSession 7 None ''/media/a.mkv'' 4000 sample_env (stream_init 0 \<lparr> paused = False \<rparr>))"

lemma sample_reachable: "stream_reachable sample_streaming"
  unfolding sample_streaming_def
  by (rule reach_step [OF reach_init step_open])
    (simp add: fresh_env_def stream_init_def sample_env_def used_pids_def)

definition sample_session :: session where
  "sample_session =
     \<lparr> lastActivity = 0, watcher = 3,
       cmd = Some \<lparr> cmd_args = buildFFmpegCommand ''/media/a.mkv'' ''/tmp/bokeh-live-1'' False 0 0 0, cmd_pid = 42 \<rparr>,
       manifestReady = False, segmentAdded = 0, tempDir = ''/tmp/bokeh-live-1'', fsPath = ''/media/a.mkv'',
       segments = segmentSet_empty, currentSegment = 0, itemID = 7, isRemux = False \<rparr>"

lemma sample_streaming_eq:
  "sample_streaming = \<lparr> st_clock = 0, sessions = [(7, sample_session)], dispatcherRef = True,
     st_dispatcher = \<lparr> paused = True \<rparr>,
     st_os = \<lparr> os_procs = [42], os_dirs = [(''/tmp/bokeh-live-1'', [])], os_watchers = [3] \<rparr> \<rparr>"
  by (simp add: sample_streaming_def GetOrCreateSession_def sample_env_def stream_init_def Let_def
      cmd_Start_def put_session_def Dispatcher_Pause_def sample_session_def)

text \<open>While any streaming session lives, the job dispatcher is paused, in every state the
  package can reach.\<close>

lemma live_sessions_pause_dispatcher:
  assumes "stream_reachable st" and "ActiveSessionCount st > 0"
  shows "paused (st_dispatcher st) \<and> dispatcherRef st"
  using stream_inv_reachable [OF assms(1)] assms(2) by (simp add: stream_inv_def ActiveSessionCount_def)



text \<open>C22: the sweep removes exactly the sessions idle for more than fifteen minutes together
  with their processes, and lets the dispatcher run again exactly when it leaves no session.\<close>

theorem sweep_removes_idle_sessions:
  assumes "stream_reachable st"
  shows "sessions (sweepIdleSessions st) = filter (\<lambda>p. st_clock st - lastActivity (snd p) \<le> 15 * minute) (sessions st)
    \<and> (\<forall>p \<in> set (sessions st). st_clock st - lastActivity (snd p) > 15 * minute \<longrightarrow>
         pids (snd p) \<inter> set (os_procs (st_os (sweepIdleSessions st))) = {})
    \<and> paused (st_dispatcher (sweepIdleSessions st)) =
        (paused (st_dispatcher st) \<and> (sessions (sweepIdleSessions st) \<noteq> [] \<or> \<not> dispatcherRef st))"
proof -
  have "distinct (map fst (sessions st))"
    using stream_inv_reachable [OF assms] by (simp add: stream_inv_def separate_def)
  note ss = sweep_sessions [OF this]
  have idle: "session_idle now s \<longleftrightarrow> \<not> now - lastActivity s \<le> 15 * minute" for now s
    by (auto simp: session_idle_def SessionIdleTimeout_def)
  have "set (os_procs (st_os (sweepIdleSessions st))) =
      set (os_procs (st_os st)) - (\<Union>p \<in> set (gone (st_clock st) (sessions st)). pids (snd p))"
    by (simp add: sweepIdleSessions_fold Let_def sweep_fold)
  then have procs: "pids (snd p) \<inter> set (os_procs (st_os (sweepIdleSessions st))) = {}"
    if "p \<in> set (sessions st)" "session_idle (st_clock st) (snd p)" for p
    using that by (force simp: gone_def)
  moreover have "paused (st_dispatcher (sweepIdleSessions st)) =
        (paused (st_dispatcher st) \<and> (sessions (sweepIdleSessions st) \<noteq> [] \<or> \<not> dispatcherRef st))"
    by (simp add: sweepIdleSessions_fold Let_def sweep_fold)
  moreover have "sessions (sweepIdleSessions st) =
      filter (\<lambda>p. st_clock st - lastActivity (snd p) \<le> 15 * minute) (sessions st)"
    unfolding ss idle by simp
  ultimately show ?thesis by (simp add: idle)
qed

definition idle_streaming :: streaming where
  "idle_streaming = sample_streaming\<lparr> st_clock := 16 * minute \<rparr>"

theorem sweep_removes_idle_sessions_witness:
  "sessions (sweepIdleSessions idle_streaming) = [] \<and> \<not> paused (st_dispatcher (sweepIdleSessions idle_streaming))"
proof -
  have reach: "stream_reachable idle_streaming"
    unfolding idle_streaming_def by (rule reach_step [OF sample_reachable step_tick])
      (simp add: sample_streaming_eq duration_defs)
  have "sessions (sweepIdleSessions idle_streaming) = []"
    using sweep_removes_idle_sessions [OF reach]
    by (simp add: idle_streaming_def sample_streaming_eq sample_session_def duration_defs)
  then show ?thesis
    using sweep_removes_idle_sessions [OF reach] by (simp add: idle_streaming_def sample_streaming_eq)
qed

text \<open>Opening a session either fails and leaves the state as it was (the directory and the
  watcher it had made are gone), or returns the item's session with its activity refreshed;
  a session it creates is in the map with a running ffmpeg on a fresh directory, remuxing
  exactly when the bitrate is known and not above the threshold.\<close>

lemma GetOrCreateSession_result:
  assumes "fresh_env env st"
  shows "case GetOrCreateSession i bitrate path threshold env st of
      (Inl e, st') \<Rightarrow> st' = st \<and> GetSession i st = None
    | (Inr s, st') \<Rightarrow> GetSession i st' = Some s \<and> lastActivity s = st_clock st
        \<and> (case GetSession i st of
             Some t \<Rightarrow> s = t\<lparr> lastActivity := st_clock st \<rparr> \<and> st_os st' = st_os st
           | None \<Rightarrow> pids s \<subseteq> set (os_procs (st_os st')) \<and> segments s = segmentSet_empty
               \<and> isRemux s = (\<exists>b. bitrate = Some b \<and> b \<le> threshold) \<and> paused (st_dispatcher st'))"
proof (cases "map_of (sessions st) i")
  case (Some s)
  have "map_of (sessions (put_session i s' st)) i = Some s'" for s'
  proof -
    have "i \<in> fst ` set (sessions st)" using map_of_SomeD [OF Some] by force
    then show ?thesis by (simp add: put_session_def map_of_replace)
  qed
  then show ?thesis using Some by (simp add: GetOrCreateSession_existing GetSession_def)
next
  case None
  obtain r st' where eq: "GetOrCreateSession i bitrate path threshold env st = (r, st')" by (metis surj_pair)
  show ?thesis
  proof (cases r)
    case (Inl e)
    then show ?thesis using GetOrCreateSession_error [OF assms eq [unfolded Inl]] eq None
      by (simp add: GetSession_def)
  next
    case (Inr s)
    from GetOrCreateSession_new [OF None eq [unfolded Inr]]
    obtain p where "sessions st' = sessions st @ [(i, s)]" "lastActivity s = st_clock st"
      "pids s = {p}" "os_procs (st_os st') = p # os_procs (st_os st)" "segments s = segmentSet_empty"
      "isRemux s = (case bitrate of None \<Rightarrow> False | Some b \<Rightarrow> b \<le> threshold)" "paused (st_dispatcher st')"
      by (rule) (simp add: pids_def)
    then show ?thesis using eq Inr None by (simp add: GetSession_def map_add_def split: option.split)
  qed
qed

text \<open>C17: a seek to a missing segment with a later block available restarts ffmpeg at that
  segment for exactly the gap up to the block: the run it orders holds no segment that was
  available, and it stops where the block starts.\<close>

theorem seekTo_fills_one_gap:
  assumes wf: "session_wf s" and t: "0 \<le> t" "t \<notin> segmentSet_abs (segments s)"
    and nx: "segmentSet_firstAvailableAfter (segments s) t = (m, True)" and m: "in_i64 (m * 6)"
    and ok: "seekTo t evs start (s, os) = (None, s', os')"
  shows "\<exists>p. start = Some p \<and> p \<in> set (os_procs os') \<and> currentSegment s' = t
    \<and> cmd s' = Some \<lparr> cmd_args =
        buildFFmpegCommand (fsPath s) (tempDir s) (isRemux s) (6 * t) t (6 * (m - t)), cmd_pid = p \<rparr>
    \<and> m \<in> segmentSet_abs (segments s) \<and> t < m
    \<and> (\<forall>k. t \<le> k \<and> k < m \<longrightarrow> k \<notin> segmentSet_abs (segments s))"
proof -
  have swf: "segmentSet_wf (segments s)" using wf by (simp add: session_wf_def)
  have tm: "m \<in> segmentSet_abs (segments s)" "t < m" "{t..<m} \<inter> segmentSet_abs (segments s) = {}"
    using seg.next_Some [OF swf nx] seg.next_gap [OF swf nx t(2)] by simp_all
  have i64: "in_i64 (t * 6)" "in_i64 ((m - t) * 6)" "in_i64 t"
    using t(1) m tm(2) by (simp_all add: in_i64_def)
  have miss: "\<not> segmentSet_contains (segments s) t 1"
    using seg.single_window [OF swf i64(3)] t(2) by simp
  obtain s1 os1 where k: "killAfterCurrentSegment evs (s, os) = (s1, os1)" by (metis surj_pair)
  have fr: "session_frame {} (s, os) (s1, os1)"
    using killAfterCurrentSegment_frame(1) [where so = "(s, os)" and evs = evs] k by simp
  then have static: "fsPath s1 = fsPath s" "tempDir s1 = tempDir s" "isRemux s1 = isRemux s"
    by (simp_all add: session_frame_def)
  show ?thesis
    using ok miss nx k i64 static tm
    by (auto simp: seekTo_def Let_def segmentDuration_def cmd_Start_def mult.commute split: option.splits)
qed

text \<open>A session that has segments 5 and 9 and is asked for segment 6.\<close>

definition gap_session :: session where
  "gap_session = sample_session\<lparr> segments := segmentSet_add 9 (segmentSet_add 5 segmentSet_empty),
     currentSegment := 9 \<rparr>"

theorem seekTo_fills_one_gap_witness:
  "cmd (fst (snd (seekTo 6 [] (Some 43) (gap_session, st_os sample_streaming)))) =
     Some \<lparr> cmd_args = buildFFmpegCommand ''/media/a.mkv'' ''/tmp/bokeh-live-1'' False 36 6 18, cmd_pid = 43 \<rparr>"
proof -
  let ?os = "st_os sample_streaming"
  have abs: "segmentSet_abs (segments gap_session) = {5, 9}" and wf: "segmentSet_wf (segments gap_session)"
    using seg.fold_add_abs [OF seg.empty_inv, of "[5, 9]"] seg.fold_add_inv [OF seg.empty_inv, of "[5, 9]"]
      seg.empty_abs by (auto simp: gap_session_def in_i64_def)
  have nx: "segmentSet_firstAvailableAfter (segments gap_session) 6 = (9, True)"
    and miss: "\<not> segmentSet_contains (segments gap_session) 6 1" by code_simp+
  obtain s1 os1 where k: "killAfterCurrentSegment [] (gap_session, ?os) = (s1, os1)" by (metis surj_pair)
  then obtain s' os' where ok: "seekTo 6 [] (Some 43) (gap_session, ?os) = (None, s', os')"
    using nx miss by (simp add: seekTo_def Let_def cmd_Start_def)
  have "\<exists>p. Some 43 = Some p \<and> p \<in> set (os_procs os') \<and> currentSegment s' = 6
    \<and> cmd s' = Some \<lparr> cmd_args = buildFFmpegCommand (fsPath gap_session) (tempDir gap_session)
        (isRemux gap_session) (6 * 6) 6 (6 * (9 - 6)), cmd_pid = p \<rparr>
    \<and> 9 \<in> segmentSet_abs (segments gap_session) \<and> 6 < (9 :: int)
    \<and> (\<forall>k. 6 \<le> k \<and> k < 9 \<longrightarrow> k \<notin> segmentSet_abs (segments gap_session))"
    by (rule seekTo_fills_one_gap [OF _ _ _ nx _ ok])
      (use wf abs in \<open>simp_all add: session_wf_def in_i64_def gap_session_def\<close>)
  then show ?thesis using ok by (simp add: gap_session_def sample_session_def)
qed

text \<open>C21: as long as ffmpeg writes its segments in order and keeps running, no request for a
  segment that was not marked before is ever answered with it: the notifications about new
  files mark nothing, because the watcher adds the previous segment only when its file is
  \<^emph>\<open>missing\<close>. The client gets a 503 at the deadline even though the file is complete.\<close>

theorem running_encode_marks_nothing:
  assumes "isValidSegmentName name" and "parseSegmentNumber name = n"
    and "\<not> segmentSet_contains (segments s) n 1" and "\<not> needs_seek n s"
    and "encoding_in_order (se_waitEvents env) (tempDir s) os"
    and "RequestDone \<notin> set (se_waitEvents env)" and "Deadline \<in> set (se_waitEvents env)"
  shows "fst (ServeSegment name env (s, os)) = HttpError ''segment not ready'' 503"
proof -
  obtain out s2 os2 where w: "await_segment n (se_waitEvents env) (s, os) = (out, s2, os2)" by (metis surj_pair)
  have "out = TimedOut" using await_segment_in_order [OF assms(3,5)] assms(6,7) w by simp
  then show ?thesis using assms(1-4) w by (simp add: ServeSegment_def Let_def)
qed

text \<open>Segment 0 is complete on disk, ffmpeg has started segment 1, and the client waits for 0.\<close>

definition waiting_env :: serve_env where
  "waiting_env = \<lparr> se_now = 5 * second, se_seekEvents = [], se_seekStart = None,
     se_waitEvents = [FileWritten ''seg_00001.ts'',
       Watched \<lparr> ev_name = ''/tmp/bokeh-live-1/seg_00001.ts'', ev_create = True \<rparr>, Deadline],
     se_gapEvents = [], se_gapStart = None \<rparr>"

theorem running_encode_marks_nothing_witness:
  "fst (ServeSegment ''seg_00000.ts'' waiting_env
     (sample_session, \<lparr> os_procs = [42], os_dirs = [(''/tmp/bokeh-live-1'', [''seg_00000.ts''])], os_watchers = [3] \<rparr>))
   = HttpError ''segment not ready'' 503"
proof (rule running_encode_marks_nothing [where n = 0])
  have names: "''seg_00000.ts'' = formatSegName 0" "''seg_00001.ts'' = formatSegName 1" by code_simp+
  show "isValidSegmentName ''seg_00000.ts''" unfolding names by (simp add: formatSegName_valid)
  show "parseSegmentNumber ''seg_00000.ts'' = 0"
    unfolding names by (simp add: parse_formatSegName in_i64_def)
  show "\<not> segmentSet_contains (segments sample_session) 0 1"
    by (simp add: sample_session_def segmentSet_contains_def segmentSet_empty_def seg_pos_def
        sort_Search_def search_loop.simps)
  show "\<not> needs_seek 0 sample_session"
    by (simp add: needs_seek_def sample_session_def lookaheadSegs_def duration_defs segmentDuration_def
        TranscodeSeekRestartThreshold_def in_i64_def)
  have base: "filepath_Base ''/tmp/bokeh-live-1/seg_00001.ts'' = formatSegName 1" by code_simp
  show "encoding_in_order (se_waitEvents waiting_env) (tempDir sample_session)
      \<lparr> os_procs = [42], os_dirs = [(''/tmp/bokeh-live-1'', [''seg_00000.ts''])], os_watchers = [3] \<rparr>"
    by (simp add: waiting_env_def sample_session_def base parse_formatSegName in_i64_def names(1)
        os_file_exists_def os_dir_files_def os_update_dir_def)
qed (simp_all add: waiting_env_def)

end
