(* ===== verification/Schema.thy ===== *)
theory Schema
  imports Prelude
begin

text \<open>
  The database: \<open>internal/db/migrations/000001_schema.up.sql\<close> as lists of rows, one record
  per table the modelled code reads or writes, and the way a statement runs. A status is the
  datatype its CHECK constraint spells out. \<open>now()\<close> is the field \<open>clock\<close>: a handler runs at
  one instant. A statement either takes effect or fails and changes nothing; whether the
  connection fails is the environment's, one entry of \<open>faults\<close> per statement (none left means
  no failure).
\<close>

section \<open>Tables\<close>

datatype job_status = Queued | Running | RunningSubJobs | Done | Failed

text \<open>\<open>models.Job\<close> and the table \<open>jobs\<close>.\<close>

record job =
  job_id :: int
  job_type :: string
  status :: job_status
  related_id :: "int option"
  related_type :: "string option"
  job_log :: "string option"
  error_message :: "string option"
  queued_at :: time
  started_at :: "time option"
  completed_at :: "time option"
  parent_job_id :: "int option"
  current_step :: int
  subjobs_enqueued :: int

text \<open>\<open>JobSchedule\<close> and the table \<open>jobs_schedule\<close>.\<close>

record job_schedule =
  sched_name :: string
  sched_cron :: string
  sched_description :: "string option"
  sched_updated_at :: time

text \<open>The table \<open>users\<close>; of the JSON in \<open>auth_data\<close> the code reads the member
  \<open>password_hash\<close>, and None is JSON it cannot decode.\<close>

record user =
  user_id :: int
  user_name :: string
  is_admin :: bool
  local_access_only :: bool
  auth_provider :: string
  auth_data :: "string option"
  user_last_seen_at :: "time option"

text \<open>\<open>AccessHistoryEntry\<close>, one element of the JSON array \<open>access_history\<close>.\<close>

record access_entry =
  ae_ip :: string
  ae_agent :: string
  ae_time :: time

text \<open>\<open>models.Device\<close> and the table \<open>devices\<close>.\<close>

record device =
  device_id :: int
  device_uuid :: string
  device_user :: int
  refresh_token_hash :: "string option"
  previous_refresh_token_hash :: "string option"
  expires_at :: "time option"
  device_name :: string
  banned_at :: "time option"
  access_history :: "access_entry list"
  device_created_at :: time
  last_seen_at :: time

text \<open>\<open>models.Collection\<close> and the table \<open>collections\<close>.\<close>

record collection =
  coll_id :: int
  parent_collection_id :: "int option"
  root_collection_id :: "int option"
  coll_name :: string
  coll_type :: string
  coll_path :: "string option"
  is_enabled :: bool
  manual_thumbnail :: bool
  last_scanned_at :: "time option"
  coll_missing_since :: "time option"
  coll_created_at :: time

record media_item =
  item_id :: int
  item_collection :: int
  title :: string
  item_path :: string
  file_size_bytes :: int
  file_hash :: string
  mime_type :: string
  file_modified_at :: "time option"
  item_missing_since :: "time option"
  indexed_at :: time
  item_created_at :: time
  hidden_at :: "time option"

text \<open>The table \<open>video_metadata\<close>.\<close>

record video_metadata =
  vm_item :: int
  duration_seconds :: "int option"
  vm_width :: "int option"
  vm_height :: "int option"
  bitrate_kbps :: "int option"
  video_codec :: "string option"
  audio_codec :: "string option"
  transcoded_at :: "time option"
  date_string :: "string option"
  author :: "string option"
  vm_manual_thumbnail :: bool

text \<open>The table \<open>photo_metadata\<close>; a \<open>numeric\<close> of one decimal is a number of tenths.\<close>

record photo_metadata =
  pm_item :: int
  width_px :: "int option"
  height_px :: "int option"
  pm_created_at :: "time option"
  camera_make :: "string option"
  camera_model :: "string option"
  lens_model :: "string option"
  shutter_speed :: "string option"
  aperture_tenths :: "int option"
  iso :: "int option"
  focal_length_tenths :: "int option"
  focal_length_35mm_tenths :: "int option"
  color_space :: "string option"
  pm_description :: "string option"
  pm_keywords :: "string list"
  variants_generated_at :: "time option"
  exif_raw :: "string option"

text \<open>The tables \<open>artists\<close>, \<open>audio_albums\<close> and \<open>audio_metadata\<close>; a \<open>numeric\<close> of two decimals is a
  number of hundredths.\<close>

record artist =
  artist_id :: int
  artist_name :: string
  sort_name :: string
  artist_manual_thumbnail :: bool
  artist_created_at :: time

record album =
  album_id :: int
  album_name :: string
  album_artist :: "int option"
  album_year :: "int option"
  album_genre :: "string option"
  album_root :: int
  is_compilation :: bool
  manual_cover :: bool
  album_created_at :: time

record audio_metadata =
  am_item :: int
  am_artist :: "int option"
  am_album_artist :: "int option"
  am_album :: "int option"
  track_number :: "int option"
  disc_number :: "int option"
  duration_hundredths :: "int option"
  am_genre :: "string option"
  am_year :: "int option"
  replay_gain_hundredths :: "int option"
  has_embedded_art :: bool
  processed_at :: "time option"

record show_bookmark =
  sb_user :: int
  sb_artist :: int
  sb_item :: int
  sb_position :: int
  sb_last_listened :: time

record video_bookmark =
  vb_user :: int
  vb_item :: int
  position_seconds :: int
  last_watched_at :: time

record db =
  clock :: time
  faults :: "bool list"
  jobs :: "job list"
  next_job :: int
  schedules :: "job_schedule list"
  users :: "user list"
  next_user :: int
  devices :: "device list"
  next_device :: int
  collections :: "collection list"
  next_collection :: int
  collection_access :: "(int \<times> int) list"
  media_items :: "media_item list"
  next_item :: int
  video_meta :: "video_metadata list"
  photo_meta :: "photo_metadata list"
  video_bookmarks :: "video_bookmark list"
  artists :: "artist list"
  next_artist :: int
  albums :: "album list"
  next_album :: int
  audio_meta :: "audio_metadata list"
  show_bookmarks :: "show_bookmark list"
  transcode_bitrate_kbps :: int

definition empty_db :: "time \<Rightarrow> db" where
  "empty_db t = \<lparr> clock = t, faults = [], jobs = [], next_job = 1, schedules = [], users = [], next_user = 1,
     devices = [], next_device = 1, collections = [], next_collection = 1, collection_access = [],
     media_items = [], next_item = 1, video_meta = [],
     photo_meta = [], video_bookmarks = [], artists = [], next_artist = 1, albums = [], next_album = 1,
     audio_meta = [], show_bookmarks = [], transcode_bitrate_kbps = 4000 \<rparr>"

text \<open>\<open>DELETE FROM media_items\<close>, with the rows that refer to an item.\<close>

definition delete_items :: "(media_item \<Rightarrow> bool) \<Rightarrow> db \<Rightarrow> db" where
  "delete_items P s =
     (let gone = map item_id (filter P (media_items s)) in
      s\<lparr> media_items := filter (\<lambda>m. \<not> P m) (media_items s),
         video_meta := filter (\<lambda>v. vm_item v \<notin> set gone) (video_meta s),
         photo_meta := filter (\<lambda>p. pm_item p \<notin> set gone) (photo_meta s),
         video_bookmarks := filter (\<lambda>b. vb_item b \<notin> set gone) (video_bookmarks s),
         audio_meta := filter (\<lambda>a. am_item a \<notin> set gone) (audio_meta s),
         show_bookmarks := filter (\<lambda>b. sb_item b \<notin> set gone) (show_bookmarks s) \<rparr>)"

text \<open>\<open>DELETE FROM audio_albums\<close>: the tracks lose their album.\<close>

definition delete_albums :: "(album \<Rightarrow> bool) \<Rightarrow> db \<Rightarrow> db" where
  "delete_albums P s =
     (let gone = map album_id (filter P (albums s)) in
      s\<lparr> albums := filter (\<lambda>a. \<not> P a) (albums s),
         audio_meta := map (\<lambda>m. if \<exists>i \<in> set gone. am_album m = Some i then m\<lparr> am_album := None \<rparr> else m) (audio_meta s) \<rparr>)"

section \<open>Statements\<close>

text \<open>\<open>Panicked\<close> is not an error value of the code: the function that reads the rows panicked.\<close>

datatype db_error = ConnFailure | BadQuery | NoRows | NotFound | UniqueViolation | ForeignKeyViolation | Panicked

type_synonym 'a statement = "db \<Rightarrow> (db_error + 'a) \<times> db"

definition sql :: "'a statement \<Rightarrow> 'a statement" where
  "sql stmt s = (case faults s of
       [] \<Rightarrow> stmt s
     | True # fs \<Rightarrow> (Inl ConnFailure, s\<lparr> faults := fs \<rparr>)
     | False # fs \<Rightarrow> stmt (s\<lparr> faults := fs \<rparr>))"

text \<open>A statement on a healthy connection.\<close>

lemma sql_no_faults [simp]: "faults s = [] \<Longrightarrow> sql stmt s = stmt s"
  by (simp add: sql_def)

lemma sql_cases:
  obtains (Fault) fs where "faults s = True # fs" and "sql stmt s = (Inl ConnFailure, s\<lparr> faults := fs \<rparr>)"
  | (Runs) fs where "sql stmt s = stmt (s\<lparr> faults := fs \<rparr>)"
proof (cases "faults s")
  case Nil
  then have upd: "s\<lparr>faults := []\<rparr> = s" by (cases s) simp
  have "sql stmt s = stmt (s\<lparr>faults := []\<rparr>)" unfolding upd using Nil by (rule sql_no_faults)
  then show ?thesis by (rule Runs)
next
  case (Cons b fs)
  then show ?thesis using Fault Runs [of fs] by (cases b) (simp_all add: sql_def)
qed

lemma sql_result:
  assumes "sql stmt s = (r, s')"
  obtains (Fault) fs where "r = Inl ConnFailure" and "s' = s\<lparr> faults := fs \<rparr>"
  | (Runs) fs where "stmt (s\<lparr> faults := fs \<rparr>) = (r, s')"
  by (rule sql_cases [of s stmt]) (use assms that in auto)

lemma sql_InrE:
  assumes "sql stmt s = (Inr x, s')"
  obtains fs where "stmt (s\<lparr> faults := fs \<rparr>) = (Inr x, s')"
  using assms by (rule sql_result) auto

text \<open>What holds after every way a statement can end.\<close>

lemma sql_preserves:
  assumes "\<And>fs. P (s\<lparr> faults := fs \<rparr>)" and "\<And>fs. P (snd (stmt (s\<lparr> faults := fs \<rparr>)))"
  shows "P (snd (sql stmt s))"
  by (rule sql_cases [of s stmt]) (simp_all add: assms)

section \<open>Ordering by a text column\<close>

text \<open>\<open>ORDER BY\<close> a text column, by the bytes of the text; ties keep the order of the rows.\<close>

fun string_le :: "string \<Rightarrow> string \<Rightarrow> bool" where
  "string_le [] b \<longleftrightarrow> True"
| "string_le (x # a) [] \<longleftrightarrow> False"
| "string_le (x # a) (y # b) \<longleftrightarrow>
     (of_char x :: nat) < of_char y \<or> (x = y \<and> string_le a b)"

fun insert_by_text :: "('r \<Rightarrow> string) \<Rightarrow> 'r \<Rightarrow> 'r list \<Rightarrow> 'r list" where
  "insert_by_text key c [] = [c]"
| "insert_by_text key c (d # ds) =
     (if string_le (key c) (key d) then c # d # ds else d # insert_by_text key c ds)"

definition order_by_text :: "('r \<Rightarrow> string) \<Rightarrow> 'r list \<Rightarrow> 'r list" where
  "order_by_text key rows = foldr (insert_by_text key) rows []"

lemma set_insert_by_text [simp]: "set (insert_by_text key c ds) = insert c (set ds)"
  by (induction ds) auto

lemma set_order_by_text [simp]: "set (order_by_text key rows) = set rows"
  by (induction rows) (simp_all add: order_by_text_def)

section \<open>Job statuses in order\<close>

text \<open>A job only moves forward along the order of the statuses, except for the recovery at
  start-up.\<close>

fun status_rank :: "job_status \<Rightarrow> nat" where
  "status_rank Queued = 0"
| "status_rank Running = 1"
| "status_rank RunningSubJobs = 2"
| "status_rank Done = 3"
| "status_rank Failed = 4"

lemma status_rank_inj: "status_rank a = status_rank b \<longleftrightarrow> a = b"
  by (cases a; cases b) simp_all

instantiation job_status :: linorder
begin

definition less_eq_job_status :: "job_status \<Rightarrow> job_status \<Rightarrow> bool" where
  "less_eq_job_status a b \<longleftrightarrow> status_rank a \<le> status_rank b"

definition less_job_status :: "job_status \<Rightarrow> job_status \<Rightarrow> bool" where
  "less_job_status a b \<longleftrightarrow> status_rank a < status_rank b"

instance
  by standard (auto simp: less_eq_job_status_def less_job_status_def status_rank_inj)

end

lemmas status_order = less_eq_job_status_def less_job_status_def

text \<open>\<open>nonTerminalStatuses\<close> of \<open>internal/repository/jobs.go\<close>.\<close>

definition nonTerminalStatuses :: "job_status list" where
  "nonTerminalStatuses = [Queued, Running, RunningSubJobs]"

lemma nonTerminal_iff: "st \<in> set nonTerminalStatuses \<longleftrightarrow> st < Done"
  by (cases st) (simp_all add: nonTerminalStatuses_def status_order)

end
