(* ===== verification/JobsRepo.thy ===== *)
theory JobsRepo
  imports Schema
begin

text \<open>
  \<open>internal/repository/jobs.go\<close>: one definition per function, each one statement over the
  table \<open>jobs\<close>, with the cascade of the foreign key \<open>parent_job_id\<close> written out.
  \<open>jobs_wf\<close> is the shape the table keeps: increasing ids below the next one, and sub-jobs only
  below top-level jobs.
\<close>

section \<open>The functions\<close>

definition job_exists :: "int \<Rightarrow> db \<Rightarrow> bool" where
  "job_exists i s \<longleftrightarrow> i \<in> set (map job_id (jobs s))"

definition find_job :: "int \<Rightarrow> db \<Rightarrow> job option" where
  "find_job i s = find (\<lambda>j. job_id j = i) (jobs s)"

definition new_job :: "db \<Rightarrow> string \<Rightarrow> int option \<Rightarrow> string option \<Rightarrow> int option \<Rightarrow> job" where
  "new_job s ty rid rty parent =
     \<lparr> job_id = next_job s, job_type = ty, status = Queued, related_id = rid, related_type = rty,
       job_log = None, error_message = None, queued_at = clock s, started_at = None,
       completed_at = None, parent_job_id = parent, current_step = 0, subjobs_enqueued = 0 \<rparr>"

text \<open>\<open>UPDATE jobs SET ... WHERE id = $1\<close>.\<close>

definition update_job :: "int \<Rightarrow> (job \<Rightarrow> job) \<Rightarrow> db \<Rightarrow> db" where
  "update_job i f s = s\<lparr> jobs := map (\<lambda>j. if job_id j = i then f j else j) (jobs s) \<rparr>"

text \<open>\<open>DELETE FROM jobs\<close> of the given ids, with the rows that refer to them.\<close>

definition delete_jobs :: "int list \<Rightarrow> db \<Rightarrow> db" where
  "delete_jobs ids s =
     (let doomed = tree_levels job_id parent_job_id (jobs s) (length (jobs s)) ids
      in s\<lparr> jobs := filter (\<lambda>j. job_id j \<notin> set doomed) (jobs s) \<rparr>)"

definition JobCreate :: "string \<Rightarrow> int option \<Rightarrow> string option \<Rightarrow> int option \<Rightarrow> int statement" where
  "JobCreate ty rid rty parent = sql (\<lambda>s.
     case parent of
       Some p \<Rightarrow>
         if \<not> job_exists p s then (Inl ForeignKeyViolation, s)
         else (Inr (next_job s), s\<lparr> jobs := jobs s @ [new_job s ty rid rty parent], next_job := next_job s + 1 \<rparr>)
     | None \<Rightarrow>
         (Inr (next_job s), s\<lparr> jobs := jobs s @ [new_job s ty rid rty None], next_job := next_job s + 1 \<rparr>))"

definition JobCreateSubJob :: "string \<Rightarrow> int option \<Rightarrow> string option \<Rightarrow> int \<Rightarrow> int statement" where
  "JobCreateSubJob ty rid rty parent = sql (\<lambda>s.
     if \<not> job_exists parent s then (Inl ForeignKeyViolation, s)
     else
       let s1 = update_job parent (\<lambda>j. j\<lparr> subjobs_enqueued := subjobs_enqueued j + 1 \<rparr>) s
       in (Inr (next_job s),
           s1\<lparr> jobs := jobs s1 @ [new_job s ty rid rty (Some parent)], next_job := next_job s + 1 \<rparr>))"

record SubJobSpec =
  spec_related_id :: "int option"
  spec_related_type :: "string option"
  spec_type :: string

text \<open>The rows the batch inserts, with consecutive ids.\<close>

fun batch_rows :: "db \<Rightarrow> int \<Rightarrow> int \<Rightarrow> SubJobSpec list \<Rightarrow> job list" where
  "batch_rows s parent i [] = []"
| "batch_rows s parent i (sp # sps) =
     (new_job s (spec_type sp) (spec_related_id sp) (spec_related_type sp) (Some parent))\<lparr> job_id := i \<rparr>
     # batch_rows s parent (i + 1) sps"

definition JobCreateSubJobBatch :: "int \<Rightarrow> SubJobSpec list \<Rightarrow> int statement" where
  "JobCreateSubJobBatch parent specs s0 =
     (if specs = [] then (Inr 0, s0)
      else sql (\<lambda>s.
        if \<not> job_exists parent s then (Inl ForeignKeyViolation, s)
        else
          let n = int (length specs);
              s1 = update_job parent (\<lambda>j. j\<lparr> subjobs_enqueued := subjobs_enqueued j + n \<rparr>) s
          in (Inr n, s1\<lparr> jobs := jobs s1 @ batch_rows s parent (next_job s) specs,
                        next_job := next_job s + n \<rparr>)) s0)"

definition JobMarkRunning :: "int \<Rightarrow> unit statement" where
  "JobMarkRunning i = sql (\<lambda>s.
     (Inr (), update_job i (\<lambda>j. j\<lparr> status := Running, started_at := Some (clock s) \<rparr>) s))"

definition JobMarkRunningSubJobs :: "int \<Rightarrow> unit statement" where
  "JobMarkRunningSubJobs i = sql (\<lambda>s. (Inr (), update_job i (\<lambda>j. j\<lparr> status := RunningSubJobs \<rparr>) s))"

definition JobUpdateStep :: "int \<Rightarrow> int \<Rightarrow> unit statement" where
  "JobUpdateStep i n = sql (\<lambda>s. (Inr (), update_job i (\<lambda>j. j\<lparr> current_step := n \<rparr>) s))"

definition JobUpdateProgress :: "int \<Rightarrow> string \<Rightarrow> unit statement" where
  "JobUpdateProgress i msg = sql (\<lambda>s. (Inr (), update_job i (\<lambda>j.
     j\<lparr> job_log := Some ((case job_log j of None \<Rightarrow> [] | Some l \<Rightarrow> l) @ msg @ [CHR 0x0A]) \<rparr>) s))"

text \<open>Both halves of the statement see the table as it was before.\<close>

definition JobMarkDone :: "int \<Rightarrow> unit statement" where
  "JobMarkDone i = sql (\<lambda>s.
     let children = map job_id (filter (\<lambda>j. parent_job_id j = Some i) (jobs s));
         s1 = delete_jobs children s
     in (Inr (), update_job i (\<lambda>j. j\<lparr> status := Done, completed_at := Some (clock s) \<rparr>) s1))"

definition JobMarkFailed :: "int \<Rightarrow> string \<Rightarrow> unit statement" where
  "JobMarkFailed i msg = sql (\<lambda>s. (Inr (), update_job i (\<lambda>j.
     j\<lparr> status := Failed, error_message := Some msg, completed_at := Some (clock s) \<rparr>) s))"

definition JobDelete :: "int \<Rightarrow> unit statement" where
  "JobDelete i = sql (\<lambda>s. (Inr (), if job_exists i s then delete_jobs [i] s else s))"

definition JobGet :: "int \<Rightarrow> job statement" where
  "JobGet i = sql (\<lambda>s. (case find_job i s of None \<Rightarrow> Inl NoRows | Some j \<Rightarrow> Inr j, s))"

definition count_jobs :: "(job \<Rightarrow> bool) \<Rightarrow> db \<Rightarrow> int" where
  "count_jobs P s = int (length (filter P (jobs s)))"

definition job_active :: "job \<Rightarrow> bool" where
  "job_active j \<longleftrightarrow> status j \<in> set nonTerminalStatuses \<and> parent_job_id j = None"

definition JobIsActive :: "string \<Rightarrow> int \<Rightarrow> bool statement" where
  "JobIsActive ty rid = sql (\<lambda>s.
     (Inr (count_jobs (\<lambda>j. job_type j = ty \<and> related_id j = Some rid \<and> job_active j) s > 0), s))"

definition JobIsActiveByType :: "string \<Rightarrow> bool statement" where
  "JobIsActiveByType ty = sql (\<lambda>s. (Inr (count_jobs (\<lambda>j. job_type j = ty \<and> job_active j) s > 0), s))"

definition JobIsActiveForCollection :: "int \<Rightarrow> bool statement" where
  "JobIsActiveForCollection cid = sql (\<lambda>s.
     (Inr (count_jobs (\<lambda>j. job_type j = ''collection_scan'' \<and> related_id j = Some cid \<and> job_active j) s > 0), s))"

definition JobsResetStuck :: "unit statement" where
  "JobsResetStuck = sql (\<lambda>s. (Inr (), s\<lparr> jobs := map (\<lambda>j.
     if status j = Running then j\<lparr> status := Queued, started_at := None \<rparr> else j) (jobs s) \<rparr>))"

text \<open>\<open>SELECT id ... ORDER BY id LIMIT $2\<close>, then the update of those rows.\<close>

definition claimable :: "int \<Rightarrow> nat \<Rightarrow> db \<Rightarrow> int list" where
  "claimable parent limit s =
     take limit (sort (map job_id (filter (\<lambda>j. parent_job_id j = Some parent \<and> status j = Queued) (jobs s))))"

definition claim_row :: "db \<Rightarrow> job \<Rightarrow> job" where
  "claim_row s j = j\<lparr> status := Running, started_at := Some (clock s) \<rparr>"

definition JobClaimSubJobBatch :: "int \<Rightarrow> nat \<Rightarrow> job list statement" where
  "JobClaimSubJobBatch parent limit = sql (\<lambda>s.
     let ids = claimable parent limit s
     in (Inr (map (claim_row s) (filter (\<lambda>j. job_id j \<in> set ids) (jobs s))),
         s\<lparr> jobs := map (\<lambda>j. if job_id j \<in> set ids then claim_row s j else j) (jobs s) \<rparr>))"

definition JobSubJobCounts :: "int \<Rightarrow> (int \<times> int) statement" where
  "JobSubJobCounts parent = sql (\<lambda>s.
     (Inr (count_jobs (\<lambda>j. parent_job_id j = Some parent \<and> status j = Done) s,
           count_jobs (\<lambda>j. parent_job_id j = Some parent) s), s))"

text \<open>\<open>ORDER BY queued_at DESC LIMIT $1 OFFSET $2\<close>; Postgres refuses a negative limit or
  offset, which is an error of the statement.\<close>

definition page_rows :: "int \<Rightarrow> int \<Rightarrow> job list \<Rightarrow> db_error + job list" where
  "page_rows limit offset rows =
     (if limit < 0 \<or> offset < 0 then Inl BadQuery
      else Inr (take (nat limit) (drop (nat offset) (sort_key (\<lambda>j. - queued_at j) rows))))"

definition JobListTopLevel :: "int \<Rightarrow> int \<Rightarrow> bool \<Rightarrow> (job list \<times> int) statement" where
  "JobListTopLevel page limit includeInactive =
     (let offset = wrap64 (wrap64 (page - 1) * limit);
          listed = (\<lambda>j. parent_job_id j = None \<and> (includeInactive \<or> status j \<in> set nonTerminalStatuses))
      in call_or (sql (\<lambda>s. (Inr (count_jobs listed s), s)))
           (\<lambda>e s. (Inl e, s))
           (\<lambda>total. call_or (sql (\<lambda>s. (page_rows limit offset (filter listed (jobs s)), s)))
             (\<lambda>e s. (Inl e, s))
             (\<lambda>rows s. (Inr (rows, total), s))))"

definition JobGetTranscodeParent :: "int statement" where
  "JobGetTranscodeParent = sql (\<lambda>s.
     (case sort (map job_id (filter (\<lambda>j. job_type j = ''video_transcode'' \<and> job_active j) (jobs s))) of
        [] \<Rightarrow> Inl NoRows
      | i # _ \<Rightarrow> Inr i, s))"

lemmas job_statements [repo_defs] = JobCreate_def JobCreateSubJob_def JobCreateSubJobBatch_def JobMarkRunning_def
  JobMarkRunningSubJobs_def JobUpdateStep_def JobUpdateProgress_def JobMarkDone_def JobMarkFailed_def
  JobDelete_def JobGet_def JobIsActive_def JobIsActiveByType_def JobIsActiveForCollection_def
  JobsResetStuck_def JobClaimSubJobBatch_def JobSubJobCounts_def JobGetTranscodeParent_def

section \<open>The shape of the table\<close>

definition jobs_wf :: "db \<Rightarrow> bool" where
  "jobs_wf s \<longleftrightarrow> sorted_wrt (<) (map job_id (jobs s)) \<and> (\<forall>j \<in> set (jobs s). job_id j < next_job s)
     \<and> (\<forall>j \<in> set (jobs s). \<forall>p. parent_job_id j = Some p \<longrightarrow>
          (\<exists>q \<in> set (jobs s). job_id q = p \<and> parent_job_id q = None))"

definition children :: "int \<Rightarrow> db \<Rightarrow> job list" where
  "children i s = filter (\<lambda>j. parent_job_id j = Some i) (jobs s)"

definition top_level :: "int \<Rightarrow> db \<Rightarrow> bool" where
  "top_level i s \<longleftrightarrow> (\<exists>q \<in> set (jobs s). job_id q = i \<and> parent_job_id q = None)"

lemma faults_jobs [simp]: "jobs_wf (s\<lparr>faults := fs\<rparr>) \<longleftrightarrow> jobs_wf s" "jobs_wf (s\<lparr>clock := t\<rparr>) \<longleftrightarrow> jobs_wf s"
  by (simp_all add: jobs_wf_def)

lemma jobs_wf_distinct: "jobs_wf s \<Longrightarrow> distinct (map job_id (jobs s))"
  by (simp add: jobs_wf_def strict_sorted_iff)

lemma job_eqI: "jobs_wf s \<Longrightarrow> j \<in> set (jobs s) \<Longrightarrow> k \<in> set (jobs s) \<Longrightarrow> job_id j = job_id k \<Longrightarrow> j = k"
  by (auto simp: distinct_map dest!: jobs_wf_distinct dest: inj_onD)

lemma find_job_Some_iff:
  assumes "jobs_wf s"
  shows "find_job i s = Some j \<longleftrightarrow> j \<in> set (jobs s) \<and> job_id j = i"
proof
  assume "find_job i s = Some j"
  then show "j \<in> set (jobs s) \<and> job_id j = i" by (auto simp: find_job_def dest: find_SomeD)
next
  assume *: "j \<in> set (jobs s) \<and> job_id j = i"
  have "distinct (map job_id (jobs s))" by (rule jobs_wf_distinct [OF assms])
  then show "find_job i s = Some j" using find_unique [of job_id "jobs s" j] * by (simp add: find_job_def)
qed

text \<open>The shape depends on ids and parents only, so rewriting other columns keeps it.\<close>

definition job_links :: "job list \<Rightarrow> (int \<times> int option) list" where
  "job_links js = map (\<lambda>j. (job_id j, parent_job_id j)) js"

lemma jobs_wf_links:
  "jobs_wf s \<longleftrightarrow> sorted_wrt (<) (map fst (job_links (jobs s))) \<and> (\<forall>l \<in> set (job_links (jobs s)). fst l < next_job s)
     \<and> (\<forall>l \<in> set (job_links (jobs s)). \<forall>p. snd l = Some p \<longrightarrow> (p, None) \<in> set (job_links (jobs s)))"
  by (simp add: jobs_wf_def job_links_def o_def image_iff Bex_def conj_commute eq_commute [of _ "job_id _"]
      eq_commute [of None])

lemma jobs_wf_cong:
  "job_links (jobs s) = job_links (jobs t) \<Longrightarrow> next_job s = next_job t \<Longrightarrow> jobs_wf s = jobs_wf t"
  by (simp only: jobs_wf_links)

lemma job_links_map:
  assumes "\<And>j. job_id (f j) = job_id j \<and> parent_job_id (f j) = parent_job_id j"
  shows "job_links (map (\<lambda>j. if P j then f j else j) xs) = job_links xs"
  using assms by (induction xs) (simp_all add: job_links_def)

lemma jobs_wf_map:
  assumes "jobs_wf s" and "\<And>j. job_id (f j) = job_id j \<and> parent_job_id (f j) = parent_job_id j"
  shows "jobs_wf (s\<lparr> jobs := map (\<lambda>j. if P j then f j else j) (jobs s) \<rparr>)"
  using assms(1) job_links_map [OF assms(2), of P "jobs s"]
  by (subst jobs_wf_cong [of _ s]) simp_all

lemma jobs_wf_update:
  assumes "jobs_wf s" and "\<And>j. job_id (f j) = job_id j \<and> parent_job_id (f j) = parent_job_id j"
  shows "jobs_wf (update_job i f s)"
  using jobs_wf_map [OF assms] by (simp add: update_job_def)

text \<open>Two levels: the rows below a set of sub-jobs are none, so a cascade stops there.\<close>

lemma tree_levels_leaf:
  assumes "children_of idf parf rows ids = []"
  shows "set (tree_levels idf parf rows n ids) = set ids"
proof (cases n)
  case (Suc m)
  have "tree_levels idf parf rows m [] = []" by (cases m) simp_all
  then show ?thesis using assms Suc by simp
qed simp

lemma children_of_children:
  assumes "jobs_wf s"
  shows "children_of job_id parent_job_id (jobs s) (map job_id (children i s)) = []"
proof -
  have False if r: "r \<in> set (jobs s)" and pr: "parent_job_id r = Some (job_id c)" and c: "c \<in> set (children i s)" for r c
  proof -
    obtain q where "q \<in> set (jobs s)" "job_id q = job_id c" "parent_job_id q = None"
      using assms r pr unfolding jobs_wf_def by blast
    moreover have "c \<in> set (jobs s)" "parent_job_id c = Some i" using c by (simp_all add: children_def)
    ultimately show False using job_eqI [OF assms] by force
  qed
  then have "set (children_of job_id parent_job_id (jobs s) (map job_id (children i s))) = {}"
    unfolding children_of_set by auto
  then show ?thesis by simp
qed

lemma delete_children:
  assumes "jobs_wf s"
  shows "delete_jobs (map job_id (children i s)) s = s\<lparr> jobs := filter (\<lambda>j. parent_job_id j \<noteq> Some i) (jobs s) \<rparr>"
proof -
  have "job_id j \<notin> set (map job_id (children i s)) \<longleftrightarrow> parent_job_id j \<noteq> Some i" if "j \<in> set (jobs s)" for j
    using that job_eqI [OF assms] by (fastforce simp: children_def)
  then show ?thesis
    unfolding delete_jobs_def Let_def tree_levels_leaf [OF children_of_children [OF assms]]
    by (simp cong: filter_cong)
qed

definition mark_done_row :: "int \<Rightarrow> db \<Rightarrow> job \<Rightarrow> job" where
  "mark_done_row i s j = (if job_id j = i then j\<lparr> status := Done, completed_at := Some (clock s) \<rparr> else j)"

lemma JobMarkDone_jobs:
  assumes "jobs_wf s" and "faults s = []"
  shows "JobMarkDone i s = (Inr (), s\<lparr> jobs := map (mark_done_row i s)
    (filter (\<lambda>j. parent_job_id j \<noteq> Some i) (jobs s)) \<rparr>)"
  using delete_children [OF assms(1), of i] assms(2)
  by (simp add: JobMarkDone_def Let_def update_job_def mark_done_row_def [abs_def] flip: children_def)

end
