(* ===== verification/Dispatcher.thy ===== *)
theory Dispatcher
  imports JobsRepo PauseGate
begin

text \<open>
  \<open>internal/jobs/dispatcher.go\<close> and \<open>jobs_common.go\<close>: the dispatcher runs one top-level job at
  a time, then its sub-jobs in batches. Its state extends the pause flag; \<open>d_world\<close> is
  whatever else a job handler can touch. Handlers are functions on the state that return an
  error message or None and the sub-jobs they buffered; the registry maps a job type to its
  metadata and handler. The goroutines of a batch are run one after the other, in the order
  the batch was claimed.
\<close>

section \<open>State\<close>

record JobMeta =
  Description :: string
  TotalSteps :: int
  SupportsSubjobs :: bool
  MaxConcurrency :: int

record queuedJob =
  q_id :: int
  q_type :: string

record exiftool = et_dead :: bool

text \<open>\<open>d_et_starts\<close> are the outcomes of the next attempts to start exiftool (none left: they
  succeed); \<open>d_cancelled\<close> is the state of the context the run loop was given.\<close>

record 'w dispatcher = pause_gate +
  d_db :: db
  d_queue :: "queuedJob list"
  d_wake :: bool
  d_et :: "exiftool option"
  d_et_starts :: "bool list"
  d_cancelled :: bool
  d_world :: 'w

text \<open>\<open>JobContext\<close> as the dispatcher builds it: the job, the exiftool process, and whether the
  handler can reach the dispatcher. The buffer of sub-jobs is a result of the handler.\<close>

record job_ctx =
  jc_job :: job
  jc_et :: "exiftool option"
  jc_dispatcher :: bool

type_synonym 'w handler = "job_ctx \<Rightarrow> 'w dispatcher \<Rightarrow> (string option \<times> SubJobSpec list) \<times> 'w dispatcher"
type_synonym 'w registry = "string \<Rightarrow> (JobMeta \<times> 'w handler) option"

definition NewDispatcher :: "db \<Rightarrow> bool list \<Rightarrow> 'w \<Rightarrow> 'w dispatcher" where
  "NewDispatcher s starts w = \<lparr> paused = False, d_db = s, d_queue = [], d_wake = False, d_et = None,
     d_et_starts = starts, d_cancelled = False, d_world = w \<rparr>"

definition Register :: "string \<Rightarrow> JobMeta \<Rightarrow> 'w handler \<Rightarrow> 'w registry \<Rightarrow> 'w registry" where
  "Register ty meta h hs = hs(ty \<mapsto> (meta, h))"

definition GetMeta :: "'w registry \<Rightarrow> string \<Rightarrow> JobMeta option" where
  "GetMeta hs ty = map_option fst (hs ty)"

text \<open>A statement of the repository on the dispatcher's database.\<close>

definition on_db :: "'a statement \<Rightarrow> 'w dispatcher \<Rightarrow> (db_error + 'a) \<times> 'w dispatcher" where
  "on_db stmt d = (let (r, s) = stmt (d_db d) in (r, d\<lparr> d_db := s \<rparr>))"

section \<open>The queue\<close>

text \<open>The channel has room for one signal.\<close>

definition TriggerImmediately :: "'w dispatcher \<Rightarrow> 'w dispatcher" where
  "TriggerImmediately d = d\<lparr> d_wake := True \<rparr>"

definition Enqueue ::
  "string \<Rightarrow> int option \<Rightarrow> string option \<Rightarrow> 'w dispatcher \<Rightarrow> (db_error + int) \<times> 'w dispatcher" where
  "Enqueue ty rid rty = call_or (on_db (JobCreate ty rid rty None))
     (\<lambda>e d. (Inl e, d))
     (\<lambda>i d. (Inr i, TriggerImmediately (d\<lparr> d_queue := d_queue d @ [\<lparr> q_id = i, q_type = ty \<rparr>] \<rparr>)))"

definition findOrCreateTranscodeParent :: "'w dispatcher \<Rightarrow> (db_error + int) \<times> 'w dispatcher" where
  "findOrCreateTranscodeParent = call_or (on_db JobGetTranscodeParent)
     (\<lambda>e. if e \<noteq> NoRows then (\<lambda>d. (Inl e, d))
          else call_or (on_db (JobCreate ''video_transcode'' None None None))
            (\<lambda>e d. (Inl e, d))
            (\<lambda>i d. (Inr i, d\<lparr> d_queue := d_queue d @ [\<lparr> q_id = i, q_type = ''video_transcode'' \<rparr>] \<rparr>)))
     (\<lambda>i d. (Inr i, d))"

definition AttachTranscodeSubJob :: "job_ctx \<Rightarrow> int \<Rightarrow> 'w dispatcher \<Rightarrow> 'w dispatcher" where
  "AttachTranscodeSubJob jc item d =
     (if \<not> jc_dispatcher jc then d
      else snd (call_or findOrCreateTranscodeParent
        (\<lambda>e d. ((), d))
        (\<lambda>parent d. ((), snd (on_db (JobCreate ''video_transcode_item'' (Some item) (Some ''media_item'') (Some parent)) d)))
        d))"

definition SetStep :: "job_ctx \<Rightarrow> int \<Rightarrow> 'w dispatcher \<Rightarrow> job_ctx \<times> 'w dispatcher" where
  "SetStep jc n d =
     (jc\<lparr> jc_job := (jc_job jc)\<lparr> current_step := n \<rparr> \<rparr>, snd (on_db (JobUpdateStep (job_id (jc_job jc)) n) d))"

text \<open>\<open>AddSubJob\<close> and \<open>SubJobCount\<close> on the buffer.\<close>

definition AddSubJob :: "string \<Rightarrow> int option \<Rightarrow> string option \<Rightarrow> SubJobSpec list \<Rightarrow> SubJobSpec list" where
  "AddSubJob ty rid rty buf =
     buf @ [\<lparr> spec_related_id = rid, spec_related_type = rty, spec_type = ty \<rparr>]"

definition SubJobCount :: "SubJobSpec list \<Rightarrow> int" where
  "SubJobCount buf = int (length buf)"

text \<open>\<open>FlushSubJobs\<close>: chunks of 500; a chunk that fails is skipped.\<close>

function flush_chunks :: "int \<Rightarrow> SubJobSpec list \<Rightarrow> int \<Rightarrow> 'w dispatcher \<Rightarrow> int \<times> 'w dispatcher" where
  "flush_chunks parent buf acc d =
     (if buf = [] then (acc, d)
      else
        let (r, d') = on_db (JobCreateSubJobBatch parent (take 500 buf)) d in
        (case r of
           Inl _ \<Rightarrow> flush_chunks parent (drop 500 buf) acc d'
         | Inr n \<Rightarrow> flush_chunks parent (drop 500 buf) (acc + n) d'))"
  by pat_completeness auto
termination
  by (relation "measure (\<lambda>(p, buf, acc, d). length buf)") auto

declare flush_chunks.simps [simp del]

definition FlushSubJobs :: "job_ctx \<Rightarrow> SubJobSpec list \<Rightarrow> 'w dispatcher \<Rightarrow> int \<times> 'w dispatcher" where
  "FlushSubJobs jc buf d = flush_chunks (job_id (jc_job jc)) buf 0 d"

definition loadable :: "job \<Rightarrow> bool" where
  "loadable j \<longleftrightarrow> (status j = Queued \<or> status j = RunningSubJobs) \<and> parent_job_id j = None"

definition load_rows :: "db \<Rightarrow> queuedJob list" where
  "load_rows s = map (\<lambda>j. \<lparr> q_id = job_id j, q_type = job_type j \<rparr>)
     (sort_key queued_at (filter loadable (jobs s)))"

text \<open>\<open>existing\<close> is the set of ids in the queue when the load starts.\<close>

definition loadFromDB :: "'w dispatcher \<Rightarrow> 'w dispatcher" where
  "loadFromDB d = snd (call_or (on_db (sql (\<lambda>s. (Inr (load_rows s), s))))
     (\<lambda>e d. ((), d))
     (\<lambda>rows d.
        let existing = map q_id (d_queue d)
        in ((), d\<lparr> d_queue := d_queue d @ filter (\<lambda>q. q_id q \<notin> set existing) rows \<rparr>))
     d)"

fun split_first :: "('a \<Rightarrow> bool) \<Rightarrow> 'a list \<Rightarrow> ('a \<times> 'a list) option" where
  "split_first P [] = None"
| "split_first P (x # xs) =
     (if P x then Some (x, xs) else map_option (\<lambda>(y, ys). (y, x # ys)) (split_first P xs))"

definition is_transcode :: "queuedJob \<Rightarrow> bool" where
  "is_transcode q \<longleftrightarrow> q_type q = ''video_transcode''"

definition pickNext :: "'w dispatcher \<Rightarrow> queuedJob option \<times> 'w dispatcher" where
  "pickNext d =
     (if d_queue d = [] then (None, d)
      else case split_first (\<lambda>q. \<not> is_transcode q) (d_queue d) of
        Some (q, rest) \<Rightarrow> (Some q, d\<lparr> d_queue := rest \<rparr>)
      | None \<Rightarrow> (Some (hd (d_queue d)), d\<lparr> d_queue := tl (d_queue d) \<rparr>))"

definition hasNonTranscodeJobs :: "'w dispatcher \<Rightarrow> bool" where
  "hasNonTranscodeJobs d \<longleftrightarrow> list_ex (\<lambda>q. \<not> is_transcode q) (d_queue d)"

section \<open>The exiftool process\<close>

definition getExiftool :: "'w dispatcher \<Rightarrow> (string + exiftool) \<times> 'w dispatcher" where
  "getExiftool d =
     (let d1 = (case d_et d of Some et \<Rightarrow> if et_dead et then d\<lparr> d_et := None \<rparr> else d | None \<Rightarrow> d) in
      case d_et d1 of
        Some et \<Rightarrow> (Inr et, d1)
      | None \<Rightarrow>
          (case d_et_starts d1 of
             False # rest \<Rightarrow> (Inl ''start exiftool'', d1\<lparr> d_et_starts := rest \<rparr>)
           | True # rest \<Rightarrow>
               (Inr \<lparr> et_dead = False \<rparr>, d1\<lparr> d_et := Some \<lparr> et_dead = False \<rparr>, d_et_starts := rest \<rparr>)
           | [] \<Rightarrow> (Inr \<lparr> et_dead = False \<rparr>, d1\<lparr> d_et := Some \<lparr> et_dead = False \<rparr> \<rparr>)))"

definition closeExiftool :: "'w dispatcher \<Rightarrow> 'w dispatcher" where
  "closeExiftool d = (case d_et d of Some _ \<Rightarrow> d\<lparr> d_et := None \<rparr> | None \<Rightarrow> d)"

section \<open>Running jobs\<close>

definition ignore_db :: "'a statement \<Rightarrow> 'w dispatcher \<Rightarrow> 'w dispatcher" where
  "ignore_db stmt d = snd (on_db stmt d)"

definition runSubJob :: "'w registry \<Rightarrow> exiftool option \<Rightarrow> job \<Rightarrow> 'w dispatcher \<Rightarrow> 'w dispatcher" where
  "runSubJob hs et j d =
     (case hs (job_type j) of
        None \<Rightarrow> ignore_db (JobMarkFailed (job_id j) (''no handler for type: '' @ job_type j)) d
      | Some (_, h) \<Rightarrow>
          (case h \<lparr> jc_job = j, jc_et = et, jc_dispatcher = False \<rparr> d of
             ((Some msg, _), d1) \<Rightarrow> ignore_db (JobMarkFailed (job_id j) msg) d1
           | ((None, _), d1) \<Rightarrow> ignore_db (JobMarkDone (job_id j)) d1))"

text \<open>\<open>executeSubJobs\<close>: one unfolding of the loop per unit of fuel; None is a run that has not
  ended within the fuel.\<close>

fun executeSubJobs :: "'w registry \<Rightarrow> nat \<Rightarrow> job \<Rightarrow> 'w dispatcher \<Rightarrow> 'w dispatcher option" where
  "executeSubJobs hs 0 parent d = None"
| "executeSubJobs hs (Suc fuel) parent d =
     (if d_cancelled d then Some d
      else if job_type parent = ''video_transcode'' \<and> hasNonTranscodeJobs d then
        Some (TriggerImmediately
          (d\<lparr> d_queue := \<lparr> q_id = job_id parent, q_type = job_type parent \<rparr> # d_queue d \<rparr>))
      else
        case on_db (JobClaimSubJobBatch (job_id parent) 100) d of
          (Inl _, d1) \<Rightarrow> Some (ignore_db (JobMarkDone (job_id parent)) d1)
        | (Inr batch, d1) \<Rightarrow>
            if batch = [] then Some (ignore_db (JobMarkDone (job_id parent)) d1)
            else
              let (r, d2) = getExiftool d1;
                  et = (case r of Inl _ \<Rightarrow> None | Inr et \<Rightarrow> Some et);
                  d3 = fold (runSubJob hs et) batch d2;
                  d4 = (if job_type parent = ''video_transcode''
                        then ignore_db (JobSubJobCounts (job_id parent)) d3 else d3)
              in executeSubJobs hs fuel parent d4)"

definition processNext :: "'w registry \<Rightarrow> nat \<Rightarrow> 'w dispatcher \<Rightarrow> 'w dispatcher option" where
  "processNext hs fuel d =
     (if paused d then Some d
      else case pickNext d of
        (None, d) \<Rightarrow> Some (closeExiftool d)
      | (Some q, d) \<Rightarrow>
      (case on_db (JobGet (q_id q)) d of
        (Inl _, d) \<Rightarrow> Some d
      | (Inr dbJob, d) \<Rightarrow>
        if status dbJob = RunningSubJobs then
          (case hs (job_type dbJob) of None \<Rightarrow> Some d | Some _ \<Rightarrow> executeSubJobs hs fuel dbJob d)
        else if status dbJob \<noteq> Queued then Some d
        else
          (case hs (job_type dbJob) of
             None \<Rightarrow> Some (ignore_db (JobMarkFailed (job_id dbJob)
                       (''no handler registered for job type: '' @ job_type dbJob)) d)
           | Some (meta, h) \<Rightarrow>
          (case on_db (JobMarkRunning (job_id dbJob)) d of
             (Inl _, d) \<Rightarrow> Some d
           | (Inr _, d) \<Rightarrow>
             let dbJob = dbJob\<lparr> status := Running \<rparr> in
          (case getExiftool d of
             (Inl msg, d) \<Rightarrow> Some (ignore_db (JobMarkFailed (job_id dbJob) (''exiftool init: '' @ msg)) d)
           | (Inr et, d) \<Rightarrow>
             let jc = \<lparr> jc_job = dbJob, jc_et = Some et, jc_dispatcher = True \<rparr> in
          (case h jc d of
             ((Some msg, _), d) \<Rightarrow> Some (ignore_db (JobMarkFailed (job_id dbJob) msg) d)
           | ((None, buf), d) \<Rightarrow>
             let (count, d) = FlushSubJobs jc buf d in
             if count > 0 \<and> SupportsSubjobs meta then
               executeSubJobs hs fuel dbJob (ignore_db (JobMarkRunningSubJobs (job_id dbJob)) d)
             else Some (ignore_db (JobMarkDone (job_id dbJob)) d)))))))"

text \<open>One round of the run loop: a signal or a tick of the poll timer.\<close>

datatype loop_event = Woken | Polled

definition run_event :: "'w registry \<Rightarrow> nat \<Rightarrow> loop_event \<Rightarrow> 'w dispatcher \<Rightarrow> 'w dispatcher option" where
  "run_event hs fuel ev d =
     (if d_cancelled d then Some (closeExiftool d)
      else case ev of
        Woken \<Rightarrow> processNext hs fuel (d\<lparr> d_wake := False \<rparr>)
      | Polled \<Rightarrow> processNext hs fuel (loadFromDB d))"

definition is_terminal :: "job_status \<Rightarrow> bool" where
  "is_terminal st \<longleftrightarrow> st = Done \<or> st = Failed"

text \<open>\<open>PollStatus\<close>: one look at the job per element of the list of states it is polled in;
  None when the context ends first.\<close>

fun PollStatus :: "int \<Rightarrow> db list \<Rightarrow> (db_error + job) option" where
  "PollStatus i [] = None"
| "PollStatus i (s # ss) =
     (case fst (JobGet i s) of
        Inl e \<Rightarrow> Some (Inl e)
      | Inr j \<Rightarrow> if is_terminal (status j) then Some (Inr j) else PollStatus i ss)"

end
