(* ===== verification/DispatcherProps.thy ===== *)
theory DispatcherProps
  imports Dispatcher "HOL-Library.Multiset"
begin

text \<open>
  What is proved of the dispatcher: the order of the queue, the recovery from the database,
  the pause, the run of a parent's sub-jobs, and the loss of transcodes attached to a parent
  that is still queued.
\<close>

section \<open>The queue\<close>

lemma split_first_None: "split_first P xs = None \<longleftrightarrow> (\<forall>x \<in> set xs. \<not> P x)"
  by (induction xs) auto

lemma split_first_Some:
  "split_first P xs = Some (y, ys) \<Longrightarrow>
    \<exists>as bs. xs = as @ y # bs \<and> ys = as @ bs \<and> P y \<and> (\<forall>a \<in> set as. \<not> P a)"
proof (induction xs arbitrary: ys)
  case (Cons x xs)
  show ?case
  proof (cases "P x")
    case True
    then have "y = x \<and> ys = xs" using Cons.prems by simp
    then show ?thesis using True by (intro exI [of _ "[]"] exI [of _ xs]) simp
  next
    case False
    then obtain zs where zs: "split_first P xs = Some (y, zs)" "ys = x # zs"
      using Cons.prems by (auto split: option.splits)
    obtain as bs where "xs = as @ y # bs \<and> zs = as @ bs \<and> P y \<and> (\<forall>a \<in> set as. \<not> P a)"
      using Cons.IH [OF zs(1)] by blast
    then show ?thesis using zs(2) False by (intro exI [of _ "x # as"] exI [of _ bs]) simp
  qed
qed simp

lemma pickNext_spec:
  assumes "pickNext d = (Some q, d')"
  shows "\<exists>as bs. d_queue d = as @ q # bs \<and> d' = d\<lparr> d_queue := as @ bs \<rparr>
    \<and> (\<forall>a \<in> set as. is_transcode a) \<and> (is_transcode q \<longrightarrow> as = [] \<and> (\<forall>b \<in> set bs. is_transcode b))"
proof (cases "split_first (\<lambda>q. \<not> is_transcode q) (d_queue d)")
  case None
  moreover have "d_queue d \<noteq> []" using assms by (auto simp: pickNext_def)
  ultimately have "q = hd (d_queue d)" "d' = d\<lparr> d_queue := tl (d_queue d) \<rparr>" "d_queue d = q # tl (d_queue d)"
    using assms by (auto simp: pickNext_def)
  moreover have "\<forall>x \<in> set (d_queue d). is_transcode x" using None by (simp add: split_first_None)
  ultimately show ?thesis by (intro exI [of _ "[]"] exI [of _ "tl (d_queue d)"]) (auto dest: list.set_sel(2) [OF \<open>d_queue d \<noteq> []\<close>])
next
  case (Some p)
  obtain y ys where p: "p = (y, ys)" by (cases p)
  have "q = y" "d' = d\<lparr> d_queue := ys \<rparr>"
    using assms Some p by (auto simp: pickNext_def split: if_splits)
  moreover obtain as bs where "d_queue d = as @ y # bs" "ys = as @ bs" "\<not> is_transcode y"
      "\<forall>a \<in> set as. is_transcode a"
    using split_first_Some [OF Some [unfolded p]] by auto
  ultimately show ?thesis by (intro exI [of _ as] exI [of _ bs]) simp
qed

section \<open>Statements on the dispatcher\<close>

lemma on_db_healthy:
  assumes "faults (d_db d) = []"
  shows "on_db (sql stmt) d = (fst (stmt (d_db d)), d\<lparr> d_db := snd (stmt (d_db d)) \<rparr>)"
  using assms by (simp add: on_db_def split_beta)

lemma getExiftool_ok:
  assumes "d_et_starts d = []"
  obtains e where "getExiftool d = (Inr \<lparr> et_dead = False \<rparr>, d\<lparr> d_et := Some \<lparr> et_dead = False \<rparr> \<rparr>)"
proof -
  have "et = \<lparr> et_dead = False \<rparr>" if "\<not> et_dead et" for et :: exiftool using that by (cases et) simp
  then show ?thesis using assms that by (cases "d_et d") (auto simp: getExiftool_def Let_def)
qed

section \<open>Running the sub-jobs of a parent\<close>

text \<open>A handler that works on the world only.\<close>

definition world_handler :: "(job_ctx \<Rightarrow> 'w \<Rightarrow> string option \<times> 'w) \<Rightarrow> 'w handler" where
  "world_handler f jc d = (let (e, w) = f jc (d_world d) in ((e, []), d\<lparr> d_world := w \<rparr>))"

definition queued_children :: "int \<Rightarrow> db \<Rightarrow> job list" where
  "queued_children p s = filter (\<lambda>j. parent_job_id j = Some p \<and> status j = Queued) (jobs s)"

text \<open>From \<open>s\<close> to \<open>s'\<close> only rows with an id in \<open>A\<close> changed, in columns other than id and
  parent, and none of them is queued afterwards.\<close>

definition row_touch :: "int set \<Rightarrow> job \<Rightarrow> job \<Rightarrow> bool" where
  "row_touch A j j' \<longleftrightarrow> job_id j' = job_id j \<and> parent_job_id j' = parent_job_id j
     \<and> (if job_id j \<in> A then status j' \<noteq> Queued else j' = j)"

definition touched :: "int set \<Rightarrow> db \<Rightarrow> db \<Rightarrow> bool" where
  "touched A s s' \<longleftrightarrow> list_all2 (row_touch A) (jobs s) (jobs s')
     \<and> next_job s' = next_job s \<and> faults s' = faults s \<and> clock s' = clock s"

lemma row_touch_trans: "row_touch A j j' \<Longrightarrow> row_touch B j' j'' \<Longrightarrow> row_touch (A \<union> B) j j''"
  by (auto simp: row_touch_def split: if_splits)

lemma touched_refl: "touched {} s s"
  by (simp add: touched_def list_all2_same row_touch_def)

lemma touched_trans: "touched A s s' \<Longrightarrow> touched B s' s'' \<Longrightarrow> touched (A \<union> B) s s''"
  unfolding touched_def using list_all2_trans [of "row_touch A" "row_touch B" "row_touch (A \<union> B)"] row_touch_trans
  by fastforce

lemma touched_wf:
  assumes t: "touched A s s'" and wf: "jobs_wf s"
  shows "jobs_wf s'"
proof -
  have "list_all2 (row_touch A) xs ys \<Longrightarrow> job_links ys = job_links xs" for xs ys
    by (induction rule: list_all2_induct) (simp_all add: job_links_def row_touch_def)
  then have "job_links (jobs s') = job_links (jobs s)" using t by (simp add: touched_def)
  then show "jobs_wf s'" using wf t jobs_wf_cong [of s' s] by (simp add: touched_def)
qed

lemma touched_rows:
  assumes "touched A s s'" and "A \<subseteq> job_id ` set (children p s)" and "jobs_wf s"
  shows "filter (\<lambda>j. parent_job_id j \<noteq> Some p) (jobs s') = filter (\<lambda>j. parent_job_id j \<noteq> Some p) (jobs s)"
    and "queued_children p s' = filter (\<lambda>j. job_id j \<notin> A) (queued_children p s)"
proof -
  have child: "parent_job_id j = Some p" if j: "j \<in> set (jobs s)" and A: "job_id j \<in> A" for j
  proof -
    obtain c where "c \<in> set (children p s)" "job_id c = job_id j" using A assms(2) by auto
    then show ?thesis using job_eqI [OF assms(3) j, of c] by (simp add: children_def)
  qed
  have keep: "filter (\<lambda>j. parent_job_id j \<noteq> Some p) ys = filter (\<lambda>j. parent_job_id j \<noteq> Some p) xs"
    if "list_all2 (row_touch A) xs ys" "\<forall>j \<in> set xs. job_id j \<in> A \<longrightarrow> parent_job_id j = Some p" for xs ys
    using that by (induction rule: list_all2_induct) (auto simp: row_touch_def)
  have queued: "filter (\<lambda>j. parent_job_id j = Some p \<and> status j = Queued) ys =
      filter (\<lambda>j. job_id j \<notin> A) (filter (\<lambda>j. parent_job_id j = Some p \<and> status j = Queued) xs)"
    if "list_all2 (row_touch A) xs ys" for xs ys
    using that by (induction rule: list_all2_induct) (auto simp: row_touch_def)
  show "filter (\<lambda>j. parent_job_id j \<noteq> Some p) (jobs s') = filter (\<lambda>j. parent_job_id j \<noteq> Some p) (jobs s)"
    by (rule keep) (use assms(1) child in \<open>auto simp: touched_def\<close>)
  show "queued_children p s' = filter (\<lambda>j. job_id j \<notin> A) (queued_children p s)"
    unfolding queued_children_def by (rule queued) (use assms(1) in \<open>simp add: touched_def\<close>)
qed

subsection \<open>One batch\<close>

lemma row_touch_map:
  assumes "\<And>j. job_id j \<in> A \<Longrightarrow> job_id (f j) = job_id j \<and> parent_job_id (f j) = parent_job_id j \<and> status (f j) \<noteq> Queued"
  shows "list_all2 (row_touch A) xs (map (\<lambda>j. if job_id j \<in> A then f j else j) xs)"
  using assms by (induction xs) (auto simp: row_touch_def)

lemma touched_update:
  assumes "\<And>j. job_id (f j) = job_id j \<and> parent_job_id (f j) = parent_job_id j \<and> status (f j) \<noteq> Queued"
  shows "touched {i} s (update_job i f s)"
  using row_touch_map [of "{i}" f "jobs s"] assms by (simp add: touched_def update_job_def)

lemma JobMarkFailed_touched:
  assumes "faults s = []"
  shows "fst (JobMarkFailed i msg s) = Inr ()" and "touched {i} s (snd (JobMarkFailed i msg s))"
  using assms touched_update by (simp_all add: JobMarkFailed_def)

text \<open>Marking a sub-job done deletes nothing, since it has no sub-jobs.\<close>

lemma JobMarkDone_touched:
  assumes "jobs_wf s" and "faults s = []" and "c \<in> set (children p s)"
  shows "touched {job_id c} s (snd (JobMarkDone (job_id c) s))"
proof -
  have "parent_job_id j \<noteq> Some (job_id c)" if j: "j \<in> set (jobs s)" for j
  proof
    assume "parent_job_id j = Some (job_id c)"
    then have "job_id j \<in> set (children_of job_id parent_job_id (jobs s) (map job_id (children p s)))"
      using j assms(3) by (auto simp: children_of_set)
    then show False using children_of_children [OF assms(1)] by simp
  qed
  then have "filter (\<lambda>j. parent_job_id j \<noteq> Some (job_id c)) (jobs s) = jobs s" by (simp add: filter_id_conv)
  then have "snd (JobMarkDone (job_id c) s) = s\<lparr> jobs := map (mark_done_row (job_id c) s) (jobs s) \<rparr>"
    using JobMarkDone_jobs [OF assms(1,2)] by simp
  moreover have "list_all2 (row_touch {job_id c}) (jobs s) (map (mark_done_row (job_id c) s) (jobs s))"
    by (auto simp: list_all2_conv_all_nth row_touch_def mark_done_row_def)
  ultimately show ?thesis by (simp add: touched_def)
qed

lemma touched_children:
  assumes "touched A s s'" and "jobs_wf s"
  shows "map job_id (children p s') = map job_id (children p s)"
proof -
  have "map job_id (filter (\<lambda>j. parent_job_id j = Some p) ys) = map job_id (filter (\<lambda>j. parent_job_id j = Some p) xs)"
    if "list_all2 (row_touch A) xs ys" for xs ys
    using that by (induction rule: list_all2_induct) (auto simp: row_touch_def)
  then show ?thesis using assms(1) by (simp add: children_def touched_def)
qed

text \<open>What the theorem asks of the registry and the state: handlers that work on the world, and
  a database and exiftool that do not fail.\<close>

definition sub_ctx :: "job \<Rightarrow> job_ctx" where
  "sub_ctx c = \<lparr> jc_job = c, jc_et = Some \<lparr> et_dead = False \<rparr>, jc_dispatcher = False \<rparr>"

definition sub_step :: "(string \<Rightarrow> job_ctx \<Rightarrow> 'w \<Rightarrow> string option \<times> 'w) \<Rightarrow> job \<Rightarrow> 'w \<Rightarrow> 'w" where
  "sub_step f c w = snd (f (job_type c) (sub_ctx c) w)"

definition handles :: "'w registry \<Rightarrow> (string \<Rightarrow> job_ctx \<Rightarrow> 'w \<Rightarrow> string option \<times> 'w) \<Rightarrow> job list \<Rightarrow> bool" where
  "handles hs f cs \<longleftrightarrow> (\<forall>c \<in> set cs. \<exists>meta. hs (job_type c) = Some (meta, world_handler (f (job_type c))))"

definition healthy :: "'w dispatcher \<Rightarrow> bool" where
  "healthy d \<longleftrightarrow> jobs_wf (d_db d) \<and> faults (d_db d) = [] \<and> d_et_starts d = [] \<and> \<not> d_cancelled d"

lemma runSubJob_spec:
  assumes "healthy d" and "handles hs f [c]" and "job_id c \<in> job_id ` set (children p (d_db d))"
  obtains s' where "runSubJob hs (Some \<lparr> et_dead = False \<rparr>) c d = d\<lparr> d_db := s', d_world := sub_step f c (d_world d) \<rparr>"
    and "touched {job_id c} (d_db d) s'"
proof -
  let ?s = "d_db d"
  have h: "jobs_wf ?s" "faults ?s = []" using assms(1) by (simp_all add: healthy_def)
  obtain meta where reg: "hs (job_type c) = Some (meta, world_handler (f (job_type c)))"
    using assms(2) by (auto simp: handles_def)
  obtain c' where c': "c' \<in> set (children p ?s)" "job_id c' = job_id c" using assms(3) by auto
  obtain e w where f: "f (job_type c) (sub_ctx c) (d_world d) = (e, w)" by (metis surj_pair)
  define s' where "s' = (case e of Some msg \<Rightarrow> snd (JobMarkFailed (job_id c) msg ?s)
      | None \<Rightarrow> snd (JobMarkDone (job_id c) ?s))"
  have "runSubJob hs (Some \<lparr> et_dead = False \<rparr>) c d = d\<lparr> d_db := s', d_world := sub_step f c (d_world d) \<rparr>"
    using f by (simp add: runSubJob_def reg world_handler_def sub_ctx_def sub_step_def ignore_db_def
        on_db_def split_beta s'_def split: option.split)
  moreover have "touched {job_id c} ?s s'"
    using JobMarkDone_touched [OF h c'(1)] JobMarkFailed_touched(2) [OF h(2)] c'(2)
    by (simp add: s'_def split: option.split)
  ultimately show ?thesis by (rule that)
qed

lemma healthy_touched:
  assumes "healthy d" and "touched A (d_db d) s'"
  shows "healthy (d\<lparr> d_db := s', d_world := w \<rparr>)"
proof -
  have "jobs_wf s'" by (rule touched_wf [OF assms(2)]) (use assms(1) in \<open>simp add: healthy_def\<close>)
  then show ?thesis using assms by (simp add: healthy_def touched_def)
qed

lemma run_batch_spec:
  assumes "healthy d" and "handles hs f cs" and "job_id ` set cs \<subseteq> job_id ` set (children p (d_db d))"
  obtains s' where "fold (runSubJob hs (Some \<lparr> et_dead = False \<rparr>)) cs d =
      d\<lparr> d_db := s', d_world := fold (sub_step f) cs (d_world d) \<rparr>"
    and "touched (job_id ` set cs) (d_db d) s'"
  using assms
proof (induction cs arbitrary: d thesis)
  case Nil
  show ?case by (rule Nil(1) [of "d_db d"]) (simp_all add: touched_refl)
next
  case (Cons c cs)
  have "handles hs f [c]" "handles hs f cs" using Cons.prems(3) by (simp_all add: handles_def)
  note h1 = this
  obtain s1 where s1: "runSubJob hs (Some \<lparr> et_dead = False \<rparr>) c d = d\<lparr> d_db := s1, d_world := sub_step f c (d_world d) \<rparr>"
    "touched {job_id c} (d_db d) s1"
    by (rule runSubJob_spec [OF Cons.prems(2) h1(1), of p]) (use Cons.prems(4) in auto)
  let ?d1 = "d\<lparr> d_db := s1, d_world := sub_step f c (d_world d) \<rparr>"
  have "jobs_wf (d_db d)" using Cons.prems(2) by (simp add: healthy_def)
  then have "map job_id (children p s1) = map job_id (children p (d_db d))"
    by (rule touched_children [OF s1(2)])
  then have "job_id ` set (children p s1) = job_id ` set (children p (d_db d))" by (metis set_map)
  then have "job_id ` set cs \<subseteq> job_id ` set (children p (d_db ?d1))" using Cons.prems(4) by simp
  from Cons.IH [OF _ healthy_touched [OF Cons.prems(2) s1(2)] h1(2) this]
  obtain s2 where s2: "fold (runSubJob hs (Some \<lparr> et_dead = False \<rparr>)) cs ?d1 =
      ?d1\<lparr> d_db := s2, d_world := fold (sub_step f) cs (d_world ?d1) \<rparr>" "touched (job_id ` set cs) (d_db ?d1) s2"
    by blast
  show ?case
  proof (rule Cons.prems(1))
    show "fold (runSubJob hs (Some \<lparr> et_dead = False \<rparr>)) (c # cs) d =
        d\<lparr> d_db := s2, d_world := fold (sub_step f) (c # cs) (d_world d) \<rparr>" using s1(1) s2(1) by simp
    show "touched (job_id ` set (c # cs)) (d_db d) s2" using touched_trans [OF s1(2)] s2(2) by fastforce
  qed
qed

subsection \<open>The loop\<close>

lemma sorted_job_ids:
  assumes "jobs_wf s"
  shows "sorted_wrt (<) (map job_id (filter P (jobs s)))"
  using assms by (simp add: jobs_wf_def sorted_wrt_map sorted_wrt_filter)

lemma filter_take_ids:
  assumes "distinct (map f xs)"
  shows "filter (\<lambda>x. f x \<in> set (take n (map f xs))) xs = take n xs"
    and "filter (\<lambda>x. f x \<notin> set (take n (map f xs))) xs = drop n xs"
proof -
  have split: "xs = take n xs @ drop n xs" by simp
  have notin: "f x \<notin> set (take n (map f xs))" if "x \<in> set (drop n xs)" for x
    using assms that by (metis append_take_drop_id disjoint_iff distinct_append drop_map image_eqI set_map)
  have app: "filter P xs = filter P (take n xs) @ filter P (drop n xs)" for P
    by (metis append_take_drop_id filter_append)
  have "filter (\<lambda>x. f x \<in> set (take n (map f xs))) (drop n xs) = []"
    and "filter (\<lambda>x. f x \<notin> set (take n (map f xs))) (drop n xs) = drop n xs"
    using notin by (auto simp: filter_id_conv filter_empty_conv)
  moreover have "filter (\<lambda>x. f x \<in> set (take n (map f xs))) (take n xs) = take n xs"
    and "filter (\<lambda>x. f x \<notin> set (take n (map f xs))) (take n xs) = []"
    by (auto simp: take_map filter_id_conv filter_empty_conv)
  ultimately show "filter (\<lambda>x. f x \<in> set (take n (map f xs))) xs = take n xs"
    and "filter (\<lambda>x. f x \<notin> set (take n (map f xs))) xs = drop n xs"
    using app by simp_all
qed

text \<open>A batch is the first hundred queued sub-jobs, in the order of their ids.\<close>

lemma claim_batch:
  assumes wf: "jobs_wf s" and "faults s = []"
  obtains s' where "JobClaimSubJobBatch p n s = (Inr (map (claim_row s) (take n (queued_children p s))), s')"
    and "touched (job_id ` set (take n (queued_children p s))) s s'"
    and "queued_children p s' = drop n (queued_children p s)"
proof -
  let ?q = "queued_children p s" and ?ids = "claimable p n s"
  have srt: "sorted_wrt (<) (map job_id ?q)"
    using sorted_job_ids [OF wf] by (simp add: queued_children_def)
  then have ids: "?ids = take n (map job_id ?q)" and dist: "distinct (map job_id ?q)"
    by (simp_all add: claimable_def queued_children_def strict_sorted_iff sorted_sort_id)
  define s' where "s' = s\<lparr> jobs := map (\<lambda>j. if job_id j \<in> set ?ids then claim_row s j else j) (jobs s) \<rparr>"
  have q: "j \<in> set ?q" if j: "j \<in> set (jobs s)" and i: "job_id j \<in> set ?ids" for j
  proof -
    have "job_id j \<in> job_id ` set ?q" using i unfolding ids by (auto dest: in_set_takeD)
    then obtain k where "k \<in> set ?q" "job_id k = job_id j" by auto
    then show ?thesis using job_eqI [OF wf j, of k] by (auto simp: queued_children_def)
  qed
  have "filter (\<lambda>j. job_id j \<in> set ?ids) (jobs s) = filter (\<lambda>j. job_id j \<in> set ?ids) ?q"
    unfolding queued_children_def filter_filter
    by (rule filter_cong [OF refl]) (use q in \<open>auto simp: queued_children_def\<close>)
  also have "\<dots> = take n ?q" unfolding ids by (rule filter_take_ids(1) [OF dist])
  finally have rows: "filter (\<lambda>j. job_id j \<in> set ?ids) (jobs s) = take n ?q" .
  have "JobClaimSubJobBatch p n s = (Inr (map (claim_row s) (take n ?q)), s')"
    using assms(2) by (simp add: JobClaimSubJobBatch_def Let_def rows s'_def)
  moreover have t: "touched (job_id ` set (take n ?q)) s s'"
    using row_touch_map [of "set ?ids" "claim_row s" "jobs s"]
    by (simp add: touched_def s'_def claim_row_def ids take_map)
  moreover have "queued_children p s' = drop n ?q"
  proof -
    have "job_id ` set (take n ?q) \<subseteq> job_id ` set (children p s)"
      by (auto simp: queued_children_def children_def dest: in_set_takeD)
    from touched_rows(2) [OF t this wf] show ?thesis
      using filter_take_ids(2) [OF dist, of n] by (simp add: take_map)
  qed
  ultimately show ?thesis by (rule that)
qed

lemma finish_parent:
  assumes "healthy d"
  shows "ignore_db (JobMarkDone p) d = d\<lparr> d_db := (d_db d)\<lparr> jobs := map (mark_done_row p (d_db d))
    (filter (\<lambda>j. parent_job_id j \<noteq> Some p) (jobs (d_db d))) \<rparr> \<rparr>"
  using assms JobMarkDone_jobs [of "d_db d" p] by (simp add: healthy_def ignore_db_def on_db_def)

lemma mark_done_row_clock: "clock s = clock t \<Longrightarrow> mark_done_row p s = mark_done_row p t"
  by (auto simp: mark_done_row_def)

text \<open>The loop with enough fuel: it ends, every queued sub-job has been handled once, in the order
  of the ids, the parent is done and its sub-jobs are gone.\<close>

lemma executeSubJobs_loop:
  assumes "healthy d" and "handles hs f (queued_children (job_id parent) (d_db d))"
    and "job_type parent \<noteq> ''video_transcode'' \<or> \<not> hasNonTranscodeJobs d"
    and "length (queued_children (job_id parent) (d_db d)) + 100 \<le> 100 * fuel"
  shows "\<exists>d'. executeSubJobs hs fuel parent d = Some d'
    \<and> d_world d' = fold (sub_step f) (map (claim_row (d_db d)) (queued_children (job_id parent) (d_db d))) (d_world d)
    \<and> jobs (d_db d') = map (mark_done_row (job_id parent) (d_db d))
        (filter (\<lambda>j. parent_job_id j \<noteq> Some (job_id parent)) (jobs (d_db d)))
    \<and> d_queue d' = d_queue d"
  using assms
proof (induction fuel arbitrary: d)
  case (Suc fuel)
  let ?p = "job_id parent" and ?q = "queued_children (job_id parent) (d_db d)"
  have wf: "jobs_wf (d_db d)" and nf: "faults (d_db d) = []" and go: "\<not> d_cancelled d" and st: "d_et_starts d = []"
    using Suc.prems(1) by (simp_all add: healthy_def)
  obtain s1 where claim: "JobClaimSubJobBatch ?p 100 (d_db d) = (Inr (map (claim_row (d_db d)) (take 100 ?q)), s1)"
    and t1: "touched (job_id ` set (take 100 ?q)) (d_db d) s1" and q1: "queued_children ?p s1 = drop 100 ?q"
    by (rule claim_batch [OF wf nf])
  have sub: "job_id ` set (take 100 ?q) \<subseteq> job_id ` set (children ?p (d_db d))"
    by (auto simp: queued_children_def children_def dest: in_set_takeD)
  let ?batch = "map (claim_row (d_db d)) (take 100 ?q)"
  let ?d1 = "d\<lparr> d_db := s1 \<rparr>"
  have h1: "healthy ?d1" using healthy_touched [OF Suc.prems(1) t1, of "d_world d"] by simp
  have cl1: "clock s1 = clock (d_db d)" using t1 by (simp add: touched_def)
  show ?case
  proof (cases "?q = []")
    case True
    have "executeSubJobs hs (Suc fuel) parent d = Some (ignore_db (JobMarkDone ?p) ?d1)"
      using Suc.prems(3) go claim True by (auto simp: on_db_def)
    moreover have "jobs (d_db (ignore_db (JobMarkDone ?p) ?d1)) =
        map (mark_done_row ?p (d_db d)) (filter (\<lambda>j. parent_job_id j \<noteq> Some ?p) (jobs (d_db d)))"
      using touched_rows(1) [OF t1 sub wf] mark_done_row_clock [OF cl1] by (simp add: finish_parent [OF h1])
    ultimately show ?thesis using True by (simp add: finish_parent [OF h1])
  next
    case False
    let ?d2 = "?d1\<lparr> d_et := Some \<lparr> et_dead = False \<rparr> \<rparr>"
    have et: "getExiftool ?d1 = (Inr \<lparr> et_dead = False \<rparr>, ?d2)"
      by (rule getExiftool_ok [of ?d1]) (use st in simp_all)
    have h2: "healthy ?d2" using h1 by (simp add: healthy_def)
    have hb: "handles hs f ?batch"
      using Suc.prems(2) by (auto simp: handles_def claim_row_def dest: in_set_takeD)
    have "map job_id (children ?p s1) = map job_id (children ?p (d_db d))"
      by (rule touched_children [OF t1 wf])
    then have "job_id ` set (children ?p s1) = job_id ` set (children ?p (d_db d))" by (metis set_map)
    then have "job_id ` set ?batch \<subseteq> job_id ` set (children ?p (d_db ?d2))"
      using sub by (auto simp: claim_row_def image_image)
    from run_batch_spec [OF h2 hb this] obtain s3 where
      "fold (runSubJob hs (Some \<lparr> et_dead = False \<rparr>)) ?batch ?d2 =
        ?d2\<lparr> d_db := s3, d_world := fold (sub_step f) ?batch (d_world ?d2) \<rparr>"
      and "touched (job_id ` set ?batch) (d_db ?d2) s3" by blast
    then have s3: "fold (runSubJob hs (Some \<lparr> et_dead = False \<rparr>)) ?batch ?d2 =
        ?d2\<lparr> d_db := s3, d_world := fold (sub_step f) ?batch (d_world d) \<rparr>"
      and t3: "touched (job_id ` set ?batch) s1 s3" by simp_all
    let ?d3 = "?d2\<lparr> d_db := s3, d_world := fold (sub_step f) ?batch (d_world d) \<rparr>"
    have h3: "healthy ?d3" using healthy_touched [OF h2, of "job_id ` set ?batch" s3] t3 by simp
    have "touched (job_id ` set (take 100 ?q) \<union> job_id ` set ?batch) (d_db d) s3"
      by (rule touched_trans [OF t1 t3])
    moreover have "job_id ` set ?batch = job_id ` set (take 100 ?q)"
      by (simp add: image_image claim_row_def)
    ultimately have t: "touched (job_id ` set (take 100 ?q)) (d_db d) s3" by simp
    have srt: "distinct (map job_id ?q)"
      using sorted_job_ids [OF wf] unfolding queued_children_def by (metis strict_sorted_iff)
    have q3: "queued_children ?p s3 = drop 100 ?q"
      using touched_rows(2) [OF t sub wf] filter_take_ids(2) [OF srt, of 100] by (simp add: take_map)
    have cl3: "clock s3 = clock (d_db d)" using t by (simp add: touched_def)
    have counts: "ignore_db (JobSubJobCounts ?p) ?d3 = ?d3"
      using h3 by (simp add: ignore_db_def on_db_def JobSubJobCounts_def healthy_def)
    have step: "executeSubJobs hs (Suc fuel) parent d = executeSubJobs hs fuel parent ?d3"
      using Suc.prems(3) go claim False et s3 counts
      by (auto simp: on_db_def Let_def split: if_splits)
    have "\<exists>d'. executeSubJobs hs fuel parent ?d3 = Some d'
      \<and> d_world d' = fold (sub_step f) (map (claim_row (d_db ?d3)) (queued_children ?p (d_db ?d3))) (d_world ?d3)
      \<and> jobs (d_db d') = map (mark_done_row ?p (d_db ?d3))
          (filter (\<lambda>j. parent_job_id j \<noteq> Some ?p) (jobs (d_db ?d3)))
      \<and> d_queue d' = d_queue ?d3"
    proof (rule Suc.IH [OF h3])
      show "handles hs f (queued_children ?p (d_db ?d3))"
        using Suc.prems(2) q3 by (auto simp: handles_def dest: in_set_dropD)
      show "job_type parent \<noteq> ''video_transcode'' \<or> \<not> hasNonTranscodeJobs ?d3"
        using Suc.prems(3) by (simp add: hasNonTranscodeJobs_def)
      show "length (queued_children ?p (d_db ?d3)) + 100 \<le> 100 * fuel"
        using Suc.prems(4) q3 False by (cases fuel) auto
    qed
    moreover have "claim_row s3 = claim_row (d_db d)" using cl3 by (auto simp: claim_row_def)
    moreover have "fold (sub_step f) (map (claim_row (d_db d)) (drop 100 ?q)) (fold (sub_step f) ?batch (d_world d)) =
        fold (sub_step f) (map (claim_row (d_db d)) ?q) (d_world d)"
      by (metis append_take_drop_id comp_apply fold_append map_append)
    ultimately show ?thesis
      using step q3 touched_rows(1) [OF t sub wf] mark_done_row_clock [OF cl3] by simp
  qed
qed simp

section \<open>Recovery from the database\<close>

lemma loadFromDB_healthy:
  assumes "faults (d_db d) = []"
  shows "loadFromDB d = d\<lparr> d_queue := d_queue d @
    filter (\<lambda>q. q_id q \<notin> set (map q_id (d_queue d))) (load_rows (d_db d)) \<rparr>"
  using assms by (simp add: loadFromDB_def call_or_def on_db_healthy Let_def)

lemma load_rows_ids: "set (map q_id (load_rows s)) = job_id ` set (filter loadable (jobs s))"
  by (simp add: load_rows_def o_def image_image)

lemma load_rows_distinct:
  assumes "jobs_wf s"
  shows "distinct (map q_id (load_rows s))"
proof -
  have "distinct (map job_id (filter loadable (jobs s)))"
    using jobs_wf_distinct [OF assms] by (simp add: distinct_map_filter)
  then have "distinct (map job_id (sort_key queued_at (filter loadable (jobs s))))"
    by (simp add: distinct_map)
  then show ?thesis by (simp add: load_rows_def o_def)
qed

section \<open>One job\<close>

lemma find_job_update_same:
  "find_job i s = Some j \<Longrightarrow> job_id (f j) = i \<Longrightarrow> find_job i (update_job i f s) = Some (f j)"
proof -
  assume "find_job i s = Some j" "job_id (f j) = i"
  moreover have "find (\<lambda>j. job_id j = i) xs = Some j \<Longrightarrow> job_id (f j) = i \<Longrightarrow>
      find (\<lambda>j. job_id j = i) (map (\<lambda>j. if job_id j = i then f j else j) xs) = Some (f j)" for xs
    by (induction xs) (auto split: if_splits)
  ultimately show ?thesis by (simp add: find_job_def update_job_def)
qed

lemma find_job_filtered:
  assumes "find_job i s = Some j" and "P j" and "jobs_wf s"
  shows "find_job i (s\<lparr> jobs := filter P (jobs s) \<rparr>) = Some j"
proof -
  have j: "j \<in> set (jobs s)" "job_id j = i" using assms(1,3) by (simp_all add: find_job_Some_iff)
  have "distinct (map job_id (filter P (jobs s)))"
    using jobs_wf_distinct [OF assms(3)] by (simp add: distinct_map_filter)
  from find_unique [OF this, of j] j assms(2) show ?thesis by (simp add: find_job_def)
qed

lemma JobMarkDone_find:
  assumes "jobs_wf s" and "faults s = []" and "find_job i s = Some j" and "parent_job_id j = None"
  shows "find_job i (snd (JobMarkDone i s)) = Some (j\<lparr> status := Done, completed_at := Some (clock s) \<rparr>)"
proof -
  let ?s1 = "s\<lparr> jobs := filter (\<lambda>j. parent_job_id j \<noteq> Some i) (jobs s) \<rparr>"
  have "find_job i ?s1 = Some j" by (rule find_job_filtered [OF assms(3) _ assms(1)]) (simp add: assms(4))
  moreover have "job_id j = i" using assms(1,3) by (simp add: find_job_Some_iff)
  ultimately have "find_job i (update_job i (\<lambda>j. j\<lparr> status := Done, completed_at := Some (clock s) \<rparr>) ?s1) =
      Some (j\<lparr> status := Done, completed_at := Some (clock s) \<rparr>)"
    by (intro find_job_update_same) simp_all
  then show ?thesis
    using JobMarkDone_jobs [OF assms(1,2), of i] by (simp add: update_job_def mark_done_row_def [abs_def])
qed

lemma update_job_wf_healthy:
  assumes "healthy d" and "\<And>j. job_id (f j) = job_id j \<and> parent_job_id (f j) = parent_job_id j"
  shows "healthy (d\<lparr> d_db := update_job i f (d_db d) \<rparr>)"
  using jobs_wf_update [OF _ assms(2)] assms(1) by (simp add: healthy_def update_job_def)

definition run_row :: "db \<Rightarrow> job \<Rightarrow> job" where
  "run_row s j = j\<lparr> status := Running, started_at := Some (clock s) \<rparr>"

text \<open>The state in which the handler of a queued job is called.\<close>

lemma processNext_start:
  assumes "healthy d" and "\<not> paused d" and "pickNext d = (Some q, d0)"
    and "find_job (q_id q) (d_db d) = Some j" and "status j = Queued"
    and "hs (job_type j) = Some (meta, world_handler f)"
    and "f \<lparr> jc_job = j\<lparr> status := Running \<rparr>, jc_et = Some \<lparr> et_dead = False \<rparr>, jc_dispatcher = True \<rparr> (d_world d) = (e, w)"
  defines "s1 \<equiv> update_job (q_id q) (run_row (d_db d)) (d_db d)"
  shows "\<exists>d1. healthy d1 \<and> d_db d1 = s1 \<and> d_world d1 = w
    \<and> processNext hs fuel d = Some (ignore_db (case e of Some msg \<Rightarrow> JobMarkFailed (q_id q) msg
        | None \<Rightarrow> JobMarkDone (q_id q)) d1)"
proof -
  have id: "job_id j = q_id q"
    using assms(1,4) by (auto simp: healthy_def dest: find_job_Some_iff)
  have db0: "d_db d0 = d_db d" "d_et_starts d0 = d_et_starts d" "d_world d0 = d_world d" "d_cancelled d0 = d_cancelled d"
    using pickNext_spec [OF assms(3)] by auto
  have nf: "faults (d_db d) = []" "d_et_starts d = []" using assms(1) by (simp_all add: healthy_def)
  have row: "run_row (d_db d) = (\<lambda>j. j\<lparr> status := Running, started_at := Some (clock (d_db d)) \<rparr>)"
    by (simp add: run_row_def fun_eq_iff)
  let ?d1 = "d0\<lparr> d_db := s1, d_et := Some \<lparr> et_dead = False \<rparr>, d_world := w \<rparr>"
  have et: "getExiftool (d0\<lparr> d_db := s1 \<rparr>) = (Inr \<lparr> et_dead = False \<rparr>, d0\<lparr> d_db := s1, d_et := Some \<lparr> et_dead = False \<rparr> \<rparr>)"
    by (rule getExiftool_ok [of "d0\<lparr> d_db := s1 \<rparr>"]) (use db0 nf in simp_all)
  have get: "on_db (JobGet (q_id q)) d0 = (Inr j, d0)"
    using assms(4) db0 nf by (simp add: JobGet_def on_db_def)
  have run: "on_db (JobMarkRunning (q_id q)) d0 = (Inr (), d0\<lparr> d_db := s1 \<rparr>)"
    using db0 nf by (simp add: JobMarkRunning_def on_db_def s1_def row)
  have "processNext hs fuel d = Some (ignore_db (case e of Some msg \<Rightarrow> JobMarkFailed (q_id q) msg
        | None \<Rightarrow> JobMarkDone (q_id q)) ?d1)"
    using assms(2,3,5-7) get run et id db0(3)
    by (cases e) (simp_all add: processNext_def world_handler_def Let_def FlushSubJobs_def flush_chunks.simps)
  moreover have "jobs_wf s1"
    unfolding s1_def by (rule jobs_wf_update) (use assms(1) in \<open>simp_all add: healthy_def run_row_def\<close>)
  then have "healthy ?d1" using assms(1) db0 by (simp add: healthy_def s1_def update_job_def)
  ultimately show ?thesis by (intro exI [of _ ?d1]) simp
qed

section \<open>Properties\<close>

text \<open>A database with a photo scan (job 1) and two of its sub-jobs, and a handler that records
  the related id of the jobs it is given.\<close>

definition sample_jobs :: db where
  "sample_jobs = snd (JobCreateSubJob ''scan_photo'' (Some 20) None 1
     (snd (JobCreateSubJob ''scan_photo'' (Some 10) None 1
       (snd (JobCreate ''collection_scan'' (Some 5) (Some ''collection'') None (empty_db 0))))))"

definition record_handler :: "job_ctx \<Rightarrow> int list \<Rightarrow> string option \<times> int list" where
  "record_handler jc w = (if related_id (jc_job jc) = Some 20 then Some ''broken file'' else None,
     w @ [case related_id (jc_job jc) of None \<Rightarrow> 0 | Some r \<Rightarrow> r])"

definition sample_meta :: JobMeta where
  "sample_meta = \<lparr> Description = [], TotalSteps = 1, SupportsSubjobs = True, MaxConcurrency = 0 \<rparr>"

definition sample_registry :: "int list registry" where
  "sample_registry ty = (if ty = ''scan_photo'' then Some (sample_meta, world_handler record_handler)
     else if ty = ''video_transcode'' then Some (sample_meta, world_handler (\<lambda>_ w. (None, w))) else None)"

definition sample_dispatcher :: "int list dispatcher" where
  "sample_dispatcher = NewDispatcher sample_jobs [] []"

lemma sample_jobs_simps:
  "jobs sample_jobs =
     [(new_job (empty_db 0) ''collection_scan'' (Some 5) (Some ''collection'') None)\<lparr> subjobs_enqueued := 2 \<rparr>,
      (new_job (empty_db 0) ''scan_photo'' (Some 10) None (Some 1))\<lparr> job_id := 2 \<rparr>,
      (new_job (empty_db 0) ''scan_photo'' (Some 20) None (Some 1))\<lparr> job_id := 3 \<rparr>]"
  "next_job sample_jobs = 4" "faults sample_jobs = []" "clock sample_jobs = 0"
  by (simp_all add: sample_jobs_def JobCreateSubJob_def JobCreate_def empty_db_def job_exists_def update_job_def
      new_job_def Let_def)

lemma sample_healthy: "healthy sample_dispatcher"
  by (simp add: healthy_def sample_dispatcher_def NewDispatcher_def jobs_wf_def sample_jobs_simps new_job_def
      empty_db_def)



text \<open>C24: the next job is the first one in the queue that is not a video transcode, and the first
  transcode only when nothing else waits; the others keep their order and none is lost.\<close>

theorem pickNext_priority:
  assumes "pickNext d = (Some q, d')"
  shows "mset (d_queue d) = add_mset q (mset (d_queue d'))
    \<and> (\<exists>as bs. d_queue d = as @ q # bs \<and> d_queue d' = as @ bs \<and> (\<forall>a \<in> set as. is_transcode a))
    \<and> (is_transcode q \<longrightarrow> \<not> hasNonTranscodeJobs d \<and> q = hd (d_queue d))"
proof -
  obtain as bs where *: "d_queue d = as @ q # bs" "d' = d\<lparr> d_queue := as @ bs \<rparr>"
    "\<forall>a \<in> set as. is_transcode a" "is_transcode q \<longrightarrow> as = [] \<and> (\<forall>b \<in> set bs. is_transcode b)"
    using pickNext_spec [OF assms] by blast
  have "is_transcode q \<longrightarrow> \<not> hasNonTranscodeJobs d \<and> q = hd (d_queue d)"
    using *(1,4) by (auto simp: hasNonTranscodeJobs_def list_ex_iff)
  moreover have "mset (d_queue d) = add_mset q (mset (d_queue d'))" by (simp add: *(1,2))
  moreover have "\<exists>as bs. d_queue d = as @ q # bs \<and> d_queue d' = as @ bs \<and> (\<forall>a \<in> set as. is_transcode a)"
    by (intro exI [of _ as] exI [of _ bs]) (simp add: *(1,2,3))
  ultimately show ?thesis by blast
qed

definition two_jobs :: "int list dispatcher" where
  "two_jobs = sample_dispatcher\<lparr> d_queue := [\<lparr> q_id = 4, q_type = ''video_transcode'' \<rparr>,
     \<lparr> q_id = 1, q_type = ''collection_scan'' \<rparr>] \<rparr>"

theorem pickNext_priority_witness:
  "\<exists>d'. pickNext two_jobs = (Some \<lparr> q_id = 1, q_type = ''collection_scan'' \<rparr>, d')
    \<and> d_queue d' = [\<lparr> q_id = 4, q_type = ''video_transcode'' \<rparr>]"
proof -
  have pick: "pickNext two_jobs = (Some \<lparr> q_id = 1, q_type = ''collection_scan'' \<rparr>,
      two_jobs\<lparr> d_queue := [\<lparr> q_id = 4, q_type = ''video_transcode'' \<rparr>] \<rparr>)"
    by (simp add: pickNext_def two_jobs_def is_transcode_def)
  from pickNext_priority [OF this] pick show ?thesis by simp
qed

text \<open>One poll of a healthy database puts every top-level job that is queued or running its
  sub-jobs into the in-memory queue, the oldest first after what was there, and puts none in
  twice.\<close>

lemma loadFromDB_recovers_jobs:
  assumes "jobs_wf (d_db d)" and "faults (d_db d) = []" and "distinct (map q_id (d_queue d))"
  shows "(\<forall>j \<in> set (jobs (d_db d)). loadable j \<longrightarrow> job_id j \<in> set (map q_id (d_queue (loadFromDB d))))
    \<and> distinct (map q_id (d_queue (loadFromDB d)))
    \<and> (\<exists>new. d_queue (loadFromDB d) = d_queue d @ new \<and> set (map q_id new) \<subseteq> job_id ` set (filter loadable (jobs (d_db d))))"
proof -
  have eq: "d_queue (loadFromDB d) = d_queue d @ filter (\<lambda>q. q_id q \<notin> set (map q_id (d_queue d))) (load_rows (d_db d))"
    by (simp add: loadFromDB_healthy [OF assms(2)])
  have ids: "set (map q_id (load_rows (d_db d))) = job_id ` set (filter loadable (jobs (d_db d)))"
    by (rule load_rows_ids)
  have "job_id j \<in> set (map q_id (d_queue (loadFromDB d)))" if "j \<in> set (jobs (d_db d))" "loadable j" for j
  proof -
    have "job_id j \<in> set (map q_id (load_rows (d_db d)))" using that ids by auto
    then show ?thesis unfolding eq by auto
  qed
  moreover have "distinct (map q_id (d_queue (loadFromDB d)))"
  proof -
    have "set (map q_id (d_queue d)) \<inter>
        set (map q_id (filter (\<lambda>q. q_id q \<notin> set (map q_id (d_queue d))) (load_rows (d_db d)))) = {}"
      by (auto, metis imageI)
    then show ?thesis using assms(3) load_rows_distinct [OF assms(1)] unfolding eq
      by (simp only: map_append distinct_append distinct_map_filter simp_thms)
  qed
  moreover have "set (map q_id (filter (\<lambda>q. q_id q \<notin> set (map q_id (d_queue d))) (load_rows (d_db d))))
      \<subseteq> job_id ` set (filter loadable (jobs (d_db d)))"
    using ids by auto
  ultimately show ?thesis unfolding eq by blast
qed



text \<open>C25: when the dispatcher picks a video_transcode parent that is still queued, the no-op
  handler buffers nothing, so the parent is marked done and the transcodes that were attached
  to it are deleted without having run.\<close>

theorem queued_transcode_parent_loses_children:
  assumes "healthy d" and "\<not> paused d" and "pickNext d = (Some q, d0)"
    and "find_job (q_id q) (d_db d) = Some j" and "status j = Queued" and "parent_job_id j = None"
    and "job_type j = ''video_transcode''"
    and "hs ''video_transcode'' = Some (meta, world_handler (\<lambda>_ w. (None, w)))"
  shows "\<exists>d' j'. processNext hs fuel d = Some d' \<and> d_world d' = d_world d
    \<and> find_job (q_id q) (d_db d') = Some j' \<and> status j' = Done \<and> children (q_id q) (d_db d') = []"
proof -
  have reg: "hs (job_type j) = Some (meta, world_handler (\<lambda>_ w. (None, w)))" using assms(7,8) by simp
  have id: "job_id j = q_id q" using assms(1,4) by (simp add: healthy_def find_job_Some_iff)
  obtain d1 where d1: "healthy d1" "d_db d1 = update_job (q_id q) (run_row (d_db d)) (d_db d)"
      "d_world d1 = d_world d"
    and run: "processNext hs fuel d = Some (ignore_db (JobMarkDone (q_id q)) d1)"
    using processNext_start [where f = "\<lambda>_ w. (None, w)" and hs = hs and j = j, OF assms(1-5) reg refl] by auto
  have h1: "jobs_wf (d_db d1)" "faults (d_db d1) = []" using d1(1) by (simp_all add: healthy_def)
  have row: "find_job (q_id q) (d_db d1) = Some (run_row (d_db d) j)"
    unfolding d1(2) by (rule find_job_update_same [OF assms(4)]) (simp add: run_row_def id)
  have "find_job (q_id q) (snd (JobMarkDone (q_id q) (d_db d1))) =
      Some ((run_row (d_db d) j)\<lparr> status := Done, completed_at := Some (clock (d_db d1)) \<rparr>)"
    by (rule JobMarkDone_find [OF h1 row]) (simp add: run_row_def assms(6))
  moreover have "children (q_id q) (snd (JobMarkDone (q_id q) (d_db d1))) = []"
    by (auto simp: JobMarkDone_jobs [OF h1] children_def filter_empty_conv mark_done_row_def)
  ultimately show ?thesis using run d1(3) by (simp add: ignore_db_def on_db_def split_beta)
qed

text \<open>A scan attached a transcode of item 77 to a parent it created; the parent is queued.\<close>

definition attached_dispatcher :: "int list dispatcher" where
  "attached_dispatcher = AttachTranscodeSubJob
     \<lparr> jc_job = new_job (empty_db 0) ''collection_scan'' None None None, jc_et = None, jc_dispatcher = True \<rparr> 77
     (NewDispatcher (empty_db 0) [] [])"

lemma attached_simps:
  "jobs (d_db attached_dispatcher) = [new_job (empty_db 0) ''video_transcode'' None None None,
     (new_job (empty_db 0) ''video_transcode_item'' (Some 77) (Some ''media_item'') (Some 1))\<lparr> job_id := 2 \<rparr>]"
  "next_job (d_db attached_dispatcher) = 3" "faults (d_db attached_dispatcher) = []"
  "d_et_starts attached_dispatcher = []" "\<not> d_cancelled attached_dispatcher" "\<not> paused attached_dispatcher"
  "d_queue attached_dispatcher = [\<lparr> q_id = 1, q_type = ''video_transcode'' \<rparr>]"
  by (simp_all add: attached_dispatcher_def AttachTranscodeSubJob_def NewDispatcher_def empty_db_def call_or_def
      findOrCreateTranscodeParent_def on_db_def JobGetTranscodeParent_def JobCreate_def new_job_def job_exists_def)

theorem queued_transcode_parent_loses_children_witness:
  "length (children 1 (d_db attached_dispatcher)) = 1
    \<and> (\<exists>d'. processNext sample_registry 5 attached_dispatcher = Some d' \<and> children 1 (d_db d') = []
          \<and> d_world d' = d_world attached_dispatcher)"
proof -
  let ?q = "\<lparr> q_id = 1, q_type = ''video_transcode'' \<rparr>"
  have pick: "pickNext attached_dispatcher = (Some ?q, attached_dispatcher\<lparr> d_queue := [] \<rparr>)"
    by (simp add: pickNext_def attached_simps is_transcode_def)
  have j: "find_job (q_id ?q) (d_db attached_dispatcher) = Some (new_job (empty_db 0) ''video_transcode'' None None None)"
    by (simp add: find_job_def attached_simps new_job_def empty_db_def)
  have h: "healthy attached_dispatcher"
    by (simp add: healthy_def jobs_wf_def attached_simps new_job_def empty_db_def)
  have "\<exists>d' j'. processNext sample_registry 5 attached_dispatcher = Some d'
      \<and> d_world d' = d_world attached_dispatcher
      \<and> find_job (q_id ?q) (d_db d') = Some j' \<and> status j' = Done \<and> children (q_id ?q) (d_db d') = []"
    by (rule queued_transcode_parent_loses_children [OF h _ pick j, where meta = sample_meta])
      (simp_all add: attached_simps new_job_def sample_registry_def)
  moreover have "length (children 1 (d_db attached_dispatcher)) = 1"
    by (simp add: children_def attached_simps new_job_def)
  ultimately show ?thesis by auto
qed

text \<open>A paused dispatcher starts nothing: a signal or a poll leaves every job and everything
  the handlers can reach as it was, and the dispatcher stays paused.\<close>

lemma paused_dispatcher_starts_nothing:
  assumes "paused d"
  shows "\<exists>d'. run_event hs fuel ev d = Some d' \<and> jobs (d_db d') = jobs (d_db d) \<and> d_world d' = d_world d \<and> paused d'"
proof -
  have load: "jobs (d_db (loadFromDB d)) = jobs (d_db d) \<and> d_world (loadFromDB d) = d_world d
      \<and> paused (loadFromDB d) = paused d"
    by (rule sql_cases [of "d_db d" "\<lambda>s. (Inr (load_rows s), s)"])
      (simp_all add: loadFromDB_def call_or_def on_db_def Let_def)
  then show ?thesis using assms
    by (cases ev) (auto simp: run_event_def processNext_def closeExiftool_def split: option.split)
qed

end
