(* ===== verification/AccountsRepo.thy ===== *)
theory AccountsRepo
  imports Schema
begin

text \<open>
  \<open>internal/repository/users.go\<close>, \<open>devices.go\<close> and \<open>server_config.go\<close>: one definition per
  function, with the UNIQUE constraints and the foreign key of the table \<open>devices\<close>. Where a
  query has no ORDER BY, or a tie, the row that was inserted first is taken.
\<close>

section \<open>Users\<close>

definition find_user :: "int \<Rightarrow> db \<Rightarrow> user option" where
  "find_user i s = find (\<lambda>u. user_id u = i) (users s)"

definition update_user :: "int \<Rightarrow> (user \<Rightarrow> user) \<Rightarrow> db \<Rightarrow> db" where
  "update_user i f s = s\<lparr> users := map (\<lambda>u. if user_id u = i then f u else u) (users s) \<rparr>"

text \<open>\<open>SELECT ... WHERE id = $1\<close>.\<close>

definition select_user :: "(user \<Rightarrow> 'a) \<Rightarrow> int \<Rightarrow> 'a statement" where
  "select_user f i = sql (\<lambda>s. (case find_user i s of None \<Rightarrow> Inl NoRows | Some u \<Rightarrow> Inr (f u), s))"

definition UserCreate :: "string \<Rightarrow> string \<Rightarrow> string option \<Rightarrow> int statement" where
  "UserCreate name provider authData = sql (\<lambda>s.
     (Inr (next_user s),
      s\<lparr> users := users s @ [\<lparr> user_id = next_user s, user_name = name, is_admin = False,
           local_access_only = False, auth_provider = provider, auth_data = authData, user_last_seen_at = None \<rparr>],
         next_user := next_user s + 1 \<rparr>))"

definition UserGet :: "int \<Rightarrow> (int \<times> string \<times> bool) statement" where
  "UserGet i = select_user (\<lambda>u. (user_id u, user_name u, is_admin u)) i"

definition UserByNameAndProvider :: "string \<Rightarrow> string \<Rightarrow> (int \<times> string option) statement" where
  "UserByNameAndProvider name provider = sql (\<lambda>s.
     (case find (\<lambda>u. user_name u = name \<and> auth_provider u = provider) (users s) of
        None \<Rightarrow> Inl NoRows
      | Some u \<Rightarrow> Inr (user_id u, auth_data u), s))"

definition UserAuthProvider :: "int \<Rightarrow> string statement" where
  "UserAuthProvider i = select_user auth_provider i"

definition UserIsAdmin :: "int \<Rightarrow> bool statement" where
  "UserIsAdmin i = select_user is_admin i"

definition UserSetAdmin :: "int \<Rightarrow> bool \<Rightarrow> unit statement" where
  "UserSetAdmin i b = sql (\<lambda>s. (Inr (), update_user i (\<lambda>u. u\<lparr> is_admin := b \<rparr>) s))"

definition UserIsLocalOnly :: "int \<Rightarrow> bool statement" where
  "UserIsLocalOnly i = select_user local_access_only i"

definition UserSetLocalOnly :: "int \<Rightarrow> bool \<Rightarrow> unit statement" where
  "UserSetLocalOnly i b = sql (\<lambda>s.
     if find_user i s = None then (Inl NotFound, s)
     else (Inr (), update_user i (\<lambda>u. u\<lparr> local_access_only := b \<rparr>) s))"

definition UserUpdateAuth :: "int \<Rightarrow> string option \<Rightarrow> unit statement" where
  "UserUpdateAuth i data = sql (\<lambda>s.
     if find_user i s = None then (Inl NotFound, s)
     else (Inr (), update_user i (\<lambda>u. u\<lparr> auth_data := data \<rparr>) s))"

definition UserTouchLastSeen :: "int \<Rightarrow> db \<Rightarrow> db" where
  "UserTouchLastSeen i = call_ignore (sql (\<lambda>s.
     (Inr (), update_user i (\<lambda>u. u\<lparr> user_last_seen_at := Some (clock s) \<rparr>) s)))"

definition UsersGet :: "(int \<times> string) list statement" where
  "UsersGet = sql (\<lambda>s. (Inr (map (\<lambda>u. (user_id u, user_name u)) (sort_key user_id (users s))), s))"

text \<open>The devices, the access rows and the bookmarks of the user go with it.\<close>

definition UserDelete :: "int \<Rightarrow> int statement" where
  "UserDelete i = sql (\<lambda>s.
     (Inr (int (length (filter (\<lambda>u. user_id u = i) (users s)))),
      s\<lparr> users := filter (\<lambda>u. user_id u \<noteq> i) (users s),
         devices := filter (\<lambda>d. device_user d \<noteq> i) (devices s),
         collection_access := filter (\<lambda>a. fst a \<noteq> i) (collection_access s),
         video_bookmarks := filter (\<lambda>b. vb_user b \<noteq> i) (video_bookmarks s),
         show_bookmarks := filter (\<lambda>b. sb_user b \<noteq> i) (show_bookmarks s) \<rparr>))"

section \<open>The server's configuration\<close>

definition ServerConfigTranscodeBitrate :: "int statement" where
  "ServerConfigTranscodeBitrate = sql (\<lambda>s. (Inr (transcode_bitrate_kbps s), s))"

section \<open>Devices\<close>

definition maxDevicesPerUser :: int where
  "maxDevicesPerUser = 15"

definition DevicesMaxPerUser :: int where
  "DevicesMaxPerUser = maxDevicesPerUser"

text \<open>The UNIQUE constraints: a NULL conflicts with nothing.\<close>

definition same_key :: "'a option \<Rightarrow> 'a option \<Rightarrow> bool" where
  "same_key a b \<longleftrightarrow> a \<noteq> None \<and> a = b"

definition devices_conflict :: "device \<Rightarrow> device \<Rightarrow> bool" where
  "devices_conflict a b \<longleftrightarrow> same_key (refresh_token_hash a) (refresh_token_hash b)
     \<or> same_key (previous_refresh_token_hash a) (previous_refresh_token_hash b)
     \<or> (device_user a = device_user b \<and> device_uuid a = device_uuid b)"

definition update_device :: "int \<Rightarrow> (device \<Rightarrow> device) \<Rightarrow> db \<Rightarrow> db" where
  "update_device i f s = s\<lparr> devices := map (\<lambda>d. if device_id d = i then f d else d) (devices s) \<rparr>"

definition find_device :: "(device \<Rightarrow> bool) \<Rightarrow> device statement" where
  "find_device P = sql (\<lambda>s. (case find P (devices s) of None \<Rightarrow> Inl NotFound | Some d \<Rightarrow> Inr d, s))"

definition DeviceFindByUserAndUUID :: "int \<Rightarrow> string \<Rightarrow> device statement" where
  "DeviceFindByUserAndUUID uid uuid = find_device (\<lambda>d. device_user d = uid \<and> device_uuid d = uuid)"

definition DeviceFindByRefreshTokenHash :: "string \<Rightarrow> device statement" where
  "DeviceFindByRefreshTokenHash h = find_device (\<lambda>d. refresh_token_hash d = Some h)"

definition DeviceFindByPreviousRefreshTokenHash :: "string \<Rightarrow> (int \<times> int) option statement" where
  "DeviceFindByPreviousRefreshTokenHash h = sql (\<lambda>s.
     (Inr (case find (\<lambda>d. previous_refresh_token_hash d = Some h) (devices s) of
        None \<Rightarrow> None | Some d \<Rightarrow> Some (device_user d, device_id d)), s))"

definition DeviceCreate ::
  "int \<Rightarrow> string \<Rightarrow> string \<Rightarrow> string \<Rightarrow> time \<Rightarrow> access_entry \<Rightarrow> int statement" where
  "DeviceCreate uid uuid name tokenHash expires entry = sql (\<lambda>s.
     let d = \<lparr> device_id = next_device s, device_uuid = uuid, device_user = uid,
               refresh_token_hash = Some tokenHash, previous_refresh_token_hash = None,
               expires_at = Some expires, device_name = name, banned_at = None,
               access_history = [entry], device_created_at = clock s, last_seen_at = clock s \<rparr> in
     if find_user uid s = None then (Inl ForeignKeyViolation, s)
     else if list_ex (devices_conflict d) (devices s) then (Inl UniqueViolation, s)
     else (Inr (next_device s), s\<lparr> devices := devices s @ [d], next_device := next_device s + 1 \<rparr>))"

text \<open>The new entry first, at most five in all.\<close>

definition session_update ::
  "string \<Rightarrow> string \<Rightarrow> time \<Rightarrow> access_entry \<Rightarrow> string \<Rightarrow> time \<Rightarrow> device \<Rightarrow> device" where
  "session_update newHash oldHash expires entry name now d =
     d\<lparr> refresh_token_hash := Some newHash, previous_refresh_token_hash := Some oldHash,
        expires_at := Some expires, last_seen_at := now,
        device_name := (if name \<noteq> [] then name else device_name d),
        access_history := take 5 (entry # access_history d) \<rparr>"

definition DeviceUpdateSession ::
  "int \<Rightarrow> string \<Rightarrow> string \<Rightarrow> time \<Rightarrow> access_entry \<Rightarrow> string \<Rightarrow> unit statement" where
  "DeviceUpdateSession i newHash oldHash expires entry name = sql (\<lambda>s.
     let upd = session_update newHash oldHash expires entry name (clock s) in
     if list_ex (\<lambda>d. device_id d = i \<and>
          list_ex (\<lambda>e. device_id e \<noteq> i \<and> devices_conflict (upd d) e) (devices s)) (devices s)
     then (Inl UniqueViolation, s)
     else (Inr (), update_device i upd s))"

definition DevicesCountActiveForUser :: "int \<Rightarrow> int statement" where
  "DevicesCountActiveForUser uid = sql (\<lambda>s.
     (Inr (int (length (filter (\<lambda>d. device_user d = uid \<and> banned_at d = None) (devices s)))), s))"

text \<open>\<open>ORDER BY last_seen_at ASC LIMIT 1\<close>.\<close>

definition lru_device :: "int \<Rightarrow> db \<Rightarrow> device option" where
  "lru_device uid s =
     (case sort_key last_seen_at (filter (\<lambda>d. device_user d = uid \<and> banned_at d = None) (devices s)) of
        [] \<Rightarrow> None | d # _ \<Rightarrow> Some d)"

definition delete_devices :: "(device \<Rightarrow> bool) \<Rightarrow> db \<Rightarrow> db" where
  "delete_devices P s = s\<lparr> devices := filter (\<lambda>d. \<not> P d) (devices s) \<rparr>"

definition DeviceEvictLRU :: "int \<Rightarrow> int statement" where
  "DeviceEvictLRU uid = sql (\<lambda>s. case lru_device uid s of
       None \<Rightarrow> (Inr 0, s)
     | Some d \<Rightarrow> (Inr (device_id d), delete_devices (\<lambda>e. device_id e = device_id d) s))"

text \<open>\<open>models.DeviceView\<close>.\<close>

record device_view =
  dv_last_seen :: time
  dv_created :: time
  dv_banned_at :: "time option"
  dv_name :: string
  dv_history :: "access_entry list"
  dv_id :: int

definition device_view_of :: "device \<Rightarrow> device_view" where
  "device_view_of d = \<lparr> dv_last_seen = last_seen_at d, dv_created = device_created_at d,
     dv_banned_at = banned_at d, dv_name = device_name d, dv_history = access_history d, dv_id = device_id d \<rparr>"

definition DevicesGetForUser :: "int \<Rightarrow> device_view list statement" where
  "DevicesGetForUser uid = sql (\<lambda>s.
     (Inr (map device_view_of (sort_key (\<lambda>d. - last_seen_at d) (filter (\<lambda>d. device_user d = uid) (devices s)))), s))"

definition DeviceDelete :: "int \<Rightarrow> int \<Rightarrow> int statement" where
  "DeviceDelete i uid = sql (\<lambda>s.
     let P = (\<lambda>d. device_id d = i \<and> device_user d = uid)
     in (Inr (int (length (filter P (devices s)))), delete_devices P s))"

definition DevicesDeleteForUser :: "int \<Rightarrow> int list statement" where
  "DevicesDeleteForUser uid = sql (\<lambda>s.
     (Inr (map device_id (filter (\<lambda>d. device_user d = uid) (devices s))),
      delete_devices (\<lambda>d. device_user d = uid) s))"

definition DeviceBan :: "int \<Rightarrow> int \<Rightarrow> unit statement" where
  "DeviceBan i uid = sql (\<lambda>s. (Inr (), s\<lparr> devices := map (\<lambda>d.
     if device_id d = i \<and> device_user d = uid
     then d\<lparr> banned_at := Some (clock s), refresh_token_hash := None,
             previous_refresh_token_hash := None, expires_at := None \<rparr> else d) (devices s) \<rparr>))"

definition DeviceUnban :: "int \<Rightarrow> int \<Rightarrow> unit statement" where
  "DeviceUnban i uid = sql (\<lambda>s. (Inr (), s\<lparr> devices := map (\<lambda>d.
     if device_id d = i \<and> device_user d = uid then d\<lparr> banned_at := None \<rparr> else d) (devices s) \<rparr>))"

definition DeviceGetBannedIDs :: "int list statement" where
  "DeviceGetBannedIDs = sql (\<lambda>s. (Inr (map device_id (filter (\<lambda>d. banned_at d \<noteq> None) (devices s))), s))"

definition DevicesStaleNonBanned :: "time \<Rightarrow> int list statement" where
  "DevicesStaleNonBanned cutoff = sql (\<lambda>s.
     (Inr (map device_id (filter (\<lambda>d. banned_at d = None \<and> last_seen_at d < cutoff) (devices s))), s))"

definition DevicesDeleteByID :: "int list \<Rightarrow> unit statement" where
  "DevicesDeleteByID ids s =
     (if ids = [] then (Inr (), s)
      else sql (\<lambda>s. (Inr (), delete_devices (\<lambda>d. device_id d \<in> set ids) s)) s)"

lemmas user_statements = select_user_def UserCreate_def UserGet_def UserByNameAndProvider_def UserAuthProvider_def
  UserIsAdmin_def UserSetAdmin_def UserIsLocalOnly_def UserSetLocalOnly_def UserUpdateAuth_def
  UserTouchLastSeen_def UsersGet_def UserDelete_def

lemmas device_statements = find_device_def DeviceFindByUserAndUUID_def DeviceFindByRefreshTokenHash_def
  DeviceFindByPreviousRefreshTokenHash_def DeviceCreate_def DeviceUpdateSession_def
  DevicesCountActiveForUser_def DeviceEvictLRU_def DevicesGetForUser_def DeviceDelete_def
  DevicesDeleteForUser_def DeviceBan_def DeviceUnban_def DeviceGetBannedIDs_def
  DevicesStaleNonBanned_def DevicesDeleteByID_def

section \<open>The shape of the table \<open>devices\<close>\<close>

definition devices_wf :: "db \<Rightarrow> bool" where
  "devices_wf s \<longleftrightarrow> distinct (map device_id (devices s)) \<and> (\<forall>d \<in> set (devices s). 0 < device_id d \<and> device_id d < next_device s)
     \<and> (\<forall>d \<in> set (devices s). \<forall>e \<in> set (devices s). device_id d \<noteq> device_id e \<longrightarrow> \<not> devices_conflict d e)
     \<and> (\<forall>d \<in> set (devices s). length (access_history d) \<le> 5)
     \<and> 0 < next_device s"

lemma devices_wf_faults [simp]: "devices_wf (s\<lparr>faults := fs\<rparr>) \<longleftrightarrow> devices_wf s"
  by (simp add: devices_wf_def)

lemma devices_conflict_sym: "devices_conflict a b \<longleftrightarrow> devices_conflict b a"
  unfolding devices_conflict_def same_key_def by metis

lemma devices_wf_delete: "devices_wf s \<Longrightarrow> devices_wf (delete_devices P s)"
  by (auto simp: devices_wf_def delete_devices_def distinct_map_filter)

lemma devices_wf_eqI:
  "devices_wf s \<Longrightarrow> d \<in> set (devices s) \<Longrightarrow> e \<in> set (devices s) \<Longrightarrow> device_id d = device_id e \<Longrightarrow> d = e"
  by (auto simp: devices_wf_def distinct_map dest: inj_onD)

end
