(* ===== verification/LruCache.thy ===== *)
theory LruCache
  imports Main
begin

text \<open>
  The bounded cache of \<open>hashicorp/golang-lru\<close> that the device guard and the rate limiter keep
  their entries in. The package is not part of the repository: the components take its three
  operations as a record, and \<open>lru_cache\<close> states the behaviour they rely on. A recency list
  meets it.
\<close>

record ('c, 'k, 'v) lru_ops =
  lru_get :: "'k \<Rightarrow> 'c \<Rightarrow> 'v option \<times> 'c"
  lru_add :: "'k \<Rightarrow> 'v \<Rightarrow> 'c \<Rightarrow> 'c"
  lru_remove :: "'k \<Rightarrow> 'c \<Rightarrow> 'c"

text \<open>\<open>entries\<close> is what the cache holds, \<open>cap\<close> the capacity it was made with: a lookup returns
  the entry and drops none, an addition drops at most one other entry and none below the
  capacity.\<close>

locale lru_cache =
  fixes ops :: "('c, 'k, 'v) lru_ops"
    and entries :: "'c \<Rightarrow> 'k \<Rightarrow> 'v option"
    and cap :: nat
    and inv :: "'c \<Rightarrow> bool"
  assumes get_value: "inv c \<Longrightarrow> fst (lru_get ops k c) = entries c k"
    and get_entries: "inv c \<Longrightarrow> entries (snd (lru_get ops k c)) = entries c"
    and get_inv: "inv c \<Longrightarrow> inv (snd (lru_get ops k c))"
    and add_same: "inv c \<Longrightarrow> 0 < cap \<Longrightarrow> entries (lru_add ops k v c) k = Some v"
    and add_room: "inv c \<Longrightarrow> card (dom (entries c)) < cap \<or> k \<in> dom (entries c) \<Longrightarrow>
      entries (lru_add ops k v c) = (entries c)(k \<mapsto> v)"
    and add_others: "inv c \<Longrightarrow> j \<noteq> k \<Longrightarrow> entries (lru_add ops k v c) j = entries c j
      \<or> entries (lru_add ops k v c) j = None"
    and add_inv: "inv c \<Longrightarrow> inv (lru_add ops k v c)"
    and remove_entries: "inv c \<Longrightarrow> entries (lru_remove ops k c) = (entries c)(k := None)"
    and remove_inv: "inv c \<Longrightarrow> inv (lru_remove ops k c)"
    and finite_entries: "inv c \<Longrightarrow> finite (dom (entries c))"
begin

lemma card_add_le: "inv c \<Longrightarrow> card (dom (entries (lru_add ops k v c))) \<le> card (dom (entries c)) + 1"
proof -
  assume c: "inv c"
  have "dom (entries (lru_add ops k v c)) \<subseteq> insert k (dom (entries c))"
    using add_others [OF c, of _ k v] by (force simp: dom_def)
  then have "card (dom (entries (lru_add ops k v c))) \<le> card (insert k (dom (entries c)))"
    by (rule card_mono [rotated]) (simp add: finite_entries [OF c])
  also have "\<dots> \<le> card (dom (entries c)) + 1" by (simp add: card_insert_if finite_entries [OF c])
  finally show "card (dom (entries (lru_add ops k v c))) \<le> card (dom (entries c)) + 1" .
qed

lemma card_remove_le: "inv c \<Longrightarrow> card (dom (entries (lru_remove ops k c))) \<le> card (dom (entries c))"
  by (simp add: remove_entries finite_entries card_mono)

text \<open>A sequence of additions that fits keeps every entry that is not overwritten.\<close>

lemma fold_add_keeps:
  "inv c \<Longrightarrow> card (dom (entries c)) + length kvs \<le> cap \<Longrightarrow> j \<notin> fst ` set kvs \<Longrightarrow>
    inv (fold (\<lambda>(k, v). lru_add ops k v) kvs c)
    \<and> entries (fold (\<lambda>(k, v). lru_add ops k v) kvs c) j = entries c j
    \<and> card (dom (entries (fold (\<lambda>(k, v). lru_add ops k v) kvs c))) \<le> card (dom (entries c)) + length kvs"
proof (induction kvs arbitrary: c)
  case (Cons kv kvs)
  obtain k v where kv: "kv = (k, v)" by (cases kv)
  let ?c = "lru_add ops k v c"
  have c: "inv ?c" "card (dom (entries ?c)) \<le> card (dom (entries c)) + 1"
    by (rule add_inv [OF Cons.prems(1)], rule card_add_le [OF Cons.prems(1)])
  have j: "entries ?c j = entries c j"
    using Cons.prems kv by (simp add: add_room)
  show ?case using Cons.IH [OF c(1)] c(2) j Cons.prems(2,3) kv by (auto simp: add.commute)
qed simp

end

section \<open>A recency list\<close>

text \<open>The most recently used entry first; an addition beyond the capacity drops the last.\<close>

definition list_get :: "'k \<Rightarrow> ('k \<times> 'v) list \<Rightarrow> 'v option \<times> ('k \<times> 'v) list" where
  "list_get k xs = (case map_of xs k of
       None \<Rightarrow> (None, xs)
     | Some v \<Rightarrow> (Some v, (k, v) # filter (\<lambda>e. fst e \<noteq> k) xs))"

definition list_add :: "nat \<Rightarrow> 'k \<Rightarrow> 'v \<Rightarrow> ('k \<times> 'v) list \<Rightarrow> ('k \<times> 'v) list" where
  "list_add cap k v xs = take cap ((k, v) # filter (\<lambda>e. fst e \<noteq> k) xs)"

definition list_remove :: "'k \<Rightarrow> ('k \<times> 'v) list \<Rightarrow> ('k \<times> 'v) list" where
  "list_remove k xs = filter (\<lambda>e. fst e \<noteq> k) xs"

definition list_lru :: "nat \<Rightarrow> (('k \<times> 'v) list, 'k, 'v) lru_ops" where
  "list_lru cap = \<lparr> lru_get = list_get, lru_add = list_add cap, lru_remove = list_remove \<rparr>"

definition list_lru_inv :: "nat \<Rightarrow> ('k \<times> 'v) list \<Rightarrow> bool" where
  "list_lru_inv cap xs \<longleftrightarrow> distinct (map fst xs) \<and> length xs \<le> cap"

lemma list_lru_sel [simp]:
  "lru_get (list_lru cap) = list_get" "lru_add (list_lru cap) = list_add cap" "lru_remove (list_lru cap) = list_remove"
  by (simp_all add: list_lru_def)

lemma distinct_filter_fst: "distinct (map fst xs) \<Longrightarrow> distinct (map fst (filter P xs))"
  by (simp add: distinct_map_filter)

lemma map_of_filter_key: "map_of (filter (\<lambda>e. fst e \<noteq> k) xs) = (map_of xs)(k := None)"
  by (induction xs) (auto simp: fun_eq_iff)

lemma card_dom_map_of: "distinct (map fst xs) \<Longrightarrow> card (dom (map_of xs)) = length xs"
  by (metis distinct_card dom_map_of_conv_image_fst length_map list.set_map)

lemma length_filter_key:
  "k \<in> fst ` set xs \<Longrightarrow> length (filter (\<lambda>e. fst e \<noteq> k) xs) < length xs"
proof -
  assume "k \<in> fst ` set xs"
  then obtain e where "e \<in> set xs" "fst e = k" by auto
  then show ?thesis by (intro length_filter_less) auto
qed

lemma map_of_take_other:
  "distinct (map fst xs) \<Longrightarrow> map_of (take n xs) j = map_of xs j \<or> map_of (take n xs) j = None"
proof -
  assume d: "distinct (map fst xs)"
  have "map_of xs = map_of (take n xs @ drop n xs)" by simp
  also have "\<dots> = map_of (drop n xs) ++ map_of (take n xs)" by (simp only: map_of_append)
  finally have "map_of xs j = (map_of (drop n xs) ++ map_of (take n xs)) j" by simp
  then show ?thesis by (cases "map_of (take n xs) j") (auto simp: map_add_def)
qed

interpretation list_lru: lru_cache "list_lru cap" map_of cap "list_lru_inv cap"
proof unfold_locales
  fix c :: "('k \<times> 'v) list" and k j :: 'k and v :: 'v
  assume c: "list_lru_inv cap c"
  then have d: "distinct (map fst c)" "length c \<le> cap" by (simp_all add: list_lru_inv_def)
  let ?rest = "filter (\<lambda>e. fst e \<noteq> k) c"
  have rest: "distinct (map fst ((k, v) # ?rest))" using d(1) by (auto simp: distinct_filter_fst)
  show "fst (lru_get (list_lru cap) k c) = map_of c k" by (simp add: list_get_def split: option.split)
  show "map_of (snd (lru_get (list_lru cap) k c)) = map_of c"
    by (auto simp: list_get_def map_of_filter_key split: option.split)
  show "list_lru_inv cap (snd (lru_get (list_lru cap) k c))"
  proof (cases "map_of c k")
    case (Some w)
    then have "k \<in> fst ` set c" by (force dest: map_of_SomeD)
    then have "length ?rest < length c" by (rule length_filter_key)
    then show ?thesis using d Some by (auto simp: list_get_def list_lru_inv_def distinct_filter_fst)
  qed (use c in \<open>simp add: list_get_def\<close>)
  show "0 < cap \<Longrightarrow> map_of (lru_add (list_lru cap) k v c) k = Some v"
    by (cases cap) (simp_all add: list_add_def)
  show "map_of (lru_add (list_lru cap) k v c) = (map_of c)(k \<mapsto> v)"
    if room: "card (dom (map_of c)) < cap \<or> k \<in> dom (map_of c)"
  proof -
    have "length ?rest < cap"
    proof (cases "k \<in> dom (map_of c)")
      case True
      then have "length ?rest < length c" by (intro length_filter_key) (simp add: dom_map_of_conv_image_fst)
      then show ?thesis using d(2) by simp
    next
      case False
      then have "length c < cap" using room card_dom_map_of [OF d(1)] by simp
      then show ?thesis using length_filter_le [of "\<lambda>e. fst e \<noteq> k" c] by linarith
    qed
    then show ?thesis by (simp add: list_add_def map_of_filter_key take_Cons')
  qed
  show "map_of (lru_add (list_lru cap) k v c) j = map_of c j \<or> map_of (lru_add (list_lru cap) k v c) j = None"
    if "j \<noteq> k"
    using map_of_take_other [OF rest, of cap j] that by (simp add: list_add_def map_of_filter_key)
  show "list_lru_inv cap (lru_add (list_lru cap) k v c)"
    using rest by (simp add: list_add_def list_lru_inv_def distinct_take flip: take_map)
  show "map_of (lru_remove (list_lru cap) k c) = (map_of c)(k := None)"
    by (simp add: list_remove_def map_of_filter_key)
  show "list_lru_inv cap (lru_remove (list_lru cap) k c)"
    using d by (simp add: list_remove_def list_lru_inv_def distinct_filter_fst order_trans [OF length_filter_le])
  show "finite (dom (map_of c))" by (rule finite_dom_map_of)
qed

end
