(* ===== verification/DeviceGuard.thy ===== *)
theory DeviceGuard
  imports AccountsRepo LruCache
begin

text \<open>
  \<open>internal/api/device_guard.go\<close>: the in-memory list of revoked and banned devices that
  every authenticated request is checked against. Revocations are in a bounded cache with
  the time they end; bans last until they are lifted.
\<close>

section \<open>The guard\<close>

definition revokedCacheCapacity :: nat where
  "revokedCacheCapacity = 65536"

record 'c guard =
  revoked :: 'c
  banned :: "int set"

type_synonym 'c revoked_ops = "('c, int, time) lru_ops"

definition NewDeviceGuard :: "'c \<Rightarrow> 'c guard" where
  "NewDeviceGuard c = \<lparr> revoked = c, banned = {} \<rparr>"

definition LoadBanned :: "'c guard \<Rightarrow> db \<Rightarrow> (db_error + 'c guard) \<times> db" where
  "LoadBanned g s = (case DeviceGetBannedIDs s of
       (Inl e, s') \<Rightarrow> (Inl e, s')
     | (Inr ids, s') \<Rightarrow> (Inr (g\<lparr> banned := banned g \<union> set ids \<rparr>), s'))"

definition Guard_Revoke :: "'c revoked_ops \<Rightarrow> int \<Rightarrow> duration \<Rightarrow> time \<Rightarrow> 'c guard \<Rightarrow> 'c guard" where
  "Guard_Revoke ops i ttl now g = g\<lparr> revoked := lru_add ops i (now + ttl) (revoked g) \<rparr>"

definition Guard_RevokeMany :: "'c revoked_ops \<Rightarrow> int list \<Rightarrow> duration \<Rightarrow> time \<Rightarrow> 'c guard \<Rightarrow> 'c guard" where
  "Guard_RevokeMany ops ids ttl now g =
     (let expiry = now + ttl in g\<lparr> revoked := fold (\<lambda>i. lru_add ops i expiry) ids (revoked g) \<rparr>)"

definition Guard_Ban :: "'c revoked_ops \<Rightarrow> int \<Rightarrow> 'c guard \<Rightarrow> 'c guard" where
  "Guard_Ban ops i g = g\<lparr> banned := insert i (banned g), revoked := lru_remove ops i (revoked g) \<rparr>"

definition Guard_Unban :: "int \<Rightarrow> 'c guard \<Rightarrow> 'c guard" where
  "Guard_Unban i g = g\<lparr> banned := banned g - {i} \<rparr>"

definition IsBlocked :: "'c revoked_ops \<Rightarrow> int \<Rightarrow> time \<Rightarrow> 'c guard \<Rightarrow> bool \<times> 'c guard" where
  "IsBlocked ops i now g =
     (if i \<in> banned g then (True, g)
      else
        let (found, c) = lru_get ops i (revoked g); g1 = g\<lparr> revoked := c \<rparr> in
        (case found of
           None \<Rightarrow> (False, g1)
         | Some expiry \<Rightarrow>
             if now < expiry then (True, g1)
             else
               let (again, c2) = lru_get ops i (revoked g1); g2 = g1\<lparr> revoked := c2 \<rparr> in
               (case again of
                  Some e \<Rightarrow> if \<not> now < e then (False, g2\<lparr> revoked := lru_remove ops i (revoked g2) \<rparr>) else (False, g2)
                | None \<Rightarrow> (False, g2))))"

section \<open>Sequences of operations\<close>

datatype guard_op =
    OpRevoke int duration
  | OpRevokeMany "int list" duration
  | OpBan int
  | OpUnban int
  | OpCheck int

fun guard_op_step :: "'c revoked_ops \<Rightarrow> time \<times> guard_op \<Rightarrow> 'c guard \<Rightarrow> 'c guard" where
  "guard_op_step ops (t, OpRevoke i ttl) g = Guard_Revoke ops i ttl t g"
| "guard_op_step ops (t, OpRevokeMany ids ttl) g = Guard_RevokeMany ops ids ttl t g"
| "guard_op_step ops (t, OpBan i) g = Guard_Ban ops i g"
| "guard_op_step ops (t, OpUnban i) g = Guard_Unban i g"
| "guard_op_step ops (t, OpCheck i) g = snd (IsBlocked ops i t g)"

text \<open>How many entries an operation can add to the cache.\<close>

fun op_adds :: "guard_op \<Rightarrow> nat" where
  "op_adds (OpRevoke i ttl) = 1"
| "op_adds (OpRevokeMany ids ttl) = length ids"
| "op_adds _ = 0"

section \<open>What the guard relies on of the cache\<close>

context lru_cache
begin

lemma get_pair:
  assumes "inv c"
  obtains c' where "lru_get ops k c = (entries c k, c')" and "inv c'" and "entries c' = entries c"
  using get_value [OF assms, of k] get_entries [OF assms, of k] get_inv [OF assms, of k]
  by (metis prod.collapse)

end

text \<open>The answer of \<open>IsBlocked\<close>, and what it leaves behind: at most the entry it looked at,
  when that has expired, is gone.\<close>

lemma IsBlocked_spec:
  assumes lru: "lru_cache ops entries cap ok" and ok: "ok (revoked g)"
  shows "fst (IsBlocked ops i now g) \<longleftrightarrow> i \<in> banned g \<or> (\<exists>e. entries (revoked g) i = Some e \<and> now < e)"
    and "banned (snd (IsBlocked ops i now g)) = banned g"
    and "ok (revoked (snd (IsBlocked ops i now g)))"
    and "entries (revoked (snd (IsBlocked ops i now g))) =
      (if i \<notin> banned g \<and> (\<exists>e. entries (revoked g) i = Some e \<and> e \<le> now)
       then (entries (revoked g))(i := None) else entries (revoked g))"
proof -
  obtain c1 where c1: "lru_get ops i (revoked g) = (entries (revoked g) i, c1)" "ok c1" "entries c1 = entries (revoked g)"
    by (rule lru_cache.get_pair [OF lru ok])
  obtain c2 where c2: "lru_get ops i c1 = (entries (revoked g) i, c2)" "ok c2" "entries c2 = entries (revoked g)"
    using lru_cache.get_pair [OF lru c1(2), of i] c1(3) by metis
  note rm = lru_cache.remove_entries [OF lru c2(2), of i] lru_cache.remove_inv [OF lru c2(2), of i]
  show "fst (IsBlocked ops i now g) \<longleftrightarrow> i \<in> banned g \<or> (\<exists>e. entries (revoked g) i = Some e \<and> now < e)"
    and "banned (snd (IsBlocked ops i now g)) = banned g"
    and "ok (revoked (snd (IsBlocked ops i now g)))"
    and "entries (revoked (snd (IsBlocked ops i now g))) =
      (if i \<notin> banned g \<and> (\<exists>e. entries (revoked g) i = Some e \<and> e \<le> now)
       then (entries (revoked g))(i := None) else entries (revoked g))"
    using c1 c2 rm ok by (auto simp: IsBlocked_def Let_def split: option.split)
qed

lemma fold_adds_keep:
  assumes lru: "lru_cache ops entries cap ok" and "ok c"
    and "card (dom (entries c)) + length ids \<le> cap"
  shows "ok (fold (\<lambda>i. lru_add ops i e) ids c)
    \<and> entries (fold (\<lambda>i. lru_add ops i e) ids c) j = (if j \<in> set ids then Some e else entries c j)
    \<and> card (dom (entries (fold (\<lambda>i. lru_add ops i e) ids c))) \<le> card (dom (entries c)) + length ids"
  using assms(2,3)
proof (induction ids arbitrary: c)
  case (Cons i ids)
  let ?c = "lru_add ops i e c"
  have c: "ok ?c" "card (dom (entries ?c)) \<le> card (dom (entries c)) + 1"
    by (rule lru_cache.add_inv [OF lru Cons.prems(1)], rule lru_cache.card_add_le [OF lru Cons.prems(1)])
  have "entries ?c = (entries c)(i \<mapsto> e)"
    by (rule lru_cache.add_room [OF lru Cons.prems(1)]) (use Cons.prems(2) in simp)
  moreover have "ok (fold (\<lambda>i. lru_add ops i e) ids ?c)
    \<and> entries (fold (\<lambda>i. lru_add ops i e) ids ?c) j = (if j \<in> set ids then Some e else entries ?c j)
    \<and> card (dom (entries (fold (\<lambda>i. lru_add ops i e) ids ?c))) \<le> card (dom (entries ?c)) + length ids"
    by (rule Cons.IH [OF c(1)]) (use c(2) Cons.prems(2) in simp)
  ultimately show ?case using c(2) by auto
qed simp

section \<open>Blocked devices stay blocked\<close>

text \<open>An operation that leaves an unexpired revocation of \<open>i\<close> in force.\<close>

definition keeps_revocation :: "int \<Rightarrow> time \<Rightarrow> time \<times> guard_op \<Rightarrow> bool" where
  "keeps_revocation i until = (\<lambda>(t, op). t < until \<and> (case op of
       OpBan j \<Rightarrow> j \<noteq> i
     | OpRevoke j ttl \<Rightarrow> j = i \<longrightarrow> until \<le> t + ttl
     | OpRevokeMany js ttl \<Rightarrow> i \<in> set js \<longrightarrow> until \<le> t + ttl
     | _ \<Rightarrow> True))"

definition revoked_until :: "('c \<Rightarrow> int \<Rightarrow> time option) \<Rightarrow> int \<Rightarrow> time \<Rightarrow> 'c \<Rightarrow> bool" where
  "revoked_until entries i until c \<longleftrightarrow> (\<exists>e. entries c i = Some e \<and> until \<le> e)"

lemma guard_op_step_keeps:
  assumes lru: "lru_cache ops entries cap ok" and ok: "ok (revoked g)"
    and room: "card (dom (entries (revoked g))) + op_adds (snd ev) \<le> cap"
    and keep: "keeps_revocation i until ev" and rev: "revoked_until entries i until (revoked g)"
  shows "ok (revoked (guard_op_step ops ev g)) \<and> revoked_until entries i until (revoked (guard_op_step ops ev g))
    \<and> card (dom (entries (revoked (guard_op_step ops ev g)))) \<le> card (dom (entries (revoked g))) + op_adds (snd ev)"
proof -
  obtain t op where ev: "ev = (t, op)" by (cases ev)
  show ?thesis
  proof (cases op)
    case (OpRevoke j ttl)
    have "ok (fold (\<lambda>i. lru_add ops i (t + ttl)) [j] (revoked g))
      \<and> entries (fold (\<lambda>i. lru_add ops i (t + ttl)) [j] (revoked g)) i =
          (if i \<in> set [j] then Some (t + ttl) else entries (revoked g) i)
      \<and> card (dom (entries (fold (\<lambda>i. lru_add ops i (t + ttl)) [j] (revoked g))))
          \<le> card (dom (entries (revoked g))) + length [j]"
      by (rule fold_adds_keep [OF lru ok]) (use room ev OpRevoke in simp)
    then show ?thesis using keep rev ev OpRevoke
      by (auto simp: Guard_Revoke_def keeps_revocation_def revoked_until_def)
  next
    case (OpRevokeMany js ttl)
    have "card (dom (entries (revoked g))) + length js \<le> cap" using room ev OpRevokeMany by simp
    from fold_adds_keep [OF lru ok this, of "t + ttl" i] show ?thesis using keep rev ev OpRevokeMany
      by (auto simp: Guard_RevokeMany_def Let_def keeps_revocation_def revoked_until_def)
  next
    case (OpBan j)
    then show ?thesis
      using lru_cache.remove_entries [OF lru ok] lru_cache.remove_inv [OF lru ok]
        lru_cache.card_remove_le [OF lru ok] keep rev ev
      by (simp add: Guard_Ban_def keeps_revocation_def revoked_until_def)
  next
    case (OpUnban j)
    then show ?thesis using ok rev ev by (simp add: Guard_Unban_def)
  next
    case (OpCheck j)
    have "card (dom ((entries (revoked g))(j := None))) \<le> card (dom (entries (revoked g)))"
      using lru_cache.finite_entries [OF lru ok] by (simp add: card_mono)
    moreover have "\<not> (\<exists>e. entries (revoked g) i = Some e \<and> e \<le> t)"
      using rev keep ev OpCheck by (auto simp: revoked_until_def keeps_revocation_def)
    ultimately show ?thesis using IsBlocked_spec [OF lru ok, of j t] rev ev OpCheck
      by (auto simp: revoked_until_def)
  qed
qed

lemma guard_ops_keep:
  assumes lru: "lru_cache ops entries cap ok" and "ok (revoked g)"
    and "card (dom (entries (revoked g))) + sum_list (map (op_adds \<circ> snd) evs) \<le> cap"
    and "list_all (keeps_revocation i until) evs" and "revoked_until entries i until (revoked g)"
  shows "ok (revoked (fold (guard_op_step ops) evs g))
    \<and> revoked_until entries i until (revoked (fold (guard_op_step ops) evs g))"
  using assms(2-)
proof (induction evs arbitrary: g)
  case (Cons ev evs)
  have "card (dom (entries (revoked g))) + op_adds (snd ev) \<le> cap" using Cons.prems(2) by simp
  from guard_op_step_keeps [OF lru Cons.prems(1) this, of i until] Cons.prems(3,4)
  have *: "ok (revoked (guard_op_step ops ev g)) \<and> revoked_until entries i until (revoked (guard_op_step ops ev g))
    \<and> card (dom (entries (revoked (guard_op_step ops ev g)))) \<le> card (dom (entries (revoked g))) + op_adds (snd ev)"
    by simp
  then show ?case using Cons.IH [of "guard_op_step ops ev g"] Cons.prems(2,3) by simp
qed simp

lemma guard_ops_banned:
  assumes lru: "lru_cache ops entries cap ok" and "ok (revoked g)" and "i \<in> banned g"
    and "\<forall>(t, op) \<in> set evs. op \<noteq> OpUnban i"
  shows "i \<in> banned (fold (guard_op_step ops) evs g)"
proof -
  have step: "i \<in> banned (guard_op_step ops ev g)" if "i \<in> banned g" "snd ev \<noteq> OpUnban i" for ev and g :: "'a guard"
  proof (cases ev)
    case (Pair t op)
    then show ?thesis using that
      by (cases op) (auto simp: Guard_Revoke_def Guard_RevokeMany_def Guard_Ban_def Guard_Unban_def IsBlocked_def
          Let_def split: option.split prod.split)
  qed
  show ?thesis using assms(3,4)
  proof (induction evs arbitrary: g)
    case (Cons ev evs)
    then show ?case using step [of g ev] by (cases ev) auto
  qed simp
qed

lemma revocation_in_force:
  assumes lru: "lru_cache ops entries cap ok" and "ok (revoked g)"
    and "card (dom (entries (revoked g))) + 1 + sum_list (map (op_adds \<circ> snd) evs) \<le> cap"
    and "list_all (keeps_revocation i (t0 + ttl)) evs" and "t < t0 + ttl"
  shows "fst (IsBlocked ops i t (fold (guard_op_step ops) evs (Guard_Revoke ops i ttl t0 g)))"
proof -
  let ?g = "Guard_Revoke ops i ttl t0 g"
  have keep: "ok (fold (\<lambda>i. lru_add ops i (t0 + ttl)) [i] (revoked g))
      \<and> entries (fold (\<lambda>i. lru_add ops i (t0 + ttl)) [i] (revoked g)) i =
          (if i \<in> set [i] then Some (t0 + ttl) else entries (revoked g) i)
      \<and> card (dom (entries (fold (\<lambda>i. lru_add ops i (t0 + ttl)) [i] (revoked g))))
          \<le> card (dom (entries (revoked g))) + length [i]"
    by (rule fold_adds_keep [OF lru assms(2)]) (use assms(3) in simp)
  then have "ok (revoked (fold (guard_op_step ops) evs ?g))
      \<and> revoked_until entries i (t0 + ttl) (revoked (fold (guard_op_step ops) evs ?g))"
    using assms(3,4) by (intro guard_ops_keep [OF lru]) (auto simp: Guard_Revoke_def revoked_until_def)
  then show ?thesis using IsBlocked_spec(1) [OF lru] assms(5) by (fastforce simp: revoked_until_def)
qed

section \<open>Properties\<close>



text \<open>Banning a revoked device and lifting the ban takes the revocation away: the device is
  let in again at any time, although the access token it was revoked for is still valid.\<close>

lemma unban_drops_revocation:
  assumes lru: "lru_cache ops entries cap ok" and "ok (revoked g)"
  shows "\<not> fst (IsBlocked ops i t (Guard_Unban i (Guard_Ban ops i (Guard_Revoke ops i ttl t0 g))))"
proof -
  let ?c = "lru_add ops i (t0 + ttl) (revoked g)"
  have c: "ok ?c" by (rule lru_cache.add_inv [OF lru assms(2)])
  have "ok (lru_remove ops i ?c)" "entries (lru_remove ops i ?c) i = None"
    by (simp_all add: lru_cache.remove_inv [OF lru c] lru_cache.remove_entries [OF lru c])
  then show ?thesis
    using IsBlocked_spec(1) [OF lru, of "Guard_Unban i (Guard_Ban ops i (Guard_Revoke ops i ttl t0 g))" i t]
    by (simp add: Guard_Unban_def Guard_Ban_def Guard_Revoke_def)
qed

end
