(* ===== verification/RateLimiter.thy ===== *)
theory RateLimiter
  imports Prelude LruCache
begin

text \<open>
  \<open>internal/api/rate_limiter.go\<close>: failed logins per client address, in a bounded cache of
  the recent attempts and one of the locks.
\<close>

section \<open>The limiter\<close>

definition maxAttempts :: nat where
  "maxAttempts = 5"

definition attemptWindow :: duration where
  "attemptWindow = minute"

definition lockDuration :: duration where
  "lockDuration = 30 * minute"

definition rateLimiterCapacity :: nat where
  "rateLimiterCapacity = 10000"

record ('a, 'l) loginRateLimiter =
  attempts :: 'a
  locked :: 'l

definition newLoginRateLimiter :: "'a \<Rightarrow> 'l \<Rightarrow> ('a, 'l) loginRateLimiter" where
  "newLoginRateLimiter a l = \<lparr> attempts = a, locked = l \<rparr>"

definition IsLocked ::
  "('l, string, time) lru_ops \<Rightarrow> string \<Rightarrow> time \<Rightarrow> ('a, 'l) loginRateLimiter \<Rightarrow> bool \<times> ('a, 'l) loginRateLimiter" where
  "IsLocked lops ip now rl =
     (let (until, c) = lru_get lops ip (locked rl); rl1 = rl\<lparr> locked := c \<rparr> in
      case until of
        None \<Rightarrow> (False, rl1)
      | Some u \<Rightarrow> if now < u then (True, rl1) else (False, rl1\<lparr> locked := lru_remove lops ip (locked rl1) \<rparr>))"

definition RecordFailure ::
  "('a, string, time list) lru_ops \<Rightarrow> ('l, string, time) lru_ops \<Rightarrow> string \<Rightarrow> time
    \<Rightarrow> ('a, 'l) loginRateLimiter \<Rightarrow> bool \<times> ('a, 'l) loginRateLimiter" where
  "RecordFailure aops lops ip now rl =
     (let cutoff = now - attemptWindow;
          (found, c) = lru_get aops ip (attempts rl);
          existing = (case found of None \<Rightarrow> [] | Some ts \<Rightarrow> ts);
          filtered = filter (\<lambda>t. t > cutoff) existing @ [now];
          rl1 = rl\<lparr> attempts := lru_add aops ip filtered c \<rparr>
      in if length filtered \<ge> maxAttempts then
           (True, rl1\<lparr> locked := lru_add lops ip (now + lockDuration) (locked rl1),
                       attempts := lru_remove aops ip (attempts rl1) \<rparr>)
         else (False, rl1))"

section \<open>Lemmas\<close>

definition rl_ok :: "('a \<Rightarrow> bool) \<Rightarrow> ('l \<Rightarrow> bool) \<Rightarrow> ('a, 'l) loginRateLimiter \<Rightarrow> bool" where
  "rl_ok aok lok rl \<longleftrightarrow> aok (attempts rl) \<and> lok (locked rl)"

definition recent :: "('a \<Rightarrow> string \<Rightarrow> time list option) \<Rightarrow> string \<Rightarrow> time \<Rightarrow> ('a, 'l) loginRateLimiter \<Rightarrow> time list" where
  "recent aents ip now rl =
     filter (\<lambda>t. t > now - attemptWindow) (case aents (attempts rl) ip of None \<Rightarrow> [] | Some ts \<Rightarrow> ts)"

lemma RecordFailure_spec:
  assumes a: "lru_cache aops aents acap aok" and l: "lru_cache lops lents lcap lok"
    and pos: "0 < acap" "0 < lcap" and ok: "rl_ok aok lok rl"
  shows "fst (RecordFailure aops lops ip now rl) \<longleftrightarrow> length (recent aents ip now rl) + 1 \<ge> maxAttempts"
    and "rl_ok aok lok (snd (RecordFailure aops lops ip now rl))"
    and "fst (RecordFailure aops lops ip now rl) \<Longrightarrow>
      lents (locked (snd (RecordFailure aops lops ip now rl))) ip = Some (now + lockDuration)"
    and "\<not> fst (RecordFailure aops lops ip now rl) \<Longrightarrow>
      aents (attempts (snd (RecordFailure aops lops ip now rl))) ip = Some (recent aents ip now rl @ [now])"
    and "\<not> fst (RecordFailure aops lops ip now rl) \<Longrightarrow>
      locked (snd (RecordFailure aops lops ip now rl)) = locked rl"
proof -
  have aok: "aok (attempts rl)" and lok: "lok (locked rl)" using ok by (simp_all add: rl_ok_def)
  define c where "c = snd (lru_get aops ip (attempts rl))"
  have g: "lru_get aops ip (attempts rl) = (aents (attempts rl) ip, c)"
    using lru_cache.get_value [OF a aok, of ip] unfolding c_def by (metis prod.collapse)
  have c: "aok c" unfolding c_def by (rule lru_cache.get_inv [OF a aok])
  let ?ts = "recent aents ip now rl @ [now]"
  let ?c = "lru_add aops ip ?ts c"
  have c2: "aok ?c" "aents ?c ip = Some ?ts"
    by (rule lru_cache.add_inv [OF a c], rule lru_cache.add_same [OF a c pos(1)])
  have eq: "RecordFailure aops lops ip now rl =
     (if length ?ts \<ge> maxAttempts then
        (True, rl\<lparr> attempts := lru_remove aops ip ?c, locked := lru_add lops ip (now + lockDuration) (locked rl) \<rparr>)
      else (False, rl\<lparr> attempts := ?c \<rparr>))"
    by (simp add: RecordFailure_def g recent_def Let_def)
  show "fst (RecordFailure aops lops ip now rl) \<longleftrightarrow> length (recent aents ip now rl) + 1 \<ge> maxAttempts"
    by (simp add: eq)
  show "rl_ok aok lok (snd (RecordFailure aops lops ip now rl))"
    using c2(1) lok lru_cache.remove_inv [OF a c2(1)] lru_cache.add_inv [OF l lok] by (simp add: eq rl_ok_def)
  show "fst (RecordFailure aops lops ip now rl) \<Longrightarrow>
      lents (locked (snd (RecordFailure aops lops ip now rl))) ip = Some (now + lockDuration)"
    using lru_cache.add_same [OF l lok pos(2)] by (simp add: eq split: if_splits)
  show "\<not> fst (RecordFailure aops lops ip now rl) \<Longrightarrow>
      aents (attempts (snd (RecordFailure aops lops ip now rl))) ip = Some (recent aents ip now rl @ [now])"
    using c2(2) by (simp add: eq split: if_splits)
  show "\<not> fst (RecordFailure aops lops ip now rl) \<Longrightarrow>
      locked (snd (RecordFailure aops lops ip now rl)) = locked rl"
    by (simp add: eq split: if_splits)
qed

lemma IsLocked_spec:
  assumes l: "lru_cache lops lents lcap lok" and ok: "lok (locked rl)"
  shows "fst (IsLocked lops ip now rl) \<longleftrightarrow> (\<exists>u. lents (locked rl) ip = Some u \<and> now < u)"
proof -
  obtain c where "lru_get lops ip (locked rl) = (lents (locked rl) ip, c)"
    using lru_cache.get_value [OF l ok, of ip] by (metis prod.collapse)
  then show ?thesis by (simp add: IsLocked_def Let_def split: option.split)
qed

text \<open>The attempts of one address, recorded one after the other.\<close>

definition record_all ::
  "('a, string, time list) lru_ops \<Rightarrow> ('l, string, time) lru_ops \<Rightarrow> string \<Rightarrow> time list
    \<Rightarrow> ('a, 'l) loginRateLimiter \<Rightarrow> ('a, 'l) loginRateLimiter" where
  "record_all aops lops ip ts rl = fold (\<lambda>t rl. snd (RecordFailure aops lops ip t rl)) ts rl"

lemma record_below_limit:
  assumes a: "lru_cache aops aents acap aok" and l: "lru_cache lops lents lcap lok"
    and pos: "0 < acap" "0 < lcap"
  shows "rl_ok aok lok rl \<Longrightarrow> aents (attempts rl) ip = (if old = [] then None else Some old) \<Longrightarrow>
    length old + length ts < maxAttempts \<Longrightarrow> \<forall>t \<in> set (old @ ts). \<forall>u \<in> set (old @ ts). u - attemptWindow < t \<Longrightarrow>
    rl_ok aok lok (record_all aops lops ip ts rl)
    \<and> aents (attempts (record_all aops lops ip ts rl)) ip = (if old @ ts = [] then None else Some (old @ ts))
    \<and> locked (record_all aops lops ip ts rl) = locked rl"
proof (induction ts arbitrary: old rl)
  case (Cons t ts)
  note spec = RecordFailure_spec [OF a l pos Cons.prems(1), of ip t]
  have rec: "recent aents ip t rl = old"
    using Cons.prems(2,4) by (auto simp: recent_def filter_id_conv)
  have no: "\<not> fst (RecordFailure aops lops ip t rl)" using spec(1) rec Cons.prems(3) by simp
  let ?rl = "snd (RecordFailure aops lops ip t rl)"
  have "rl_ok aok lok (record_all aops lops ip ts ?rl)
    \<and> aents (attempts (record_all aops lops ip ts ?rl)) ip =
        (if (old @ [t]) @ ts = [] then None else Some ((old @ [t]) @ ts))
    \<and> locked (record_all aops lops ip ts ?rl) = locked ?rl"
    by (rule Cons.IH) (use spec no rec Cons.prems in \<open>auto\<close>)
  then show ?case using spec(5) [OF no] by (simp add: record_all_def)
qed (simp add: record_all_def)

section \<open>Properties\<close>

text \<open>C14: five failures of an address that has none on record, each within a minute of the
  last, lock it at the fifth and for exactly thirty minutes from there; four do not.\<close>

theorem five_failures_lock:
  assumes a: "lru_cache aops aents acap aok" and l: "lru_cache lops lents lcap lok"
    and "0 < acap" and "0 < lcap" and "rl_ok aok lok rl"
    and "aents (attempts rl) ip = None" and "lents (locked rl) ip = None"
    and "length ts = 4" and "\<forall>t \<in> set (ts @ [t5]). \<forall>u \<in> set (ts @ [t5]). u - t < minute"
  shows "\<not> fst (IsLocked lops ip now (record_all aops lops ip ts rl))
    \<and> fst (RecordFailure aops lops ip t5 (record_all aops lops ip ts rl))
    \<and> (fst (IsLocked lops ip now (record_all aops lops ip (ts @ [t5]) rl)) \<longleftrightarrow> now < t5 + 30 * minute)"
proof -
  let ?rl = "record_all aops lops ip ts rl"
  have near: "u - attemptWindow < t" if "t \<in> set (ts @ [t5])" "u \<in> set (ts @ [t5])" for t u
    using assms(9) that unfolding attemptWindow_def by fastforce
  have four: "rl_ok aok lok ?rl \<and> aents (attempts ?rl) ip = (if [] @ ts = [] then None else Some ([] @ ts))
      \<and> locked ?rl = locked rl"
    by (rule record_below_limit [OF a l assms(3,4,5)])
      (use assms(6,8) near in \<open>auto simp: maxAttempts_def\<close>)
  then have ok: "rl_ok aok lok ?rl" by blast
  note spec = RecordFailure_spec [OF a l assms(3,4) ok, of ip t5]
  have "recent aents ip t5 ?rl = ts" using four assms(8) near by (auto simp: recent_def filter_id_conv)
  then have lock: "fst (RecordFailure aops lops ip t5 ?rl)" using spec(1) assms(8) by (simp add: maxAttempts_def)
  let ?after = "snd (RecordFailure aops lops ip t5 ?rl)"
  have oks: "lok (locked ?rl)" "lok (locked ?after)"
    using ok spec(2) by (simp_all add: rl_ok_def)
  have "\<not> fst (IsLocked lops ip now ?rl)"
    unfolding IsLocked_spec [OF l oks(1)] using four assms(7) by simp
  moreover have "fst (IsLocked lops ip now ?after) \<longleftrightarrow> now < t5 + 30 * minute"
    unfolding IsLocked_spec [OF l oks(2)] spec(3) [OF lock] by (simp add: lockDuration_def)
  moreover have "record_all aops lops ip (ts @ [t5]) rl = ?after"
    by (simp add: record_all_def)
  ultimately show ?thesis using lock by simp
qed

theorem five_failures_lock_witness:
  "fst (IsLocked (list_lru 10000) ''10.1.1.1'' (20 * minute)
     (record_all (list_lru 10000) (list_lru 10000) ''10.1.1.1'' ([0, second, 2 * second, 3 * second] @ [50 * second])
        (newLoginRateLimiter [] [])))"
proof -
  have "\<not> fst (IsLocked (list_lru 10000) ''10.1.1.1'' (20 * minute)
      (record_all (list_lru 10000) (list_lru 10000) ''10.1.1.1'' [0, second, 2 * second, 3 * second] (newLoginRateLimiter [] [])))
    \<and> fst (RecordFailure (list_lru 10000) (list_lru 10000) ''10.1.1.1'' (50 * second)
        (record_all (list_lru 10000) (list_lru 10000) ''10.1.1.1'' [0, second, 2 * second, 3 * second] (newLoginRateLimiter [] [])))
    \<and> (fst (IsLocked (list_lru 10000) ''10.1.1.1'' (20 * minute)
        (record_all (list_lru 10000) (list_lru 10000) ''10.1.1.1'' ([0, second, 2 * second, 3 * second] @ [50 * second])
          (newLoginRateLimiter [] []))) \<longleftrightarrow> 20 * minute < 50 * second + 30 * minute)"
    by (rule five_failures_lock [OF list_lru.lru_cache_axioms list_lru.lru_cache_axioms])
      (simp_all add: newLoginRateLimiter_def rl_ok_def list_lru_inv_def duration_defs)
  then show ?thesis by (simp add: duration_defs)
qed

end
