(* ===== verification/NetAddr.thy ===== *)
theory NetAddr
  imports GoStrings "HOL-Library.Word"
begin

text \<open>
  Client addresses: the functions of Go's \<open>net\<close> the handlers read a remote address with, and
  \<open>isLocalRequest\<close> with its table of private ranges from \<open>internal/api/video.go\<close>. An address
  is the sixteen bytes of a \<open>net.IP\<close> as one 128-bit word; an IPv4 address \<open>a\<close> is \<open>::ffff:a\<close>.
\<close>

unbundle bit_operations_syntax

section \<open>Splitting host and port\<close>

text \<open>\<open>strings.IndexByte\<close> and \<open>strings.LastIndexByte\<close>.\<close>

definition index_byte :: "char \<Rightarrow> string \<Rightarrow> nat option" where
  "index_byte c s = (if c \<in> set s then Some (length (takeWhile (\<lambda>d. d \<noteq> c) s)) else None)"

definition last_index_byte :: "char \<Rightarrow> string \<Rightarrow> nat option" where
  "last_index_byte c s = map_option (\<lambda>i. length s - 1 - i) (index_byte c (rev s))"

text \<open>\<open>net.SplitHostPort\<close>; None is any of its errors.\<close>

definition split_host_port :: "string \<Rightarrow> (string \<times> string) option" where
  "split_host_port hp =
     (case last_index_byte (CHR '':'') hp of
        None \<Rightarrow> None
      | Some i \<Rightarrow>
          let port = drop (i + 1) hp in
          if hd hp = CHR ''['' then
            (case index_byte (CHR '']'') hp of
               None \<Rightarrow> None
             | Some e \<Rightarrow>
                 if e + 1 \<noteq> i then None
                 else if CHR ''['' \<in> set (drop 1 hp) \<or> CHR '']'' \<in> set (drop (e + 1) hp) then None
                 else Some (take (e - 1) (drop 1 hp), port))
          else
            if CHR '':'' \<in> set (take i hp) then None
            else if CHR ''['' \<in> set hp \<or> CHR '']'' \<in> set hp then None
            else Some (take i hp, port))"

section \<open>Parsing an address\<close>

type_synonym ip = "128 word"

definition ip_of_v4 :: "32 word \<Rightarrow> ip" where
  "ip_of_v4 a = push_bit 32 0xffff OR ucast a"

text \<open>\<open>IP.To4\<close>.\<close>

definition To4 :: "ip \<Rightarrow> 32 word option" where
  "To4 x = (if drop_bit 32 x = 0xffff then Some (ucast x) else None)"

fun split_on :: "char \<Rightarrow> string \<Rightarrow> string list" where
  "split_on c [] = [[]]"
| "split_on c (d # s) = (if d = c then [] # split_on c s
     else case split_on c s of [] \<Rightarrow> [[d]] | f # fs \<Rightarrow> (d # f) # fs)"

definition v4_field_ok :: "string \<Rightarrow> bool" where
  "v4_field_ok f \<longleftrightarrow> f \<noteq> [] \<and> list_all is_digit f \<and> (hd f = CHR ''0'' \<longrightarrow> length f = 1) \<and> dec_value 0 f \<le> 255"

text \<open>Four decimal fields, none with a leading zero.\<close>

definition parse_v4 :: "string \<Rightarrow> nat list option" where
  "parse_v4 s = (let fs = split_on (CHR ''.'') s in
     if length fs = 4 \<and> list_all v4_field_ok fs then Some (map (dec_value 0) fs) else None)"

definition hex_val :: "char \<Rightarrow> nat option" where
  "hex_val c = (let n = of_char c :: nat in
     if is_digit c then Some (n - 48)
     else if 97 \<le> n \<and> n \<le> 102 then Some (n - 87)
     else if 65 \<le> n \<and> n \<le> 70 then Some (n - 55) else None)"

definition is_hex :: "char \<Rightarrow> bool" where
  "is_hex c \<longleftrightarrow> hex_val c \<noteq> None"

definition hex_value :: "string \<Rightarrow> nat" where
  "hex_value s = foldl (\<lambda>a c. 16 * a + the (hex_val c)) 0 s"

text \<open>The loop over the groups of an IPv6 address: \<open>gs\<close> the groups so far, \<open>ell\<close> where the
  ellipsis was, \<open>n\<close> how many more groups fit.\<close>

fun v6_loop :: "nat \<Rightarrow> string \<Rightarrow> nat list \<Rightarrow> nat option \<Rightarrow> (nat list \<times> nat option) option" where
  "v6_loop 0 s gs ell = (if s = [] then Some (gs, ell) else None)"
| "v6_loop (Suc n) s gs ell =
     (let h = takeWhile is_hex s; rest = dropWhile is_hex s in
      if h = [] \<or> length h > 4 then None
      else if rest \<noteq> [] \<and> hd rest = CHR ''.'' then
        (if (ell = None \<and> length gs \<noteq> 6) \<or> length gs > 6 then None
         else case parse_v4 s of
           Some [a, b, c, d] \<Rightarrow> Some (gs @ [256 * a + b, 256 * c + d], ell)
         | _ \<Rightarrow> None)
      else
        let gs' = gs @ [hex_value h] in
        if rest = [] then Some (gs', ell)
        else if hd rest \<noteq> CHR '':'' \<or> length rest = 1 then None
        else
          let s1 = tl rest in
          if hd s1 = CHR '':'' then
            (if ell \<noteq> None then None
             else if tl s1 = [] then Some (gs', Some (length gs'))
             else v6_loop n (tl s1) gs' (Some (length gs')))
          else v6_loop n s1 gs' ell)"

definition parse_v6 :: "string \<Rightarrow> nat list option" where
  "parse_v6 s =
     (let start = (take 2 s = ''::''); s1 = (if start then drop 2 s else s) in
      if start \<and> s1 = [] then Some (replicate 8 0)
      else case v6_loop 8 s1 [] (if start then Some 0 else None) of
        None \<Rightarrow> None
      | Some (gs, None) \<Rightarrow> (if length gs = 8 then Some gs else None)
      | Some (gs, Some e) \<Rightarrow>
          (if length gs < 8 then Some (take e gs @ replicate (8 - length gs) 0 @ drop e gs) else None))"

definition word_of_fields :: "nat \<Rightarrow> nat list \<Rightarrow> 'a :: len word" where
  "word_of_fields w fs = foldl (\<lambda>a f. push_bit w a OR of_nat f) 0 fs"

text \<open>\<open>net.ParseIP\<close>: the first of the bytes \<open>. : %\<close> decides the form; an address with a zone
  is refused.\<close>

definition ParseIP :: "string \<Rightarrow> ip option" where
  "ParseIP s =
     (case find (\<lambda>c. c = CHR ''.'' \<or> c = CHR '':'' \<or> c = CHR ''%'') s of
        None \<Rightarrow> None
      | Some c \<Rightarrow>
          if c = CHR ''.'' then map_option (\<lambda>fs. ip_of_v4 (word_of_fields 8 fs)) (parse_v4 s)
          else if c = CHR '':'' \<and> CHR ''%'' \<notin> set s then map_option (word_of_fields 16) (parse_v6 s)
          else None)"

section \<open>Local requests\<close>

text \<open>A \<open>net.IPNet\<close>: an IPv4 or an IPv6 network number with the length of its prefix.\<close>

datatype ip_net = Net4 "32 word" nat | Net6 ip nat

definition v4 :: "nat \<Rightarrow> nat \<Rightarrow> nat \<Rightarrow> nat \<Rightarrow> 32 word" where
  "v4 a b c d = word_of_fields 8 [a, b, c, d]"

fun net_contains :: "ip_net \<Rightarrow> ip \<Rightarrow> bool" where
  "net_contains (Net4 base n) x = (case To4 x of None \<Rightarrow> False | Some a \<Rightarrow> a AND NOT (mask (32 - n)) = base)"
| "net_contains (Net6 base n) x = (To4 x = None \<and> x AND NOT (mask (128 - n)) = base)"

definition privateRanges :: "ip_net list" where
  "privateRanges = [Net4 (v4 10 0 0 0) 8, Net4 (v4 172 16 0 0) 12, Net4 (v4 192 168 0 0) 16,
     Net4 (v4 127 0 0 0) 8, Net6 1 128, Net6 (push_bit 112 0xfc00) 7]"

definition IsLoopback :: "ip \<Rightarrow> bool" where
  "IsLoopback x = (case To4 x of Some a \<Rightarrow> drop_bit 24 a = 127 | None \<Rightarrow> x = 1)"

definition isPrivateOrLoopback :: "ip \<Rightarrow> bool" where
  "isPrivateOrLoopback x \<longleftrightarrow> IsLoopback x \<or> list_ex (\<lambda>n. net_contains n x) privateRanges"

definition isLocalRequest :: "string \<Rightarrow> bool" where
  "isLocalRequest remote_addr =
     (let raw0 = (case split_host_port remote_addr of None \<Rightarrow> [] | Some (h, _) \<Rightarrow> h);
          raw = (if raw0 = [] then remote_addr else raw0) in
      case ParseIP raw of None \<Rightarrow> False | Some x \<Rightarrow> isPrivateOrLoopback x)"

text \<open>\<open>clientIP\<close> of \<open>internal/api/auth.go\<close>.\<close>

definition clientIP :: "string \<Rightarrow> string" where
  "clientIP remote_addr = (case split_host_port remote_addr of None \<Rightarrow> remote_addr | Some (h, _) \<Rightarrow> h)"

section \<open>Lemmas\<close>

lemma field_bits: "f < 2 ^ w \<Longrightarrow> bit (of_nat f :: 'a :: len word) n \<Longrightarrow> n < w"
proof (rule ccontr)
  assume f: "f < 2 ^ w" and b: "bit (of_nat f :: 'a word) n" and "\<not> n < w"
  then have "f < 2 ^ n" by (meson leI less_le_trans one_le_numeral power_increasing)
  moreover have "bit f n" using b by (simp add: bit_of_nat_iff)
  ultimately show False by (simp add: bit_iff_odd)
qed

lemma shift_in_field:
  "f < 2 ^ w \<Longrightarrow> push_bit w (of_nat m :: 'a :: len word) OR of_nat f = of_nat (m * 2 ^ w + f)"
proof -
  assume f: "f < 2 ^ w"
  have "push_bit w (of_nat m :: 'a word) OR of_nat f = push_bit w (of_nat m) + of_nat f"
    by (rule disjunctive_add [symmetric]) (use field_bits [OF f] in \<open>fastforce simp: bit_push_bit_iff\<close>)
  moreover have "of_nat (m * 2 ^ w + f) = push_bit w (of_nat m :: 'a word) + of_nat f"
    by (simp add: push_bit_eq_mult)
  ultimately show ?thesis by (simp only:)
qed

lemma word_of_fields_value:
  assumes "a < 256" "b < 256" "c < 256" "d < 256"
  shows "word_of_fields 8 [a, b, c, d] = (of_nat (((a * 256 + b) * 256 + c) * 256 + d) :: 32 word)"
  using shift_in_field [where 'a = 32, of a 8 0] shift_in_field [where 'a = 32, of b 8 a]
    shift_in_field [where 'a = 32, of c 8 "a * 256 + b"]
    shift_in_field [where 'a = 32, of d 8 "(a * 256 + b) * 256 + c"] assms
  by (simp add: word_of_fields_def)

lemma unat_v4:
  assumes "a < 256" "b < 256" "c < 256" "d < 256"
  shows "unat (v4 a b c d) = ((a * 256 + b) * 256 + c) * 256 + d"
proof -
  have small: "unat (of_nat n :: 32 word) = n" if "n < 2 ^ 32" for n
    using that by (simp add: unat_of_nat take_bit_nat_eq_self)
  show ?thesis unfolding v4_def word_of_fields_value [OF assms] by (rule small) (use assms in simp)
qed

lemma masked_eq_iff:
  fixes x b :: "'a :: len word"
  assumes "b AND NOT (mask k) = b"
  shows "x AND NOT (mask k) = b \<longleftrightarrow> unat x div 2 ^ k = unat b div 2 ^ k"
proof -
  have "x AND NOT (mask k) = b \<longleftrightarrow> drop_bit k x = drop_bit k b"
  proof
    assume e: "drop_bit k x = drop_bit k b"
    have *: "y AND NOT (mask k) = push_bit k (drop_bit k y)" for y :: "'a word"
      by (rule bit_eqI) (auto simp: bit_and_iff bit_not_iff bit_mask_iff bit_push_bit_iff bit_drop_bit_eq)
    show "x AND NOT (mask k) = b" using e assms by (simp only: *)
  next
    assume "x AND NOT (mask k) = b"
    then have "drop_bit k b = drop_bit k (x AND NOT (mask k))" by simp
    also have "\<dots> = drop_bit k x"
      by (rule bit_eqI) (auto simp: bit_and_iff bit_not_iff bit_mask_iff bit_drop_bit_eq dest: bit_imp_le_length)
    finally show "drop_bit k x = drop_bit k b" by simp
  qed
  then show ?thesis
    by (simp only: word_unat_eq_iff [of "drop_bit k x"] unat_drop_bit_eq drop_bit_eq_div [where 'a = nat])
qed

lemma To4_ip_of_v4 [simp]: "To4 (ip_of_v4 a) = Some a"
proof -
  have "drop_bit 32 (ucast a :: ip) = 0"
    by (rule bit_word_eqI) (auto simp: bit_simps dest: bit_imp_le_length)
  then have "drop_bit 32 (ip_of_v4 a) = 0xffff" by (simp add: ip_of_v4_def)
  moreover have "ucast (push_bit 32 c OR ucast a) = a" for c :: ip
    by (rule bit_word_eqI) (auto simp: bit_simps)
  then have "ucast (ip_of_v4 a) = a" unfolding ip_of_v4_def .
  ultimately show ?thesis by (simp add: To4_def)
qed

lemma private_ranges_iff:
  "list_ex (\<lambda>n. net_contains n x) privateRanges \<longleftrightarrow>
     (case To4 x of
        Some a \<Rightarrow> unat a div 2 ^ 24 = 10 \<or> unat a div 2 ^ 20 = 172 * 16 + 1 \<or> unat a div 2 ^ 16 = 192 * 256 + 168
          \<or> unat a div 2 ^ 24 = 127
      | None \<Rightarrow> x = 1 \<or> unat x div 2 ^ 121 = 0xfc00 div 2 ^ 9)"
proof -
  have n4: "unat (v4 10 0 0 0) = 10 * 2 ^ 24" "unat (v4 172 16 0 0) = (172 * 16 + 1) * 2 ^ 20"
    "unat (v4 192 168 0 0) = (192 * 256 + 168) * 2 ^ 16" "unat (v4 127 0 0 0) = 127 * 2 ^ 24"
    by (simp_all add: unat_v4)
  have z4: "v4 10 0 0 0 AND NOT (mask 24) = v4 10 0 0 0" "v4 172 16 0 0 AND NOT (mask 20) = v4 172 16 0 0"
    "v4 192 168 0 0 AND NOT (mask 16) = v4 192 168 0 0" "v4 127 0 0 0 AND NOT (mask 24) = v4 127 0 0 0"
    by (simp_all add: v4_def word_of_fields_def mask_eq_exp_minus_1)
  have m4: "a AND NOT (mask 24) = v4 10 0 0 0 \<longleftrightarrow> unat a div 2 ^ 24 = 10"
    "a AND NOT (mask 20) = v4 172 16 0 0 \<longleftrightarrow> unat a div 2 ^ 20 = 172 * 16 + 1"
    "a AND NOT (mask 16) = v4 192 168 0 0 \<longleftrightarrow> unat a div 2 ^ 16 = 192 * 256 + 168"
    "a AND NOT (mask 24) = v4 127 0 0 0 \<longleftrightarrow> unat a div 2 ^ 24 = 127" for a
    unfolding z4 [THEN masked_eq_iff] n4 by simp_all
  have z6: "push_bit 112 (0xfc00 :: ip) AND NOT (mask 121) = push_bit 112 0xfc00"
    by (simp add: mask_eq_exp_minus_1)
  have m6: "y AND NOT (mask 121) = push_bit 112 0xfc00 \<longleftrightarrow> unat y div 2 ^ 121 = 0xfc00 div 2 ^ 9" for y :: ip
    unfolding masked_eq_iff [OF z6] by simp
  have "32 - 8 = (24 :: nat)" "32 - 12 = (20 :: nat)" "32 - 16 = (16 :: nat)" "128 - 7 = (121 :: nat)" by simp_all
  moreover have "list_ex P [n1, n2, n3, n4, n5, n6] \<longleftrightarrow> P n1 \<or> P n2 \<or> P n3 \<or> P n4 \<or> P n5 \<or> P n6"
    for P :: "ip_net \<Rightarrow> bool" and n1 n2 n3 n4 n5 n6 by simp
  moreover have "128 - 128 = (0 :: nat)" "y AND NOT (mask 0) = y" for y :: ip by simp_all
  ultimately show ?thesis unfolding privateRanges_def
    by (simp only: net_contains.simps m4 m6) (auto split: option.split)
qed


lemma split_on_join:
  "\<forall>f \<in> set (f0 # fs). c \<notin> set f \<Longrightarrow> split_on c (f0 @ concat (map (\<lambda>f. c # f) fs)) = f0 # fs"
proof (induction fs arbitrary: f0)
  case Nil
  have "c \<notin> set f \<Longrightarrow> split_on c f = [f]" for f by (induction f) auto
  then show ?case using Nil by simp
next
  case (Cons g fs)
  have "c \<notin> set f \<Longrightarrow> split_on c (f @ c # s) = f # split_on c s" for f s by (induction f) auto
  then show ?case using Cons by simp
qed

lemma nat_dec_no_leading_zero: "hd (nat_dec n) = CHR ''0'' \<Longrightarrow> n = 0"
proof (induction n rule: nat_dec.induct)
  case (1 n)
  show ?case
  proof (cases "n < 10")
    case True
    then have "hd (nat_dec n) = digit_char n" by (subst nat_dec.simps) simp
    then have "digit_val (CHR ''0'') = n" using 1(2) True by (metis digit_val_digit_char)
    then show ?thesis by simp
  next
    case False
    then have "hd (nat_dec n) = hd (nat_dec (n div 10))" by (subst nat_dec.simps) simp
    then show ?thesis using 1 False by simp
  qed
qed

lemma nat_dec_field_ok: "n \<le> 255 \<Longrightarrow> v4_field_ok (nat_dec n)"
  using nat_dec_no_leading_zero [of n] nat_dec_digits [of n]
  by (auto simp: v4_field_ok_def dec_value_nat_dec nat_dec.simps [of 0])

lemma nat_dec_only_digits: "c \<in> set (nat_dec n) \<Longrightarrow> is_digit c"
  using nat_dec_digits [of n] by (simp add: list_all_iff)

definition dotted :: "nat \<Rightarrow> nat \<Rightarrow> nat \<Rightarrow> nat \<Rightarrow> string" where
  "dotted a b c d = nat_dec a @ ''.'' @ nat_dec b @ ''.'' @ nat_dec c @ ''.'' @ nat_dec d"

lemma parse_v4_dotted:
  assumes "a < 256" "b < 256" "c < 256" "d < 256"
  shows "parse_v4 (dotted a b c d) = Some [a, b, c, d]"
proof -
  have "CHR ''.'' \<notin> set (nat_dec n)" for n
    using nat_dec_only_digits [of "CHR ''.''" n] by (auto simp: is_digit_def)
  then have "split_on (CHR ''.'') (dotted a b c d) = [nat_dec a, nat_dec b, nat_dec c, nat_dec d]"
    using split_on_join [of "nat_dec a" "[nat_dec b, nat_dec c, nat_dec d]" "CHR ''.''"] by (simp add: dotted_def)
  then show ?thesis using assms by (simp add: parse_v4_def nat_dec_field_ok dec_value_nat_dec)
qed

lemma find_skip: "\<forall>x \<in> set xs. \<not> P x \<Longrightarrow> P y \<Longrightarrow> find P (xs @ y # ys) = Some y"
  by (induction xs) auto

lemma ParseIP_dotted:
  assumes "a < 256" "b < 256" "c < 256" "d < 256"
  shows "ParseIP (dotted a b c d) = Some (ip_of_v4 (v4 a b c d))"
proof -
  have "find (\<lambda>c. c = CHR ''.'' \<or> c = CHR '':'' \<or> c = CHR ''%'') (dotted a b c d) = Some (CHR ''.'')"
    unfolding dotted_def append_Cons append_Nil
    by (rule find_skip) (auto dest!: nat_dec_only_digits simp: is_digit_def)
  then show ?thesis by (simp add: ParseIP_def parse_v4_dotted [OF assms] v4_def)
qed

lemma split_host_port_plain:
  assumes h: "\<forall>c \<in> set h. c \<notin> {CHR '':'', CHR ''['', CHR '']''}" and p: "\<forall>c \<in> set p. c \<notin> {CHR '':'', CHR ''['', CHR '']''}"
    and "h \<noteq> []"
  shows "split_host_port (h @ CHR '':'' # p) = Some (h, p)"
proof -
  have "takeWhile (\<lambda>d. d \<noteq> CHR '':'') (rev p @ CHR '':'' # rev h) = rev p"
    by (subst takeWhile_append2) (use p in auto)
  then have "last_index_byte (CHR '':'') (h @ CHR '':'' # p) = Some (length h)"
    by (simp add: last_index_byte_def index_byte_def)
  moreover have "hd (h @ CHR '':'' # p) \<noteq> CHR ''[''" using h assms(3) by (cases h) auto
  ultimately show ?thesis using h p by (auto simp: split_host_port_def)
qed

section \<open>Properties\<close>

text \<open>C26: a request from the IPv4 address a.b.c.d, with or without a port, is local exactly when
  the address is in 10/8, 172.16/12, 192.168/16 or 127/8.\<close>

theorem isLocalRequest_v4:
  assumes "a < 256" "b < 256" "c < 256" "d < 256" and "list_all is_digit port"
  shows "(isLocalRequest (dotted a b c d @ CHR '':'' # port) \<longleftrightarrow>
      a = 10 \<or> a = 127 \<or> (a = 172 \<and> 16 \<le> b \<and> b < 32) \<or> (a = 192 \<and> b = 168))
    \<and> (isLocalRequest (dotted a b c d) \<longleftrightarrow> isLocalRequest (dotted a b c d @ CHR '':'' # port))"
proof -
  let ?h = "dotted a b c d" and ?x = "ip_of_v4 (v4 a b c d)"
  have h: "\<forall>c \<in> set ?h. c \<notin> {CHR '':'', CHR ''['', CHR '']''}"
    by (auto simp: dotted_def is_digit_def dest!: nat_dec_only_digits)
  have p: "\<forall>c \<in> set port. c \<notin> {CHR '':'', CHR ''['', CHR '']''}"
    using assms(5) by (auto simp: list_all_iff is_digit_def)
  have ne: "?h \<noteq> []" by (simp add: dotted_def)
  have loc: "isPrivateOrLoopback ?x \<longleftrightarrow>
      a = 10 \<or> a = 127 \<or> (a = 172 \<and> 16 \<le> b \<and> b < 32) \<or> (a = 192 \<and> b = 168)"
  proof -
    have v: "unat (v4 a b c d) div 2 ^ 24 = a" "unat (v4 a b c d) div 2 ^ 20 = a * 16 + b div 16"
      "unat (v4 a b c d) div 2 ^ 16 = a * 256 + b"
      using assms(1-4) unfolding unat_v4 [OF assms(1-4)] by simp_all
    have l: "drop_bit 24 (v4 a b c d) = 127 \<longleftrightarrow> a = 127"
      by (simp only: word_unat_eq_iff unat_drop_bit_eq drop_bit_eq_div [where 'a = nat] v) simp
    have split: "a * n + q = m * n + r \<longleftrightarrow> a = m \<and> q = r" if "q < n" "r < n" for q r n m :: nat
    proof
      assume e: "a * n + q = m * n + r"
      have "(a * n + q) div n = a" "(m * n + r) div n = m" using that by simp_all
      then show "a = m \<and> q = r" using e by (metis add_left_cancel)
    qed simp
    have "b div 16 = 1 \<longleftrightarrow> 16 \<le> b \<and> b < 32" by presburger
    then have "a * 16 + b div 16 = 172 * 16 + 1 \<longleftrightarrow> a = 172 \<and> 16 \<le> b \<and> b < 32"
      using split [of "b div 16" 16 1 172] assms(2) by simp
    moreover have "a * 256 + b = 192 * 256 + 168 \<longleftrightarrow> a = 192 \<and> b = 168"
      by (rule split) (use assms(2) in simp_all)
    ultimately show ?thesis
      unfolding isPrivateOrLoopback_def IsLoopback_def private_ranges_iff To4_ip_of_v4 option.case l v by blast
  qed
  have "last_index_byte (CHR '':'') ?h = None" using h by (auto simp: last_index_byte_def index_byte_def)
  then have "split_host_port ?h = None" by (simp add: split_host_port_def)
  then have both: "isLocalRequest (?h @ CHR '':'' # port) \<longleftrightarrow> isPrivateOrLoopback ?x"
    "isLocalRequest ?h \<longleftrightarrow> isPrivateOrLoopback ?x"
    using ne by (simp_all add: isLocalRequest_def split_host_port_plain [OF h p ne] ParseIP_dotted assms)
  show ?thesis unfolding both using loc by blast
qed

theorem isLocalRequest_v4_witness:
  "isLocalRequest ''172.20.0.9:8080'' \<and> \<not> isLocalRequest ''172.32.0.9:8080''"
proof -
  have d: "dotted 172 20 0 9 = ''172.20.0.9''" "dotted 172 32 0 9 = ''172.32.0.9''" by code_simp+
  show ?thesis
    using isLocalRequest_v4 [of 172 20 0 9 "''8080''"] isLocalRequest_v4 [of 172 32 0 9 "''8080''"]
    by (simp add: d is_digit_def)
qed

end
