(* ===== verification/AuthCore.thy ===== *)
theory AuthCore
  imports DeviceGuard RateLimiter NetAddr
begin

text \<open>
  \<open>internal/auth/auth.go\<close>: tokens and the local auth plugin, on the state of the server that
  the authentication handlers share. SHA-256, bcrypt and the JWT package are not part of the
  repository: they are the fields of \<open>auth_env\<close>.
\<close>

section \<open>The server's state\<close>

text \<open>The database, the device guard and the rate limiter; \<open>entropy\<close> is what the next reads of
  the random source give, None a failing one: the encoded 32 bytes of a refresh token, or a
  bcrypt salt.\<close>

record ('c, 'a, 'l) server =
  sdb :: db
  sguard :: "'c guard"
  slimiter :: "('a, 'l) loginRateLimiter"
  entropy :: "string option list"

type_synonym ('c, 'a, 'l, 'r) op = "('c, 'a, 'l) server \<Rightarrow> 'r \<times> ('c, 'a, 'l) server"

definition server_now :: "('c, 'a, 'l) server \<Rightarrow> time" where
  "server_now sv = clock (sdb sv)"

definition on_db :: "'x statement \<Rightarrow> ('c, 'a, 'l, db_error + 'x) op" where
  "on_db stmt sv = (case stmt (sdb sv) of (r, s) \<Rightarrow> (r, sv\<lparr> sdb := s \<rparr>))"

definition draw :: "('c, 'a, 'l, string option) op" where
  "draw sv = (case entropy sv of [] \<Rightarrow> (None, sv) | e # es \<Rightarrow> (e, sv\<lparr> entropy := es \<rparr>))"

section \<open>Tokens\<close>

definition AccessTokenTTL :: duration where
  "AccessTokenTTL = 15 * minute"

definition RefreshTokenTTL :: duration where
  "RefreshTokenTTL = 90 * 24 * hour"

text \<open>\<open>Claims\<close>; a numeric date of the JWT package is a whole second.\<close>

record claims =
  claims_subject :: string
  claims_issued_at :: time
  claims_expires_at :: time
  claims_is_admin :: bool
  claims_device :: int

datatype signing_method = SigningMethodHMAC | OtherMethod string

definition numeric_date :: "time \<Rightarrow> time" where
  "numeric_date t = t - t mod second"

record ('c, 'a, 'l) auth_env =
  revoked_ops :: "'c revoked_ops"
  attempt_ops :: "('a, string, time list) lru_ops"
  lock_ops :: "('l, string, time) lru_ops"
  sha256_hex :: "string \<Rightarrow> string"
  bcrypt_compare :: "string \<Rightarrow> string \<Rightarrow> bool"              \<comment> \<open>hash, password\<close>
  bcrypt_generate :: "string \<Rightarrow> string \<Rightarrow> string option"     \<comment> \<open>salt, password\<close>
  jwt_sign_hs256 :: "claims \<Rightarrow> string \<Rightarrow> string option"       \<comment> \<open>claims, key\<close>
  jwt_parse :: "string \<Rightarrow> (signing_method \<Rightarrow> string option) \<Rightarrow> time \<Rightarrow> (claims \<times> bool) option"
  secret :: string
  production :: bool

definition IssueToken ::
  "('c, 'a, 'l) auth_env \<Rightarrow> int \<Rightarrow> int \<Rightarrow> bool \<Rightarrow> time \<Rightarrow> string option" where
  "IssueToken env userID deviceID isAdmin now =
     jwt_sign_hs256 env
       \<lparr> claims_subject = strconv_Itoa userID, claims_issued_at = numeric_date now,
         claims_expires_at = numeric_date (now + AccessTokenTTL),
         claims_is_admin = isAdmin, claims_device = deviceID \<rparr>
       (secret env)"

definition token_key :: "('c, 'a, 'l) auth_env \<Rightarrow> signing_method \<Rightarrow> string option" where
  "token_key env m = (case m of SigningMethodHMAC \<Rightarrow> Some (secret env) | OtherMethod _ \<Rightarrow> None)"

definition ParseToken :: "('c, 'a, 'l) auth_env \<Rightarrow> string \<Rightarrow> time \<Rightarrow> claims option" where
  "ParseToken env tok now =
     (case jwt_parse env tok (token_key env) now of
        None \<Rightarrow> None
      | Some (c, valid) \<Rightarrow> if valid then Some c else None)"

definition HashRefreshToken :: "('c, 'a, 'l) auth_env \<Rightarrow> string \<Rightarrow> string" where
  "HashRefreshToken env raw = sha256_hex env raw"

definition GenerateRefreshToken ::
  "('c, 'a, 'l) auth_env \<Rightarrow> ('c, 'a, 'l, string + string \<times> string) op" where
  "GenerateRefreshToken env sv = (case draw sv of
       (None, sv') \<Rightarrow> (Inl ''generate refresh token'', sv')
     | (Some raw, sv') \<Rightarrow> (Inr (raw, HashRefreshToken env raw), sv'))"

section \<open>The local plugin\<close>

text \<open>A \<open>json.RawMessage\<close> and what unmarshalling a struct out of it does: it fails on what is
  not an object, and on a member that is there but is no string; a missing or null member
  leaves the field empty, and so does a null message.\<close>

datatype json_member = MAbsent | MString string | MOther

datatype raw_message = RawInvalid | RawNull | RawObject json_member json_member  \<comment> \<open>username, password\<close>

fun member_string :: "json_member \<Rightarrow> string option" where
  "member_string MAbsent = Some []"
| "member_string (MString s) = Some s"
| "member_string MOther = None"

text \<open>\<open>localCredentials\<close>, and the struct with only a password.\<close>

fun unmarshal_credentials :: "raw_message \<Rightarrow> (string \<times> string) option" where
  "unmarshal_credentials RawInvalid = None"
| "unmarshal_credentials RawNull = Some ([], [])"
| "unmarshal_credentials (RawObject u p) =
     (case (member_string u, member_string p) of (Some a, Some b) \<Rightarrow> Some (a, b) | _ \<Rightarrow> None)"

fun unmarshal_password :: "raw_message \<Rightarrow> string option" where
  "unmarshal_password RawInvalid = None"
| "unmarshal_password RawNull = Some []"
| "unmarshal_password (RawObject u p) = member_string p"

text \<open>The interface \<open>Plugin\<close>; errors are their messages.\<close>

record ('c, 'a, 'l) plugin =
  Authenticate :: "raw_message \<Rightarrow> ('c, 'a, 'l, string + int) op"
  CreateUser :: "string \<Rightarrow> raw_message \<Rightarrow> ('c, 'a, 'l, string + int) op"
  UpdateCredentials :: "int \<Rightarrow> raw_message \<Rightarrow> ('c, 'a, 'l, string + unit) op"

definition local_Authenticate ::
  "('c, 'a, 'l) auth_env \<Rightarrow> raw_message \<Rightarrow> ('c, 'a, 'l, string + int) op" where
  "local_Authenticate env raw sv =
     (case unmarshal_credentials raw of
        None \<Rightarrow> (Inl ''invalid credentials format'', sv)
      | Some (username, password) \<Rightarrow>
          call_or (on_db (UserByNameAndProvider username ''local''))
            (\<lambda>_ sv. (Inl ''invalid username or password'', sv))
            (\<lambda>(userID, authData) sv.
               case authData of
                 None \<Rightarrow> (Inl ''invalid username or password'', sv)
               | Some passwordHash \<Rightarrow>
                   if bcrypt_compare env passwordHash password then (Inr userID, sv)
                   else (Inl ''invalid username or password'', sv)) sv)"

text \<open>\<open>bcrypt.GenerateFromPassword\<close> with a salt drawn from the random source.\<close>

definition hash_password ::
  "('c, 'a, 'l) auth_env \<Rightarrow> string \<Rightarrow> ('c, 'a, 'l, string + string) op" where
  "hash_password env password sv = (case draw sv of
       (None, sv') \<Rightarrow> (Inl ''hash password'', sv')
     | (Some salt, sv') \<Rightarrow>
         (case bcrypt_generate env salt password of
            None \<Rightarrow> (Inl ''hash password'', sv') | Some h \<Rightarrow> (Inr h, sv')))"

definition local_CreateUser ::
  "('c, 'a, 'l) auth_env \<Rightarrow> string \<Rightarrow> raw_message \<Rightarrow> ('c, 'a, 'l, string + int) op" where
  "local_CreateUser env name raw sv =
     (case unmarshal_password raw of
        None \<Rightarrow> (Inl ''password is required'', sv)
      | Some password \<Rightarrow>
          if password = [] then (Inl ''password is required'', sv)
          else call_or (hash_password env password) (\<lambda>e sv. (Inl e, sv))
            (\<lambda>h. call_or (on_db (UserCreate name ''local'' (Some h)))
               (\<lambda>_ sv. (Inl ''create user'', sv)) (\<lambda>i sv. (Inr i, sv))) sv)"

definition local_UpdateCredentials ::
  "('c, 'a, 'l) auth_env \<Rightarrow> int \<Rightarrow> raw_message \<Rightarrow> ('c, 'a, 'l, string + unit) op" where
  "local_UpdateCredentials env userID raw sv =
     (case unmarshal_password raw of
        None \<Rightarrow> (Inl ''password is required'', sv)
      | Some password \<Rightarrow>
          if password = [] then (Inl ''password is required'', sv)
          else call_or (hash_password env password) (\<lambda>e sv. (Inl e, sv))
            (\<lambda>h. call_or (on_db (UserUpdateAuth userID (Some h)))
               (\<lambda>e sv. (Inl (if e = NotFound then ''user not found or uses a different auth provider''
                              else ''update credentials''), sv))
               (\<lambda>_. call_or (on_db (DevicesDeleteForUser userID))
                  (\<lambda>_ sv. (Inl ''delete devices'', sv)) (\<lambda>_ sv. (Inr (), sv)))) sv)"

definition LocalPlugin :: "('c, 'a, 'l) auth_env \<Rightarrow> ('c, 'a, 'l) plugin" where
  "LocalPlugin env = \<lparr> Authenticate = local_Authenticate env, CreateUser = local_CreateUser env,
     UpdateCredentials = local_UpdateCredentials env \<rparr>"

definition DefaultPlugins :: "('c, 'a, 'l) auth_env \<Rightarrow> (string \<times> ('c, 'a, 'l) plugin) list" where
  "DefaultPlugins env = [(''local'', LocalPlugin env)]"

section \<open>Lemmas\<close>

lemma on_db_sel [simp]:
  "fst (on_db stmt sv) = fst (stmt (sdb sv))" "sdb (snd (on_db stmt sv)) = snd (stmt (sdb sv))"
  "sguard (snd (on_db stmt sv)) = sguard sv" "slimiter (snd (on_db stmt sv)) = slimiter sv"
  "entropy (snd (on_db stmt sv)) = entropy sv"
  by (simp_all add: on_db_def split: prod.split)

lemma numeric_date_le: "numeric_date t \<le> t"
  by (simp add: numeric_date_def)

end
