(* ===== verification/Http.thy ===== *)
theory Http
  imports AuthCore
begin

text \<open>
  Requests and responses: \<open>internal/api/middleware.go\<close> and the helpers of
  \<open>internal/api/helpers.go\<close>. A request is what the handlers read of it; the decoded body is an
  argument of the handlers that have one, None a body that is no JSON of the expected form.
\<close>

record request =
  remote_addr :: string
  user_agent :: string
  cookie_access_token :: "string option"
  cookie_refresh_token :: "string option"
  authorization :: string
  url_params :: "(string \<times> string) list"
  url_query :: "(string \<times> string) list"
  accept_header :: string

text \<open>\<open>chi.URLParam\<close> and \<open>r.URL.Query().Get\<close>: an absent one is the empty string.\<close>

definition lookup_param :: "(string \<times> string) list \<Rightarrow> string \<Rightarrow> string" where
  "lookup_param ps name = (case map_of ps name of None \<Rightarrow> [] | Some v \<Rightarrow> v)"

definition URLParam :: "request \<Rightarrow> string \<Rightarrow> string" where
  "URLParam r = lookup_param (url_params r)"

definition QueryGet :: "request \<Rightarrow> string \<Rightarrow> string" where
  "QueryGet r = lookup_param (url_query r)"

record cookie =
  cookie_name :: string
  cookie_value :: string
  cookie_path :: string
  cookie_max_age :: int
  cookie_http_only :: bool
  cookie_secure :: bool
  cookie_same_site_strict :: bool

datatype 'p content = NoContent | ErrorBody nat string | JsonBody 'p

record 'p response =
  resp_status :: nat
  resp_content :: "'p content"
  resp_cookies :: "cookie list"

definition writeError :: "nat \<Rightarrow> string \<Rightarrow> 'p response" where
  "writeError st message = \<lparr> resp_status = st, resp_content = ErrorBody st message, resp_cookies = [] \<rparr>"

definition writeJSON :: "nat \<Rightarrow> 'p \<Rightarrow> 'p response" where
  "writeJSON st v = \<lparr> resp_status = st, resp_content = JsonBody v, resp_cookies = [] \<rparr>"

definition write_status :: "nat \<Rightarrow> 'p response" where
  "write_status st = \<lparr> resp_status = st, resp_content = NoContent, resp_cookies = [] \<rparr>"

definition with_cookies :: "cookie list \<Rightarrow> 'p response \<Rightarrow> 'p response" where
  "with_cookies cs r = r\<lparr> resp_cookies := cs @ resp_cookies r \<rparr>"

text \<open>\<open>urlIntParam\<close>: the id of the URL, or the response it writes.\<close>

definition urlIntParam :: "string \<Rightarrow> string \<Rightarrow> 'p response + int" where
  "urlIntParam name param = (case strconv_Atoi param of
       (_, Some _) \<Rightarrow> Inl (writeError 400 (''invalid '' @ name))
     | (i, None) \<Rightarrow> Inr i)"

text \<open>A handler that answers, in the style of early returns.\<close>

definition fail :: "nat \<Rightarrow> string \<Rightarrow> 'e \<Rightarrow> 's \<Rightarrow> 'p response \<times> 's" where
  "fail st message e s = (writeError st message, s)"

text \<open>\<open>id, ok := urlIntParam(w, r, name); if !ok { return }\<close>.\<close>

definition with_id :: "request \<Rightarrow> string \<Rightarrow> (int \<Rightarrow> 's \<Rightarrow> 'p response \<times> 's) \<Rightarrow> 's \<Rightarrow> 'p response \<times> 's" where
  "with_id r name k s = (case urlIntParam name (URLParam r name) of Inl resp \<Rightarrow> (resp, s) | Inr i \<Rightarrow> k i s)"

text \<open>\<open>decodeJSON\<close>, and \<open>if !decodeJSON(w, r, &body) { return }\<close>.\<close>

definition decodeJSON :: "'b option \<Rightarrow> 'p response + 'b" where
  "decodeJSON body = (case body of None \<Rightarrow> Inl (writeError 400 ''invalid request body'') | Some b \<Rightarrow> Inr b)"

text \<open>\<open>setMediaCacheHeaders\<close> and \<open>queryInt\<close>.\<close>

definition setMediaCacheHeaders :: "request \<Rightarrow> string" where
  "setMediaCacheHeaders r =
     (if QueryGet r ''v'' \<noteq> [] then ''public, max-age=31536000, immutable'' else ''public, max-age=3600'')"

definition queryInt :: "request \<Rightarrow> string \<Rightarrow> int \<Rightarrow> int" where
  "queryInt r key fallback =
     (let v = QueryGet r key in
      if trim_space v = [] then fallback
      else case strconv_Atoi v of
        (_, Some _) \<Rightarrow> fallback
      | (n, None) \<Rightarrow> if n < 1 then fallback else n)"

text \<open>\<open>parseUploadToTemp\<close>: what the multipart form and the temporary file turn out to be is the
  environment's; on success the path of the file.\<close>

datatype upload =
    UploadInvalidForm
  | UploadNoFile
  | UploadNoTemp
  | UploadReadFails string
  | UploadCloseFails string
  | Uploaded string

fun parseUploadToTemp :: "string \<Rightarrow> upload \<Rightarrow> 'p response + string" where
  "parseUploadToTemp field UploadInvalidForm = Inl (writeError 400 ''invalid multipart form'')"
| "parseUploadToTemp field UploadNoFile = Inl (writeError 400 (''missing '' @ field @ '' file''))"
| "parseUploadToTemp field UploadNoTemp = Inl (writeError 500 ''failed to create temp file'')"
| "parseUploadToTemp field (UploadReadFails tmp) = Inl (writeError 500 ''failed to read upload'')"
| "parseUploadToTemp field (UploadCloseFails tmp) = Inl (writeError 500 ''failed to write temp file'')"
| "parseUploadToTemp field (Uploaded tmp) = Inr tmp"

definition with_body :: "'b option \<Rightarrow> ('b \<Rightarrow> 's \<Rightarrow> 'p response \<times> 's) \<Rightarrow> 's \<Rightarrow> 'p response \<times> 's" where
  "with_body body k s = (case decodeJSON body of Inl resp \<Rightarrow> (resp, s) | Inr b \<Rightarrow> k b s)"

section \<open>The authentication middleware\<close>

text \<open>The cookie, then the bearer header, then the query parameter.\<close>

definition request_token :: "request \<Rightarrow> string" where
  "request_token r =
     (let t0 = (case cookie_access_token r of None \<Rightarrow> [] | Some v \<Rightarrow> v);
          t1 = (if trim_space t0 = [] \<and> has_prefix (authorization r) ''Bearer ''
                then trim_prefix (authorization r) ''Bearer '' else t0)
      in if trim_space t1 = [] then QueryGet r ''access_token'' else t1)"

text \<open>What the middleware finds before it calls the next handler: the response it writes instead, or
  the claims.\<close>

definition check_token ::
  "('c, 'a, 'l) auth_env \<Rightarrow> bool \<Rightarrow> request \<Rightarrow> ('c, 'a, 'l, 'p response + claims) op" where
  "check_token env adminOnly r sv =
     (let tok = request_token r in
      if tok = [] then (Inl (writeError 401 ''missing or invalid authorization''), sv)
      else case ParseToken env tok (server_now sv) of
        None \<Rightarrow> (Inl (writeError 401 ''invalid or expired token''), sv)
      | Some c \<Rightarrow>
          let (blocked, g) = IsBlocked (revoked_ops env) (claims_device c) (server_now sv) (sguard sv);
              sv1 = sv\<lparr> sguard := g \<rparr> in
          if blocked then (Inl (writeError 403 ''device has been revoked or banned''), sv1)
          else if adminOnly \<and> \<not> claims_is_admin c then (Inl (writeError 403 ''admin access required''), sv1)
          else (Inr c, sv1))"

definition requireJWT ::
  "('c, 'a, 'l) auth_env \<Rightarrow> bool \<Rightarrow> (claims \<Rightarrow> ('c, 'a, 'l, 'p response) op) \<Rightarrow> request \<Rightarrow> ('c, 'a, 'l, 'p response) op" where
  "requireJWT env adminOnly nxt r = call_or (check_token env adminOnly r) (\<lambda>resp sv. (resp, sv)) nxt"

lemma requireJWT_run:
  "requireJWT env adminOnly nxt r sv =
     (let tok = request_token r in
      if tok = [] then (writeError 401 ''missing or invalid authorization'', sv)
      else case ParseToken env tok (server_now sv) of
        None \<Rightarrow> (writeError 401 ''invalid or expired token'', sv)
      | Some c \<Rightarrow>
          let (blocked, g) = IsBlocked (revoked_ops env) (claims_device c) (server_now sv) (sguard sv);
              sv1 = sv\<lparr> sguard := g \<rparr> in
          if blocked then (writeError 403 ''device has been revoked or banned'', sv1)
          else if adminOnly \<and> \<not> claims_is_admin c then (writeError 403 ''admin access required'', sv1)
          else nxt c sv1)"
  by (auto simp: requireJWT_def check_token_def call_or_def Let_def split: option.split prod.split)

definition RequireAuth where
  "RequireAuth env = requireJWT env False"

definition RequireAdmin where
  "RequireAdmin env = requireJWT env True"

end
