(* ===== verification/AuthApi.thy ===== *)
theory AuthApi
  imports Http
begin

text \<open>
  \<open>internal/api/auth.go\<close>: every handler of the authentication routes. A handler runs at one
  instant of the clock, and no other request runs between its statements.
\<close>

record login_body =
  lb_provider :: string
  lb_device_uuid :: string
  lb_device_name :: string
  lb_credentials :: raw_message

record refresh_body =
  rb_refresh_token :: string
  rb_device_uuid :: string

datatype auth_payload =
    Tokens string int string int int      \<comment> \<open>access token, its lifetime, refresh token, its lifetime, device id\<close>
  | Providers "string list"
  | Devices "device_view list"
  | Me int string bool int

type_synonym auth_response = "auth_payload response"

section \<open>Cookies\<close>

definition auth_cookie :: "('c, 'a, 'l) auth_env \<Rightarrow> string \<Rightarrow> string \<Rightarrow> string \<Rightarrow> int \<Rightarrow> cookie" where
  "auth_cookie env name v path age = \<lparr> cookie_name = name, cookie_value = v, cookie_path = path,
     cookie_max_age = age, cookie_http_only = True, cookie_secure = production env, cookie_same_site_strict = True \<rparr>"

definition setAuthCookies :: "('c, 'a, 'l) auth_env \<Rightarrow> string \<Rightarrow> string \<Rightarrow> cookie list" where
  "setAuthCookies env access refreshTok =
     [auth_cookie env ''access_token'' access ''/'' (AccessTokenTTL div second),
      auth_cookie env ''refresh_token'' refreshTok ''/api/v1/auth/refresh'' (RefreshTokenTTL div second)]"

definition clearAuthCookies :: "('c, 'a, 'l) auth_env \<Rightarrow> cookie list" where
  "clearAuthCookies env =
     [auth_cookie env ''access_token'' [] ''/'' (- 1),
      auth_cookie env ''refresh_token'' [] ''/api/v1/auth/refresh'' (- 1)]"

section \<open>Login\<close>

definition revoke :: "('c, 'a, 'l) auth_env \<Rightarrow> int \<Rightarrow> ('c, 'a, 'l) server \<Rightarrow> ('c, 'a, 'l) server" where
  "revoke env i sv = sv\<lparr> sguard := Guard_Revoke (revoked_ops env) i AccessTokenTTL (server_now sv) (sguard sv) \<rparr>"

definition revoke_many :: "('c, 'a, 'l) auth_env \<Rightarrow> int list \<Rightarrow> ('c, 'a, 'l) server \<Rightarrow> ('c, 'a, 'l) server" where
  "revoke_many env is sv =
     sv\<lparr> sguard := Guard_RevokeMany (revoked_ops env) is AccessTokenTTL (server_now sv) (sguard sv) \<rparr>"

definition record_failure :: "('c, 'a, 'l) auth_env \<Rightarrow> string \<Rightarrow> ('c, 'a, 'l) server \<Rightarrow> ('c, 'a, 'l) server" where
  "record_failure env ip sv =
     sv\<lparr> slimiter := snd (RecordFailure (attempt_ops env) (lock_ops env) ip (server_now sv) (slimiter sv)) \<rparr>"

text \<open>The end of a login and of a refresh: the new access token, the cookies and the body.\<close>

definition send_tokens ::
  "('c, 'a, 'l) auth_env \<Rightarrow> int \<Rightarrow> int \<Rightarrow> bool \<Rightarrow> string \<Rightarrow> ('c, 'a, 'l, auth_response) op" where
  "send_tokens env userID deviceID isAdmin rawRefresh sv =
     (let sv1 = sv\<lparr> sdb := UserTouchLastSeen userID (sdb sv) \<rparr> in
      case IssueToken env userID deviceID isAdmin (server_now sv1) of
        None \<Rightarrow> (writeError 500 ''token generation failed'', sv1)
      | Some access \<Rightarrow>
          (with_cookies (setAuthCookies env access rawRefresh)
             (writeJSON 200 (Tokens access (AccessTokenTTL div second) rawRefresh (RefreshTokenTTL div second) deviceID)),
           sv1))"

text \<open>A device the user has not logged in from before: one may have to make room.\<close>

definition login_new_device ::
  "('c, 'a, 'l) auth_env \<Rightarrow> login_body \<Rightarrow> access_entry \<Rightarrow> int \<Rightarrow> bool \<Rightarrow> string \<Rightarrow> string
    \<Rightarrow> ('c, 'a, 'l, auth_response) op" where
  "login_new_device env b entry userID isAdmin rawRefresh hashRefresh =
     call_or (on_db (DevicesCountActiveForUser userID)) (fail 500 ''device count failed'')
       (\<lambda>count sv0.
          let create = (\<lambda>sv. call_or
                (on_db (DeviceCreate userID (lb_device_uuid b) (lb_device_name b) hashRefresh
                  (server_now sv + RefreshTokenTTL) entry)) (fail 500 ''device creation failed'')
                (\<lambda>deviceID. send_tokens env userID deviceID isAdmin rawRefresh) sv) in
          if count \<ge> DevicesMaxPerUser then
            call_or (on_db (DeviceEvictLRU userID)) (fail 500 ''device eviction failed'')
              (\<lambda>evictedID sv. create (if evictedID \<noteq> 0 then revoke env evictedID sv else sv)) sv0
          else create sv0)"

definition login_known_device ::
  "('c, 'a, 'l) auth_env \<Rightarrow> login_body \<Rightarrow> access_entry \<Rightarrow> int \<Rightarrow> bool \<Rightarrow> string \<Rightarrow> string \<Rightarrow> device
    \<Rightarrow> ('c, 'a, 'l, auth_response) op" where
  "login_known_device env b entry userID isAdmin rawRefresh hashRefresh d sv =
     call_or (on_db (DeviceUpdateSession (device_id d) hashRefresh [] (server_now sv + RefreshTokenTTL) entry (lb_device_name b)))
       (fail 500 ''session update failed'')
       (\<lambda>_. send_tokens env userID (device_id d) isAdmin rawRefresh) sv"

definition login_device ::
  "('c, 'a, 'l) auth_env \<Rightarrow> request \<Rightarrow> login_body \<Rightarrow> int \<Rightarrow> bool \<Rightarrow> device option \<Rightarrow> ('c, 'a, 'l, auth_response) op" where
  "login_device env r b userID isAdmin existing sv0 =
     (case existing of
        Some d \<Rightarrow> if banned_at d \<noteq> None then (writeError 403 ''this device has been banned'', sv0)
          else call_or (GenerateRefreshToken env) (fail 500 ''token generation failed'')
            (\<lambda>(raw, hash) sv. login_known_device env b
               \<lparr> ae_ip = clientIP (remote_addr r), ae_agent = user_agent r, ae_time = server_now sv \<rparr>
               userID isAdmin raw hash d sv) sv0
      | None \<Rightarrow> call_or (GenerateRefreshToken env) (fail 500 ''token generation failed'')
            (\<lambda>(raw, hash) sv. login_new_device env b
               \<lparr> ae_ip = clientIP (remote_addr r), ae_agent = user_agent r, ae_time = server_now sv \<rparr>
               userID isAdmin raw hash sv) sv0)"

text \<open>The user is authenticated.\<close>

definition login_user ::
  "('c, 'a, 'l) auth_env \<Rightarrow> request \<Rightarrow> login_body \<Rightarrow> int \<Rightarrow> ('c, 'a, 'l, auth_response) op" where
  "login_user env r b userID =
     call_or (on_db (UserIsLocalOnly userID)) (fail 401 ''user lookup failed'')
       (\<lambda>localAccessOnly sv.
          if localAccessOnly \<and> \<not> isLocalRequest (remote_addr r) then (writeError 401 ''unauthorized'', sv)
          else call_or (on_db (UserIsAdmin userID)) (fail 500 ''user lookup failed'')
            (\<lambda>isAdmin. call_or (on_db (DeviceFindByUserAndUUID userID (lb_device_uuid b)))
               (\<lambda>e sv. if e \<noteq> NotFound then (writeError 500 ''device lookup failed'', sv)
                        else login_device env r b userID isAdmin None sv)
               (\<lambda>d. login_device env r b userID isAdmin (Some d))) sv)"

definition login ::
  "('c, 'a, 'l) auth_env \<Rightarrow> (string \<times> ('c, 'a, 'l) plugin) list \<Rightarrow> request \<Rightarrow> login_body option \<Rightarrow> ('c, 'a, 'l, auth_response) op" where
  "login env plugins r body sv =
     (case decodeJSON body of
        Inl resp \<Rightarrow> (resp, sv)
      | Inr b0 \<Rightarrow>
          if trim_space (lb_device_uuid b0) = [] then (writeError 400 ''device_uuid is required'', sv)
          else
            let b = (if lb_provider b0 = [] then b0\<lparr> lb_provider := ''local'' \<rparr> else b0);
                ip = clientIP (remote_addr r);
                (isLocked, rl) = IsLocked (lock_ops env) ip (server_now sv) (slimiter sv);
                sv1 = sv\<lparr> slimiter := rl \<rparr> in
            if isLocked then (writeError 429 ''try again later'', sv1)
            else case map_of plugins (lb_provider b) of
              None \<Rightarrow> (writeError 400 (''unknown auth provider: '' @ lb_provider b), sv1)
            | Some p \<Rightarrow>
                call_or (Authenticate p (lb_credentials b))
                  (\<lambda>_ sv. (writeError 401 ''invalid credentials'', record_failure env ip sv))
                  (login_user env r b) sv1)"

section \<open>Refresh\<close>

text \<open>A token that was rotated out, or one presented by another device: every device of the
  user goes. The error of the statement is ignored, and then nothing is revoked.\<close>

definition delete_all_devices ::
  "('c, 'a, 'l) auth_env \<Rightarrow> int \<Rightarrow> string \<Rightarrow> ('c, 'a, 'l, auth_response) op" where
  "delete_all_devices env userID message sv =
     (case on_db (DevicesDeleteForUser userID) sv of (res, sv1) \<Rightarrow>
        let ids = (case res of Inl _ \<Rightarrow> [] | Inr ids \<Rightarrow> ids) in
        (with_cookies (clearAuthCookies env) (writeError 401 message), revoke_many env ids sv1))"

definition rotate_session ::
  "('c, 'a, 'l) auth_env \<Rightarrow> request \<Rightarrow> string \<Rightarrow> device \<Rightarrow> bool \<Rightarrow> ('c, 'a, 'l, auth_response) op" where
  "rotate_session env r hash d isAdmin =
     call_or (GenerateRefreshToken env) (fail 500 ''token generation failed'')
       (\<lambda>(rawRefresh, hashRefresh) sv.
          let entry = \<lparr> ae_ip = clientIP (remote_addr r), ae_agent = user_agent r, ae_time = server_now sv \<rparr> in
          call_or (on_db (DeviceUpdateSession (device_id d) hashRefresh hash (server_now sv + RefreshTokenTTL) entry []))
            (fail 500 ''token rotation failed'')
            (\<lambda>_. send_tokens env (device_user d) (device_id d) isAdmin rawRefresh) sv)"

definition refresh_device ::
  "('c, 'a, 'l) auth_env \<Rightarrow> request \<Rightarrow> string \<Rightarrow> string \<Rightarrow> device \<Rightarrow> ('c, 'a, 'l, auth_response) op" where
  "refresh_device env r hash deviceUUID d sv =
     (if device_uuid d \<noteq> deviceUUID then
        delete_all_devices env (device_user d) ''device mismatch; all devices have been revoked'' sv
      else if (case expires_at d of None \<Rightarrow> False | Some t \<Rightarrow> t < server_now sv) then
        (writeError 401 ''refresh token expired'', sv)
      else call_or (on_db (UserIsLocalOnly (device_user d))) (fail 401 ''user lookup failed'')
        (\<lambda>localAccessOnly sv.
           if localAccessOnly \<and> \<not> isLocalRequest (remote_addr r) then
             (with_cookies (clearAuthCookies env) (writeError 401 ''unauthorized''), sv)
           else call_or (on_db (UserIsAdmin (device_user d))) (fail 500 ''user lookup failed'')
             (rotate_session env r hash d) sv) sv)"

text \<open>The token of the cookie, or else that of the body.\<close>

definition presented_token :: "request \<Rightarrow> refresh_body \<Rightarrow> string" where
  "presented_token r b =
     (let cookieToken = (case cookie_refresh_token r of None \<Rightarrow> [] | Some v \<Rightarrow> v) in
      if cookieToken = [] then rb_refresh_token b else cookieToken)"

definition refresh ::
  "('c, 'a, 'l) auth_env \<Rightarrow> request \<Rightarrow> refresh_body option \<Rightarrow> ('c, 'a, 'l, auth_response) op" where
  "refresh env r body sv =
     (case decodeJSON body of
        Inl resp \<Rightarrow> (resp, sv)
      | Inr b \<Rightarrow>
          let refreshToken = presented_token r b in
          if trim_space refreshToken = [] then (writeError 400 ''refresh_token is required'', sv)
          else if trim_space (rb_device_uuid b) = [] then (writeError 400 ''device_uuid is required'', sv)
          else
            let hash = HashRefreshToken env refreshToken in
            call_or (on_db (DeviceFindByPreviousRefreshTokenHash hash)) (fail 500 ''db error'')
              (\<lambda>found. case found of
                 Some (stolenUserID, _) \<Rightarrow>
                   delete_all_devices env stolenUserID ''refresh token reuse detected; all devices have been revoked''
               | None \<Rightarrow>
                   call_or (on_db (DeviceFindByRefreshTokenHash hash)) (fail 401 ''invalid or expired refresh token'')
                     (refresh_device env r hash (rb_device_uuid b))) sv)"

section \<open>Devices and account\<close>

definition claims_user :: "claims \<Rightarrow> int" where
  "claims_user c = fst (strconv_Atoi (claims_subject c))"

definition listProviders :: "(string \<times> ('c, 'a, 'l) plugin) list \<Rightarrow> ('c, 'a, 'l, auth_response) op" where
  "listProviders plugins sv = (writeJSON 200 (Providers (map fst plugins)), sv)"

definition logout :: "('c, 'a, 'l) auth_env \<Rightarrow> claims \<Rightarrow> ('c, 'a, 'l, auth_response) op" where
  "logout env c sv =
     (let sv1 = snd (on_db (DeviceDelete (claims_device c) (claims_user c)) sv) in
      (with_cookies (clearAuthCookies env) (write_status 204), revoke env (claims_device c) sv1))"

definition writeDeviceList :: "int \<Rightarrow> ('c, 'a, 'l, auth_response) op" where
  "writeDeviceList userID =
     call_or (on_db (DevicesGetForUser userID)) (fail 500 ''db error'') (\<lambda>ds sv. (writeJSON 200 (Devices ds), sv))"

definition listDevices :: "claims \<Rightarrow> ('c, 'a, 'l, auth_response) op" where
  "listDevices c = writeDeviceList (claims_user c)"

definition deleteDevice :: "('c, 'a, 'l) auth_env \<Rightarrow> request \<Rightarrow> claims \<Rightarrow> ('c, 'a, 'l, auth_response) op" where
  "deleteDevice env r c sv =
     (case urlIntParam ''id'' (URLParam r ''id'') of
        Inl resp \<Rightarrow> (resp, sv)
      | Inr deviceID \<Rightarrow>
          if deviceID = claims_device c then (writeError 403 ''cannot delete your own active device'', sv)
          else call_or (on_db (DeviceDelete deviceID (claims_user c))) (fail 500 ''db error'')
            (\<lambda>affected sv. if affected = 0 then (writeError 404 ''device not found'', sv)
               else (write_status 204, revoke env deviceID sv)) sv)"

definition banDevice :: "('c, 'a, 'l) auth_env \<Rightarrow> request \<Rightarrow> claims \<Rightarrow> ('c, 'a, 'l, auth_response) op" where
  "banDevice env r c sv =
     (case urlIntParam ''id'' (URLParam r ''id'') of
        Inl resp \<Rightarrow> (resp, sv)
      | Inr deviceID \<Rightarrow>
          if deviceID = claims_device c then (writeError 403 ''cannot ban your own device'', sv)
          else call_or (on_db (DeviceBan deviceID (claims_user c))) (fail 500 ''db error'')
            (\<lambda>_ sv. (write_status 204, sv\<lparr> sguard := Guard_Ban (revoked_ops env) deviceID (sguard sv) \<rparr>)) sv)"

definition unbanDevice :: "request \<Rightarrow> claims \<Rightarrow> ('c, 'a, 'l, auth_response) op" where
  "unbanDevice r c sv =
     (case urlIntParam ''id'' (URLParam r ''id'') of
        Inl resp \<Rightarrow> (resp, sv)
      | Inr deviceID \<Rightarrow>
          call_or (on_db (DeviceUnban deviceID (claims_user c))) (fail 500 ''db error'')
            (\<lambda>_ sv. (write_status 204, sv\<lparr> sguard := Guard_Unban deviceID (sguard sv) \<rparr>)) sv)"

definition changeCredentials ::
  "(string \<times> ('c, 'a, 'l) plugin) list \<Rightarrow> raw_message option \<Rightarrow> claims \<Rightarrow> ('c, 'a, 'l, auth_response) op" where
  "changeCredentials plugins body c =
     call_or (on_db (UserAuthProvider (claims_user c))) (fail 404 ''user not found'')
       (\<lambda>providerName sv. case map_of plugins providerName of
          None \<Rightarrow> (writeError 400 (''auth provider '' @ [CHR 0x22] @ providerName @ [CHR 0x22] @ '' does not support credential updates''), sv)
        | Some p \<Rightarrow>
            (case decodeJSON body of
               Inl resp \<Rightarrow> (resp, sv)
             | Inr raw \<Rightarrow> call_or (UpdateCredentials p (claims_user c) raw)
                 (fail 400 ''failed to update credentials'') (\<lambda>_ sv. (write_status 204, sv)) sv))"

definition me :: "claims \<Rightarrow> ('c, 'a, 'l, auth_response) op" where
  "me c = call_or (on_db (UserGet (claims_user c))) (fail 404 ''user not found'')
     (\<lambda>(i, name, admin) sv. (writeJSON 200 (Me i name admin (claims_device c)), sv))"

section \<open>Routes\<close>

text \<open>The routes of \<open>internal/api/router.go\<close> to these handlers, with the middleware in front of
  the authenticated ones.\<close>

datatype auth_call =
    CallProviders
  | CallLogin request "login_body option"
  | CallRefresh request "refresh_body option"
  | CallMe request
  | CallLogout request
  | CallCredentials request "raw_message option"
  | CallListDevices request
  | CallDeleteDevice request
  | CallBan request
  | CallUnban request

fun serve_auth :: "('c, 'a, 'l) auth_env \<Rightarrow> auth_call \<Rightarrow> ('c, 'a, 'l, auth_response) op" where
  "serve_auth env CallProviders = listProviders (DefaultPlugins env)"
| "serve_auth env (CallLogin r b) = login env (DefaultPlugins env) r b"
| "serve_auth env (CallRefresh r b) = refresh env r b"
| "serve_auth env (CallMe r) = RequireAuth env me r"
| "serve_auth env (CallLogout r) = RequireAuth env (logout env) r"
| "serve_auth env (CallCredentials r b) = RequireAuth env (changeCredentials (DefaultPlugins env) b) r"
| "serve_auth env (CallListDevices r) = RequireAuth env listDevices r"
| "serve_auth env (CallDeleteDevice r) = RequireAuth env (deleteDevice env r) r"
| "serve_auth env (CallBan r) = RequireAuth env (banDevice env r) r"
| "serve_auth env (CallUnban r) = RequireAuth env (unbanDevice r) r"

text \<open>A request arrives at an instant, with the outcomes of the statements and of the random
  source it will meet.\<close>

record arrival =
  arr_time :: time
  arr_faults :: "bool list"
  arr_entropy :: "string option list"

definition arrive :: "arrival \<Rightarrow> ('c, 'a, 'l) server \<Rightarrow> ('c, 'a, 'l) server" where
  "arrive a sv = sv\<lparr> sdb := (sdb sv)\<lparr> clock := arr_time a, faults := arr_faults a \<rparr>, entropy := arr_entropy a \<rparr>"

definition handle_auth :: "('c, 'a, 'l) auth_env \<Rightarrow> arrival \<times> auth_call \<Rightarrow> ('c, 'a, 'l) server \<Rightarrow> ('c, 'a, 'l) server" where
  "handle_auth env = (\<lambda>(a, q) sv. snd (serve_auth env q (arrive a sv)))"

section \<open>A concrete environment\<close>

text \<open>Caches as recency lists, readable digests, and one access token that is valid for fifteen
  minutes: enough to run the handlers on.\<close>

definition demo_env :: "((int \<times> time) list, (string \<times> time list) list, (string \<times> time) list) auth_env" where
  "demo_env = \<lparr> revoked_ops = list_lru revokedCacheCapacity, attempt_ops = list_lru rateLimiterCapacity,
     lock_ops = list_lru rateLimiterCapacity, sha256_hex = (\<lambda>s. ''sha:'' @ s),
     bcrypt_compare = (\<lambda>h p. h = ''bcrypt:'' @ p),
     bcrypt_generate = (\<lambda>salt p. if length p > 72 then None else Some (''bcrypt:'' @ p)),
     jwt_sign_hs256 = (\<lambda>c key. Some (''jwt:'' @ claims_subject c)),
     jwt_parse = (\<lambda>tok key now. if tok = ''jwt:1'' \<and> key SigningMethodHMAC \<noteq> None \<and> now < 15 * minute
        then Some (\<lparr> claims_subject = ''1'', claims_issued_at = 0, claims_expires_at = 15 * minute,
                     claims_is_admin = True, claims_device = 7 \<rparr>, True)
        else None),
     secret = ''key'', production = True \<rparr>"

definition demo_device :: "int \<Rightarrow> int \<Rightarrow> string \<Rightarrow> string option \<Rightarrow> device" where
  "demo_device i u name previous = \<lparr> device_id = i, device_uuid = name, device_user = u,
     refresh_token_hash = Some (''sha:'' @ name), previous_refresh_token_hash = previous,
     expires_at = Some (RefreshTokenTTL), device_name = name, banned_at = None, access_history = [],
     device_created_at = 0, last_seen_at = i \<rparr>"

text \<open>Ann with the devices 7, which has rotated its token, and 9; Bob, who may log in from the local
  network only, with the device 8.\<close>

definition demo_db :: db where
  "demo_db = (empty_db 0)\<lparr>
     users := [\<lparr> user_id = 1, user_name = ''ann'', is_admin = True, local_access_only = False,
                 auth_provider = ''local'', auth_data = Some ''bcrypt:pw'', user_last_seen_at = None \<rparr>,
               \<lparr> user_id = 2, user_name = ''bob'', is_admin = False, local_access_only = True,
                 auth_provider = ''local'', auth_data = Some ''bcrypt:pw2'', user_last_seen_at = None \<rparr>],
     next_user := 3,
     devices := [demo_device 7 1 ''tv'' (Some ''sha:old''), demo_device 8 2 ''phone'' (Some []), demo_device 9 1 ''tablet'' None],
     next_device := 10 \<rparr>"

definition demo_server ::
  "((int \<times> time) list, (string \<times> time list) list, (string \<times> time) list) server" where
  "demo_server = \<lparr> sdb = demo_db, sguard = NewDeviceGuard [], slimiter = newLoginRateLimiter [] [],
     entropy = [Some ''fresh''] \<rparr>"

definition demo_request :: request where
  "demo_request = \<lparr> remote_addr = ''10.0.0.5:4711'', user_agent = ''roku'', cookie_access_token = Some ''jwt:1'',
     cookie_refresh_token = None, authorization = [], url_params = [(''id'', ''8'')], url_query = [], accept_header = [] \<rparr>"

definition demo_login :: "string \<Rightarrow> string \<Rightarrow> string \<Rightarrow> login_body" where
  "demo_login name password uuid = \<lparr> lb_provider = [], lb_device_uuid = uuid, lb_device_name = ''tv'',
     lb_credentials = RawObject (MString name) (MString password) \<rparr>"

lemmas demo_defs = demo_env_def demo_db_def demo_server_def demo_request_def demo_login_def demo_device_def
  empty_db_def RefreshTokenTTL_def AccessTokenTTL_def duration_defs

lemma demo_is_local: "isLocalRequest ''10.0.0.5:4711''"
  by code_simp

text \<open>The handlers unfolded, for running them on the concrete server.\<close>

lemmas demo_runs = demo_defs call_or_def call_ignore_def on_db_def server_now_def fail_def decodeJSON_def Let_def
  refresh_def presented_token_def refresh_device_def rotate_session_def GenerateRefreshToken_def draw_def
  HashRefreshToken_def send_tokens_def IssueToken_def with_cookies_def writeJSON_def
  login_def login_user_def login_device_def login_new_device_def DefaultPlugins_def LocalPlugin_def
  local_Authenticate_def IsLocked_def newLoginRateLimiter_def list_get_def demo_is_local
  DevicesMaxPerUser_def maxDevicesPerUser_def
  user_statements device_statements find_user_def update_user_def update_device_def
  devices_conflict_def same_key_def session_update_def
  trim_space_def is_space_def strconv_Itoa_def nat_dec.simps digit_chars

lemma demo_sel: "sdb demo_server = demo_db" "server_now demo_server = 0"
    "lb_credentials (demo_login name password uuid) = RawObject (MString name) (MString password)"
  by (simp_all add: demo_server_def demo_login_def server_now_def demo_db_def empty_db_def)

lemma demo_devices_wf: "devices_wf demo_db"
  by (simp add: demo_runs devices_wf_def)

lemma demo_login_body:
  "resp_content (fst (login demo_env (DefaultPlugins demo_env) demo_request (Some (demo_login ''bob'' ''pw2'' ''new'')) demo_server))
    = JsonBody (Tokens ''jwt:2'' 900 ''fresh'' 7776000 10)"
  by (simp add: demo_runs)

lemma demo_refresh_body:
  "resp_content (fst (refresh demo_env demo_request (Some \<lparr> rb_refresh_token = ''tv'', rb_device_uuid = ''tv'' \<rparr>) demo_server))
    = JsonBody (Tokens ''jwt:1'' 900 ''fresh'' 7776000 7)"
  by (simp add: demo_runs)

end
