(* ===== verification/AuthInvariant.thy ===== *)
theory AuthInvariant
  imports AuthApi
begin

text \<open>
  What every statement keeps of the database, every authentication request keeps: the handlers
  are proved once, for any such property, and the shape of the table \<open>devices\<close> is one.
\<close>

section \<open>Reasoning about handlers\<close>

lemma on_db_cases:
  assumes "on_db stmt sv = (r, sv')"
  obtains s' where "stmt (sdb sv) = (r, s')" and "sv' = sv\<lparr> sdb := s' \<rparr>"
  using assms by (auto simp: on_db_def split: prod.splits)

lemma on_db_rule:
  assumes "\<And>e s'. stmt (sdb sv) = (Inl e, s') \<Longrightarrow> Q (h e (sv\<lparr> sdb := s' \<rparr>))"
    and "\<And>a s'. stmt (sdb sv) = (Inr a, s') \<Longrightarrow> Q (k a (sv\<lparr> sdb := s' \<rparr>))"
  shows "Q (call_or (on_db stmt) h k sv)"
  by (rule call_or_rule) (auto elim!: on_db_cases simp: assms)

text \<open>A login is turned away before the plugin is asked, or it goes through the plugin.\<close>

definition try_login ::
  "('c, 'a, 'l) auth_env \<Rightarrow> request \<Rightarrow> ('c, 'a, 'l) plugin \<Rightarrow> login_body \<Rightarrow> ('c, 'a, 'l, auth_response) op" where
  "try_login env r p b =
     call_or (Authenticate p (lb_credentials b))
       (\<lambda>_ sv. (writeError 401 ''invalid credentials'', record_failure env (clientIP (remote_addr r)) sv))
       (login_user env r b)"

lemma login_cases:
  obtains (Refused) st m rl where "login env plugins r body sv = (writeError st m, sv\<lparr> slimiter := rl \<rparr>)" and "400 \<le> st"
  | (Tried) b p rl where "login env plugins r body sv = try_login env r p b (sv\<lparr> slimiter := rl \<rparr>)"
      and "map_of plugins (lb_provider b) = Some p" and "map_option lb_credentials body = Some (lb_credentials b)"
proof (cases body)
  case None
  then show ?thesis using Refused [of 400 "''invalid request body''" "slimiter sv"] by (simp add: login_def decodeJSON_def)
next
  case (Some b0)
  let ?b = "if lb_provider b0 = [] then b0\<lparr> lb_provider := ''local'' \<rparr> else b0"
  obtain l rl where l: "IsLocked (lock_ops env) (clientIP (remote_addr r)) (server_now sv) (slimiter sv) = (l, rl)"
    by (metis prod.collapse)
  show ?thesis
  proof (cases "trim_space (lb_device_uuid b0) = []")
    case True
    then show ?thesis using Some Refused [of 400 _ "slimiter sv"] by (simp add: login_def decodeJSON_def)
  next
    case uuid: False
    have run: "login env plugins r body sv =
        (if l then (writeError 429 ''try again later'', sv\<lparr> slimiter := rl \<rparr>)
         else case map_of plugins (lb_provider ?b) of
           None \<Rightarrow> (writeError 400 (''unknown auth provider: '' @ lb_provider ?b), sv\<lparr> slimiter := rl \<rparr>)
         | Some p \<Rightarrow> try_login env r p ?b (sv\<lparr> slimiter := rl \<rparr>))"
      unfolding login_def decodeJSON_def try_login_def Let_def l using Some uuid by simp
    show ?thesis
    proof (cases "l \<or> map_of plugins (lb_provider ?b) = None")
      case True
      then show ?thesis using Refused [of 429 _ rl] Refused [of 400 _ rl] run by (cases l) simp_all
    next
      case False
      then obtain p where "map_of plugins (lb_provider ?b) = Some p" "\<not> l" by blast
      then show ?thesis using Tried [of p ?b rl] run Some by simp
    qed
  qed
qed

lemma sdb_of_guard [simp]: "sdb (revoke env i sv) = sdb sv" "sdb (revoke_many env is sv) = sdb sv"
    "sdb (record_failure env ip sv) = sdb sv"
  by (simp_all add: revoke_def revoke_many_def record_failure_def)

lemma touch_sel [simp]:
  "devices (UserTouchLastSeen i s) = devices s" "clock (UserTouchLastSeen i s) = clock s"
  unfolding UserTouchLastSeen_def call_ignore_def
  by (rule sql_preserves [where P = "\<lambda>s'. devices s' = devices s"], simp_all add: update_user_def)
    (rule sql_preserves [where P = "\<lambda>s'. clock s' = clock s"], simp_all add: update_user_def)

lemma devices_send: "devices (sdb (snd (send_tokens env u i adm raw sv))) = devices (sdb sv)"
  by (simp add: send_tokens_def Let_def split: option.split)

section \<open>Properties the statements keep\<close>

definition keeps :: "(db \<Rightarrow> bool) \<Rightarrow> ('c, 'a, 'l, 'r) op \<Rightarrow> bool" where
  "keeps P f \<longleftrightarrow> (\<forall>sv. P (sdb sv) \<longrightarrow> P (sdb (snd (f sv))))"

lemma keepsI: "(\<And>sv. P (sdb sv) \<Longrightarrow> P (sdb (snd (f sv)))) \<Longrightarrow> keeps P f"
  by (simp add: keeps_def)

lemma keepsD: "keeps P f \<Longrightarrow> P (sdb sv) \<Longrightarrow> P (sdb (snd (f sv)))"
  by (simp add: keeps_def)

lemma keeps_call [intro]:
  assumes "keeps P m" and "\<And>e. keeps P (h e)" and "\<And>a. keeps P (k a)"
  shows "keeps P (call_or m h k)"
proof (rule keepsI)
  fix sv :: "('a, 'b, 'c) server"
  assume "P (sdb sv)"
  then have m: "P (sdb s')" if "m sv = (x, s')" for x s' using keepsD [OF assms(1), of sv] that by simp
  show "P (sdb (snd (call_or m h k sv)))"
    by (rule call_or_rule [where Q = "\<lambda>r. P (sdb (snd r))"]) (use m assms(2,3) keepsD in \<open>blast+\<close>)
qed

lemma keeps_db: "(\<And>s. P s \<Longrightarrow> P (snd (stmt s))) \<Longrightarrow> keeps P (on_db stmt)"
  by (simp add: keeps_def)

lemma keeps_same: "(\<And>sv. sdb (snd (f sv)) = sdb sv) \<Longrightarrow> keeps P f"
  by (simp add: keeps_def)

lemma keeps_fail [simp]: "keeps P (fail st m e)"
  by (rule keeps_same) (simp add: fail_def)

lemma keeps_at: "(\<And>s0. keeps P (F s0)) \<Longrightarrow> keeps P (\<lambda>sv. F sv sv)"
  by (simp add: keeps_def)

lemma keeps_if: "keeps P f \<Longrightarrow> keeps P g \<Longrightarrow> keeps P (\<lambda>sv. if b sv then f sv else g sv)"
  by (simp add: keeps_def)

lemma keeps_draw [simp]: "keeps P (GenerateRefreshToken env)" "keeps P (hash_password env p)"
  by (rule keeps_same, simp add: GenerateRefreshToken_def hash_password_def draw_def split: list.split option.split)+

lemma keeps_url: "(\<And>i. keeps P (f i)) \<Longrightarrow>
    keeps P (\<lambda>sv. case urlIntParam n p of Inl resp \<Rightarrow> (resp, sv) | Inr i \<Rightarrow> f i sv)"
  by (cases "urlIntParam n p :: 'd response + int") (simp_all add: keeps_same)

text \<open>A login of a new device keeps what each of its statements keeps.\<close>

lemma keeps_login_new_statements:
  assumes count: "\<And>s. P s \<Longrightarrow> P (snd (DevicesCountActiveForUser u s))"
    and evict: "\<And>s. P s \<Longrightarrow> P (snd (DeviceEvictLRU u s))"
    and create: "\<And>uuid name h e entry s. P s \<Longrightarrow> P (snd (DeviceCreate u uuid name h e entry s))"
    and touch: "\<And>s. P s \<Longrightarrow> P (UserTouchLastSeen u s)"
  shows "keeps P (login_new_device env b entry u adm raw h)"
proof -
  have send: "keeps P (send_tokens env u i adm raw)" for i
    by (rule keepsI) (auto simp: send_tokens_def Let_def touch split: option.split)
  let ?create = "\<lambda>sv. call_or (on_db (DeviceCreate u (lb_device_uuid b) (lb_device_name b) h
      (server_now sv + RefreshTokenTTL) entry)) (fail 500 ''device creation failed'') (\<lambda>i. send_tokens env u i adm raw) sv"
  have new: "keeps P ?create"
    by (rule keeps_at [where F = "\<lambda>s0. call_or (on_db (DeviceCreate u (lb_device_uuid b) (lb_device_name b) h
      (server_now s0 + RefreshTokenTTL) entry)) (fail 500 ''device creation failed'') (\<lambda>i. send_tokens env u i adm raw)"])
      (intro keeps_call keeps_db, simp_all add: create send)
  have "keeps P (\<lambda>sv. ?create (if i \<noteq> 0 then revoke env i sv else sv))" for i
    by (rule keepsI) (rule keepsD [OF new], simp)
  with new show ?thesis unfolding login_new_device_def Let_def
    by (intro keeps_call keeps_db keeps_if) (auto simp: count evict)
qed

text \<open>The contract of the statements with an invariant of the database. A login of a new device
  is a whole: it may have to make room before it creates the row.\<close>

locale auth_invariant =
  fixes P :: "db \<Rightarrow> bool"
    and env :: "('c, 'a, 'l) auth_env"
  assumes faults: "P s \<Longrightarrow> P (s\<lparr> faults := fs \<rparr>)"
    and clock: "P s \<Longrightarrow> P (s\<lparr> clock := t \<rparr>)"
    and user_update: "P s \<Longrightarrow> (\<And>u. user_id (f u) = user_id u) \<Longrightarrow> P (update_user i f s)"
    and delete: "P s \<Longrightarrow> P (delete_devices D s)"
    and session: "P s \<Longrightarrow> P (snd (DeviceUpdateSession i nh oh e entry name s))"
    and ban: "P s \<Longrightarrow> P (snd (DeviceBan i u s))"
    and login_new: "keeps P (login_new_device env b entry u adm raw h)"
begin

lemma sql_keeps: "P s \<Longrightarrow> (\<And>s. P s \<Longrightarrow> P (snd (stmt s))) \<Longrightarrow> P (snd (sql stmt s))"
  by (rule sql_preserves [where P = P]) (simp_all add: faults)

lemma reads:
  assumes "P s"
  shows "P (snd (UserIsLocalOnly i s))" "P (snd (UserIsAdmin i s))" "P (snd (UserAuthProvider i s))" "P (snd (UserGet i s))"
    "P (snd (UserByNameAndProvider n p s))" "P (snd (DeviceFindByUserAndUUID v uuid s))"
    "P (snd (DeviceFindByRefreshTokenHash h s))" "P (snd (DeviceFindByPreviousRefreshTokenHash h s))"
    "P (snd (DevicesCountActiveForUser v s))" "P (snd (DevicesGetForUser v s))"
  unfolding user_statements device_statements
  by (rule sql_keeps [OF assms], simp split: option.split)+

lemma writes:
  assumes "P s"
  shows "P (snd (UserUpdateAuth i h s))" "P (UserTouchLastSeen i s)" "P (snd (DeviceEvictLRU v s))"
    "P (snd (DevicesDeleteForUser v s))" "P (snd (DeviceDelete i v s))"
  unfolding user_statements device_statements call_ignore_def
  by (rule sql_keeps [OF assms], simp add: user_update delete Let_def split: option.split)+

lemmas statements = reads writes session ban

lemma keeps_send_tokens [simp]: "keeps P (send_tokens env u i adm raw)"
  by (rule keepsI) (auto simp: send_tokens_def Let_def statements split: option.split)

lemma keeps_login_known [simp]: "keeps P (login_known_device env b entry u adm raw h d)"
  unfolding login_known_device_def
  by (rule keeps_at, rule keeps_call) (simp_all add: keeps_db statements)

lemma keeps_login_device [simp]: "keeps P (login_device env r b u adm ex)"
proof (rule keepsI)
  fix sv :: "('c, 'a, 'l) server"
  assume sv: "P (sdb sv)"
  have "keeps P (\<lambda>sv. login_known_device env b (E sv) u adm raw hash d sv)" for E raw hash d
    by (rule keeps_at [where F = "\<lambda>s0. login_known_device env b (E s0) u adm raw hash d"]) simp
  then have "keeps P (call_or (GenerateRefreshToken env) (fail 500 ''token generation failed'')
      (\<lambda>(raw, hash) sv. login_known_device env b (E sv) u adm raw hash d sv))" for d E
    by (intro keeps_call) (auto split: prod.split)
  moreover have "keeps P (\<lambda>sv. login_new_device env b (E sv) u adm raw hash sv)" for E raw hash
    by (rule keeps_at [where F = "\<lambda>s0. login_new_device env b (E s0) u adm raw hash"]) (rule login_new)
  then have "keeps P (call_or (GenerateRefreshToken env) (fail 500 ''token generation failed'')
      (\<lambda>(raw, hash) sv. login_new_device env b (E sv) u adm raw hash sv))" for E
    by (intro keeps_call) (auto split: prod.split)
  ultimately show "P (sdb (snd (login_device env r b u adm ex sv)))"
    by (cases ex) (simp_all add: login_device_def keepsD sv)
qed

lemma keeps_login_user [simp]: "keeps P (login_user env r b u)"
proof -
  have "keeps P (\<lambda>sv. if e \<noteq> NotFound then (writeError 500 m, sv) else login_device env r b u adm None sv)" for e m adm
    by (cases "e = NotFound") (simp_all add: keeps_same)
  then have "keeps P (call_or (on_db (UserIsAdmin u)) (fail 500 ''user lookup failed'')
      (\<lambda>adm. call_or (on_db (DeviceFindByUserAndUUID u (lb_device_uuid b)))
         (\<lambda>e sv. if e \<noteq> NotFound then (writeError 500 ''device lookup failed'', sv)
                  else login_device env r b u adm None sv)
         (\<lambda>d. login_device env r b u adm (Some d))))"
    by (intro keeps_call keeps_db) (auto simp: statements)
  then show ?thesis unfolding login_user_def
    by (intro keeps_call keeps_db) (auto simp: statements keeps_same keeps_if)
qed

lemma keeps_local_plugin [simp]:
  "keeps P (local_Authenticate env raw)" "keeps P (local_UpdateCredentials env i raw)"
proof -
  have "keeps P (call_or (on_db (UserByNameAndProvider n p)) (\<lambda>_ sv. (Inl m, sv)) (\<lambda>(u, auth) sv. F u auth sv))"
    if "\<And>u auth sv. sdb (snd (F u auth sv)) = sdb sv" for n p m and F :: "int \<Rightarrow> string option \<Rightarrow> ('c, 'a, 'l, string + int) op"
    by (intro keeps_call keeps_db) (use that in \<open>auto simp: statements intro: keeps_same split: prod.split\<close>)
  then show "keeps P (local_Authenticate env raw)"
    by (auto simp: local_Authenticate_def keeps_def split: option.split)
  have "keeps P (call_or (hash_password env p) (\<lambda>e sv. (Inl e, sv))
      (\<lambda>h. call_or (on_db (UserUpdateAuth i (Some h))) (\<lambda>e sv. (Inl (m e), sv))
         (\<lambda>_. call_or (on_db (DevicesDeleteForUser i)) (\<lambda>_ sv. (Inl m2, sv)) (\<lambda>_ sv. (Inr (), sv)))))" for p m m2
    by (intro keeps_call keeps_db) (auto simp: statements intro: keeps_same)
  then show "keeps P (local_UpdateCredentials env i raw)"
    by (auto simp: local_UpdateCredentials_def keeps_def split: option.split)
qed

lemma keeps_login: "keeps P (login env (DefaultPlugins env) r b)"
proof (rule keepsI)
  fix sv :: "('c, 'a, 'l) server"
  assume sv: "P (sdb sv)"
  have *: "keeps P (try_login env r p b)" if "map_of (DefaultPlugins env) n = Some p" for p n b
    using that unfolding try_login_def
    by (intro keeps_call) (auto simp: DefaultPlugins_def LocalPlugin_def keeps_same split: if_splits)
  show "P (sdb (snd (login env (DefaultPlugins env) r b sv)))"
  proof (rule login_cases [of env "DefaultPlugins env" r b sv])
    fix b' p rl
    assume run: "login env (DefaultPlugins env) r b sv = try_login env r p b' (sv\<lparr>slimiter := rl\<rparr>)"
      and "map_of (DefaultPlugins env) (lb_provider b') = Some p"
    then have "keeps P (try_login env r p b')" by (intro *)
    from keepsD [OF this, of "sv\<lparr>slimiter := rl\<rparr>"] show ?thesis unfolding run using sv by simp
  qed (simp add: sv)
qed

lemma keeps_delete_all [simp]: "keeps P (delete_all_devices env u m)"
proof (rule keepsI)
  fix sv :: "('c, 'a, 'l) server"
  have "sdb (snd (delete_all_devices env u m sv)) = snd (DevicesDeleteForUser u (sdb sv))"
    by (simp add: delete_all_devices_def on_db_def Let_def split: prod.split)
  then show "P (sdb sv) \<Longrightarrow> P (sdb (snd (delete_all_devices env u m sv)))" by (simp add: writes)
qed

lemma keeps_rotate [simp]: "keeps P (rotate_session env r h d adm)"
proof -
  have "keeps P (\<lambda>sv. call_or (on_db (DeviceUpdateSession i h' h (server_now sv + RefreshTokenTTL)
        \<lparr>ae_ip = ip, ae_agent = ag, ae_time = server_now sv\<rparr> [])) (fail 500 m)
      (\<lambda>_. send_tokens env u i adm raw) sv)" for i h' ip ag m u raw
    by (rule keeps_at [where F = "\<lambda>s0. call_or (on_db (DeviceUpdateSession i h' h (server_now s0 + RefreshTokenTTL)
        \<lparr>ae_ip = ip, ae_agent = ag, ae_time = server_now s0\<rparr> [])) (fail 500 m)
      (\<lambda>_. send_tokens env u i adm raw)"]) (intro keeps_call keeps_db, simp_all add: statements)
  then show ?thesis unfolding rotate_session_def Let_def by (intro keeps_call) (auto split: prod.split)
qed

lemma keeps_refresh: "keeps P (refresh env r b)"
proof -
  have "keeps P (\<lambda>sv. if c then (resp, sv) else call_or (on_db (UserIsAdmin u)) (fail 500 m) (rotate_session env r h d) sv)"
    for c resp u m h d by (rule keeps_if) (auto intro!: keeps_call keeps_db simp: statements keeps_same)
  then have "keeps P (call_or (on_db (UserIsLocalOnly u)) (fail 401 m)
      (\<lambda>l sv. if l \<and> \<not> isLocalRequest (remote_addr r) then (resp, sv)
        else call_or (on_db (UserIsAdmin u)) (fail 500 m2) (rotate_session env r h d) sv))" for u m m2 resp h d
    by (intro keeps_call keeps_db) (auto simp: statements)
  then have "keeps P (refresh_device env r h uuid d)" for h uuid d
    unfolding refresh_device_def by (intro keeps_if) (auto simp: keeps_same)
  then have "keeps P (call_or (on_db (DeviceFindByPreviousRefreshTokenHash h)) (fail 500 m)
      (\<lambda>found. case found of
         Some (v, i) \<Rightarrow> delete_all_devices env v m2
       | None \<Rightarrow> call_or (on_db (DeviceFindByRefreshTokenHash h)) (fail 401 m3) (refresh_device env r h uuid)))"
    for h m m2 m3 uuid
    by (intro keeps_call keeps_db) (auto simp: statements intro!: keeps_call keeps_db split: option.split)
  then show ?thesis by (auto simp: refresh_def decodeJSON_def Let_def keeps_def split: option.split)
qed

lemma keeps_requireJWT: "(\<And>c. keeps P (nxt c)) \<Longrightarrow> keeps P (requireJWT env adm nxt r)"
  by (auto simp: keeps_def requireJWT_run Let_def split: option.split prod.split)

lemma keeps_account:
  "keeps P (me c)" "keeps P (logout env c)" "keeps P (listDevices c)" "keeps P (deleteDevice env r c)"
  "keeps P (banDevice env r c)" "keeps P (changeCredentials (DefaultPlugins env) raw c)"
proof -
  show "keeps P (me c)" unfolding me_def
    by (intro keeps_call keeps_db) (auto simp: statements keeps_same split: prod.split)
  show "keeps P (listDevices c)" unfolding listDevices_def writeDeviceList_def
    by (intro keeps_call keeps_db) (auto simp: statements keeps_same)
  show "keeps P (logout env c)" by (rule keepsI) (simp add: logout_def Let_def statements)
  show "keeps P (deleteDevice env r c)" unfolding deleteDevice_def
    by (intro keeps_url keeps_if keeps_call keeps_db) (auto simp: statements keeps_same)
  show "keeps P (banDevice env r c)" unfolding banDevice_def
    by (intro keeps_url keeps_if keeps_call keeps_db) (auto simp: statements keeps_same)
  have "keeps P (call_or (UpdateCredentials p u raw) (fail 400 m) (\<lambda>_ sv. (write_status 204, sv)))"
    if "map_of (DefaultPlugins env) n = Some p" for p u raw m n
    using that by (intro keeps_call) (auto simp: DefaultPlugins_def LocalPlugin_def keeps_same split: if_splits)
  then have "keeps P (\<lambda>sv. case map_of (DefaultPlugins env) n of None \<Rightarrow> (resp, sv)
      | Some p \<Rightarrow> (case decodeJSON raw of Inl resp \<Rightarrow> (resp, sv)
          | Inr x \<Rightarrow> call_or (UpdateCredentials p u x) (fail 400 m) (\<lambda>_ sv. (write_status 204, sv)) sv))" for n resp u m
    by (cases "map_of (DefaultPlugins env) n"; cases raw) (simp_all add: keeps_same decodeJSON_def)
  then show "keeps P (changeCredentials (DefaultPlugins env) raw c)" unfolding changeCredentials_def
    by (intro keeps_call keeps_db) (auto simp: statements)
qed

lemma keeps_serve: "(\<And>r. q \<noteq> CallUnban r) \<Longrightarrow> keeps P (serve_auth env q)"
  by (cases q) (auto simp: RequireAuth_def keeps_requireJWT keeps_account keeps_login keeps_refresh
      keeps_same listProviders_def)

lemma arrive_keeps: "P (sdb sv) \<Longrightarrow> P (sdb (arrive a sv))"
  using faults [OF clock] by (simp add: arrive_def)

lemma handled_auth_keeps:
  "list_all (\<lambda>(a, q). \<forall>r. q \<noteq> CallUnban r) calls \<Longrightarrow> P (sdb sv) \<Longrightarrow> P (sdb (fold (handle_auth env) calls sv))"
proof (induction calls arbitrary: sv)
  case (Cons call calls)
  obtain a q where call: "call = (a, q)" by (cases call)
  have "keeps P (serve_auth env q)" by (rule keeps_serve) (use Cons.prems(1) call in auto)
  then have "P (sdb (handle_auth env call sv))"
    using keepsD arrive_keeps [OF Cons.prems(2)] by (simp add: handle_auth_def call keeps_def)
  then show ?case using Cons by simp
qed simp

end

text \<open>With the ban lifted as well: every route.\<close>

locale auth_table_invariant = auth_invariant +
  assumes unban: "P s \<Longrightarrow> P (snd (DeviceUnban i u s))"
begin

lemma keeps_unban: "keeps P (unbanDevice r c)"
  unfolding unbanDevice_def by (intro keeps_url keeps_call keeps_db) (auto simp: unban keeps_same)

lemma handled_all_keeps: "P (sdb sv) \<Longrightarrow> P (sdb (fold (handle_auth env) calls sv))"
proof (induction calls arbitrary: sv)
  case (Cons call calls)
  obtain a q where call: "call = (a, q)" by (cases call)
  have "keeps P (serve_auth env q)"
  proof (cases "\<exists>r. q = CallUnban r")
    case True
    then show ?thesis by (auto simp: RequireAuth_def intro!: keeps_requireJWT keeps_unban)
  next
    case False
    then show ?thesis by (intro keeps_serve) simp
  qed
  then have "P (sdb (handle_auth env call sv))"
    using arrive_keeps [OF Cons.prems] by (simp add: handle_auth_def call keeps_def)
  then show ?case using Cons by simp
qed simp

end

end
