(* ===== verification/AuthDevices.thy ===== *)
theory AuthDevices
  imports AuthInvariant
begin

text \<open>
  The table \<open>devices\<close> under the authentication requests: how many devices a user can have, and
  the shape of the rows.
\<close>

section \<open>The number of devices\<close>

definition active_devices :: "int \<Rightarrow> db \<Rightarrow> device list" where
  "active_devices u s = filter (\<lambda>d. device_user d = u \<and> banned_at d = None) (devices s)"

definition active_count :: "int \<Rightarrow> db \<Rightarrow> nat" where
  "active_count u s = length (active_devices u s)"

lemma active_count_faults [simp]: "active_count u (s\<lparr> faults := fs \<rparr>) = active_count u s"
  by (simp add: active_count_def active_devices_def)

lemma active_count_cong: "devices s' = devices s \<Longrightarrow> active_count u s' = active_count u s"
  by (simp add: active_count_def active_devices_def)

text \<open>Statements that leave the table alone, and those that take rows out of it or bar them.\<close>

lemma sql_active_le:
  assumes "\<And>s. active_count u (snd (stmt s)) \<le> active_count u s"
  shows "active_count u (snd (sql stmt s)) \<le> active_count u s"
  by (rule sql_cases [of s stmt]) (use assms [of "s\<lparr>faults := _\<rparr>"] in simp_all)

lemma length_filter_mono: "(\<And>x. P x \<Longrightarrow> Q x) \<Longrightarrow> length (filter P xs) \<le> length (filter Q xs)"
  by (induction xs) (auto simp: le_SucI)

lemma length_filter_map_le:
  "(\<And>x. P (f x) \<Longrightarrow> P x) \<Longrightarrow> length (filter P (map f xs)) \<le> length (filter P xs)"
  by (induction xs) (auto simp: le_SucI)

lemma active_count_delete: "active_count u (delete_devices P s) \<le> active_count u s"
  by (simp add: active_count_def active_devices_def delete_devices_def) (rule length_filter_mono, simp)

lemma active_count_update:
  assumes "\<And>d. device_user (f d) = device_user d" and "\<And>d. banned_at d \<noteq> None \<Longrightarrow> banned_at (f d) \<noteq> None"
  shows "active_count u (s\<lparr> devices := map f (devices s) \<rparr>) \<le> active_count u s"
proof -
  have "length (filter (\<lambda>d. device_user d = u \<and> banned_at d = None) (map f (devices s)))
      \<le> length (filter (\<lambda>d. device_user d = u \<and> banned_at d = None) (devices s))"
    by (rule length_filter_map_le) (metis assms)
  then show ?thesis by (simp add: active_count_def active_devices_def)
qed

named_theorems active_le "statements that add no active device"

lemma active_le_reads [active_le]:
  "active_count u (snd (UserIsLocalOnly i s)) \<le> active_count u s"
  "active_count u (snd (UserIsAdmin i s)) \<le> active_count u s"
  "active_count u (snd (UserAuthProvider i s)) \<le> active_count u s"
  "active_count u (snd (UserGet i s)) \<le> active_count u s"
  "active_count u (snd (UserByNameAndProvider n p s)) \<le> active_count u s"
  "active_count u (snd (UserUpdateAuth i h s)) \<le> active_count u s"
  "active_count u (UserTouchLastSeen i s) \<le> active_count u s"
  "active_count u (snd (DeviceFindByUserAndUUID v uuid s)) \<le> active_count u s"
  "active_count u (snd (DeviceFindByRefreshTokenHash h' s)) \<le> active_count u s"
  "active_count u (snd (DeviceFindByPreviousRefreshTokenHash h' s)) \<le> active_count u s"
  "active_count u (snd (DevicesCountActiveForUser v s)) \<le> active_count u s"
  "active_count u (snd (DevicesGetForUser v s)) \<le> active_count u s"
  unfolding user_statements device_statements call_ignore_def
  by (rule sql_active_le, simp add: active_count_def active_devices_def update_user_def split: option.split)+

lemma active_le_deletes [active_le]:
  "active_count u (snd (DeviceEvictLRU v s)) \<le> active_count u s"
  "active_count u (snd (DevicesDeleteForUser v s)) \<le> active_count u s"
  "active_count u (snd (DeviceDelete i v s)) \<le> active_count u s"
  unfolding device_statements
  by (rule sql_active_le, simp add: active_count_delete Let_def split: option.split)+

lemma active_le_ban [active_le]: "active_count u (snd (DeviceBan i v s)) \<le> active_count u s"
  unfolding device_statements by (rule sql_active_le) (simp, rule active_count_update, auto)

lemma active_le_session [active_le]: "active_count u (snd (DeviceUpdateSession i n p e en na s)) \<le> active_count u s"
  unfolding device_statements
  by (rule sql_active_le)
    (auto simp: Let_def update_device_def intro!: active_count_update simp: session_update_def)


text \<open>Counting, making room and creating.\<close>

lemma count_result:
  "DevicesCountActiveForUser u s = (Inr c, s') \<Longrightarrow> c = int (active_count u s) \<and> devices s' = devices s"
  unfolding device_statements by (erule sql_InrE) (auto simp: active_count_def active_devices_def)

lemma lru_device_active: "lru_device u s = Some d \<Longrightarrow> d \<in> set (active_devices u s)"
  by (metis (no_types, lifting) active_devices_def list.exhaust list.set_intros(1) list.simps(4,5) lru_device_def
      option.distinct(1) option.inject set_sort)

lemma lru_device_None: "lru_device u s = None \<Longrightarrow> active_devices u s = []"
  by (auto simp: lru_device_def active_devices_def split: list.splits dest: arg_cong [where f = set])

lemma lru_device_faults [simp]: "lru_device u (s\<lparr> faults := fs \<rparr>) = lru_device u s"
  by (simp add: lru_device_def)

lemma delete_lru_less:
  assumes "d \<in> set (active_devices u s)"
  shows "active_count u (delete_devices (\<lambda>e. device_id e = device_id d) s) < active_count u s"
proof -
  have "active_devices u (delete_devices (\<lambda>e. device_id e = device_id d) s)
      = filter (\<lambda>e. device_id e \<noteq> device_id d) (active_devices u s)"
    by (simp add: active_devices_def delete_devices_def conj_commute)
  then show ?thesis unfolding active_count_def using assms by (metis (mono_tags, lifting) length_filter_less)
qed

lemma evict_result:
  assumes "DeviceEvictLRU u s = (Inr i, s')"
  shows "active_count u s' \<le> active_count u s - 1"
  using assms unfolding DeviceEvictLRU_def
proof (rule sql_InrE)
  fix fs
  assume run: "(case lru_device u (s\<lparr>faults := fs\<rparr>) of None \<Rightarrow> (Inr 0, s\<lparr>faults := fs\<rparr>)
    | Some d \<Rightarrow> (Inr (device_id d), delete_devices (\<lambda>e. device_id e = device_id d) (s\<lparr>faults := fs\<rparr>))) = (Inr i, s')"
  show "active_count u s' \<le> active_count u s - 1"
  proof (cases "lru_device u s")
    case None
    then have "active_count u s = 0" by (simp add: active_count_def lru_device_None)
    then show ?thesis using run None by auto
  next
    case (Some d)
    have "d \<in> set (active_devices u (s\<lparr>faults := fs\<rparr>))" by (rule lru_device_active) (simp add: Some)
    from delete_lru_less [OF this] show ?thesis using run Some by auto
  qed
qed

lemma create_result:
  "active_count v (snd (DeviceCreate u uuid name h e entry s)) \<le> active_count v s + (if v = u then 1 else 0)"
  unfolding DeviceCreate_def
  by (rule sql_preserves [where P = "\<lambda>s'. active_count v s' \<le> active_count v s + (if v = u then 1 else 0)"])
    (auto simp: Let_def active_count_def active_devices_def)

lemma active_send: "active_count v (sdb (snd (send_tokens env u i adm raw sv))) = active_count v (sdb sv)"
  by (rule active_count_cong) (rule devices_send)

lemma login_new_within_cap:
  fixes env :: "('c, 'a, 'l) auth_env"
  shows "keeps (\<lambda>s. active_count v s \<le> max 15 k) (login_new_device env b entry u adm raw h)"
proof (rule keepsI)
  fix sv :: "('c, 'a, 'l) server"
  assume start: "active_count v (sdb sv) \<le> max 15 k"
  let ?Q = "\<lambda>r. active_count v (sdb (snd r)) \<le> max 15 k"
  let ?create = "\<lambda>sv. call_or (on_db (DeviceCreate u (lb_device_uuid b) (lb_device_name b) h
      (server_now sv + RefreshTokenTTL) entry)) (fail 500 ''device creation failed'')
      (\<lambda>i. send_tokens env u i adm raw) sv"
  have create: "?Q (?create sv1)"
    if v: "active_count v (sdb sv1) \<le> max 15 k"
      and u: "v = u \<Longrightarrow> active_count v (sdb sv1) < max 15 k" for sv1
  proof -
    have *: "active_count v (snd (DeviceCreate u (lb_device_uuid b) (lb_device_name b) h t entry (sdb sv1)))
        \<le> max 15 k" for t
      using create_result [of v u "lb_device_uuid b" "lb_device_name b" h t entry "sdb sv1"] u v
      by (cases "v = u") auto
    show ?thesis
    proof (rule on_db_rule [where Q = ?Q])
      fix e s2
      assume "DeviceCreate u (lb_device_uuid b) (lb_device_name b) h (server_now sv1 + RefreshTokenTTL) entry (sdb sv1) = (Inl e, s2)"
      then show "?Q (fail 500 ''device creation failed'' e (sv1\<lparr>sdb := s2\<rparr>))"
        using * [of "server_now sv1 + RefreshTokenTTL"] by (simp add: fail_def)
    next
      fix i s2
      assume "DeviceCreate u (lb_device_uuid b) (lb_device_name b) h (server_now sv1 + RefreshTokenTTL) entry (sdb sv1) = (Inr i, s2)"
      then show "?Q (send_tokens env u i adm raw (sv1\<lparr>sdb := s2\<rparr>))"
        using * [of "server_now sv1 + RefreshTokenTTL"] by (simp add: active_send)
    qed
  qed
  show "?Q (login_new_device env b entry u adm raw h sv)"
    unfolding login_new_device_def Let_def
  proof (rule on_db_rule [where Q = ?Q])
    fix c s1 assume run: "DevicesCountActiveForUser u (sdb sv) = (Inr c, s1)"
    have c: "c = int (active_count u (sdb sv))" and d: "devices s1 = devices (sdb sv)"
      using count_result [OF run] by blast+
    have s1: "active_count w s1 = active_count w (sdb sv)" for w by (rule active_count_cong [OF d])
    let ?sv1 = "sv\<lparr>sdb := s1\<rparr>"
    have evict: "?Q (call_or (on_db (DeviceEvictLRU u)) (fail 500 ''device eviction failed'')
        (\<lambda>i sv. ?create (if i \<noteq> 0 then revoke env i sv else sv)) ?sv1)"
    proof (rule on_db_rule [where Q = ?Q])
      fix e s2 assume "DeviceEvictLRU u (sdb ?sv1) = (Inl e, s2)"
      then have "snd (DeviceEvictLRU u s1) = s2" by simp
      then have "active_count v s2 \<le> active_count v (sdb sv)"
        using active_le_deletes(1) [of v u s1] unfolding s1 by simp
      then have "active_count v s2 \<le> max 15 k" using start by linarith
      then show "?Q (fail 500 ''device eviction failed'' e (?sv1\<lparr>sdb := s2\<rparr>))"
        by (simp add: fail_def)
    next
      fix i s2 assume run2: "DeviceEvictLRU u (sdb ?sv1) = (Inr i, s2)"
      show "?Q (?create (if i \<noteq> 0 then revoke env i (?sv1\<lparr>sdb := s2\<rparr>) else ?sv1\<lparr>sdb := s2\<rparr>))"
      proof (rule create)
        have s2: "DeviceEvictLRU u s1 = (Inr i, s2)" using run2 by simp
        have le: "active_count v s2 \<le> active_count v (sdb sv)"
          using active_le_deletes(1) [of v u s1] s2 s1 [of v] by simp
        have same: "sdb (if i \<noteq> 0 then revoke env i (?sv1\<lparr>sdb := s2\<rparr>) else ?sv1\<lparr>sdb := s2\<rparr>) = s2" by simp
        show "active_count v (sdb (if i \<noteq> 0 then revoke env i (?sv1\<lparr>sdb := s2\<rparr>) else ?sv1\<lparr>sdb := s2\<rparr>))
            \<le> max 15 k"
          unfolding same using le start by linarith
        assume "v = u"
        then have "active_count v s2 \<le> active_count v (sdb sv) - 1"
          using evict_result [OF s2] s1 [of u] by simp
        then have "active_count v s2 < max 15 k" using start by linarith
        then show "active_count v (sdb (if i \<noteq> 0 then revoke env i (?sv1\<lparr>sdb := s2\<rparr>) else ?sv1\<lparr>sdb := s2\<rparr>))
            < max 15 k"
          unfolding same .
      qed
    qed
    have room: "?Q (?create ?sv1)" if "\<not> DevicesMaxPerUser \<le> c"
    proof (rule create)
      show "active_count v (sdb ?sv1) \<le> max 15 k" using s1 start by simp
      assume "v = u"
      moreover have "active_count u (sdb sv) < 15"
        using that c by (simp add: DevicesMaxPerUser_def maxDevicesPerUser_def)
      ultimately show "active_count v (sdb ?sv1) < max 15 k" using s1 by simp
    qed
    show "?Q (if DevicesMaxPerUser \<le> c
        then call_or (on_db (DeviceEvictLRU u)) (fail 500 ''device eviction failed'')
          (\<lambda>i sv. ?create (if i \<noteq> 0 then revoke env i sv else sv)) ?sv1
        else ?create ?sv1)"
    proof (cases "DevicesMaxPerUser \<le> c")
      case True
      then show ?thesis using evict by (simp only: if_True)
    next
      case False
      show ?thesis unfolding if_not_P [OF False] by (rule room [OF False])
    qed
  next
    fix e s1 assume "DevicesCountActiveForUser u (sdb sv) = (Inl e, s1)"
    then show "?Q (fail 500 ''device count failed'' e (sv\<lparr>sdb := s1\<rparr>))"
      using active_le_reads(11) [of v u "sdb sv"] start by (simp add: fail_def)
  qed
qed

interpretation device_cap: auth_invariant "\<lambda>s. active_count v s \<le> max 15 k" env
proof unfold_locales
  fix s :: db
  assume s: "active_count v s \<le> max 15 k"
  show "active_count v (s\<lparr>faults := fs\<rparr>) \<le> max 15 k" "active_count v (s\<lparr>clock := t\<rparr>) \<le> max 15 k"
    "active_count v (update_user i f s) \<le> max 15 k" for fs t i f
    using s by (simp_all add: active_count_def active_devices_def update_user_def)
  show "active_count v (delete_devices D s) \<le> max 15 k" for D
    by (rule order_trans [OF active_count_delete s])
  show "active_count v (snd (DeviceUpdateSession i nh oh e entry name s)) \<le> max 15 k"
      "active_count v (snd (DeviceBan i u s)) \<le> max 15 k" for i nh oh e entry name u
    by (rule order_trans [OF _ s], rule active_le)+
qed (rule login_new_within_cap)



section \<open>The shape of the rows\<close>

lemma devices_wf_map:
  assumes wf: "devices_wf s" and same: "\<And>d. device_id (f d) = device_id d"
    and hist: "\<And>d. d \<in> set (devices s) \<Longrightarrow> length (access_history (f d)) \<le> 5"
    and free: "\<And>d e. d \<in> set (devices s) \<Longrightarrow> e \<in> set (devices s) \<Longrightarrow> device_id d \<noteq> device_id e \<Longrightarrow>
      \<not> devices_conflict (f d) (f e)"
  shows "devices_wf (s\<lparr> devices := map f (devices s) \<rparr>)"
proof -
  have "map device_id (map f (devices s)) = map device_id (devices s)" by (simp add: same)
  then show ?thesis using wf hist free unfolding devices_wf_def by (auto simp: same simp del: map_map)
qed

lemma sql_keeps_wf: "devices_wf s \<Longrightarrow> (\<And>s. devices_wf s \<Longrightarrow> devices_wf (snd (stmt s))) \<Longrightarrow> devices_wf (snd (sql stmt s))"
  by (rule sql_preserves [where P = devices_wf]) simp_all

lemma session_keeps_wf: "devices_wf s \<Longrightarrow> devices_wf (snd (DeviceUpdateSession i nh oh e entry name s))"
  unfolding DeviceUpdateSession_def
proof (rule sql_preserves [where P = devices_wf])
  fix fs
  assume wf: "devices_wf s"
  let ?s = "s\<lparr>faults := fs\<rparr>" and ?upd = "session_update nh oh e entry name (clock s)"
  let ?f = "\<lambda>d. if device_id d = i then ?upd d else d"
  show "devices_wf (snd (let upd = session_update nh oh e entry name (clock ?s) in
      if list_ex (\<lambda>d. device_id d = i \<and> list_ex (\<lambda>e. device_id e \<noteq> i \<and> devices_conflict (upd d) e) (devices ?s)) (devices ?s)
      then (Inl UniqueViolation, ?s) else (Inr (), update_device i upd ?s)))"
  proof (cases "list_ex (\<lambda>d. device_id d = i \<and> list_ex (\<lambda>e. device_id e \<noteq> i \<and> devices_conflict (?upd d) e) (devices s)) (devices s)")
    case True
    then show ?thesis using wf by simp
  next
    case False
    have free: "\<not> devices_conflict (?upd d) e'"
      if "d \<in> set (devices s)" "e' \<in> set (devices s)" "device_id d = i" "device_id e' \<noteq> i" for d e'
      using False that unfolding list_ex_iff by blast
    have "devices_wf (?s\<lparr> devices := map ?f (devices ?s) \<rparr>)"
    proof (rule devices_wf_map)
      show "devices_wf ?s" using wf by simp
      show "length (access_history (?f d)) \<le> 5" if "d \<in> set (devices ?s)" for d
        using that wf by (auto simp: session_update_def devices_wf_def)
      fix d e' assume de: "d \<in> set (devices ?s)" "e' \<in> set (devices ?s)" "device_id d \<noteq> device_id e'"
      then have "\<not> devices_conflict d e'" using wf by (simp add: devices_wf_def)
      moreover have "d \<in> set (devices s)" "e' \<in> set (devices s)" using de by simp_all
      ultimately show "\<not> devices_conflict (?f d) (?f e')"
        using free [of d e'] free [of e' d] de(3) devices_conflict_sym [of "?upd e'" d]
        by (cases "device_id d = i"; cases "device_id e' = i") simp_all
    qed (simp add: session_update_def)
    then show ?thesis using False by (simp add: update_device_def)
  qed
qed simp

lemma ban_keeps_wf: "devices_wf s \<Longrightarrow> devices_wf (snd (DeviceBan i u s))"
  unfolding device_statements
  by (erule sql_keeps_wf, simp, rule devices_wf_map)
    (auto simp: devices_wf_def devices_conflict_def same_key_def)

lemma unban_keeps_wf: "devices_wf s \<Longrightarrow> devices_wf (snd (DeviceUnban i u s))"
  unfolding device_statements
  by (erule sql_keeps_wf, simp, rule devices_wf_map)
    (auto simp: devices_wf_def devices_conflict_def same_key_def)

lemma create_keeps_wf: "devices_wf s \<Longrightarrow> devices_wf (snd (DeviceCreate u uuid name h e entry s))"
  unfolding DeviceCreate_def
proof (rule sql_preserves [where P = devices_wf])
  fix fs
  assume "devices_wf s"
  then show "devices_wf (snd (let d = \<lparr>device_id = next_device (s\<lparr>faults := fs\<rparr>), device_uuid = uuid, device_user = u,
       refresh_token_hash = Some h, previous_refresh_token_hash = None, expires_at = Some e, device_name = name,
       banned_at = None, access_history = [entry], device_created_at = clock (s\<lparr>faults := fs\<rparr>),
       last_seen_at = clock (s\<lparr>faults := fs\<rparr>)\<rparr>
     in if find_user u (s\<lparr>faults := fs\<rparr>) = None then (Inl ForeignKeyViolation, s\<lparr>faults := fs\<rparr>)
        else if list_ex (devices_conflict d) (devices (s\<lparr>faults := fs\<rparr>)) then (Inl UniqueViolation, s\<lparr>faults := fs\<rparr>)
        else (Inr (next_device (s\<lparr>faults := fs\<rparr>)), s\<lparr>faults := fs, devices := devices (s\<lparr>faults := fs\<rparr>) @ [d],
               next_device := next_device (s\<lparr>faults := fs\<rparr>) + 1\<rparr>)))"
    using devices_conflict_sym
    by (auto simp: devices_wf_def Let_def list_ex_iff)
qed simp

lemma devices_wf_cong: "devices s' = devices s \<Longrightarrow> next_device s' = next_device s \<Longrightarrow> devices_wf s' \<longleftrightarrow> devices_wf s"
  by (simp add: devices_wf_def)

interpretation device_rows: auth_table_invariant devices_wf env
proof unfold_locales
  fix s :: db
  assume s: "devices_wf s"
  show "devices_wf (s\<lparr>faults := fs\<rparr>)" "devices_wf (s\<lparr>clock := t\<rparr>)" "devices_wf (update_user i f s)" for fs t i f
    using s by (simp_all add: devices_wf_def update_user_def)
  show "devices_wf (delete_devices D s)" for D by (rule devices_wf_delete [OF s])
  show "devices_wf (snd (DeviceUpdateSession i nh oh e entry name s))" for i nh oh e entry name by (rule session_keeps_wf [OF s])
  show "devices_wf (snd (DeviceBan i u s))" "devices_wf (snd (DeviceUnban i u s))" for i u
    by (rule ban_keeps_wf [OF s], rule unban_keeps_wf [OF s])
next
  show "keeps devices_wf (login_new_device env b entry u adm raw h)" for b entry u adm raw h
  proof (rule keeps_login_new_statements)
    show "devices_wf s \<Longrightarrow> devices_wf (snd (DevicesCountActiveForUser u s))" for s
      unfolding device_statements by (rule sql_keeps_wf) simp_all
    show "devices_wf s \<Longrightarrow> devices_wf (snd (DeviceEvictLRU u s))" for s
      unfolding device_statements by (rule sql_keeps_wf) (simp_all add: devices_wf_delete split: option.split)
    show "devices_wf s \<Longrightarrow> devices_wf (UserTouchLastSeen u s)" for s
      unfolding user_statements call_ignore_def by (rule sql_keeps_wf) (simp_all add: devices_wf_def update_user_def)
  qed (rule create_keeps_wf)
qed



end
