(* ===== verification/AuthSessions.thy ===== *)
theory AuthSessions
  imports AuthDevices
begin

text \<open>
  What a login and a refresh hand out, and what happens to a refresh token that is presented
  a second time.
\<close>

section \<open>What a login and a refresh hand out\<close>

text \<open>A successful statement, and what it leaves of the state.\<close>

lemma select_user_Inr:
  assumes "select_user f i s = (Inr x, s')"
  obtains usr fs where "find_user i s = Some usr" and "x = f usr" and "s' = s\<lparr> faults := fs \<rparr>"
  using assms unfolding select_user_def
  by (rule sql_InrE) (auto simp: find_user_def split: option.splits)

lemma find_device_Inr:
  assumes "find_device P s = (Inr d, s')"
  obtains fs where "d \<in> set (devices s)" and "P d" and "s' = s\<lparr> faults := fs \<rparr>"
  using assms unfolding find_device_def
  by (rule sql_InrE) (auto split: option.splits dest: find_SomeD)

lemma find_device_Inl:
  assumes "find_device P s = (Inl e, s')"
  obtains fs where "s' = s\<lparr> faults := fs \<rparr>"
  using assms unfolding find_device_def
  by (rule sql_result) (auto split: option.splits)

lemma create_Inr:
  assumes "DeviceCreate u uuid name h e entry s = (Inr i, s')"
  shows "clock s' = clock s \<and> (\<exists>d \<in> set (devices s'). device_id d = i \<and> device_user d = u \<and> banned_at d = None
    \<and> refresh_token_hash d = Some h \<and> expires_at d = Some e)"
  using assms unfolding DeviceCreate_def
  by (rule sql_InrE) (auto simp: Let_def split: if_splits)

lemma update_Inr:
  assumes "DeviceUpdateSession i nh oh e entry name s = (Inr x, s')"
  shows "devices s' = map (\<lambda>d. if device_id d = i then session_update nh oh e entry name (clock s) d else d) (devices s)
    \<and> clock s' = clock s"
  using assms unfolding DeviceUpdateSession_def
  by (rule sql_InrE) (auto simp: Let_def update_device_def split: if_splits)

lemma generate_Inr:
  assumes "GenerateRefreshToken env sv = (Inr (raw, h), sv')"
  shows "h = HashRefreshToken env raw \<and> sdb sv' = sdb sv \<and> sguard sv' = sguard sv"
  using assms by (auto simp: GenerateRefreshToken_def draw_def split: list.splits option.splits)

lemma session_update_sel [simp]:
  "device_id (session_update nh oh e entry name t d) = device_id d"
  "device_user (session_update nh oh e entry name t d) = device_user d"
  "device_uuid (session_update nh oh e entry name t d) = device_uuid d"
  "banned_at (session_update nh oh e entry name t d) = banned_at d"
  "refresh_token_hash (session_update nh oh e entry name t d) = Some nh"
  "previous_refresh_token_hash (session_update nh oh e entry name t d) = Some oh"
  "expires_at (session_update nh oh e entry name t d) = Some e"
  by (simp_all add: session_update_def)

text \<open>The session a body of tokens stands for: the access token carries the user, the device
  and the role, and the device's row has the hash of the refresh token.\<close>

definition opened ::
  "('c, 'a, 'l) auth_env \<Rightarrow> int \<Rightarrow> bool \<Rightarrow> time \<Rightarrow> auth_payload \<Rightarrow> db \<Rightarrow> bool" where
  "opened env u adm t p s \<longleftrightarrow> (\<exists>a raw. \<exists>d \<in> set (devices s).
     p = Tokens a (AccessTokenTTL div second) raw (RefreshTokenTTL div second) (device_id d)
     \<and> IssueToken env u (device_id d) adm t = Some a
     \<and> device_user d = u \<and> banned_at d = None
     \<and> refresh_token_hash d = Some (HashRefreshToken env raw) \<and> expires_at d = Some (t + RefreshTokenTTL))"

definition opens :: "(auth_payload \<Rightarrow> db \<Rightarrow> bool) \<Rightarrow> auth_response \<times> ('c, 'a, 'l) server \<Rightarrow> bool" where
  "opens Q r \<longleftrightarrow> (\<forall>p. resp_content (fst r) = JsonBody p \<longrightarrow> Q p (sdb (snd r)))"

lemma opens_error [simp]: "opens Q (writeError st m, sv)" "opens Q (fail st m e sv)"
    "opens Q (with_cookies cs (writeError st m), sv)"
  by (simp_all add: opens_def writeError_def fail_def with_cookies_def)

lemma opens_send:
  assumes "d \<in> set (devices (sdb sv))" and "device_user d = u" and "banned_at d = None"
    and "refresh_token_hash d = Some (HashRefreshToken env raw)" and "expires_at d = Some (t + RefreshTokenTTL)"
    and "clock (sdb sv) = t"
  shows "opens (opened env u adm t) (send_tokens env u (device_id d) adm raw sv)"
  using assms by (auto simp: opens_def opened_def send_tokens_def Let_def server_now_def writeError_def writeJSON_def
      with_cookies_def split: option.split)

lemma opens_update:
  assumes d: "d \<in> set (devices (sdb sv))" "device_user d = u" "banned_at d = None" "device_id d = i"
    and "t = clock (sdb sv)" and h: "h = HashRefreshToken env raw"
  shows "opens (opened env u adm t)
    (call_or (on_db (DeviceUpdateSession i h oh (t + RefreshTokenTTL) entry name)) (fail 500 m)
       (\<lambda>_. send_tokens env u i adm raw) sv)"
proof (rule on_db_rule [where Q = "opens (opened env u adm t)"])
  fix x s'
  assume "DeviceUpdateSession i h oh (t + RefreshTokenTTL) entry name (sdb sv) = (Inr x, s')"
  from update_Inr [OF this] have s': "clock s' = t"
    and "session_update h oh (t + RefreshTokenTTL) entry name t d \<in> set (devices s')"
    using d assms(5) by (auto simp: image_iff intro!: bexI [of _ d])
  then show "opens (opened env u adm t) (send_tokens env u i adm raw (sv\<lparr>sdb := s'\<rparr>))"
    using opens_send [of "session_update h oh (t + RefreshTokenTTL) entry name t d" "sv\<lparr>sdb := s'\<rparr>" u env raw t adm] d h
    by simp
qed simp

lemma server_now_upd [simp]: "server_now (sv\<lparr>sdb := s\<rparr>) = clock s" "server_now (sv\<lparr>slimiter := rl\<rparr>) = server_now sv"
    "server_now (sv\<lparr>sguard := g\<rparr>) = server_now sv" "server_now (revoke env i sv) = server_now sv"
  by (simp_all add: server_now_def revoke_def)

lemma clock_reads [simp]:
  "clock (snd (DevicesCountActiveForUser u s)) = clock s" "clock (snd (DeviceEvictLRU u s)) = clock s"
  "clock (snd (DeviceFindByUserAndUUID u uuid s)) = clock s"
  unfolding device_statements
  by (rule sql_preserves [where P = "\<lambda>s'. clock s' = clock s"],
      simp_all add: delete_devices_def split: option.split)+

lemma opens_login_new:
  assumes h: "h = HashRefreshToken env raw" and t: "t = server_now sv"
  shows "opens (opened env u adm t) (login_new_device env b entry u adm raw h sv)"
proof -
  let ?create = "\<lambda>sv. call_or (on_db (DeviceCreate u (lb_device_uuid b) (lb_device_name b) h
      (server_now sv + RefreshTokenTTL) entry)) (fail 500 ''device creation failed'')
      (\<lambda>i. send_tokens env u i adm raw) sv"
  have create: "opens (opened env u adm t) (?create sv1)" if now: "server_now sv1 = t" for sv1
  proof (rule on_db_rule [where Q = "opens (opened env u adm t)"])
    fix i s' assume "DeviceCreate u (lb_device_uuid b) (lb_device_name b) h (server_now sv1 + RefreshTokenTTL) entry (sdb sv1)
      = (Inr i, s')"
    from create_Inr [OF this] now obtain d where d: "d \<in> set (devices s')" "device_id d = i" "device_user d = u"
        "banned_at d = None" "refresh_token_hash d = Some h" "expires_at d = Some (t + RefreshTokenTTL)" "clock s' = t"
      by (auto simp: server_now_def)
    then show "opens (opened env u adm t) (send_tokens env u i adm raw (sv1\<lparr>sdb := s'\<rparr>))"
      using opens_send [of d "sv1\<lparr>sdb := s'\<rparr>" u env raw t adm] h by simp
  qed simp
  show ?thesis unfolding login_new_device_def Let_def
  proof (rule on_db_rule [where Q = "opens (opened env u adm t)"])
    fix c s1 assume "DevicesCountActiveForUser u (sdb sv) = (Inr c, s1)"
    then have s1: "clock s1 = t" using clock_reads(1) [of u "sdb sv"] t by (simp add: server_now_def)
    have "opens (opened env u adm t) (call_or (on_db (DeviceEvictLRU u)) (fail 500 ''device eviction failed'')
        (\<lambda>i sv. ?create (if i \<noteq> 0 then revoke env i sv else sv)) (sv\<lparr>sdb := s1\<rparr>))"
    proof (rule on_db_rule [where Q = "opens (opened env u adm t)"])
      fix i s2 assume "DeviceEvictLRU u (sdb (sv\<lparr>sdb := s1\<rparr>)) = (Inr i, s2)"
      then have "clock s2 = t" using clock_reads(2) [of u s1] s1 by simp
      then show "opens (opened env u adm t)
          (?create (if i \<noteq> 0 then revoke env i (sv\<lparr>sdb := s1, sdb := s2\<rparr>) else sv\<lparr>sdb := s1, sdb := s2\<rparr>))"
        by (intro create) simp
    qed simp
    then show "opens (opened env u adm t) (if DevicesMaxPerUser \<le> c
        then call_or (on_db (DeviceEvictLRU u)) (fail 500 ''device eviction failed'')
          (\<lambda>i sv. ?create (if i \<noteq> 0 then revoke env i sv else sv)) (sv\<lparr>sdb := s1\<rparr>)
        else ?create (sv\<lparr>sdb := s1\<rparr>))"
      using create [of "sv\<lparr>sdb := s1\<rparr>"] s1 by (cases "DevicesMaxPerUser \<le> c") (simp_all only: if_True if_False server_now_upd)
  qed simp
qed

lemma opens_login_device:
  assumes ex: "ex = None \<or> (\<exists>d. ex = Some d \<and> d \<in> set (devices (sdb sv)) \<and> device_user d = u)"
    and t: "t = server_now sv"
  shows "opens (opened env u adm t) (login_device env r b u adm ex sv)"
proof (cases "\<exists>d. ex = Some d \<and> banned_at d \<noteq> None")
  case True
  then show ?thesis by (auto simp: login_device_def)
next
  case False
  show ?thesis
  proof (cases ex)
    case None
    have "opens (opened env u adm t) (call_or (GenerateRefreshToken env) (fail 500 m)
        (\<lambda>(raw, hash) sv. login_new_device env b (E sv) u adm raw hash sv) sv)" for m E
      by (rule call_or_rule [where Q = "opens (opened env u adm t)"])
        (auto split: prod.split dest!: generate_Inr intro!: opens_login_new simp: t server_now_def)
    then show ?thesis using None by (simp add: login_device_def)
  next
    case (Some d)
    have "opens (opened env u adm t) (call_or (GenerateRefreshToken env) (fail 500 m)
        (\<lambda>(raw, hash) sv. login_known_device env b (E sv) u adm raw hash d sv) sv)" for m E
    proof (rule call_or_rule [where Q = "opens (opened env u adm t)"])
      fix x sv' assume x: "GenerateRefreshToken env sv = (Inr x, sv')"
      obtain raw h where rh: "x = (raw, h)" by (cases x)
      have "h = HashRefreshToken env raw" "sdb sv' = sdb sv" using generate_Inr x rh by blast+
      then show "opens (opened env u adm t) ((case x of (raw, hash) \<Rightarrow> \<lambda>sv. login_known_device env b (E sv) u adm raw hash d sv) sv')"
        using opens_update [of d sv' u "device_id d" t h env raw adm] ex Some False t rh
        by (auto simp: login_known_device_def server_now_def)
    qed simp
    then show ?thesis using Some False by (simp add: login_device_def)
  qed
qed

lemma find_user_faults [simp]: "find_user i (s\<lparr> faults := fs \<rparr>) = find_user i s"
  by (simp add: find_user_def)

definition session_for ::
  "('c, 'a, 'l) auth_env \<Rightarrow> request \<Rightarrow> int \<Rightarrow> db \<Rightarrow> auth_payload \<Rightarrow> db \<Rightarrow> bool" where
  "session_for env r u s p s' \<longleftrightarrow> (\<exists>usr. find_user u s = Some usr
     \<and> (local_access_only usr \<longrightarrow> isLocalRequest (remote_addr r)) \<and> opened env u (is_admin usr) (clock s) p s')"

lemma opens_mono: "opens Q x \<Longrightarrow> (\<And>p s. Q p s \<Longrightarrow> R p s) \<Longrightarrow> opens R x"
  by (auto simp: opens_def)

lemma opens_call:
  assumes "\<And>a s'. m sv = (Inr a, s') \<Longrightarrow> opens Q (k a s')"
  shows "opens Q (call_or m (fail st msg) k sv)"
  by (rule call_or_rule [where Q = "opens Q"]) (simp_all add: assms)

lemma on_db_result:
  "on_db stmt sv = (x, sv') \<Longrightarrow> stmt (sdb sv) = (x, sdb sv') \<and> sv' = sv\<lparr> sdb := sdb sv' \<rparr>"
  by (auto simp: on_db_def split: prod.splits)

lemma opens_login_user: "opens (session_for env r u (sdb sv)) (login_user env r b u sv)"
  unfolding login_user_def
proof (rule opens_call)
  fix l sv1 assume "on_db (UserIsLocalOnly u) sv = (Inr l, sv1)"
  then obtain usr fs where usr: "find_user u (sdb sv) = Some usr" "l = local_access_only usr"
      and s1: "sdb sv1 = (sdb sv)\<lparr>faults := fs\<rparr>"
    unfolding UserIsLocalOnly_def by (auto dest!: on_db_result elim!: select_user_Inr)
  have "opens (session_for env r u (sdb sv)) (call_or (on_db (UserIsAdmin u)) (fail 500 m)
      (\<lambda>adm. call_or (on_db (DeviceFindByUserAndUUID u (lb_device_uuid b)))
         (\<lambda>e sv. if e \<noteq> NotFound then (writeError 500 m2, sv) else login_device env r b u adm None sv)
         (\<lambda>d. login_device env r b u adm (Some d))) sv1)"
    if loc: "local_access_only usr \<longrightarrow> isLocalRequest (remote_addr r)" for m m2
  proof (rule opens_call)
    fix adm sv2 assume "on_db (UserIsAdmin u) sv1 = (Inr adm, sv2)"
    then obtain fs2 where adm: "adm = is_admin usr" and s2: "sdb sv2 = (sdb sv)\<lparr>faults := fs2\<rparr>"
      unfolding UserIsAdmin_def using usr s1 by (auto dest!: on_db_result elim!: select_user_Inr)
    have session: "session_for env r u (sdb sv) p s'" if "opened env u adm (server_now sv2) p s'" for p s'
      using that usr loc adm s2 by (auto simp: session_for_def server_now_def)
    show "opens (session_for env r u (sdb sv)) (call_or (on_db (DeviceFindByUserAndUUID u (lb_device_uuid b)))
        (\<lambda>e sv. if e \<noteq> NotFound then (writeError 500 m2, sv) else login_device env r b u adm None sv)
        (\<lambda>d. login_device env r b u adm (Some d)) sv2)"
    proof (rule call_or_rule [where Q = "opens (session_for env r u (sdb sv))"])
      fix e sv3 assume "on_db (DeviceFindByUserAndUUID u (lb_device_uuid b)) sv2 = (Inl e, sv3)"
      then have "server_now sv3 = server_now sv2"
        by (auto simp: DeviceFindByUserAndUUID_def server_now_def dest!: on_db_result elim!: find_device_Inl)
      then have "opens (session_for env r u (sdb sv)) (login_device env r b u adm None sv3)"
        using opens_login_device [of None sv3 u _ env adm r b] session by (auto intro: opens_mono)
      then show "opens (session_for env r u (sdb sv))
          (if e \<noteq> NotFound then (writeError 500 m2, sv3) else login_device env r b u adm None sv3)" by simp
    next
      fix d sv3 assume "on_db (DeviceFindByUserAndUUID u (lb_device_uuid b)) sv2 = (Inr d, sv3)"
      then have "server_now sv3 = server_now sv2" "d \<in> set (devices (sdb sv3))" "device_user d = u"
        by (auto simp: DeviceFindByUserAndUUID_def server_now_def dest!: on_db_result elim!: find_device_Inr)
      then show "opens (session_for env r u (sdb sv)) (login_device env r b u adm (Some d) sv3)"
        using opens_login_device [of "Some d" sv3 u _ env adm r b] session by (auto intro: opens_mono)
    qed
  qed
  then show "opens (session_for env r u (sdb sv)) (if l \<and> \<not> isLocalRequest (remote_addr r) then (writeError 401 ''unauthorized'', sv1)
      else call_or (on_db (UserIsAdmin u)) (fail 500 ''user lookup failed'')
        (\<lambda>adm. call_or (on_db (DeviceFindByUserAndUUID u (lb_device_uuid b)))
           (\<lambda>e sv. if e \<noteq> NotFound then (writeError 500 ''device lookup failed'', sv)
                    else login_device env r b u adm None sv)
           (\<lambda>d. login_device env r b u adm (Some d))) sv1)"
    using usr(2) by (cases "l \<and> \<not> isLocalRequest (remote_addr r)") auto
qed

text \<open>The local plugin accepts a user with the name and a hash that the password fits.\<close>

definition knows_password :: "('c, 'a, 'l) auth_env \<Rightarrow> raw_message \<Rightarrow> user \<Rightarrow> bool" where
  "knows_password env raw usr \<longleftrightarrow> (\<exists>password h. unmarshal_credentials raw = Some (user_name usr, password)
     \<and> auth_provider usr = ''local'' \<and> auth_data usr = Some h \<and> bcrypt_compare env h password)"

lemma Authenticate_Inr:
  assumes "local_Authenticate env raw sv = (Inr u, sv')"
  obtains usr fs where "usr \<in> set (users (sdb sv))" and "user_id usr = u" and "knows_password env raw usr"
    and "sdb sv' = (sdb sv)\<lparr> faults := fs \<rparr>"
proof -
  obtain name password where cred: "unmarshal_credentials raw = Some (name, password)"
    using assms by (auto simp: local_Authenticate_def split: option.splits)
  obtain auth sv1 where found: "on_db (UserByNameAndProvider name ''local'') sv = (Inr (u, auth), sv1)"
      and h: "\<exists>h. auth = Some h \<and> bcrypt_compare env h password" "sv' = sv1"
    using assms cred by (auto simp: local_Authenticate_def call_or_def split: prod.splits sum.splits option.splits if_splits)
  have "UserByNameAndProvider name ''local'' (sdb sv) = (Inr (u, auth), sdb sv1)" using on_db_result [OF found] by blast
  then obtain usr fs where "find (\<lambda>u. user_name u = name \<and> auth_provider u = ''local'') (users (sdb sv)) = Some usr"
      "u = user_id usr" "auth = auth_data usr" "(sdb sv)\<lparr> faults := fs \<rparr> = sdb sv1"
    unfolding UserByNameAndProvider_def by (rule sql_InrE) (auto split: option.splits)
  then show ?thesis using that [of usr fs] cred h by (auto simp: knows_password_def dest!: find_SomeD)
qed

text \<open>C8: a login hands out tokens only to a user whose name and password were given, from a
  local address where the account asks for one; the access token is for that user, the
  user's role and the device, and the device is not banned and has the hash of the refresh
  token.\<close>

theorem login_opens_own_session:
  assumes ids: "distinct (map user_id (users (sdb sv)))"
    and run: "login env (DefaultPlugins env) r (Some b) sv = (resp, sv')" and ok: "resp_content resp = JsonBody p"
  shows "\<exists>usr \<in> set (users (sdb sv)). knows_password env (lb_credentials b) usr
    \<and> (local_access_only usr \<longrightarrow> isLocalRequest (remote_addr r))
    \<and> opened env (user_id usr) (is_admin usr) (server_now sv) p (sdb sv')"
proof -
  obtain b' pl rl where tried: "(resp, sv') = try_login env r pl b' (sv\<lparr>slimiter := rl\<rparr>)"
      and pl: "map_of (DefaultPlugins env) (lb_provider b') = Some pl"
      and cred: "lb_credentials b = lb_credentials b'"
    by (rule login_cases [of env "DefaultPlugins env" r "Some b" sv]) (use run ok in \<open>auto simp: writeError_def\<close>)
  then have "pl = LocalPlugin env" by (auto simp: DefaultPlugins_def split: if_splits)
  then obtain u sv1 where auth: "local_Authenticate env (lb_credentials b') (sv\<lparr>slimiter := rl\<rparr>) = (Inr u, sv1)"
      and go: "login_user env r b' u sv1 = (resp, sv')"
    using tried [symmetric] ok by (auto simp: try_login_def LocalPlugin_def call_or_def writeError_def split: prod.splits sum.splits)
  have "opens (session_for env r u (sdb sv1)) (login_user env r b' u sv1)" by (rule opens_login_user)
  then have "session_for env r u (sdb sv1) p (sdb sv')" using go ok by (simp add: opens_def)
  moreover obtain usr fs where usr: "usr \<in> set (users (sdb sv))" "user_id usr = u" "knows_password env (lb_credentials b') usr"
      and "sdb sv1 = (sdb sv)\<lparr>faults := fs\<rparr>"
    using Authenticate_Inr [OF auth] by auto
  moreover have "find_user u (sdb sv) = Some usr"
    using find_unique [OF ids usr(1)] usr(2) by (simp add: find_user_def)
  ultimately show ?thesis unfolding cred by (auto simp: session_for_def server_now_def)
qed

text \<open>Bob, who is kept to the local network, logs in from \<open>10.0.0.5\<close>.\<close>

theorem login_opens_own_session_witness:
  "\<exists>usr \<in> set (users demo_db). knows_password demo_env (RawObject (MString ''bob'') (MString ''pw2'')) usr
    \<and> opened demo_env (user_id usr) (is_admin usr) 0 (Tokens ''jwt:2'' 900 ''fresh'' 7776000 10)
        (sdb (snd (login demo_env (DefaultPlugins demo_env) demo_request (Some (demo_login ''bob'' ''pw2'' ''new'')) demo_server)))"
proof -
  have "distinct (map user_id (users (sdb demo_server)))" by (simp add: demo_defs)
  from login_opens_own_session [OF this surjective_pairing demo_login_body] show ?thesis
    unfolding demo_sel by blast
qed

definition try_refresh ::
  "('c, 'a, 'l) auth_env \<Rightarrow> request \<Rightarrow> string \<Rightarrow> string \<Rightarrow> ('c, 'a, 'l, auth_response) op" where
  "try_refresh env r hash uuid =
     call_or (on_db (DeviceFindByPreviousRefreshTokenHash hash)) (fail 500 ''db error'')
       (\<lambda>found. case found of
          Some (stolenUserID, _) \<Rightarrow>
            delete_all_devices env stolenUserID ''refresh token reuse detected; all devices have been revoked''
        | None \<Rightarrow>
            call_or (on_db (DeviceFindByRefreshTokenHash hash)) (fail 401 ''invalid or expired refresh token'')
              (refresh_device env r hash uuid))"

lemma refresh_Some:
  "refresh env r (Some b) sv =
     (if trim_space (presented_token r b) = [] then (writeError 400 ''refresh_token is required'', sv)
      else if trim_space (rb_device_uuid b) = [] then (writeError 400 ''device_uuid is required'', sv)
      else try_refresh env r (HashRefreshToken env (presented_token r b)) (rb_device_uuid b) sv)"
  by (simp add: refresh_def try_refresh_def decodeJSON_def Let_def)

lemma find_previous_Inr:
  assumes "DeviceFindByPreviousRefreshTokenHash h s = (Inr x, s')"
  obtains fs where "s' = s\<lparr> faults := fs \<rparr>"
    and "x = map_option (\<lambda>d. (device_user d, device_id d)) (find (\<lambda>d. previous_refresh_token_hash d = Some h) (devices s))"
  using assms unfolding DeviceFindByPreviousRefreshTokenHash_def
  by (rule sql_InrE) (auto split: option.splits)

text \<open>The row a refresh leaves: the new session, and the presented token as the previous one.\<close>

definition rotated :: "('c, 'a, 'l) auth_env \<Rightarrow> request \<Rightarrow> string \<Rightarrow> device \<Rightarrow> db \<Rightarrow> auth_payload \<Rightarrow> db \<Rightarrow> bool" where
  "rotated env r h d s p s' \<longleftrightarrow> session_for env r (device_user d) s p s'
     \<and> (\<exists>d' \<in> set (devices s'). device_id d' = device_id d \<and> device_user d' = device_user d
          \<and> previous_refresh_token_hash d' = Some h)"

lemma opens_conj: "opens Q x \<Longrightarrow> opens R x \<Longrightarrow> opens (\<lambda>p s. Q p s \<and> R p s) x"
  by (simp add: opens_def)

lemma opens_rotate:
  assumes d: "d \<in> set (devices (sdb sv))" "banned_at d = None" and t: "t = server_now sv"
  shows "opens (\<lambda>p s. opened env (device_user d) adm t p s
      \<and> (\<exists>d' \<in> set (devices s). device_id d' = device_id d \<and> device_user d' = device_user d
          \<and> previous_refresh_token_hash d' = Some h)) (rotate_session env r h d adm sv)"
  unfolding rotate_session_def
proof (rule opens_call)
  fix x sv1 assume gen: "GenerateRefreshToken env sv = (Inr x, sv1)"
  obtain raw nh where x: "x = (raw, nh)" by (cases x)
  have nh: "nh = HashRefreshToken env raw" "sdb sv1 = sdb sv" using generate_Inr gen x by blast+
  let ?upd = "\<lambda>e. on_db (DeviceUpdateSession (device_id d) nh h (t + RefreshTokenTTL) e [])"
  let ?send = "\<lambda>_. send_tokens env (device_user d) (device_id d) adm raw"
  have "opens (\<lambda>p s. \<exists>d' \<in> set (devices s). device_id d' = device_id d \<and> device_user d' = device_user d
      \<and> previous_refresh_token_hash d' = Some h) (call_or (?upd e) (fail 500 m) ?send sv1)" for e m
  proof (rule opens_call)
    fix y sv2 assume "?upd e sv1 = (Inr y, sv2)"
    then have "DeviceUpdateSession (device_id d) nh h (t + RefreshTokenTTL) e [] (sdb sv1) = (Inr y, sdb sv2)"
      by (blast dest: on_db_result)
    from update_Inr [OF this] d(1) nh(2)
    have row: "session_update nh h (t + RefreshTokenTTL) e [] (clock (sdb sv1)) d \<in> set (devices (sdb sv2))"
      by (auto simp: image_iff intro!: bexI [of _ d])
    show "opens (\<lambda>p s. \<exists>d' \<in> set (devices s). device_id d' = device_id d \<and> device_user d' = device_user d
        \<and> previous_refresh_token_hash d' = Some h) (?send y sv2)"
      unfolding opens_def by (simp add: devices_send) (auto intro!: bexI [OF _ row])
  qed
  moreover have "opens (opened env (device_user d) adm t) (call_or (?upd e) (fail 500 m) ?send sv1)" for e m
    by (rule opens_update) (use d t nh in \<open>simp_all add: server_now_def\<close>)
  ultimately show "opens (\<lambda>p s. opened env (device_user d) adm t p s
      \<and> (\<exists>d' \<in> set (devices s). device_id d' = device_id d \<and> device_user d' = device_user d
          \<and> previous_refresh_token_hash d' = Some h))
      ((case x of (rawRefresh, hashRefresh) \<Rightarrow> \<lambda>sv.
          let entry = \<lparr>ae_ip = clientIP (remote_addr r), ae_agent = user_agent r, ae_time = server_now sv\<rparr>
          in call_or (on_db (DeviceUpdateSession (device_id d) hashRefresh h (server_now sv + RefreshTokenTTL) entry []))
              (fail 500 ''token rotation failed'')
              (\<lambda>_. send_tokens env (device_user d) (device_id d) adm rawRefresh) sv) sv1)"
    using x t nh(2) by (simp add: Let_def server_now_def opens_conj)
qed

text \<open>A response with a body is that of the last call.\<close>

lemma call_JsonBody:
  assumes "call_or m (fail st msg) k sv = (resp, sv')" and "resp_content resp = JsonBody p"
  obtains a sv1 where "m sv = (Inr a, sv1)" and "k a sv1 = (resp, sv')"
  using assms by (auto simp: call_or_def fail_def writeError_def split: prod.splits sum.splits)

lemma no_tokens_when_deleting: "delete_all_devices env u m sv = (resp, sv') \<Longrightarrow> resp_content resp \<noteq> JsonBody p"
  by (auto simp: delete_all_devices_def Let_def writeError_def with_cookies_def split: prod.splits)

lemma refresh_issues:
  assumes banned: "\<forall>d \<in> set (devices (sdb sv)). banned_at d \<noteq> None \<longrightarrow> refresh_token_hash d = None"
    and run: "refresh env r (Some b) sv = (resp, sv')" and ok: "resp_content resp = JsonBody p"
  shows "\<exists>d \<in> set (devices (sdb sv)). refresh_token_hash d = Some (HashRefreshToken env (presented_token r b))
    \<and> device_uuid d = rb_device_uuid b \<and> (\<forall>t. expires_at d = Some t \<longrightarrow> server_now sv \<le> t)
    \<and> rotated env r (HashRefreshToken env (presented_token r b)) d (sdb sv) p (sdb sv')"
proof -
  define h where "h = HashRefreshToken env (presented_token r b)"
  have run: "try_refresh env r h (rb_device_uuid b) sv = (resp, sv')"
    using run ok by (auto simp: refresh_Some h_def writeError_def split: if_splits)
  obtain found sv1 where prev: "on_db (DeviceFindByPreviousRefreshTokenHash h) sv = (Inr found, sv1)"
      and go: "(case found of Some (u, _) \<Rightarrow>
            delete_all_devices env u ''refresh token reuse detected; all devices have been revoked''
        | None \<Rightarrow> call_or (on_db (DeviceFindByRefreshTokenHash h)) (fail 401 ''invalid or expired refresh token'')
              (refresh_device env r h (rb_device_uuid b))) sv1 = (resp, sv')"
    using run ok unfolding try_refresh_def by (rule call_JsonBody)
  have "found = None" using go ok by (auto split: option.splits dest: no_tokens_when_deleting)
  then obtain d sv2 where "on_db (DeviceFindByRefreshTokenHash h) sv1 = (Inr d, sv2)"
      and go2: "refresh_device env r h (rb_device_uuid b) d sv2 = (resp, sv')"
    using go ok by (auto elim: call_JsonBody)
  then obtain fs where d: "d \<in> set (devices (sdb sv))" "refresh_token_hash d = Some h"
      and s2: "sdb sv2 = (sdb sv)\<lparr>faults := fs\<rparr>"
    using on_db_result [OF prev] unfolding DeviceFindByRefreshTokenHash_def
    by (auto dest!: on_db_result elim!: find_device_Inr find_previous_Inr)
  have uuid: "device_uuid d = rb_device_uuid b" and fresh: "\<forall>t. expires_at d = Some t \<longrightarrow> server_now sv \<le> t"
    using go2 ok s2
    by (auto simp: refresh_device_def writeError_def server_now_def split: if_splits option.splits
        dest: no_tokens_when_deleting)
  obtain l sv3 where "on_db (UserIsLocalOnly (device_user d)) sv2 = (Inr l, sv3)"
      and go3: "(if l \<and> \<not> isLocalRequest (remote_addr r) then
            (with_cookies (clearAuthCookies env) (writeError 401 ''unauthorized''), sv3)
          else call_or (on_db (UserIsAdmin (device_user d))) (fail 500 ''user lookup failed'') (rotate_session env r h d) sv3)
        = (resp, sv')"
    using go2 ok uuid
    by (auto simp: refresh_device_def writeError_def split: if_splits elim: call_JsonBody)
  then obtain usr fs3 where usr: "find_user (device_user d) (sdb sv) = Some usr" "l = local_access_only usr"
      and s3: "sdb sv3 = (sdb sv)\<lparr>faults := fs3\<rparr>"
    using s2 unfolding UserIsLocalOnly_def by (auto dest!: on_db_result elim!: select_user_Inr)
  have loc: "l \<longrightarrow> isLocalRequest (remote_addr r)"
    using go3 ok by (auto simp: writeError_def with_cookies_def split: if_splits)
  then have go3': "call_or (on_db (UserIsAdmin (device_user d))) (fail 500 ''user lookup failed'') (rotate_session env r h d) sv3
      = (resp, sv')" using go3 by (simp split: if_splits)
  obtain adm sv4 where "on_db (UserIsAdmin (device_user d)) sv3 = (Inr adm, sv4)"
      and go4: "rotate_session env r h d adm sv4 = (resp, sv')"
    using go3' ok by (rule call_JsonBody)
  then obtain fs4 where adm: "adm = is_admin usr" and s4: "sdb sv4 = (sdb sv)\<lparr>faults := fs4\<rparr>"
    using s3 usr unfolding UserIsAdmin_def by (auto dest!: on_db_result elim!: select_user_Inr)
  have "banned_at d = None" using banned d by auto
  with opens_rotate [of d sv4 "server_now sv" env adm h r] d s4
  have "opened env (device_user d) adm (server_now sv) p (sdb sv')
      \<and> (\<exists>d' \<in> set (devices (sdb sv')). device_id d' = device_id d \<and> device_user d' = device_user d
          \<and> previous_refresh_token_hash d' = Some h)"
    using go4 ok by (simp add: opens_def server_now_def)
  then have "rotated env r h d (sdb sv) p (sdb sv')"
    using usr loc adm by (auto simp: rotated_def session_for_def server_now_def)
  then show ?thesis using d uuid fresh unfolding h_def by blast
qed

text \<open>A refresh hands out tokens only for the token on record for a device, from that
  device, before it expires, and from a local address where the account asks for one; the
  new tokens are for the device's user with the role of now, and the presented token is
  remembered as the device's previous one.\<close>

lemma refresh_opens_own_session:
  assumes "\<forall>d \<in> set (devices (sdb sv)). banned_at d \<noteq> None \<longrightarrow> refresh_token_hash d = None"
    and "refresh env r (Some b) sv = (resp, sv')" and "resp_content resp = JsonBody p"
  shows "\<exists>d \<in> set (devices (sdb sv)). refresh_token_hash d = Some (HashRefreshToken env (presented_token r b))
    \<and> device_uuid d = rb_device_uuid b \<and> (\<forall>t. expires_at d = Some t \<longrightarrow> server_now sv \<le> t)
    \<and> rotated env r (HashRefreshToken env (presented_token r b)) d (sdb sv) p (sdb sv')"
  by (rule refresh_issues [OF assms])

end
