(* ===== verification/AuthRevocation.thy ===== *)
theory AuthRevocation
  imports AuthSessions
begin

text \<open>
  How access ends: a stolen refresh token, a logout, a change of credentials; and where the
  handlers go further, or less far, than they mean to.
\<close>

section \<open>Revoking in bulk\<close>

lemma revoked_many_blocked:
  assumes lru: "lru_cache (revoked_ops env) entries cap okc" and ok: "okc (revoked (sguard sv))"
    and room: "card (dom (entries (revoked (sguard sv)))) + length ids \<le> cap"
    and i: "i \<in> set ids" and t: "t < server_now sv + AccessTokenTTL"
  shows "fst (IsBlocked (revoked_ops env) i t (sguard (revoke_many env ids sv)))"
proof -
  have "okc (revoked (sguard (revoke_many env ids sv)))
    \<and> entries (revoked (sguard (revoke_many env ids sv))) i = Some (server_now sv + AccessTokenTTL)"
    using fold_adds_keep [OF lru ok room, of "server_now sv + AccessTokenTTL" i] i
    by (simp add: revoke_many_def Guard_RevokeMany_def Let_def)
  then show ?thesis using IsBlocked_spec(1) [OF lru] t by auto
qed

lemma delete_all_result:
  assumes f: "faults (sdb sv) = []"
  shows "delete_all_devices env u m sv = (with_cookies (clearAuthCookies env) (writeError 401 m),
      revoke_many env (map device_id (filter (\<lambda>d. device_user d = u) (devices (sdb sv))))
        (sv\<lparr> sdb := delete_devices (\<lambda>d. device_user d = u) (sdb sv) \<rparr>))"
  by (simp add: delete_all_devices_def on_db_def DevicesDeleteForUser_def f Let_def)

lemma demo_lru_ops: "revoked_ops demo_env = list_lru revokedCacheCapacity"
  by (simp add: demo_env_def)

lemma demo_lru: "lru_cache (revoked_ops demo_env) map_of revokedCacheCapacity (list_lru_inv revokedCacheCapacity)"
  unfolding demo_lru_ops by (rule list_lru.lru_cache_axioms)

section \<open>Stolen refresh tokens\<close>

text \<open>The token \<open>h\<close> was rotated out by device \<open>d\<close>, or is on record for \<open>d\<close> and comes with
  another uuid.\<close>

definition stolen :: "db \<Rightarrow> string \<Rightarrow> string \<Rightarrow> device \<Rightarrow> bool" where
  "stolen s h uuid d \<longleftrightarrow> d \<in> set (devices s) \<and>
     (previous_refresh_token_hash d = Some h
      \<or> (\<forall>e \<in> set (devices s). previous_refresh_token_hash e \<noteq> Some h)
         \<and> refresh_token_hash d = Some h \<and> device_uuid d \<noteq> uuid)"

lemma unique_row:
  assumes "devices_wf s" and "d \<in> set (devices s)" and "Q d"
    and "\<And>a b. Q a \<Longrightarrow> Q b \<Longrightarrow> devices_conflict a b"
  shows "find Q (devices s) = Some d"
proof -
  obtain e where e: "find Q (devices s) = Some e" using find_Some_iff_ex [of Q "devices s"] assms(2,3) by blast
  then have "e \<in> set (devices s)" "Q e" using find_SomeD by fast+
  then have "device_id e = device_id d" using assms by (meson devices_wf_def)
  then show ?thesis using devices_wf_eqI [OF assms(1) \<open>e \<in> set (devices s)\<close> assms(2)] e by simp
qed

lemma stolen_deletes_all:
  assumes wf: "devices_wf (sdb sv)" and f: "faults (sdb sv) = []" and st: "stolen (sdb sv) h uuid d"
  shows "\<exists>m. try_refresh env r h uuid sv = delete_all_devices env (device_user d) m sv"
proof -
  have d: "d \<in> set (devices (sdb sv))" using st by (simp add: stolen_def)
  show ?thesis
  proof (cases "previous_refresh_token_hash d = Some h")
    case True
    have "find (\<lambda>d. previous_refresh_token_hash d = Some h) (devices (sdb sv)) = Some d"
      by (rule unique_row [OF wf d]) (auto simp: True devices_conflict_def same_key_def)
    then show ?thesis
      by (auto simp: try_refresh_def call_or_def on_db_def DeviceFindByPreviousRefreshTokenHash_def f)
  next
    case False
    then have no: "\<forall>e \<in> set (devices (sdb sv)). previous_refresh_token_hash e \<noteq> Some h"
      and h: "refresh_token_hash d = Some h" and uuid: "device_uuid d \<noteq> uuid"
      using st by (auto simp: stolen_def)
    have "find (\<lambda>d. previous_refresh_token_hash d = Some h) (devices (sdb sv)) = None"
      using no by (simp add: find_None_iff)
    moreover have "find (\<lambda>d. refresh_token_hash d = Some h) (devices (sdb sv)) = Some d"
      by (rule unique_row [OF wf d]) (auto simp: h devices_conflict_def same_key_def)
    ultimately show ?thesis using uuid
      by (auto simp: try_refresh_def call_or_def on_db_def DeviceFindByPreviousRefreshTokenHash_def
          DeviceFindByRefreshTokenHash_def find_device_def refresh_device_def f)
  qed
qed

text \<open>C3: a refresh token that was already rotated out, or that another device presents, is
  refused, and costs its user every device: none is left in the table, and each one is
  blocked at once for as long as its access token could still be valid.\<close>

theorem stolen_token_revokes_all_devices:
  assumes wf: "devices_wf (sdb sv)" and f: "faults (sdb sv) = []"
    and st: "stolen (sdb sv) (HashRefreshToken env (presented_token r b)) (rb_device_uuid b) d"
    and "trim_space (presented_token r b) \<noteq> []" and "trim_space (rb_device_uuid b) \<noteq> []"
    and lru: "lru_cache (revoked_ops env) entries cap okc" and ok: "okc (revoked (sguard sv))"
    and room: "card (dom (entries (revoked (sguard sv))))
        + length (filter (\<lambda>e. device_user e = device_user d) (devices (sdb sv))) \<le> cap"
    and t: "t < server_now sv + AccessTokenTTL"
  shows "resp_status (fst (refresh env r (Some b) sv)) = 401
    \<and> (\<forall>e \<in> set (devices (sdb (snd (refresh env r (Some b) sv)))). device_user e \<noteq> device_user d)
    \<and> (\<forall>e \<in> set (devices (sdb sv)). device_user e = device_user d \<longrightarrow>
         fst (IsBlocked (revoked_ops env) (device_id e) t (sguard (snd (refresh env r (Some b) sv)))))"
proof -
  let ?ids = "map device_id (filter (\<lambda>e. device_user e = device_user d) (devices (sdb sv)))"
  let ?sv = "sv\<lparr> sdb := delete_devices (\<lambda>e. device_user e = device_user d) (sdb sv) \<rparr>"
  obtain m where "refresh env r (Some b) sv = delete_all_devices env (device_user d) m sv"
    using stolen_deletes_all [OF wf f st] assms(4,5) by (auto simp: refresh_Some)
  then have run: "refresh env r (Some b) sv =
      (with_cookies (clearAuthCookies env) (writeError 401 m), revoke_many env ?ids ?sv)"
    by (simp only: delete_all_result [OF f])
  have "fst (IsBlocked (revoked_ops env) (device_id e) t (sguard (revoke_many env ?ids ?sv)))"
    if "e \<in> set (devices (sdb sv))" "device_user e = device_user d" for e
    by (rule revoked_many_blocked [OF lru]) (use ok room t that in \<open>auto simp: delete_devices_def server_now_def\<close>)
  then show ?thesis unfolding run by (simp add: with_cookies_def writeError_def delete_devices_def)
qed

text \<open>The token that Ann's device 7 has rotated out comes back.\<close>

theorem stolen_token_revokes_all_devices_witness:
  "resp_status (fst (refresh demo_env demo_request (Some \<lparr> rb_refresh_token = ''old'', rb_device_uuid = ''x'' \<rparr>) demo_server)) = 401
    \<and> fst (IsBlocked (list_lru revokedCacheCapacity) 9 (14 * minute)
        (sguard (snd (refresh demo_env demo_request (Some \<lparr> rb_refresh_token = ''old'', rb_device_uuid = ''x'' \<rparr>) demo_server))))"
proof -
  let ?b = "\<lparr> rb_refresh_token = ''old'', rb_device_uuid = ''x'' \<rparr>"
  have st: "stolen (sdb demo_server) (HashRefreshToken demo_env (presented_token demo_request ?b)) (rb_device_uuid ?b)
      (demo_device 7 1 ''tv'' (Some ''sha:old''))" by (simp add: stolen_def demo_runs)
  have wf: "devices_wf (sdb demo_server)" and f: "faults (sdb demo_server) = []"
    by (simp_all add: demo_sel demo_devices_wf) (simp add: demo_defs)
  have nonblank: "trim_space (presented_token demo_request ?b) \<noteq> []" "trim_space (rb_device_uuid ?b) \<noteq> []"
    by (simp_all add: demo_runs)
  have ok: "list_lru_inv revokedCacheCapacity (revoked (sguard demo_server))"
    by (simp add: demo_server_def NewDeviceGuard_def list_lru_inv_def)
  have room: "card (dom (map_of (revoked (sguard demo_server)))) + length (filter (\<lambda>e. device_user e
      = device_user (demo_device 7 1 ''tv'' (Some ''sha:old''))) (devices (sdb demo_server))) \<le> revokedCacheCapacity"
    by (simp add: demo_server_def NewDeviceGuard_def demo_db_def demo_device_def revokedCacheCapacity_def)
  have t: "14 * minute < server_now demo_server + AccessTokenTTL"
    by (simp add: demo_sel AccessTokenTTL_def duration_defs)
  have nine: "demo_device 9 1 ''tablet'' None \<in> set (devices (sdb demo_server))"
    "device_user (demo_device 9 1 ''tablet'' None) = device_user (demo_device 7 1 ''tv'' (Some ''sha:old''))"
    by (simp add: demo_sel demo_db_def) (simp add: demo_device_def)
  from stolen_token_revokes_all_devices [OF wf f st nonblank demo_lru ok room t]
  have "resp_status (fst (refresh demo_env demo_request (Some ?b) demo_server)) = 401"
    and "fst (IsBlocked (revoked_ops demo_env) (device_id (demo_device 9 1 ''tablet'' None)) (14 * minute)
           (sguard (snd (refresh demo_env demo_request (Some ?b) demo_server))))"
    using nine by blast+
  then show ?thesis by (simp add: demo_device_def demo_lru_ops)
qed

text \<open>Once a refresh has rotated a token, presenting that token again is refused and leaves its
  user without a device.\<close>

lemma rotated_token_is_dead:
  assumes wf: "devices_wf (sdb sv)"
    and banned: "\<forall>d \<in> set (devices (sdb sv)). banned_at d \<noteq> None \<longrightarrow> refresh_token_hash d = None"
    and first: "refresh env r (Some b) sv = (resp, sv1)" and ok: "resp_content resp = JsonBody p"
    and again: "presented_token r2 b2 = presented_token r b" and "trim_space (rb_device_uuid b2) \<noteq> []"
    and calm: "arr_faults a = []"
  shows "resp_status (fst (refresh env r2 (Some b2) (arrive a sv1))) = 401
    \<and> (\<exists>d \<in> set (devices (sdb sv)). refresh_token_hash d = Some (HashRefreshToken env (presented_token r b))
        \<and> (\<forall>e \<in> set (devices (sdb (snd (refresh env r2 (Some b2) (arrive a sv1))))). device_user e \<noteq> device_user d))"
proof -
  let ?h = "HashRefreshToken env (presented_token r b)" and ?sv = "arrive a sv1"
  obtain d where d: "d \<in> set (devices (sdb sv))" "refresh_token_hash d = Some ?h"
      and rot: "rotated env r ?h d (sdb sv) p (sdb sv1)"
    using refresh_issues [OF banned first ok] by blast
  then obtain d2 where d2: "d2 \<in> set (devices (sdb sv1))" "device_user d2 = device_user d"
      "previous_refresh_token_hash d2 = Some ?h" by (auto simp: rotated_def)
  have wf1: "devices_wf (sdb ?sv)"
    using keepsD [OF device_rows.keeps_refresh wf, of env r "Some b"] first
    by (intro device_rows.arrive_keeps) simp
  have "stolen (sdb ?sv) ?h (rb_device_uuid b2) d2" using d2 by (simp add: stolen_def arrive_def)
  moreover have "trim_space (presented_token r b) \<noteq> []"
    using first ok by (auto simp: refresh_Some writeError_def split: if_splits)
  ultimately obtain m where "refresh env r2 (Some b2) ?sv = delete_all_devices env (device_user d) m ?sv"
    using stolen_deletes_all [OF wf1, of ?h "rb_device_uuid b2" d2 env r2] assms(6) again calm d2(2)
    by (auto simp: refresh_Some arrive_def)
  then have "refresh env r2 (Some b2) ?sv = (with_cookies (clearAuthCookies env) (writeError 401 m),
      revoke_many env (map device_id (filter (\<lambda>e. device_user e = device_user d) (devices (sdb ?sv))))
        (?sv\<lparr> sdb := delete_devices (\<lambda>e. device_user e = device_user d) (sdb ?sv) \<rparr>))"
    using delete_all_result [of ?sv env "device_user d" m] calm by (simp add: arrive_def)
  then show ?thesis using d by (auto simp: with_cookies_def writeError_def delete_devices_def)
qed

section \<open>Logout\<close>

text \<open>After a logout no access token of the device passes the middleware again, whatever the
  guard does about other devices: until the token's lifetime is over the device is blocked,
  and then the token has expired.\<close>

lemma logout_kills_access_tokens:
  assumes expiry: "\<And>tok key now c v. jwt_parse env tok key now = Some (c, v) \<Longrightarrow> now < claims_expires_at c"
    and token: "\<And>now c2 v. jwt_parse env (request_token r) (token_key env) now = Some (c2, v) \<Longrightarrow>
      claims_device c2 = claims_device c \<and> claims_expires_at c2 = numeric_date (issued + AccessTokenTTL)"
    and "issued \<le> server_now sv"
    and lru: "lru_cache (revoked_ops env) entries cap okc" and "okc (revoked (sguard sv))"
    and "card (dom (entries (revoked (sguard sv)))) + 1 + sum_list (map (op_adds \<circ> snd) evs) \<le> cap"
    and "list_all (keeps_revocation (claims_device c) (server_now sv + AccessTokenTTL)) evs"
    and later: "sguard sv2 = fold (guard_op_step (revoked_ops env)) evs (sguard (snd (logout env c sv)))"
  shows "resp_status (fst (requireJWT env adminOnly nxt r sv2)) \<in> {401, 403}
    \<and> sdb (snd (requireJWT env adminOnly nxt r sv2)) = sdb sv2"
proof (cases "ParseToken env (request_token r) (server_now sv2)")
  case None
  then show ?thesis by (simp add: requireJWT_run Let_def writeError_def)
next
  case (Some c2)
  then obtain v where "jwt_parse env (request_token r) (token_key env) (server_now sv2) = Some (c2, v)"
    by (auto simp: ParseToken_def split: option.splits if_splits)
  then have dev: "claims_device c2 = claims_device c" and exp: "server_now sv2 < server_now sv + AccessTokenTTL"
    using expiry token numeric_date_le [of "issued + AccessTokenTTL"] assms(3) by fastforce+
  have t0: "server_now (snd (on_db stmt sv)) = clock (snd (stmt (sdb sv)))" for stmt :: "int statement"
    by (simp add: server_now_def)
  have "clock (snd (DeviceDelete i u s)) = clock s" for i u s
    unfolding DeviceDelete_def
    by (rule sql_preserves [where P = "\<lambda>s'. clock s' = clock s"]) (simp_all add: Let_def delete_devices_def)
  then have guard: "sguard (snd (logout env c sv))
      = Guard_Revoke (revoked_ops env) (claims_device c) AccessTokenTTL (server_now sv) (sguard sv)"
    by (simp add: logout_def Let_def revoke_def t0) (simp add: server_now_def)
  have "fst (IsBlocked (revoked_ops env) (claims_device c) (server_now sv2) (sguard sv2))"
    unfolding later guard by (rule revocation_in_force [OF lru assms(5-7) exp])
  then obtain g where "IsBlocked (revoked_ops env) (claims_device c2) (server_now sv2) (sguard sv2) = (True, g)"
    using dev by (metis (full_types) prod.collapse)
  then show ?thesis using Some by (simp add: requireJWT_run Let_def writeError_def)
qed

text \<open>Ann logs out of device 7; Bob's device is banned meanwhile, and 7 is unbanned.\<close>

section \<open>Credentials\<close>

lemma update_auth_Inr:
  assumes "UserUpdateAuth i h s = (Inr x, s')"
  shows "users s' = map (\<lambda>u. if user_id u = i then u\<lparr> auth_data := h \<rparr> else u) (users s)"
  using assms unfolding UserUpdateAuth_def by (rule sql_InrE) (auto simp: update_user_def split: if_splits)

lemma delete_for_user_Inr:
  assumes "DevicesDeleteForUser i s = (Inr x, s')"
  shows "users s' = users s \<and> (\<forall>d \<in> set (devices s'). device_user d \<noteq> i)"
  using assms unfolding DevicesDeleteForUser_def by (rule sql_InrE) (auto simp: delete_devices_def)

text \<open>After a change of credentials the user logs in with the new password, and every device
  has lost its refresh token.\<close>

lemma new_password_works:
  assumes bcrypt: "\<And>salt p h. bcrypt_generate env salt p = Some h \<Longrightarrow> bcrypt_compare env h p"
    and usr: "usr \<in> set (users (sdb sv))" "auth_provider usr = ''local''"
    and name: "\<forall>v \<in> set (users (sdb sv)). user_name v = user_name usr \<and> auth_provider v = ''local'' \<longrightarrow> v = usr"
    and run: "local_UpdateCredentials env (user_id usr) (RawObject x (MString password)) sv = (Inr (), sv1)"
    and calm: "arr_faults a = []"
  shows "fst (local_Authenticate env (RawObject (MString (user_name usr)) (MString password)) (arrive a sv1)) = Inr (user_id usr)
    \<and> (\<forall>d \<in> set (devices (sdb sv1)). device_user d \<noteq> user_id usr)"
proof -
  obtain h sv0 where hash: "hash_password env password sv = (Inr h, sv0)"
      and upd: "call_or (on_db (UserUpdateAuth (user_id usr) (Some h)))
        (\<lambda>e sv. (Inl (if e = NotFound then ''user not found or uses a different auth provider'' else ''update credentials''), sv))
        (\<lambda>_. call_or (on_db (DevicesDeleteForUser (user_id usr))) (\<lambda>_ sv. (Inl ''delete devices'', sv)) (\<lambda>_ sv. (Inr (), sv))) sv0
        = (Inr (), sv1)"
    using run by (auto simp: local_UpdateCredentials_def call_or_def split: if_splits prod.splits sum.splits)
  have h: "bcrypt_compare env h password" and s0: "sdb sv0 = sdb sv"
    using hash bcrypt by (auto simp: hash_password_def draw_def split: list.splits option.splits)
  obtain x sv2 where "on_db (UserUpdateAuth (user_id usr) (Some h)) sv0 = (Inr x, sv2)"
      and del: "call_or (on_db (DevicesDeleteForUser (user_id usr))) (\<lambda>_ sv. (Inl ''delete devices'', sv)) (\<lambda>_ sv. (Inr (), sv)) sv2
        = (Inr (), sv1)"
    using upd by (auto simp: call_or_def split: prod.splits sum.splits)
  then have "UserUpdateAuth (user_id usr) (Some h) (sdb sv) = (Inr x, sdb sv2)" using s0 by (auto dest: on_db_result)
  then have users2: "users (sdb sv2) = map (\<lambda>u. if user_id u = user_id usr then u\<lparr> auth_data := Some h \<rparr> else u) (users (sdb sv))"
    by (rule update_auth_Inr)
  obtain y where "on_db (DevicesDeleteForUser (user_id usr)) sv2 = (Inr y, sv1)"
    using del by (auto simp: call_or_def split: prod.splits sum.splits)
  then have "DevicesDeleteForUser (user_id usr) (sdb sv2) = (Inr y, sdb sv1)" by (blast dest: on_db_result)
  then have users1: "users (sdb sv1) = users (sdb sv2)"
    and gone: "\<forall>d \<in> set (devices (sdb sv1)). device_user d \<noteq> user_id usr"
    using delete_for_user_Inr by blast+
  define named where "named = (\<lambda>u :: user. user_name u = user_name usr \<and> auth_provider u = ''local'')"
  define upd_user where "upd_user = (\<lambda>u :: user. if user_id u = user_id usr then u\<lparr> auth_data := Some h \<rparr> else u)"
  have "find named (users (sdb sv)) = Some usr"
    by (rule find_only) (use usr name in \<open>auto simp: named_def\<close>)
  moreover have "named \<circ> upd_user = named" by (auto simp: fun_eq_iff named_def upd_user_def)
  moreover have "users (sdb sv1) = map upd_user (users (sdb sv))" by (simp add: users1 users2 upd_user_def)
  ultimately have "find named (users (sdb sv1)) = Some (upd_user usr)" by (simp add: find_map)
  then have "find (\<lambda>u. user_name u = user_name usr \<and> auth_provider u = ''local'') (users (sdb sv1))
      = Some (usr\<lparr> auth_data := Some h \<rparr>)" by (simp add: named_def upd_user_def)
  then show ?thesis using gone h calm
    by (simp add: local_Authenticate_def call_or_def on_db_def UserByNameAndProvider_def arrive_def)
qed

section \<open>Where the handlers miss their aim\<close>

text \<open>C20: a login from a known device writes the empty string as the device's previous token, in
  a column that has to be unique: as soon as one device is in that state, a login from any
  other known device, of any user, fails and changes nothing.\<close>

theorem relogin_blocks_other_devices:
  assumes f: "faults (sdb sv) = []" and d: "d \<in> set (devices (sdb sv))"
    and e: "e \<in> set (devices (sdb sv))" "device_id e \<noteq> device_id d"
  shows "(previous_refresh_token_hash e = Some [] \<longrightarrow>
      login_known_device env b entry u adm raw h d sv = (writeError 500 ''session update failed'', sv))
    \<and> (resp_status (fst (login_known_device env b entry u adm raw h d sv)) = 200 \<longrightarrow>
      (\<exists>d2 \<in> set (devices (sdb (snd (login_known_device env b entry u adm raw h d sv)))).
        device_id d2 = device_id d \<and> previous_refresh_token_hash d2 = Some []))"
proof (intro conjI impI)
  let ?t = "server_now sv + RefreshTokenTTL"
  let ?upd = "session_update h [] ?t entry (lb_device_name b) (clock (sdb sv))"
  let ?stmt = "DeviceUpdateSession (device_id d) h [] ?t entry (lb_device_name b)"
  assume "previous_refresh_token_hash e = Some []"
  then have "devices_conflict (?upd d) e" by (simp add: devices_conflict_def same_key_def)
  then have "list_ex (\<lambda>x. device_id x = device_id d \<and>
      list_ex (\<lambda>y. device_id y \<noteq> device_id d \<and> devices_conflict (?upd x) y) (devices (sdb sv))) (devices (sdb sv))"
    using d e unfolding list_ex_iff by blast
  then have "?stmt (sdb sv) = (Inl UniqueViolation, sdb sv)" by (simp add: DeviceUpdateSession_def f Let_def)
  then show "login_known_device env b entry u adm raw h d sv = (writeError 500 ''session update failed'', sv)"
    by (simp add: login_known_device_def call_or_def on_db_def fail_def)
next
  let ?t = "server_now sv + RefreshTokenTTL"
  let ?stmt = "DeviceUpdateSession (device_id d) h [] ?t entry (lb_device_name b)"
  assume ok: "resp_status (fst (login_known_device env b entry u adm raw h d sv)) = 200"
  obtain x s where run: "?stmt (sdb sv) = (Inr x, s)"
    using ok by (cases "?stmt (sdb sv)"; cases "fst (?stmt (sdb sv))")
      (auto simp: login_known_device_def call_or_def on_db_def fail_def writeError_def)
  from update_Inr [OF run] d
  have row: "session_update h [] ?t entry (lb_device_name b) (clock (sdb sv)) d \<in> set (devices s)"
    by (auto simp: image_iff intro!: bexI [of _ d])
  have "devices (sdb (snd (login_known_device env b entry u adm raw h d sv))) = devices s"
    by (simp add: login_known_device_def call_or_def on_db_def run devices_send)
  then show "\<exists>d2 \<in> set (devices (sdb (snd (login_known_device env b entry u adm raw h d sv)))).
      device_id d2 = device_id d \<and> previous_refresh_token_hash d2 = Some []"
    using row by (auto intro!: bexI [OF _ row])
qed

text \<open>Bob's device 8 has logged in twice; now Ann's device 9 cannot.\<close>

theorem relogin_blocks_other_devices_witness:
  "login_known_device demo_env (demo_login ''ann'' ''pw'' ''tablet'') \<lparr> ae_ip = [], ae_agent = [], ae_time = 0 \<rparr> 1 True
     ''fresh'' ''sha:fresh'' (demo_device 9 1 ''tablet'' None) demo_server
   = (writeError 500 ''session update failed'', demo_server)"
  using relogin_blocks_other_devices [of demo_server "demo_device 9 1 ''tablet'' None" "demo_device 8 2 ''phone'' (Some [])"
      demo_env "demo_login ''ann'' ''pw'' ''tablet''" "\<lparr> ae_ip = [], ae_agent = [], ae_time = 0 \<rparr>" 1 True "''fresh''" "''sha:fresh''"]
  by (simp add: demo_server_def demo_db_def empty_db_def demo_device_def)

text \<open>Anyone can lock any device out: the ban is written only for a device of the caller, but
  the guard bans the id whoever owns it.\<close>

lemma ban_reaches_other_users_devices:
  assumes f: "faults (sdb sv) = []" and i: "strconv_Atoi (URLParam r ''id'') = (i, None)" and "i \<noteq> claims_device c"
    and other: "\<forall>d \<in> set (devices (sdb sv)). device_id d = i \<longrightarrow> device_user d \<noteq> claims_user c"
  shows "resp_status (fst (banDevice env r c sv)) = 204
    \<and> sdb (snd (banDevice env r c sv)) = sdb sv
    \<and> fst (IsBlocked (revoked_ops env) i t (sguard (snd (banDevice env r c sv))))"
proof -
  have "map (\<lambda>d. if device_id d = i \<and> device_user d = claims_user c
      then d\<lparr> banned_at := Some (clock (sdb sv)), refresh_token_hash := None, previous_refresh_token_hash := None, expires_at := None \<rparr>
      else d) (devices (sdb sv)) = devices (sdb sv)"
    using other by (intro map_idI) auto
  then have "DeviceBan i (claims_user c) (sdb sv) = (Inr (), sdb sv)" by (simp add: DeviceBan_def f)
  then have "banDevice env r c sv = (write_status 204, sv\<lparr> sguard := Guard_Ban (revoked_ops env) i (sguard sv) \<rparr>)"
    using i assms(3) by (simp add: banDevice_def urlIntParam_def call_or_def on_db_def)
  then show ?thesis by (simp add: write_status_def IsBlocked_def Guard_Ban_def)
qed

text \<open>Ann bans Bob's device 8.\<close>

end
