(* ===== verification/CollectionsRepo.thy ===== *)
theory CollectionsRepo
  imports Schema
begin

text \<open>
  \<open>internal/repository/collections.go\<close>: collections form a forest; every row names the root
  of its tree, and access is granted on roots. A recursive query evaluates the levels of the
  tree one after the other.
\<close>

section \<open>The functions\<close>

definition find_collection :: "int \<Rightarrow> db \<Rightarrow> collection option" where
  "find_collection i s = find (\<lambda>c. coll_id c = i) (collections s)"

definition coll_level :: "nat \<Rightarrow> int list \<Rightarrow> collection list \<Rightarrow> int list" where
  "coll_level n ids cs = tree_levels coll_id parent_collection_id cs n ids"

definition new_collection ::
  "db \<Rightarrow> int option \<Rightarrow> int option \<Rightarrow> string \<Rightarrow> string \<Rightarrow> string option \<Rightarrow> collection" where
  "new_collection s parent root name ty path =
     \<lparr> coll_id = next_collection s, parent_collection_id = parent, root_collection_id = root,
       coll_name = name, coll_type = ty, coll_path = path, is_enabled = True, manual_thumbnail = False,
       last_scanned_at = None, coll_missing_since = None, coll_created_at = clock s \<rparr>"

text \<open>The CHECK on the column \<open>type\<close>.\<close>

definition collection_types :: "string list" where
  "collection_types = [''video:movie'', ''video:home_movie'', ''audio:music'', ''audio:show'', ''image:photo'']"

definition insert_collection :: "collection \<Rightarrow> db \<Rightarrow> db" where
  "insert_collection c s = s\<lparr> collections := collections s @ [c], next_collection := next_collection s + 1 \<rparr>"

text \<open>The new row is its own root.\<close>

definition CollectionCreate :: "string \<Rightarrow> string \<Rightarrow> string \<Rightarrow> int statement" where
  "CollectionCreate name ty path = sql (\<lambda>s.
     if ty \<notin> set collection_types then (Inl BadQuery, s)
     else (Inr (next_collection s),
           insert_collection (new_collection s None (Some (next_collection s)) name ty (Some path)) s))"

definition CollectionUpsertSubCollection :: "int \<Rightarrow> int \<Rightarrow> string \<Rightarrow> string \<Rightarrow> int statement" where
  "CollectionUpsertSubCollection parent root name path = sql (\<lambda>s.
     case find_collection root s of
       None \<Rightarrow> (Inl BadQuery, s)
     | Some r \<Rightarrow>
         if find_collection parent s = None then (Inl ForeignKeyViolation, s)
         else case find (\<lambda>c. root_collection_id c = Some root \<and> coll_path c = Some path) (collections s) of
           Some c \<Rightarrow> (Inr (coll_id c), s\<lparr> collections := map (\<lambda>d.
               if coll_id d = coll_id c then d\<lparr> parent_collection_id := Some parent \<rparr> else d) (collections s) \<rparr>)
         | None \<Rightarrow> (Inr (next_collection s),
               insert_collection (new_collection s (Some parent) (Some root) name (coll_type r) (Some path)) s))"

definition CollectionGet :: "int \<Rightarrow> collection statement" where
  "CollectionGet i = sql (\<lambda>s.
     (case find (\<lambda>c. coll_id c = i \<and> is_enabled c) (collections s) of None \<Rightarrow> Inl NoRows | Some c \<Rightarrow> Inr c, s))"

text \<open>\<open>models.CollectionView\<close>, without the date the handlers derive from the name.\<close>

record collection_view =
  cv_parent :: "int option"
  cv_name :: string
  cv_type :: string
  cv_id :: int

definition collection_view_of :: "collection \<Rightarrow> collection_view" where
  "collection_view_of c =
     \<lparr> cv_parent = parent_collection_id c, cv_name = coll_name c, cv_type = coll_type c, cv_id = coll_id c \<rparr>"

definition has_access :: "int \<Rightarrow> int option \<Rightarrow> db \<Rightarrow> bool" where
  "has_access uid root s \<longleftrightarrow> (case root of None \<Rightarrow> False | Some r \<Rightarrow> (uid, r) \<in> set (collection_access s))"

definition CollectionGetForUser :: "int \<Rightarrow> int \<Rightarrow> collection_view statement" where
  "CollectionGetForUser i uid = sql (\<lambda>s.
     (case find (\<lambda>c. coll_id c = i \<and> is_enabled c \<and> has_access uid (root_collection_id c) s) (collections s) of
        None \<Rightarrow> Inl NoRows | Some c \<Rightarrow> Inr (collection_view_of c), s))"

text \<open>The rows that go with a collection: its descendants, everything that names one of them as
  its root, the items, the albums and the access rows.\<close>

definition doomed_collections :: "int \<Rightarrow> db \<Rightarrow> int list" where
  "doomed_collections i s =
     (let below = coll_level (length (collections s)) [i] (collections s)
      in coll_level (length (collections s))
           (below @ map coll_id (filter (\<lambda>c. \<exists>r \<in> set below. root_collection_id c = Some r) (collections s)))
           (collections s))"

definition CollectionDelete :: "int \<Rightarrow> int statement" where
  "CollectionDelete i = sql (\<lambda>s.
     if find_collection i s = None then (Inr 0, s)
     else
       let doomed = set (doomed_collections i s);
           s1 = delete_albums (\<lambda>a. album_root a \<in> doomed) (delete_items (\<lambda>m. item_collection m \<in> doomed) s)
       in (Inr 1, s1\<lparr> collections := filter (\<lambda>c. coll_id c \<notin> doomed) (collections s1),
                   collection_access := filter (\<lambda>a. snd a \<notin> doomed) (collection_access s1) \<rparr>))"

definition select_collection :: "(collection \<Rightarrow> 'a) \<Rightarrow> int \<Rightarrow> 'a statement" where
  "select_collection f i = sql (\<lambda>s. (case find_collection i s of None \<Rightarrow> Inl NoRows | Some c \<Rightarrow> Inr (f c), s))"

definition CollectionIsEnabled :: "int \<Rightarrow> bool statement" where
  "CollectionIsEnabled i = select_collection is_enabled i"

definition CollectionGetRelativePath :: "int \<Rightarrow> string statement" where
  "CollectionGetRelativePath i = select_collection (\<lambda>c. case coll_path c of None \<Rightarrow> [] | Some p \<Rightarrow> p) i"

definition sort_by_name :: "collection list \<Rightarrow> collection list" where
  "sort_by_name = order_by_text coll_name"

definition CollectionsTopLevel :: "collection list statement" where
  "CollectionsTopLevel = sql (\<lambda>s.
     (Inr (sort_by_name (filter (\<lambda>c. parent_collection_id c = None) (collections s))), s))"

definition CollectionsTopLevelEnabled :: "int list statement" where
  "CollectionsTopLevelEnabled = sql (\<lambda>s.
     (Inr (map coll_id (filter (\<lambda>c. parent_collection_id c = None \<and> is_enabled c) (collections s))), s))"

definition CollectionsListAccessibleByUser :: "int \<Rightarrow> collection_view list statement" where
  "CollectionsListAccessibleByUser uid = sql (\<lambda>s.
     (Inr (map collection_view_of (sort_by_name (filter (\<lambda>c. parent_collection_id c = None \<and> is_enabled c
        \<and> (uid, coll_id c) \<in> set (collection_access s)) (collections s)))), s))"

definition CollectionGetChildCollections :: "int \<Rightarrow> collection_view list statement" where
  "CollectionGetChildCollections p = sql (\<lambda>s.
     (Inr (map collection_view_of (sort_by_name (filter (\<lambda>c. parent_collection_id c = Some p \<and> is_enabled c)
        (collections s)))), s))"

definition CollectionExistsAndAccessible :: "int \<Rightarrow> int \<Rightarrow> bool statement" where
  "CollectionExistsAndAccessible i uid = sql (\<lambda>s.
     (Inr (list_ex (\<lambda>c. coll_id c = i \<and> is_enabled c \<and> has_access uid (root_collection_id c) s) (collections s)), s))"

definition CollectionsAccessibleByUser :: "int \<Rightarrow> int list statement" where
  "CollectionsAccessibleByUser uid = sql (\<lambda>s.
     (Inr (sort (map snd (filter (\<lambda>a. fst a = uid) (collection_access s)))), s))"

definition CollectionGetUsersWithAccess :: "int \<Rightarrow> int list statement" where
  "CollectionGetUsersWithAccess i = sql (\<lambda>s.
     (Inr (sort (map fst (filter (\<lambda>a. snd a = i) (collection_access s)))), s))"

definition update_collection :: "int \<Rightarrow> (collection \<Rightarrow> collection) \<Rightarrow> db \<Rightarrow> db" where
  "update_collection i f s = s\<lparr> collections := map (\<lambda>c. if coll_id c = i then f c else c) (collections s) \<rparr>"

definition CollectionTouchLastScanned :: "int \<Rightarrow> db \<Rightarrow> db" where
  "CollectionTouchLastScanned i = call_ignore (sql (\<lambda>s.
     (Inr (), update_collection i (\<lambda>c. c\<lparr> last_scanned_at := Some (clock s) \<rparr>) s)))"

definition is_root :: "int \<Rightarrow> db \<Rightarrow> bool" where
  "is_root i s \<longleftrightarrow> list_ex (\<lambda>c. coll_id c = i \<and> parent_collection_id c = None) (collections s)"

text \<open>\<open>ON CONFLICT DO NOTHING\<close>.\<close>

definition add_access :: "(int \<times> int) list \<Rightarrow> db \<Rightarrow> db" where
  "add_access new s = s\<lparr> collection_access :=
     fold (\<lambda>a acc. if a \<in> set acc then acc else acc @ [a]) new (collection_access s) \<rparr>"

text \<open>A grant to a user that does not exist violates the foreign key, if it would insert a row.\<close>

definition user_exists :: "int \<Rightarrow> db \<Rightarrow> bool" where
  "user_exists uid s \<longleftrightarrow> list_ex (\<lambda>u. user_id u = uid) (users s)"

definition grant :: "(int \<times> int) list \<Rightarrow> unit statement" where
  "grant new s = (if list_all (\<lambda>a. user_exists (fst a) s) new then (Inr (), add_access new s)
     else (Inl ForeignKeyViolation, s))"

definition CollectionGrantAccessToUser :: "int \<Rightarrow> int list \<Rightarrow> unit statement" where
  "CollectionGrantAccessToUser uid ids = sql (\<lambda>s. grant (map (\<lambda>i. (uid, i)) (filter (\<lambda>i. is_root i s) ids)) s)"

definition CollectionGrantAccessToUsers :: "int \<Rightarrow> int list \<Rightarrow> unit statement" where
  "CollectionGrantAccessToUsers i uids = sql (\<lambda>s.
     grant (map (\<lambda>u. (u, i)) (filter (\<lambda>_. is_root i s) uids)) s)"

definition UserDeleteCollectionAccess :: "int \<Rightarrow> int \<Rightarrow> unit statement" where
  "UserDeleteCollectionAccess uid i = sql (\<lambda>s.
     (Inr (), s\<lparr> collection_access := filter (\<lambda>a. a \<noteq> (uid, i)) (collection_access s) \<rparr>))"

definition UserDeleteAllCollectionAccess :: "int \<Rightarrow> unit statement" where
  "UserDeleteAllCollectionAccess uid = sql (\<lambda>s.
     (Inr (), s\<lparr> collection_access := filter (\<lambda>a. fst a \<noteq> uid) (collection_access s) \<rparr>))"

definition CollectionGetDescendantCollectionIDs :: "int \<Rightarrow> int list statement" where
  "CollectionGetDescendantCollectionIDs i = sql (\<lambda>s.
     (Inr (coll_level (length (collections s))
        (map coll_id (filter (\<lambda>c. parent_collection_id c = Some i) (collections s))) (collections s)), s))"

definition CollectionIsDescendantOf :: "int \<Rightarrow> int \<Rightarrow> bool statement" where
  "CollectionIsDescendantOf ancestor child = sql (\<lambda>s.
     (Inr (child \<in> set (coll_level (length (collections s))
        (map coll_id (filter (\<lambda>c. coll_id c = ancestor) (collections s))) (collections s))), s))"

definition CollectionsWithNonManualThumbnailIDs :: "int list statement" where
  "CollectionsWithNonManualThumbnailIDs = sql (\<lambda>s.
     (Inr (map coll_id (filter (\<lambda>c. \<not> manual_thumbnail c \<and> is_enabled c) (collections s))), s))"

definition CollectionSetManualThumbnail :: "int \<Rightarrow> bool \<Rightarrow> unit statement" where
  "CollectionSetManualThumbnail i b = sql (\<lambda>s. (Inr (), update_collection i (\<lambda>c. c\<lparr> manual_thumbnail := b \<rparr>) s))"

end
