(* ===== verification/Scheduler.thy ===== *)
theory Scheduler
  imports Dispatcher CollectionsRepo
begin

text \<open>
  \<open>internal/jobs/scheduler.go\<close> and \<open>internal/repository/job_schedule.go\<close>: the schedules of the
  table \<open>jobs_schedule\<close>, the loop that waits for the next of them, and the jobs a trigger
  enqueues. The cron package is a parameter: what parsing an expression gives is the function
  from an instant to the next one that matches. One round of the loop takes the event its
  \<open>select\<close> receives.
\<close>

section \<open>The table of schedules\<close>

definition JobScheduleList :: "job_schedule list statement" where
  "JobScheduleList = sql (\<lambda>s. (Inr (order_by_text sched_name (schedules s)), s))"

definition JobScheduleUpsert :: "string \<Rightarrow> string \<Rightarrow> string option \<Rightarrow> unit statement" where
  "JobScheduleUpsert name cron description = sql (\<lambda>s.
     let row = \<lparr> sched_name = name, sched_cron = cron, sched_description = description, sched_updated_at = clock s \<rparr> in
     (Inr (), if list_ex (\<lambda>j. sched_name j = name) (schedules s)
        then s\<lparr> schedules := map (\<lambda>j. if sched_name j = name then row else j) (schedules s) \<rparr>
        else s\<lparr> schedules := schedules s @ [row] \<rparr>))"

text \<open>The test for \<open>ErrNoRows\<close> of the code is about an error that Exec does not return.\<close>

definition JobScheduleDelete :: "string \<Rightarrow> bool statement" where
  "JobScheduleDelete name s =
     (case sql (\<lambda>s. (Inr (int (length (filter (\<lambda>j. sched_name j = name) (schedules s)))),
                    s\<lparr> schedules := filter (\<lambda>j. sched_name j \<noteq> name) (schedules s) \<rparr>)) s of
        (Inl e, s') \<Rightarrow> (if e = NoRows then Inr False else Inl e, s')
      | (Inr n, s') \<Rightarrow> (Inr (n > 0), s'))"

section \<open>Triggers\<close>

definition triggerByType :: "string \<Rightarrow> 'w dispatcher \<Rightarrow> 'w dispatcher" where
  "triggerByType jobType d =
     (case on_db (JobIsActiveByType jobType) d of
        (Inl _, d) \<Rightarrow> d
      | (Inr active, d) \<Rightarrow> if active then d else snd (Enqueue jobType None None d))"

text \<open>The body of the loop over the collections.\<close>

definition trigger_scan :: "int \<Rightarrow> 'w dispatcher \<Rightarrow> 'w dispatcher" where
  "trigger_scan collID d =
     (case on_db (JobIsActiveForCollection collID) d of
        (Inl _, d) \<Rightarrow> d
      | (Inr active, d) \<Rightarrow>
          if active then d else snd (Enqueue ''collection_scan'' (Some collID) (Some ''collection'') d))"

definition triggerCollectionScans :: "'w dispatcher \<Rightarrow> 'w dispatcher" where
  "triggerCollectionScans d =
     (case on_db CollectionsTopLevelEnabled d of
        (Inl _, d) \<Rightarrow> d
      | (Inr collIDs, d) \<Rightarrow> fold trigger_scan collIDs d)"

definition triggerSchedule :: "string \<Rightarrow> 'w dispatcher \<Rightarrow> 'w dispatcher" where
  "triggerSchedule name d =
     (if name = ''collection_scan'' then triggerCollectionScans d else triggerByType name d)"

section \<open>The loop\<close>

type_synonym cron_schedule = "time \<Rightarrow> time"   \<comment> \<open>\<open>Next\<close>\<close>
type_synonym cron_parser = "string \<Rightarrow> cron_schedule option"

record activeSchedule =
  as_name :: string
  as_schedule :: cron_schedule

record 'w scheduler =
  sch_dispatcher :: "'w dispatcher"
  reloadCh :: bool
  sch_schedules :: "activeSchedule list"
  lastLoad :: time

definition NewScheduler :: "'w dispatcher \<Rightarrow> 'w scheduler" where
  "NewScheduler d = \<lparr> sch_dispatcher = d, reloadCh = False, sch_schedules = [], lastLoad = 0 \<rparr>"

text \<open>The channel has room for one signal.\<close>

definition NotifyReload :: "'w scheduler \<Rightarrow> 'w scheduler" where
  "NotifyReload st = st\<lparr> reloadCh := True \<rparr>"

text \<open>An expression that does not parse is left out; a failing query keeps the old schedules.\<close>

definition reloadSchedules :: "cron_parser \<Rightarrow> time \<Rightarrow> 'w scheduler \<Rightarrow> 'w scheduler" where
  "reloadSchedules parse now st =
     (case on_db JobScheduleList (sch_dispatcher st) of
        (Inl _, d) \<Rightarrow> st\<lparr> sch_dispatcher := d \<rparr>
      | (Inr rows, d) \<Rightarrow> st\<lparr> sch_dispatcher := d, lastLoad := now,
          sch_schedules := List.map_filter (\<lambda>row. map_option
            (\<lambda>sc. \<lparr> as_name = sched_name row, as_schedule = sc \<rparr>) (parse (sched_cron row))) rows \<rparr>)"

text \<open>\<open>time.Date(9999, 1, 1, ...)\<close>, in nanoseconds since 1970.\<close>

definition far_future :: time where
  "far_future = 253370764800 * second"

definition next_times :: "time \<Rightarrow> activeSchedule list \<Rightarrow> (string \<times> time) list" where
  "next_times now scheds = map (\<lambda>sc. (as_name sc, as_schedule sc now)) scheds"

definition earliest_time :: "(string \<times> time) list \<Rightarrow> time" where
  "earliest_time items = fold (\<lambda>(_, t) e. if t < e then t else e) items far_future"

definition tolerance :: duration where
  "tolerance = 30 * second"

definition due :: "time \<Rightarrow> string \<times> time \<Rightarrow> bool" where
  "due t p \<longleftrightarrow> t > snd p - tolerance \<and> t < snd p + tolerance"

datatype sched_event =
    SchedCancelled
  | ReloadSignal time
  | HourPassed time
  | TimerFired time

text \<open>One round that starts at \<open>now\<close>; None ends the loop. Without schedules there is no
  timer.\<close>

definition sched_round :: "cron_parser \<Rightarrow> time \<Rightarrow> sched_event \<Rightarrow> 'w scheduler \<Rightarrow> 'w scheduler option" where
  "sched_round parse now ev st =
     (if sch_schedules st = [] then
        (case ev of
           SchedCancelled \<Rightarrow> None
         | ReloadSignal t \<Rightarrow> Some (reloadSchedules parse t (st\<lparr> reloadCh := False \<rparr>))
         | HourPassed t \<Rightarrow> Some (reloadSchedules parse t st)
         | TimerFired t \<Rightarrow> Some st)
      else
        let items = next_times now (sch_schedules st) in
        (case ev of
           SchedCancelled \<Rightarrow> None
         | ReloadSignal t \<Rightarrow> Some (reloadSchedules parse t (st\<lparr> reloadCh := False \<rparr>))
         | HourPassed t \<Rightarrow> Some (if t - lastLoad st > hour then reloadSchedules parse t st else st)
         | TimerFired t \<Rightarrow> Some (st\<lparr> sch_dispatcher :=
             fold (\<lambda>p. triggerSchedule (fst p)) (filter (due t) items) (sch_dispatcher st) \<rparr>)))"

text \<open>The loop from its start, over the rounds it makes.\<close>

fun sched_rounds :: "cron_parser \<Rightarrow> (time \<times> sched_event) list \<Rightarrow> 'w scheduler \<Rightarrow> 'w scheduler" where
  "sched_rounds parse [] st = st"
| "sched_rounds parse ((now, ev) # evs) st =
     (case sched_round parse now ev st of None \<Rightarrow> st | Some st' \<Rightarrow> sched_rounds parse evs st')"

definition sched_run :: "cron_parser \<Rightarrow> time \<Rightarrow> (time \<times> sched_event) list \<Rightarrow> 'w scheduler \<Rightarrow> 'w scheduler" where
  "sched_run parse t0 evs st = sched_rounds parse evs (reloadSchedules parse t0 st)"

end
