(* ===== verification/SchedulerProps.thy ===== *)
theory SchedulerProps
  imports Scheduler
begin

text \<open>
  What the scheduler promises: no trigger starts a second job for what already has one, and the
  timer starts exactly the schedules whose time has come. The service that enqueues a job and
  tells whether one is active is an interface; the dispatcher with its table of jobs provides
  it here, and the routes of the administrator in another theory.
\<close>

section \<open>The interface\<close>

text \<open>\<open>load t r s\<close> is the number of unfinished top-level jobs of type \<open>t\<close> about \<open>r\<close>.\<close>

locale enqueue_service =
  fixes enqueue :: "string \<Rightarrow> int option \<Rightarrow> string option \<Rightarrow> 's \<Rightarrow> (db_error + int) \<times> 's"
    and check :: "string \<Rightarrow> int option \<Rightarrow> 's \<Rightarrow> (db_error + bool) \<times> 's"
    and load :: "string \<Rightarrow> int option \<Rightarrow> 's \<Rightarrow> nat"
  assumes check_load: "load t r (snd (check ty rid s)) = load t r s"
    and check_free: "check ty rid s = (Inr False, s') \<Longrightarrow> load ty rid s = 0"
    and enqueue_fails: "enqueue ty rid rty s = (Inl e, s') \<Longrightarrow> load t r s' = load t r s"
    and enqueue_adds: "enqueue ty rid rty s = (Inr i, s') \<Longrightarrow>
      load t r s' = load t r s + (if t = ty \<and> r = rid then 1 else 0)"
begin

lemma check_keeps: "check ty rid s = (res, s') \<Longrightarrow> load t r s' = load t r s"
  using check_load [of t r ty rid s] by simp

lemma enqueue_grows: "load t r s \<le> load t r (snd (enqueue ty rid rty s))"
  by (cases "enqueue ty rid rty s"; cases "fst (enqueue ty rid rty s)")
    (simp_all add: enqueue_fails enqueue_adds)

lemma enqueue_bounded:
  "load t r (snd (enqueue ty rid rty s)) \<le> load t r s + (if t = ty \<and> r = rid then 1 else 0)"
  by (cases "enqueue ty rid rty s"; cases "fst (enqueue ty rid rty s)")
    (simp_all add: enqueue_fails enqueue_adds)

text \<open>A job that is enqueued after the check said there is none is the only one.\<close>

lemma guarded_single:
  assumes "\<And>t r. load t r s \<le> 1" and "check ty rid s = (Inr False, s1)"
  shows "load t r (snd (enqueue ty rid rty s1)) \<le> 1"
  using assms(1) [of t r] check_free [OF assms(2)] check_keeps [OF assms(2), of t r]
    enqueue_bounded [of t r ty rid rty s1] by (auto split: if_splits)

end

section \<open>The dispatcher provides it\<close>

definition job_check :: "string \<Rightarrow> int option \<Rightarrow> 'w dispatcher \<Rightarrow> (db_error + bool) \<times> 'w dispatcher" where
  "job_check ty rid = (case rid of Some r \<Rightarrow> on_db (JobIsActive ty r) | None \<Rightarrow> on_db (JobIsActiveByType ty))"

definition db_load :: "string \<Rightarrow> int option \<Rightarrow> db \<Rightarrow> nat" where
  "db_load ty rid s = length (filter (\<lambda>j. job_type j = ty \<and> related_id j = rid \<and> job_active j) (jobs s))"

definition active_load :: "string \<Rightarrow> int option \<Rightarrow> 'w dispatcher \<Rightarrow> nat" where
  "active_load ty rid d = db_load ty rid (d_db d)"

lemma db_load_faults [simp]: "db_load ty rid (s\<lparr> faults := fs \<rparr>) = db_load ty rid s"
  by (simp add: db_load_def)

lemma on_db_d_db: "d_db (snd (on_db stmt d)) = snd (stmt (d_db d))"
  by (simp add: on_db_def split: prod.split)

lemma check_stmt_jobs:
  "jobs (snd (JobIsActive ty r s)) = jobs s" "jobs (snd (JobIsActiveByType ty s)) = jobs s"
  unfolding JobIsActive_def JobIsActiveByType_def
  by (rule sql_preserves; simp)+

lemma load_cong: "jobs s = jobs s' \<Longrightarrow> db_load ty rid s = db_load ty rid s'"
  by (simp add: db_load_def)

lemma job_check_load: "active_load t r (snd (job_check ty rid d)) = active_load t r d"
  by (cases rid) (simp_all add: active_load_def job_check_def on_db_d_db db_load_def check_stmt_jobs)

lemma count_zero: "count_jobs P s = 0 \<Longrightarrow> (\<And>j. Q j \<Longrightarrow> P j) \<Longrightarrow> filter Q (jobs s) = []"
  by (auto simp: count_jobs_def filter_empty_conv)

lemma job_check_free: "job_check ty rid d = (Inr False, d') \<Longrightarrow> active_load ty rid d = 0"
proof (cases rid)
  case None
  assume *: "job_check ty rid d = (Inr False, d')"
  then have "JobIsActiveByType ty (d_db d) = (Inr False, snd (JobIsActiveByType ty (d_db d)))"
    using None by (simp add: job_check_def on_db_def split: prod.splits)
  then obtain fs where "count_jobs (\<lambda>j. job_type j = ty \<and> job_active j) (d_db d\<lparr> faults := fs \<rparr>) = 0"
    unfolding JobIsActiveByType_def by (elim sql_InrE) (simp add: count_jobs_def)
  then show ?thesis by (auto simp: active_load_def db_load_def count_jobs_def filter_empty_conv)
next
  case (Some r)
  assume *: "job_check ty rid d = (Inr False, d')"
  then have "JobIsActive ty r (d_db d) = (Inr False, snd (JobIsActive ty r (d_db d)))"
    using Some by (simp add: job_check_def on_db_def split: prod.splits)
  then obtain fs where "count_jobs (\<lambda>j. job_type j = ty \<and> related_id j = Some r \<and> job_active j) (d_db d\<lparr> faults := fs \<rparr>) = 0"
    unfolding JobIsActive_def by (elim sql_InrE) (simp add: count_jobs_def)
  then show ?thesis using Some by (auto simp: active_load_def db_load_def count_jobs_def filter_empty_conv)
qed

lemma new_job_active: "job_active (new_job s ty rid rty None)"
  by (simp add: job_active_def new_job_def nonTerminalStatuses_def)

lemma JobCreate_Inl: "JobCreate ty rid rty None s = (Inl e, s') \<Longrightarrow> db_load t r s' = db_load t r s"
  unfolding JobCreate_def by (erule sql_result) auto

lemma JobCreate_Inr:
  assumes "JobCreate ty rid rty None s = (Inr i, s')"
  shows "db_load t r s' = db_load t r s + (if t = ty \<and> r = rid then 1 else 0)"
proof -
  obtain fs where "s' = s\<lparr> faults := fs, jobs := jobs s @ [new_job (s\<lparr> faults := fs \<rparr>) ty rid rty None],
      next_job := next_job s + 1 \<rparr>"
    using assms unfolding JobCreate_def by (elim sql_InrE) auto
  then show ?thesis
    using new_job_active [of "s\<lparr> faults := fs \<rparr>" ty rid rty] by (auto simp: db_load_def new_job_def)
qed

lemma Enqueue_cases:
  obtains (Err) e s' where "JobCreate ty rid rty None (d_db d) = (Inl e, s')" and "Enqueue ty rid rty d = (Inl e, d\<lparr> d_db := s' \<rparr>)"
  | (Ok) i s' where "JobCreate ty rid rty None (d_db d) = (Inr i, s')"
      and "Enqueue ty rid rty d = (Inr i, TriggerImmediately (d\<lparr> d_db := s', d_queue := d_queue d @ [\<lparr> q_id = i, q_type = ty \<rparr>] \<rparr>))"
proof (cases "JobCreate ty rid rty None (d_db d)")
  case (Pair res s')
  show ?thesis
  proof (cases res)
    case (Inl e)
    then show ?thesis using Pair by (intro Err) (simp_all add: Enqueue_def call_or_def on_db_def)
  next
    case (Inr i)
    then show ?thesis using Pair by (intro Ok) (simp_all add: Enqueue_def call_or_def on_db_def)
  qed
qed

interpretation disp: enqueue_service Enqueue job_check active_load
proof unfold_locales
  fix ty :: string and rid :: "int option" and rty :: "string option"
    and e :: db_error and i :: int and t :: string and r :: "int option" and s s' :: "'w dispatcher"
  show "Enqueue ty rid rty s = (Inl e, s') \<Longrightarrow> active_load t r s' = active_load t r s"
    by (rule Enqueue_cases [of ty rid rty s]) (auto simp: active_load_def JobCreate_Inl)
  show "Enqueue ty rid rty s = (Inr i, s') \<Longrightarrow>
      active_load t r s' = active_load t r s + (if t = ty \<and> r = rid then 1 else 0)"
    by (rule Enqueue_cases [of ty rid rty s])
      (auto simp: active_load_def TriggerImmediately_def dest!: JobCreate_Inr [where t = t and r = r])
qed (fact job_check_load job_check_free)+

section \<open>Triggers\<close>

definition single_jobs :: "'w dispatcher \<Rightarrow> bool" where
  "single_jobs d \<longleftrightarrow> (\<forall>ty rid. active_load ty rid d \<le> 1)"

definition start_once :: "string \<Rightarrow> int option \<Rightarrow> string option \<Rightarrow> 'w dispatcher \<Rightarrow> 'w dispatcher" where
  "start_once ty rid rty d = (case job_check ty rid d of
       (Inl _, d) \<Rightarrow> d
     | (Inr active, d) \<Rightarrow> if active then d else snd (Enqueue ty rid rty d))"

lemma triggerByType_once: "triggerByType ty = start_once ty None None"
  by (simp add: triggerByType_def start_once_def job_check_def fun_eq_iff)

lemma trigger_scan_once: "trigger_scan c = start_once ''collection_scan'' (Some c) (Some ''collection'')"
  by (simp add: trigger_scan_def start_once_def job_check_def fun_eq_iff JobIsActiveForCollection_def JobIsActive_def)

lemma start_once_single: "single_jobs d \<Longrightarrow> single_jobs (start_once ty rid rty d)"
  using disp.guarded_single [of d ty rid] disp.check_keeps [of ty rid d]
  by (auto simp: single_jobs_def start_once_def split: prod.split sum.split)

lemma fold_keeps: "(\<And>x d. P d \<Longrightarrow> P (f x d)) \<Longrightarrow> P d \<Longrightarrow> P (fold f xs d)"
  by (induction xs arbitrary: d) simp_all

lemma on_db_single: "jobs (snd (stmt (d_db d))) = jobs (d_db d) \<Longrightarrow> on_db stmt d = (res, d') \<Longrightarrow> single_jobs d \<Longrightarrow> single_jobs d'"
  by (auto simp: on_db_def single_jobs_def active_load_def db_load_def split: prod.splits)

lemma select_jobs: "(\<And>s. snd (stmt s) = s) \<Longrightarrow> jobs (snd (sql stmt s)) = jobs s"
  by (rule sql_preserves) simp_all

lemma triggerSchedule_single: "single_jobs d \<Longrightarrow> single_jobs (triggerSchedule name d)"
proof -
  assume d: "single_jobs d"
  have "single_jobs d'" if "on_db CollectionsTopLevelEnabled d = (res, d')" for res d'
    by (rule on_db_single [OF _ that d]) (simp add: CollectionsTopLevelEnabled_def select_jobs)
  then have "single_jobs (triggerCollectionScans d)"
    by (auto simp: triggerCollectionScans_def trigger_scan_once split: prod.split sum.split
        intro!: fold_keeps [of single_jobs] start_once_single)
  then show ?thesis by (simp add: triggerSchedule_def triggerByType_once start_once_single d)
qed

lemma reloadSchedules_single:
  assumes "single_jobs (sch_dispatcher st)"
  shows "single_jobs (sch_dispatcher (reloadSchedules parse now st))"
proof -
  have "single_jobs d'" if "on_db JobScheduleList (sch_dispatcher st) = (res, d')" for res d'
    by (rule on_db_single [OF _ that assms]) (simp add: JobScheduleList_def select_jobs)
  then show ?thesis by (auto simp: reloadSchedules_def split: prod.split sum.split)
qed

lemma sched_round_single:
  "sched_round parse now ev st = Some st' \<Longrightarrow> single_jobs (sch_dispatcher st) \<Longrightarrow> single_jobs (sch_dispatcher st')"
  by (auto simp: sched_round_def Let_def reloadSchedules_single split: sched_event.splits if_splits
      intro!: fold_keeps [of single_jobs] triggerSchedule_single)

subsection \<open>Nothing is forgotten\<close>

definition healthy :: "'w dispatcher \<Rightarrow> bool" where
  "healthy d \<longleftrightarrow> faults (d_db d) = []"

lemma job_check_healthy: "healthy d \<Longrightarrow> job_check ty (Some r) d = (Inr (active_load ty (Some r) d > 0), d)"
  by (simp add: job_check_def on_db_def JobIsActive_def healthy_def active_load_def db_load_def count_jobs_def)

lemma Enqueue_healthy:
  "healthy d \<Longrightarrow> \<exists>i d'. Enqueue ty rid rty d = (Inr i, d') \<and> healthy d' \<and> collections (d_db d') = collections (d_db d)"
  by (auto simp: healthy_def Enqueue_def call_or_def on_db_def JobCreate_def TriggerImmediately_def)

lemma trigger_scan_healthy:
  assumes "healthy d"
  shows "healthy (trigger_scan c d) \<and> active_load t r (trigger_scan c d) =
    (if t = ''collection_scan'' \<and> r = Some c then max 1 (active_load t r d) else active_load t r d)"
proof (cases "active_load ''collection_scan'' (Some c) d > 0")
  case True
  then show ?thesis using assms by (auto simp: trigger_scan_once start_once_def job_check_healthy)
next
  case False
  obtain i d' where e: "Enqueue ''collection_scan'' (Some c) (Some ''collection'') d = (Inr i, d')" and "healthy d'"
    using Enqueue_healthy [OF assms] by blast
  then show ?thesis
    using False assms disp.enqueue_adds [OF e, of t r]
    by (auto simp: trigger_scan_once start_once_def job_check_healthy)
qed

lemma trigger_scans_healthy:
  "healthy d \<Longrightarrow> active_load t r (fold trigger_scan cs d) =
    (if t = ''collection_scan'' \<and> r \<in> Some ` set cs then max 1 (active_load t r d) else active_load t r d)"
  by (induction cs arbitrary: d) (auto simp: trigger_scan_healthy)

definition scannable :: "int option \<Rightarrow> db \<Rightarrow> bool" where
  "scannable r s \<longleftrightarrow> (\<exists>c \<in> set (collections s). r = Some (coll_id c) \<and> parent_collection_id c = None \<and> is_enabled c)"

lemma triggerCollectionScans_healthy:
  assumes "healthy d"
  shows "active_load t r (triggerCollectionScans d) =
    (if t = ''collection_scan'' \<and> scannable r (d_db d) then max 1 (active_load t r d) else active_load t r d)"
proof -
  let ?cs = "map coll_id (filter (\<lambda>c. parent_collection_id c = None \<and> is_enabled c) (collections (d_db d)))"
  have "triggerCollectionScans d = fold trigger_scan ?cs d"
    using assms by (simp add: triggerCollectionScans_def on_db_def CollectionsTopLevelEnabled_def healthy_def)
  moreover have "r \<in> Some ` set ?cs \<longleftrightarrow> scannable r (d_db d)" by (auto simp: scannable_def)
  ultimately show ?thesis by (simp add: trigger_scans_healthy [OF assms])
qed

section \<open>The timer\<close>

lemma earliest_fold:
  "fold (\<lambda>(_, t) e. if t < e then t else e) items e0 = fold (\<lambda>p. min (snd p)) items e0" for e0 :: time
  by (induction items arbitrary: e0) (auto simp: min_def)

lemma earliest_le: "p \<in> set items \<Longrightarrow> earliest_time items \<le> snd p"
proof -
  have "fold (\<lambda>p. min (snd p)) items e0 \<le> e0 \<and> (\<forall>p \<in> set items. fold (\<lambda>p. min (snd p)) items e0 \<le> snd p)" for e0 :: time
  proof (induction items arbitrary: e0)
    case (Cons q items)
    show ?case using Cons [of "min (snd q) e0"] by auto
  qed simp
  then show "p \<in> set items \<Longrightarrow> earliest_time items \<le> snd p"
    by (simp add: earliest_time_def earliest_fold)
qed

lemma earliest_attained:
  assumes "\<exists>p \<in> set items. snd p \<le> far_future"
  shows "\<exists>p \<in> set items. snd p = earliest_time items"
proof -
  have fold_in: "fold (\<lambda>p. min (snd p)) items e0 \<in> insert e0 (snd ` set items)" for e0 :: time
  proof (induction items arbitrary: e0)
    case (Cons q items)
    show ?case using Cons [of "min (snd q) e0"] by (auto simp: min_def split: if_splits)
  qed simp
  then have "earliest_time items = far_future \<or> earliest_time items \<in> snd ` set items"
    using fold_in [of far_future] by (simp add: earliest_time_def earliest_fold)
  then show ?thesis using assms earliest_le [of _ items] by force
qed

lemma minutes_apart:
  assumes "a mod minute = 0" and "b mod minute = 0" and "a < (b :: time)"
  shows "a + minute \<le> b"
proof -
  obtain k l where kl: "a = minute * k" "b = minute * l" using assms(1,2) by (metis mod_0_imp_dvd dvdE)
  then have "k < l" using assms(3) by simp
  then have "minute * (k + 1) \<le> minute * l" by (intro mult_left_mono less_imp_le [OF minute_pos]) simp
  then show ?thesis by (simp add: kl algebra_simps)
qed

text \<open>Within half a minute after the earliest time, that time alone is due.\<close>

lemma due_iff_earliest:
  assumes minutes: "\<forall>p \<in> set items. snd p mod minute = 0" and p: "p \<in> set items"
    and e: "\<exists>q \<in> set items. snd q = earliest_time items"
    and t: "earliest_time items \<le> t" "t < earliest_time items + tolerance"
  shows "due t p \<longleftrightarrow> snd p = earliest_time items"
proof
  assume "due t p"
  moreover have "snd p < t + tolerance" using \<open>due t p\<close> by (simp add: due_def)
  ultimately have "snd p < earliest_time items + minute"
    using t(2) by (simp add: tolerance_def minute_def)
  moreover have "earliest_time items + minute \<le> snd p" if "earliest_time items < snd p"
    using minutes p e that by (intro minutes_apart) auto
  ultimately show "snd p = earliest_time items" using earliest_le [OF p] by linarith
next
  assume "snd p = earliest_time items"
  then show "due t p" using t by (simp add: due_def tolerance_def)
qed

text \<open>C28: When the expressions of the schedules name whole minutes, a timer that fires less than half a
  minute late starts every schedule whose time is the earliest one, each once and in the order of
  the schedules, and nothing else; the thirty seconds of tolerance on either side start no
  schedule early.\<close>

theorem timer_starts_what_is_due:
  assumes "\<forall>sc \<in> set (sch_schedules st). as_schedule sc now mod minute = 0"
    and "\<exists>sc \<in> set (sch_schedules st). as_schedule sc now \<le> far_future"
    and "earliest_time (next_times now (sch_schedules st)) \<le> t"
    and "t < earliest_time (next_times now (sch_schedules st)) + 30 * second"
  shows "sched_round parse now (TimerFired t) st = Some (st\<lparr> sch_dispatcher :=
           fold triggerSchedule
             (map as_name (filter (\<lambda>sc. as_schedule sc now = earliest_time (next_times now (sch_schedules st)))
                (sch_schedules st)))
             (sch_dispatcher st) \<rparr>)"
proof -
  let ?items = "next_times now (sch_schedules st)"
  have "\<exists>p \<in> set ?items. snd p = earliest_time ?items"
    using assms(2) by (intro earliest_attained) (auto simp: next_times_def)
  then have "due t p \<longleftrightarrow> snd p = earliest_time ?items" if "p \<in> set ?items" for p
    using assms that by (intro due_iff_earliest) (auto simp: next_times_def tolerance_def)
  then have "filter (due t) ?items = filter (\<lambda>p. snd p = earliest_time ?items) ?items"
    by (simp cong: filter_cong)
  moreover have "sch_schedules st \<noteq> []" using assms(2) by auto
  ultimately show ?thesis
    by (simp add: sched_round_def Let_def next_times_def filter_map fold_map o_def)
qed

text \<open>Two schedules at four and one at five, and a timer that fires a second late.\<close>

definition daily :: "string \<Rightarrow> time \<Rightarrow> activeSchedule" where
  "daily name at = \<lparr> as_name = name, as_schedule = (\<lambda>now. at) \<rparr>"

definition demo_scheduler :: "unit scheduler" where
  "demo_scheduler = \<lparr> sch_dispatcher = NewDispatcher (empty_db 0) [] (), reloadCh = False,
     sch_schedules = [daily ''orphan_cleanup'' (4 * hour), daily ''cover_cycle'' (5 * hour),
       daily ''device_cleanup'' (4 * hour)], lastLoad = 0 \<rparr>"

theorem timer_starts_what_is_due_witness:
  "sched_round (\<lambda>_. None) 0 (TimerFired (4 * hour + second)) demo_scheduler = Some (demo_scheduler\<lparr> sch_dispatcher :=
     triggerSchedule ''device_cleanup'' (triggerSchedule ''orphan_cleanup'' (sch_dispatcher demo_scheduler)) \<rparr>)"
proof -
  have earliest: "earliest_time (next_times 0 (sch_schedules demo_scheduler)) = 4 * hour"
    by (simp add: demo_scheduler_def next_times_def daily_def earliest_time_def far_future_def duration_defs)
  have "sched_round (\<lambda>_. None) 0 (TimerFired (4 * hour + second)) demo_scheduler = Some (demo_scheduler\<lparr> sch_dispatcher :=
      fold triggerSchedule (map as_name (filter (\<lambda>sc. as_schedule sc 0 = earliest_time (next_times 0 (sch_schedules demo_scheduler)))
        (sch_schedules demo_scheduler))) (sch_dispatcher demo_scheduler) \<rparr>)"
    by (rule timer_starts_what_is_due; (simp only: earliest)?;
        simp add: demo_scheduler_def daily_def far_future_def duration_defs)
  then show ?thesis unfolding earliest by (simp add: demo_scheduler_def daily_def duration_defs)
qed

end
