(* ===== verification/DateLabels.thy ===== *)
theory DateLabels
  imports GoStrings "HOL-Library.Monad_Syntax"
begin

text \<open>
  \<open>internal/utils/string_utils.go\<close>: the dates in front of file and collection names, and names to
  sort by. A regular expression of the code is a matcher that returns its groups; its
  alternatives are tried in the order of the expression. An index out of range panics; the
  value None of \<open>parseDatePrefix\<close> is that panic. Strings are ASCII here.
\<close>

section \<open>Sort names\<close>

definition is_alnum_space :: "char \<Rightarrow> bool" where
  "is_alnum_space c \<longleftrightarrow> (let n = (of_char c :: nat) in
     (97 \<le> n \<and> n \<le> 122) \<or> (65 \<le> n \<and> n \<le> 90) \<or> is_digit c \<or> c = CHR '' '')"

fun move_article :: "string list \<Rightarrow> string \<Rightarrow> string" where
  "move_article [] lower = lower"
| "move_article (a # as) lower =
     (if has_prefix lower a
      then drop (length a) lower @ '' '' @ trim_space (take (length a) lower)
      else move_article as lower)"

definition GenerateSortName :: "string \<Rightarrow> string" where
  "GenerateSortName name =
     (let stripped0 = filter is_alnum_space name;
          stripped = (if stripped0 = [] then name else stripped0)
      in move_article [''the '', ''a '', ''an ''] (to_lower stripped))"

section \<open>The patterns\<close>

text \<open>\<open>\d{n}\<close>, a literal character, and \<open>[\s_](.+)$\<close>.\<close>

definition digits_n :: "nat \<Rightarrow> string \<Rightarrow> (string \<times> string) option" where
  "digits_n n s = (if n \<le> length s \<and> list_all is_digit (take n s) then Some (take n s, drop n s) else None)"

fun literal :: "char \<Rightarrow> string \<Rightarrow> string option" where
  "literal c [] = None"
| "literal c (x # s) = (if x = c then Some s else None)"

definition is_separator :: "char \<Rightarrow> bool" where
  "is_separator c \<longleftrightarrow> c = CHR '' '' \<or> c = CHR 0x09 \<or> c = CHR 0x0A \<or> c = CHR 0x0C \<or> c = CHR 0x0D \<or> c = CHR ''_''"

fun name_rest :: "string \<Rightarrow> string option" where
  "name_rest [] = None"
| "name_rest (c # s) = (if is_separator c \<and> s \<noteq> [] \<and> CHR 0x0A \<notin> set s then Some s else None)"

text \<open>The optional end of a range of days: \<open>YYYY.MM.DD\<close>, \<open>MM.DD\<close>, \<open>DD\<close> or nothing.\<close>

datatype day_end = EndDate string string string | EndMonthDay string string | EndDay string | SingleDay

definition end_date :: "string \<Rightarrow> (day_end \<times> string) option" where
  "end_date s = do {
     s \<leftarrow> literal (CHR ''-'') s;
     (y, s) \<leftarrow> digits_n 4 s;
     s \<leftarrow> literal (CHR ''.'') s;
     (m, s) \<leftarrow> digits_n 2 s;
     s \<leftarrow> literal (CHR ''.'') s;
     (d, s) \<leftarrow> digits_n 2 s;
     rest \<leftarrow> name_rest s;
     Some (EndDate y m d, rest) }"

definition end_month_day :: "string \<Rightarrow> (day_end \<times> string) option" where
  "end_month_day s = do {
     s \<leftarrow> literal (CHR ''-'') s;
     (m, s) \<leftarrow> digits_n 2 s;
     s \<leftarrow> literal (CHR ''.'') s;
     (d, s) \<leftarrow> digits_n 2 s;
     rest \<leftarrow> name_rest s;
     Some (EndMonthDay m d, rest) }"

definition end_day :: "string \<Rightarrow> (day_end \<times> string) option" where
  "end_day s = do {
     s \<leftarrow> literal (CHR ''-'') s;
     (d, s) \<leftarrow> digits_n 2 s;
     rest \<leftarrow> name_rest s;
     Some (EndDay d, rest) }"

definition no_end :: "string \<Rightarrow> (day_end \<times> string) option" where
  "no_end s = do { rest \<leftarrow> name_rest s; Some (SingleDay, rest) }"

fun first_match :: "(string \<Rightarrow> 'a option) list \<Rightarrow> string \<Rightarrow> 'a option" where
  "first_match [] s = None"
| "first_match (p # ps) s = (case p s of None \<Rightarrow> first_match ps s | Some a \<Rightarrow> Some a)"

definition datePatternDay :: "string \<Rightarrow> ((string \<times> string \<times> string \<times> day_end) \<times> string) option" where
  "datePatternDay s = do {
     (y, s) \<leftarrow> digits_n 4 s;
     s \<leftarrow> literal (CHR ''.'') s;
     (m, s) \<leftarrow> digits_n 2 s;
     s \<leftarrow> literal (CHR ''.'') s;
     (d, s) \<leftarrow> digits_n 2 s;
     (e, rest) \<leftarrow> first_match [end_date, end_month_day, end_day, no_end] s;
     Some ((y, m, d, e), rest) }"

definition month_end :: "string \<Rightarrow> (string \<times> string) option" where
  "month_end s = do {
     s \<leftarrow> literal (CHR ''-'') s;
     (m, s) \<leftarrow> digits_n 2 s;
     rest \<leftarrow> name_rest s;
     Some (m, rest) }"

definition no_month_end :: "string \<Rightarrow> (string \<times> string) option" where
  "no_month_end s = do { rest \<leftarrow> name_rest s; Some ([], rest) }"

definition datePatternMonth :: "string \<Rightarrow> ((string \<times> string \<times> string) \<times> string) option" where
  "datePatternMonth s = do {
     (y, s) \<leftarrow> digits_n 4 s;
     s \<leftarrow> literal (CHR ''.'') s;
     (m, s) \<leftarrow> digits_n 2 s;
     (e, rest) \<leftarrow> first_match [month_end, no_month_end] s;
     Some ((y, m, e), rest) }"

definition datePatternYearRange :: "string \<Rightarrow> ((string \<times> string) \<times> string) option" where
  "datePatternYearRange s = do {
     (y, s) \<leftarrow> digits_n 4 s;
     s \<leftarrow> literal (CHR ''-'') s;
     (z, s) \<leftarrow> digits_n 4 s;
     rest \<leftarrow> name_rest s;
     Some ((y, z), rest) }"

definition datePatternYear :: "string \<Rightarrow> (string \<times> string) option" where
  "datePatternYear s = do {
     (y, s) \<leftarrow> digits_n 4 s;
     rest \<leftarrow> name_rest s;
     Some (y, rest) }"

section \<open>Labels\<close>

definition monthNames :: "string list" where
  "monthNames = [[], ''January'', ''February'', ''March'', ''April'', ''May'', ''June'',
     ''July'', ''August'', ''September'', ''October'', ''November'', ''December'']"

text \<open>\<open>monthNames[m]\<close>; None is the panic.\<close>

definition month_name :: "int \<Rightarrow> string option" where
  "month_name m = (if 0 \<le> m \<and> m < 13 then Some (monthNames ! nat m) else None)"

definition atoi :: "string \<Rightarrow> int" where
  "atoi s = fst (strconv_Atoi s)"

fun end_values :: "int \<Rightarrow> int \<Rightarrow> int \<Rightarrow> day_end \<Rightarrow> int \<times> int \<times> int" where
  "end_values year month startDay (EndDate y m d) = (atoi y, atoi m, atoi d)"
| "end_values year month startDay (EndMonthDay m d) = (year, atoi m, atoi d)"
| "end_values year month startDay (EndDay d) = (year, month, atoi d)"
| "end_values year month startDay SingleDay = (year, month, startDay)"

definition day_label :: "string \<times> string \<times> string \<times> day_end \<Rightarrow> string option" where
  "day_label = (\<lambda>(y, m, d, e).
     let year = atoi y; month = atoi m; startDay = atoi d;
         (endYear, endMonth, endDay) = end_values year month startDay e in
     if year = endYear \<and> month = endMonth \<and> startDay = endDay then do {
       mn \<leftarrow> month_name month;
       Some (mn @ '' '' @ strconv_Itoa startDay @ '', '' @ strconv_Itoa year) }
     else if year = endYear \<and> month = endMonth then do {
       mn \<leftarrow> month_name month;
       Some (mn @ '' '' @ strconv_Itoa startDay @ '' - '' @ strconv_Itoa endDay @ '', '' @ strconv_Itoa year) }
     else if year = endYear then do {
       mn \<leftarrow> month_name month;
       me \<leftarrow> month_name endMonth;
       Some (mn @ '' '' @ strconv_Itoa startDay @ '' - '' @ me @ '' '' @ strconv_Itoa endDay @ '', '' @ strconv_Itoa year) }
     else do {
       mn \<leftarrow> month_name month;
       me \<leftarrow> month_name endMonth;
       Some (mn @ '' '' @ strconv_Itoa startDay @ '', '' @ strconv_Itoa year @ '' - ''
             @ me @ '' '' @ strconv_Itoa endDay @ '', '' @ strconv_Itoa endYear) })"

definition month_label :: "string \<times> string \<times> string \<Rightarrow> string option" where
  "month_label = (\<lambda>(y, m, e).
     let year = atoi y; startMonth = atoi m; endMonth = (if e \<noteq> [] then atoi e else startMonth) in
     if startMonth = endMonth then do {
       mn \<leftarrow> month_name startMonth;
       Some (mn @ '' '' @ strconv_Itoa year) }
     else do {
       mn \<leftarrow> month_name startMonth;
       me \<leftarrow> month_name endMonth;
       Some (mn @ '' - '' @ me @ '', '' @ strconv_Itoa year) })"

definition parseDatePrefix :: "string \<Rightarrow> (string \<times> string) option" where
  "parseDatePrefix name =
     (case datePatternDay name of
        Some (g, rest) \<Rightarrow> map_option (\<lambda>label. (trim_space rest, label)) (day_label g)
      | None \<Rightarrow>
     (case datePatternMonth name of
        Some (g, rest) \<Rightarrow> map_option (\<lambda>label. (trim_space rest, label)) (month_label g)
      | None \<Rightarrow>
     (case datePatternYearRange name of
        Some ((y, z), rest) \<Rightarrow> Some (trim_space rest, strconv_Itoa (atoi y) @ '' - '' @ strconv_Itoa (atoi z))
      | None \<Rightarrow>
     (case datePatternYear name of
        Some (y, rest) \<Rightarrow> Some (trim_space rest, strconv_Itoa (atoi y))
      | None \<Rightarrow> Some (name, [])))))"

text \<open>\<open>strings.TrimRight(s, " _")\<close>.\<close>

definition trim_right_blanks :: "string \<Rightarrow> string" where
  "trim_right_blanks s = rev (dropWhile (\<lambda>c. c = CHR '' '' \<or> c = CHR ''_'') (rev s))"

text \<open>The three public functions; the outer None is a panic, the inner one nil.\<close>

definition ExtractDatePrefixStr :: "string \<Rightarrow> (string \<times> string option) option" where
  "ExtractDatePrefixStr name = do {
     (stripped, label) \<leftarrow> parseDatePrefix name;
     if label = [] then Some (stripped, None)
     else Some (stripped, Some (trim_right_blanks (take (length name - length stripped) name))) }"

definition ParseDateString :: "string \<Rightarrow> string option option" where
  "ParseDateString s =
     (if s = [] then Some None
      else do {
        (_, label) \<leftarrow> parseDatePrefix (s @ '' x'');
        if label = [] then Some None else Some (Some label) })"

definition ExtractDatePrefix :: "string \<Rightarrow> (string \<times> string option) option" where
  "ExtractDatePrefix name = do {
     (stripped, label) \<leftarrow> parseDatePrefix name;
     if label = [] then Some (stripped, None) else Some (stripped, Some label) }"

end
