(* ===== verification/MediaRepo.thy ===== *)
theory MediaRepo
  imports CollectionsRepo DateLabels
begin

text \<open>
  \<open>internal/repository/media_item.go\<close>, \<open>video_metadata.go\<close>, \<open>photo_metadata.go\<close> and
  \<open>video_bookmarks.go\<close>: one definition per function. A query without ORDER BY returns the rows in
  the order they were inserted; ORDER BY a text column compares bytes; ORDER BY RANDOM() is a
  number that the caller draws.
\<close>

section \<open>Trees and access\<close>

definition find_item :: "int \<Rightarrow> db \<Rightarrow> media_item option" where
  "find_item i s = find (\<lambda>m. item_id m = i) (media_items s)"

definition update_item :: "int \<Rightarrow> (media_item \<Rightarrow> media_item) \<Rightarrow> db \<Rightarrow> db" where
  "update_item i f s = s\<lparr> media_items := map (\<lambda>m. if item_id m = i then f m else m) (media_items s) \<rparr>"

text \<open>The recursive query \<open>tree\<close>, one occurrence per path to a collection.\<close>

definition collection_tree :: "int \<Rightarrow> db \<Rightarrow> int list" where
  "collection_tree cid s = coll_level (length (collections s))
     (map coll_id (filter (\<lambda>c. coll_id c = cid) (collections s))) (collections s)"

definition tree_items :: "int \<Rightarrow> db \<Rightarrow> media_item list" where
  "tree_items cid s = filter (\<lambda>m. item_collection m \<in> set (collection_tree cid s)) (media_items s)"

text \<open>\<open>collectionAccessExists\<close> on the collection of an item, and \<open>collectionAccessExistsFromParam\<close>.\<close>

definition collectionAccessExists :: "int \<Rightarrow> media_item \<Rightarrow> db \<Rightarrow> bool" where
  "collectionAccessExists uid m s \<longleftrightarrow>
     list_ex (\<lambda>c. coll_id c = item_collection m \<and> has_access uid (root_collection_id c) s) (collections s)"

definition collectionAccessExistsFromParam :: "int \<Rightarrow> int \<Rightarrow> db \<Rightarrow> bool" where
  "collectionAccessExistsFromParam cid uid s \<longleftrightarrow>
     list_ex (\<lambda>c. coll_id c = cid \<and> has_access uid (root_collection_id c) s) (collections s)"

definition is_present :: "media_item \<Rightarrow> bool" where
  "is_present m \<longleftrightarrow> hidden_at m = None \<and> item_missing_since m = None"

section \<open>Media items\<close>

text \<open>An item is identified by its path and its collection; the title of a known item stays.\<close>

definition MediaItemUpsert ::
  "int \<Rightarrow> string \<Rightarrow> string \<Rightarrow> int \<Rightarrow> string \<Rightarrow> string \<Rightarrow> time \<Rightarrow> (int \<times> bool) statement" where
  "MediaItemUpsert cid ttl path sz hash mime mtime = sql (\<lambda>s.
     case find (\<lambda>m. item_path m = path \<and> item_collection m = cid) (media_items s) of
       Some p \<Rightarrow>
         (Inr (item_id p, file_size_bytes p = sz \<and> file_hash p = hash),
          update_item (item_id p) (\<lambda>m. m\<lparr> indexed_at := clock s, item_missing_since := None,
            file_size_bytes := sz, file_hash := hash, mime_type := mime, file_modified_at := Some mtime \<rparr>) s)
     | None \<Rightarrow>
         if find_collection cid s = None then (Inl ForeignKeyViolation, s)
         else (Inr (next_item s, False), s\<lparr> media_items := media_items s @
           [\<lparr> item_id = next_item s, item_collection = cid, title = ttl, item_path = path, file_size_bytes = sz,
              file_hash = hash, mime_type = mime, file_modified_at = Some mtime, item_missing_since = None,
              indexed_at = clock s, item_created_at = clock s, hidden_at = None \<rparr>], next_item := next_item s + 1 \<rparr>))"

definition select_item :: "(media_item \<Rightarrow> db \<Rightarrow> bool) \<Rightarrow> (media_item \<Rightarrow> 'a) \<Rightarrow> int \<Rightarrow> 'a statement" where
  "select_item P f i = sql (\<lambda>s. (case find (\<lambda>m. item_id m = i \<and> P m s) (media_items s) of
     None \<Rightarrow> Inl NoRows | Some m \<Rightarrow> Inr (f m), s))"

definition MediaItemForProcessing :: "int \<Rightarrow> (string \<times> string \<times> string) statement" where
  "MediaItemForProcessing i =
     select_item (\<lambda>m s. item_missing_since m = None) (\<lambda>m. (item_path m, mime_type m, file_hash m)) i"

definition DeleteMediaItem :: "int \<Rightarrow> unit statement" where
  "DeleteMediaItem i = sql (\<lambda>s. (Inr (), delete_items (\<lambda>m. item_id m = i) s))"

definition MediaItemFileHashAndPath :: "int \<Rightarrow> int \<Rightarrow> (string \<times> string) statement" where
  "MediaItemFileHashAndPath i uid =
     select_item (\<lambda>m s. is_present m \<and> collectionAccessExists uid m s) (\<lambda>m. (file_hash m, item_path m)) i"

definition set_item :: "int \<Rightarrow> (time \<Rightarrow> media_item \<Rightarrow> media_item) \<Rightarrow> unit statement" where
  "set_item i f = sql (\<lambda>s. (Inr (), update_item i (f (clock s)) s))"

definition MediaItemUpdateTitle :: "int \<Rightarrow> string \<Rightarrow> unit statement" where
  "MediaItemUpdateTitle i ttl = set_item i (\<lambda>_ m. m\<lparr> title := ttl \<rparr>)"

definition MediaItemSetHidden :: "int \<Rightarrow> bool \<Rightarrow> unit statement" where
  "MediaItemSetHidden i hidden =
     (if hidden then set_item i (\<lambda>now m. m\<lparr> hidden_at := Some now \<rparr>) else set_item i (\<lambda>_ m. m\<lparr> hidden_at := None \<rparr>))"

definition MediaItemFindExistingHashes :: "string list \<Rightarrow> string set statement" where
  "MediaItemFindExistingHashes hashes = sql (\<lambda>s.
     (Inr (set (filter (\<lambda>h. h \<in> set hashes) (map file_hash (media_items s)))), s))"

definition MediaItemsStale :: "(string \<times> int) list statement" where
  "MediaItemsStale = sql (\<lambda>s.
     (Inr (map (\<lambda>m. (file_hash m, item_id m)) (filter (\<lambda>m. case item_missing_since m of
        None \<Rightarrow> False | Some t \<Rightarrow> t < clock s - 90 * 24 * hour) (media_items s))), s))"

definition PhotoItemIDsByCollection :: "int \<Rightarrow> int list statement" where
  "PhotoItemIDsByCollection cid = sql (\<lambda>s.
     (Inr (map item_id (filter (\<lambda>m. item_missing_since m = None \<and> has_prefix (mime_type m) ''image/'') (tree_items cid s))), s))"

definition MediaItemHashesByCollection :: "int \<Rightarrow> string list statement" where
  "MediaItemHashesByCollection cid = sql (\<lambda>s.
     (Inr (remdups (map file_hash (filter (\<lambda>m. item_missing_since m = None) (tree_items cid s)))), s))"

definition find_photo :: "int \<Rightarrow> db \<Rightarrow> photo_metadata option" where
  "find_photo i s = find (\<lambda>p. pm_item p = i) (photo_meta s)"

definition has_thumb :: "media_item \<Rightarrow> db \<Rightarrow> bool" where
  "has_thumb m s \<longleftrightarrow> (case find_photo (item_id m) s of
     None \<Rightarrow> False
   | Some p \<Rightarrow> variants_generated_at p \<noteq> None
       \<and> max (case width_px p of None \<Rightarrow> 0 | Some w \<Rightarrow> w) (case height_px p of None \<Rightarrow> 0 | Some h \<Rightarrow> h) > 400)"

definition pick :: "nat \<Rightarrow> 'a list \<Rightarrow> 'a option" where
  "pick rnd xs = (if xs = [] then None else Some (xs ! (rnd mod length xs)))"

text \<open>One level per unit of the first argument; the code takes nine.\<close>

fun random_hash_levels :: "nat \<Rightarrow> nat \<Rightarrow> int list \<Rightarrow> string statement" where
  "random_hash_levels 0 rnd ids s = (Inl NoRows, s)"
| "random_hash_levels (Suc n) rnd ids s =
     (if ids = [] then (Inl NoRows, s)
      else call_or (sql (\<lambda>s. (case pick rnd (filter (\<lambda>m. item_collection m \<in> set ids \<and> is_present m \<and> has_thumb m s) (media_items s)) of
            None \<Rightarrow> Inl NoRows | Some m \<Rightarrow> Inr (file_hash m), s)))
        (\<lambda>e s. if e \<noteq> NoRows then (Inl e, s)
           else call_or (sql (\<lambda>s. (Inr (map coll_id (filter (\<lambda>c. \<exists>i \<in> set ids. parent_collection_id c = Some i) (collections s))), s)))
             (\<lambda>e s. (Inl e, s))
             (\<lambda>kids. random_hash_levels n rnd kids) s)
        (\<lambda>hash s. (Inr hash, s)) s)"

definition MediaItemRandomHashWithVariants :: "nat \<Rightarrow> int \<Rightarrow> string statement" where
  "MediaItemRandomHashWithVariants rnd cid = random_hash_levels 9 rnd [cid]"

definition MediaItemCollectionID :: "int \<Rightarrow> int statement" where
  "MediaItemCollectionID i = select_item (\<lambda>_ _. True) item_collection i"

text \<open>A root that is NULL does not scan into an \<open>int64\<close>.\<close>

definition MediaItemRootCollectionID :: "int \<Rightarrow> int statement" where
  "MediaItemRootCollectionID i = sql (\<lambda>s. (case find_item i s of
     None \<Rightarrow> Inl NoRows
   | Some m \<Rightarrow> (case find_collection (item_collection m) s of
       None \<Rightarrow> Inl NoRows
     | Some c \<Rightarrow> (case root_collection_id c of None \<Rightarrow> Inl BadQuery | Some r \<Rightarrow> Inr r)), s))"

definition MediaItemRootCollectionType :: "int \<Rightarrow> string statement" where
  "MediaItemRootCollectionType i = sql (\<lambda>s. (case find_item i s of
     None \<Rightarrow> Inl NoRows
   | Some m \<Rightarrow> (case find_collection (item_collection m) s of
       None \<Rightarrow> Inl NoRows
     | Some c \<Rightarrow> (case root_collection_id c of
         None \<Rightarrow> Inl NoRows
       | Some r \<Rightarrow> (case find_collection r s of None \<Rightarrow> Inl NoRows | Some rc \<Rightarrow> Inr (coll_type rc)))), s))"

definition MediaItemGetAudioStreamInfo :: "int \<Rightarrow> int \<Rightarrow> (string \<times> string) statement" where
  "MediaItemGetAudioStreamInfo i uid =
     select_item (\<lambda>m s. is_present m \<and> collectionAccessExists uid m s) (\<lambda>m. (item_path m, mime_type m)) i"

definition MediaItemGetVideoStreamInfo :: "int \<Rightarrow> int \<Rightarrow> (string \<times> string \<times> string) statement" where
  "MediaItemGetVideoStreamInfo i uid =
     select_item (\<lambda>m s. is_present m \<and> collectionAccessExists uid m s) (\<lambda>m. (item_path m, mime_type m, file_hash m)) i"

section \<open>Listings of videos\<close>

definition find_video :: "int \<Rightarrow> db \<Rightarrow> video_metadata option" where
  "find_video i s = find (\<lambda>v. vm_item v = i) (video_meta s)"

definition bookmark_of :: "int \<Rightarrow> int \<Rightarrow> db \<Rightarrow> int option" where
  "bookmark_of uid i s = map_option position_seconds (find (\<lambda>b. vb_item b = i \<and> vb_user b = uid) (video_bookmarks s))"

text \<open>\<open>models.VideoItemView\<close>.\<close>

record VideoItemView =
  vi_id :: int
  vi_title :: string
  vi_mime_type :: string
  vi_video :: "video_metadata option"
  vi_date :: "string option"
  vi_bookmark :: "int option"
  vi_missing :: bool

text \<open>A column of an outer join without a match is NULL; a row whose \<open>manual_thumbnail\<close> is NULL does
  not scan into a \<open>bool\<close>. The date is parsed while the row is read, and may panic.\<close>

definition video_view :: "int \<Rightarrow> db \<Rightarrow> media_item \<Rightarrow> db_error + VideoItemView" where
  "video_view uid s m =
     (case find_video (item_id m) s of
        None \<Rightarrow> Inl BadQuery
      | Some v \<Rightarrow>
          (case (case date_string v of None \<Rightarrow> Some None | Some d \<Rightarrow> ParseDateString d) of
             None \<Rightarrow> Inl Panicked
           | Some date \<Rightarrow> Inr \<lparr> vi_id = item_id m, vi_title = title m, vi_mime_type = mime_type m,
               vi_video = Some v, vi_date = date, vi_bookmark = bookmark_of uid (item_id m) s,
               vi_missing = (item_missing_since m \<noteq> None) \<rparr>))"

fun collect_rows :: "('r \<Rightarrow> 'e + 'a) \<Rightarrow> 'r list \<Rightarrow> 'e + 'a list" where
  "collect_rows f [] = Inr []"
| "collect_rows f (r # rs) =
     (case f r of Inl e \<Rightarrow> Inl e | Inr a \<Rightarrow> map_sum id (\<lambda>as. a # as) (collect_rows f rs))"

definition page_of :: "int \<Rightarrow> int \<Rightarrow> 'r list \<Rightarrow> db_error + 'r list" where
  "page_of limit offset rows =
     (if limit < 0 \<or> offset < 0 then Inl BadQuery else Inr (take (nat limit) (drop (nat offset) rows)))"

definition CollectionTypeMovie :: string where
  "CollectionTypeMovie = ''video:movie''"

definition MediaItemVideosByCollection ::
  "int \<Rightarrow> int \<Rightarrow> string \<Rightarrow> int \<Rightarrow> int \<Rightarrow> VideoItemView list statement" where
  "MediaItemVideosByCollection cid uid ctype limit offset = sql (\<lambda>s.
     let rows = (if \<not> collectionAccessExistsFromParam cid uid s then []
        else if ctype = CollectionTypeMovie then
          order_by_text title (filter (\<lambda>m. hidden_at m = None) (tree_items cid s))
        else order_by_text item_path (filter (\<lambda>m. item_collection m = cid \<and> hidden_at m = None) (media_items s)))
     in (case page_of limit offset rows of Inl e \<Rightarrow> Inl e | Inr rows \<Rightarrow> collect_rows (video_view uid s) rows, s))"

definition MediaItemVideoGet :: "int \<Rightarrow> int \<Rightarrow> int \<Rightarrow> VideoItemView statement" where
  "MediaItemVideoGet cid i uid = sql (\<lambda>s.
     (case find (\<lambda>m. item_id m = i \<and> hidden_at m = None \<and> collectionAccessExistsFromParam cid uid s) (tree_items cid s) of
        None \<Rightarrow> Inl NoRows | Some m \<Rightarrow> video_view uid s m, s))"

section \<open>The scan's view of the items\<close>

record ScanItem =
  sc_id :: int
  sc_path :: string
  sc_size :: int
  sc_hash :: string
  sc_missing :: bool

record KnownScanItem =
  ks_hash :: string
  ks_id :: int
  ks_size :: int
  ks_has_metadata :: bool
  ks_missing :: bool
  ks_modified_at :: "time option"

definition has_metadata :: "string \<Rightarrow> media_item \<Rightarrow> db \<Rightarrow> bool" where
  "has_metadata category m s \<longleftrightarrow>
     (if category = ''audio'' then list_ex (\<lambda>a. am_item a = item_id m) (audio_meta s)
      else if category = ''video'' then list_ex (\<lambda>v. vm_item v = item_id m) (video_meta s)
      else if category = ''image'' then list_ex (\<lambda>p. pm_item p = item_id m) (photo_meta s)
      else True)"

definition known_item :: "string \<Rightarrow> db \<Rightarrow> media_item \<Rightarrow> KnownScanItem" where
  "known_item category s m = \<lparr> ks_hash = file_hash m, ks_id = item_id m, ks_size = file_size_bytes m,
     ks_has_metadata = has_metadata category m s, ks_missing = (item_missing_since m \<noteq> None),
     ks_modified_at = file_modified_at m \<rparr>"

text \<open>A map by path: of two rows with one path the later one stays.\<close>

definition MediaItemsKnownForScan :: "int \<Rightarrow> string \<Rightarrow> (string \<Rightarrow> KnownScanItem option) statement" where
  "MediaItemsKnownForScan cid category = sql (\<lambda>s.
     (Inr (map_of (rev (map (\<lambda>m. (item_path m, known_item category s m)) (tree_items cid s)))), s))"

definition MediaItemsForScan :: "int \<Rightarrow> ScanItem list statement" where
  "MediaItemsForScan cid = sql (\<lambda>s.
     (Inr (map (\<lambda>m. \<lparr> sc_id = item_id m, sc_path = item_path m, sc_size = file_size_bytes m, sc_hash = file_hash m,
        sc_missing = (item_missing_since m \<noteq> None) \<rparr>) (tree_items cid s)), s))"

definition MediaItemUpdateFileInfo :: "int \<Rightarrow> int \<Rightarrow> string \<Rightarrow> time \<Rightarrow> unit statement" where
  "MediaItemUpdateFileInfo i sz hash mtime =
     set_item i (\<lambda>_ m. m\<lparr> file_size_bytes := sz, file_hash := hash, file_modified_at := Some mtime \<rparr>)"

definition MediaItemUpdateModifiedAt :: "int \<Rightarrow> time \<Rightarrow> unit statement" where
  "MediaItemUpdateModifiedAt i mtime = set_item i (\<lambda>_ m. m\<lparr> file_modified_at := Some mtime \<rparr>)"

definition MediaItemMarkMissing :: "int \<Rightarrow> unit statement" where
  "MediaItemMarkMissing i =
     set_item i (\<lambda>now m. if item_missing_since m = None then m\<lparr> item_missing_since := Some now \<rparr> else m)"

definition MediaItemClearMissing :: "int \<Rightarrow> unit statement" where
  "MediaItemClearMissing i = set_item i (\<lambda>now m. m\<lparr> item_missing_since := None, indexed_at := now \<rparr>)"

definition MediaItemUpdateSizeAndHash :: "int \<Rightarrow> int \<Rightarrow> string \<Rightarrow> time \<Rightarrow> unit statement" where
  "MediaItemUpdateSizeAndHash i sz hash mtime =
     set_item i (\<lambda>now m. m\<lparr> file_size_bytes := sz, file_hash := hash, file_modified_at := Some mtime, indexed_at := now \<rparr>)"

definition MediaItemMarkMissingSince :: "int \<Rightarrow> time \<Rightarrow> int statement" where
  "MediaItemMarkMissingSince cid before = sql (\<lambda>s.
     let P = (\<lambda>m. item_collection m = cid \<and> item_missing_since m = None \<and> indexed_at m < before)
     in (Inr (int (length (filter P (media_items s)))),
         s\<lparr> media_items := map (\<lambda>m. if P m then m\<lparr> item_missing_since := Some (clock s) \<rparr> else m) (media_items s) \<rparr>))"

end
