(* ===== verification/MetadataRepo.thy ===== *)
theory MetadataRepo
  imports MediaRepo
begin

text \<open>
  \<open>internal/repository/video_metadata.go\<close>, \<open>photo_metadata.go\<close> and \<open>video_bookmarks.go\<close>: the
  tables with one row per item. An upsert of an item that does not exist violates the foreign
  key. The float columns arrive as the numbers of tenths the database keeps.
\<close>

section \<open>Videos\<close>

definition item_exists :: "int \<Rightarrow> db \<Rightarrow> bool" where
  "item_exists i s \<longleftrightarrow> list_ex (\<lambda>m. item_id m = i) (media_items s)"

definition update_video :: "int \<Rightarrow> (video_metadata \<Rightarrow> video_metadata) \<Rightarrow> db \<Rightarrow> db" where
  "update_video i f s = s\<lparr> video_meta := map (\<lambda>v. if vm_item v = i then f v else v) (video_meta s) \<rparr>"

text \<open>What a scan found; the first argument record is the values of the statement.\<close>

record video_values =
  vv_duration :: "int option"
  vv_width :: "int option"
  vv_height :: "int option"
  vv_bitrate :: "int option"
  vv_video_codec :: "string option"
  vv_audio_codec :: "string option"
  vv_date :: "string option"
  vv_author :: "string option"

definition set_video_values :: "video_values \<Rightarrow> video_metadata \<Rightarrow> video_metadata" where
  "set_video_values x v = v\<lparr> duration_seconds := vv_duration x, vm_width := vv_width x, vm_height := vv_height x,
     bitrate_kbps := vv_bitrate x, video_codec := vv_video_codec x, audio_codec := vv_audio_codec x,
     date_string := vv_date x, author := vv_author x \<rparr>"

definition blank_video :: "int \<Rightarrow> video_metadata" where
  "blank_video i = \<lparr> vm_item = i, duration_seconds = None, vm_width = None, vm_height = None, bitrate_kbps = None,
     video_codec = None, audio_codec = None, transcoded_at = None, date_string = None, author = None,
     vm_manual_thumbnail = False \<rparr>"

text \<open>A known row keeps \<open>transcoded_at\<close> and \<open>manual_thumbnail\<close>.\<close>

definition VideoUpsert :: "int \<Rightarrow> video_values \<Rightarrow> unit statement" where
  "VideoUpsert i x = sql (\<lambda>s.
     if find_video i s \<noteq> None then (Inr (), update_video i (set_video_values x) s)
     else if \<not> item_exists i s then (Inl ForeignKeyViolation, s)
     else (Inr (), s\<lparr> video_meta := video_meta s @ [set_video_values x (blank_video i)] \<rparr>))"

definition select_video :: "(video_metadata \<Rightarrow> 'a) \<Rightarrow> int \<Rightarrow> 'a statement" where
  "select_video f i = sql (\<lambda>s. (case find_video i s of None \<Rightarrow> Inl NoRows | Some v \<Rightarrow> Inr (f v), s))"

definition VideoWithBookmark :: "int \<Rightarrow> int \<Rightarrow> (video_metadata \<times> int option) statement" where
  "VideoWithBookmark i uid = sql (\<lambda>s.
     (case find_video i s of None \<Rightarrow> Inl NoRows | Some v \<Rightarrow> Inr (v, bookmark_of uid i s), s))"

text \<open>The transcode time, the hash, the type of the item's collection and the item.\<close>

definition VideosForIntegrityCheck :: "(time option \<times> string \<times> string \<times> int) list statement" where
  "VideosForIntegrityCheck = sql (\<lambda>s. (Inr (List.map_filter (\<lambda>v.
     case find_item (vm_item v) s of
       None \<Rightarrow> None
     | Some m \<Rightarrow>
         if item_missing_since m \<noteq> None then None
         else map_option (\<lambda>c. (transcoded_at v, file_hash m, coll_type c, vm_item v)) (find_collection (item_collection m) s))
     (video_meta s)), s))"

definition VideoClearTranscodedAt :: "int \<Rightarrow> unit statement" where
  "VideoClearTranscodedAt i = sql (\<lambda>s. (Inr (), update_video i (\<lambda>v. v\<lparr> transcoded_at := None \<rparr>) s))"

definition VideoNeedsTranscode :: "int \<Rightarrow> bool statement" where
  "VideoNeedsTranscode i = sql (\<lambda>s.
     (Inr (length (filter (\<lambda>v. vm_item v = i \<and> transcoded_at v = None) (video_meta s)) > 0), s))"

definition VideoMetadataForTranscode :: "int \<Rightarrow> (int option \<times> time option) statement" where
  "VideoMetadataForTranscode i = select_video (\<lambda>v. (bitrate_kbps v, transcoded_at v)) i"

definition VideoSetTranscodedAt :: "int \<Rightarrow> time \<Rightarrow> unit statement" where
  "VideoSetTranscodedAt i t = sql (\<lambda>s. (Inr (), update_video i (\<lambda>v. v\<lparr> transcoded_at := Some t \<rparr>) s))"

record VideoThumbnailItem =
  vt_duration :: "int option"
  vt_path :: string
  vt_hash :: string
  vt_item :: int
  vt_manual :: bool

definition VideoItemsForThumbnailScan :: "int \<Rightarrow> VideoThumbnailItem list statement" where
  "VideoItemsForThumbnailScan cid = sql (\<lambda>s. (Inr (List.map_filter (\<lambda>v.
     map_option (\<lambda>m. \<lparr> vt_duration = duration_seconds v, vt_path = item_path m, vt_hash = file_hash m,
         vt_item = item_id m, vt_manual = vm_manual_thumbnail v \<rparr>)
       (find (\<lambda>m. item_id m = vm_item v \<and> is_present m) (tree_items cid s))) (video_meta s)), s))"

text \<open>The function returns the opposite of the column, and false with no error when the row cannot
  be read.\<close>

definition VideoHasManualThumbnail :: "int \<Rightarrow> db \<Rightarrow> bool \<times> db" where
  "VideoHasManualThumbnail i s = (case select_video vm_manual_thumbnail i s of
     (Inl e, s') \<Rightarrow> (False, s') | (Inr b, s') \<Rightarrow> (\<not> b, s'))"

definition VideoSetManualThumbnail :: "int \<Rightarrow> bool \<Rightarrow> unit statement" where
  "VideoSetManualThumbnail i b = sql (\<lambda>s. (Inr (), update_video i (\<lambda>v. v\<lparr> vm_manual_thumbnail := b \<rparr>) s))"

section \<open>Bookmarks\<close>

text \<open>The trigger \<open>video_bookmark_cull\<close>: after the insert or the update, the bookmarks of the user
  that are older than thirty days go.\<close>

definition cull_old_bookmarks :: "int \<Rightarrow> db \<Rightarrow> db" where
  "cull_old_bookmarks uid s = s\<lparr> video_bookmarks :=
     filter (\<lambda>b. \<not> (vb_user b = uid \<and> last_watched_at b < clock s - 30 * 24 * hour)) (video_bookmarks s) \<rparr>"

definition VideoBookmarkUpsert :: "int \<Rightarrow> int \<Rightarrow> int \<Rightarrow> unit statement" where
  "VideoBookmarkUpsert uid i pos = sql (\<lambda>s.
     let row = \<lparr> vb_user = uid, vb_item = i, position_seconds = pos, last_watched_at = clock s \<rparr> in
     if list_ex (\<lambda>b. vb_user b = uid \<and> vb_item b = i) (video_bookmarks s)
     then (Inr (), cull_old_bookmarks uid (s\<lparr> video_bookmarks :=
            map (\<lambda>b. if vb_user b = uid \<and> vb_item b = i then row else b) (video_bookmarks s) \<rparr>))
     else if \<not> item_exists i s \<or> \<not> user_exists uid s then (Inl ForeignKeyViolation, s)
     else (Inr (), cull_old_bookmarks uid (s\<lparr> video_bookmarks := video_bookmarks s @ [row] \<rparr>)))"

definition VideoBookmarkDelete :: "int \<Rightarrow> int \<Rightarrow> unit statement" where
  "VideoBookmarkDelete uid i = sql (\<lambda>s.
     (Inr (), s\<lparr> video_bookmarks := filter (\<lambda>b. \<not> (vb_user b = uid \<and> vb_item b = i)) (video_bookmarks s) \<rparr>))"

section \<open>Photos\<close>

definition update_photo :: "(int \<Rightarrow> bool) \<Rightarrow> (photo_metadata \<Rightarrow> photo_metadata) \<Rightarrow> db \<Rightarrow> db" where
  "update_photo P f s = s\<lparr> photo_meta := map (\<lambda>p. if P (pm_item p) then f p else p) (photo_meta s) \<rparr>"

text \<open>The argument is the row to write; its \<open>variants_generated_at\<close> does not count, an upsert leaves
  NULL there.\<close>

definition PhotoUpsert :: "photo_metadata \<Rightarrow> unit statement" where
  "PhotoUpsert row = sql (\<lambda>s.
     let row = row\<lparr> variants_generated_at := None \<rparr>; i = pm_item row in
     if find_photo i s \<noteq> None then (Inr (), update_photo (\<lambda>j. j = i) (\<lambda>_. row) s)
     else if \<not> item_exists i s then (Inl ForeignKeyViolation, s)
     else (Inr (), s\<lparr> photo_meta := photo_meta s @ [row] \<rparr>))"

definition PhotoCountPendingVariants :: "int statement" where
  "PhotoCountPendingVariants = sql (\<lambda>s.
     (Inr (int (length (filter (\<lambda>p. variants_generated_at p = None
        \<and> list_ex (\<lambda>m. item_id m = pm_item p \<and> is_present m) (media_items s)) (photo_meta s)))), s))"

definition PhotoUpdateVariants :: "int \<Rightarrow> unit statement" where
  "PhotoUpdateVariants i = sql (\<lambda>s.
     (Inr (), update_photo (\<lambda>j. j = i) (\<lambda>p. p\<lparr> variants_generated_at := Some (clock s) \<rparr>) s))"

definition PhotoClearVariantsGenerated :: "int \<Rightarrow> unit statement" where
  "PhotoClearVariantsGenerated cid = sql (\<lambda>s.
     (Inr (), update_photo (\<lambda>j. j \<in> set (map item_id (tree_items cid s))) (\<lambda>p. p\<lparr> variants_generated_at := None \<rparr>) s))"

definition PhotoExifRaw :: "int \<Rightarrow> int \<Rightarrow> string option statement" where
  "PhotoExifRaw i uid = sql (\<lambda>s.
     (case find_photo i s of
        None \<Rightarrow> Inl NoRows
      | Some p \<Rightarrow>
          if list_ex (\<lambda>m. item_id m = i \<and> is_present m \<and> collectionAccessExists uid m s) (media_items s)
          then Inr (exif_raw p) else Inl NoRows, s))"

end
