(* ===== verification/AudioRepo.thy ===== *)
theory AudioRepo
  imports MetadataRepo
begin

text \<open>
  \<open>internal/repository/artists.go\<close>, \<open>albums.go\<close>, \<open>audio_metadata.go\<close>, \<open>shows.go\<close> and
  \<open>show_bookmarks.go\<close>. The full-text match of Postgres is a parameter, a relation between the name
  of a row and the words that are searched.
\<close>

section \<open>Artists\<close>

definition find_artist :: "int \<Rightarrow> db \<Rightarrow> artist option" where
  "find_artist i s = find (\<lambda>a. artist_id a = i) (artists s)"

definition ArtistUpsert :: "string \<Rightarrow> int statement" where
  "ArtistUpsert name = sql (\<lambda>s.
     case find (\<lambda>a. artist_name a = name) (artists s) of
       Some a \<Rightarrow> (Inr (artist_id a), s)
     | None \<Rightarrow> (Inr (next_artist s), s\<lparr> artists := artists s @
         [\<lparr> artist_id = next_artist s, artist_name = name, sort_name = GenerateSortName name,
            artist_manual_thumbnail = False, artist_created_at = clock s \<rparr>], next_artist := next_artist s + 1 \<rparr>))"

definition ArtistGet :: "int \<Rightarrow> artist statement" where
  "ArtistGet i = sql (\<lambda>s. (case find_artist i s of None \<Rightarrow> Inl NoRows | Some a \<Rightarrow> Inr a, s))"

text \<open>The tracks of an album, with their items.\<close>

definition album_tracks :: "int \<Rightarrow> db \<Rightarrow> (audio_metadata \<times> media_item) list" where
  "album_tracks aid s = List.map_filter (\<lambda>m. map_option (\<lambda>i. (m, i)) (find_item (am_item m) s))
     (filter (\<lambda>m. am_album m = Some aid) (audio_meta s))"

definition album_present :: "int \<Rightarrow> db \<Rightarrow> bool" where
  "album_present aid s \<longleftrightarrow> list_ex (\<lambda>(m, i). is_present i) (album_tracks aid s)"

definition artist_ids :: "int \<Rightarrow> db \<Rightarrow> int list" where
  "artist_ids cid s = remdups (List.map_filter album_artist
     (filter (\<lambda>al. album_root al = cid \<and> album_present (album_id al) s) (albums s)))"

definition ArtistsInCollection ::
  "(string \<Rightarrow> string \<Rightarrow> bool) \<Rightarrow> int \<Rightarrow> int \<Rightarrow> int \<Rightarrow> string \<Rightarrow> (artist list \<times> int) statement" where
  "ArtistsInCollection ts_match cid limit offset search =
     (let rows = (\<lambda>s. filter (\<lambda>a. artist_id a \<in> set (artist_ids cid s) \<and> (search = [] \<or> ts_match (artist_name a) search)) (artists s))
      in call_or (sql (\<lambda>s. (Inr (int (length (rows s))), s))) (\<lambda>e s. (Inl e, s))
        (\<lambda>total. call_or (sql (\<lambda>s. (page_of limit offset (order_by_text sort_name (rows s)), s))) (\<lambda>e s. (Inl e, s))
          (\<lambda>page s. (Inr (page, total), s))))"

record AlbumSummary =
  as_year :: "int option"
  as_album_name :: string
  as_album_id :: int
  as_tracks :: int
  as_hundredths :: int

text \<open>\<open>ASC NULLS LAST\<close>.\<close>

definition order_nulls_last :: "('r \<Rightarrow> int option) \<Rightarrow> 'r list \<Rightarrow> 'r list" where
  "order_nulls_last key rows = sort_key (\<lambda>r. if key r = None then 1 else 0 :: nat)
     (sort_key (\<lambda>r. case key r of None \<Rightarrow> 0 | Some v \<Rightarrow> v) rows)"

definition ArtistGetAlbums :: "int \<Rightarrow> int \<Rightarrow> AlbumSummary list statement" where
  "ArtistGetAlbums aid cid = sql (\<lambda>s.
     let mine = (\<lambda>al. album_root al = cid \<and> album_present (album_id al) s
            \<and> (album_artist al = Some aid
               \<or> list_ex (\<lambda>m. am_album m = Some (album_id al) \<and> am_artist m = Some aid) (audio_meta s)));
         summary = (\<lambda>al. let ts = filter (\<lambda>(m, i). is_present i) (album_tracks (album_id al) s) in
            \<lparr> as_year = album_year al, as_album_name = album_name al, as_album_id = album_id al,
              as_tracks = int (length ts),
              as_hundredths = sum_list (map (\<lambda>(m, i). case duration_hundredths m of None \<Rightarrow> 0 | Some d \<Rightarrow> d) ts) \<rparr>)
     in (Inr (order_nulls_last as_year (order_by_text as_album_name (map summary (filter mine (albums s))))), s))"

definition ArtistSetManualThumbnail :: "int \<Rightarrow> bool \<Rightarrow> unit statement" where
  "ArtistSetManualThumbnail i b = sql (\<lambda>s. (Inr (), s\<lparr> artists :=
     map (\<lambda>a. if artist_id a = i then a\<lparr> artist_manual_thumbnail := b \<rparr> else a) (artists s) \<rparr>))"

definition ArtistsWithNoTracks :: "int list statement" where
  "ArtistsWithNoTracks = sql (\<lambda>s. (Inr (map artist_id (filter (\<lambda>a.
       \<not> list_ex (\<lambda>al. album_artist al = Some (artist_id a)) (albums s)
       \<and> \<not> list_ex (\<lambda>m. (am_artist m = Some (artist_id a) \<or> am_album_artist m = Some (artist_id a))
            \<and> item_exists (am_item m) s) (audio_meta s)) (artists s))), s))"

text \<open>\<open>ON DELETE SET NULL\<close> on albums and tracks, \<open>ON DELETE CASCADE\<close> on bookmarks. An album that
  loses its artist can meet one of the same name that has none.\<close>

definition ArtistDelete :: "int \<Rightarrow> unit statement" where
  "ArtistDelete i = sql (\<lambda>s.
     let freed = map (\<lambda>al. if album_artist al = Some i then al\<lparr> album_artist := None \<rparr> else al) (albums s);
         clear = (\<lambda>r. if r = Some i then None else r)
     in if \<not> distinct (map (\<lambda>al. (album_name al, case album_artist al of None \<Rightarrow> 0 | Some a \<Rightarrow> a, album_root al)) freed)
        then (Inl UniqueViolation, s)
        else (Inr (), s\<lparr> artists := filter (\<lambda>a. artist_id a \<noteq> i) (artists s), albums := freed,
          audio_meta := map (\<lambda>m. m\<lparr> am_artist := clear (am_artist m), am_album_artist := clear (am_album_artist m) \<rparr>) (audio_meta s),
          show_bookmarks := filter (\<lambda>b. sb_artist b \<noteq> i) (show_bookmarks s) \<rparr>))"

definition ArtistsWithoutManualThumbnail :: "int list statement" where
  "ArtistsWithoutManualThumbnail = sql (\<lambda>s. (Inr (map artist_id (filter (\<lambda>a. \<not> artist_manual_thumbnail a
     \<and> list_ex (\<lambda>al. album_artist al = Some (artist_id a) \<and> \<not> is_compilation al) (albums s)) (artists s))), s))"

section \<open>Albums\<close>

definition find_album :: "int \<Rightarrow> db \<Rightarrow> album option" where
  "find_album i s = find (\<lambda>a. album_id a = i) (albums s)"

text \<open>The index \<open>idx_audio_albums_identity\<close> takes an album without an artist as one of the artist 0.\<close>

definition AlbumUpsert ::
  "string \<Rightarrow> int option \<Rightarrow> int option \<Rightarrow> string option \<Rightarrow> int \<Rightarrow> bool \<Rightarrow> (int \<times> bool) statement" where
  "AlbumUpsert name aid year genre root compilation = sql (\<lambda>s.
     let key = (\<lambda>r. case r of None \<Rightarrow> 0 | Some a \<Rightarrow> a) in
     case find (\<lambda>al. album_name al = name \<and> key (album_artist al) = key aid \<and> album_root al = root) (albums s) of
       Some al \<Rightarrow> (Inr (album_id al, manual_cover al), s)
     | None \<Rightarrow>
         if find_collection root s = None \<or> (case aid of None \<Rightarrow> False | Some a \<Rightarrow> find_artist a s = None)
         then (Inl ForeignKeyViolation, s)
         else (Inr (next_album s, False), s\<lparr> albums := albums s @
           [\<lparr> album_id = next_album s, album_name = name, album_artist = aid, album_year = year, album_genre = genre,
              album_root = root, is_compilation = compilation, manual_cover = False, album_created_at = clock s \<rparr>],
           next_album := next_album s + 1 \<rparr>))"

definition AlbumGet :: "int \<Rightarrow> album statement" where
  "AlbumGet i = sql (\<lambda>s. (case find_album i s of None \<Rightarrow> Inl NoRows | Some a \<Rightarrow> Inr a, s))"

definition AlbumSetManualCover :: "int \<Rightarrow> bool \<Rightarrow> unit statement" where
  "AlbumSetManualCover i b = sql (\<lambda>s. (Inr (), s\<lparr> albums :=
     map (\<lambda>a. if album_id a = i then a\<lparr> manual_cover := b \<rparr> else a) (albums s) \<rparr>))"

definition AlbumIDsInCollection :: "int \<Rightarrow> int list statement" where
  "AlbumIDsInCollection cid = sql (\<lambda>s. (Inr (map album_id (filter (\<lambda>a. album_root a = cid) (albums s))), s))"

definition AlbumTrackCount :: "int \<Rightarrow> int statement" where
  "AlbumTrackCount i = sql (\<lambda>s. (Inr (int (length (filter (\<lambda>m. am_album m = Some i) (audio_meta s)))), s))"

definition AlbumDelete :: "int \<Rightarrow> unit statement" where
  "AlbumDelete i = sql (\<lambda>s. (Inr (), delete_albums (\<lambda>a. album_id a = i) s))"

definition AlbumGetRandomNonCompilationIDByArtist :: "nat \<Rightarrow> int \<Rightarrow> int \<Rightarrow> int statement" where
  "AlbumGetRandomNonCompilationIDByArtist rnd aid root = sql (\<lambda>s.
     (case pick rnd (filter (\<lambda>al. album_artist al = Some aid \<and> \<not> is_compilation al \<and> (root \<noteq> 0 \<longrightarrow> album_root al = root)) (albums s)) of
        None \<Rightarrow> Inl NoRows | Some al \<Rightarrow> Inr (album_id al), s))"

section \<open>Tracks\<close>

text \<open>The argument is the row to write; \<open>processed_at\<close> becomes the time of the statement.\<close>

definition AudioTrackUpsert :: "audio_metadata \<Rightarrow> unit statement" where
  "AudioTrackUpsert row = sql (\<lambda>s.
     let row = row\<lparr> processed_at := Some (clock s) \<rparr>;
         known = (\<lambda>r tab. case r of None \<Rightarrow> True | Some i \<Rightarrow> i \<in> set tab) in
     if \<not> item_exists (am_item row) s \<or> \<not> known (am_artist row) (map artist_id (artists s))
        \<or> \<not> known (am_album_artist row) (map artist_id (artists s)) \<or> \<not> known (am_album row) (map album_id (albums s))
     then (Inl ForeignKeyViolation, s)
     else if list_ex (\<lambda>m. am_item m = am_item row) (audio_meta s)
     then (Inr (), s\<lparr> audio_meta := map (\<lambda>m. if am_item m = am_item row then row else m) (audio_meta s) \<rparr>)
     else (Inr (), s\<lparr> audio_meta := audio_meta s @ [row] \<rparr>))"

definition order_tracks :: "(audio_metadata \<times> media_item) list \<Rightarrow> (audio_metadata \<times> media_item) list" where
  "order_tracks ts = order_nulls_last (\<lambda>(m, i). disc_number m) (order_nulls_last (\<lambda>(m, i). track_number m) ts)"

definition AlbumTrackRelPathsWithEmbeddedArt :: "int \<Rightarrow> string list statement" where
  "AlbumTrackRelPathsWithEmbeddedArt aid = sql (\<lambda>s.
     (Inr (map (\<lambda>(m, i). item_path i) (order_tracks (filter (\<lambda>(m, i). has_embedded_art m \<and> is_present i) (album_tracks aid s)))), s))"

text \<open>\<open>models.TrackView\<close> and \<open>models.EpisodeView\<close>; an episode also names its album.\<close>

record TrackView =
  tv_number :: "int option"
  tv_disc :: "int option"
  tv_hundredths :: "int option"
  tv_artist :: "string option"
  tv_title :: string
  tv_mime_type :: string
  tv_id :: int
  tv_missing :: bool

definition track_view :: "db \<Rightarrow> audio_metadata \<times> media_item \<Rightarrow> TrackView" where
  "track_view s = (\<lambda>(m, i). \<lparr> tv_number = track_number m, tv_disc = disc_number m, tv_hundredths = duration_hundredths m,
     tv_artist = Option.bind (am_artist m) (\<lambda>a. map_option artist_name (find_artist a s)), tv_title = title i,
     tv_mime_type = mime_type i, tv_id = item_id i, tv_missing = (item_missing_since i \<noteq> None) \<rparr>)"

definition AudioTracksByAlbum :: "int \<Rightarrow> int \<Rightarrow> TrackView list statement" where
  "AudioTracksByAlbum aid uid = sql (\<lambda>s.
     (Inr (case find_album aid s of
        None \<Rightarrow> []
      | Some al \<Rightarrow>
          if \<not> has_access uid (Some (album_root al)) s then []
          else map (track_view s) (order_tracks (order_by_text (\<lambda>(m, i). title i)
                 (filter (\<lambda>(m, i). hidden_at i = None) (album_tracks aid s))))), s))"

section \<open>Shows\<close>

text \<open>The show's id, its name and its manual thumbnail.\<close>

definition ShowsInCollection :: "int \<Rightarrow> int \<Rightarrow> (int \<times> string \<times> bool) list statement" where
  "ShowsInCollection cid uid = sql (\<lambda>s.
     (Inr (map (\<lambda>a. (artist_id a, artist_name a, artist_manual_thumbnail a))
        (order_by_text artist_name (filter (\<lambda>a. has_access uid (Some cid) s \<and> artist_id a \<in> set (artist_ids cid s)) (artists s)))), s))"

text \<open>The album's name up to its first digit, and its first number; the cast of a number beyond 32
  bits is an error of the query.\<close>

definition natural_prefix :: "string \<Rightarrow> string" where
  "natural_prefix name = takeWhile (\<lambda>c. \<not> is_digit c) name"

definition natural_number :: "string \<Rightarrow> db_error + int" where
  "natural_number name =
     (let ds = takeWhile is_digit (dropWhile (\<lambda>c. \<not> is_digit c) name); n = int (dec_value 0 ds) in
      if ds = [] then Inr 0 else if n \<ge> 2 ^ 31 then Inl BadQuery else Inr n)"

definition ShowEpisodesByArtist :: "int \<Rightarrow> int \<Rightarrow> int \<Rightarrow> (string \<times> TrackView) list statement" where
  "ShowEpisodesByArtist aid cid uid = sql (\<lambda>s.
     let als = (if has_access uid (Some cid) s then filter (\<lambda>al. album_artist al = Some aid \<and> album_root al = cid) (albums s) else []);
         rows = concat (map (\<lambda>al. map (\<lambda>t. (al, t)) (filter (\<lambda>(m, i). hidden_at i = None) (album_tracks (album_id al) s))) als);
         number = (\<lambda>(al, t). case natural_number (album_name al) of Inl _ \<Rightarrow> 0 | Inr n \<Rightarrow> n)
     in (if list_ex (\<lambda>(al, t). natural_number (album_name al) = Inl BadQuery) rows then Inl BadQuery
         else Inr (map (\<lambda>(al, t). (album_name al, track_view s t))
           (order_by_text (\<lambda>(al, t). natural_prefix (album_name al)) (sort_key number
             (order_nulls_last (\<lambda>(al, m, i). disc_number m) (order_nulls_last (\<lambda>(al, m, i). track_number m)
               (order_by_text (\<lambda>(al, m, i). title i) rows)))))), s))"

definition AudioShowBookmarkUpsert :: "int \<Rightarrow> int \<Rightarrow> int \<Rightarrow> int \<Rightarrow> unit statement" where
  "AudioShowBookmarkUpsert uid aid i pos = sql (\<lambda>s.
     let row = \<lparr> sb_user = uid, sb_artist = aid, sb_item = i, sb_position = pos, sb_last_listened = clock s \<rparr> in
     if \<not> user_exists uid s \<or> find_artist aid s = None \<or> \<not> item_exists i s then (Inl ForeignKeyViolation, s)
     else if list_ex (\<lambda>b. sb_user b = uid \<and> sb_artist b = aid) (show_bookmarks s)
     then (Inr (), s\<lparr> show_bookmarks := map (\<lambda>b. if sb_user b = uid \<and> sb_artist b = aid then row else b) (show_bookmarks s) \<rparr>)
     else (Inr (), s\<lparr> show_bookmarks := show_bookmarks s @ [row] \<rparr>))"

definition AudioShowBookmarkGet :: "int \<Rightarrow> int \<Rightarrow> show_bookmark option statement" where
  "AudioShowBookmarkGet uid aid = sql (\<lambda>s.
     (Inr (find (\<lambda>b. sb_user b = uid \<and> sb_artist b = aid) (show_bookmarks s)), s))"

end
