(* ===== verification/Paths.thy ===== *)
theory Paths
  imports GoStrings
begin

text \<open>
  \<open>filepath.Clean\<close>, \<open>Join\<close>, \<open>Dir\<close>, \<open>Ext\<close> and \<open>url.PathUnescape\<close> of the standard library on a Unix
  system, the paths of derived files (\<open>internal/imaging/imaging.go\<close>) and the file types
  (\<open>internal/constants/collection_constants.go\<close>). A slice of a hash that is too short panics:
  such a path is None.
\<close>

section \<open>Clean and Join\<close>

text \<open>The elements between the slashes.\<close>

fun split_slash :: "string \<Rightarrow> string list" where
  "split_slash [] = [[]]"
| "split_slash (c # s) =
     (if c = CHR ''/'' then [] # split_slash s
      else case split_slash s of [] \<Rightarrow> [[c]] | e # es \<Rightarrow> (c # e) # es)"

fun join_slash :: "string list \<Rightarrow> string" where
  "join_slash [] = []"
| "join_slash [e] = e"
| "join_slash (e # es) = e @ ''/'' @ join_slash es"

text \<open>One element of the path onto the cleaned ones, which are kept in reverse.\<close>

definition clean_step :: "bool \<Rightarrow> string list \<Rightarrow> string \<Rightarrow> string list" where
  "clean_step rooted out e =
     (if e = [] \<or> e = ''.'' then out
      else if e = ''..'' then
        (case out of
           [] \<Rightarrow> if rooted then [] else [e]
         | o1 # os \<Rightarrow> if o1 = ''..'' then e # out else os)
      else e # out)"

definition clean_elems :: "bool \<Rightarrow> string \<Rightarrow> string list" where
  "clean_elems rooted p = rev (foldl (clean_step rooted) [] (split_slash p))"

definition is_rooted :: "string \<Rightarrow> bool" where
  "is_rooted p \<longleftrightarrow> p \<noteq> [] \<and> hd p = CHR ''/''"

definition filepath_Clean :: "string \<Rightarrow> string" where
  "filepath_Clean p =
     (if is_rooted p then CHR ''/'' # join_slash (clean_elems True p)
      else let es = clean_elems False p in if es = [] then ''.'' else join_slash es)"

text \<open>\<open>filepath.Join\<close> of any elements: the empty ones are left out and the result is cleaned.\<close>

definition path_join :: "string list \<Rightarrow> string" where
  "path_join es = (let es = filter (\<lambda>e. e \<noteq> []) es in if es = [] then [] else filepath_Clean (join_slash es))"

definition filepath_Dir :: "string \<Rightarrow> string" where
  "filepath_Dir p = filepath_Clean (rev (dropWhile (\<lambda>c. c \<noteq> CHR ''/'') (rev p)))"

text \<open>\<open>filepath.Ext\<close>: from the last dot of the last element on.\<close>

definition filepath_Ext :: "string \<Rightarrow> string" where
  "filepath_Ext p =
     (let elem = rev (takeWhile (\<lambda>c. c \<noteq> CHR ''/'') (rev p)) in
      if CHR ''.'' \<in> set elem then CHR ''.'' # rev (takeWhile (\<lambda>c. c \<noteq> CHR ''.'') (rev elem)) else [])"

section \<open>Escapes in URLs\<close>

definition unhex :: "char \<Rightarrow> nat option" where
  "unhex c = (let n = (of_char c :: nat) in
     if 48 \<le> n \<and> n \<le> 57 then Some (n - 48)
     else if 97 \<le> n \<and> n \<le> 102 then Some (n - 87)
     else if 65 \<le> n \<and> n \<le> 70 then Some (n - 55)
     else None)"

fun url_PathUnescape :: "string \<Rightarrow> string option" where
  "url_PathUnescape [] = Some []"
| "url_PathUnescape (c # s) =
     (if c = CHR ''%'' then
        (case s of
           a # b # r \<Rightarrow>
             (case (unhex a, unhex b) of
                (Some m, Some n) \<Rightarrow> map_option (\<lambda>t. char_of (16 * m + n) # t) (url_PathUnescape r)
              | _ \<Rightarrow> None)
         | _ \<Rightarrow> None)
      else map_option (\<lambda>t. c # t) (url_PathUnescape s))"

text \<open>\<open>strings.Contains(s, "..")\<close>.\<close>

fun contains_dotdot :: "string \<Rightarrow> bool" where
  "contains_dotdot (a # b # s) \<longleftrightarrow> (a = CHR ''.'' \<and> b = CHR ''.'') \<or> contains_dotdot (b # s)"
| "contains_dotdot _ \<longleftrightarrow> False"

section \<open>Derived files\<close>

definition ItemDataPath :: "string \<Rightarrow> string \<Rightarrow> string option" where
  "ItemDataPath base hash =
     (if length hash < 4 then None
      else Some (path_join [base, ''derived_media'', take 2 hash, take 2 (drop 2 hash), drop 4 hash]))"

definition VariantPath :: "string \<Rightarrow> string \<Rightarrow> string \<Rightarrow> string \<Rightarrow> string option" where
  "VariantPath base hash variant ext = map_option (\<lambda>d. path_join [d, variant @ ''.'' @ ext]) (ItemDataPath base hash)"

definition TilesPath :: "string \<Rightarrow> string \<Rightarrow> string option" where
  "TilesPath base hash = map_option (\<lambda>d. path_join [d, ''tiles'']) (ItemDataPath base hash)"

definition CollectionThumbnailDir :: "string \<Rightarrow> int \<Rightarrow> string" where
  "CollectionThumbnailDir dataPath i = path_join [dataPath, ''collection_images'', strconv_Itoa i]"

definition CollectionThumbnailPath :: "string \<Rightarrow> int \<Rightarrow> string \<Rightarrow> string" where
  "CollectionThumbnailPath dataPath i ext = path_join [CollectionThumbnailDir dataPath i, ''cover.'' @ ext]"

definition ArtistThumbnailDir :: "string \<Rightarrow> int \<Rightarrow> string" where
  "ArtistThumbnailDir dataPath i = path_join [dataPath, ''artist_images'', strconv_Itoa i]"

definition ArtistThumbnailPath :: "string \<Rightarrow> int \<Rightarrow> string \<Rightarrow> string" where
  "ArtistThumbnailPath dataPath i ext = path_join [ArtistThumbnailDir dataPath i, ''cover.'' @ ext]"

definition AlbumThumbnailDir :: "string \<Rightarrow> int \<Rightarrow> string" where
  "AlbumThumbnailDir dataPath i = path_join [dataPath, ''album_images'', strconv_Itoa i]"

definition AlbumThumbnailPath :: "string \<Rightarrow> int \<Rightarrow> string \<Rightarrow> string" where
  "AlbumThumbnailPath dataPath i ext = path_join [AlbumThumbnailDir dataPath i, ''thumb.'' @ ext]"

definition AlbumCoverDir :: "string \<Rightarrow> int \<Rightarrow> string" where
  "AlbumCoverDir dataPath i = path_join [dataPath, ''album_images'', strconv_Itoa i]"

definition AlbumCoverPath :: "string \<Rightarrow> int \<Rightarrow> string \<Rightarrow> string" where
  "AlbumCoverPath dataPath i ext = path_join [AlbumCoverDir dataPath i, ''cover.'' @ ext]"

definition VideoHLSDir :: "string \<Rightarrow> string \<Rightarrow> string option" where
  "VideoHLSDir dataPath hash = map_option (\<lambda>d. path_join [d, ''hls'']) (ItemDataPath dataPath hash)"

definition VideoHLSManifest :: "string \<Rightarrow> string \<Rightarrow> string option" where
  "VideoHLSManifest dataPath hash = map_option (\<lambda>d. path_join [d, ''manifest.m3u8'']) (VideoHLSDir dataPath hash)"

section \<open>File types\<close>

definition SupportedExtensions :: "(string \<times> string) list" where
  "SupportedExtensions =
    [(''.jpg'', ''image/jpeg''), (''.jpeg'', ''image/jpeg''), (''.jpe'', ''image/jpeg''), (''.jfif'', ''image/jpeg''),
     (''.png'', ''image/png''), (''.heic'', ''image/heic''), (''.heif'', ''image/heif''), (''.tiff'', ''image/tiff''),
     (''.tif'', ''image/tiff''), (''.webp'', ''image/webp''), (''.avif'', ''image/avif''), (''.jxl'', ''image/jxl''),
     (''.gif'', ''image/gif''), (''.jp2'', ''image/jp2''), (''.j2k'', ''image/jp2''),
     (''.dng'', ''image/x-adobe-dng''), (''.cr2'', ''image/x-canon-cr2''), (''.cr3'', ''image/x-canon-cr3''),
     (''.crw'', ''image/x-canon-crw''), (''.nef'', ''image/x-nikon-nef''), (''.nrw'', ''image/x-nikon-nrw''),
     (''.arw'', ''image/x-sony-arw''), (''.sr2'', ''image/x-sony-sr2''), (''.srf'', ''image/x-sony-srf''),
     (''.orf'', ''image/x-olympus-orf''), (''.raf'', ''image/x-fuji-raf''), (''.rw2'', ''image/x-panasonic-rw2''),
     (''.rwl'', ''image/x-leica-rwl''), (''.pef'', ''image/x-pentax-pef''), (''.erf'', ''image/x-epson-erf''),
     (''.mrw'', ''image/x-minolta-mrw''), (''.3fr'', ''image/x-hasselblad-3fr''), (''.x3f'', ''image/x-sigma-x3f''),
     (''.kdc'', ''image/x-kodak-kdc''), (''.k25'', ''image/x-kodak-k25''), (''.dcr'', ''image/x-kodak-dcr''),
     (''.iiq'', ''image/x-phaseone-iiq''), (''.cap'', ''image/x-phaseone-cap''), (''.srw'', ''image/x-samsung-srw''),
     (''.fff'', ''image/x-imacon-fff''), (''.mos'', ''image/x-leaf-mos''), (''.mdc'', ''image/x-minolta-mdc''),
     (''.pxn'', ''image/x-logitech-pxn''),
     (''.mp3'', ''audio/mpeg''), (''.flac'', ''audio/flac''), (''.m4a'', ''audio/mp4''), (''.aac'', ''audio/aac''),
     (''.ogg'', ''audio/ogg''), (''.oga'', ''audio/ogg''), (''.opus'', ''audio/opus''), (''.wav'', ''audio/wav''),
     (''.mp4'', ''video/mp4''), (''.mov'', ''video/quicktime''), (''.mkv'', ''video/x-matroska'')]"

section \<open>Lemmas\<close>

lemma split_slash_not_Nil [simp]: "split_slash s \<noteq> []"
  by (cases s) (auto split: list.split)

lemma split_slash_append: "split_slash (a @ ''/'' @ b) = split_slash a @ split_slash b"
  by (induction a) (auto split: list.split)

lemma split_slash_element: "e \<in> set (split_slash s) \<Longrightarrow> CHR ''/'' \<notin> set e"
  by (induction s arbitrary: e) (auto split: list.splits if_splits)

lemma split_slash_single: "CHR ''/'' \<notin> set e \<Longrightarrow> split_slash e = [e]"
  by (induction e) auto

lemma split_join:
  "es \<noteq> [] \<Longrightarrow> \<forall>e \<in> set es. CHR ''/'' \<notin> set e \<Longrightarrow> split_slash (join_slash es) = es"
  by (induction es rule: join_slash.induct) (simp_all add: split_slash_single split_slash_append [simplified])

text \<open>An element that is a name: neither empty, nor a dot segment, and without a slash.\<close>

definition path_name :: "string \<Rightarrow> bool" where
  "path_name e \<longleftrightarrow> e \<noteq> [] \<and> e \<noteq> ''.'' \<and> e \<noteq> ''..'' \<and> CHR ''/'' \<notin> set e"

lemma clean_step_names:
  "list_all path_name out \<Longrightarrow> CHR ''/'' \<notin> set e \<Longrightarrow> list_all path_name (clean_step True out e)"
  by (auto simp: clean_step_def path_name_def split: list.split)

lemma clean_fold_names:
  "\<forall>e \<in> set es. CHR ''/'' \<notin> set e \<Longrightarrow> list_all path_name out \<Longrightarrow>
    list_all path_name (foldl (clean_step True) out es)"
  by (induction es arbitrary: out) (simp_all add: clean_step_names)

text \<open>The elements of a cleaned rooted path are names.\<close>

lemma clean_elems_names: "list_all path_name (clean_elems True p)"
  using clean_fold_names [of "split_slash p" "[]"] split_slash_element
  by (auto simp: clean_elems_def list_all_iff)

lemma clean_fold_keep: "list_all path_name es \<Longrightarrow> foldl (clean_step r) out es = rev es @ out"
  by (induction es arbitrary: out) (simp_all add: clean_step_def path_name_def)

lemma clean_idem: "clean_elems True (CHR ''/'' # join_slash (clean_elems True p)) = clean_elems True p"
proof (cases "clean_elems True p")
  case Nil
  then show ?thesis by (simp add: clean_elems_def clean_step_def)
next
  case (Cons e es)
  have "split_slash (join_slash (clean_elems True p)) = clean_elems True p"
    using clean_elems_names [of p] Cons by (intro split_join) (auto simp: list_all_iff path_name_def)
  then have "clean_elems True (CHR ''/'' # join_slash (clean_elems True p))
      = rev (foldl (clean_step True) [] (clean_elems True p))"
    by (simp add: clean_elems_def [of True "CHR ''/'' # _"] clean_step_def)
  then show ?thesis using clean_fold_keep [OF clean_elems_names [of p], of True "[]"] by simp
qed

lemma is_rooted_clean: "is_rooted p \<Longrightarrow> is_rooted (filepath_Clean p)"
  by (simp add: filepath_Clean_def is_rooted_def)

lemma clean_elems_Clean: "is_rooted p \<Longrightarrow> clean_elems True (filepath_Clean p) = clean_elems True p"
  by (simp add: filepath_Clean_def clean_idem)

text \<open>Cleaning a path under a directory only appends, when no element climbs.\<close>

lemma clean_step_plain: "e \<noteq> ''..'' \<Longrightarrow> clean_step r out e = (if e = [] \<or> e = ''.'' then out else e # out)"
  by (simp add: clean_step_def)

lemma clean_fold_append:
  assumes "''..'' \<notin> set es"
  shows "foldl (clean_step r) out es = foldl (clean_step r) [] es @ out"
  using assms
proof (induction es rule: rev_induct)
  case (snoc e es)
  then have "e \<noteq> ''..''" by auto
  then show ?case using snoc by (simp add: clean_step_plain)
qed simp

lemma clean_elems_under:
  assumes "''..'' \<notin> set (split_slash sub)"
  shows "clean_elems True (dir @ ''/'' @ sub) = clean_elems True dir @ clean_elems True sub"
proof -
  have "split_slash (dir @ ''/'' @ sub) = split_slash dir @ split_slash sub" by (rule split_slash_append)
  then show ?thesis
    using clean_fold_append [OF assms, of True "foldl (clean_step True) [] (split_slash dir)"]
    by (simp add: clean_elems_def del: append_Cons append_Nil)
qed

lemma join_slash_Cons: "join_slash ((c # e) # es) = c # join_slash (e # es)"
  by (cases es) simp_all

lemma join_split: "join_slash (split_slash s) = s"
proof (induction s)
  case (Cons c s)
  obtain e es where e: "split_slash s = e # es" by (cases "split_slash s") simp_all
  then have "split_slash (c # s) = (if c = CHR ''/'' then [] # e # es else (c # e) # es)" by simp
  moreover have "join_slash ([] # e # es) = CHR ''/'' # join_slash (e # es)" by simp
  moreover have "join_slash (e # es) = s" using Cons e by simp
  ultimately show ?case using join_slash_Cons [of c e es] by (metis (full_types))
qed simp

lemma contains_Cons: "contains_dotdot s \<Longrightarrow> contains_dotdot (a # s)"
  by (cases s) simp_all

lemma contains_inside: "contains_dotdot (u @ ''..'' @ v)"
  by (induction u) (simp_all add: contains_Cons)

lemma join_inside: "\<exists>u v. join_slash (es @ e # fs) = u @ e @ v"
proof (induction es)
  case Nil
  show ?case by (cases fs) (auto intro: exI [of _ "[]"])
next
  case (Cons d es)
  then obtain u v where "join_slash (es @ e # fs) = u @ e @ v" by blast
  then have "join_slash ((d # es) @ e # fs) = (d @ ''/'' @ u) @ e @ v" by (cases es) auto
  then show ?case by blast
qed

lemma not_contains_dotdot:
  assumes "\<not> contains_dotdot s"
  shows "''..'' \<notin> set (split_slash s)"
proof
  assume "''..'' \<in> set (split_slash s)"
  then obtain es fs where "split_slash s = es @ ''..'' # fs" by (meson split_list)
  then obtain u v where "s = u @ ''..'' @ v" using join_inside [of es "''..''" fs] join_split [of s] by auto
  then show False using assms contains_inside by simp
qed

end
