(* ===== verification/AdminCore.thy ===== *)
theory AdminCore
  imports AuthApi SchedulerProps AudioRepo Paths
begin

text \<open>
  The state and the environment of the administrator's handlers
  (\<open>internal/api/admin.go\<close>): the server of the authentication handlers, the dispatcher and the
  scheduler's reload signal, over one database. A call of the dispatcher borrows the
  database of the server and gives it back. The file system is the environment's; what the
  handlers remove is kept in order.
\<close>

section \<open>State\<close>

record ('c, 'a, 'l, 'w) app =
  srv :: "('c, 'a, 'l) server"
  disp :: "'w dispatcher"
  reload :: "bool option"     \<comment> \<open>the scheduler's channel; None without a scheduler\<close>
  removed :: "string list"

record dir_entry =
  de_name :: string
  de_regular :: bool

text \<open>\<open>stat\<close> is None on an error and otherwise tells whether the path is a directory.\<close>

record ('c, 'a, 'l, 'w) admin_env =
  aenv :: "('c, 'a, 'l) auth_env"
  media_path :: string
  data_path :: string
  job_registry :: "'w registry"
  stat :: "string \<Rightarrow> bool option"
  read_dir :: "string \<Rightarrow> dir_entry list option"
  can_remove :: "string \<Rightarrow> bool"
  collection_cover :: "string \<Rightarrow> int \<Rightarrow> bool"    \<comment> \<open>\<open>GenerateCollectionThumbnailFromUpload\<close>\<close>

type_synonym ('c, 'a, 'l, 'w, 'r) app_op = "('c, 'a, 'l, 'w) app \<Rightarrow> 'r \<times> ('c, 'a, 'l, 'w) app"

definition on_srv :: "('c, 'a, 'l, 'r) op \<Rightarrow> ('c, 'a, 'l, 'w, 'r) app_op" where
  "on_srv f st = (case f (srv st) of (r, sv) \<Rightarrow> (r, st\<lparr> srv := sv \<rparr>))"

definition query :: "'x statement \<Rightarrow> ('c, 'a, 'l, 'w, db_error + 'x) app_op" where
  "query stmt = on_srv (AuthCore.on_db stmt)"

definition lend :: "('c, 'a, 'l, 'w) app \<Rightarrow> 'w dispatcher" where
  "lend st = (disp st)\<lparr> d_db := sdb (srv st) \<rparr>"

definition on_disp :: "('w dispatcher \<Rightarrow> 'r \<times> 'w dispatcher) \<Rightarrow> ('c, 'a, 'l, 'w, 'r) app_op" where
  "on_disp f st = (case f (lend st) of
     (r, d) \<Rightarrow> (r, st\<lparr> disp := d, srv := (srv st)\<lparr> sdb := d_db d \<rparr> \<rparr>))"

definition remove_path :: "string \<Rightarrow> ('c, 'a, 'l, 'w) app \<Rightarrow> ('c, 'a, 'l, 'w) app" where
  "remove_path p st = st\<lparr> removed := removed st @ [p] \<rparr>"

text \<open>\<open>if h.scheduler != nil { h.scheduler.NotifyReload() }\<close>.\<close>

definition notify_scheduler :: "('c, 'a, 'l, 'w) app \<Rightarrow> ('c, 'a, 'l, 'w) app" where
  "notify_scheduler st = st\<lparr> reload := map_option (\<lambda>_. True) (reload st) \<rparr>"

text \<open>A transaction: an error of its beginning, of a statement or of its end leaves the tables as
  they were.\<close>

definition transaction :: "'x statement \<Rightarrow> 'x statement" where
  "transaction body s0 =
     (case sql (\<lambda>s. (Inr (), s)) s0 of
        (Inl e, s1) \<Rightarrow> (Inl e, s1)
      | (Inr _, s1) \<Rightarrow>
          (case body s1 of
             (Inl e, s2) \<Rightarrow> (Inl e, s0\<lparr> faults := faults s2 \<rparr>)
           | (Inr x, s2) \<Rightarrow>
               (case sql (\<lambda>s. (Inr (), s)) s2 of
                  (Inl e, s3) \<Rightarrow> (Inl e, s0\<lparr> faults := faults s3 \<rparr>)
                | (Inr _, s3) \<Rightarrow> (Inr x, s3))))"

section \<open>Payloads\<close>

record jobResponse =
  jr_id :: int
  jr_type :: string
  jr_status :: job_status
  jr_step :: int
  jr_total_steps :: int
  jr_supports_sub_jobs :: bool
  jr_subjobs_enqueued :: int
  jr_related_id :: "int option"
  jr_related_type :: "string option"
  jr_related_name :: "string option"
  jr_log :: "string option"
  jr_created_at :: time
  jr_updated_at :: time
  jr_completed :: int
  jr_total :: int

datatype admin_payload =
    FromAuth auth_payload
  | CreatedCollection int int          \<comment> \<open>id, scan job id\<close>
  | CollectionList "collection list"
  | JobPage "jobResponse list" int int int   \<comment> \<open>jobs, total, page, limit\<close>
  | OneJob jobResponse
  | DeletedCount int
  | ScheduleList "job_schedule list"
  | UserList "(int \<times> string) list"
  | CreatedUser int
  | IdList "int list"
  | DirectoryList "(string \<times> string) list"

type_synonym admin_response = "admin_payload response"

definition map_response :: "('p \<Rightarrow> 'q) \<Rightarrow> 'p response \<Rightarrow> 'q response" where
  "map_response f r = \<lparr> resp_status = resp_status r, resp_content = map_content f (resp_content r), resp_cookies = resp_cookies r \<rparr>"

text \<open>A panic of a handler ends in the router's recoverer.\<close>

definition recovered :: "'p response" where
  "recovered = write_status 500"

section \<open>Lemmas\<close>

lemma on_srv_sel [simp]:
  "fst (on_srv f st) = fst (f (srv st))" "srv (snd (on_srv f st)) = snd (f (srv st))"
  "disp (snd (on_srv f st)) = disp st" "reload (snd (on_srv f st)) = reload st" "removed (snd (on_srv f st)) = removed st"
  by (simp_all add: on_srv_def split: prod.split)

lemma query_sel [simp]:
  "fst (query stmt st) = fst (stmt (sdb (srv st)))" "sdb (srv (snd (query stmt st))) = snd (stmt (sdb (srv st)))"
  "sguard (srv (snd (query stmt st))) = sguard (srv st)"
  by (simp_all add: query_def)

lemma on_disp_sel [simp]:
  "fst (on_disp f st) = fst (f (lend st))" "sdb (srv (snd (on_disp f st))) = d_db (snd (f (lend st)))"
  "d_db (lend st) = sdb (srv st)"
  by (simp_all add: on_disp_def lend_def split: prod.split)

end
