(* ===== verification/AdminApi.thy ===== *)
theory AdminApi
  imports AdminCore
begin

text \<open>
  \<open>internal/api/admin.go\<close>: the administrator's handlers for collections, jobs, schedules, users,
  devices, access, covers, media items and directories, and the routes to them. A decoded body
  is an argument; a handler runs at one instant and alone.
\<close>

section \<open>Collections\<close>

record collection_body =
  cb_name :: string
  cb_type :: string
  cb_path :: string

definition createCollection ::
  "('c, 'a, 'l, 'w) admin_env \<Rightarrow> collection_body option \<Rightarrow> ('c, 'a, 'l, 'w, admin_response) app_op" where
  "createCollection env body = with_body body (\<lambda>b st.
     let name = trim_space (cb_name b); ty = cb_type b; path = trim_space (cb_path b) in
     if name = [] \<or> ty = [] \<or> path = [] then (writeError 400 ''name, type, and relative_path are required'', st)
     else if contains_dotdot path then (writeError 400 (''relative_path must not contain '' @ [CHR 0x27] @ ''..'' @ [CHR 0x27]), st)
     else case stat env (path_join [media_path env, path]) of
       None \<Rightarrow> (writeError 400 (''path does not exist: '' @ path), st)
     | Some False \<Rightarrow> (writeError 400 (''path is not a directory: '' @ path), st)
     | Some True \<Rightarrow>
         call_or (query (CollectionCreate name ty path)) (fail 500 ''failed to create collection'')
           (\<lambda>i st. case on_disp (Enqueue ''collection_scan'' (Some i) (Some ''collection'')) st of
              (res, st) \<Rightarrow> (writeJSON 201 (CreatedCollection i (case res of Inl _ \<Rightarrow> 0 | Inr j \<Rightarrow> j)), st)) st)"

definition deleteCollection ::
  "('c, 'a, 'l, 'w) admin_env \<Rightarrow> request \<Rightarrow> ('c, 'a, 'l, 'w, admin_response) app_op" where
  "deleteCollection env r = with_id r ''id'' (\<lambda>i.
     call_or (query (CollectionGet i)) (fail 404 ''collection not found'')
       (\<lambda>col st.
          if parent_collection_id col \<noteq> None then (writeError 400 ''only top-level collections can be deleted'', st)
          else call_or (query (CollectionGetDescendantCollectionIDs i)) (fail 500 ''db error'')
            (\<lambda>descendants. call_or (query (CollectionDelete i)) (fail 500 ''db error'')
              (\<lambda>affected st.
                 if affected = 0 then (writeError 404 ''collection not found'', st)
                 else (write_status 204, fold (\<lambda>j. remove_path (CollectionThumbnailDir (data_path env) j)) (i # descendants) st))) st))"

definition listCollections :: "('c, 'a, 'l, 'w, admin_response) app_op" where
  "listCollections = call_or (query CollectionsTopLevel) (fail 500 ''db error'')
     (\<lambda>cs st. (writeJSON 200 (CollectionList cs), st))"

text \<open>The removal of an item's directory may fail; only the others count.\<close>

fun remove_derivatives ::
  "('c, 'a, 'l, 'w) admin_env \<Rightarrow> string list \<Rightarrow> int \<Rightarrow> ('c, 'a, 'l, 'w) app \<Rightarrow> (int option \<times> ('c, 'a, 'l, 'w) app)" where
  "remove_derivatives env [] n st = (Some n, st)"
| "remove_derivatives env (h # hs) n st =
     (case ItemDataPath (data_path env) h of
        None \<Rightarrow> (None, st)
      | Some p \<Rightarrow> if can_remove env p then remove_derivatives env hs (n + 1) (remove_path p st)
                  else remove_derivatives env hs n st)"

definition deleteDerivatives ::
  "('c, 'a, 'l, 'w) admin_env \<Rightarrow> request \<Rightarrow> ('c, 'a, 'l, 'w, admin_response) app_op" where
  "deleteDerivatives env r = with_id r ''id'' (\<lambda>i.
     call_or (query (MediaItemHashesByCollection i)) (fail 500 ''failed to list items'')
       (\<lambda>hashes st. case remove_derivatives env hashes 0 st of
          (None, st) \<Rightarrow> (recovered, st)
        | (Some deleted, st) \<Rightarrow>
            (writeJSON 200 (DeletedCount deleted), snd (query (PhotoClearVariantsGenerated i) st))))"

section \<open>Jobs\<close>

definition subJobTypes :: "string list" where
  "subJobTypes = [''scan_photo'', ''scan_video'', ''scan_audio'', ''video_transcode_item'', ''dzi_gen_item'']"

text \<open>A type without a handler has the zero \<open>JobMeta\<close>.\<close>

definition enrichJob ::
  "('c, 'a, 'l, 'w) admin_env \<Rightarrow> job \<Rightarrow> ('c, 'a, 'l, 'w, jobResponse) app_op" where
  "enrichJob env j st =
     (let (steps, subs) = (case GetMeta (job_registry env) (job_type j) of
            None \<Rightarrow> (0, False) | Some m \<Rightarrow> (TotalSteps m, SupportsSubjobs m));
          updated = (case completed_at j of Some t \<Rightarrow> t
            | None \<Rightarrow> (case started_at j of Some t \<Rightarrow> t | None \<Rightarrow> queued_at j));
          (name, st1) = (case (related_id j, related_type j) of
            (Some i, Some ty) \<Rightarrow>
              if ty = ''collection'' then
                (case query (CollectionGet i) st of
                   (Inl _, st) \<Rightarrow> (None, st) | (Inr c, st) \<Rightarrow> (Some (coll_name c), st))
              else (None, st)
          | _ \<Rightarrow> (None, st));
          ((completed, total), st2) = (if subs then
              (case query (JobSubJobCounts (job_id j)) st1 of
                 (Inl _, st) \<Rightarrow> ((0, 0), st) | (Inr c, st) \<Rightarrow> (c, st))
            else ((0, 0), st1))
      in (\<lparr> jr_id = job_id j, jr_type = job_type j, jr_status = status j, jr_step = current_step j,
            jr_total_steps = steps, jr_supports_sub_jobs = subs, jr_subjobs_enqueued = subjobs_enqueued j,
            jr_related_id = related_id j, jr_related_type = related_type j, jr_related_name = name,
            jr_log = job_log j, jr_created_at = queued_at j, jr_updated_at = updated,
            jr_completed = completed, jr_total = total \<rparr>, st2))"

fun enrich_all ::
  "('c, 'a, 'l, 'w) admin_env \<Rightarrow> job list \<Rightarrow> ('c, 'a, 'l, 'w, jobResponse list) app_op" where
  "enrich_all env [] st = ([], st)"
| "enrich_all env (j # js) st =
     (case enrichJob env j st of (r, st) \<Rightarrow> (case enrich_all env js st of (rs, st) \<Rightarrow> (r # rs, st)))"

text \<open>A positive number in the query, or the fallback.\<close>

definition positive_param :: "request \<Rightarrow> string \<Rightarrow> int \<Rightarrow> int" where
  "positive_param r key fallback =
     (let v = QueryGet r key in
      if trim_space v = [] then fallback
      else case strconv_Atoi v of (n, None) \<Rightarrow> if n > 0 then n else fallback | _ \<Rightarrow> fallback)"

definition listJobs ::
  "('c, 'a, 'l, 'w) admin_env \<Rightarrow> request \<Rightarrow> ('c, 'a, 'l, 'w, admin_response) app_op" where
  "listJobs env r =
     (let inactive = (QueryGet r ''inactive'' = ''true'');
          page = positive_param r ''page'' 1;
          limit = min 200 (positive_param r ''limit'' 50) in
      call_or (query (JobListTopLevel page limit inactive)) (fail 500 ''db error'')
        (\<lambda>(jobs, total) st. case enrich_all env jobs st of
           (rs, st) \<Rightarrow> (writeJSON 200 (JobPage rs total page limit), st)))"

record job_body =
  jb_related_id :: "int option"
  jb_related_type :: "string option"
  jb_type :: string

definition createJob ::
  "('c, 'a, 'l, 'w) admin_env \<Rightarrow> job_body option \<Rightarrow> ('c, 'a, 'l, 'w, admin_response) app_op" where
  "createJob env body = with_body body (\<lambda>b st.
     if trim_space (jb_type b) = [] then (writeError 400 ''type is required'', st)
     else if jb_type b \<in> set subJobTypes then
       (writeError 400 (''job type '' @ jb_type b @ '' is not user-invocable''), st)
     else call_or (on_disp (job_check (jb_type b) (jb_related_id b))) (fail 500 ''job check failed'')
       (\<lambda>active st.
          if active then (writeError 409 (''a job of type '' @ jb_type b @ '' is already queued or running''), st)
          else call_or (on_disp (Enqueue (jb_type b) (jb_related_id b) (jb_related_type b))) (fail 500 ''failed to create job'')
            (\<lambda>i. call_or (query (JobGet i)) (fail 500 ''failed to fetch job'')
               (\<lambda>j st. case enrichJob env j st of (jr, st) \<Rightarrow> (writeJSON 201 (OneJob jr), st))) st) st)"

definition getJob ::
  "('c, 'a, 'l, 'w) admin_env \<Rightarrow> request \<Rightarrow> ('c, 'a, 'l, 'w, admin_response) app_op" where
  "getJob env r = with_id r ''id'' (\<lambda>i.
     call_or (query (JobGet i)) (fail 404 ''job not found'')
       (\<lambda>j st. case enrichJob env j st of (jr, st) \<Rightarrow> (writeJSON 200 (OneJob jr), st)))"

text \<open>\<open>jobEvents\<close>: the jobs it writes, one look at the job per tick, until the job has ended, cannot
  be read, or the client has gone (the end of the ticks).\<close>

fun jobEvents_loop :: "int \<Rightarrow> db list \<Rightarrow> job list" where
  "jobEvents_loop i [] = []"
| "jobEvents_loop i (s # ss) =
     (case fst (JobGet i s) of
        Inl _ \<Rightarrow> []
      | Inr j \<Rightarrow> if is_terminal (status j) then [j] else j # jobEvents_loop i ss)"

definition jobEvents :: "bool \<Rightarrow> request \<Rightarrow> db list \<Rightarrow> admin_response + job list" where
  "jobEvents flushes r ticks = (case urlIntParam ''id'' (URLParam r ''id'') of
     Inl resp \<Rightarrow> Inl resp
   | Inr i \<Rightarrow> if \<not> flushes then Inl (writeError 500 ''streaming not supported'') else Inr (jobEvents_loop i ticks))"

section \<open>Schedules\<close>

definition listSchedules :: "('c, 'a, 'l, 'w, admin_response) app_op" where
  "listSchedules = call_or (query JobScheduleList) (fail 500 ''db error'') (\<lambda>ss st. (writeJSON 200 (ScheduleList ss), st))"

record schedule_body =
  sb_description :: "string option"
  sb_cron :: string

definition upsertSchedule :: "request \<Rightarrow> schedule_body option \<Rightarrow> ('c, 'a, 'l, 'w, admin_response) app_op" where
  "upsertSchedule r body st =
     (let name = URLParam r ''name'' in
      if name = [] then (writeError 400 ''schedule name is required'', st)
      else with_body body (\<lambda>b st.
        if sb_cron b = [] then (writeError 400 ''cron is required'', st)
        else call_or (query (JobScheduleUpsert name (sb_cron b) (sb_description b))) (fail 500 ''failed to upsert schedule'')
          (\<lambda>_ st. (write_status 204, notify_scheduler st)) st) st)"

definition deleteSchedule :: "request \<Rightarrow> ('c, 'a, 'l, 'w, admin_response) app_op" where
  "deleteSchedule r st =
     (let name = URLParam r ''name'' in
      if name = [] then (writeError 400 ''schedule name is required'', st)
      else call_or (query (JobScheduleDelete name)) (fail 500 ''db error'')
        (\<lambda>deleted st. if \<not> deleted then (writeError 404 ''schedule not found'', st)
           else (write_status 204, notify_scheduler st)) st)"

section \<open>Covers\<close>

definition uploadCollectionCover ::
  "('c, 'a, 'l, 'w) admin_env \<Rightarrow> request \<Rightarrow> upload \<Rightarrow> ('c, 'a, 'l, 'w, admin_response) app_op" where
  "uploadCollectionCover env r up = with_id r ''id'' (\<lambda>i st.
     case parseUploadToTemp ''cover'' up of
       Inl resp \<Rightarrow> (resp, st)
     | Inr tmp \<Rightarrow>
         (case (if \<not> collection_cover env tmp i then (writeError 500 ''failed to process cover image'', st)
                else call_or (query (CollectionSetManualThumbnail i True)) (fail 500 ''failed to update collection'')
                  (\<lambda>_ st. (write_status 204, st)) st) of
            (resp, st) \<Rightarrow> (resp, remove_path tmp st)))"

definition deleteCollectionCover ::
  "('c, 'a, 'l, 'w) admin_env \<Rightarrow> request \<Rightarrow> ('c, 'a, 'l, 'w, admin_response) app_op" where
  "deleteCollectionCover env r = with_id r ''id'' (\<lambda>i st.
     call_or (query (CollectionSetManualThumbnail i False)) (fail 500 ''failed to update collection'')
       (\<lambda>_ st. (write_status 204, st)) (remove_path (CollectionThumbnailPath (data_path env) i ''webp'') st))"

section \<open>Users and devices\<close>

definition listUsers :: "('c, 'a, 'l, 'w, admin_response) app_op" where
  "listUsers = call_or (query UsersGet) (fail 500 ''db error'') (\<lambda>us st. (writeJSON 200 (UserList us), st))"

record user_body =
  ub_name :: string
  ub_provider :: string
  ub_credentials :: raw_message
  ub_is_admin :: bool
  ub_local_only :: bool

definition createUser ::
  "('c, 'a, 'l, 'w) admin_env \<Rightarrow> user_body option \<Rightarrow> ('c, 'a, 'l, 'w, admin_response) app_op" where
  "createUser env body = with_body body (\<lambda>b st.
     if ub_name b = [] then (writeError 400 ''name is required'', st)
     else
       let provider = (if ub_provider b = [] then ''local'' else ub_provider b) in
       case map_of (DefaultPlugins (aenv env)) provider of
         None \<Rightarrow> (writeError 400 (''unknown auth provider: '' @ provider), st)
       | Some p \<Rightarrow>
           call_or (on_srv (CreateUser p (ub_name b) (ub_credentials b))) (fail 400 ''failed to create user'')
             (\<lambda>i. call_or (query (UserSetAdmin i (ub_is_admin b))) (fail 500 ''db error'')
                (\<lambda>_. call_or (query (UserSetLocalOnly i (ub_local_only b))) (fail 500 ''db error'')
                   (\<lambda>_ st. (writeJSON 201 (CreatedUser i), st)))) st)"

definition deleteUser :: "request \<Rightarrow> claims \<Rightarrow> ('c, 'a, 'l, 'w, admin_response) app_op" where
  "deleteUser r c = with_id r ''id'' (\<lambda>i st.
     if i = claims_user c then (writeError 403 ''cannot delete your own account'', st)
     else call_or (query (UserDelete i)) (fail 500 ''db error'')
       (\<lambda>affected st. if affected = 0 then (writeError 404 ''user not found'', st) else (write_status 204, st)) st)"

definition changeUserCredentials ::
  "('c, 'a, 'l, 'w) admin_env \<Rightarrow> request \<Rightarrow> raw_message option \<Rightarrow> ('c, 'a, 'l, 'w, admin_response) app_op" where
  "changeUserCredentials env r body = with_id r ''id'' (\<lambda>i.
     call_or (query (UserAuthProvider i)) (fail 404 ''user not found'')
       (\<lambda>provider st. case map_of (DefaultPlugins (aenv env)) provider of
          None \<Rightarrow> (writeError 400 (''auth provider '' @ [CHR 0x22] @ provider @ [CHR 0x22] @ '' does not support credential updates''), st)
        | Some p \<Rightarrow> with_body body (\<lambda>raw.
            call_or (on_srv (UpdateCredentials p i raw)) (fail 400 ''failed to update credentials'')
              (\<lambda>_ st. (write_status 204, st))) st))"

definition listUserDevices :: "request \<Rightarrow> ('c, 'a, 'l, 'w, admin_response) app_op" where
  "listUserDevices r = with_id r ''id'' (\<lambda>i st.
     case on_srv (writeDeviceList i) st of (resp, st) \<Rightarrow> (map_response FromAuth resp, st))"

definition revokeUserDevice ::
  "('c, 'a, 'l, 'w) admin_env \<Rightarrow> request \<Rightarrow> ('c, 'a, 'l, 'w, admin_response) app_op" where
  "revokeUserDevice env r = with_id r ''id'' (\<lambda>u. with_id r ''deviceId'' (\<lambda>i.
     call_or (query (DeviceDelete i u)) (fail 500 ''db error'')
       (\<lambda>affected st. if affected = 0 then (writeError 404 ''device not found'', st)
          else (write_status 204, st\<lparr> srv := revoke (aenv env) i (srv st) \<rparr>))))"

definition revokeAllUserDevices ::
  "('c, 'a, 'l, 'w) admin_env \<Rightarrow> request \<Rightarrow> ('c, 'a, 'l, 'w, admin_response) app_op" where
  "revokeAllUserDevices env r = with_id r ''id'' (\<lambda>u.
     call_or (query (DevicesDeleteForUser u)) (fail 500 ''db error'')
       (\<lambda>ids st. (write_status 204, st\<lparr> srv := revoke_many (aenv env) ids (srv st) \<rparr>)))"

section \<open>Access\<close>

definition listCollectionUsers :: "request \<Rightarrow> ('c, 'a, 'l, 'w, admin_response) app_op" where
  "listCollectionUsers r = with_id r ''id'' (\<lambda>i.
     call_or (query (CollectionGetUsersWithAccess i)) (fail 500 ''db error'') (\<lambda>ids st. (writeJSON 200 (IdList ids), st)))"

text \<open>A list that is empty, or a body that does not decode.\<close>

definition nonempty_ids :: "string \<Rightarrow> int list option \<Rightarrow> admin_response + int list" where
  "nonempty_ids field body = (case body of
     None \<Rightarrow> Inl (writeError 400 (field @ '' must be a non-empty array''))
   | Some ids \<Rightarrow> if ids = [] then Inl (writeError 400 (field @ '' must be a non-empty array'')) else Inr ids)"

definition grantUsersCollectionAccess :: "request \<Rightarrow> int list option \<Rightarrow> ('c, 'a, 'l, 'w, admin_response) app_op" where
  "grantUsersCollectionAccess r body = with_id r ''id'' (\<lambda>i st.
     case nonempty_ids ''user_ids'' body of
       Inl resp \<Rightarrow> (resp, st)
     | Inr ids \<Rightarrow> call_or (query (CollectionGrantAccessToUsers i ids)) (fail 500 ''db error'') (\<lambda>_ st. (write_status 204, st)) st)"

definition getCollectionAccess :: "request \<Rightarrow> ('c, 'a, 'l, 'w, admin_response) app_op" where
  "getCollectionAccess r = with_id r ''userId'' (\<lambda>u.
     call_or (query (CollectionsAccessibleByUser u)) (fail 500 ''db error'') (\<lambda>ids st. (writeJSON 200 (IdList ids), st)))"

definition grantCollectionAccess :: "request \<Rightarrow> int list option \<Rightarrow> ('c, 'a, 'l, 'w, admin_response) app_op" where
  "grantCollectionAccess r body = with_id r ''userId'' (\<lambda>u st.
     case nonempty_ids ''collection_ids'' body of
       Inl resp \<Rightarrow> (resp, st)
     | Inr ids \<Rightarrow> call_or (query (CollectionGrantAccessToUser u ids)) (fail 500 ''db error'') (\<lambda>_ st. (write_status 204, st)) st)"

text \<open>The statements between \<open>Begin\<close> and \<open>Commit\<close>.\<close>

definition replace_access :: "int \<Rightarrow> int list \<Rightarrow> unit statement" where
  "replace_access u ids = call_or (UserDeleteAllCollectionAccess u) (\<lambda>e s. (Inl e, s))
     (\<lambda>_ s. if ids \<noteq> [] then CollectionGrantAccessToUser u ids s else (Inr (), s))"

definition setCollectionAccess :: "request \<Rightarrow> int list option \<Rightarrow> ('c, 'a, 'l, 'w, admin_response) app_op" where
  "setCollectionAccess r body = with_id r ''userId'' (\<lambda>u. with_body body (\<lambda>ids.
     call_or (query (transaction (replace_access u ids))) (fail 500 ''db error'') (\<lambda>_ st. (write_status 204, st))))"

definition revokeCollectionAccess :: "request \<Rightarrow> ('c, 'a, 'l, 'w, admin_response) app_op" where
  "revokeCollectionAccess r = with_id r ''userId'' (\<lambda>u. with_id r ''collectionId'' (\<lambda>i.
     call_or (query (UserDeleteCollectionAccess u i)) (fail 500 ''db error'') (\<lambda>_ st. (write_status 204, st))))"

section \<open>Media items and directories\<close>

definition hideMediaItem :: "request \<Rightarrow> ('c, 'a, 'l, 'w, admin_response) app_op" where
  "hideMediaItem r = with_id r ''id'' (\<lambda>i.
     call_or (query (MediaItemSetHidden i True)) (fail 500 ''db error'') (\<lambda>_ st. (write_status 204, st)))"

definition unhideMediaItem :: "request \<Rightarrow> ('c, 'a, 'l, 'w, admin_response) app_op" where
  "unhideMediaItem r = with_id r ''id'' (\<lambda>i.
     call_or (query (MediaItemSetHidden i False)) (fail 500 ''db error'') (\<lambda>_ st. (write_status 204, st)))"

text \<open>The type of the first regular file with a known extension.\<close>

fun guess_type :: "dir_entry list \<Rightarrow> string" where
  "guess_type [] = ''video:movie''"
| "guess_type (e # es) =
     (if \<not> de_regular e then guess_type es
      else case map_of SupportedExtensions (filepath_Ext (de_name e)) of
        None \<Rightarrow> guess_type es
      | Some mime \<Rightarrow>
          if has_prefix mime ''image'' then ''image:photo''
          else if has_prefix mime ''audio'' then ''audio:music''
          else if has_prefix mime ''video'' then ''video:movie''
          else guess_type es)"

definition list_entry :: "('c, 'a, 'l, 'w) admin_env \<Rightarrow> string \<Rightarrow> dir_entry \<Rightarrow> (string \<times> string) option" where
  "list_entry env full e =
     (let p = path_join [full, de_name e] in
      case stat env p of
        Some True \<Rightarrow> map_option (\<lambda>es. (de_name e, guess_type es)) (read_dir env p)
      | _ \<Rightarrow> None)"

text \<open>The directory to read, when the path of the request stays below the media directory.\<close>

definition listed_directory :: "string \<Rightarrow> string \<Rightarrow> string option" where
  "listed_directory mediaPath raw =
     (case url_PathUnescape raw of
        None \<Rightarrow> None
      | Some subPath \<Rightarrow>
          if contains_dotdot subPath then None
          else
            let base = filepath_Clean mediaPath; full = filepath_Clean (path_join [base, subPath]) in
            if full \<noteq> base \<and> \<not> has_prefix full (base @ ''/'') then None else Some full)"

definition listDirectories ::
  "('c, 'a, 'l, 'w) admin_env \<Rightarrow> request \<Rightarrow> ('c, 'a, 'l, 'w, admin_response) app_op" where
  "listDirectories env r st =
     (case listed_directory (media_path env) (URLParam r ''*'') of
        None \<Rightarrow> (writeError 404 ''not found'', st)
      | Some full \<Rightarrow>
          (case read_dir env full of
             None \<Rightarrow> (writeError 404 ''not found'', st)
           | Some es \<Rightarrow> (writeJSON 200 (DirectoryList (List.map_filter (list_entry env full) es)), st)))"

section \<open>Routes\<close>

datatype admin_call =
    ListUsers | CreateUserCall "user_body option" | DeleteUser | ChangeUserCredentials "raw_message option"
  | ListUserDevices | RevokeAllUserDevices | RevokeUserDevice
  | ListCollections | CreateCollectionCall "collection_body option" | DeleteCollection
  | UploadCollectionCover upload | DeleteCollectionCover | DeleteDerivatives
  | ListCollectionUsers | GrantUsersCollectionAccess "int list option"
  | ListJobs | CreateJobCall "job_body option" | GetJob
  | ListSchedules | UpsertSchedule "schedule_body option" | DeleteSchedule
  | GetCollectionAccess | GrantCollectionAccess "int list option" | SetCollectionAccess "int list option"
  | RevokeCollectionAccess | HideMediaItem | UnhideMediaItem | ListDirectories

fun admin_handler ::
  "('c, 'a, 'l, 'w) admin_env \<Rightarrow> admin_call \<Rightarrow> request \<Rightarrow> claims \<Rightarrow> ('c, 'a, 'l, 'w, admin_response) app_op" where
  "admin_handler env ListUsers r c = listUsers"
| "admin_handler env (CreateUserCall b) r c = createUser env b"
| "admin_handler env DeleteUser r c = deleteUser r c"
| "admin_handler env (ChangeUserCredentials b) r c = changeUserCredentials env r b"
| "admin_handler env ListUserDevices r c = listUserDevices r"
| "admin_handler env RevokeAllUserDevices r c = revokeAllUserDevices env r"
| "admin_handler env RevokeUserDevice r c = revokeUserDevice env r"
| "admin_handler env ListCollections r c = listCollections"
| "admin_handler env (CreateCollectionCall b) r c = createCollection env b"
| "admin_handler env DeleteCollection r c = deleteCollection env r"
| "admin_handler env (UploadCollectionCover up) r c = uploadCollectionCover env r up"
| "admin_handler env DeleteCollectionCover r c = deleteCollectionCover env r"
| "admin_handler env DeleteDerivatives r c = deleteDerivatives env r"
| "admin_handler env ListCollectionUsers r c = listCollectionUsers r"
| "admin_handler env (GrantUsersCollectionAccess b) r c = grantUsersCollectionAccess r b"
| "admin_handler env ListJobs r c = listJobs env r"
| "admin_handler env (CreateJobCall b) r c = createJob env b"
| "admin_handler env GetJob r c = getJob env r"
| "admin_handler env ListSchedules r c = listSchedules"
| "admin_handler env (UpsertSchedule b) r c = upsertSchedule r b"
| "admin_handler env DeleteSchedule r c = deleteSchedule r"
| "admin_handler env GetCollectionAccess r c = getCollectionAccess r"
| "admin_handler env (GrantCollectionAccess b) r c = grantCollectionAccess r b"
| "admin_handler env (SetCollectionAccess b) r c = setCollectionAccess r b"
| "admin_handler env RevokeCollectionAccess r c = revokeCollectionAccess r"
| "admin_handler env HideMediaItem r c = hideMediaItem r"
| "admin_handler env UnhideMediaItem r c = unhideMediaItem r"
| "admin_handler env ListDirectories r c = listDirectories env r"

definition serve_admin ::
  "('c, 'a, 'l, 'w) admin_env \<Rightarrow> admin_call \<Rightarrow> request \<Rightarrow> ('c, 'a, 'l, 'w, admin_response) app_op" where
  "serve_admin env q r = call_or (on_srv (check_token (aenv env) True r)) (\<lambda>resp st. (resp, st)) (admin_handler env q r)"

end
