(* ===== verification/AdminJobs.thy ===== *)
theory AdminJobs
  imports AdminApi
begin

text \<open>
  Jobs that anyone can start: the administrator's request checks and enqueues through the same
  interface as the scheduler, so that no target ever has two unfinished jobs.
\<close>

definition app_load :: "string \<Rightarrow> int option \<Rightarrow> ('c, 'a, 'l, 'w) app \<Rightarrow> nat" where
  "app_load ty rid st = db_load ty rid (sdb (srv st))"

lemma app_load_disp: "app_load t r (snd (on_disp f st)) = active_load t r (snd (f (lend st)))"
  by (simp add: app_load_def active_load_def)

lemma app_load_lend: "active_load t r (lend st) = app_load t r st"
  by (simp add: app_load_def active_load_def)

lemma on_disp_result: "on_disp f st = (res, st') \<Longrightarrow> f (lend st) = (res, snd (f (lend st))) \<and> st' = snd (on_disp f st)"
  by (auto simp: on_disp_def split: prod.splits)

text \<open>The routes of the administrator provide the interface, too.\<close>

interpretation admin: enqueue_service
  "\<lambda>ty rid rty. on_disp (Enqueue ty rid rty)" "\<lambda>ty rid. on_disp (job_check ty rid)" app_load
proof (unfold_locales, goal_cases)
  case (1 t r ty rid st)
  show ?case by (simp add: app_load_disp disp.check_load app_load_lend)
next
  case (2 ty rid st st')
  then show ?case using disp.check_free [of ty rid "lend st"] by (metis on_disp_result app_load_lend)
next
  case (3 ty rid rty st e st' t r)
  then show ?case using disp.enqueue_fails [of ty rid rty "lend st"] by (metis on_disp_result app_load_disp app_load_lend)
next
  case (4 ty rid rty st i st' t r)
  then show ?case using disp.enqueue_adds [of ty rid rty "lend st"] by (metis on_disp_result app_load_disp app_load_lend)
qed

section \<open>What leaves the jobs alone\<close>

definition same_jobs :: "('c, 'a, 'l, 'w) app \<Rightarrow> ('c, 'a, 'l, 'w) app \<Rightarrow> bool" where
  "same_jobs st st' \<longleftrightarrow> jobs (sdb (srv st')) = jobs (sdb (srv st))"

lemma same_jobs_load: "same_jobs st st' \<Longrightarrow> app_load t r st' = app_load t r st"
  by (simp add: same_jobs_def app_load_def db_load_def)

lemma same_jobs_refl [simp]: "same_jobs st st"
  by (simp add: same_jobs_def)

lemma same_jobs_trans: "same_jobs st st' \<Longrightarrow> same_jobs st' st'' \<Longrightarrow> same_jobs st st''"
  by (simp add: same_jobs_def)

lemma query_same_jobs: "(\<And>s. jobs (snd (stmt s)) = jobs s) \<Longrightarrow> query stmt st = (res, st') \<Longrightarrow> same_jobs st st'"
  using query_sel(2) [of stmt st] by (simp add: same_jobs_def)

lemma admin_selects:
  "jobs (snd (JobGet i s)) = jobs s" "jobs (snd (CollectionGet j s)) = jobs s" "jobs (snd (JobSubJobCounts i s)) = jobs s"
  by (simp_all add: JobGet_def CollectionGet_def JobSubJobCounts_def select_jobs)

lemma enrichJob_same_jobs: "enrichJob env j st = (jr, st') \<Longrightarrow> same_jobs st st'"
  by (auto simp: enrichJob_def Let_def split: option.splits prod.splits if_splits sum.splits
      dest!: query_same_jobs [OF admin_selects(2)] query_same_jobs [OF admin_selects(3)] elim: same_jobs_trans)

lemma check_token_db: "check_token env adm r sv = (res, sv') \<Longrightarrow> sdb sv' = sdb sv"
  by (auto simp: check_token_def Let_def split: option.splits prod.splits if_splits)

lemma check_same_jobs: "on_srv (check_token env adm r) st = (res, st') \<Longrightarrow> same_jobs st st'"
  by (auto simp: same_jobs_def on_srv_def dest!: check_token_db split: prod.splits)

section \<open>One unfinished job per target\<close>

definition single_app :: "('c, 'a, 'l, 'w) app \<Rightarrow> bool" where
  "single_app st \<longleftrightarrow> (\<forall>ty rid. app_load ty rid st \<le> 1)"

lemma single_same: "same_jobs st st' \<Longrightarrow> single_app st \<Longrightarrow> single_app st'"
  by (simp add: single_app_def same_jobs_load)

lemma createJob_single:
  assumes "single_app st"
  shows "single_app (snd (createJob env body st))"
proof -
  have finish: "single_app (snd (call_or (query (JobGet i)) (fail 500 m)
      (\<lambda>j st. case enrichJob env j st of (jr, st) \<Rightarrow> (writeJSON 201 (OneJob jr), st)) st1))"
    if "single_app st1" for i m st1
    by (rule call_or_rule [where Q = "\<lambda>x. single_app (snd x)"])
      (auto simp: fail_def split: prod.split intro: single_same [OF _ that]
        dest!: query_same_jobs [OF admin_selects(1)] enrichJob_same_jobs elim: same_jobs_trans)
  have enq: "single_app st2"
    if "on_disp (job_check ty rid) st = (Inr False, st1)" and "on_disp (Enqueue ty rid rty) st1 = (res, st2)"
    for ty rid rty st1 res st2
    using admin.guarded_single [OF _ that(1), of _ _ rty] assms that(2) by (simp add: single_app_def)
  have checked: "single_app st1" if "on_disp (job_check ty rid) st = (res, st1)" for ty rid res st1
    using admin.check_keeps [OF that] assms by (simp add: single_app_def)
  show ?thesis
    unfolding createJob_def with_body_def
    apply (auto simp: fail_def assms split: sum.split)
    apply (rule call_or_rule [where Q = "\<lambda>x. single_app (snd x)"])
    apply (auto simp: fail_def checked)
    apply (rule call_or_rule [where Q = "\<lambda>x. single_app (snd x)"])
     apply (simp add: fail_def enq)
    apply (rule finish, erule (1) enq)
    done
qed

subsection \<open>The parent of the transcodes\<close>

lemma sort_empty: "sort xs = [] \<longleftrightarrow> xs = []" for xs :: "int list"
  by (metis set_empty set_sort)

lemma no_transcode_parent:
  assumes "JobGetTranscodeParent s = (Inl NoRows, s')"
  shows "db_load ''video_transcode'' rid s = 0" and "db_load ty rid' s' = db_load ty rid' s"
proof -
  let ?ids = "map job_id (filter (\<lambda>j. job_type j = ''video_transcode'' \<and> job_active j) (jobs s))"
  have "?ids = [] \<and> jobs s' = jobs s"
  proof (rule sql_result [OF assms [unfolded JobGetTranscodeParent_def]], goal_cases)
    case (2 fs)
    then show ?case by (cases "sort ?ids") (auto simp: sort_empty)
  qed simp
  then show "db_load ''video_transcode'' rid s = 0" "db_load ty rid' s' = db_load ty rid' s"
    by (auto simp: db_load_def filter_empty_conv)
qed

lemma subjob_load:
  "JobCreate ty rid rty (Some p) s = (res, s') \<Longrightarrow> db_load t r s' = db_load t r s"
  unfolding JobCreate_def
  by (erule sql_result) (auto simp: db_load_def new_job_def job_active_def split: if_splits)

lemma parent_keeps: "JobGetTranscodeParent s = (res, s') \<Longrightarrow> jobs s' = jobs s"
  using sql_preserves [where P = "\<lambda>x. jobs x = jobs s" and s = s] unfolding JobGetTranscodeParent_def
  by (metis (no_types, lifting) select_jobs snd_conv)

lemma findOrCreate_single:
  assumes "single_jobs d"
  shows "single_jobs (snd (findOrCreateTranscodeParent d))"
proof -
  obtain res s1 where get: "JobGetTranscodeParent (d_db d) = (res, s1)" by fastforce
  then have keep: "single_jobs (d\<lparr> d_db := s1 \<rparr>)"
    using assms parent_keeps [OF get] by (simp add: single_jobs_def active_load_def db_load_def)
  show ?thesis
  proof (cases "res = Inl NoRows")
    case False
    then show ?thesis using get keep
      by (cases res) (auto simp: findOrCreateTranscodeParent_def call_or_def Dispatcher.on_db_def)
  next
    case True
    obtain res2 s2 where new: "JobCreate ''video_transcode'' None None None s1 = (res2, s2)" by fastforce
    note free = no_transcode_parent [OF get [unfolded True]]
    have "db_load ty rid s2 \<le> 1" for ty rid
      using assms free(1) [of rid] free(2) [of ty rid] new JobCreate_Inl [of _ _ _ s1 _ s2 ty rid]
        JobCreate_Inr [of _ _ _ s1 _ s2 ty rid]
      by (cases res2) (auto simp: single_jobs_def active_load_def)
    then show ?thesis using get new True
      by (cases res2) (simp_all add: findOrCreateTranscodeParent_def call_or_def Dispatcher.on_db_def single_jobs_def active_load_def)
  qed
qed

lemma Attach_single:
  assumes "single_jobs d"
  shows "single_jobs (AttachTranscodeSubJob jc item d)"
proof -
  have "single_jobs (snd (call_or findOrCreateTranscodeParent (\<lambda>e d. ((), d))
      (\<lambda>parent d. ((), snd (Dispatcher.on_db (JobCreate ''video_transcode_item'' (Some item) (Some ''media_item'') (Some parent)) d))) d))"
  proof (rule call_or_rule [where Q = "\<lambda>x. single_jobs (snd x)"])
    fix e d1 assume "findOrCreateTranscodeParent d = (Inl e, d1)"
    then show "single_jobs (snd ((), d1))" using findOrCreate_single [OF assms] by simp
  next
    fix parent d1 assume "findOrCreateTranscodeParent d = (Inr parent, d1)"
    then have "single_jobs d1" using findOrCreate_single [OF assms] by simp
    then show "single_jobs (snd ((), snd (Dispatcher.on_db (JobCreate ''video_transcode_item'' (Some item) (Some ''media_item'') (Some parent)) d1)))"
      by (auto simp: Dispatcher.on_db_def single_jobs_def active_load_def subjob_load split: prod.split)
  qed
  then show ?thesis using assms by (simp add: AttachTranscodeSubJob_def)
qed

subsection \<open>Every source of jobs\<close>

datatype job_source = ByTrigger string | ByRequest request "job_body option" | ByTranscode job_ctx int

fun start_job :: "('c, 'a, 'l, 'w) admin_env \<Rightarrow> job_source \<Rightarrow> ('c, 'a, 'l, 'w) app \<Rightarrow> ('c, 'a, 'l, 'w) app" where
  "start_job env (ByTrigger name) st = snd (on_disp (\<lambda>d. ((), triggerSchedule name d)) st)"
| "start_job env (ByRequest r b) st = snd (serve_admin env (CreateJobCall b) r st)"
| "start_job env (ByTranscode jc item) st = snd (on_disp (\<lambda>d. ((), AttachTranscodeSubJob jc item d)) st)"

lemma single_lend: "single_jobs (lend st) \<longleftrightarrow> single_app st"
  by (simp add: single_jobs_def single_app_def app_load_lend)

lemma single_on_disp: "single_jobs (snd (f (lend st))) \<Longrightarrow> single_app (snd (on_disp f st))"
  by (simp add: single_jobs_def single_app_def app_load_disp)

lemma start_job_single:
  assumes "single_app st"
  shows "single_app (start_job env q st)"
proof (cases q)
  case (ByTrigger name)
  then show ?thesis using assms by (simp add: single_on_disp triggerSchedule_single single_lend)
next
  case (ByTranscode jc item)
  then show ?thesis using assms by (simp add: single_on_disp Attach_single single_lend)
next
  case (ByRequest r b)
  have "single_app (snd (serve_admin env (CreateJobCall b) r st))"
    unfolding serve_admin_def
    by (rule call_or_rule [where Q = "\<lambda>x. single_app (snd x)"])
      (auto intro!: createJob_single dest!: check_same_jobs intro: single_same assms)
  then show ?thesis using ByRequest by simp
qed


text \<open>Two triggers of one schedule, a request for the same job and a transcode, on the concrete
  server.\<close>

definition demo_admin_env ::
  "((int \<times> time) list, (string \<times> time list) list, (string \<times> time) list, unit) admin_env" where
  "demo_admin_env = \<lparr> aenv = demo_env, media_path = ''/media'', data_path = ''/data'', job_registry = Map.empty,
     stat = (\<lambda>p. Some True), read_dir = (\<lambda>p. Some []), can_remove = (\<lambda>p. True), collection_cover = (\<lambda>p i. True) \<rparr>"

definition demo_app :: "((int \<times> time) list, (string \<times> time list) list, (string \<times> time) list, unit) app" where
  "demo_app = \<lparr> srv = demo_server, disp = NewDispatcher demo_db [] (), reload = Some False, removed = [] \<rparr>"

definition demo_sources :: "job_source list" where
  "demo_sources = [ByTrigger ''cover_cycle'', ByTrigger ''cover_cycle'',
     ByRequest demo_request (Some \<lparr> jb_related_id = None, jb_related_type = None, jb_type = ''cover_cycle'' \<rparr>)]"


end
