(* ===== verification/AdminProps.thy ===== *)
theory AdminProps
  imports AdminJobs
begin

text \<open>
  What the administrator's routes for access and users do: replacing the access of a user takes
  effect as a whole or not at all, and deleting a user takes none of its tokens away.
\<close>

section \<open>Transactions\<close>

lemma transaction_cases:
  obtains (Undone) e fs where "transaction body s0 = (Inl e, s0\<lparr> faults := fs \<rparr>)"
  | (Committed) x fs fs' s2 where "body (s0\<lparr> faults := fs \<rparr>) = (Inr x, s2)"
      and "transaction body s0 = (Inr x, s2\<lparr> faults := fs' \<rparr>)"
proof -
  obtain r1 s1 where started: "sql (\<lambda>s. (Inr (), s)) s0 = (r1, s1)" by fastforce
  show ?thesis
  proof (rule sql_result [OF started])
    fix fs assume "r1 = Inl ConnFailure" "s1 = s0\<lparr> faults := fs \<rparr>"
    then show ?thesis using started by (intro Undone) (simp add: transaction_def)
  next
    fix fs assume "(Inr (), s0\<lparr> faults := fs \<rparr>) = (r1, s1)"
    then have s1: "r1 = Inr ()" "s1 = s0\<lparr> faults := fs \<rparr>" by simp_all
    obtain r2 s2 where body: "body s1 = (r2, s2)" by fastforce
    show ?thesis
    proof (cases r2)
      case (Inl e)
      then show ?thesis using started s1 body by (intro Undone) (simp add: transaction_def)
    next
      case (Inr x)
      obtain r3 s3 where commit: "sql (\<lambda>s. (Inr (), s)) s2 = (r3, s3)" by fastforce
      show ?thesis
      proof (rule sql_result [OF commit])
        fix fs' assume "r3 = Inl ConnFailure" "s3 = s2\<lparr> faults := fs' \<rparr>"
        then show ?thesis using started s1 body Inr commit by (intro Undone) (simp add: transaction_def)
      next
        fix fs' assume "(Inr (), s2\<lparr> faults := fs' \<rparr>) = (r3, s3)"
        then show ?thesis using started s1 body Inr commit by (intro Committed) (auto simp: transaction_def)
      qed
    qed
  qed
qed

section \<open>Replacing the access of a user\<close>

lemma set_add_access: "set (collection_access (add_access new s)) = set (collection_access s) \<union> set new"
proof -
  have "set (fold (\<lambda>a acc. if a \<in> set acc then acc else acc @ [a]) new xs) = set xs \<union> set new" for xs :: "(int \<times> int) list"
    by (induction new arbitrary: xs) auto
  then show ?thesis by (simp add: add_access_def)
qed

lemma replace_access_Inr:
  assumes "replace_access u ids s = (Inr x, s')"
  shows "(v, c) \<in> set (collection_access s') \<longleftrightarrow>
    (if v = u then c \<in> set ids \<and> is_root c s else (v, c) \<in> set (collection_access s))"
proof -
  obtain s1 y where del: "UserDeleteAllCollectionAccess u s = (Inr y, s1)"
    and rest: "(if ids \<noteq> [] then CollectionGrantAccessToUser u ids s1 else (Inr (), s1)) = (Inr x, s')"
    using assms unfolding replace_access_def
    by (rule_tac call_or_cases [of "UserDeleteAllCollectionAccess u" s]) auto
  obtain fs where "(Inr (), s\<lparr> faults := fs, collection_access := filter (\<lambda>a. fst a \<noteq> u) (collection_access s) \<rparr>) = (Inr y, s1)"
    using sql_InrE [OF del [unfolded UserDeleteAllCollectionAccess_def]] by auto
  then have s1: "s1 = s\<lparr> faults := fs, collection_access := filter (\<lambda>a. fst a \<noteq> u) (collection_access s) \<rparr>"
    by simp
  show ?thesis
  proof (cases "ids = []")
    case True
    then show ?thesis using rest s1 by auto
  next
    case False
    then have "CollectionGrantAccessToUser u ids s1 = (Inr x, s')" using rest by simp
    then obtain fs' where "s' = add_access (map (\<lambda>i. (u, i)) (filter (\<lambda>i. is_root i s1) ids)) (s1\<lparr> faults := fs' \<rparr>)"
      unfolding CollectionGrantAccessToUser_def
      by (elim sql_InrE) (auto simp: grant_def is_root_def split: if_splits)
    then show ?thesis using s1 by (auto simp: set_add_access is_root_def)
  qed
qed

text \<open>C9: Setting the collections a user may see is all or nothing: after the answer 204 the user has
  access to exactly the top-level collections of the request and nobody else's access has
  changed; after any other answer, whichever statement failed, every access is what it was.\<close>

theorem set_access_is_atomic:
  assumes "strconv_Atoi (URLParam r ''userId'') = (u, None)"
    and "setCollectionAccess r body st = (resp, st')"
  shows "if resp_status resp = 204
    then \<exists>ids. body = Some ids \<and> (\<forall>v c. (v, c) \<in> set (collection_access (sdb (srv st'))) \<longleftrightarrow>
      (if v = u then c \<in> set ids \<and> is_root c (sdb (srv st)) else (v, c) \<in> set (collection_access (sdb (srv st)))))
    else collection_access (sdb (srv st')) = collection_access (sdb (srv st))"
proof (cases body)
  case None
  then show ?thesis using assms
    by (auto simp: setCollectionAccess_def with_id_def with_body_def decodeJSON_def urlIntParam_def writeError_def)
next
  case (Some ids)
  let ?s = "sdb (srv st)" and ?tx = "transaction (replace_access u ids)"
  have run: "call_or (query ?tx) (fail 500 ''db error'') (\<lambda>_ st. (write_status 204, st)) st = (resp, st')"
    using assms Some by (simp add: setCollectionAccess_def with_id_def with_body_def decodeJSON_def urlIntParam_def)
  have q: "query ?tx st = (fst (?tx ?s), snd (query ?tx st))" by (metis prod.collapse query_sel(1))
  have s': "sdb (srv (snd (query ?tx st))) = snd (?tx ?s)" by simp
  show ?thesis
  proof (rule transaction_cases [of "replace_access u ids" ?s])
    fix e fs assume t: "?tx ?s = (Inl e, ?s\<lparr> faults := fs \<rparr>)"
    then have "resp = writeError 500 ''db error''" "st' = snd (query ?tx st)"
      using run q by (simp_all add: fail_def call_or_def split: prod.splits)
    then show ?thesis using s' t by (simp add: writeError_def)
  next
    fix x fs fs' s2
    assume b: "replace_access u ids (?s\<lparr> faults := fs \<rparr>) = (Inr x, s2)" and t: "?tx ?s = (Inr x, s2\<lparr> faults := fs' \<rparr>)"
    then have "resp = write_status 204" "st' = snd (query ?tx st)"
      using run q by (simp_all add: call_or_def split: prod.splits)
    then show ?thesis
      using s' t replace_access_Inr [OF b] Some by (simp add: write_status_def is_root_def)
  qed
qed

text \<open>Bob may see the collection 1; the administrator moves him to the collection 2, of which 3 is a
  part.\<close>

definition demo_coll :: "int \<Rightarrow> int option \<Rightarrow> collection" where
  "demo_coll i parent = \<lparr> coll_id = i, parent_collection_id = parent, root_collection_id = Some (case parent of None \<Rightarrow> i | Some p \<Rightarrow> p),
     coll_name = ''films'', coll_type = ''video:movie'', coll_path = Some ''films'', is_enabled = True,
     manual_thumbnail = False, last_scanned_at = None, coll_missing_since = None, coll_created_at = 0 \<rparr>"

definition demo_library :: "((int \<times> time) list, (string \<times> time list) list, (string \<times> time) list, unit) app" where
  "demo_library = demo_app\<lparr> srv := demo_server\<lparr> sdb := demo_db\<lparr>
     collections := [demo_coll 1 None, demo_coll 2 None, demo_coll 3 (Some 2)], collection_access := [(2, 1)] \<rparr> \<rparr> \<rparr>"

definition demo_target :: request where
  "demo_target = demo_request\<lparr> url_params := [(''userId'', ''2''), (''id'', ''2'')] \<rparr>"

lemma demo_target_user: "strconv_Atoi (URLParam demo_target ''userId'') = (2, None)"
    "strconv_Atoi (URLParam demo_target ''id'') = (2, None)"
  by (simp_all add: demo_target_def demo_request_def URLParam_def lookup_param_def strconv_Atoi_def strconv_ParseUint_def
      is_digit_def digit_val_def)

lemma demo_access_run:
  "resp_status (fst (setCollectionAccess demo_target (Some [2, 3]) demo_library)) = 204"
  using demo_target_user(1)
  by (simp add: setCollectionAccess_def with_id_def with_body_def decodeJSON_def urlIntParam_def call_or_def
      query_def on_srv_def AuthCore.on_db_def transaction_def replace_access_def UserDeleteAllCollectionAccess_def
      CollectionGrantAccessToUser_def grant_def user_exists_def demo_library_def demo_server_def demo_db_def empty_db_def
      write_status_def is_root_def demo_coll_def add_access_def sql_def)

theorem set_access_is_atomic_witness:
  "(2, 2) \<in> set (collection_access (sdb (srv (snd (setCollectionAccess demo_target (Some [2, 3]) demo_library)))))
    \<and> (2, 1) \<notin> set (collection_access (sdb (srv (snd (setCollectionAccess demo_target (Some [2, 3]) demo_library)))))"
proof -
  obtain resp st' where run: "setCollectionAccess demo_target (Some [2, 3]) demo_library = (resp, st')" by fastforce
  have "is_root 2 (sdb (srv demo_library))"
    by (simp add: is_root_def demo_library_def demo_coll_def)
  then show ?thesis
    using set_access_is_atomic [OF demo_target_user(1) run] demo_access_run by (simp add: run)
qed

section \<open>Deleting a user\<close>

lemma UserDelete_clock: "clock (snd (UserDelete i s)) = clock s"
  unfolding UserDelete_def by (rule sql_preserves) simp_all

lemma check_token_same:
  assumes "sguard sv' = sguard sv" and "server_now sv' = server_now sv"
  shows "fst (check_token env adm r sv') = fst (check_token env adm r sv)"
  using assms by (auto simp: check_token_def Let_def split: option.split prod.split)

text \<open>Deleting a user takes no access token away: for every request the middleware decides after the
  deletion as it did before, so the tokens of a user that no longer exists, an administrator's
  included, work until they expire. (Revoking the user's devices first would block them.)\<close>

lemma deleted_user_keeps_tokens:
  assumes "faults (sdb (srv st)) = []" and "strconv_Atoi (URLParam r ''id'') = (u, None)" and "u \<noteq> claims_user c"
    and "\<exists>x \<in> set (users (sdb (srv st))). user_id x = u"
    and "deleteUser r c st = (resp, st')"
  shows "resp_status resp = 204 \<and> (\<forall>x \<in> set (users (sdb (srv st'))). user_id x \<noteq> u)
    \<and> (\<forall>adm q. fst (check_token env adm q (srv st')) = fst (check_token env adm q (srv st)))"
proof -
  let ?s = "sdb (srv st)" and ?n = "int (length (filter (\<lambda>x. user_id x = u) (users (sdb (srv st)))))"
  have n: "?n \<noteq> 0" using assms(4) by (auto simp: filter_empty_conv)
  have del: "UserDelete u ?s = (Inr ?n, snd (UserDelete u ?s))" "users (snd (UserDelete u ?s)) = filter (\<lambda>x. user_id x \<noteq> u) (users ?s)"
    using assms(1) by (simp_all add: UserDelete_def)
  then have "query (UserDelete u) st = (Inr ?n, snd (query (UserDelete u) st))" by (metis fst_conv prod.collapse query_sel(1))
  then have "resp = write_status 204" "st' = snd (query (UserDelete u) st)"
    using assms(2,3,5) n by (auto simp: deleteUser_def with_id_def urlIntParam_def)
  moreover have "sguard (srv (snd (query (UserDelete u) st))) = sguard (srv st)" by simp
  moreover have "server_now (srv (snd (query (UserDelete u) st))) = server_now (srv st)"
    by (simp add: server_now_def UserDelete_clock)
  ultimately show ?thesis
    using del(2) by (auto simp: write_status_def intro: check_token_same)
qed

text \<open>Ann deletes Bob.\<close>

end
