(* ===== verification/DateLabelsProps.thy ===== *)
theory DateLabelsProps
  imports DateLabels
begin

text \<open>
  The dates in front of names: the raw form that a scan stores gives the label that the name
  itself gives, and a month beyond December panics. A date pattern reads a prefix of digits,
  dots and hyphens, then a separator, then the name; that contract is a locale, which the four
  patterns of the code satisfy.
\<close>

section \<open>Matchers of a date prefix\<close>

definition date_char :: "char \<Rightarrow> bool" where
  "date_char c \<longleftrightarrow> is_digit c \<or> c = CHR ''.'' \<or> c = CHR ''-''"

text \<open>A separator and the name after it.\<close>

definition named :: "char \<Rightarrow> string \<Rightarrow> bool" where
  "named c rest \<longleftrightarrow> name_rest (c # rest) = Some rest"

locale date_matcher =
  fixes p :: "string \<Rightarrow> ('g \<times> string) option"
  assumes splits: "p s = Some (g, rest) \<Longrightarrow> \<exists>pm c. s = pm @ c # rest \<and> list_all date_char pm \<and> named c rest"
    and stable: "list_all date_char pm \<Longrightarrow> named c rest \<Longrightarrow>
      p (pm @ c # rest) = map_option (\<lambda>(g, _). (g, rest)) (p (pm @ '' x''))"
begin

text \<open>Another name behind the same date gives the same groups.\<close>

lemma rename:
  assumes "list_all date_char pm" and "named c rest" and "named c' rest'"
  shows "p (pm @ c' # rest') = map_option (\<lambda>(g, _). (g, rest')) (p (pm @ c # rest))"
  using stable [OF assms(1,2)] stable [OF assms(1,3)] by (simp add: option.map_comp o_def split_def)

end

subsection \<open>Building blocks\<close>

lemma named_x: "named (CHR '' '') ''x''"
  by (simp add: named_def is_separator_def)

lemma named_D: "named c rest \<Longrightarrow> is_separator c \<and> rest \<noteq> [] \<and> CHR 0x0A \<notin> set rest"
  by (simp add: named_def split: if_splits)

lemma date_char_not_separator: "date_char c \<Longrightarrow> \<not> is_separator c"
  by (auto simp: date_char_def is_separator_def is_digit_def)

lemma separator_not_digit: "is_separator c \<Longrightarrow> \<not> is_digit c"
  by (auto simp: is_separator_def is_digit_def)

lemma name_rest_SomeD: "name_rest s = Some r \<Longrightarrow> \<exists>c. s = c # r \<and> named c r"
  by (cases s) (auto simp: named_def split: if_splits)

lemma matcher_rest: "date_matcher (\<lambda>s. do { rest \<leftarrow> name_rest s; Some (g, rest) })"
proof
  fix s g' rest
  assume "do { rest \<leftarrow> name_rest s; Some (g, rest) } = Some (g', rest)"
  then have "name_rest s = Some rest" by (auto split: bind_splits)
  then obtain c where "s = c # rest" "named c rest" using name_rest_SomeD by blast
  then show "\<exists>pm c. s = pm @ c # rest \<and> list_all date_char pm \<and> named c rest"
    by (intro exI [of _ "[]"]) simp
next
  fix pm c rest
  assume pm: "list_all date_char pm" and c: "named c rest"
  show "do { rest \<leftarrow> name_rest (pm @ c # rest); Some (g, rest) } =
      map_option (\<lambda>(g, _). (g, rest)) (do { rest \<leftarrow> name_rest (pm @ '' x''); Some (g, rest) })"
  proof (cases pm)
    case Nil
    then show ?thesis using c named_x by (simp add: named_def)
  next
    case (Cons d pm')
    then have "\<not> is_separator d" using pm by (simp add: date_char_not_separator)
    then show ?thesis using Cons by simp
  qed
qed

lemma digits_n_append:
  assumes "\<not> is_digit c"
  shows "digits_n n (pm @ c # rest) = map_option (\<lambda>(ds, s). (ds, s @ c # rest)) (digits_n n pm)"
proof (cases "n \<le> length pm")
  case False
  then have "c \<in> set (take n (pm @ c # rest))" by (cases "n - length pm") auto
  then have "\<not> list_all is_digit (take n (pm @ c # rest))" using assms by (auto simp: list_all_iff)
  then show ?thesis using False by (simp add: digits_n_def)
qed (simp add: digits_n_def)

lemma digits_n_SomeD: "digits_n n s = Some (ds, t) \<Longrightarrow> s = ds @ t \<and> list_all is_digit ds \<and> length ds = n"
  by (auto simp: digits_n_def split: if_splits)

lemma matcher_digits:
  assumes "\<And>ds. date_matcher (p ds)"
  shows "date_matcher (\<lambda>s. do { (ds, s) \<leftarrow> digits_n n s; p ds s })"
proof
  fix s g rest
  assume "do { (ds, s) \<leftarrow> digits_n n s; p ds s } = Some (g, rest)"
  then obtain ds t where d: "digits_n n s = Some (ds, t)" and m: "p ds t = Some (g, rest)"
    by (auto split: bind_splits)
  obtain pm c where "t = pm @ c # rest" "list_all date_char pm" "named c rest"
    using date_matcher.splits [OF assms m] by blast
  then show "\<exists>pm c. s = pm @ c # rest \<and> list_all date_char pm \<and> named c rest"
    using digits_n_SomeD [OF d] by (intro exI [of _ "ds @ pm"]) (auto simp: list_all_iff date_char_def)
next
  fix pm c rest
  assume pm: "list_all date_char pm" and c: "named c rest"
  have blank: "\<not> is_digit (CHR '' '')" by (simp add: is_digit_def)
  have nd: "\<not> is_digit c" using named_D [OF c] separator_not_digit by blast
  have "p ds (t @ c # rest) = map_option (\<lambda>(g, _). (g, rest)) (p ds (t @ '' x''))"
    if "digits_n n pm = Some (ds, t)" for ds t
    using digits_n_SomeD [OF that] pm by (intro date_matcher.stable [OF assms _ c]) simp
  then show "do { (ds, s) \<leftarrow> digits_n n (pm @ c # rest); p ds s } =
      map_option (\<lambda>(g, _). (g, rest)) (do { (ds, s) \<leftarrow> digits_n n (pm @ '' x''); p ds s })"
    using digits_n_append [OF nd, of n pm rest] digits_n_append [OF blank, of n pm "''x''"]
    by (cases "digits_n n pm") auto
qed

lemma matcher_literal:
  assumes "date_char k" and "date_matcher p"
  shows "date_matcher (\<lambda>s. do { s \<leftarrow> literal k s; p s })"
proof
  fix s g rest
  assume "do { s \<leftarrow> literal k s; p s } = Some (g, rest)"
  then obtain t where "s = k # t" and m: "p t = Some (g, rest)"
    by (cases s) (auto split: if_splits)
  then show "\<exists>pm c. s = pm @ c # rest \<and> list_all date_char pm \<and> named c rest"
    using date_matcher.splits [OF assms(2) m] assms(1) by (metis append_Cons list.pred_inject(2))
next
  fix pm c rest
  assume "list_all date_char pm" and c: "named c rest"
  moreover have "c \<noteq> k" "k \<noteq> CHR '' ''"
    using named_D [OF c] assms(1) date_char_not_separator by (auto simp: is_separator_def)
  ultimately show "do { s \<leftarrow> literal k (pm @ c # rest); p s } =
      map_option (\<lambda>(g, _). (g, rest)) (do { s \<leftarrow> literal k (pm @ '' x''); p s })"
    by (cases pm) (auto intro: date_matcher.stable [OF assms(2)])
qed

lemma matcher_first:
  "list_all date_matcher ps \<Longrightarrow> date_matcher (first_match ps)"
proof (induction ps)
  case Nil
  show ?case by unfold_locales simp_all
next
  case (Cons q ps)
  then have q: "date_matcher q" and ps: "date_matcher (first_match ps)" by simp_all
  show ?case
  proof
    fix s g rest
    assume "first_match (q # ps) s = Some (g, rest)"
    then show "\<exists>pm c. s = pm @ c # rest \<and> list_all date_char pm \<and> named c rest"
      using date_matcher.splits [OF q, of s] date_matcher.splits [OF ps, of s] by (auto split: option.splits)
  next
    fix pm c rest
    assume "list_all date_char pm" and "named c rest"
    then show "first_match (q # ps) (pm @ c # rest) =
        map_option (\<lambda>(g, _). (g, rest)) (first_match (q # ps) (pm @ '' x''))"
      using date_matcher.stable [OF q, of pm c rest] date_matcher.stable [OF ps, of pm c rest]
      by (auto split: option.split)
  qed
qed

lemma matcher_groups:
  assumes "date_matcher p"
  shows "date_matcher (\<lambda>s. do { (e, rest) \<leftarrow> p s; Some (h e, rest) })"
proof
  fix s g rest
  assume "do { (e, rest) \<leftarrow> p s; Some (h e, rest) } = Some (g, rest)"
  then obtain e where "p s = Some (e, rest)" by (auto split: bind_splits)
  then show "\<exists>pm c. s = pm @ c # rest \<and> list_all date_char pm \<and> named c rest"
    by (rule date_matcher.splits [OF assms])
next
  fix pm c rest
  assume "list_all date_char pm" and "named c rest"
  then show "do { (e, rest) \<leftarrow> p (pm @ c # rest); Some (h e, rest) } =
      map_option (\<lambda>(g, _). (g, rest)) (do { (e, rest) \<leftarrow> p (pm @ '' x''); Some (h e, rest) })"
    using date_matcher.stable [OF assms, of pm c rest] by (cases "p (pm @ '' x'')") auto
qed

lemma date_char_marks [simp]: "date_char (CHR ''.'')" "date_char (CHR ''-'')"
  by (simp_all add: date_char_def)

lemmas matcher_rules = matcher_digits matcher_literal matcher_first matcher_groups matcher_rest

subsection \<open>The patterns of the code\<close>

lemma day_end_matchers: "list_all date_matcher [end_date, end_month_day, end_day, no_end]"
  by (simp add: end_date_def [abs_def] end_month_day_def [abs_def] end_day_def [abs_def] no_end_def [abs_def])
    (intro conjI matcher_rules date_char_marks)

lemma month_end_matchers: "list_all date_matcher [month_end, no_month_end]"
  by (simp add: month_end_def [abs_def] no_month_end_def [abs_def])
    (intro conjI matcher_rules date_char_marks)

interpretation day: date_matcher datePatternDay
  unfolding datePatternDay_def [abs_def] by (intro matcher_rules day_end_matchers date_char_marks)

interpretation month: date_matcher datePatternMonth
  unfolding datePatternMonth_def [abs_def] by (intro matcher_rules month_end_matchers date_char_marks)

interpretation range: date_matcher datePatternYearRange
  unfolding datePatternYearRange_def [abs_def] by (intro matcher_rules date_char_marks)

interpretation year: date_matcher datePatternYear
  unfolding datePatternYear_def [abs_def] by (intro matcher_rules)

section \<open>Round trip of the raw date\<close>

text \<open>One of the patterns has matched: the name splits, and another name behind the date keeps the
  label.\<close>

lemma label_splits:
  assumes "parseDatePrefix name = Some (stripped, label)" and "label \<noteq> []"
  obtains pm c rest where "name = pm @ c # rest" and "list_all date_char pm" and "named c rest"
    and "stripped = trim_space rest"
proof (cases "datePatternDay name")
  case (Some m)
  then show ?thesis using assms(1) day.splits [of name "fst m" "snd m"]
    by (cases m) (auto simp: parseDatePrefix_def intro: that)
next
  case None
  note day = None
  show ?thesis
  proof (cases "datePatternMonth name")
    case (Some m)
    then show ?thesis using assms(1) day month.splits [of name "fst m" "snd m"]
      by (cases m) (auto simp: parseDatePrefix_def intro: that)
  next
    case None
    note month = None
    show ?thesis
    proof (cases "datePatternYearRange name")
      case (Some m)
      then show ?thesis using assms(1) day month range.splits [of name "fst m" "snd m"]
        by (cases m) (auto simp: parseDatePrefix_def intro: that)
    next
      case None
      then show ?thesis using assms day month year.splits [of name]
        by (auto simp: parseDatePrefix_def split: option.splits intro: that)
    qed
  qed
qed

lemma label_renamed:
  assumes "list_all date_char pm" and "named c rest" and "named c' rest'"
    and "parseDatePrefix (pm @ c # rest) = Some (stripped, label)" and "label \<noteq> []"
  shows "parseDatePrefix (pm @ c' # rest') = Some (trim_space rest', label)"
  using assms(4,5) day.rename [OF assms(1-3)] month.rename [OF assms(1-3)]
    range.rename [OF assms(1-3)] year.rename [OF assms(1-3)]
  by (auto simp: parseDatePrefix_def split: option.splits)

lemma trim_space_no_trailing:
  assumes "s \<noteq> []" and "\<not> is_space (last s)"
  shows "trim_space s = dropWhile is_space s"
proof -
  have ne: "dropWhile is_space s \<noteq> []"
    using assms by (auto simp: dropWhile_eq_Nil_conv intro!: bexI [of _ "last s"])
  then have "last (dropWhile is_space s) = last s" by (metis last_appendR takeWhile_dropWhile_id)
  then have "hd (rev (dropWhile is_space s)) = last s" using ne by (simp add: hd_rev)
  then have "dropWhile is_space (rev (dropWhile is_space s)) = rev (dropWhile is_space s)"
    using assms(2) ne by (cases "rev (dropWhile is_space s)") auto
  then show ?thesis by (simp add: trim_space_def)
qed

lemma trim_right_blanks_append:
  "list_all date_char pm \<Longrightarrow> trim_right_blanks (pm @ ws) = pm @ trim_right_blanks ws"
proof -
  assume pm: "list_all date_char pm"
  have "dropWhile (\<lambda>c. c = CHR '' '' \<or> c = CHR ''_'') (rev pm) = rev pm"
  proof (cases "rev pm")
    case (Cons c r)
    then have "date_char c" using pm by (metis list.pred_set list.set_intros(1) set_rev)
    then show ?thesis using Cons by (auto simp: date_char_def is_digit_def)
  qed simp
  then show ?thesis by (auto simp: trim_right_blanks_def dropWhile_append)
qed

lemma trim_right_blanks_splits: "\<exists>bs. ws = trim_right_blanks ws @ bs \<and> set bs \<subseteq> {CHR '' '', CHR ''_''}"
proof -
  let ?P = "\<lambda>c. c = CHR '' '' \<or> c = CHR ''_''"
  have "rev ws = takeWhile ?P (rev ws) @ dropWhile ?P (rev ws)" by simp
  then have "ws = trim_right_blanks ws @ rev (takeWhile ?P (rev ws))"
    by (metis rev_append rev_rev_ident trim_right_blanks_def)
  moreover have "set (rev (takeWhile ?P (rev ws))) \<subseteq> {CHR '' '', CHR ''_''}"
    using set_takeWhileD by fastforce
  ultimately show ?thesis by blast
qed

text \<open>C29: When a name has a date in front and no white space behind, the raw date that
  \<open>ExtractDatePrefixStr\<close> stores is the start of the name up to blanks, and \<open>ParseDateString\<close> turns
  it into the very label that \<open>ExtractDatePrefix\<close> shows for the name.\<close>

theorem stored_date_gives_same_label:
  assumes "ExtractDatePrefix name = Some (stripped, Some label)"
    and "\<not> is_space (last name)"
  shows "\<exists>raw blanks. ExtractDatePrefixStr name = Some (stripped, Some raw) \<and> name = raw @ blanks @ stripped
    \<and> set blanks \<subseteq> {CHR '' '', CHR ''_''} \<and> ParseDateString raw = Some (Some label)"
proof -
  have parsed: "parseDatePrefix name = Some (stripped, label)" and "label \<noteq> []"
    using assms(1) by (auto simp: ExtractDatePrefix_def split: bind_splits if_splits)
  then obtain pm c rest where name: "name = pm @ c # rest" and pm: "list_all date_char pm"
    and c: "named c rest" and st: "stripped = trim_space rest"
    by (rule label_splits)
  define ws where "ws = takeWhile is_space rest"
  define q where "q = trim_right_blanks (c # ws)"
  have rest: "rest \<noteq> []" "CHR 0x0A \<notin> set rest" using named_D [OF c] by auto
  then have "stripped = dropWhile is_space rest"
    using st assms(2) name by (simp add: trim_space_no_trailing)
  then have split: "name = (pm @ c # ws) @ stripped" by (simp add: name ws_def)
  obtain bs where bs: "c # ws = q @ bs" "set bs \<subseteq> {CHR '' '', CHR ''_''}"
    using trim_right_blanks_splits [of "c # ws"] by (auto simp: q_def)
  have raw: "trim_right_blanks (take (length name - length stripped) name) = pm @ q"
    unfolding split by (simp add: q_def trim_right_blanks_append [OF pm])
  obtain d rest' where d: "q @ '' x'' = d # rest'" and named': "named d rest'"
  proof (cases q)
    case Nil
    then show ?thesis using that named_x by simp
  next
    case (Cons e q')
    then have "e = c" "q' @ bs = ws" using bs(1) by simp_all
    then have "CHR 0x0A \<notin> set q'" using rest(2) set_takeWhileD unfolding ws_def by (metis Un_iff set_append)
    then show ?thesis using that [of c "q' @ '' x''"] Cons \<open>e = c\<close> named_D [OF c] by (simp add: named_def)
  qed
  have "parseDatePrefix ((pm @ q) @ '' x'') = Some (trim_space rest', label)"
    using label_renamed [OF pm c named' parsed [unfolded name] \<open>label \<noteq> []\<close>] d by simp
  moreover have "pm @ q \<noteq> []"
  proof
    assume "pm @ q = []"
    then have "parseDatePrefix '' x'' = Some (trim_space rest', label)" using calculation by simp
    then show False using \<open>label \<noteq> []\<close>
      by (auto simp: parseDatePrefix_def datePatternDay_def datePatternMonth_def datePatternYearRange_def
          datePatternYear_def digits_n_def)
  qed
  ultimately have "ParseDateString (pm @ q) = Some (Some label)"
    using \<open>label \<noteq> []\<close> by (simp add: ParseDateString_def)
  moreover have "ExtractDatePrefixStr name = Some (stripped, Some (pm @ q))"
    using parsed \<open>label \<noteq> []\<close> raw by (simp add: ExtractDatePrefixStr_def)
  moreover have "name = (pm @ q) @ bs @ stripped" using split bs(1) by simp
  ultimately show ?thesis using bs(2) by blast
qed

lemmas date_runs = ExtractDatePrefix_def ExtractDatePrefixStr_def ParseDateString_def parseDatePrefix_def datePatternDay_def
  datePatternMonth_def datePatternYearRange_def datePatternYear_def end_date_def end_month_day_def end_day_def
  no_end_def month_end_def no_month_end_def digits_n_def is_separator_def day_label_def month_label_def
  month_name_def monthNames_def atoi_def strconv_Atoi_def strconv_ParseUint_def is_digit_def digit_val_def
  strconv_Itoa_def nat_dec.simps digit_chars digit_char_0 Let_def

lemma demo_date: "ExtractDatePrefix ''2024.06.02-04 Trip'' = Some (''Trip'', Some ''June 2 - 4, 2024'')"
  by (simp add: date_runs trim_space_def is_space_def)

theorem stored_date_gives_same_label_witness:
  "\<exists>raw blanks. ExtractDatePrefixStr ''2024.06.02-04 Trip'' = Some (''Trip'', Some raw)
    \<and> ''2024.06.02-04 Trip'' = raw @ blanks @ ''Trip'' \<and> set blanks \<subseteq> {CHR '' '', CHR ''_''}
    \<and> ParseDateString raw = Some (Some ''June 2 - 4, 2024'')"
  by (rule stored_date_gives_same_label [OF demo_date]) (simp add: is_space_def)

section \<open>Months that do not exist\<close>

lemma atoi_two:
  assumes "length m = 2" and "list_all is_digit m"
  shows "atoi m = int (dec_value 0 m)"
proof -
  obtain a b where m: "m = [a, b]" using assms(1) by (metis One_nat_def Suc_1 length_0_conv length_Suc_conv)
  have "digit_val a < 10" "digit_val b < 10" using assms(2) m by simp_all
  then have "dec_value 0 m < 2 ^ 63" using m by simp
  then show ?thesis using assms(2) m by (simp add: atoi_def Atoi_digits)
qed

lemma digits_n_exact: "length ds = n \<Longrightarrow> list_all is_digit ds \<Longrightarrow> digits_n n (ds @ s) = Some (ds, s)"
  by (simp add: digits_n_def)

lemma month_pattern_panics:
  assumes "length y = 4" and "list_all is_digit y" and "length m = 2" and "list_all is_digit m"
    and "12 < dec_value 0 m" and "t \<noteq> []" and "CHR 0x0A \<notin> set t"
  shows "parseDatePrefix (y @ ''.'' @ m @ '' '' @ t) = None"
proof -
  have "datePatternDay (y @ ''.'' @ m @ '' '' @ t) = None"
    using assms(1-4) by (simp add: datePatternDay_def digits_n_exact)
  moreover have "datePatternMonth (y @ ''.'' @ m @ '' '' @ t) = Some ((y, m, []), t)"
    using assms by (simp add: datePatternMonth_def digits_n_exact month_end_def no_month_end_def is_separator_def)
  moreover have "month_label (y, m, []) = None"
    using assms(3,4,5) by (simp add: month_label_def atoi_two month_name_def)
  ultimately show ?thesis by (simp add: parseDatePrefix_def)
qed

text \<open>C30: A name that begins with a year and a month above twelve, as in \<open>2024.13 Trip\<close>, panics in every
  function that looks for a date: the month is used as an index without a check. The scan of a
  video file calls the first of them in a goroutine that nothing recovers.\<close>

theorem month_thirteen_panics:
  assumes "length y = 4" and "list_all is_digit y" and "length m = 2" and "list_all is_digit m"
    and "12 < dec_value 0 m" and "t \<noteq> []" and "CHR 0x0A \<notin> set t"
  shows "ExtractDatePrefixStr (y @ ''.'' @ m @ '' '' @ t) = None
    \<and> ExtractDatePrefix (y @ ''.'' @ m @ '' '' @ t) = None
    \<and> ParseDateString (y @ ''.'' @ m) = None"
  using month_pattern_panics [OF assms] month_pattern_panics [OF assms(1-5), of "''x''"]
  by (simp add: ExtractDatePrefixStr_def ExtractDatePrefix_def ParseDateString_def)

theorem month_thirteen_panics_witness:
  "ExtractDatePrefixStr ''2024.13 Trip'' = None \<and> ExtractDatePrefix ''2024.13 Trip'' = None
    \<and> ParseDateString ''2024.13'' = None"
  using month_thirteen_panics [of "''2024''" "''13''" "''Trip''"] by (simp add: is_digit_def digit_val_def)

end
