(* ===== verification/CollectionScan.thy ===== *)
theory CollectionScan
  imports Dispatcher MediaRepo Paths
begin

text \<open>
  \<open>internal/jobs/definitions/collection_scan.go\<close>: the job that brings the items of a collection in
  line with the files below its directory. The file system is the environment's: \<open>walk_dir\<close> is
  the sequence of calls \<open>filepath.WalkDir\<close> makes, \<open>stat_file\<close> the size and the modification time,
  \<open>contents\<close> the bytes; BLAKE2b is a parameter.
\<close>

section \<open>The environment\<close>

record walk_entry =
  we_path :: string
  we_dir :: bool
  we_error :: bool

record scan_env =
  scan_media_path :: string
  walk_dir :: "string \<Rightarrow> walk_entry list"
  stat_file :: "string \<Rightarrow> (int \<times> time) option"
  contents :: "string \<Rightarrow> string option"
  blake2b_hex :: "string \<Rightarrow> string"

text \<open>\<open>filepath.Rel\<close>.\<close>

fun drop_common :: "string list \<Rightarrow> string list \<Rightarrow> string list \<times> string list" where
  "drop_common (a # as) (b # bs) = (if a = b then drop_common as bs else (a # as, b # bs))"
| "drop_common as bs = (as, bs)"

definition filepath_Rel :: "string \<Rightarrow> string \<Rightarrow> string option" where
  "filepath_Rel base targ =
     (if is_rooted base \<noteq> is_rooted targ then None
      else
        let (b, t) = drop_common (clean_elems (is_rooted base) base) (clean_elems (is_rooted targ) targ) in
        if b \<noteq> [] \<and> hd b = ''..'' then None
        else let es = replicate (length b) ''..'' @ t in Some (if es = [] then ''.'' else join_slash es))"

definition filepath_Base_of :: "string \<Rightarrow> string" where
  "filepath_Base_of p =
     (if p = [] then ''.''
      else let q = rev (dropWhile (\<lambda>c. c = CHR ''/'') (rev p)) in
           if q = [] then ''/'' else rev (takeWhile (\<lambda>c. c \<noteq> CHR ''/'') (rev q)))"

section \<open>Hashes\<close>

definition fullHashThreshold :: int where
  "fullHashThreshold = 1024 * 1024"

definition partialHashFront :: nat where
  "partialHashFront = 1024 * 128"

definition partialHashBack :: nat where
  "partialHashBack = 1024 * 32"

text \<open>A large file is read at its front and at its back; an empty or too short one is an error
  there, since the size was that of an earlier moment.\<close>

definition computeFileHash :: "scan_env \<Rightarrow> string \<Rightarrow> int \<Rightarrow> string option" where
  "computeFileHash env path sz =
     (case contents env path of
        None \<Rightarrow> None
      | Some c \<Rightarrow>
          if sz \<le> fullHashThreshold then Some (blake2b_hex env c)
          else if c = [] \<or> length c < partialHashBack then None
          else Some (blake2b_hex env (take partialHashFront c @ drop (length c - partialHashBack) c)))"

section \<open>Folders\<close>

text \<open>One call of the walk's function; the error ends the walk.\<close>

definition walk_folder ::
  "scan_env \<Rightarrow> int \<Rightarrow> int \<Rightarrow> string \<Rightarrow> walk_entry \<Rightarrow> (string \<Rightarrow> int option) \<Rightarrow> 'w dispatcher
    \<Rightarrow> (string + (string \<Rightarrow> int option)) \<times> 'w dispatcher" where
  "walk_folder env cid root rootPath e ids d =
     (if we_error e \<or> \<not> we_dir e \<or> we_path e = rootPath then (Inr ids, d)
      else case filepath_Rel (scan_media_path env) (we_path e) of
        None \<Rightarrow> (Inl ''relative path'', d)
      | Some relPath \<Rightarrow>
          let parentID = (case ids (filepath_Dir (we_path e)) of None \<Rightarrow> cid | Some p \<Rightarrow> p) in
          (case on_db (CollectionUpsertSubCollection parentID root (filepath_Base_of (we_path e)) relPath) d of
             (Inl _, d) \<Rightarrow> (Inl ''upsert folder'', d)
           | (Inr i, d) \<Rightarrow> (Inr (ids(we_path e \<mapsto> i)), d)))"

fun walk_folders ::
  "scan_env \<Rightarrow> int \<Rightarrow> int \<Rightarrow> string \<Rightarrow> walk_entry list \<Rightarrow> (string \<Rightarrow> int option) \<Rightarrow> 'w dispatcher
    \<Rightarrow> (string + (string \<Rightarrow> int option)) \<times> 'w dispatcher" where
  "walk_folders env cid root rootPath [] ids d = (Inr ids, d)"
| "walk_folders env cid root rootPath (e # es) ids d =
     (case walk_folder env cid root rootPath e ids d of
        (Inl msg, d) \<Rightarrow> (Inl msg, d)
      | (Inr ids, d) \<Rightarrow> walk_folders env cid root rootPath es ids d)"

definition walkFolders ::
  "scan_env \<Rightarrow> int \<Rightarrow> int \<Rightarrow> string \<Rightarrow> 'w dispatcher \<Rightarrow> (string + (string \<Rightarrow> int option)) \<times> 'w dispatcher" where
  "walkFolders env cid root rootPath = walk_folders env cid root rootPath (walk_dir env rootPath) [rootPath \<mapsto> cid]"

section \<open>Files\<close>

text \<open>What the walk over the files accumulates; the buffer is that of the job's context.\<close>

record 'w scan_acc =
  sa_seen :: "string list"
  sa_buf :: "SubJobSpec list"
  sa_walked :: int
  sa_queued :: int
  sa_errors :: int
  sa_disp :: "'w dispatcher"

definition scan_error :: "'w scan_acc \<Rightarrow> 'w scan_acc" where
  "scan_error a = a\<lparr> sa_errors := sa_errors a + 1 \<rparr>"

definition queue_scan :: "string \<Rightarrow> int \<Rightarrow> 'w scan_acc \<Rightarrow> 'w scan_acc" where
  "queue_scan jobType i a =
     a\<lparr> sa_buf := AddSubJob jobType (Some i) (Some ''media_item'') (sa_buf a), sa_queued := sa_queued a + 1 \<rparr>"

text \<open>A statement on the accumulated database.\<close>

definition scan_db :: "'x statement \<Rightarrow> 'w scan_acc \<Rightarrow> (db_error + 'x) \<times> 'w scan_acc" where
  "scan_db stmt a = (case on_db stmt (sa_disp a) of (r, d) \<Rightarrow> (r, a\<lparr> sa_disp := d \<rparr>))"

definition mimeToScanJobType :: "(string \<times> string) list" where
  "mimeToScanJobType = [(''image/'', ''scan_photo''), (''video/'', ''scan_video''), (''audio/'', ''scan_audio'')]"

definition scan_job_type :: "string \<Rightarrow> string option" where
  "scan_job_type mime = map_option snd (find (\<lambda>p. has_prefix mime (fst p)) mimeToScanJobType)"

text \<open>A changed file: its row gets the new size, hash and time, and its metadata are read again.\<close>

definition refresh_file :: "string \<Rightarrow> KnownScanItem \<Rightarrow> int \<Rightarrow> string \<Rightarrow> time \<Rightarrow> 'w scan_acc \<Rightarrow> 'w scan_acc" where
  "refresh_file jobType known sz hash mtime a =
     (case scan_db (MediaItemUpdateFileInfo (ks_id known) sz hash mtime) a of
        (Inl _, a) \<Rightarrow> scan_error a
      | (Inr _, a) \<Rightarrow> queue_scan jobType (ks_id known) a)"

text \<open>The cascade for a known file: time, then size, then hash.\<close>

definition compare_file ::
  "scan_env \<Rightarrow> string \<Rightarrow> string \<Rightarrow> KnownScanItem \<Rightarrow> int \<Rightarrow> time \<Rightarrow> 'w scan_acc \<Rightarrow> 'w scan_acc" where
  "compare_file env path jobType known sz mtime a =
     (if (case ks_modified_at known of None \<Rightarrow> False | Some t \<Rightarrow> \<not> mtime > t) then
        (if ks_has_metadata known then a else queue_scan jobType (ks_id known) a)
      else case computeFileHash env path sz of
        None \<Rightarrow> scan_error a
      | Some hash \<Rightarrow>
          if sz \<noteq> ks_size known \<or> hash \<noteq> ks_hash known then refresh_file jobType known sz hash mtime a
          else
            let a = snd (scan_db (MediaItemUpdateModifiedAt (ks_id known) mtime) a) in
            if \<not> ks_has_metadata known then queue_scan jobType (ks_id known) a else a)"

definition known_file ::
  "scan_env \<Rightarrow> string \<Rightarrow> string \<Rightarrow> KnownScanItem \<Rightarrow> int \<Rightarrow> time \<Rightarrow> 'w scan_acc \<Rightarrow> 'w scan_acc" where
  "known_file env path jobType known sz mtime a =
     (if ks_missing known then
        (case scan_db (MediaItemClearMissing (ks_id known)) a of
           (Inl _, a) \<Rightarrow> scan_error a
         | (Inr _, a) \<Rightarrow> compare_file env path jobType known sz mtime a)
      else compare_file env path jobType known sz mtime a)"

definition new_file ::
  "scan_env \<Rightarrow> (string \<Rightarrow> int option) \<Rightarrow> string \<Rightarrow> string \<Rightarrow> string \<Rightarrow> string \<Rightarrow> int \<Rightarrow> time
    \<Rightarrow> 'w scan_acc \<Rightarrow> 'w scan_acc" where
  "new_file env ids path relPath mime jobType sz mtime a =
     (case computeFileHash env path sz of
        None \<Rightarrow> scan_error a
      | Some hash \<Rightarrow>
          (case ids (filepath_Dir path) of
             None \<Rightarrow> scan_error a
           | Some folder \<Rightarrow>
               (case scan_db (MediaItemUpsert folder (trim_suffix (filepath_Base_of path) (filepath_Ext path))
                        relPath sz hash mime mtime) a of
                  (Inl _, a) \<Rightarrow> scan_error a
                | (Inr (i, _), a) \<Rightarrow> queue_scan jobType i a)))"

text \<open>The kind of a file by its extension, when it belongs to the collection.\<close>

definition scannable_mime :: "string \<Rightarrow> string \<Rightarrow> string option" where
  "scannable_mime category path =
     (case map_of SupportedExtensions (to_lower (filepath_Ext path)) of
        None \<Rightarrow> None | Some mime \<Rightarrow> if has_prefix mime category then Some mime else None)"

definition scan_file ::
  "scan_env \<Rightarrow> string \<Rightarrow> (string \<Rightarrow> KnownScanItem option) \<Rightarrow> (string \<Rightarrow> int option) \<Rightarrow> walk_entry
    \<Rightarrow> 'w scan_acc \<Rightarrow> 'w scan_acc" where
  "scan_file env category known ids e a =
     (if we_error e \<or> we_dir e \<or> d_cancelled (sa_disp a) then a
      else case scannable_mime category (we_path e) of
        None \<Rightarrow> a
      | Some mime \<Rightarrow>
          let a = a\<lparr> sa_walked := sa_walked a + 1 \<rparr> in
          (case filepath_Rel (scan_media_path env) (we_path e) of
             None \<Rightarrow> scan_error a
           | Some relPath \<Rightarrow>
               let a = a\<lparr> sa_seen := relPath # sa_seen a \<rparr> in
               (case scan_job_type mime of
                  None \<Rightarrow> a
                | Some jobType \<Rightarrow>
                    (case stat_file env (we_path e) of
                       None \<Rightarrow> scan_error a
                     | Some (sz, mtime) \<Rightarrow>
                         (case known relPath of
                            Some k \<Rightarrow> known_file env (we_path e) jobType k sz mtime a
                          | None \<Rightarrow> new_file env ids (we_path e) relPath mime jobType sz mtime a)))))"

section \<open>Missing files\<close>

fun mark_missing :: "string list \<Rightarrow> ScanItem list \<Rightarrow> 'w dispatcher \<Rightarrow> 'w dispatcher option" where
  "mark_missing seen [] d = Some d"
| "mark_missing seen (i # is) d =
     (if d_cancelled d then None
      else if sc_path i \<notin> set seen \<and> \<not> sc_missing i
        then mark_missing seen is (ignore_db (MediaItemMarkMissing (sc_id i)) d)
      else mark_missing seen is d)"

section \<open>The job\<close>

definition mime_category :: "string \<Rightarrow> string" where
  "mime_category ty = takeWhile (\<lambda>c. c \<noteq> CHR '':'') ty"

definition touch_scanned :: "int \<Rightarrow> 'w dispatcher \<Rightarrow> 'w dispatcher" where
  "touch_scanned cid d = d\<lparr> d_db := CollectionTouchLastScanned cid (d_db d) \<rparr>"

definition progress :: "job_ctx \<Rightarrow> string \<Rightarrow> 'w dispatcher \<Rightarrow> 'w dispatcher" where
  "progress jc msg d = ignore_db (JobUpdateProgress (job_id (jc_job jc)) msg) d"

text \<open>The steps after the folders: the files, then the items that were not seen.\<close>

definition scan_files ::
  "scan_env \<Rightarrow> job_ctx \<Rightarrow> int \<Rightarrow> string \<Rightarrow> string \<Rightarrow> (string \<Rightarrow> int option) \<Rightarrow> 'w dispatcher
    \<Rightarrow> (string option \<times> SubJobSpec list) \<times> 'w dispatcher" where
  "scan_files env jc cid path category ids d =
     (let (jc, d) = SetStep jc 2 d; d = progress jc ''Walking files'' d in
      case on_db (MediaItemsKnownForScan cid category) d of
        (Inl _, d) \<Rightarrow> ((Some ''load known items'', []), d)
      | (Inr known, d) \<Rightarrow>
          let a = fold (scan_file env category known ids) (walk_dir env path)
                \<lparr> sa_seen = [], sa_buf = [], sa_walked = 0, sa_queued = 0, sa_errors = 0, sa_disp = d \<rparr>;
              (jc, d) = SetStep jc 3 (sa_disp a); d = progress jc ''Marking missing items'' d in
          (case on_db (MediaItemsForScan cid) d of
             (Inl _, d) \<Rightarrow> ((Some ''load items for sync'', sa_buf a), d)
           | (Inr items, d) \<Rightarrow>
               (case mark_missing (sa_seen a) items d of
                  None \<Rightarrow> ((Some ''context canceled'', sa_buf a), d)
                | Some d \<Rightarrow> ((None, sa_buf a), touch_scanned cid d))))"

definition HandleCollectionScan :: "scan_env \<Rightarrow> 'w handler" where
  "HandleCollectionScan env jc d =
     (case related_id (jc_job jc) of
        None \<Rightarrow> ((Some ''collection_scan job has no related_id'', []), d)
      | Some cid \<Rightarrow>
          (case on_db (CollectionGet cid) d of
             (Inl _, d) \<Rightarrow> ((Some ''fetch collection'', []), d)
           | (Inr c, d) \<Rightarrow>
               (case coll_path c of
                  None \<Rightarrow> ((Some ''collection has no relative path'', []), d)
                | Some rel \<Rightarrow>
                    let path = path_join [scan_media_path env, rel];
                        root = (case root_collection_id c of None \<Rightarrow> 0 | Some r \<Rightarrow> r);
                        (jc, d) = SetStep jc 1 d; d = progress jc ''Walking directories'' d in
                    (case walkFolders env cid root path d of
                       (Inl msg, d) \<Rightarrow> ((Some (''walk folders: '' @ msg), []), d)
                     | (Inr ids, d) \<Rightarrow> scan_files env jc cid path (mime_category (coll_type c)) ids d))))"

definition CollectionScanMeta :: JobMeta where
  "CollectionScanMeta = \<lparr> Description = ''Scan collection for new, changed, and missing files'', TotalSteps = 3,
     SupportsSubjobs = True, MaxConcurrency = 0 \<rparr>"

end
