(* ===== verification/CollectionScanProps.thy ===== *)
theory CollectionScanProps
  imports CollectionScan
begin

text \<open>
  What a scan of a collection does to the missing marks. The walk over the files only takes
  marks away, and from every item whose file it sees; the last step sets them on the rest.
\<close>

section \<open>What the walk sees\<close>

definition walked :: "scan_env \<Rightarrow> string \<Rightarrow> walk_entry \<Rightarrow> string option" where
  "walked env category e =
     (if we_error e \<or> we_dir e \<or> scannable_mime category (we_path e) = None then None
      else filepath_Rel (scan_media_path env) (we_path e))"

definition walked_paths :: "scan_env \<Rightarrow> string \<Rightarrow> string \<Rightarrow> string list" where
  "walked_paths env category path = List.map_filter (walked env category) (walk_dir env path)"

definition readable :: "scan_env \<Rightarrow> string \<Rightarrow> walk_entry \<Rightarrow> bool" where
  "readable env category e \<longleftrightarrow> walked env category e = None \<or> stat_file env (we_path e) \<noteq> None"

lemma supported_have_scan_job:
  assumes "map_of SupportedExtensions x = Some m"
  shows "scan_job_type m \<noteq> None"
proof -
  have "list_all (\<lambda>p. scan_job_type (snd p) \<noteq> None) SupportedExtensions"
    by code_simp
  then show ?thesis using map_of_SomeD [OF assms] by (auto simp: list_all_iff)
qed

lemma scannable_has_scan_job: "scannable_mime category p = Some m \<Longrightarrow> \<exists>j. scan_job_type m = Some j"
  using supported_have_scan_job by (fastforce simp: scannable_mime_def split: option.splits if_splits)

section \<open>Marks only go away\<close>

text \<open>An item that is missing afterwards was missing before, with the same identity.\<close>

definition ids_wf :: "db \<Rightarrow> bool" where
  "ids_wf s \<longleftrightarrow> distinct (map item_id (media_items s)) \<and> (\<forall>i \<in> set (map item_id (media_items s)). i < next_item s)"

definition same_mark :: "media_item \<Rightarrow> media_item \<Rightarrow> bool" where
  "same_mark m n \<longleftrightarrow> item_id n = item_id m \<and> item_path n = item_path m \<and> item_collection n = item_collection m
     \<and> item_missing_since n = item_missing_since m"

definition quiet :: "db \<Rightarrow> db \<Rightarrow> bool" where
  "quiet s s' \<longleftrightarrow> collections s' = collections s \<and> faults s' = [] \<and> (ids_wf s \<longrightarrow> ids_wf s')
     \<and> (\<forall>n \<in> set (media_items s'). item_missing_since n \<noteq> None \<longrightarrow> (\<exists>m \<in> set (media_items s). same_mark m n))"

lemma quiet_refl [simp]: "faults s = [] \<Longrightarrow> quiet s s"
  by (auto simp: quiet_def same_mark_def)

lemma quiet_trans: "quiet s t \<Longrightarrow> quiet t u \<Longrightarrow> quiet s u"
  unfolding quiet_def same_mark_def by (metis (no_types, lifting))

lemma quiet_faults: "quiet s t \<Longrightarrow> faults t = []"
  by (simp add: quiet_def)

lemma quiet_set_item:
  assumes "faults s = []"
    and "\<And>m. item_id (f (clock s) m) = item_id m \<and> item_path (f (clock s) m) = item_path m
      \<and> item_collection (f (clock s) m) = item_collection m
      \<and> item_missing_since (f (clock s) m) \<in> {None, item_missing_since m}"
  shows "quiet s (snd (set_item i f s))"
proof -
  let ?g = "\<lambda>m. if item_id m = i then f (clock s) m else m"
  have s': "snd (set_item i f s) = update_item i (f (clock s)) s"
    using assms(1) by (simp add: set_item_def)
  have id: "item_id (?g m) = item_id m" for m
    using assms(2) by simp
  have ids: "map item_id (media_items (update_item i (f (clock s)) s)) = map item_id (media_items s)"
    and nx: "next_item (update_item i (f (clock s)) s) = next_item s"
    by (simp_all add: update_item_def id)
  have wf: "ids_wf (update_item i (f (clock s)) s) = ids_wf s"
    by (simp only: ids_wf_def ids nx)
  have mark: "same_mark m (?g m)" if "item_missing_since (?g m) \<noteq> None" for m
    using assms(2) [of m] that by (auto simp: same_mark_def split: if_splits)
  have marks: "\<exists>m \<in> set (media_items s). same_mark m n"
    if n: "n \<in> set (map ?g (media_items s))" and "item_missing_since n \<noteq> None" for n
  proof -
    obtain m where "m \<in> set (media_items s)" and "n = ?g m"
      using n unfolding set_map by (rule imageE)
    then show ?thesis using mark [of m] that(2) by blast
  qed
  have items: "media_items (update_item i (f (clock s)) s) = map ?g (media_items s)"
    by (simp add: update_item_def)
  have rest: "collections (update_item i (f (clock s)) s) = collections s" "faults (update_item i (f (clock s)) s) = []"
    using assms(1) by (simp_all add: update_item_def)
  show ?thesis
    unfolding quiet_def s' wf items by (rule conjI [OF rest(1) conjI [OF rest(2)]]) (blast intro: marks)
qed

lemma quiet_upsert:
  assumes "faults s = []"
  shows "quiet s (snd (MediaItemUpsert cid ttl path sz hash mime mtime s))"
proof (cases "find (\<lambda>m. item_path m = path \<and> item_collection m = cid) (media_items s)")
  case None
  then show ?thesis using assms
    by (fastforce simp: MediaItemUpsert_def quiet_def ids_wf_def same_mark_def)
next
  case (Some p)
  let ?f = "\<lambda>now m. m\<lparr> indexed_at := now, item_missing_since := None,
            file_size_bytes := sz, file_hash := hash, mime_type := mime, file_modified_at := Some mtime \<rparr>"
  have "quiet s (snd (set_item (item_id p) ?f s))"
    by (rule quiet_set_item) (simp_all add: assms)
  then show ?thesis using Some assms by (simp add: MediaItemUpsert_def set_item_def)
qed

section \<open>One file\<close>

definition calm :: "'w scan_acc \<Rightarrow> 'w scan_acc \<Rightarrow> bool" where
  "calm a b \<longleftrightarrow> sa_seen b = sa_seen a \<and> d_cancelled (sa_disp b) = d_cancelled (sa_disp a)
     \<and> quiet (d_db (sa_disp a)) (d_db (sa_disp b))"

abbreviation healthy_acc :: "'w scan_acc \<Rightarrow> bool" where
  "healthy_acc a \<equiv> faults (d_db (sa_disp a)) = []"

lemma calm_refl [simp]: "healthy_acc a \<Longrightarrow> calm a a"
  by (simp add: calm_def)

lemma calm_trans: "calm a b \<Longrightarrow> calm b c \<Longrightarrow> calm a c"
  by (auto simp: calm_def intro: quiet_trans)

lemma calm_healthy: "calm a b \<Longrightarrow> healthy_acc b"
  by (auto simp: calm_def quiet_def)

lemma calm_error [simp]: "calm a (scan_error b) = calm a b"
  by (simp add: calm_def scan_error_def)

lemma calm_queue [simp]: "calm a (queue_scan j i b) = calm a b"
  by (simp add: calm_def queue_scan_def)

lemma calm_scan_db:
  assumes "scan_db stmt a = (r, b)" and "quiet (d_db (sa_disp a)) (snd (stmt (d_db (sa_disp a))))"
  shows "calm a b"
  using assms by (auto simp: scan_db_def on_db_def calm_def split: prod.splits)

lemma calm_set_item:
  assumes "scan_db (set_item i f) a = (r, b)" and "healthy_acc a"
    and "\<And>now m. item_id (f now m) = item_id m \<and> item_path (f now m) = item_path m
      \<and> item_collection (f now m) = item_collection m \<and> item_missing_since (f now m) \<in> {None, item_missing_since m}"
  shows "calm a b"
  by (rule calm_scan_db [OF assms(1)], rule quiet_set_item) (use assms(2,3) in auto)

lemma calm_refresh: "healthy_acc a \<Longrightarrow> calm a (refresh_file jobType known sz hash mtime a)"
  unfolding refresh_file_def MediaItemUpdateFileInfo_def
  by (auto split: prod.split sum.split elim!: calm_set_item)

lemma calm_compare: "healthy_acc a \<Longrightarrow> calm a (compare_file env path jobType known sz mtime a)"
  unfolding compare_file_def MediaItemUpdateModifiedAt_def Let_def
  by (auto split: option.split intro!: calm_refresh elim!: calm_set_item [OF prod.collapse [symmetric]])

lemma calm_new: "healthy_acc a \<Longrightarrow> calm a (new_file env ids path rel mime jobType sz mtime a)"
  unfolding new_file_def
  by (auto split: option.split prod.split sum.split intro: calm_scan_db quiet_upsert)

lemma calm_known:
  assumes "healthy_acc a"
  shows "calm a (known_file env path jobType known sz mtime a)"
proof (cases "ks_missing known")
  case False
  then show ?thesis using assms by (simp add: known_file_def calm_compare)
next
  case True
  obtain r b where rb: "scan_db (MediaItemClearMissing (ks_id known)) a = (r, b)" by fastforce
  have "calm a b"
    using rb assms unfolding MediaItemClearMissing_def by (rule calm_set_item) simp
  then show ?thesis
    using True rb by (auto simp: known_file_def split: sum.split intro: calm_trans calm_compare calm_healthy)
qed

text \<open>A known item that was missing is not any more.\<close>

lemma calm_unmarked:
  assumes "calm a b" and "\<forall>m \<in> set (media_items (d_db (sa_disp a))). item_id m = i \<longrightarrow> item_missing_since m = None"
  shows "\<forall>m \<in> set (media_items (d_db (sa_disp b))). item_id m = i \<longrightarrow> item_missing_since m = None"
  using assms by (fastforce simp: calm_def quiet_def same_mark_def)

lemma known_unmarks:
  assumes "healthy_acc a" and "ks_missing known"
  shows "\<forall>m \<in> set (media_items (d_db (sa_disp (known_file env path jobType known sz mtime a)))).
    item_id m = ks_id known \<longrightarrow> item_missing_since m = None"
proof -
  obtain r b where rb: "scan_db (MediaItemClearMissing (ks_id known)) a = (r, b)" by fastforce
  have "calm a b"
    using rb assms(1) unfolding MediaItemClearMissing_def by (rule calm_set_item) simp
  then have b: "healthy_acc b" by (rule calm_healthy)
  have r: "r = Inr ()"
    and unmarked: "\<forall>m \<in> set (media_items (d_db (sa_disp b))). item_id m = ks_id known \<longrightarrow> item_missing_since m = None"
    using rb assms(1) by (auto simp: scan_db_def on_db_def MediaItemClearMissing_def set_item_def update_item_def)
  show ?thesis
    using calm_unmarked [OF calm_compare [OF b] unmarked] assms(2) rb r by (simp add: known_file_def)
qed

section \<open>The walk over the files\<close>

text \<open>\<open>s0\<close> is the database at the beginning of the walk, \<open>T\<close> the collections of the tree.\<close>

definition scan_inv :: "db \<Rightarrow> int set \<Rightarrow> 'w scan_acc \<Rightarrow> bool" where
  "scan_inv s0 T a \<longleftrightarrow> healthy_acc a \<and> \<not> d_cancelled (sa_disp a) \<and> collections (d_db (sa_disp a)) = collections s0
     \<and> ids_wf (d_db (sa_disp a))
     \<and> (\<forall>n \<in> set (media_items (d_db (sa_disp a))). item_missing_since n \<noteq> None \<longrightarrow>
          (\<exists>m \<in> set (media_items s0). same_mark m n) \<and> \<not> (item_collection n \<in> T \<and> item_path n \<in> set (sa_seen a)))"

lemma scan_inv_calm:
  assumes "scan_inv s0 T a" and "calm (a\<lparr> sa_walked := w, sa_seen := rel # sa_seen a \<rparr>) b"
    and "\<And>n. n \<in> set (media_items (d_db (sa_disp b))) \<Longrightarrow> item_collection n \<in> T \<Longrightarrow> item_path n = rel \<Longrightarrow>
      \<exists>m \<in> set (media_items s0). same_mark m n \<Longrightarrow> item_missing_since n = None"
  shows "scan_inv s0 T b"
proof -
  have q: "quiet (d_db (sa_disp a)) (d_db (sa_disp b))" and seen: "sa_seen b = rel # sa_seen a"
    and c: "\<not> d_cancelled (sa_disp b)"
    using assms(1,2) by (simp_all add: calm_def scan_inv_def)
  have origin: "(\<exists>m \<in> set (media_items s0). same_mark m n) \<and> \<not> (item_collection n \<in> T \<and> item_path n \<in> set (sa_seen a))"
    if "n \<in> set (media_items (d_db (sa_disp b)))" and "item_missing_since n \<noteq> None" for n
  proof -
    obtain n1 where "n1 \<in> set (media_items (d_db (sa_disp a)))" and "same_mark n1 n"
      using q \<open>n \<in> _\<close> \<open>item_missing_since n \<noteq> None\<close> by (auto simp: quiet_def)
    then show ?thesis
      using assms(1) \<open>item_missing_since n \<noteq> None\<close> unfolding scan_inv_def same_mark_def by (metis (no_types, lifting))
  qed
  show ?thesis
    using assms(1) q c origin assms(3) unfolding scan_inv_def quiet_def seen by (metis set_ConsD)
qed

lemma known_by_path:
  assumes "inj_on item_path (set (media_items s0))" and "m \<in> set (tree_items cid s0)"
  shows "map_of (rev (map (\<lambda>m. (item_path m, known_item category s0 m)) (tree_items cid s0))) (item_path m)
    = Some (known_item category s0 m)"
    (is "map_of ?kv _ = _")
proof -
  have "\<exists>k. map_of ?kv (item_path m) = Some k"
    using assms(2) by (auto simp: map_of_eq_None_iff image_image simp flip: not_None_eq)
  then obtain k where k: "map_of ?kv (item_path m) = Some k" ..
  then obtain m' where "m' \<in> set (tree_items cid s0)" "item_path m' = item_path m" "k = known_item category s0 m'"
    using map_of_SomeD [OF k] by auto
  moreover have "m' = m"
    using assms calculation by (auto simp: tree_items_def dest: inj_onD)
  ultimately show ?thesis using k by simp
qed

lemma scan_file_step:
  assumes inv: "scan_inv s0 (set (collection_tree cid s0)) a" and "readable env category e"
    and inj: "inj_on item_path (set (media_items s0))"
    and known: "known = map_of (rev (map (\<lambda>m. (item_path m, known_item category s0 m)) (tree_items cid s0)))"
  shows "scan_inv s0 (set (collection_tree cid s0)) (scan_file env category known ids e a)
    \<and> sa_seen (scan_file env category known ids e a) = (case walked env category e of None \<Rightarrow> [] | Some p \<Rightarrow> [p]) @ sa_seen a"
proof (cases "walked env category e")
  case None
  then show ?thesis
    using inv by (auto simp: walked_def scan_file_def scan_error_def scan_inv_def Let_def split: option.splits if_splits)
next
  case (Some rel)
  obtain mime where mime: "scannable_mime category (we_path e) = Some mime"
    and e: "\<not> we_error e" "\<not> we_dir e" and rel: "filepath_Rel (scan_media_path env) (we_path e) = Some rel"
    using Some by (auto simp: walked_def split: if_splits)
  obtain j where j: "scan_job_type mime = Some j"
    using scannable_has_scan_job [OF mime] by blast
  obtain sz mt where st: "stat_file env (we_path e) = Some (sz, mt)"
    using assms(2) Some by (auto simp: readable_def)
  define a1 where "a1 = a\<lparr> sa_walked := sa_walked a + 1, sa_seen := rel # sa_seen a \<rparr>"
  define b where "b = scan_file env category known ids e a"
  have b: "b = (case known rel of Some k \<Rightarrow> known_file env (we_path e) j k sz mt a1
      | None \<Rightarrow> new_file env ids (we_path e) rel mime j sz mt a1)"
    using e mime rel j st inv by (simp add: b_def a1_def scan_file_def scan_inv_def Let_def split: option.split)
  have h1: "healthy_acc a1" using inv by (simp add: a1_def scan_inv_def)
  have calm: "calm a1 b"
    unfolding b using h1 by (auto split: option.split intro: calm_new calm_known)
  have "scan_inv s0 (set (collection_tree cid s0)) b"
  proof (rule scan_inv_calm [OF inv calm [unfolded a1_def]])
    fix n assume n: "n \<in> set (media_items (d_db (sa_disp b)))" "item_collection n \<in> set (collection_tree cid s0)"
      "item_path n = rel" and "\<exists>m \<in> set (media_items s0). same_mark m n"
    then obtain m where m: "m \<in> set (media_items s0)" "same_mark m n" by blast
    have "m \<in> set (tree_items cid s0)" and "item_path m = rel"
      using m n(2,3) by (auto simp: tree_items_def same_mark_def)
    then have k: "known rel = Some (known_item category s0 m)"
      using known_by_path [OF inj, of m cid category] known by simp
    show "item_missing_since n = None"
    proof (rule ccontr)
      assume "item_missing_since n \<noteq> None"
      then have "ks_missing (known_item category s0 m)" and "item_id n = ks_id (known_item category s0 m)"
        using m(2) by (simp_all add: known_item_def same_mark_def)
      then show False
        using known_unmarks [OF h1, of "known_item category s0 m"] n(1) \<open>item_missing_since n \<noteq> None\<close> b k by auto
    qed
  qed
  moreover have "sa_seen b = rel # sa_seen a"
    using calm by (simp add: calm_def a1_def)
  ultimately show ?thesis using Some by (simp add: b_def)
qed

lemma scan_fold:
  assumes "scan_inv s0 (set (collection_tree cid s0)) a" and "\<forall>e \<in> set es. readable env category e"
    and "inj_on item_path (set (media_items s0))"
    and "known = map_of (rev (map (\<lambda>m. (item_path m, known_item category s0 m)) (tree_items cid s0)))"
  shows "scan_inv s0 (set (collection_tree cid s0)) (fold (scan_file env category known ids) es a)
    \<and> set (sa_seen (fold (scan_file env category known ids) es a)) = set (List.map_filter (walked env category) es) \<union> set (sa_seen a)"
  using assms(1,2)
proof (induction es arbitrary: a)
  case Nil
  then show ?case by simp
next
  case (Cons e es)
  note step = scan_file_step [OF Cons.prems(1) _ assms(3,4), of env e ids]
  have r: "readable env category e" "\<forall>e \<in> set es. readable env category e" using Cons.prems(2) by simp_all
  show ?case
    using Cons.IH [OF conjunct1 [OF step [OF r(1)]] r(2)] conjunct2 [OF step [OF r(1)]]
    by (auto simp: map_filter_simps split: option.splits)
qed

section \<open>The marks that are set\<close>

text \<open>A statement about jobs, or about the collection's own row, leaves the items alone.\<close>

definition same_items :: "'w dispatcher \<Rightarrow> 'w dispatcher \<Rightarrow> bool" where
  "same_items d d' \<longleftrightarrow> media_items (d_db d') = media_items (d_db d) \<and> next_item (d_db d') = next_item (d_db d)
     \<and> collections (d_db d') = collections (d_db d) \<and> faults (d_db d') = [] \<and> d_cancelled d' = d_cancelled d"

lemma same_items_step: "faults (d_db d) = [] \<Longrightarrow> SetStep jc n d = (jc', d') \<Longrightarrow> same_items d d' \<and> job_id (jc_job jc') = job_id (jc_job jc)"
  by (auto simp: SetStep_def on_db_def JobUpdateStep_def update_job_def same_items_def split: prod.splits)

lemma same_items_progress: "faults (d_db d) = [] \<Longrightarrow> same_items d (progress jc msg d)"
  by (simp add: progress_def ignore_db_def on_db_def JobUpdateProgress_def update_job_def same_items_def)

lemma same_items_trans: "same_items a b \<Longrightarrow> same_items b c \<Longrightarrow> same_items a c"
  by (simp add: same_items_def)

lemma same_items_announce:
  "faults (d_db d) = [] \<Longrightarrow> SetStep jc n d = (jc', d') \<Longrightarrow> same_items d (progress jc' msg d')"
  using same_items_step [of d jc n jc' d'] same_items_progress [of d' jc' msg] by (auto simp: same_items_def)

lemma mark_missing_spec:
  assumes "faults (d_db d) = []" and "\<not> d_cancelled d"
  shows "\<exists>now g. mark_missing seen is d = Some (d\<lparr> d_db := (d_db d)\<lparr> media_items := map g (media_items (d_db d)) \<rparr> \<rparr>)
    \<and> (\<forall>m. g m = (if item_missing_since m = None \<and> (\<exists>i \<in> set is. sc_id i = item_id m \<and> sc_path i \<notin> set seen \<and> \<not> sc_missing i)
        then m\<lparr> item_missing_since := Some now \<rparr> else m))"
    (is "\<exists>now g. ?P now g")
proof -
  have "?P (clock (d_db d)) (\<lambda>m. if item_missing_since m = None \<and> (\<exists>i \<in> set is. sc_id i = item_id m \<and> sc_path i \<notin> set seen \<and> \<not> sc_missing i)
      then m\<lparr> item_missing_since := Some (clock (d_db d)) \<rparr> else m)"
    using assms
  proof (induction "is" arbitrary: d)
    case Nil
    then show ?case by simp
  next
    case (Cons i "is")
    let ?d = "ignore_db (MediaItemMarkMissing (sc_id i)) d"
    have d': "?d = d\<lparr> d_db := update_item (sc_id i) (\<lambda>m. if item_missing_since m = None
        then m\<lparr> item_missing_since := Some (clock (d_db d)) \<rparr> else m) (d_db d) \<rparr>"
      using Cons.prems by (simp add: ignore_db_def on_db_def MediaItemMarkMissing_def set_item_def)
    show ?case
    proof (cases "sc_path i \<notin> set seen \<and> \<not> sc_missing i")
      case False
      then have "mark_missing seen (i # is) d = mark_missing seen is d"
        using Cons.prems by auto
      then show ?thesis using Cons.IH [OF Cons.prems] False by auto
    next
      case True
      have "faults (d_db ?d) = []" and "\<not> d_cancelled ?d"
        using Cons.prems by (simp_all add: d' update_item_def)
      then show ?thesis
        using Cons.IH [of ?d] True Cons.prems
        by (auto simp: d' update_item_def comp_def intro!: map_cong)
    qed
  qed
  then show ?thesis by blast
qed

section \<open>The job\<close>

lemma same_items_folder:
  assumes "faults (d_db d) = []" and "walk_folder env cid root p e ids d = (r, d')"
  shows "media_items (d_db d') = media_items (d_db d) \<and> next_item (d_db d') = next_item (d_db d) \<and> faults (d_db d') = []
    \<and> d_cancelled d' = d_cancelled d"
  using assms
  by (auto simp: walk_folder_def Let_def on_db_def CollectionUpsertSubCollection_def insert_collection_def
      split: if_splits option.splits prod.splits sum.splits)

lemma same_items_folders:
  assumes "faults (d_db d) = []" and "walk_folders env cid root p es ids d = (r, d')"
  shows "media_items (d_db d') = media_items (d_db d) \<and> next_item (d_db d') = next_item (d_db d) \<and> faults (d_db d') = []
    \<and> d_cancelled d' = d_cancelled d"
  using assms
proof (induction es arbitrary: ids d)
  case Nil
  then show ?case by simp
next
  case (Cons e es)
  obtain r1 d1 where 1: "walk_folder env cid root p e ids d = (r1, d1)" by fastforce
  note s1 = same_items_folder [OF Cons.prems(1) 1]
  show ?case
  proof (cases r1)
    case (Inl msg)
    then show ?thesis using 1 s1 Cons.prems(2) by simp
  next
    case (Inr ids1)
    then show ?thesis using 1 s1 Cons.IH [of d1 ids1] Cons.prems(2) by simp
  qed
qed

lemma tree_levels_map:
  assumes "\<And>r. idf (f r) = idf r" and "\<And>r. parf (f r) = parf r"
  shows "tree_levels idf parf (map f rows) n ids = tree_levels idf parf rows n ids"
  by (induction n arbitrary: ids) (simp_all add: children_of_def filter_map comp_def assms)

lemma collection_tree_touch:
  "collection_tree cid (update_collection i (\<lambda>c. c\<lparr> last_scanned_at := t \<rparr>) s) = collection_tree cid s"
proof -
  let ?f = "\<lambda>c :: collection. if coll_id c = i then c\<lparr> last_scanned_at := t \<rparr> else c"
  have "map coll_id (filter (\<lambda>c. coll_id c = cid) (map ?f cs)) = map coll_id (filter (\<lambda>c. coll_id c = cid) cs)" for cs
    by (induction cs) auto
  moreover have "tree_levels coll_id parent_collection_id (map ?f rows) n ids = tree_levels coll_id parent_collection_id rows n ids"
    for rows n ids by (rule tree_levels_map) auto
  ultimately show ?thesis
    by (simp add: collection_tree_def update_collection_def coll_level_def del: map_map)
qed

lemma tree_items_cong: "collections s' = collections s \<Longrightarrow> collection_tree cid s' = collection_tree cid s"
  by (simp add: collection_tree_def)

text \<open>The steps after the folders.\<close>

lemma scan_files_marks:
  assumes "faults (d_db d) = []" and "\<not> d_cancelled d" and "ids_wf (d_db d)"
    and "inj_on item_path (set (media_items (d_db d)))" and "\<forall>e \<in> set (walk_dir env path). readable env category e"
  shows "\<exists>buf d'. scan_files env jc cid path category ids d = ((None, buf), d')
    \<and> (\<forall>m \<in> set (tree_items cid (d_db d')). item_missing_since m \<noteq> None \<longleftrightarrow> item_path m \<notin> set (walked_paths env category path))"
proof -
  obtain jc1 d1 where 1: "SetStep jc 2 d = (jc1, d1)" by fastforce
  define d2 where "d2 = progress jc1 ''Walking files'' d1"
  have 2: "same_items d d2" unfolding d2_def by (rule same_items_announce [OF assms(1) 1])
  define s0 where "s0 = d_db d2"
  define known where "known = map_of (rev (map (\<lambda>m. (item_path m, known_item category s0 m)) (tree_items cid s0)))"
  have f2: "faults s0 = []" using 2 by (simp add: s0_def same_items_def)
  have known_q: "on_db (MediaItemsKnownForScan cid category) d2 = (Inr known, d2)"
    using f2 by (simp add: on_db_def MediaItemsKnownForScan_def known_def s0_def)
  define a0 :: "'a scan_acc" where
    "a0 = \<lparr> sa_seen = [], sa_buf = [], sa_walked = 0, sa_queued = 0, sa_errors = 0, sa_disp = d2 \<rparr>"
  define a where "a = fold (scan_file env category known ids) (walk_dir env path) a0"
  have "scan_inv s0 (set (collection_tree cid s0)) a0"
    using 2 assms(2,3) by (auto simp: scan_inv_def a0_def s0_def same_items_def ids_wf_def same_mark_def)
  moreover have "inj_on item_path (set (media_items s0))"
    using 2 assms(4) by (simp add: s0_def same_items_def)
  ultimately have inv: "scan_inv s0 (set (collection_tree cid s0)) a"
    and seen: "set (sa_seen a) = set (walked_paths env category path)"
    using scan_fold [of s0 cid a0 "walk_dir env path" env category known ids] assms(5) known_def
    by (simp_all add: a_def a0_def walked_paths_def)
  obtain jc3 d3 where 3: "SetStep jc1 3 (sa_disp a) = (jc3, d3)" by fastforce
  define d4 where "d4 = progress jc3 ''Marking missing items'' d3"
  have 4: "same_items (sa_disp a) d4"
    unfolding d4_def using inv by (intro same_items_announce [OF _ 3]) (simp add: scan_inv_def)
  define items where "items = map (\<lambda>m. \<lparr> sc_id = item_id m, sc_path = item_path m, sc_size = file_size_bytes m,
    sc_hash = file_hash m, sc_missing = (item_missing_since m \<noteq> None) \<rparr>) (tree_items cid (d_db d4))"
  have items_q: "on_db (MediaItemsForScan cid) d4 = (Inr items, d4)"
    using 4 by (simp add: on_db_def MediaItemsForScan_def items_def same_items_def)
  obtain now g where mark: "mark_missing (sa_seen a) items d4
      = Some (d4\<lparr> d_db := (d_db d4)\<lparr> media_items := map g (media_items (d_db d4)) \<rparr> \<rparr>)"
    and g: "\<And>m. g m = (if item_missing_since m = None \<and> (\<exists>i \<in> set items. sc_id i = item_id m \<and> sc_path i \<notin> set (sa_seen a) \<and> \<not> sc_missing i)
        then m\<lparr> item_missing_since := Some now \<rparr> else m)"
    using mark_missing_spec [of d4 "sa_seen a" items] 4 inv by (auto simp: same_items_def scan_inv_def)
  define d5 where "d5 = touch_scanned cid (d4\<lparr> d_db := (d_db d4)\<lparr> media_items := map g (media_items (d_db d4)) \<rparr> \<rparr>)"
  have run: "scan_files env jc cid path category ids d = ((None, sa_buf a), d5)"
    using 3 by (simp add: scan_files_def 1 d2_def [symmetric] known_q a0_def [symmetric] a_def [symmetric]
        d4_def [symmetric] items_q mark d5_def Let_def)
  have tree4: "collection_tree cid (d_db d4) = collection_tree cid s0"
    using 4 inv by (intro tree_items_cong) (simp add: same_items_def scan_inv_def)
  have tree5: "tree_items cid (d_db d5) = filter (\<lambda>m. item_collection m \<in> set (collection_tree cid s0)) (map g (media_items (d_db d4)))"
  proof -
    let ?s = "(d_db d4)\<lparr> media_items := map g (media_items (d_db d4)) \<rparr>"
    have "d_db d5 = update_collection cid (\<lambda>c. c\<lparr> last_scanned_at := Some (clock ?s) \<rparr>) ?s"
      using 4 by (simp add: d5_def touch_scanned_def CollectionTouchLastScanned_def call_ignore_def same_items_def)
    moreover have "collection_tree cid ?s = collection_tree cid s0"
      using tree4 by (simp add: collection_tree_def)
    ultimately show ?thesis
      by (simp only: tree_items_def collection_tree_touch) (simp add: update_collection_def)
  qed
  have keep: "item_id (g m) = item_id m" "item_path (g m) = item_path m" "item_collection (g m) = item_collection m" for m
    by (simp_all add: g)
  have old: "item_path m \<notin> set (sa_seen a)"
    if "m \<in> set (tree_items cid (d_db d4))" and "item_missing_since m \<noteq> None" for m
    using inv 4 that tree4 by (auto simp: scan_inv_def tree_items_def same_items_def)
  have ids: "m = m'" if "m \<in> set (media_items (d_db d4))" and "m' \<in> set (media_items (d_db d4))" and "item_id m = item_id m'" for m m'
    using inv 4 that by (auto simp: scan_inv_def ids_wf_def same_items_def distinct_map dest: inj_onD)
  have "item_missing_since m \<noteq> None \<longleftrightarrow> item_path m \<notin> set (sa_seen a)" if m: "m \<in> set (tree_items cid (d_db d5))" for m
  proof -
    obtain m4 where m4: "m = g m4" "m4 \<in> set (media_items (d_db d4))" "item_collection m4 \<in> set (collection_tree cid s0)"
      using m keep by (auto simp: tree5)
    then have t4: "m4 \<in> set (tree_items cid (d_db d4))" using tree4 by (simp add: tree_items_def)
    have listed: "(\<exists>i \<in> set items. sc_id i = item_id m4 \<and> sc_path i \<notin> set (sa_seen a) \<and> \<not> sc_missing i)
        \<longleftrightarrow> item_path m4 \<notin> set (sa_seen a) \<and> item_missing_since m4 = None"
      using ids [OF _ m4(2)] t4 unfolding items_def by (fastforce simp: tree_items_def)
    show ?thesis
      using old [OF t4] keep(2) [of m4] g [of m4] unfolding m4(1) listed by (cases "item_missing_since m4") auto
  qed
  then show ?thesis using run seen by auto
qed

lemma scan_job_marks:
  assumes "faults (d_db d) = []" and "\<not> d_cancelled d" and "ids_wf (d_db d)"
    and "inj_on item_path (set (media_items (d_db d)))"
    and "related_id (jc_job jc) = Some cid"
    and "find (\<lambda>c. coll_id c = cid \<and> is_enabled c) (collections (d_db d)) = Some c"
    and "coll_path c = Some rel" and "path = path_join [scan_media_path env, rel]"
    and "\<forall>e \<in> set (walk_dir env path). readable env (mime_category (coll_type c)) e"
  obtains (Failed) msg where "fst (fst (HandleCollectionScan env jc d)) = Some (''walk folders: '' @ msg)"
      and "\<exists>d1 d'. same_items d d1 \<and> walkFolders env cid (case root_collection_id c of None \<Rightarrow> 0 | Some r \<Rightarrow> r) path d1 = (Inl msg, d')"
  | (Scanned) buf d' where "HandleCollectionScan env jc d = ((None, buf), d')"
      and "\<forall>m \<in> set (tree_items cid (d_db d')).
        item_missing_since m \<noteq> None \<longleftrightarrow> item_path m \<notin> set (walked_paths env (mime_category (coll_type c)) path)"
proof -
  have get: "on_db (CollectionGet cid) d = (Inr c, d)"
    using assms(1,6) by (simp add: on_db_def CollectionGet_def)
  obtain jc1 d1 where 1: "SetStep jc 1 d = (jc1, d1)" by fastforce
  define d2 where "d2 = progress jc1 ''Walking directories'' d1"
  have 2: "same_items d d2" unfolding d2_def by (rule same_items_announce [OF assms(1) 1])
  define root where "root = (case root_collection_id c of None \<Rightarrow> 0 | Some r \<Rightarrow> r)"
  obtain r d3 where 3: "walkFolders env cid root path d2 = (r, d3)" by fastforce
  have run: "HandleCollectionScan env jc d = (case r of Inl msg \<Rightarrow> ((Some (''walk folders: '' @ msg), []), d3)
      | Inr ids \<Rightarrow> scan_files env jc1 cid path (mime_category (coll_type c)) ids d3)"
    using 3 by (simp add: HandleCollectionScan_def assms(5,7) get 1 d2_def [symmetric] root_def [symmetric] assms(8) [symmetric])
  have 4: "faults (d_db d3) = [] \<and> \<not> d_cancelled d3 \<and> media_items (d_db d3) = media_items (d_db d) \<and> next_item (d_db d3) = next_item (d_db d)"
    using same_items_folders [OF _ 3 [unfolded walkFolders_def]] 2 assms(2) by (simp add: same_items_def)
  show ?thesis
  proof (cases r)
    case (Inl msg)
    then show ?thesis using Failed [of msg] run 2 3 root_def by auto
  next
    case (Inr ids)
    then show ?thesis
      using scan_files_marks [of d3 env path "mime_category (coll_type c)" jc1 cid ids] 4 assms(3,4,9) run Scanned
      by (auto simp: ids_wf_def)
  qed
qed

section \<open>Properties\<close>

text \<open>A collection with the items 1 and 2, of which the disk has the second and a third file.\<close>

definition demo_scan_item :: "int \<Rightarrow> string \<Rightarrow> media_item" where
  "demo_scan_item i p = \<lparr> item_id = i, item_collection = 1, title = p, item_path = p, file_size_bytes = 3,
     file_hash = ''abc'', mime_type = ''image/png'', file_modified_at = Some 5, item_missing_since = None,
     indexed_at = 5, item_created_at = 5, hidden_at = None \<rparr>"

definition demo_scan_collection :: collection where
  "demo_scan_collection = \<lparr> coll_id = 1, parent_collection_id = None, root_collection_id = Some 1, coll_name = ''P'',
     coll_type = ''image:photo'', coll_path = Some ''p'', is_enabled = True, manual_thumbnail = False,
     last_scanned_at = None, coll_missing_since = None, coll_created_at = 5 \<rparr>"

definition demo_scan_dispatcher :: "unit dispatcher" where
  "demo_scan_dispatcher = NewDispatcher ((empty_db 10)\<lparr> collections := [demo_scan_collection], next_collection := 2,
     media_items := [demo_scan_item 1 ''p/a.png'', demo_scan_item 2 ''p/b.png''], next_item := 3 \<rparr>) [] ()"

definition demo_scan_env :: "walk_entry list \<Rightarrow> scan_env" where
  "demo_scan_env es = \<lparr> scan_media_path = ''/m'', walk_dir = (\<lambda>_. es), stat_file = (\<lambda>_. Some (3, 5)),
     contents = (\<lambda>_. Some ''xyz''), blake2b_hex = id \<rparr>"

definition demo_tree :: "walk_entry list" where
  "demo_tree = [\<lparr> we_path = ''/m/p'', we_dir = True, we_error = False \<rparr>,
     \<lparr> we_path = ''/m/p/b.png'', we_dir = False, we_error = False \<rparr>,
     \<lparr> we_path = ''/m/p/c.PNG'', we_dir = False, we_error = False \<rparr>]"

definition demo_scan_job :: job_ctx where
  "demo_scan_job = \<lparr> jc_job = \<lparr> job_id = 1, job_type = ''collection_scan'', status = Running, related_id = Some 1,
     related_type = Some ''collection'', job_log = None, error_message = None, queued_at = 0, started_at = Some 1,
     completed_at = None, parent_job_id = None, current_step = 0, subjobs_enqueued = 0 \<rparr>, jc_et = None, jc_dispatcher = True \<rparr>"

lemma demo_scan_ready:
  "faults (d_db demo_scan_dispatcher) = []" "\<not> d_cancelled demo_scan_dispatcher" "ids_wf (d_db demo_scan_dispatcher)"
  "inj_on item_path (set (media_items (d_db demo_scan_dispatcher)))" "related_id (jc_job demo_scan_job) = Some 1"
  "find (\<lambda>c. coll_id c = 1 \<and> is_enabled c) (collections (d_db demo_scan_dispatcher)) = Some demo_scan_collection"
  "coll_path demo_scan_collection = Some ''p''"
  by (simp_all add: demo_scan_dispatcher_def NewDispatcher_def empty_db_def ids_wf_def demo_scan_item_def
      demo_scan_job_def demo_scan_collection_def)

text \<open>C4: A scan of a collection on a healthy server, of files that can be examined, leaves exactly those items of
  its tree marked as missing whose files the walk did not see: known files keep or regain their place, new files
  arrive unmarked, and the rest is marked. It can only fail before, while it walks the folders.\<close>

theorem scan_marks_exactly_the_missing:
  assumes "faults (d_db d) = []" and "\<not> d_cancelled d" and "ids_wf (d_db d)"
    and "inj_on item_path (set (media_items (d_db d)))"
    and "related_id (jc_job jc) = Some cid"
    and "find (\<lambda>c. coll_id c = cid \<and> is_enabled c) (collections (d_db d)) = Some c"
    and "coll_path c = Some rel" and "path = path_join [scan_media_path env, rel]"
    and "\<forall>e \<in> set (walk_dir env path). readable env (mime_category (coll_type c)) e"
  shows "case HandleCollectionScan env jc d of
      ((Some msg, _), _) \<Rightarrow> take 14 msg = ''walk folders: ''
    | ((None, _), d') \<Rightarrow> \<forall>m \<in> set (tree_items cid (d_db d')).
        item_missing_since m \<noteq> None \<longleftrightarrow> item_path m \<notin> set (walked_paths env (mime_category (coll_type c)) path)"
  by (rule scan_job_marks [OF assms]) (auto split: prod.split)

theorem scan_marks_exactly_the_missing_witness:
  "case HandleCollectionScan (demo_scan_env demo_tree) demo_scan_job demo_scan_dispatcher of
      ((Some msg, _), _) \<Rightarrow> take 14 msg = ''walk folders: ''
    | ((None, _), d') \<Rightarrow> \<forall>m \<in> set (tree_items 1 (d_db d')). item_missing_since m \<noteq> None \<longleftrightarrow>
        item_path m \<notin> set (walked_paths (demo_scan_env demo_tree) (mime_category (coll_type demo_scan_collection))
          (path_join [scan_media_path (demo_scan_env demo_tree), ''p'']))"
  by (rule scan_marks_exactly_the_missing [OF demo_scan_ready refl]) (simp add: readable_def demo_scan_env_def)

text \<open>C32: When the directory of the collection cannot be read - a share that is not mounted - the walk has nothing but
  an error to report; the scan ignores it, ends well, and marks every item of the tree as missing.\<close>

theorem unreadable_root_marks_everything:
  assumes "faults (d_db d) = []" and "\<not> d_cancelled d" and "ids_wf (d_db d)"
    and "inj_on item_path (set (media_items (d_db d)))"
    and "related_id (jc_job jc) = Some cid"
    and "find (\<lambda>c. coll_id c = cid \<and> is_enabled c) (collections (d_db d)) = Some c"
    and "coll_path c = Some rel" and "path = path_join [scan_media_path env, rel]"
    and "walk_dir env path = [\<lparr> we_path = path, we_dir = False, we_error = True \<rparr>]"
  shows "\<exists>buf d'. HandleCollectionScan env jc d = ((None, buf), d')
    \<and> (\<forall>m \<in> set (tree_items cid (d_db d')). item_missing_since m \<noteq> None)"
proof (rule scan_job_marks [OF assms(1-8)])
  show "\<forall>e \<in> set (walk_dir env path). readable env (mime_category (coll_type c)) e"
    by (simp add: assms(9) readable_def walked_def)
next
  fix msg
  assume "\<exists>d1 d'. same_items d d1 \<and> walkFolders env cid (case root_collection_id c of None \<Rightarrow> 0 | Some r \<Rightarrow> r) path d1 = (Inl msg, d')"
  then show ?thesis by (simp add: walkFolders_def assms(9) walk_folder_def)
next
  fix buf d'
  assume "HandleCollectionScan env jc d = ((None, buf), d')" and "\<forall>m \<in> set (tree_items cid (d_db d')).
        item_missing_since m \<noteq> None \<longleftrightarrow> item_path m \<notin> set (walked_paths env (mime_category (coll_type c)) path)"
  then show ?thesis by (simp add: walked_paths_def assms(9) walked_def map_filter_simps)
qed

theorem unreadable_root_marks_everything_witness:
  "\<exists>buf d'. HandleCollectionScan (demo_scan_env [\<lparr> we_path = path_join [''/m'', ''p''], we_dir = False, we_error = True \<rparr>])
      demo_scan_job demo_scan_dispatcher = ((None, buf), d')
    \<and> (\<forall>m \<in> set (tree_items 1 (d_db d')). item_missing_since m \<noteq> None)"
  by (rule unreadable_root_marks_everything [OF demo_scan_ready]) (simp_all add: demo_scan_env_def)

end
