(* ===== verification/PhotoRepo.thy ===== *)
theory PhotoRepo
  imports AudioRepo
begin

text \<open>
  The listings of photos: \<open>PhotoItems\<close> and \<open>PhotoStatistics\<close> of
  \<open>internal/repository/media_item.go\<close>, and the names of lenses and cameras that
  \<open>internal/models/models.go\<close> rewrites.
\<close>

section \<open>Names of lenses and cameras\<close>

definition nikon_lenses :: "(string \<times> string) list" where
  "nikon_lenses =
    [(''18.0-55.0 mm f/3.5-5.6'', ''NIKKOR 18-55mm F3.5-5.6 DC Macro OS HSM''),
     (''18.0-300.0 mm f/3.5-6.3'', ''Sigma Contemporary 18-300mm F3.5-6.3 DC Macro OS HSM'')]"

text \<open>One of the names contains two en dashes, in UTF-8.\<close>

definition en_dash :: string where
  "en_dash = [CHR 0xE2, CHR 0x80, CHR 0x93]"

definition lens_names :: "(string \<times> string) list" where
  "lens_names =
    [(''iPad mini back camera 3mm f/1.8'', ''Wide Camera 29mm F1.8''),
     (''iPhone 13 mini back dual wide camera 1.54mm f/2.4'', ''Ultra Wide Camera 14mm F2.4''),
     (''iPhone 13 mini back dual wide camera 5.1mm f/1.6'', ''Wide Camera 26mm F1.6''),
     (''iPhone 13 mini front camera 2.71mm f/2.2'', ''Front Camera 23mm F2.2''),
     (''iPhone 14 Pro back triple camera 2.22mm f/2.2'', ''Ultra Wide Camera 14mm F2.2''),
     (''iPhone 14 Pro back triple camera 6.86mm f/1.78'', ''Wide Camera 24mm F1.8''),
     (''iPhone 14 Pro back camera 6.86mm f/1.78'', ''Wide Camera 24mm F1.8''),
     (''iPhone 15 Pro Max back triple camera 6.86mm f/1.78'', ''Wide Camera 24mm F1.8''),
     (''iPhone 14 Pro back triple camera 9mm f/2.8'', ''Telephoto Camera 77mm F2.8''),
     (''iPhone 14 Pro front camera 2.69mm f/1.9'', ''Front Camera 30mm F1.9''),
     (''AF-S DX Nikkor 35mm f/1.8G'', ''Nikkor 28-70mm F??''),
     (''YYY'', ''Sigma Art 18-35mm F1.8 DC HSM''),
     (''14-24mm F2.8 DG DN | Art 019'', ''Sigma Art 14-24mm F2.8 DG DN''),
     (''Sigma 35mm F1.4 DG DN | A (Sony E)'', ''Sigma Art 35mm F1.4 DG DN''),
     (''85mm F1.4 DG DN | Art 020'', ''Sigma Art 85mm F1.4 DG DN''),
     (''Sigma 85mm F1.4 DG DN | A (Sony E)'', ''Sigma Art 85mm F1.4 DG DN''),
     (''Sony FE 200'' @ en_dash @ ''600mm F5.6'' @ en_dash @ ''6.3 G OSS (SEL200600G)'', ''Sony 200-600mm F5.6-6.3 G OSS''),
     (''FE 200-600mm F5.6-6.3 G OSS'', ''Sony 200-600mm F5.6-6.3 G OSS''),
     (''E 28-200mm F2.8-5.6 A071'', ''TAMRON 28-200mm F2.8-5.6 Di III RXD''),
     (''E 70-180mm F2.8 A065'', ''TAMRON 70-180mm F2.8 Di III VC VXD G2'')]"

definition camera_names :: "(string \<times> string) list" where
  "camera_names = [(''ILCE-7R3'', ''Sony A7 III''), (''ILCE-7RM3'', ''Sony A7R III''), (''ILCE-7C'', ''Sony A7C'')]"

definition renamed :: "(string \<times> string) list \<Rightarrow> string \<Rightarrow> string" where
  "renamed names m = (case map_of names m of None \<Rightarrow> m | Some n \<Rightarrow> n)"

text \<open>\<open>models.PhotoItem\<close>: the columns of \<open>photo_metadata\<close> are those of the row.\<close>

record PhotoItem =
  pi_id :: int
  pi_title :: string
  pi_mime_type :: string
  pi_meta :: photo_metadata
  pi_collection_name :: "string option"
  pi_ordinal :: int
  pi_missing :: bool

definition RemapLensModel :: "PhotoItem \<Rightarrow> PhotoItem" where
  "RemapLensModel item = (case lens_model (pi_meta item) of
       None \<Rightarrow> item
     | Some l \<Rightarrow>
         let m = (if l \<in> fst ` set nikon_lenses
                  then (if camera_make (pi_meta item) = Some ''NIKON CORPORATION'' then renamed nikon_lenses l else l)
                  else renamed lens_names l)
         in item\<lparr> pi_meta := (pi_meta item)\<lparr> lens_model := Some m \<rparr> \<rparr>)"

definition RemapCameraModel :: "PhotoItem \<Rightarrow> PhotoItem" where
  "RemapCameraModel item =
     item\<lparr> pi_meta := (pi_meta item)\<lparr> camera_model := map_option (renamed camera_names) (camera_model (pi_meta item)) \<rparr> \<rparr>"

section \<open>Listings\<close>

definition photo_item :: "string option \<Rightarrow> media_item \<Rightarrow> photo_metadata \<Rightarrow> PhotoItem" where
  "photo_item cname m p = \<lparr> pi_id = item_id m, pi_title = title m, pi_mime_type = mime_type m, pi_meta = p,
     pi_collection_name = cname, pi_ordinal = 0, pi_missing = (item_missing_since m \<noteq> None) \<rparr>"

definition photo_scope :: "int \<Rightarrow> bool \<Rightarrow> db \<Rightarrow> (media_item \<times> photo_metadata) list" where
  "photo_scope cid recursive s = List.map_filter (\<lambda>m. map_option (\<lambda>p. (m, p)) (find_photo (item_id m) s))
     (filter (\<lambda>m. hidden_at m = None)
       (if recursive then tree_items cid s else filter (\<lambda>m. item_collection m = cid) (media_items s)))"

text \<open>\<open>PhotoQuery\<close>.\<close>

record PhotoQuery =
  pq_collection :: int
  pq_offset :: int
  pq_limit :: int
  pq_ascending :: bool
  pq_recursive :: bool

text \<open>Both keys run in the direction that is asked for; a photo without a time comes last in both.\<close>

definition order_photos :: "bool \<Rightarrow> (media_item \<times> photo_metadata) list \<Rightarrow> (media_item \<times> photo_metadata) list" where
  "order_photos ascending rows =
     (let dir = (\<lambda>k. if ascending then k else - k :: int) in
      order_nulls_last (\<lambda>(m, p). map_option dir (pm_created_at p)) (sort_key (\<lambda>(m, p). dir (item_id m)) rows))"

definition PhotoItems :: "PhotoQuery \<Rightarrow> PhotoItem list statement" where
  "PhotoItems q = sql (\<lambda>s.
     (map_sum id (map (\<lambda>(m, p). photo_item None m p)) (page_of (pq_limit q) (pq_offset q)
        (order_photos (pq_ascending q) (photo_scope (pq_collection q) (pq_recursive q) s))), s))"

text \<open>\<open>EXTRACT\<close> of the year and the month depends on the time zone of the database: a parameter. The
  groups come in the order of the months.\<close>

definition PhotoStatistics :: "(time \<Rightarrow> int \<times> int) \<Rightarrow> int \<Rightarrow> bool \<Rightarrow> ((int \<times> int) \<times> int) list statement" where
  "PhotoStatistics calendar cid recursive = sql (\<lambda>s.
     let months = List.map_filter (\<lambda>(m, p). if item_missing_since m \<noteq> None then None else map_option calendar (pm_created_at p))
           (photo_scope cid recursive s);
         groups = sort_key fst (sort_key snd (remdups months))
     in (Inr (map (\<lambda>g. (g, int (length (filter (\<lambda>m. m = g) months)))) groups), s))"

end
