(* ===== verification/SearchRepo.thy ===== *)
theory SearchRepo
  imports PhotoRepo
begin

text \<open>
  \<open>internal/repository/search.go\<close>: the library-wide searches. What matches a query and how well is
  the full-text search of Postgres, a parameter: a match and a rank per configuration, document and
  query. Every search joins what it finds with the user's access rows.
\<close>

record fts =
  ts_match :: "string \<Rightarrow> string \<Rightarrow> string \<Rightarrow> bool"                  \<comment> \<open>configuration, document, query\<close>
  ts_rank :: "string \<Rightarrow> string \<Rightarrow> string \<Rightarrow> int"
  ts_photo_match :: "string list \<Rightarrow> string option \<Rightarrow> string \<Rightarrow> bool"  \<comment> \<open>keywords and description\<close>
  ts_photo_rank :: "string list \<Rightarrow> string option \<Rightarrow> string \<Rightarrow> int"

text \<open>\<open>SearchParams\<close>.\<close>

record SearchParams =
  sp_query :: string
  sp_offset :: int
  sp_limit :: int

definition CollectionTypeHomeMovie :: string where "CollectionTypeHomeMovie = ''video:home_movie''"
definition CollectionTypeMusic :: string where "CollectionTypeMusic = ''audio:music''"
definition CollectionTypeAudioShow :: string where "CollectionTypeAudioShow = ''audio:show''"
definition CollectionTypePhoto :: string where "CollectionTypePhoto = ''image:photo''"

text \<open>\<open>ORDER BY rank DESC, id ASC LIMIT n OFFSET k\<close>.\<close>

definition ranked_page :: "('r \<Rightarrow> int) \<Rightarrow> ('r \<Rightarrow> int) \<Rightarrow> SearchParams \<Rightarrow> 'r list \<Rightarrow> db_error + 'r list" where
  "ranked_page rank idf p rows = page_of (sp_limit p) (sp_offset p) (sort_key (\<lambda>r. - rank r) (sort_key idf rows))"

lemma ranked_page_subset: "ranked_page rank idf p rows = Inr page \<Longrightarrow> set page \<subseteq> set rows"
  by (auto simp: ranked_page_def page_of_def dest!: in_set_takeD in_set_dropD split: if_splits)

text \<open>The recursive query \<open>anc\<close>: the ids from the root to the collection, None when a row on the way is
  missing.\<close>

fun ancestry :: "nat \<Rightarrow> int \<Rightarrow> int list \<Rightarrow> db \<Rightarrow> int list option" where
  "ancestry 0 i below s = None"
| "ancestry (Suc n) i below s =
     (case find_collection i s of
        None \<Rightarrow> None
      | Some c \<Rightarrow> (case parent_collection_id c of None \<Rightarrow> Some (i # below) | Some p \<Rightarrow> ancestry n p (i # below) s))"

definition collection_path :: "int \<Rightarrow> db \<Rightarrow> int list option" where
  "collection_path i s = ancestry (length (collections s)) i [] s"

text \<open>An item with its collection, when the user may see it.\<close>

definition item_scope :: "int \<Rightarrow> string list \<Rightarrow> db \<Rightarrow> (media_item \<times> collection) list" where
  "item_scope uid types s = List.map_filter (\<lambda>m.
     case find_collection (item_collection m) s of
       None \<Rightarrow> None
     | Some c \<Rightarrow> if coll_type c \<in> set types \<and> has_access uid (root_collection_id c) s then Some (m, c) else None)
     (filter (\<lambda>m. hidden_at m = None) (media_items s))"

section \<open>Videos\<close>

record VideoSearchHit =
  vh_date :: "string option"
  vh_title :: string
  vh_collection_name :: string
  vh_collection_type :: string
  vh_collection_path :: "int list"
  vh_id :: int

definition SearchVideos :: "fts \<Rightarrow> int \<Rightarrow> SearchParams \<Rightarrow> (VideoSearchHit list \<times> VideoSearchHit list) statement" where
  "SearchVideos f uid p = sql (\<lambda>s.
     let rows = List.map_filter (\<lambda>(m, c). map_option (\<lambda>path. (m, c, path)) (collection_path (coll_id c) s))
           (filter (\<lambda>(m, c). item_missing_since m = None \<and> ts_match f ''english'' (title m) (sp_query p))
             (item_scope uid [CollectionTypeMovie, CollectionTypeHomeMovie] s));
         hit = (\<lambda>(m, c, path). \<lparr> vh_date = Option.bind (find_video (item_id m) s) date_string, vh_title = title m,
           vh_collection_name = coll_name c, vh_collection_type = coll_type c, vh_collection_path = path, vh_id = item_id m \<rparr>)
     in (map_sum id (\<lambda>page. let hits = map hit page in
            (filter (\<lambda>h. vh_collection_type h = CollectionTypeMovie) hits,
             filter (\<lambda>h. vh_collection_type h = CollectionTypeHomeMovie) hits))
          (ranked_page (\<lambda>(m, _). ts_rank f ''english'' (title m) (sp_query p)) (\<lambda>(m, _). item_id m) p rows), s))"

section \<open>Photos\<close>

text \<open>\<open>PhotoCollectionSearchHit\<close>; the date is taken from the name, which may panic.\<close>

record PhotoCollectionSearchHit =
  ch_date :: "string option"
  ch_name :: string
  ch_collection_path :: "int list"
  ch_id :: int

definition collection_hit :: "collection \<times> int list \<Rightarrow> db_error + PhotoCollectionSearchHit" where
  "collection_hit = (\<lambda>(c, path). case ExtractDatePrefix (coll_name c) of
       None \<Rightarrow> Inl Panicked
     | Some (name, date) \<Rightarrow> Inr \<lparr> ch_date = date, ch_name = name, ch_collection_path = path, ch_id = coll_id c \<rparr>)"

definition SearchPhotoCollections :: "fts \<Rightarrow> int \<Rightarrow> SearchParams \<Rightarrow> PhotoCollectionSearchHit list statement" where
  "SearchPhotoCollections f uid p = sql (\<lambda>s.
     let rows = List.map_filter (\<lambda>c. map_option (\<lambda>path. (c, path)) (collection_path (coll_id c) s))
           (filter (\<lambda>c. coll_type c = CollectionTypePhoto \<and> coll_missing_since c = None
              \<and> ts_match f ''simple'' (coll_name c) (sp_query p) \<and> has_access uid (root_collection_id c) s) (collections s))
     in (case ranked_page (\<lambda>(c, _). ts_rank f ''simple'' (coll_name c) (sp_query p)) (\<lambda>(c, _). coll_id c) p rows of
           Inl e \<Rightarrow> Inl e
         | Inr page \<Rightarrow> collect_rows collection_hit page, s))"

definition SearchPhotos :: "fts \<Rightarrow> int \<Rightarrow> SearchParams \<Rightarrow> PhotoItem list statement" where
  "SearchPhotos f uid p = sql (\<lambda>s.
     let q = sp_query p;
         rows = filter (\<lambda>(m, c, pm). ts_match f ''english'' (title m) q \<or> ts_photo_match f (pm_keywords pm) (pm_description pm) q)
           (List.map_filter (\<lambda>(m, c). map_option (\<lambda>pm. (m, c, pm)) (find_photo (item_id m) s))
             (item_scope uid [CollectionTypePhoto] s))
     in (map_sum id (map (\<lambda>(m, c, pm). photo_item (Some (coll_name c)) m pm))
          (ranked_page (\<lambda>(m, c, pm). ts_rank f ''english'' (title m) q + ts_photo_rank f (pm_keywords pm) (pm_description pm) q)
             (\<lambda>(m, _). item_id m) p rows), s))"

section \<open>Audio\<close>

record AudioArtistSearchHit =
  ah_name :: string
  ah_collection_type :: string
  ah_id :: int
  ah_collection_id :: int

text \<open>The common table \<open>artist_collection\<close>: artist, root collection and type, from the albums of music
  and from the tracks of shows.\<close>

definition artist_collections :: "int \<Rightarrow> db \<Rightarrow> (int \<times> int \<times> string) list" where
  "artist_collections uid s = remdups (
     List.map_filter (\<lambda>al. if has_access uid (Some (album_root al)) s
        then map_option (\<lambda>a. (a, album_root al, CollectionTypeMusic)) (album_artist al) else None) (albums s)
     @ List.map_filter (\<lambda>(m, c). if item_missing_since m \<noteq> None then None else
          Option.bind (find (\<lambda>a. am_item a = item_id m) (audio_meta s)) (\<lambda>a.
            Option.bind (am_artist a) (\<lambda>i. map_option (\<lambda>r. (i, r, coll_type c)) (root_collection_id c))))
        (item_scope uid [CollectionTypeAudioShow] s))"

text \<open>\<open>MIN\<close> of the collections and of the types, one independently of the other.\<close>

definition SearchAudioArtists ::
  "fts \<Rightarrow> int \<Rightarrow> SearchParams \<Rightarrow> (AudioArtistSearchHit list \<times> AudioArtistSearchHit list) statement" where
  "SearchAudioArtists f uid p = sql (\<lambda>s.
     let homes = (\<lambda>a. filter (\<lambda>x. fst x = artist_id a) (artist_collections uid s));
         rows = filter (\<lambda>a. homes a \<noteq> [] \<and> ts_match f ''simple'' (artist_name a) (sp_query p)) (artists s);
         hit = (\<lambda>a. \<lparr> ah_name = artist_name a,
           ah_collection_type = hd (order_by_text id (map (\<lambda>(_, _, t). t) (homes a))), ah_id = artist_id a,
           ah_collection_id = hd (sort (map (\<lambda>(_, r, _). r) (homes a))) \<rparr>)
     in (map_sum id (\<lambda>page. let hits = map hit page in
            (filter (\<lambda>h. ah_collection_type h = CollectionTypeMusic) hits,
             filter (\<lambda>h. ah_collection_type h = CollectionTypeAudioShow) hits))
          (ranked_page (\<lambda>a. ts_rank f ''simple'' (artist_name a) (sp_query p)) artist_id p rows), s))"

record AudioAlbumSearchHit =
  bh_year :: "int option"
  bh_artist_id :: "int option"
  bh_name :: string
  bh_id :: int
  bh_collection_id :: int

definition SearchAudioAlbums :: "fts \<Rightarrow> int \<Rightarrow> SearchParams \<Rightarrow> AudioAlbumSearchHit list statement" where
  "SearchAudioAlbums f uid p = sql (\<lambda>s.
     (map_sum id (map (\<lambda>al. \<lparr> bh_year = album_year al, bh_artist_id = album_artist al, bh_name = album_name al,
          bh_id = album_id al, bh_collection_id = album_root al \<rparr>))
        (ranked_page (\<lambda>al. ts_rank f ''simple'' (album_name al) (sp_query p)) album_id p
          (filter (\<lambda>al. ts_match f ''simple'' (album_name al) (sp_query p) \<and> has_access uid (Some (album_root al)) s) (albums s))), s))"

record AudioTrackSearchHit =
  th_album_id :: "int option"
  th_artist_id :: "int option"
  th_hundredths :: "int option"
  th_artist_name :: "string option"
  th_album_name :: "string option"
  th_title :: string
  th_collection_type :: string
  th_id :: int
  th_collection_id :: int

definition SearchAudioTracks :: "fts \<Rightarrow> int \<Rightarrow> SearchParams \<Rightarrow> AudioTrackSearchHit list statement" where
  "SearchAudioTracks f uid p = sql (\<lambda>s.
     let rows = List.map_filter (\<lambda>(m, c). map_option (\<lambda>a. (m, c, a)) (find (\<lambda>a. am_item a = item_id m) (audio_meta s)))
           (filter (\<lambda>(m, c). item_missing_since m = None \<and> ts_match f ''english'' (title m) (sp_query p))
             (item_scope uid [CollectionTypeMusic, CollectionTypeAudioShow] s));
         hit = (\<lambda>(m, c, a). \<lparr> th_album_id = am_album a, th_artist_id = am_artist a, th_hundredths = duration_hundredths a,
           th_artist_name = Option.bind (am_artist a) (\<lambda>i. map_option artist_name (find_artist i s)),
           th_album_name = Option.bind (am_album a) (\<lambda>i. map_option album_name (find_album i s)),
           th_title = title m, th_collection_type = coll_type c, th_id = item_id m, th_collection_id = item_collection m \<rparr>)
     in (map_sum id (map hit)
          (ranked_page (\<lambda>(m, _). ts_rank f ''english'' (title m) (sp_query p)) (\<lambda>(m, _). item_id m) p rows), s))"

end
