(* ===== verification/MediaCore.thy ===== *)
theory MediaCore
  imports AdminCore SearchRepo StreamingProps
begin

text \<open>
  The state and the environment of the handlers that serve media
  (\<open>internal/api/collections.go\<close>, \<open>photos.go\<close>, \<open>video.go\<close>, \<open>music.go\<close>, \<open>radio.go\<close>, \<open>search.go\<close>):
  the server of the administrator's handlers together with the streaming sessions, which pause
  its dispatcher. What \<open>http.ServeFile\<close> answers for a file, whether a file exists, and the image
  library are the environment's.
\<close>

section \<open>State\<close>

record ('c, 'a, 'l, 'w) media_app =
  mapp :: "('c, 'a, 'l, 'w) app"
  streams :: streaming

record ('c, 'a, 'l, 'w) media_env =
  menv :: "('c, 'a, 'l, 'w) admin_env"
  bitrate_limit :: int                                       \<comment> \<open>\<open>cfg.TranscodeBitrateKbps\<close>\<close>
  file_exists :: "string \<Rightarrow> bool"                            \<comment> \<open>\<open>fileExists\<close>\<close>
  path_missing :: "string \<Rightarrow> bool"                           \<comment> \<open>\<open>os.Stat\<close> says it does not exist\<close>
  file_status :: "string \<Rightarrow> nat"                             \<comment> \<open>\<open>http.ServeFile\<close>\<close>
  jpeg_of :: "string \<Rightarrow> string option"                       \<comment> \<open>\<open>imaging.GenerateJPEG\<close>\<close>
  make_dzi :: "string \<Rightarrow> string \<Rightarrow> string \<Rightarrow> bool option"      \<comment> \<open>\<open>imaging.GenerateDZIIfNotPresent\<close>\<close>
  video_cover :: "string \<Rightarrow> string \<Rightarrow> int \<Rightarrow> int \<Rightarrow> bool"      \<comment> \<open>\<open>imaging.GenerateVideoCoverFromBytes\<close>\<close>
  artist_cover :: "string \<Rightarrow> int \<Rightarrow> bool"
  album_thumb :: "string \<Rightarrow> int \<Rightarrow> bool"
  text_match :: "string \<Rightarrow> string \<Rightarrow> bool"                   \<comment> \<open>the full-text match of the artists' listing\<close>
  text_search :: fts
  calendar :: "time \<Rightarrow> int \<times> int"                           \<comment> \<open>year and month in the database's time zone\<close>

abbreviation media_dir :: "('c, 'a, 'l, 'w) media_env \<Rightarrow> string" where
  "media_dir env \<equiv> media_path (menv env)"

abbreviation data_dir :: "('c, 'a, 'l, 'w) media_env \<Rightarrow> string" where
  "data_dir env \<equiv> data_path (menv env)"

type_synonym ('c, 'a, 'l, 'w, 'r) media_op = "('c, 'a, 'l, 'w) media_app \<Rightarrow> 'r \<times> ('c, 'a, 'l, 'w) media_app"

definition on_app :: "('c, 'a, 'l, 'w, 'r) app_op \<Rightarrow> ('c, 'a, 'l, 'w, 'r) media_op" where
  "on_app f st = (case f (mapp st) of (r, a) \<Rightarrow> (r, st\<lparr> mapp := a \<rparr>))"

definition select :: "'x statement \<Rightarrow> ('c, 'a, 'l, 'w, db_error + 'x) media_op" where
  "select stmt = on_app (query stmt)"

definition remove_file :: "string \<Rightarrow> ('c, 'a, 'l, 'w) media_app \<Rightarrow> ('c, 'a, 'l, 'w) media_app" where
  "remove_file p st = st\<lparr> mapp := remove_path p (mapp st) \<rparr>"

abbreviation media_db :: "('c, 'a, 'l, 'w) media_app \<Rightarrow> db" where
  "media_db st \<equiv> sdb (srv (mapp st))"

text \<open>A call of the streaming package: it reads the server's clock and switches the dispatcher of
  the server.\<close>

definition lend_streams :: "('c, 'a, 'l, 'w) media_app \<Rightarrow> streaming" where
  "lend_streams st = (streams st)\<lparr> st_clock := clock (media_db st),
     st_dispatcher := \<lparr> paused = paused (disp (mapp st)) \<rparr> \<rparr>"

definition on_streams :: "(streaming \<Rightarrow> 'r \<times> streaming) \<Rightarrow> ('c, 'a, 'l, 'w, 'r) media_op" where
  "on_streams f st = (case f (lend_streams st) of
     (r, t) \<Rightarrow> (r, st\<lparr> streams := t,
        mapp := (mapp st)\<lparr> disp := (disp (mapp st))\<lparr> paused := paused (st_dispatcher t) \<rparr> \<rparr> \<rparr>))"

section \<open>Answers\<close>

datatype media_payload =
    FileBody string "string option" "string option"     \<comment> \<open>path, Content-Type, Cache-Control\<close>
  | JpegBody string "string option"
  | RawJson string
  | DziFile string bool string                          \<comment> \<open>path, whether it was generated, Cache-Control\<close>
  | Redirect string
  | OneCollection collection_view
  | CollectionViews "(collection_view \<times> string option) list"
  | VideoPage "VideoItemView list" int "int option" int
  | VideoItem VideoItemView
  | ArtistPage "artist list" int int int
  | ArtistAlbums artist "AlbumSummary list"
  | AlbumTracks album "TrackView list" int int          \<comment> \<open>total in hundredths of a second, discs\<close>
  | Shows "(int \<times> string \<times> bool) list"
  | Episodes artist "(string \<times> TrackView) list" "show_bookmark option"
  | PhotoPage "PhotoItem list" int int
  | PhotoMonths int "((int \<times> int) \<times> int) list"
  | VideoHits "VideoSearchHit list" "VideoSearchHit list" int int
  | PhotoCollectionHits "PhotoCollectionSearchHit list" int int
  | ArtistHits "AudioArtistSearchHit list" "AudioArtistSearchHit list" int int
  | AlbumHits "AudioAlbumSearchHit list" int int
  | TrackHits "AudioTrackSearchHit list" int int
  | StatusOk

type_synonym media_response = "media_payload response"

definition serve_file :: "('c, 'a, 'l, 'w) media_env \<Rightarrow> string option \<Rightarrow> string option \<Rightarrow> string \<Rightarrow> media_response" where
  "serve_file env ctype cache path =
     \<lparr> resp_status = file_status env path, resp_content = JsonBody (FileBody path ctype cache), resp_cookies = [] \<rparr>"

text \<open>A slice of a hash that is out of range panics, and the recoverer answers.\<close>

definition or_panic :: "'x option \<Rightarrow> ('x \<Rightarrow> 's \<Rightarrow> 'p response \<times> 's) \<Rightarrow> 's \<Rightarrow> 'p response \<times> 's" where
  "or_panic x k s = (case x of None \<Rightarrow> (recovered, s) | Some y \<Rightarrow> k y s)"

definition query_failed :: "nat \<Rightarrow> string \<Rightarrow> db_error \<Rightarrow> 's \<Rightarrow> 'p response \<times> 's" where
  "query_failed st message e s = (if e = Panicked then (recovered, s) else fail st message e s)"

text \<open>\<open>strings.Contains\<close>.\<close>

fun contains :: "string \<Rightarrow> string \<Rightarrow> bool" where
  "contains [] t \<longleftrightarrow> t = []"
| "contains (c # s) t \<longleftrightarrow> has_prefix (c # s) t \<or> contains s t"

definition resolveAccept :: "request \<Rightarrow> string" where
  "resolveAccept r =
     (let f = QueryGet r ''format'' in
      if f = ''webp'' then ''image/webp''
      else if f = ''jpeg'' \<or> f = ''jpg'' then ''image/jpeg''
      else accept_header r)"

definition wants_jpeg :: "string \<Rightarrow> bool" where
  "wants_jpeg accept \<longleftrightarrow> contains accept ''image/jpeg'' \<and> \<not> contains accept ''image/webp''"

definition serveStoredImage ::
  "('c, 'a, 'l, 'w) media_env \<Rightarrow> request \<Rightarrow> string \<Rightarrow> string \<Rightarrow> media_response" where
  "serveStoredImage env r webpPath notFoundMsg =
     (if \<not> file_exists env webpPath then writeError 404 notFoundMsg
      else if wants_jpeg (resolveAccept r) then
        (case jpeg_of env webpPath of
           None \<Rightarrow> writeError 500 ''image conversion failed''
         | Some b \<Rightarrow> writeJSON 200 (JpegBody b None))
      else serve_file env None None webpPath)"

section \<open>Lemmas\<close>

lemma select_sel [simp]:
  "fst (select stmt st) = fst (stmt (media_db st))" "media_db (snd (select stmt st)) = snd (stmt (media_db st))"
  "streams (snd (select stmt st)) = streams st" "disp (mapp (snd (select stmt st))) = disp (mapp st)"
  "removed (mapp (snd (select stmt st))) = removed (mapp st)"
  by (simp_all add: select_def on_app_def query_def split: prod.split)
    (simp_all add: on_srv_def AuthCore.on_db_def split: prod.splits)

lemma on_streams_sel [simp]:
  "fst (on_streams f st) = fst (f (lend_streams st))" "streams (snd (on_streams f st)) = snd (f (lend_streams st))"
  "paused (disp (mapp (snd (on_streams f st)))) = paused (st_dispatcher (snd (f (lend_streams st))))"
  "media_db (snd (on_streams f st)) = media_db st"
  by (simp_all add: on_streams_def split: prod.split)

end
