(* ===== verification/VideoApi.thy ===== *)
theory VideoApi
  imports MediaCore
begin

text \<open>
  \<open>internal/api/collections.go\<close> and \<open>internal/api/video.go\<close>: the collections a user sees, the
  listings of videos, the three ways a video is streamed, covers and bookmarks.
\<close>

section \<open>Collections\<close>

definition list_collections :: "claims \<Rightarrow> ('c, 'a, 'l, 'w, media_response) media_op" where
  "list_collections c = call_or (select (CollectionsListAccessibleByUser (claims_user c))) (fail 500 ''db error'')
     (\<lambda>cs st. (writeJSON 200 (CollectionViews (map (\<lambda>v. (v, None)) cs)), st))"

definition get_collection :: "request \<Rightarrow> claims \<Rightarrow> ('c, 'a, 'l, 'w, media_response) media_op" where
  "get_collection r c = with_id r ''id'' (\<lambda>i.
     call_or (select (CollectionGetForUser i (claims_user c))) (fail 404 ''collection not found'')
       (\<lambda>v st. (writeJSON 200 (OneCollection v), st)))"

text \<open>\<open>requireAccess\<close>, and the same check in the handlers of photos.\<close>

definition requireAccess ::
  "int \<Rightarrow> claims \<Rightarrow> ('c, 'a, 'l, 'w, media_response) media_op \<Rightarrow> ('c, 'a, 'l, 'w, media_response) media_op" where
  "requireAccess i c k = call_or (select (CollectionExistsAndAccessible i (claims_user c))) (fail 404 ''collection not found'')
     (\<lambda>ok st. if ok then k st else (writeError 404 ''collection not found'', st))"

text \<open>A date in front of the name moves to a field of its own; None when the extraction panics.\<close>

definition dated_view :: "collection_view \<Rightarrow> (collection_view \<times> string option) option" where
  "dated_view v = map_option (\<lambda>(stripped, date). case date of
       None \<Rightarrow> (v, None)
     | Some d \<Rightarrow> (v\<lparr> cv_name := stripped \<rparr>, Some d)) (ExtractDatePrefix (cv_name v))"

fun all_some :: "'x option list \<Rightarrow> 'x list option" where
  "all_some [] = Some []"
| "all_some (x # xs) = (case x of None \<Rightarrow> None | Some y \<Rightarrow> map_option (\<lambda>ys. y # ys) (all_some xs))"

definition listChildren :: "request \<Rightarrow> claims \<Rightarrow> ('c, 'a, 'l, 'w, media_response) media_op" where
  "listChildren r c = with_id r ''id'' (\<lambda>i. requireAccess i c
     (call_or (select (CollectionGetChildCollections i)) (fail 500 ''db error'')
       (\<lambda>cs. or_panic (all_some (map dated_view cs)) (\<lambda>vs st. (writeJSON 200 (CollectionViews vs), st)))))"

section \<open>Streaming a video\<close>

text \<open>The file of an item the user may see: its path, its type and its hash.\<close>

definition video_info ::
  "claims \<Rightarrow> int \<Rightarrow> (string \<Rightarrow> string \<Rightarrow> string \<Rightarrow> ('c, 'a, 'l, 'w, media_response) media_op)
    \<Rightarrow> ('c, 'a, 'l, 'w, media_response) media_op" where
  "video_info c i k = call_or (select (MediaItemGetVideoStreamInfo i (claims_user c))) (fail 404 ''video not found'')
     (\<lambda>(rel, mime, hash). k rel mime hash)"

definition with_video ::
  "request \<Rightarrow> claims \<Rightarrow> (int \<Rightarrow> string \<Rightarrow> string \<Rightarrow> string \<Rightarrow> ('c, 'a, 'l, 'w, media_response) media_op)
    \<Rightarrow> ('c, 'a, 'l, 'w, media_response) media_op" where
  "with_video r c k = with_id r ''id'' (\<lambda>i. video_info c i (k i))"

definition video_url :: "request \<Rightarrow> string \<Rightarrow> media_response" where
  "video_url r suffix = \<lparr> resp_status = 302, resp_content = JsonBody (Redirect (''/videos/'' @ URLParam r ''id'' @ suffix)),
     resp_cookies = [] \<rparr>"

definition stream :: "('c, 'a, 'l, 'w) media_env \<Rightarrow> request \<Rightarrow> claims \<Rightarrow> ('c, 'a, 'l, 'w, media_response) media_op" where
  "stream env r c = with_id r ''id'' (\<lambda>i st.
     if isLocalRequest (remote_addr r) then (video_url r ''/raw'', st)
     else video_info c i (\<lambda>rel mime hash. or_panic (VideoHLSManifest (data_dir env) hash) (\<lambda>manifest st.
       (if file_exists env manifest then video_url r ''/hls/manifest.m3u8'' else video_url r ''/live/manifest.m3u8'', st))) st)"

definition raw :: "('c, 'a, 'l, 'w) media_env \<Rightarrow> request \<Rightarrow> claims \<Rightarrow> ('c, 'a, 'l, 'w, media_response) media_op" where
  "raw env r c = with_video r c (\<lambda>i rel mime hash st.
     (serve_file env (Some mime) None (path_join [media_dir env, rel]), st))"

definition hlsManifest :: "('c, 'a, 'l, 'w) media_env \<Rightarrow> request \<Rightarrow> claims \<Rightarrow> ('c, 'a, 'l, 'w, media_response) media_op" where
  "hlsManifest env r c = with_video r c (\<lambda>i rel mime hash. or_panic (VideoHLSManifest (data_dir env) hash) (\<lambda>manifest st.
     (if file_exists env manifest then serve_file env None (Some (setMediaCacheHeaders r)) manifest
      else writeError 404 ''transcode not available'', st)))"

definition hlsSegment :: "('c, 'a, 'l, 'w) media_env \<Rightarrow> request \<Rightarrow> claims \<Rightarrow> ('c, 'a, 'l, 'w, media_response) media_op" where
  "hlsSegment env r c = with_video r c (\<lambda>i rel mime hash. or_panic (VideoHLSDir (data_dir env) hash) (\<lambda>hlsDir st.
     let segPath = path_join [hlsDir, filepath_Clean (URLParam r ''segment'')] in
     (if \<not> has_prefix segPath (hlsDir @ ''/'') then writeError 400 ''invalid segment path''
      else if \<not> file_exists env segPath then writeError 404 ''segment not found''
      else serve_file env None (Some (setMediaCacheHeaders r)) segPath, st)))"

text \<open>The answer the streaming package gives.\<close>

definition streamed :: "('c, 'a, 'l, 'w) media_env \<Rightarrow> serve_result \<Rightarrow> media_response" where
  "streamed env res = (case res of
       HttpError message code \<Rightarrow> writeError code message
     | NoResponse \<Rightarrow> write_status 200
     | ServeFile path \<Rightarrow> serve_file env None None path)"

text \<open>The session of an item runs an operation.\<close>

definition session_op ::
  "int \<Rightarrow> session \<Rightarrow> (streaming \<Rightarrow> session \<times> os_state \<Rightarrow> serve_result \<times> session \<times> os_state) \<Rightarrow> streaming \<Rightarrow> serve_result \<times> streaming" where
  "session_op i s f t = (case f t (s, st_os t) of (res, so) \<Rightarrow> (res, with_session i so t))"

definition liveManifest ::
  "('c, 'a, 'l, 'w) media_env \<Rightarrow> open_env \<Rightarrow> manifest_select \<Rightarrow> request \<Rightarrow> claims \<Rightarrow> ('c, 'a, 'l, 'w, media_response) media_op" where
  "liveManifest env oe choice r c = with_video r c (\<lambda>i rel mime hash st.
     case select (VideoWithBookmark i (claims_user c)) st of (meta, st1) \<Rightarrow>
       let bitrate = (case meta of Inl _ \<Rightarrow> None | Inr (v, _) \<Rightarrow> bitrate_kbps v) in
       call_or (on_streams (GetOrCreateSession i bitrate (path_join [media_dir env, rel]) (bitrate_limit env) oe))
         (fail 500 ''failed to start stream'')
         (\<lambda>s st2. case on_streams (session_op i s (\<lambda>t so. case ServeManifest (st_clock t) choice (fst so) of
              (res, s') \<Rightarrow> (res, s', snd so))) st2 of
            (res, st3) \<Rightarrow> (streamed env res, st3)) st1)"

definition liveSegment ::
  "('c, 'a, 'l, 'w) media_env \<Rightarrow> serve_env \<Rightarrow> request \<Rightarrow> claims \<Rightarrow> ('c, 'a, 'l, 'w, media_response) media_op" where
  "liveSegment env se r c = with_id r ''id'' (\<lambda>i st.
     case GetSession i (streams st) of
       None \<Rightarrow> (writeError 404 ''no active stream session'', st)
     | Some s \<Rightarrow>
         (case on_streams (session_op i s (\<lambda>t. ServeSegment (URLParam r ''segment'') se)) st of
            (res, st1) \<Rightarrow> (streamed env res, st1)))"

definition cover :: "('c, 'a, 'l, 'w) media_env \<Rightarrow> request \<Rightarrow> claims \<Rightarrow> ('c, 'a, 'l, 'w, media_response) media_op" where
  "cover env r c = with_video r c (\<lambda>i rel mime hash. or_panic (VariantPath (data_dir env) hash ''cover'' ''webp'')
     (\<lambda>p st. (serveStoredImage env r p ''cover not found'', st)))"

section \<open>Listings\<close>

definition listVideos :: "request \<Rightarrow> claims \<Rightarrow> ('c, 'a, 'l, 'w, media_response) media_op" where
  "listVideos r c = with_id r ''id'' (\<lambda>i.
     call_or (select (CollectionGetForUser i (claims_user c))) (fail 404 ''collection not found'')
       (\<lambda>col.
          let page = queryInt r ''page'' 1;
              pageSize = min (queryInt r ''page_size'' 200) 1000;
              offset = wrap64 ((page - 1) * pageSize) in
          call_or (select (MediaItemVideosByCollection i (claims_user c) (cv_type col) (pageSize + 1) offset))
            (query_failed 500 ''db error'')
            (\<lambda>items st.
               if int (length items) > pageSize
               then (writeJSON 200 (VideoPage (take (nat pageSize) items) page (Some (wrap64 (page + 1))) pageSize), st)
               else (writeJSON 200 (VideoPage items page None pageSize), st))))"

definition getVideoItem :: "request \<Rightarrow> claims \<Rightarrow> ('c, 'a, 'l, 'w, media_response) media_op" where
  "getVideoItem r c = with_id r ''id'' (\<lambda>cid. with_id r ''item_id'' (\<lambda>i.
     call_or (select (MediaItemVideoGet cid i (claims_user c))) (query_failed 404 ''video item not found'')
       (\<lambda>v st. (writeJSON 200 (VideoItem v), st))))"

section \<open>Bookmarks\<close>

definition upsertBookmark :: "request \<Rightarrow> int option \<Rightarrow> claims \<Rightarrow> ('c, 'a, 'l, 'w, media_response) media_op" where
  "upsertBookmark r body c = with_id r ''item_id'' (\<lambda>i. with_body body (\<lambda>pos.
     call_or (select (VideoBookmarkUpsert (claims_user c) i pos)) (fail 500 ''failed to save bookmark'')
       (\<lambda>_ st. (write_status 204, st))))"

definition deleteBookmark :: "request \<Rightarrow> claims \<Rightarrow> ('c, 'a, 'l, 'w, media_response) media_op" where
  "deleteBookmark r c = with_id r ''item_id'' (\<lambda>i.
     call_or (select (VideoBookmarkDelete (claims_user c) i)) (fail 500 ''failed to delete bookmark'')
       (\<lambda>_ st. (write_status 204, st)))"

section \<open>Covers\<close>

text \<open>The upload is the bytes of the form's file; this handler keeps them in memory.\<close>

definition uploaded_bytes :: "upload \<Rightarrow> media_response + string" where
  "uploaded_bytes up = (case up of
       UploadInvalidForm \<Rightarrow> Inl (writeError 400 ''invalid multipart form'')
     | UploadNoFile \<Rightarrow> Inl (writeError 400 ''missing cover file'')
     | Uploaded bytes \<Rightarrow> Inr bytes
     | _ \<Rightarrow> Inl (writeError 500 ''failed to read upload''))"

definition set_manual_cover :: "int \<Rightarrow> bool \<Rightarrow> ('c, 'a, 'l, 'w, media_response) media_op" where
  "set_manual_cover i b = call_or (select (VideoSetManualThumbnail i b)) (fail 500 ''failed to update video metadata'')
     (\<lambda>_ st. (write_status 204, st))"

definition uploadCover ::
  "('c, 'a, 'l, 'w) media_env \<Rightarrow> upload \<Rightarrow> request \<Rightarrow> claims \<Rightarrow> ('c, 'a, 'l, 'w, media_response) media_op" where
  "uploadCover env up r c = with_id r ''id'' (\<lambda>i st.
     case uploaded_bytes up of
       Inl resp \<Rightarrow> (resp, st)
     | Inr bytes \<Rightarrow>
         video_info c i (\<lambda>rel mime hash st.
           case select (MediaItemRootCollectionType i) st of (collType, st1) \<Rightarrow>
             let (w, h) = (if collType = Inr CollectionTypeMovie then (2, 3) else (4, 3)) in
             if video_cover env bytes hash w h then set_manual_cover i True st1
             else (writeError 500 ''failed to process cover image'', st1)) st)"

definition deleteCover :: "('c, 'a, 'l, 'w) media_env \<Rightarrow> request \<Rightarrow> claims \<Rightarrow> ('c, 'a, 'l, 'w, media_response) media_op" where
  "deleteCover env r c = with_video r c (\<lambda>i rel mime hash. or_panic (VariantPath (data_dir env) hash ''cover'' ''webp'')
     (\<lambda>p st. set_manual_cover i False (remove_file p st)))"

end
