(* ===== verification/PhotoApi.thy ===== *)
theory PhotoApi
  imports VideoApi
begin

text \<open>
  \<open>internal/api/photos.go\<close>: the listings of photos, the EXIF data, the variants of an image with
  their fallbacks, and the tiles of a deep zoom image.
\<close>

section \<open>Listings\<close>

text \<open>\<open>strings.ToLower(strings.TrimSpace(v))\<close>.\<close>

definition flag_param :: "request \<Rightarrow> string \<Rightarrow> string" where
  "flag_param r key = to_lower (trim_space (QueryGet r key))"

text \<open>The place of the i-th photo of a page and the names that are rewritten.\<close>

fun number_photos :: "int \<Rightarrow> PhotoItem list \<Rightarrow> PhotoItem list" where
  "number_photos n [] = []"
| "number_photos n (p # ps) =
     RemapLensModel (RemapCameraModel (p\<lparr> pi_ordinal := n \<rparr>)) # number_photos (wrap64 (n + 1)) ps"

definition listPhotos :: "request \<Rightarrow> claims \<Rightarrow> ('c, 'a, 'l, 'w, media_response) media_op" where
  "listPhotos r c = with_id r ''id'' (\<lambda>i. requireAccess i c (
     let ascending = (flag_param r ''sort_order'' \<noteq> ''desc'');
         recursive = (flag_param r ''recursive'' = ''true'');
         offset = queryInt r ''offset'' 0;
         limit = min (queryInt r ''limit'' 200) 1000 in
     call_or (select (PhotoItems \<lparr> pq_collection = i, pq_offset = offset, pq_limit = limit,
           pq_ascending = ascending, pq_recursive = recursive \<rparr>)) (fail 500 ''db error'')
       (\<lambda>items st. (writeJSON 200 (PhotoPage (number_photos offset items) offset limit), st))))"

definition photoStats :: "('c, 'a, 'l, 'w) media_env \<Rightarrow> request \<Rightarrow> claims \<Rightarrow> ('c, 'a, 'l, 'w, media_response) media_op" where
  "photoStats env r c = with_id r ''id'' (\<lambda>i. requireAccess i c (
     call_or (select (PhotoStatistics (calendar env) i (flag_param r ''recursive'' = ''true''))) (fail 500 ''db error'')
       (\<lambda>counts st. (writeJSON 200 (PhotoMonths (sum_list (map snd counts)) counts), st))))"

definition getExif :: "request \<Rightarrow> claims \<Rightarrow> ('c, 'a, 'l, 'w, media_response) media_op" where
  "getExif r c = with_id r ''id'' (\<lambda>i.
     call_or (select (PhotoExifRaw i (claims_user c))) (fail 404 ''EXIF data not found'')
       (\<lambda>raw st. (writeJSON 200 (RawJson (case raw of None \<Rightarrow> [] | Some j \<Rightarrow> j)), st)))"

section \<open>Images\<close>

definition VariantThumb :: string where "VariantThumb = ''thumb''"
definition VariantSmall :: string where "VariantSmall = ''small''"
definition VariantPreview :: string where "VariantPreview = ''preview''"
definition variantOriginal :: string where "variantOriginal = ''original''"

definition variant_order :: "string list" where
  "variant_order = [VariantPreview, VariantSmall, VariantThumb]"

definition variantFallbackChain :: "string \<Rightarrow> string list" where
  "variantFallbackChain variant =
     (case dropWhile (\<lambda>v. v \<noteq> variant) variant_order of
        [] \<Rightarrow> [VariantThumb, variantOriginal]
      | v # smaller \<Rightarrow> [v, variantOriginal] @ smaller)"

text \<open>\<open>getItemHashAndPath\<close>.\<close>

definition with_image ::
  "('c, 'a, 'l, 'w) media_env \<Rightarrow> claims \<Rightarrow> int \<Rightarrow> (string \<Rightarrow> string \<Rightarrow> ('c, 'a, 'l, 'w, media_response) media_op)
    \<Rightarrow> ('c, 'a, 'l, 'w, media_response) media_op" where
  "with_image env c i k = call_or (select (MediaItemFileHashAndPath i (claims_user c))) (fail 404 ''media item not found'')
     (\<lambda>(hash, rel). k hash (path_join [media_dir env, rel]))"

text \<open>The walk along the fallback chain.\<close>

fun serve_chain :: "('c, 'a, 'l, 'w) media_env \<Rightarrow> request \<Rightarrow> string \<Rightarrow> string \<Rightarrow> string list \<Rightarrow> media_response" where
  "serve_chain env r hash srcPath [] = writeError 404 ''variant not found''"
| "serve_chain env r hash srcPath (v # vs) =
     (if v = variantOriginal then serve_file env None (Some (setMediaCacheHeaders r)) srcPath
      else case VariantPath (data_dir env) hash v ''webp'' of
        None \<Rightarrow> recovered
      | Some webpPath \<Rightarrow>
          if \<not> file_exists env webpPath then serve_chain env r hash srcPath vs
          else if \<not> wants_jpeg (resolveAccept r) then serve_file env None (Some (setMediaCacheHeaders r)) webpPath
          else case jpeg_of env webpPath of
            None \<Rightarrow> writeError 500 ''image conversion failed''
          | Some b \<Rightarrow> writeJSON 200 (JpegBody b (Some (setMediaCacheHeaders r))))"

definition serveVariant :: "('c, 'a, 'l, 'w) media_env \<Rightarrow> request \<Rightarrow> claims \<Rightarrow> ('c, 'a, 'l, 'w, media_response) media_op" where
  "serveVariant env r c = with_id r ''id'' (\<lambda>i.
     if URLParam r ''variant'' \<notin> set [VariantThumb, VariantSmall, VariantPreview]
     then (\<lambda>st. (writeError 400 ''invalid variant'', st))
     else with_image env c i (\<lambda>hash srcPath st.
       (serve_chain env r hash srcPath (variantFallbackChain (URLParam r ''variant'')), st)))"

definition serveDZIManifest :: "('c, 'a, 'l, 'w) media_env \<Rightarrow> request \<Rightarrow> claims \<Rightarrow> ('c, 'a, 'l, 'w, media_response) media_op" where
  "serveDZIManifest env r c = with_id r ''id'' (\<lambda>i. with_image env c i (\<lambda>hash srcPath.
     or_panic (TilesPath (data_dir env) hash) (\<lambda>tiles st.
       case make_dzi env srcPath (data_dir env) hash of
         None \<Rightarrow> (writeError 500 ''failed to generate DZI tiles'', st)
       | Some generated \<Rightarrow>
           let dziPath = path_join [tiles, ''image.dzi''] in
           (\<lparr> resp_status = file_status env dziPath,
              resp_content = JsonBody (DziFile dziPath generated (setMediaCacheHeaders r)), resp_cookies = [] \<rparr>, st))))"

definition serveDZITile :: "('c, 'a, 'l, 'w) media_env \<Rightarrow> request \<Rightarrow> claims \<Rightarrow> ('c, 'a, 'l, 'w, media_response) media_op" where
  "serveDZITile env r c = with_id r ''id'' (\<lambda>i. with_image env c i (\<lambda>hash srcPath.
     or_panic (TilesPath (data_dir env) hash) (\<lambda>tiles st.
       let fullPath = path_join [tiles, filepath_Clean (CHR ''/'' # URLParam r ''*'')] in
       (if path_missing env fullPath then writeError 404 ''tile not found''
        else serve_file env None (Some (setMediaCacheHeaders r)) fullPath, st))))"

definition serveCollectionCover :: "('c, 'a, 'l, 'w) media_env \<Rightarrow> request \<Rightarrow> ('c, 'a, 'l, 'w, media_response) media_op" where
  "serveCollectionCover env r = with_id r ''id'' (\<lambda>i st.
     (serveStoredImage env r (CollectionThumbnailPath (data_dir env) i ''webp'') ''cover not found'', st))"

end
