(* ===== verification/MusicApi.thy ===== *)
theory MusicApi
  imports PhotoApi
begin

text \<open>
  \<open>internal/api/music.go\<close>, \<open>radio.go\<close> and \<open>search.go\<close>: artists, albums and tracks, shows and their
  bookmarks, the covers of both, and the library-wide searches.
\<close>

section \<open>Music\<close>

definition positive_query :: "request \<Rightarrow> string \<Rightarrow> int \<Rightarrow> int" where
  "positive_query r key fallback = (case strconv_Atoi (QueryGet r key) of
     (n, None) \<Rightarrow> if n > 0 then n else fallback | _ \<Rightarrow> fallback)"

definition parsePagination :: "request \<Rightarrow> int \<Rightarrow> int \<Rightarrow> int \<times> int" where
  "parsePagination r defaultSize maxSize =
     (positive_query r ''page'' 1, min (positive_query r ''page_size'' defaultSize) maxSize)"

definition listArtists :: "('c, 'a, 'l, 'w) media_env \<Rightarrow> request \<Rightarrow> ('c, 'a, 'l, 'w, media_response) media_op" where
  "listArtists env r = with_id r ''collectionId'' (\<lambda>cid.
     let (page, pageSize) = parsePagination r 100 500; offset = wrap64 ((page - 1) * pageSize) in
     call_or (select (ArtistsInCollection (text_match env) cid pageSize offset (QueryGet r ''search'')))
       (fail 500 ''failed to list artists'')
       (\<lambda>(artists, total) st. (writeJSON 200 (ArtistPage artists total page pageSize), st)))"

definition listArtistAlbums :: "request \<Rightarrow> ('c, 'a, 'l, 'w, media_response) media_op" where
  "listArtistAlbums r = with_id r ''collectionId'' (\<lambda>cid. with_id r ''artistId'' (\<lambda>aid.
     call_or (select (ArtistGet aid)) (fail 404 ''artist not found'')
       (\<lambda>artist. call_or (select (ArtistGetAlbums aid cid)) (fail 500 ''failed to list albums'')
         (\<lambda>albums st. (writeJSON 200 (ArtistAlbums artist albums), st)))))"

text \<open>The number of discs is an \<open>int16\<close>, as the column is.\<close>

definition disc_count :: "TrackView list \<Rightarrow> int" where
  "disc_count ts =
     (let n = foldl (\<lambda>n t. case tv_disc t of None \<Rightarrow> n | Some d \<Rightarrow> if d > n then d else n) 0 ts
      in if n = 0 then 1 else n)"

definition listAlbumTracks :: "request \<Rightarrow> claims \<Rightarrow> ('c, 'a, 'l, 'w, media_response) media_op" where
  "listAlbumTracks r c = with_id r ''albumId'' (\<lambda>aid.
     call_or (select (AlbumGet aid)) (fail 404 ''album not found'')
       (\<lambda>album. call_or (select (AudioTracksByAlbum aid (claims_user c))) (fail 500 ''failed to list tracks'')
         (\<lambda>tracks st. (writeJSON 200 (AlbumTracks album tracks
            (sum_list (map (\<lambda>t. case tv_hundredths t of None \<Rightarrow> 0 | Some d \<Rightarrow> d) tracks)) (disc_count tracks)), st))))"

definition stream_audio :: "('c, 'a, 'l, 'w) media_env \<Rightarrow> request \<Rightarrow> claims \<Rightarrow> ('c, 'a, 'l, 'w, media_response) media_op" where
  "stream_audio env r c = with_id r ''id'' (\<lambda>i.
     call_or (select (MediaItemGetAudioStreamInfo i (claims_user c))) (fail 404 ''track not found'')
       (\<lambda>(rel, mime) st. (serve_file env (Some mime) (Some (setMediaCacheHeaders r)) (path_join [media_dir env, rel]), st)))"

definition serve_cover ::
  "('c, 'a, 'l, 'w) media_env \<Rightarrow> request \<Rightarrow> string \<Rightarrow> (string \<Rightarrow> int \<Rightarrow> string \<Rightarrow> string) \<Rightarrow> string
    \<Rightarrow> ('c, 'a, 'l, 'w, media_response) media_op" where
  "serve_cover env r param pathf message = with_id r param (\<lambda>i st.
     (serveStoredImage env r (pathf (data_dir env) i ''webp'') message, st))"

definition serveArtistImage :: "('c, 'a, 'l, 'w) media_env \<Rightarrow> request \<Rightarrow> ('c, 'a, 'l, 'w, media_response) media_op" where
  "serveArtistImage env r = serve_cover env r ''id'' ArtistThumbnailPath ''artist image not found''"

definition serveAlbumThumbnail :: "('c, 'a, 'l, 'w) media_env \<Rightarrow> request \<Rightarrow> ('c, 'a, 'l, 'w, media_response) media_op" where
  "serveAlbumThumbnail env r = serve_cover env r ''albumId'' AlbumThumbnailPath ''album thumbnail not found''"

definition serveAlbumCover :: "('c, 'a, 'l, 'w) media_env \<Rightarrow> request \<Rightarrow> ('c, 'a, 'l, 'w, media_response) media_op" where
  "serveAlbumCover env r = serve_cover env r ''albumId'' AlbumCoverPath ''album cover not found''"

text \<open>The deferred removal of the temporary file comes after the answer.\<close>

definition with_upload ::
  "upload \<Rightarrow> (string \<Rightarrow> ('c, 'a, 'l, 'w, media_response) media_op) \<Rightarrow> ('c, 'a, 'l, 'w, media_response) media_op" where
  "with_upload up k st = (case parseUploadToTemp ''image'' up of
       Inl resp \<Rightarrow> (resp, st)
     | Inr tmpPath \<Rightarrow> (case k tmpPath st of (resp, st') \<Rightarrow> (resp, remove_file tmpPath st')))"

definition uploadArtistImage :: "('c, 'a, 'l, 'w) media_env \<Rightarrow> upload \<Rightarrow> request \<Rightarrow> ('c, 'a, 'l, 'w, media_response) media_op" where
  "uploadArtistImage env up r = with_id r ''id'' (\<lambda>i.
     call_or (select (ArtistGet i)) (fail 404 ''artist not found'')
       (\<lambda>_. with_upload up (\<lambda>tmpPath st.
          if \<not> artist_cover env tmpPath i then (writeError 500 ''failed to process image'', st)
          else call_or (select (ArtistSetManualThumbnail i True)) (fail 500 ''failed to update artist'')
            (\<lambda>_ st. (writeJSON 200 StatusOk, st)) st)))"

definition deleteArtistImage :: "('c, 'a, 'l, 'w) media_env \<Rightarrow> request \<Rightarrow> ('c, 'a, 'l, 'w, media_response) media_op" where
  "deleteArtistImage env r = with_id r ''id'' (\<lambda>i st.
     call_or (select (ArtistSetManualThumbnail i False)) (fail 500 ''failed to update artist'')
       (\<lambda>_ st. (writeJSON 200 StatusOk, st))
       (remove_file (ArtistThumbnailPath (data_dir env) i ''webp'') st))"

text \<open>The error of the larger cover is only logged.\<close>

definition uploadAlbumCover :: "('c, 'a, 'l, 'w) media_env \<Rightarrow> upload \<Rightarrow> request \<Rightarrow> ('c, 'a, 'l, 'w, media_response) media_op" where
  "uploadAlbumCover env up r = with_id r ''albumId'' (\<lambda>i.
     call_or (select (AlbumGet i)) (fail 404 ''album not found'')
       (\<lambda>_. with_upload up (\<lambda>tmpPath st.
          if \<not> album_thumb env tmpPath i then (writeError 500 ''failed to process image'', st)
          else call_or (select (AlbumSetManualCover i True)) (fail 500 ''failed to update album'')
            (\<lambda>_ st. (writeJSON 200 StatusOk, st)) st)))"

definition deleteAlbumCover :: "('c, 'a, 'l, 'w) media_env \<Rightarrow> request \<Rightarrow> ('c, 'a, 'l, 'w, media_response) media_op" where
  "deleteAlbumCover env r = with_id r ''albumId'' (\<lambda>i st.
     call_or (select (AlbumSetManualCover i False)) (fail 500 ''failed to update album'')
       (\<lambda>_ st. (writeJSON 200 StatusOk, st))
       (remove_file (AlbumCoverPath (data_dir env) i ''webp'') (remove_file (AlbumThumbnailPath (data_dir env) i ''webp'') st)))"

section \<open>Shows\<close>

definition listShows :: "request \<Rightarrow> claims \<Rightarrow> ('c, 'a, 'l, 'w, media_response) media_op" where
  "listShows r c = with_id r ''collectionId'' (\<lambda>cid.
     call_or (select (ShowsInCollection cid (claims_user c))) (fail 500 ''failed to list shows'')
       (\<lambda>shows st. (writeJSON 200 (Shows shows), st)))"

definition listShowEpisodes :: "request \<Rightarrow> claims \<Rightarrow> ('c, 'a, 'l, 'w, media_response) media_op" where
  "listShowEpisodes r c = with_id r ''collectionId'' (\<lambda>cid. with_id r ''artistId'' (\<lambda>aid.
     call_or (select (ArtistGet aid)) (fail 404 ''show not found'')
       (\<lambda>show. call_or (select (ShowEpisodesByArtist aid cid (claims_user c))) (fail 500 ''failed to list episodes'')
         (\<lambda>episodes. call_or (select (AudioShowBookmarkGet (claims_user c) aid)) (fail 500 ''failed to load bookmark'')
           (\<lambda>bookmark st. (writeJSON 200 (Episodes show episodes bookmark), st))))))"

text \<open>The body: item and position.\<close>

definition upsertShowBookmark :: "request \<Rightarrow> (int \<times> int) option \<Rightarrow> claims \<Rightarrow> ('c, 'a, 'l, 'w, media_response) media_op" where
  "upsertShowBookmark r body c = with_id r ''artistId'' (\<lambda>aid. with_body body (\<lambda>(i, pos).
     call_or (select (AudioShowBookmarkUpsert (claims_user c) aid i pos)) (fail 500 ''failed to save bookmark'')
       (\<lambda>_ st. (write_status 204, st))))"

section \<open>Search\<close>

definition searchDefaultLimit :: int where "searchDefaultLimit = 50"
definition searchMaxLimit :: int where "searchMaxLimit = 200"

definition parseSearchParams :: "request \<Rightarrow> media_response + SearchParams" where
  "parseSearchParams r =
     (let q = trim_space (QueryGet r ''q'') in
      if q = [] then Inl (writeError 400 ''missing required query parameter: q'')
      else
        let offset = queryInt r ''offset'' 0; offset = (if offset < 0 then 0 else offset);
            limit = queryInt r ''limit'' searchDefaultLimit; limit = (if limit \<le> 0 then searchDefaultLimit else limit);
            limit = (if limit > searchMaxLimit then searchMaxLimit else limit)
        in Inr \<lparr> sp_query = q, sp_offset = offset, sp_limit = limit \<rparr>)"

definition searching ::
  "request \<Rightarrow> (SearchParams \<Rightarrow> 'x statement) \<Rightarrow> ('x \<Rightarrow> int \<Rightarrow> int \<Rightarrow> media_payload) \<Rightarrow> ('c, 'a, 'l, 'w, media_response) media_op" where
  "searching r stmt f st = (case parseSearchParams r of
       Inl resp \<Rightarrow> (resp, st)
     | Inr p \<Rightarrow> call_or (select (stmt p)) (query_failed 500 ''db error'')
         (\<lambda>x st. (writeJSON 200 (f x (sp_offset p) (sp_limit p)), st)) st)"

definition searchVideos :: "('c, 'a, 'l, 'w) media_env \<Rightarrow> request \<Rightarrow> claims \<Rightarrow> ('c, 'a, 'l, 'w, media_response) media_op" where
  "searchVideos env r c = searching r (SearchVideos (text_search env) (claims_user c)) (\<lambda>(movies, homeMovies). VideoHits movies homeMovies)"

definition searchPhotos :: "('c, 'a, 'l, 'w) media_env \<Rightarrow> request \<Rightarrow> claims \<Rightarrow> ('c, 'a, 'l, 'w, media_response) media_op" where
  "searchPhotos env r c = searching r (SearchPhotos (text_search env) (claims_user c))
     (\<lambda>items offset limit. PhotoPage (number_photos offset items) offset limit)"

definition searchPhotoCollections :: "('c, 'a, 'l, 'w) media_env \<Rightarrow> request \<Rightarrow> claims \<Rightarrow> ('c, 'a, 'l, 'w, media_response) media_op" where
  "searchPhotoCollections env r c = searching r (SearchPhotoCollections (text_search env) (claims_user c)) PhotoCollectionHits"

definition searchAudioArtists :: "('c, 'a, 'l, 'w) media_env \<Rightarrow> request \<Rightarrow> claims \<Rightarrow> ('c, 'a, 'l, 'w, media_response) media_op" where
  "searchAudioArtists env r c = searching r (SearchAudioArtists (text_search env) (claims_user c)) (\<lambda>(as, shows). ArtistHits as shows)"

definition searchAudioAlbums :: "('c, 'a, 'l, 'w) media_env \<Rightarrow> request \<Rightarrow> claims \<Rightarrow> ('c, 'a, 'l, 'w, media_response) media_op" where
  "searchAudioAlbums env r c = searching r (SearchAudioAlbums (text_search env) (claims_user c)) AlbumHits"

definition searchAudioTracks :: "('c, 'a, 'l, 'w) media_env \<Rightarrow> request \<Rightarrow> claims \<Rightarrow> ('c, 'a, 'l, 'w, media_response) media_op" where
  "searchAudioTracks env r c = searching r (SearchAudioTracks (text_search env) (claims_user c)) TrackHits"

end
