(* ===== verification/MediaRoutes.thy ===== *)
theory MediaRoutes
  imports MusicApi
begin

text \<open>
  The routes of \<open>internal/api/router.go\<close> that every user may call and that serve media, and the three
  administrator's routes of the same handlers. A call carries the decoded body and what the
  environment does while it runs.
\<close>

datatype media_call =
    ListCollections
  | GetCollection
  | ListChildren
  | ListPhotos
  | PhotoStats
  | ListVideos
  | GetVideoItem
  | ServeVariant
  | GetExif
  | DziManifest
  | DziTile
  | CollectionCover
  | ArtistImage
  | AlbumThumbnail
  | AlbumCover
  | ListArtists
  | ListArtistAlbums
  | ListAlbumTracks
  | ListShows
  | ListShowEpisodes
  | UpsertShowBookmark "(int \<times> int) option"
  | StreamAudio
  | StreamVideo
  | RawVideo
  | HlsManifest
  | HlsSegment
  | LiveManifest open_env manifest_select
  | LiveSegment serve_env
  | VideoCover
  | UpsertBookmark "int option"
  | DeleteBookmark
  | FindPhotos
  | FindPhotoCollections
  | FindVideos
  | FindArtists
  | FindAlbums
  | FindTracks

fun media_handler ::
  "('c, 'a, 'l, 'w) media_env \<Rightarrow> media_call \<Rightarrow> request \<Rightarrow> claims \<Rightarrow> ('c, 'a, 'l, 'w, media_response) media_op" where
  "media_handler env ListCollections r c = list_collections c"
| "media_handler env GetCollection r c = get_collection r c"
| "media_handler env ListChildren r c = listChildren r c"
| "media_handler env ListPhotos r c = listPhotos r c"
| "media_handler env PhotoStats r c = photoStats env r c"
| "media_handler env ListVideos r c = listVideos r c"
| "media_handler env GetVideoItem r c = getVideoItem r c"
| "media_handler env ServeVariant r c = serveVariant env r c"
| "media_handler env GetExif r c = getExif r c"
| "media_handler env DziManifest r c = serveDZIManifest env r c"
| "media_handler env DziTile r c = serveDZITile env r c"
| "media_handler env CollectionCover r c = serveCollectionCover env r"
| "media_handler env ArtistImage r c = serveArtistImage env r"
| "media_handler env AlbumThumbnail r c = serveAlbumThumbnail env r"
| "media_handler env AlbumCover r c = serveAlbumCover env r"
| "media_handler env ListArtists r c = listArtists env r"
| "media_handler env ListArtistAlbums r c = listArtistAlbums r"
| "media_handler env ListAlbumTracks r c = listAlbumTracks r c"
| "media_handler env ListShows r c = listShows r c"
| "media_handler env ListShowEpisodes r c = listShowEpisodes r c"
| "media_handler env (UpsertShowBookmark b) r c = upsertShowBookmark r b c"
| "media_handler env StreamAudio r c = stream_audio env r c"
| "media_handler env StreamVideo r c = stream env r c"
| "media_handler env RawVideo r c = raw env r c"
| "media_handler env HlsManifest r c = hlsManifest env r c"
| "media_handler env HlsSegment r c = hlsSegment env r c"
| "media_handler env (LiveManifest oe choice) r c = liveManifest env oe choice r c"
| "media_handler env (LiveSegment se) r c = liveSegment env se r c"
| "media_handler env VideoCover r c = cover env r c"
| "media_handler env (UpsertBookmark b) r c = upsertBookmark r b c"
| "media_handler env DeleteBookmark r c = deleteBookmark r c"
| "media_handler env FindPhotos r c = searchPhotos env r c"
| "media_handler env FindPhotoCollections r c = searchPhotoCollections env r c"
| "media_handler env FindVideos r c = searchVideos env r c"
| "media_handler env FindArtists r c = searchAudioArtists env r c"
| "media_handler env FindAlbums r c = searchAudioAlbums env r c"
| "media_handler env FindTracks r c = searchAudioTracks env r c"

definition serve_media ::
  "('c, 'a, 'l, 'w) media_env \<Rightarrow> media_call \<Rightarrow> request \<Rightarrow> ('c, 'a, 'l, 'w, media_response) media_op" where
  "serve_media env q r = call_or (on_app (on_srv (check_token (aenv (menv env)) False r))) (\<lambda>resp st. (resp, st)) (media_handler env q r)"

datatype cover_call = UploadCover upload | DeleteCover | UploadArtistImage upload | DeleteArtistImage
  | UploadAlbumCover upload | DeleteAlbumCover

fun cover_handler ::
  "('c, 'a, 'l, 'w) media_env \<Rightarrow> cover_call \<Rightarrow> request \<Rightarrow> claims \<Rightarrow> ('c, 'a, 'l, 'w, media_response) media_op" where
  "cover_handler env (UploadCover up) r c = uploadCover env up r c"
| "cover_handler env DeleteCover r c = deleteCover env r c"
| "cover_handler env (UploadArtistImage up) r c = uploadArtistImage env up r"
| "cover_handler env DeleteArtistImage r c = deleteArtistImage env r"
| "cover_handler env (UploadAlbumCover up) r c = uploadAlbumCover env up r"
| "cover_handler env DeleteAlbumCover r c = deleteAlbumCover env r"

definition serve_cover_admin ::
  "('c, 'a, 'l, 'w) media_env \<Rightarrow> cover_call \<Rightarrow> request \<Rightarrow> ('c, 'a, 'l, 'w, media_response) media_op" where
  "serve_cover_admin env q r = call_or (on_app (on_srv (check_token (aenv (menv env)) True r))) (\<lambda>resp st. (resp, st)) (cover_handler env q r)"

end
