(* ===== verification/MediaProps.thy ===== *)
theory MediaProps
  imports MediaRoutes AdminJobs DispatcherProps
begin

text \<open>
  Who is served what: the content of an item goes only to users with access to its collection, except
  for the segments of a running stream; a search finds only what the user may see; one video without
  metadata breaks the listing it is in; and a stream that is opened stops the jobs.
\<close>

section \<open>Access to an item\<close>

definition may_see :: "claims \<Rightarrow> int \<Rightarrow> db \<Rightarrow> bool" where
  "may_see c i s \<longleftrightarrow> (\<exists>m \<in> set (media_items s). item_id m = i \<and> is_present m \<and> collectionAccessExists (claims_user c) m s)"

lemma access_faults [simp]:
  "has_access uid r (s\<lparr> faults := fs \<rparr>) = has_access uid r s"
  "collectionAccessExists uid m (s\<lparr> faults := fs \<rparr>) = collectionAccessExists uid m s"
  "collectionAccessExistsFromParam cid uid (s\<lparr> faults := fs \<rparr>) = collectionAccessExistsFromParam cid uid s"
  by (simp_all add: has_access_def collectionAccessExists_def collectionAccessExistsFromParam_def split: option.split)

lemma select_item_found:
  assumes "fst (select_item P f i s) = Inr x"
  obtains fs m where "m \<in> set (media_items s)" and "item_id m = i" and "P m (s\<lparr> faults := fs \<rparr>)"
proof (rule sql_cases [of s "\<lambda>s. (case find (\<lambda>m. item_id m = i \<and> P m s) (media_items s) of
     None \<Rightarrow> Inl NoRows | Some m \<Rightarrow> Inr (f m), s)"])
  fix fs
  assume "sql (\<lambda>s. (case find (\<lambda>m. item_id m = i \<and> P m s) (media_items s) of
      None \<Rightarrow> Inl NoRows | Some m \<Rightarrow> Inr (f m), s)) s = (Inl ConnFailure, s\<lparr> faults := fs \<rparr>)"
  then show ?thesis using assms by (simp add: select_item_def)
next
  fix fs
  assume run: "sql (\<lambda>s. (case find (\<lambda>m. item_id m = i \<and> P m s) (media_items s) of
      None \<Rightarrow> Inl NoRows | Some m \<Rightarrow> Inr (f m), s)) s
    = (case find (\<lambda>m. item_id m = i \<and> P m (s\<lparr> faults := fs \<rparr>)) (media_items (s\<lparr> faults := fs \<rparr>)) of
         None \<Rightarrow> Inl NoRows | Some m \<Rightarrow> Inr (f m), s\<lparr> faults := fs \<rparr>)"
  then obtain m where "find (\<lambda>m. item_id m = i \<and> P m (s\<lparr> faults := fs \<rparr>)) (media_items s) = Some m"
    using assms by (auto simp: select_item_def split: option.splits)
  then show ?thesis using that [of m fs] by (auto simp: find_Some_iff)
qed

section \<open>Content\<close>

fun is_content :: "media_payload \<Rightarrow> bool" where
  "is_content (FileBody p ct cc) = True"
| "is_content (JpegBody b cc) = True"
| "is_content (RawJson j) = True"
| "is_content (DziFile p g cc) = True"
| "is_content _ = False"

definition hands_over :: "media_response \<Rightarrow> bool" where
  "hands_over resp \<longleftrightarrow> (case resp_content resp of JsonBody p \<Rightarrow> is_content p | _ \<Rightarrow> False)"

lemma hands_over_not [simp]:
  "\<not> hands_over (writeError n msg)" "\<not> hands_over (write_status n)" "\<not> hands_over recovered"
  "\<not> hands_over (fst (fail n msg e st))"
  by (simp_all add: hands_over_def writeError_def write_status_def recovered_def fail_def)

text \<open>The gate every item passes through.\<close>

definition visible :: "claims \<Rightarrow> media_item \<Rightarrow> db \<Rightarrow> bool" where
  "visible c = (\<lambda>m s. is_present m \<and> collectionAccessExists (claims_user c) m s)"

lemma gate:
  assumes "hands_over (fst (call_or (select (select_item (visible c) f i)) (fail n msg) k st))"
  shows "may_see c i (media_db st)"
proof (rule call_or_cases [of "select (select_item (visible c) f i)" st "fail n msg" k])
  fix e s'
  assume "call_or (select (select_item (visible c) f i)) (fail n msg) k st = fail n msg e s'"
  then show ?thesis using assms by simp
next
  fix x s'
  assume "select (select_item (visible c) f i) st = (Inr x, s')"
  then have "fst (select_item (visible c) f i (media_db st)) = Inr x"
    by (metis fst_conv select_sel(1))
  then show ?thesis by (rule select_item_found) (auto simp: may_see_def visible_def)
qed

lemma item_statements:
  "MediaItemGetVideoStreamInfo i (claims_user c) = select_item (visible c) (\<lambda>m. (item_path m, mime_type m, file_hash m)) i"
  "MediaItemGetAudioStreamInfo i (claims_user c) = select_item (visible c) (\<lambda>m. (item_path m, mime_type m)) i"
  "MediaItemFileHashAndPath i (claims_user c) = select_item (visible c) (\<lambda>m. (file_hash m, item_path m)) i"
  by (simp_all add: MediaItemGetVideoStreamInfo_def MediaItemGetAudioStreamInfo_def MediaItemFileHashAndPath_def visible_def)

lemma exif_gate:
  assumes "hands_over (fst (call_or (select (PhotoExifRaw i (claims_user c))) (fail n msg) k st))"
  shows "may_see c i (media_db st)"
proof (rule call_or_cases [of "select (PhotoExifRaw i (claims_user c))" st "fail n msg" k])
  fix e s'
  assume "call_or (select (PhotoExifRaw i (claims_user c))) (fail n msg) k st = fail n msg e s'"
  then show ?thesis using assms by simp
next
  fix x s'
  assume "select (PhotoExifRaw i (claims_user c)) st = (Inr x, s')"
  then have "fst (PhotoExifRaw i (claims_user c) (media_db st)) = Inr x"
    by (metis fst_conv select_sel(1))
  then have "PhotoExifRaw i (claims_user c) (media_db st) = (Inr x, snd (PhotoExifRaw i (claims_user c) (media_db st)))"
    by (simp add: prod_eq_iff)
  then show ?thesis
    unfolding PhotoExifRaw_def by (rule sql_InrE) (auto simp: may_see_def list_ex_iff split: option.splits if_splits)
qed

fun item_route :: "media_call \<Rightarrow> bool" where
  "item_route RawVideo = True"
| "item_route HlsManifest = True"
| "item_route HlsSegment = True"
| "item_route (LiveManifest oe choice) = True"
| "item_route VideoCover = True"
| "item_route StreamAudio = True"
| "item_route ServeVariant = True"
| "item_route DziManifest = True"
| "item_route DziTile = True"
| "item_route GetExif = True"
| "item_route _ = False"

lemma with_id_content:
  assumes "hands_over (fst (with_id r name k st))"
  obtains i where "strconv_Atoi (URLParam r name) = (i, None)" and "hands_over (fst (k i st))"
  using assms by (auto simp: with_id_def urlIntParam_def split: prod.splits option.splits)

lemma serveVariant_gate:
  "hands_over (fst (serveVariant env r c st)) \<Longrightarrow>
    hands_over (fst (with_id r ''id'' (\<lambda>i. with_image env c i (\<lambda>hash srcPath st.
       (serve_chain env r hash srcPath (variantFallbackChain (URLParam r ''variant'')), st))) st))"
  by (auto simp: serveVariant_def with_id_def split: sum.splits if_splits)

lemmas gated_handlers = raw_def hlsManifest_def hlsSegment_def liveManifest_def cover_def stream_audio_def
  serveDZIManifest_def serveDZITile_def with_video_def video_info_def with_image_def item_statements

lemma content_gate:
  assumes "item_route q" and "hands_over (fst (media_handler env q r c st))"
  shows "\<exists>i. strconv_Atoi (URLParam r ''id'') = (i, None) \<and> may_see c i (media_db st)"
proof (cases "q = GetExif")
  case True
  then show ?thesis using assms(2) unfolding True
    by (auto simp: getExif_def elim!: with_id_content intro: exif_gate)
next
  case False
  then show ?thesis
    using assms
    by (cases q) (auto simp: gated_handlers dest!: serveVariant_gate elim!: with_id_content intro: gate)
qed

section \<open>A small library\<close>

text \<open>One home video that the user 1 may see and the user 2 may not; its metadata have not been read.\<close>

definition demo_media_env ::
  "((int \<times> time) list, (string \<times> time list) list, (string \<times> time) list, unit) media_env" where
  "demo_media_env = \<lparr> menv = demo_admin_env, bitrate_limit = 4000, file_exists = (\<lambda>_. True), path_missing = (\<lambda>_. False),
     file_status = (\<lambda>_. 200), jpeg_of = Some, make_dzi = (\<lambda>_ _ _. Some True), video_cover = (\<lambda>_ _ _ _. True),
     artist_cover = (\<lambda>_ _. True), album_thumb = (\<lambda>_ _. True), text_match = (=),
     text_search = \<lparr> ts_match = (\<lambda>_ d q. d = q), ts_rank = (\<lambda>_ _ _. 0), ts_photo_match = (\<lambda>_ _ _. False), ts_photo_rank = (\<lambda>_ _ _. 0) \<rparr>,
     calendar = (\<lambda>_. (2024, 1)) \<rparr>"

definition demo_home_movies :: collection where
  "demo_home_movies = \<lparr> coll_id = 8, parent_collection_id = None, root_collection_id = Some 8, coll_name = ''H'',
     coll_type = ''video:home_movie'', coll_path = Some ''h'', is_enabled = True, manual_thumbnail = False,
     last_scanned_at = None, coll_missing_since = None, coll_created_at = 0 \<rparr>"

definition demo_video :: media_item where
  "demo_video = \<lparr> item_id = 8, item_collection = 8, title = ''a'', item_path = ''h/a.mp4'', file_size_bytes = 3,
     file_hash = ''0123456789'', mime_type = ''video/mp4'', file_modified_at = None, item_missing_since = None,
     indexed_at = 0, item_created_at = 0, hidden_at = None \<rparr>"

definition demo_media_db :: db where
  "demo_media_db = demo_db\<lparr> collections := [demo_home_movies], next_collection := 9, collection_access := [(1, 8)],
     media_items := [demo_video], next_item := 9 \<rparr>"

definition demo_media_app ::
  "((int \<times> time) list, (string \<times> time list) list, (string \<times> time) list, unit) media_app" where
  "demo_media_app = \<lparr> mapp = demo_app\<lparr> srv := demo_server\<lparr> sdb := demo_media_db \<rparr> \<rparr>,
     streams = stream_init 0 \<lparr> paused = False \<rparr> \<rparr>"

definition demo_claims :: "string \<Rightarrow> claims" where
  "demo_claims u = \<lparr> claims_subject = u, claims_issued_at = 0, claims_expires_at = 900, claims_is_admin = False, claims_device = 7 \<rparr>"

lemma demo_atoi: "strconv_Atoi (URLParam demo_request ''id'') = (8, None)" "claims_user (demo_claims ''1'') = 1"
  by (simp_all add: demo_request_def demo_claims_def claims_user_def URLParam_def lookup_param_def strconv_Atoi_def
      strconv_ParseUint_def is_digit_def digit_val_def)

lemma demo_media_simps [simp]:
  "media_db demo_media_app = demo_media_db" "faults demo_media_db = []" "streams demo_media_app = stream_init 0 \<lparr> paused = False \<rparr>"
  "collections demo_media_db = [demo_home_movies]" "collection_access demo_media_db = [(1, 8)]"
  "media_items demo_media_db = [demo_video]" "video_meta demo_media_db = []"
  by (simp_all add: demo_media_app_def demo_media_db_def demo_db_def empty_db_def)

section \<open>Properties\<close>


lemma demo_video_found:
  "select (MediaItemGetVideoStreamInfo 8 1) demo_media_app = (Inr (''h/a.mp4'', ''video/mp4'', ''0123456789''), demo_media_app)"
proof -
  have "MediaItemGetVideoStreamInfo 8 1 demo_media_db = (Inr (''h/a.mp4'', ''video/mp4'', ''0123456789''), demo_media_db)"
    by (simp add: MediaItemGetVideoStreamInfo_def select_item_def collectionAccessExists_def has_access_def
        is_present_def demo_video_def demo_home_movies_def)
  then show ?thesis
    by (simp add: select_def on_app_def query_def on_srv_def AuthCore.on_db_def demo_media_app_def demo_app_def demo_server_def)
qed


text \<open>C33: The segments of a live stream have no such gate: whoever is logged in gets any segment that is
  available, of any item that someone is streaming.\<close>

theorem live_segment_open_to_all:
  assumes "strconv_Atoi (URLParam r ''id'') = (i, None)" and "GetSession i (streams st) = Some s"
    and "isValidSegmentName (URLParam r ''segment'')"
    and "segmentSet_contains (segments s) (parseSegmentNumber (URLParam r ''segment'')) 1"
  shows "fst (media_handler env (LiveSegment se) r c st)
    = serve_file env None None (filepath_Join (tempDir s) (URLParam r ''segment''))"
  using assms
  by (simp add: liveSegment_def with_id_def urlIntParam_def split_beta session_op_def ServeSegment_def streamed_def Let_def)

definition demo_segment :: request where
  "demo_segment = demo_request\<lparr> url_params := [(''id'', ''8''), (''segment'', ''seg_00000.ts'')] \<rparr>"

lemma demo_segment_params: "URLParam demo_segment ''id'' = ''8''" "URLParam demo_segment ''segment'' = ''seg_00000.ts''"
  by (simp_all add: demo_segment_def demo_request_def URLParam_def lookup_param_def)

text \<open>The user 2, who may not see the video.\<close>

definition demo_streaming_app ::
  "((int \<times> time) list, (string \<times> time list) list, (string \<times> time) list, unit) media_app" where
  "demo_streaming_app = demo_media_app\<lparr> streams := sample_streaming\<lparr> sessions :=
     [(8, sample_session\<lparr> segments := segmentSet_add 0 segmentSet_empty \<rparr>)] \<rparr> \<rparr>"

theorem live_segment_open_to_all_witness:
  "fst (media_handler demo_media_env (LiveSegment waiting_env) demo_segment (demo_claims ''2'') demo_streaming_app)
     = serve_file demo_media_env None None ''/tmp/bokeh-live-1/seg_00000.ts''
   \<and> \<not> may_see (demo_claims ''2'') 8 (media_db demo_streaming_app)"
proof
  have n: "strconv_Atoi (URLParam demo_segment ''id'') = (8, None)"
    unfolding demo_segment_params(1) using demo_atoi(1) by (simp add: demo_request_def URLParam_def lookup_param_def)
  have names: "''seg_00000.ts'' = formatSegName 0" by code_simp
  have v: "isValidSegmentName (URLParam demo_segment ''segment'')"
    unfolding demo_segment_params names by (simp add: formatSegName_valid)
  have s: "GetSession 8 (streams demo_streaming_app) = Some (sample_session\<lparr> segments := segmentSet_add 0 segmentSet_empty \<rparr>)"
    by (simp add: demo_streaming_app_def GetSession_def)
  have w: "segmentSet_contains (segments (sample_session\<lparr> segments := segmentSet_add 0 segmentSet_empty \<rparr>))
      (parseSegmentNumber (URLParam demo_segment ''segment'')) 1"
  proof -
    have "parseSegmentNumber (URLParam demo_segment ''segment'') = 0"
      unfolding demo_segment_params names by (simp add: parse_formatSegName in_i64_def)
    moreover have "segmentSet_contains (segmentSet_add 0 segmentSet_empty) 0 1" by code_simp
    ultimately show ?thesis by simp
  qed
  have "filepath_Join (tempDir (sample_session\<lparr> segments := segmentSet_add 0 segmentSet_empty \<rparr>)) (URLParam demo_segment ''segment'')
      = ''/tmp/bokeh-live-1/seg_00000.ts''"
    by (simp add: demo_segment_params sample_session_def filepath_Join_def)
  then show "fst (media_handler demo_media_env (LiveSegment waiting_env) demo_segment (demo_claims ''2'') demo_streaming_app)
      = serve_file demo_media_env None None ''/tmp/bokeh-live-1/seg_00000.ts''"
    using live_segment_open_to_all [OF n s v w, of demo_media_env waiting_env "demo_claims ''2''"] by simp
  show "\<not> may_see (demo_claims ''2'') 8 (media_db demo_streaming_app)"
    by (simp add: may_see_def demo_streaming_app_def collectionAccessExists_def has_access_def demo_claims_def claims_user_def
        demo_home_movies_def strconv_Atoi_def strconv_ParseUint_def is_digit_def digit_val_def)
qed

section \<open>Search\<close>

definition found_items :: "fts \<Rightarrow> int \<Rightarrow> SearchParams \<Rightarrow> db \<Rightarrow> int list" where
  "found_items f uid p s =
     (case fst (SearchVideos f uid p s) of Inl _ \<Rightarrow> [] | Inr (ms, hs) \<Rightarrow> map vh_id (ms @ hs))
     @ (case fst (SearchPhotos f uid p s) of Inl _ \<Rightarrow> [] | Inr xs \<Rightarrow> map pi_id xs)
     @ (case fst (SearchAudioTracks f uid p s) of Inl _ \<Rightarrow> [] | Inr xs \<Rightarrow> map th_id xs)"

definition findable :: "int \<Rightarrow> db \<Rightarrow> int set" where
  "findable uid s = {item_id m |m. m \<in> set (media_items s) \<and> hidden_at m = None \<and> collectionAccessExists uid m s}"

lemma findable_faults [simp]: "findable uid (s\<lparr> faults := fs \<rparr>) = findable uid s"
  by (simp add: findable_def)

lemma map_filter_mem: "y \<in> set (List.map_filter f xs) \<longleftrightarrow> (\<exists>x \<in> set xs. f x = Some y)"
  by (force simp: map_filter_def)

lemma find_collection_Some: "find_collection i s = Some c \<Longrightarrow> c \<in> set (collections s) \<and> coll_id c = i"
  by (auto simp: find_collection_def find_Some_iff)

lemma item_scope_findable: "(m, c) \<in> set (item_scope uid types s) \<Longrightarrow> item_id m \<in> findable uid s"
  by (auto simp: item_scope_def map_filter_mem findable_def collectionAccessExists_def list_ex_iff
      dest!: find_collection_Some split: option.splits if_splits)

lemma query_result:
  assumes "fst (sql (\<lambda>s. (g s, s)) s) = Inr x"
  obtains fs where "g (s\<lparr> faults := fs \<rparr>) = Inr x"
proof (rule sql_cases [of s "\<lambda>s. (g s, s)"])
  fix fs assume "sql (\<lambda>s. (g s, s)) s = (Inl ConnFailure, s\<lparr> faults := fs \<rparr>)"
  then show thesis using assms by simp
next
  fix fs assume "sql (\<lambda>s. (g s, s)) s = (g (s\<lparr> faults := fs \<rparr>), s\<lparr> faults := fs \<rparr>)"
  then show thesis using assms that [of fs] by simp
qed

lemma ranked_map_subset:
  "map_sum id h (ranked_page rank idf p rows) = Inr y \<Longrightarrow> \<exists>page. y = h page \<and> (\<forall>r \<in> set page. r \<in> set rows)"
  using ranked_page_subset [of rank idf p rows] by (cases "ranked_page rank idf p rows") auto

lemma SearchVideos_findable:
  assumes "fst (SearchVideos f uid p s) = Inr (ms, hs)"
  shows "\<forall>x \<in> set ms \<union> set hs. vh_id x \<in> findable uid s"
  using assms unfolding SearchVideos_def Let_def
  by (rule query_result)
    (fastforce dest!: ranked_map_subset dest: item_scope_findable simp: map_filter_mem)

lemma SearchPhotos_findable:
  assumes "fst (SearchPhotos f uid p s) = Inr xs"
  shows "\<forall>x \<in> set xs. pi_id x \<in> findable uid s"
  using assms unfolding SearchPhotos_def Let_def
  by (rule query_result)
    (fastforce dest!: ranked_map_subset dest: item_scope_findable simp: map_filter_mem photo_item_def)

lemma SearchAudioTracks_findable:
  assumes "fst (SearchAudioTracks f uid p s) = Inr xs"
  shows "\<forall>x \<in> set xs. th_id x \<in> findable uid s"
  using assms unfolding SearchAudioTracks_def Let_def
  by (rule query_result)
    (fastforce dest!: ranked_map_subset dest: item_scope_findable simp: map_filter_mem)

text \<open>C34: A search over the whole library - videos, photos or tracks, any query, any page - finds only items that are
  not hidden and lie in a tree the user has access to.\<close>

theorem search_finds_only_visible:
  "set (found_items f uid p s) \<subseteq> findable uid s"
  using SearchVideos_findable [OF sym, of _ _ f uid p s] SearchPhotos_findable [OF sym, of _ f uid p s]
    SearchAudioTracks_findable [OF sym, of _ f uid p s]
  by (auto simp: found_items_def split: sum.splits prod.splits)

section \<open>A video without metadata\<close>

definition video_rows :: "int \<Rightarrow> string \<Rightarrow> db \<Rightarrow> media_item list" where
  "video_rows cid ctype s =
     (if ctype = CollectionTypeMovie then order_by_text title (filter (\<lambda>m. hidden_at m = None) (tree_items cid s))
      else order_by_text item_path (filter (\<lambda>m. item_collection m = cid \<and> hidden_at m = None) (media_items s)))"

lemma collect_rows_fails: "r \<in> set rows \<Longrightarrow> f r = Inl e \<Longrightarrow> \<exists>e. collect_rows f rows = Inl e"
  by (induction rows) (auto split: sum.split)

lemma select_run:
  assumes "stmt (media_db st) = (r, s)"
  obtains st' where "select stmt st = (r, st')" and "media_db st' = s"
  using assms that [of "snd (select stmt st)"] select_sel(1,2) [of stmt st] by (metis fst_conv prod.collapse snd_conv)

text \<open>One video whose metadata have not been read yet - or could not be - takes the whole page it is on away:
  the listing of the collection answers 500.\<close>

lemma bare_video_breaks_listing:
  assumes "faults (media_db st) = []" and "strconv_Atoi (URLParam r ''id'') = (i, None)"
    and "find (\<lambda>c'. coll_id c' = i \<and> is_enabled c' \<and> has_access (claims_user c) (root_collection_id c') (media_db st))
        (collections (media_db st)) = Some col"
    and "QueryGet r ''page'' = []" and "QueryGet r ''page_size'' = []"
    and "m \<in> set (take 201 (video_rows i (coll_type col) (media_db st)))" and "find_video (item_id m) (media_db st) = None"
  shows "resp_status (fst (media_handler env ListVideos r c st)) = 500"
proof -
  let ?s = "media_db st"
  obtain st1 where get: "select (CollectionGetForUser i (claims_user c)) st = (Inr (collection_view_of col), st1)"
    and st1: "media_db st1 = ?s"
    by (rule select_run [of "CollectionGetForUser i (claims_user c)" st "Inr (collection_view_of col)" ?s])
      (simp_all add: CollectionGetForUser_def assms(1,3))
  have "collectionAccessExistsFromParam i (claims_user c) ?s"
    using assms(3) by (auto simp: collectionAccessExistsFromParam_def list_ex_iff find_Some_iff)
  then have "fst (MediaItemVideosByCollection i (claims_user c) (coll_type col) 201 0 ?s)
      = collect_rows (video_view (claims_user c) ?s) (take 201 (video_rows i (coll_type col) ?s))"
    using assms(1) by (simp add: MediaItemVideosByCollection_def video_rows_def page_of_def)
  moreover have "video_view (claims_user c) ?s m = Inl BadQuery"
    using assms(7) by (simp add: video_view_def)
  ultimately obtain e where "fst (MediaItemVideosByCollection i (claims_user c) (coll_type col) 201 0 ?s) = Inl e"
    using collect_rows_fails [OF assms(6)] by metis
  then have "MediaItemVideosByCollection i (claims_user c) (coll_type col) 201 0 (media_db st1)
      = (Inl e, snd (MediaItemVideosByCollection i (claims_user c) (coll_type col) 201 0 ?s))"
    using st1 by (simp add: prod_eq_iff)
  then obtain st2 where "select (MediaItemVideosByCollection i (claims_user c) (coll_type col) 201 0) st1 = (Inl e, st2)"
    by (rule select_run)
  then show ?thesis
    using get by (simp add: listVideos_def with_id_def urlIntParam_def assms(2,4,5) call_or_def queryInt_def trim_space_def
        collection_view_of_def query_failed_def fail_def recovered_def write_status_def writeError_def wrap64_def Let_def)
qed

section \<open>Streams and jobs\<close>

lemma GetOrCreateSession_pauses:
  assumes "GetOrCreateSession i b p lim oe t = (Inr s, t')" and "sessions t \<noteq> [] \<Longrightarrow> paused (st_dispatcher t)"
  shows "paused (st_dispatcher t')"
  using assms
  by (cases "sessions t = []") (auto simp: GetOrCreateSession_def put_session_def Let_def split: option.splits prod.splits if_splits)

text \<open>A user who is served the manifest of a live stream has stopped the job dispatcher: whatever wakes it - a new
  job, its timer - starts no job and changes none, until the sweeper finds the stream idle.\<close>

lemma live_stream_pauses_jobs:
  assumes "sessions (streams st) \<noteq> [] \<Longrightarrow> paused (disp (mapp st))"
    and "media_handler env (LiveManifest oe choice) r c st = (resp, st')" and "hands_over resp"
  shows "\<exists>d'. run_event hs fuel ev (lend (mapp st')) = Some d' \<and> jobs (d_db d') = jobs (media_db st')
    \<and> d_world d' = d_world (disp (mapp st')) \<and> paused d'"
proof -
  obtain i where i: "urlIntParam ''id'' (URLParam r ''id'') = (Inr i :: media_response + int)"
    using assms(2,3) by (cases "urlIntParam ''id'' (URLParam r ''id'') :: media_response + int")
      (auto simp: liveManifest_def with_video_def with_id_def urlIntParam_def split: prod.splits option.splits)
  obtain x st1 where x: "select (MediaItemGetVideoStreamInfo i (claims_user c)) st = (x, st1)" by fastforce
  obtain rel mime hash where xr: "x = Inr (rel, mime, hash)"
    using assms(2,3) i x by (cases x) (auto simp: liveManifest_def with_video_def video_info_def with_id_def call_or_def fail_def)
  obtain meta st2 where meta: "select (VideoWithBookmark i (claims_user c)) st1 = (meta, st2)" by fastforce
  define b where "b = (case meta of Inl _ \<Rightarrow> None | Inr (v, _) \<Rightarrow> bitrate_kbps v)"
  have same: "streams st2 = streams st" "disp (mapp st2) = disp (mapp st)"
    using select_sel(3,4) [of "MediaItemGetVideoStreamInfo i (claims_user c)" st]
      select_sel(3,4) [of "VideoWithBookmark i (claims_user c)" st1] x meta by simp_all
  let ?open = "GetOrCreateSession i b (path_join [media_dir env, rel]) (bitrate_limit env) oe"
  obtain y st3 where y: "on_streams ?open st2 = (y, st3)" by fastforce
  have run: "media_handler env (LiveManifest oe choice) r c st = (case y of
      Inl e \<Rightarrow> fail 500 ''failed to start stream'' e st3
    | Inr s \<Rightarrow> (case on_streams (session_op i s (\<lambda>t so. case ServeManifest (st_clock t) choice (fst so) of
              (res, s') \<Rightarrow> (res, s', snd so))) st3 of (res, st4) \<Rightarrow> (streamed env res, st4)))"
    using y by (cases y) (simp_all add: liveManifest_def with_video_def video_info_def with_id_def i call_or_def x xr meta
        Let_def b_def)
  then obtain s where s: "y = Inr s"
    using assms(2,3) by (cases y) (auto simp: fail_def)
  have "paused (st_dispatcher (snd (?open (lend_streams st2))))"
  proof (rule GetOrCreateSession_pauses)
    show "?open (lend_streams st2) = (Inr s, snd (?open (lend_streams st2)))"
      using y s on_streams_sel(1) [of ?open st2] by (simp add: prod_eq_iff)
    show "sessions (lend_streams st2) \<noteq> [] \<Longrightarrow> paused (st_dispatcher (lend_streams st2))"
      using assms(1) same by (simp add: lend_streams_def)
  qed
  then have "paused (disp (mapp st3))"
    using y on_streams_sel(3) [of ?open st2] by simp
  then have "paused (disp (mapp st'))"
    using run s assms(2) by (auto simp: on_streams_def session_op_def with_session_def put_session_def lend_streams_def
        split: prod.splits)
  then show ?thesis
    using paused_dispatcher_starts_nothing [of "lend (mapp st')" hs fuel ev] by (simp add: lend_def)
qed

definition demo_manifest_run where
  "demo_manifest_run = media_handler demo_media_env (LiveManifest sample_env ManifestReady) demo_request (demo_claims ''1'') demo_media_app"

lemma live_stream_pauses_jobs_witness:
  "\<exists>d'. run_event Map.empty 5 Polled (lend (mapp (snd demo_manifest_run))) = Some d'
    \<and> jobs (d_db d') = jobs (media_db (snd demo_manifest_run)) \<and> d_world d' = () \<and> paused d'"
proof -
  obtain meta st2 where meta: "select (VideoWithBookmark 8 1) demo_media_app = (meta, st2)" by fastforce
  have "streams st2 = streams demo_media_app"
    using select_sel(3) [of "VideoWithBookmark 8 1" demo_media_app] meta by simp
  then have "hands_over (fst demo_manifest_run)"
    by (simp add: demo_manifest_run_def liveManifest_def with_video_def video_info_def with_id_def urlIntParam_def demo_atoi
        demo_video_found meta call_or_def on_streams_def lend_streams_def GetOrCreateSession_def stream_init_def sample_env_def
        cmd_Start_def session_op_def ServeManifest_def streamed_def hands_over_def serve_file_def Let_def)
  then show ?thesis
    using live_stream_pauses_jobs [of demo_media_app demo_media_env sample_env ManifestReady demo_request "demo_claims ''1''"
        "fst demo_manifest_run" "snd demo_manifest_run" Map.empty 5 Polled]
    by (simp add: stream_init_def demo_manifest_run_def)
qed

end
