(* ===== verification/Disk.thy ===== *)
theory Disk
  imports Paths Schema "HOL-Library.Sublist"
begin

text \<open>
  The files the server and its jobs write: the part of package \<open>os\<close> that
  \<open>internal/imaging/imaging.go\<close> and \<open>internal/jobs/definitions\<close> use. A path is the list of its
  elements after \<open>filepath.Clean\<close>, and the disk is the list of the files and directories there
  are. Which changes the operating system refuses is the environment's.
\<close>

section \<open>Paths as lists of elements\<close>

definition path_key :: "string \<Rightarrow> string list" where
  "path_key p = (if is_rooted p then [''/''] else []) @ clean_elems (is_rooted p) p"

record node =
  n_path :: "string list"
  n_dir :: bool

type_synonym disk = "node list"

text \<open>\<open>denied p\<close>: no file can be created, changed or removed at the path. \<open>unreadable p\<close>: the
  directory cannot be listed.\<close>

record disk_env =
  denied :: "string list \<Rightarrow> bool"
  unreadable :: "string list \<Rightarrow> bool"

section \<open>Operations\<close>

definition node_at :: "string list \<Rightarrow> disk \<Rightarrow> node option" where
  "node_at k d = find (\<lambda>n. n_path n = k) d"

text \<open>\<open>_, err := os.Stat(p); err == nil\<close>.\<close>

definition file_exists :: "string \<Rightarrow> disk \<Rightarrow> bool" where
  "file_exists p d \<longleftrightarrow> node_at (path_key p) d \<noteq> None"

definition is_directory :: "string list \<Rightarrow> disk \<Rightarrow> bool" where
  "is_directory k d \<longleftrightarrow> (case node_at k d of None \<Rightarrow> False | Some n \<Rightarrow> n_dir n)"

text \<open>\<open>os.RemoveAll\<close>: the node and everything below it; what is refused stays, with the
  directories above it, and the call fails.\<close>

definition os_RemoveAll :: "disk_env \<Rightarrow> string \<Rightarrow> disk \<Rightarrow> bool \<times> disk" where
  "os_RemoveAll e p d =
     (let k = path_key p; stuck = filter (\<lambda>n. prefix k (n_path n) \<and> denied e (n_path n)) d in
      (stuck = [], filter (\<lambda>n. \<not> prefix k (n_path n) \<or> list_ex (\<lambda>s. prefix (n_path n) (n_path s)) stuck) d))"

text \<open>The directories above a path, the outermost first, and the path itself.\<close>

definition dir_chain :: "string list \<Rightarrow> string list list" where
  "dir_chain k = map (\<lambda>n. take (Suc n) k) [0..<length k]"

definition os_MkdirAll :: "disk_env \<Rightarrow> string \<Rightarrow> disk \<Rightarrow> bool \<times> disk" where
  "os_MkdirAll e p d =
     (let missing = filter (\<lambda>k. node_at k d = None) (dir_chain (path_key p)) in
      if list_ex (\<lambda>k. node_at k d \<noteq> None \<and> \<not> is_directory k d) (dir_chain (path_key p)) \<or> list_ex (denied e) missing
      then (False, d)
      else (True, d @ map (\<lambda>k. \<lparr> n_path = k, n_dir = True \<rparr>) missing))"

text \<open>\<open>os.ReadDir\<close>: the entries by name.\<close>

definition entry_of :: "string list \<Rightarrow> node \<Rightarrow> (string \<times> bool) option" where
  "entry_of k n = (if n_path n \<noteq> [] \<and> butlast (n_path n) = k then Some (last (n_path n), n_dir n) else None)"

definition os_ReadDir :: "disk_env \<Rightarrow> string \<Rightarrow> disk \<Rightarrow> (string \<times> bool) list option" where
  "os_ReadDir e p d =
     (let k = path_key p in
      if unreadable e k \<or> \<not> is_directory k d then None
      else Some (order_by_text fst (List.map_filter (entry_of k) d)))"

text \<open>A file is written at a path: created, or its content replaced.\<close>

definition put_file :: "string list \<Rightarrow> disk \<Rightarrow> disk" where
  "put_file k d = (if node_at k d = None then d @ [\<lparr> n_path = k, n_dir = False \<rparr>] else d)"

text \<open>\<open>os.Rename\<close> of a directory onto a path where nothing is.\<close>

definition move_node :: "string list \<Rightarrow> string list \<Rightarrow> node \<Rightarrow> node" where
  "move_node a b n = (if prefix a (n_path n) then n\<lparr> n_path := b @ drop (length a) (n_path n) \<rparr> else n)"

definition os_RenameDir :: "disk_env \<Rightarrow> string \<Rightarrow> string \<Rightarrow> disk \<Rightarrow> bool \<times> disk" where
  "os_RenameDir e a b d =
     (let ka = path_key a; kb = path_key b in
      if denied e kb \<or> \<not> is_directory ka d \<or> node_at kb d \<noteq> None \<or> \<not> is_directory (butlast kb) d then (False, d)
      else (True, map (move_node ka kb) d))"

section \<open>Cleaning keeps the key\<close>

text \<open>The cleaned elements of a relative path: names, after the climbs that are left.\<close>

definition climbs_first :: "string list \<Rightarrow> bool" where
  "climbs_first out \<longleftrightarrow> (\<exists>ns k. out = ns @ replicate k ''..'' \<and> list_all path_name ns)"

lemma climbs_first_step:
  assumes "climbs_first out" and "CHR ''/'' \<notin> set e"
  shows "climbs_first (clean_step False out e)"
proof -
  obtain ns k where out: "out = ns @ replicate k ''..''" and ns: "list_all path_name ns"
    using assms(1) by (auto simp: climbs_first_def)
  consider (skip) "e = [] \<or> e = ''.''" | (climb) "e = ''..''" | (name) "path_name e"
    using assms(2) by (auto simp: path_name_def)
  then show ?thesis
  proof cases
    case skip
    then show ?thesis using assms(1) by (simp add: clean_step_def)
  next
    case name
    then have "clean_step False out e = (e # ns) @ replicate k ''..''"
      by (simp add: clean_step_def path_name_def out)
    then show ?thesis using ns name unfolding climbs_first_def by (intro exI [of _ "e # ns"] exI [of _ k]) simp
  next
    case climb
    show ?thesis
    proof (cases ns)
      case Nil
      then have "clean_step False out e = [] @ replicate (Suc k) ''..''"
        using climb out by (cases k) (simp_all add: clean_step_def)
      then show ?thesis unfolding climbs_first_def by (intro exI [of _ "[]"] exI [of _ "Suc k"]) simp
    next
      case (Cons n ns')
      then have "clean_step False out e = ns' @ replicate k ''..''"
        using climb out ns by (auto simp: clean_step_def path_name_def)
      then show ?thesis using ns Cons unfolding climbs_first_def by auto
    qed
  qed
qed

lemma climbs_first_fold:
  "\<forall>e \<in> set es. CHR ''/'' \<notin> set e \<Longrightarrow> climbs_first out \<Longrightarrow> climbs_first (foldl (clean_step False) out es)"
  by (induction es arbitrary: out) (simp_all add: climbs_first_step)

lemma clean_climbs: "foldl (clean_step False) (replicate j ''..'') (replicate k ''..'') = replicate (k + j) ''..''"
proof (induction k arbitrary: j)
  case (Suc k)
  have "clean_step False (replicate j ''..'') ''..'' = replicate (Suc j) ''..''"
    by (cases j) (simp_all add: clean_step_def)
  then show ?case using Suc [of "Suc j"] by simp
qed simp

lemma clean_rel_fixed: "climbs_first out \<Longrightarrow> foldl (clean_step False) [] (rev out) = out"
  using clean_climbs [of 0] by (auto simp: climbs_first_def clean_fold_keep)

lemma clean_rel_climbs: "climbs_first (rev (clean_elems False p))"
proof -
  have "climbs_first (foldl (clean_step False) [] (split_slash p))"
    using split_slash_element by (intro climbs_first_fold) (auto simp: climbs_first_def)
  then show ?thesis by (simp add: clean_elems_def)
qed

lemma clean_rel_no_slash:
  assumes "e \<in> set (clean_elems False p)"
  shows "CHR ''/'' \<notin> set e \<and> e \<noteq> [] \<and> e \<noteq> ''.''"
proof -
  obtain ns k where "rev (clean_elems False p) = ns @ replicate k ''..''" "list_all path_name ns"
    using clean_rel_climbs [of p] by (auto simp: climbs_first_def)
  then have "e \<in> set ns \<or> e \<in> set (replicate k ''..'')"
    using assms by (metis Un_iff set_append set_rev)
  then show ?thesis
  proof
    assume "e \<in> set ns"
    then have "path_name e" using \<open>list_all path_name ns\<close> by (simp add: list_all_iff)
    then show ?thesis by (simp add: path_name_def)
  qed simp
qed

lemma is_rooted_join_rel: "\<not> is_rooted (join_slash (clean_elems False p))"
proof (cases "clean_elems False p")
  case (Cons e es)
  have "CHR ''/'' \<notin> set e \<and> e \<noteq> []" using clean_rel_no_slash [of e p] Cons by simp
  then have "e \<noteq> [] \<and> hd e \<noteq> CHR ''/''" by (cases e) auto
  then show ?thesis using Cons by (cases es) (auto simp: is_rooted_def)
qed (simp add: is_rooted_def)

lemma clean_elems_rel_idem:
  assumes "clean_elems False p \<noteq> []"
  shows "clean_elems False (join_slash (clean_elems False p)) = clean_elems False p"
proof -
  have "split_slash (join_slash (clean_elems False p)) = clean_elems False p"
    using clean_rel_no_slash assms by (intro split_join) auto
  then have "clean_elems False (join_slash (clean_elems False p)) = rev (foldl (clean_step False) [] (clean_elems False p))"
    by (simp add: clean_elems_def [of False "join_slash _"])
  also have "\<dots> = clean_elems False p" using clean_rel_fixed [OF clean_rel_climbs [of p]] by simp
  finally show ?thesis .
qed

lemma path_key_Clean [simp]: "path_key (filepath_Clean p) = path_key p"
proof (cases "is_rooted p")
  case True
  then show ?thesis by (simp add: path_key_def is_rooted_clean clean_elems_Clean)
next
  case False
  show ?thesis
  proof (cases "clean_elems False p = []")
    case True
    then have "filepath_Clean p = ''.''" using False by (simp add: filepath_Clean_def)
    moreover have "path_key ''.'' = []" by (simp add: path_key_def is_rooted_def clean_elems_def clean_step_def)
    ultimately show ?thesis using False True by (simp add: path_key_def)
  next
    case ne: False
    then have "filepath_Clean p = join_slash (clean_elems False p)" using False by (simp add: filepath_Clean_def)
    then show ?thesis using False is_rooted_join_rel [of p] clean_elems_rel_idem [OF ne] by (simp add: path_key_def)
  qed
qed

lemma clean_elems_names_under:
  assumes "list_all path_name ns" and "ns \<noteq> []"
  shows "clean_elems r (p @ ''/'' @ join_slash ns) = clean_elems r p @ ns"
proof -
  have "split_slash (join_slash ns) = ns"
    using assms by (intro split_join) (auto simp: list_all_iff path_name_def)
  then have "split_slash (p @ ''/'' @ join_slash ns) = split_slash p @ ns" by (simp add: split_slash_append [simplified])
  then show ?thesis using assms(1) by (simp add: clean_elems_def clean_fold_keep)
qed

text \<open>Joining names to a path appends them to its key.\<close>

lemma path_key_join:
  assumes "p \<noteq> []" and "list_all path_name ns" and "ns \<noteq> []"
  shows "path_key (path_join (p # ns)) = path_key p @ ns"
proof -
  have "filter (\<lambda>e. e \<noteq> []) ns = ns" using assms(2) by (auto simp: list_all_iff path_name_def filter_id_conv)
  moreover have "join_slash (p # ns) = p @ ''/'' @ join_slash ns" using assms(3) by (cases ns) simp_all
  ultimately have "path_key (path_join (p # ns)) = path_key (p @ ''/'' @ join_slash ns)"
    using assms(1) by (simp add: path_join_def)
  moreover have "is_rooted (p @ ''/'' @ join_slash ns) = is_rooted p" using assms(1) by (simp add: is_rooted_def)
  ultimately show ?thesis using clean_elems_names_under [OF assms(2,3)] by (simp only: path_key_def) simp
qed

lemma path_key_slash:
  assumes "p \<noteq> []" and "path_name e"
  shows "path_key (p @ ''/'' @ e) = path_key p @ [e]"
proof -
  have "is_rooted (p @ ''/'' @ e) = is_rooted p" using assms(1) by (simp add: is_rooted_def)
  then show ?thesis using clean_elems_names_under [of "[e]" "is_rooted p" p] assms(2) by (simp add: path_key_def)
qed

text \<open>The directory of a cleaned path.\<close>

lemma join_slash_snoc: "es \<noteq> [] \<Longrightarrow> join_slash (es @ [n]) = join_slash es @ ''/'' @ n"
proof (induction es)
  case (Cons e es)
  then show ?case by (cases es) simp_all
qed simp

lemma dir_part: "CHR ''/'' \<notin> set n \<Longrightarrow> rev (dropWhile (\<lambda>c. c \<noteq> CHR ''/'') (rev (q @ ''/'' @ n))) = q @ ''/''"
proof -
  assume "CHR ''/'' \<notin> set n"
  then have "dropWhile (\<lambda>c. c \<noteq> CHR ''/'') (rev n @ CHR ''/'' # rev q) = CHR ''/'' # rev q"
    by (subst dropWhile_append2) auto
  then show ?thesis by simp
qed

lemma clean_elems_slash: "clean_elems r (q @ ''/'') = clean_elems r q"
  using split_slash_append [of q "[]"] by (simp add: clean_elems_def clean_step_def)

lemma clean_elems_joined:
  assumes "foldl (clean_step r) [] es = rev es" and "\<forall>e \<in> set es. CHR ''/'' \<notin> set e" and "es \<noteq> []"
  shows "clean_elems r (join_slash es) = es"
  using assms split_join [of es] by (simp add: clean_elems_def)

lemma path_key_Dir:
  assumes "path_key p = ks @ [n]" and "path_name n" and "p = filepath_Clean s" and "n \<noteq> ''/''"
  shows "path_key (filepath_Dir p) = ks"
proof -
  define r where "r = is_rooted s"
  have n: "CHR ''/'' \<notin> set n" using assms(2) by (simp add: path_name_def)
  have key: "path_key s = ks @ [n]" using assms(1,3) by simp
  obtain es where es: "clean_elems r s = es @ [n]" and ks: "ks = (if r then [''/''] else []) @ es"
  proof (cases "clean_elems r s" rule: rev_cases)
    case Nil
    then show ?thesis using key assms(4) by (auto simp: path_key_def r_def split: if_splits)
  next
    case (snoc es' n')
    then have "(if r then [''/''] else []) @ es' = ks \<and> n' = n" using key by (simp add: path_key_def r_def split: if_splits)
    then show ?thesis using that [of es'] snoc by auto
  qed
  have slash: "\<forall>e \<in> set es. CHR ''/'' \<notin> set e"
    using clean_elems_names [of s] clean_rel_no_slash [of _ s] es by (cases r) (auto simp: list_all_iff path_name_def)
  have fixed: "foldl (clean_step r) [] es = rev es"
  proof (cases r)
    case True
    then have "list_all path_name es" using clean_elems_names [of s] es by simp
    then show ?thesis by (simp add: clean_fold_keep)
  next
    case False
    then have "climbs_first (n # rev es)" using clean_rel_climbs [of s] es by simp
    then obtain ns k where "n # rev es = ns @ replicate k ''..''" "list_all path_name ns"
      by (auto simp: climbs_first_def)
    then obtain ns' where "rev es = ns' @ replicate k ''..''" "list_all path_name ns'" using assms(2)
      by (cases ns; cases k) (auto simp: path_name_def)
    then have "climbs_first (rev es)" unfolding climbs_first_def by blast
    then show ?thesis using clean_rel_fixed [of "rev es"] False by simp
  qed
  have p: "p = (if r then ''/'' else []) @ join_slash (es @ [n])"
    using assms(3) es by (cases r) (simp_all add: filepath_Clean_def r_def)
  show ?thesis
  proof (cases "es = []")
    case True
    have "filepath_Dir p = (if r then ''/'' else ''.'')"
    proof (cases r)
      case True
      then have "rev (dropWhile (\<lambda>c. c \<noteq> CHR ''/'') (rev p)) = [] @ ''/''"
        using p \<open>es = []\<close> dir_part [OF n, of "[]"] by simp
      then show ?thesis using True by (simp add: filepath_Dir_def filepath_Clean_def is_rooted_def clean_elems_def clean_step_def)
    next
      case False
      then have "dropWhile (\<lambda>c. c \<noteq> CHR ''/'') (rev p) = []" using p \<open>es = []\<close> n by (simp add: dropWhile_eq_Nil_conv) metis
      then have "filepath_Dir p = filepath_Clean []" by (simp only: filepath_Dir_def rev.simps)
      then show ?thesis using False by (simp add: filepath_Clean_def is_rooted_def clean_elems_def clean_step_def)
    qed
    then show ?thesis using ks True by (simp add: path_key_def is_rooted_def clean_elems_def clean_step_def)
  next
    case False
    define q where "q = (if r then ''/'' else []) @ join_slash es"
    have "p = q @ ''/'' @ n" using p join_slash_snoc [OF False] by (simp add: q_def)
    then have dir: "filepath_Dir p = filepath_Clean (q @ ''/'')"
      using dir_part [OF n] by (simp only: filepath_Dir_def)
    have joined: "clean_elems r (join_slash es) = es" by (rule clean_elems_joined [OF fixed slash False])
    have rooted: "is_rooted q = r"
    proof (cases r)
      case nr: False
      obtain e es' where c: "es = e # es'" using False by (cases es) simp_all
      then have "e \<noteq> []" using clean_rel_no_slash [of e s] es nr by simp
      then show ?thesis using c slash nr by (cases es'; cases e) (auto simp: q_def is_rooted_def)
    qed (simp add: q_def is_rooted_def)
    have "q \<noteq> []" using rooted fixed joined False by (auto simp: q_def clean_elems_def clean_step_def)
    then have "is_rooted (q @ ''/'') = r" using rooted by (simp add: is_rooted_def)
    moreover have "clean_elems r q = es"
      using joined by (cases r) (simp_all add: q_def clean_elems_def clean_step_def)
    ultimately have "path_key (q @ ''/'') = ks" using clean_elems_slash [of r q] ks by (simp add: path_key_def)
    then show ?thesis using dir by simp
  qed
qed

section \<open>What the operations keep\<close>

definition paths_of :: "disk \<Rightarrow> string list set" where
  "paths_of d = set (map n_path d)"

lemma node_at_iff: "node_at k d \<noteq> None \<longleftrightarrow> k \<in> paths_of d"
  by (auto simp: node_at_def paths_of_def find_None_iff find_Some_iff image_iff)

lemma file_exists_iff: "file_exists p d \<longleftrightarrow> path_key p \<in> paths_of d"
  using node_at_iff by (simp add: file_exists_def)

lemma paths_put_file [simp]: "paths_of (put_file k d) = insert k (paths_of d)"
  using node_at_iff [of k d] by (auto simp: put_file_def paths_of_def)

lemma RemoveAll_allowed:
  assumes "\<And>n. n \<in> set d \<Longrightarrow> prefix (path_key p) (n_path n) \<Longrightarrow> \<not> denied e (n_path n)"
  shows "os_RemoveAll e p d = (True, filter (\<lambda>n. \<not> prefix (path_key p) (n_path n)) d)"
proof -
  have "filter (\<lambda>n. prefix (path_key p) (n_path n) \<and> denied e (n_path n)) d = []"
    using assms by (auto simp: filter_empty_conv)
  then show ?thesis by (simp add: os_RemoveAll_def Let_def)
qed

lemma RemoveAll_keeps:
  assumes "n \<in> set d" and "\<not> prefix (path_key p) (n_path n)"
  shows "n \<in> set (snd (os_RemoveAll e p d))"
  using assms by (simp add: os_RemoveAll_def Let_def)

lemma RemoveAll_subset: "set (snd (os_RemoveAll e p d)) \<subseteq> set d"
  by (auto simp: os_RemoveAll_def Let_def)

end
