(* ===== verification/Imaging.thy ===== *)
theory Imaging
  imports Disk "HOL-Library.Monad_Syntax"
begin

text \<open>
  \<open>internal/imaging/imaging.go\<close>: the files derived from a photo, a video or a cover. The image
  library (libvips), ffmpeg and what the operating system does with a file that is written are
  the environment's; which files are written, in what order, and which part of an image is
  kept are here. A hash too short to be sliced panics: such a call is None. A function that
  returns only an error returns whether there was none.
\<close>

section \<open>The environment\<close>

datatype write_outcome =
    Written
  | NotWritten                \<comment> \<open>the temporary file fails, and is removed\<close>
  | NotRenamed string         \<comment> \<open>the rename fails, and the temporary file of that name stays\<close>

record image_env = disk_env +
  write_outcome :: "string list \<Rightarrow> write_outcome"
  image_size :: "string \<Rightarrow> (int \<times> int) option"       \<comment> \<open>\<open>NewImageFromFile\<close> and \<open>Autorot\<close>\<close>
  bytes_size :: "string \<Rightarrow> (int \<times> int) option"       \<comment> \<open>the same of bytes in a temporary file\<close>
  encode_ok :: "string list \<Rightarrow> bool"                 \<comment> \<open>\<open>Resize\<close> and \<open>WebpsaveBuffer\<close> for that file\<close>
  dzsave_ok :: "string \<Rightarrow> bool"
  temp_dir :: string                               \<comment> \<open>the name \<open>MkdirTemp\<close> chooses\<close>
  frame_at :: "string \<Rightarrow> int \<Rightarrow> string"             \<comment> \<open>ffmpeg's frame at a time, empty when it fails\<close>

section \<open>Files in place at once\<close>

definition atomicWrite :: "('e) image_env_scheme \<Rightarrow> string \<Rightarrow> disk \<Rightarrow> bool \<times> disk" where
  "atomicWrite env p d =
     (let k = path_key p in
      if \<not> is_directory (butlast k) d then (False, d)
      else case write_outcome env k of
        Written \<Rightarrow> (\<not> is_directory k d, put_file k d)
      | NotWritten \<Rightarrow> (False, d)
      | NotRenamed tmp \<Rightarrow> (False, put_file (butlast k @ [tmp]) d))"

section \<open>Covers\<close>

text \<open>The part of an image that a cover keeps: left, top, width and height; None is the whole.\<close>

definition crop_area :: "int \<Rightarrow> int \<Rightarrow> int \<Rightarrow> int \<Rightarrow> (int \<times> int \<times> int \<times> int) option" where
  "crop_area widthRatio heightRatio w h =
     (let targetH = go_div (w * heightRatio) widthRatio in
      if targetH > h then
        let targetW = go_div (h * widthRatio) heightRatio in Some (go_div (w - targetW) 2, 0, targetW, h)
      else if targetH < h then Some (0, go_div (h - targetH) 2, w, targetH)
      else None)"

definition square_area :: "int \<Rightarrow> int \<Rightarrow> (int \<times> int \<times> int \<times> int) option" where
  "square_area w h =
     (if w > h then Some (go_div (w - h) 2, 0, h, h)
      else if h > w then Some (0, go_div (h - w) 2, w, w)
      else None)"

text \<open>libvips refuses an area that is empty or not inside the image.\<close>

fun extract_ok :: "(int \<times> int \<times> int \<times> int) option \<Rightarrow> int \<Rightarrow> int \<Rightarrow> bool" where
  "extract_ok None w h \<longleftrightarrow> True"
| "extract_ok (Some (left, upper, cw, ch)) w h \<longleftrightarrow>
     0 \<le> left \<and> 0 \<le> upper \<and> 0 < cw \<and> 0 < ch \<and> left + cw \<le> w \<and> upper + ch \<le> h"

text \<open>The steps both kinds of covers share: the directory, the image, its part, the file.\<close>

definition cover_file ::
  "('e) image_env_scheme \<Rightarrow> (int \<Rightarrow> int \<Rightarrow> (int \<times> int \<times> int \<times> int) option) \<Rightarrow> (int \<times> int) option \<Rightarrow> string
    \<Rightarrow> disk \<Rightarrow> bool \<times> disk" where
  "cover_file env area sz webpPath d =
     (case os_MkdirAll (disk_env.truncate env) (filepath_Dir webpPath) d of
        (False, d) \<Rightarrow> (False, d)
      | (True, d) \<Rightarrow>
          (case sz of
             None \<Rightarrow> (False, d)
           | Some (w, h) \<Rightarrow>
               if \<not> extract_ok (area w h) w h \<or> \<not> encode_ok env (path_key webpPath) then (False, d)
               else atomicWrite env webpPath d))"

text \<open>\<open>NewImageFromFile\<close> on the disk as it is.\<close>

definition load_image :: "('e) image_env_scheme \<Rightarrow> string \<Rightarrow> disk \<Rightarrow> (int \<times> int) option" where
  "load_image env p d = (if file_exists p d then image_size env p else None)"

definition coverFromFile :: "('e) image_env_scheme \<Rightarrow> string \<Rightarrow> string \<Rightarrow> int \<Rightarrow> int \<Rightarrow> disk \<Rightarrow> bool \<times> disk" where
  "coverFromFile env src webpPath wr hr d = cover_file env (crop_area wr hr) (load_image env src d) webpPath d"

definition squareCoverFromFile :: "('e) image_env_scheme \<Rightarrow> string \<Rightarrow> string \<Rightarrow> disk \<Rightarrow> bool \<times> disk" where
  "squareCoverFromFile env src webpPath = coverFromFile env src webpPath 1 1"

definition largeCoverFromFile :: "('e) image_env_scheme \<Rightarrow> string \<Rightarrow> string \<Rightarrow> disk \<Rightarrow> bool \<times> disk" where
  "largeCoverFromFile env src webpPath d = cover_file env square_area (load_image env src d) webpPath d"

text \<open>From bytes: a temporary file, outside the data, holds them for the time of the call.\<close>

definition squareCoverFromBytes :: "('e) image_env_scheme \<Rightarrow> string \<Rightarrow> string \<Rightarrow> disk \<Rightarrow> bool \<times> disk" where
  "squareCoverFromBytes env b webpPath = cover_file env (crop_area 1 1) (bytes_size env b) webpPath"

definition largeCoverFromBytes :: "('e) image_env_scheme \<Rightarrow> string \<Rightarrow> string \<Rightarrow> disk \<Rightarrow> bool \<times> disk" where
  "largeCoverFromBytes env b webpPath = cover_file env square_area (bytes_size env b) webpPath"

definition GenerateCollectionThumbnail where
  "GenerateCollectionThumbnail env src dataPath i = squareCoverFromFile env src (CollectionThumbnailPath dataPath i ''webp'')"

definition GenerateArtistThumbnail where
  "GenerateArtistThumbnail env src dataPath i = squareCoverFromFile env src (ArtistThumbnailPath dataPath i ''webp'')"

definition GenerateAlbumThumbnailFromBytes where
  "GenerateAlbumThumbnailFromBytes env b dataPath i = squareCoverFromBytes env b (AlbumThumbnailPath dataPath i ''webp'')"

definition GenerateAlbumCoverFromBytes where
  "GenerateAlbumCoverFromBytes env b dataPath i = largeCoverFromBytes env b (AlbumCoverPath dataPath i ''webp'')"

definition GenerateVideoCoverFromBytes ::
  "('e) image_env_scheme \<Rightarrow> string \<Rightarrow> string \<Rightarrow> string \<Rightarrow> int \<Rightarrow> int \<Rightarrow> disk \<Rightarrow> (bool \<times> disk) option" where
  "GenerateVideoCoverFromBytes env b dataPath hash wr hr d =
     map_option (\<lambda>p. cover_file env (crop_area wr hr) (bytes_size env b) p d) (VariantPath dataPath hash ''cover'' ''webp'')"

definition GenerateThumbnailFromBytes where
  "GenerateThumbnailFromBytes env b dataPath i = squareCoverFromBytes env b (CollectionThumbnailPath dataPath i ''webp'')"

text \<open>The same of an uploaded file.\<close>

definition GenerateCollectionThumbnailFromUpload where
  "GenerateCollectionThumbnailFromUpload env src dataPath i = squareCoverFromFile env src (CollectionThumbnailPath dataPath i ''webp'')"

definition GenerateArtistThumbnailFromUpload where
  "GenerateArtistThumbnailFromUpload env src dataPath i = squareCoverFromFile env src (ArtistThumbnailPath dataPath i ''webp'')"

definition GenerateAlbumThumbnailFromUpload where
  "GenerateAlbumThumbnailFromUpload env src dataPath i = squareCoverFromFile env src (AlbumThumbnailPath dataPath i ''webp'')"

definition GenerateAlbumCoverFromUpload where
  "GenerateAlbumCoverFromUpload env src dataPath i = largeCoverFromFile env src (AlbumCoverPath dataPath i ''webp'')"

definition CollectionThumbnailExists where
  "CollectionThumbnailExists dataPath i = file_exists (CollectionThumbnailPath dataPath i ''webp'')"

definition ArtistThumbnailExists where
  "ArtistThumbnailExists dataPath i = file_exists (ArtistThumbnailPath dataPath i ''webp'')"

definition AlbumThumbnailExists where
  "AlbumThumbnailExists dataPath i = file_exists (AlbumThumbnailPath dataPath i ''webp'')"

definition AlbumCoverExists where
  "AlbumCoverExists dataPath i = file_exists (AlbumCoverPath dataPath i ''webp'')"

section \<open>A frame of a video\<close>

text \<open>The seed is the first eight bytes of the hash; the time is in ten-thousandths of a second.\<close>

definition frame_seed :: "string \<Rightarrow> int" where
  "frame_seed hash = foldl (\<lambda>seed c. (seed * 256 + of_char c) mod 2 ^ 64) 0 (take 8 hash)"

definition frame_offset :: "string \<Rightarrow> int \<Rightarrow> int" where
  "frame_offset hash durationSecs = (500 + 9 * (frame_seed hash mod 1000)) * durationSecs"

definition GenerateVideoCoverFromFrame ::
  "('e) image_env_scheme \<Rightarrow> string \<Rightarrow> string \<Rightarrow> string \<Rightarrow> int \<Rightarrow> int \<Rightarrow> int \<Rightarrow> disk \<Rightarrow> (bool \<times> disk) option" where
  "GenerateVideoCoverFromFrame env src dataPath hash durationSecs wr hr d =
     (let jpeg = frame_at env src (frame_offset hash durationSecs) in
      if jpeg = [] then Some (False, d)
      else GenerateVideoCoverFromBytes env jpeg dataPath hash wr hr d)"

section \<open>The variants of a photo\<close>

record variantSpec =
  vs_name :: string
  vs_size :: int
  vs_quality :: int

definition variants :: "variantSpec list" where
  "variants =
     [\<lparr> vs_name = ''preview'', vs_size = 1920, vs_quality = 85 \<rparr>,
      \<lparr> vs_name = ''small'', vs_size = 1280, vs_quality = 80 \<rparr>,
      \<lparr> vs_name = ''thumb'', vs_size = 400, vs_quality = 75 \<rparr>]"

definition VariantsExist :: "string \<Rightarrow> string \<Rightarrow> disk \<Rightarrow> bool option" where
  "VariantsExist dataPath hash d = map_option (\<lambda>p. file_exists p d) (VariantPath dataPath hash ''thumb'' ''webp'')"

definition generateVariant :: "('e) image_env_scheme \<Rightarrow> string \<Rightarrow> int \<Rightarrow> variantSpec \<Rightarrow> disk \<Rightarrow> bool \<times> disk" where
  "generateVariant env outDir srcLongestEdge spec d =
     (let p = path_join [outDir, vs_name spec @ ''.webp''] in
      if vs_size spec \<ge> srcLongestEdge then (True, d)
      else if \<not> encode_ok env (path_key p) then (False, d)
      else atomicWrite env p d)"

fun generate_each :: "(variantSpec \<Rightarrow> disk \<Rightarrow> bool \<times> disk) \<Rightarrow> variantSpec list \<Rightarrow> disk \<Rightarrow> bool \<times> disk" where
  "generate_each gen [] d = (True, d)"
| "generate_each gen (v # vs) d = (case gen v d of (False, d) \<Rightarrow> (False, d) | (True, d) \<Rightarrow> generate_each gen vs d)"

definition generateAllVariants :: "('e) image_env_scheme \<Rightarrow> string \<Rightarrow> string \<Rightarrow> disk \<Rightarrow> bool \<times> disk" where
  "generateAllVariants env srcPath outDir d =
     (case load_image env srcPath d of
        None \<Rightarrow> (False, d)
      | Some (w, h) \<Rightarrow> generate_each (generateVariant env outDir (max w h)) variants d)"

text \<open>\<open>os.MkdirTemp\<close> in a directory: the name it finds is one where nothing is.\<close>

definition os_MkdirTemp :: "('e) image_env_scheme \<Rightarrow> string \<Rightarrow> disk \<Rightarrow> (string \<times> disk) option" where
  "os_MkdirTemp env parent d =
     (let p = path_join [parent, temp_dir env]; k = path_key p in
      if \<not> is_directory (path_key parent) d \<or> denied env k \<or> list_ex (\<lambda>n. prefix k (n_path n)) d then None
      else Some (p, d @ [\<lparr> n_path = k, n_dir = True \<rparr>]))"

text \<open>The temporary directory is removed on every way out but the last.\<close>

definition drop_temp :: "('e) image_env_scheme \<Rightarrow> string \<Rightarrow> disk \<Rightarrow> bool \<times> disk" where
  "drop_temp env tmp d = (False, snd (os_RemoveAll (disk_env.truncate env) tmp d))"

definition GenerateItemVariants :: "('e) image_env_scheme \<Rightarrow> string \<Rightarrow> string \<Rightarrow> string \<Rightarrow> disk \<Rightarrow> (bool \<times> disk) option" where
  "GenerateItemVariants env srcPath dataPath hash d = do {
     finalDir \<leftarrow> ItemDataPath dataPath hash;
     Some (case os_MkdirAll (disk_env.truncate env) (filepath_Dir finalDir) d of
        (False, d) \<Rightarrow> (False, d)
      | (True, d) \<Rightarrow>
          (case os_MkdirTemp env (filepath_Dir finalDir) d of
             None \<Rightarrow> (False, d)
           | Some (tmp, d) \<Rightarrow>
               (case generateAllVariants env srcPath tmp d of
                  (False, d) \<Rightarrow> drop_temp env tmp d
                | (True, d) \<Rightarrow>
                    (case os_RemoveAll (disk_env.truncate env) finalDir d of
                       (False, d) \<Rightarrow> drop_temp env tmp d
                     | (True, d) \<Rightarrow>
                         (case os_RenameDir (disk_env.truncate env) tmp finalDir d of
                            (False, d) \<Rightarrow> drop_temp env tmp d
                          | (True, d) \<Rightarrow> (True, d)))))) }"

section \<open>Deep zoom tiles\<close>

definition generateDZI :: "('e) image_env_scheme \<Rightarrow> string \<Rightarrow> string \<Rightarrow> disk \<Rightarrow> bool \<times> disk" where
  "generateDZI env srcPath tilesDir d =
     (if load_image env srcPath d = None \<or> \<not> dzsave_ok env srcPath then (False, d)
      else (True, put_file (path_key tilesDir @ [''image.dzi'']) d))"

text \<open>The first component of the value: whether tiles were generated.\<close>

definition GenerateDZIIfNotPresent ::
  "('e) image_env_scheme \<Rightarrow> string \<Rightarrow> string \<Rightarrow> string \<Rightarrow> disk \<Rightarrow> (bool option \<times> disk) option" where
  "GenerateDZIIfNotPresent env srcPath dataPath hash d = do {
     tilesDir \<leftarrow> TilesPath dataPath hash;
     Some (if file_exists (path_join [tilesDir, ''image.dzi'']) d then (Some False, d)
      else case os_MkdirAll (disk_env.truncate env) tilesDir d of
        (False, d) \<Rightarrow> (None, d)
      | (True, d) \<Rightarrow>
          (case generateDZI env srcPath tilesDir d of
             (False, d) \<Rightarrow> (None, snd (os_RemoveAll (disk_env.truncate env) tilesDir d))
           | (True, d) \<Rightarrow> (Some True, d))) }"

section \<open>JPEG for old clients\<close>

text \<open>The image library's two calls, each with its error.\<close>

definition GenerateJPEG :: "(string \<Rightarrow> string + 'img) \<Rightarrow> ('img \<Rightarrow> string + string) \<Rightarrow> string \<Rightarrow> string + string" where
  "GenerateJPEG new_image jpegsave webpPath = (case new_image webpPath of
       Inl e \<Rightarrow> Inl (''load webp: '' @ e)
     | Inr img \<Rightarrow> (case jpegsave img of Inl e \<Rightarrow> Inl (''transcode to jpeg: '' @ e) | Inr b \<Rightarrow> Inr b))"

end
