(* ===== verification/ImagingProps.thy ===== *)
theory ImagingProps
  imports Imaging
begin

text \<open>
  What the derived files of \<open>internal/imaging/imaging.go\<close> promise: the part of an image a cover
  keeps, the files of a generation of variants, and that a failed generation costs nothing.
\<close>

section \<open>Covers\<close>

definition kept_area :: "(int \<times> int \<times> int \<times> int) option \<Rightarrow> int \<Rightarrow> int \<Rightarrow> int \<times> int \<times> int \<times> int" where
  "kept_area a w h = (case a of None \<Rightarrow> (0, 0, w, h) | Some x \<Rightarrow> x)"

lemma div_bounds: "0 < (b :: int) \<Longrightarrow> a div b * b \<le> a \<and> a < a div b * b + b"
  using pos_mod_sign [of b a] pos_mod_bound [of b a] div_mult_mod_eq [of a b] by linarith

lemma half_centred: "0 \<le> (x :: int) \<Longrightarrow> \<bar>2 * (x div 2) - x\<bar> \<le> 1 \<and> x div 2 \<le> x \<and> 0 \<le> x div 2"
  by linarith

text \<open>C36: The part of an image a cover keeps lies inside the image and is centred, it is as wide or
  as high as the image, and it has the asked ratio up to less than one step of rounding: whenever
  the ratio leaves at least one row and one column of pixels, libvips accepts the area.\<close>

theorem cover_keeps_centred_part:
  assumes pos: "0 < wr" "0 < hr" "0 < w" "0 < h" and rows: "wr \<le> w * hr" and columns: "hr \<le> h * wr"
    and area: "kept_area (crop_area wr hr w h) w h = (left, upper, cw, ch)"
  shows "extract_ok (crop_area wr hr w h) w h
    \<and> (cw = w \<or> ch = h) \<and> \<bar>2 * left + cw - w\<bar> \<le> 1 \<and> \<bar>2 * upper + ch - h\<bar> \<le> 1
    \<and> \<bar>cw * hr - ch * wr\<bar> < max wr hr"
proof -
  define tH where "tH = w * hr div wr"
  define tW where "tW = h * wr div hr"
  have div: "go_div (w * hr) wr = tH" "go_div (h * wr) hr = tW" using pos by (simp_all add: tH_def tW_def)
  have tH: "tH * wr \<le> w * hr" "w * hr < tH * wr + wr" using div_bounds [of wr "w * hr"] pos by (simp_all add: tH_def)
  have tW: "tW * hr \<le> h * wr" "h * wr < tW * hr + hr" using div_bounds [of hr "h * wr"] pos by (simp_all add: tW_def)
  have "0 < tH" using rows pos by (simp add: tH_def pos_imp_zdiv_pos_iff)
  have "0 < tW" using columns pos by (simp add: tW_def pos_imp_zdiv_pos_iff)
  consider (narrow) "tH > h" | (flat) "tH < h" | (same) "tH = h" by linarith
  then show ?thesis
  proof cases
    case narrow
    then have "(h + 1) * wr \<le> tH * wr" using pos by (intro mult_right_mono) simp_all
    then have "h * wr + wr \<le> tH * wr" by (simp add: distrib_right)
    then have "tW * hr < w * hr" using tH(1) tW(1) pos by linarith
    then have "tW < w" by (rule mult_right_less_imp_less) (use pos in simp)
    moreover have "kept_area (crop_area wr hr w h) w h = (go_div (w - tW) 2, 0, tW, h)"
      using narrow div by (simp add: crop_area_def kept_area_def)
    moreover have "\<bar>tW * hr - h * wr\<bar> < max wr hr" using tW by linarith
    moreover have "left = (w - tW) div 2 \<and> upper = 0 \<and> cw = tW \<and> ch = h"
      using calculation area by simp
    ultimately show ?thesis
      using half_centred [of "w - tW"] narrow div \<open>0 < tW\<close> pos by (auto simp: crop_area_def)
  next
    case flat
    have "\<bar>w * hr - tH * wr\<bar> < max wr hr" using tH by linarith
    moreover have "left = 0 \<and> upper = (h - tH) div 2 \<and> cw = w \<and> ch = tH"
      using area flat div by (auto simp: crop_area_def kept_area_def)
    ultimately show ?thesis
      using half_centred [of "h - tH"] flat div \<open>0 < tH\<close> pos by (auto simp: crop_area_def)
  next
    case same
    have "\<bar>w * hr - h * wr\<bar> < max wr hr" using tH same by simp
    then show ?thesis using area same div by (simp add: crop_area_def kept_area_def)
  qed
qed

theorem cover_keeps_centred_part_witness:
  "extract_ok (crop_area 2 3 1000 750) 1000 750 \<and> ((500 :: int) = 1000 \<or> (750 :: int) = 750)
    \<and> \<bar>2 * 250 + 500 - 1000\<bar> \<le> (1 :: int) \<and> \<bar>2 * 0 + 750 - 750\<bar> \<le> (1 :: int)
    \<and> \<bar>500 * 3 - 750 * 2\<bar> < max 2 (3 :: int)"
  by (rule cover_keeps_centred_part) (simp_all add: crop_area_def kept_area_def)

text \<open>The time of the frame is between a twentieth of the video and the same before its end.\<close>

lemma frame_offset_inside:
  assumes "0 \<le> durationSecs"
  shows "500 * durationSecs \<le> frame_offset hash durationSecs \<and> frame_offset hash durationSecs \<le> 9500 * durationSecs"
proof -
  have "0 \<le> frame_seed hash mod 1000" "frame_seed hash mod 1000 \<le> 999" by simp_all
  then show ?thesis using assms unfolding frame_offset_def by (intro conjI mult_right_mono) simp_all
qed

section \<open>Variants\<close>

text \<open>A content hash in hexadecimal.\<close>

definition hex_char :: "char \<Rightarrow> bool" where
  "hex_char c \<longleftrightarrow> is_digit c \<or> c \<in> set ''abcdef''"

definition hex_hash :: "string \<Rightarrow> bool" where
  "hex_hash hash \<longleftrightarrow> 4 < length hash \<and> list_all hex_char hash"

definition item_key :: "string \<Rightarrow> string \<Rightarrow> string list" where
  "item_key base hash = path_key base @ [''derived_media'', take 2 hash, take 2 (drop 2 hash), drop 4 hash]"

lemma hex_name:
  assumes "list_all hex_char s" and "s \<noteq> []"
  shows "path_name s"
proof -
  have "CHR ''/'' \<notin> set s" "CHR ''.'' \<notin> set s" using assms(1) by (auto simp: list_all_iff hex_char_def is_digit_def)
  then show ?thesis using assms(2) by (auto simp: path_name_def)
qed

lemma hex_parts:
  assumes "hex_hash hash"
  shows "path_name (take 2 hash)" "path_name (take 2 (drop 2 hash))" "path_name (drop 4 hash)"
proof -
  have len: "4 < length hash" and all: "\<forall>c \<in> set hash. hex_char c" using assms by (auto simp: hex_hash_def list_all_iff)
  have "list_all hex_char (take 2 hash)" "list_all hex_char (take 2 (drop 2 hash))" "list_all hex_char (drop 4 hash)"
    using all by (auto simp: list_all_iff dest: in_set_takeD in_set_dropD)
  then show "path_name (take 2 hash)" "path_name (take 2 (drop 2 hash))" "path_name (drop 4 hash)"
    using len by (auto intro!: hex_name)
qed

lemma path_name_literals [simp]:
  "path_name ''derived_media''" "path_name ''thumb.webp''" "path_name ''tiles''" "path_name ''image.dzi''"
  "path_name ''hls''" "path_name ''manifest.m3u8''" "path_name ''cover.webp''"
  by (simp_all add: path_name_def)

lemma ItemDataPath_key:
  assumes "base \<noteq> []" and "hex_hash hash" and "ItemDataPath base hash = Some p"
  shows "path_key p = item_key base hash"
  using assms hex_parts [OF assms(2)] path_key_join [of base "[''derived_media'', take 2 hash, take 2 (drop 2 hash), drop 4 hash]"]
  by (simp add: ItemDataPath_def item_key_def split: if_splits)

lemma ItemDataPath_dir_key:
  assumes "base \<noteq> []" and "hex_hash hash" and "ItemDataPath base hash = Some p"
  shows "path_key (filepath_Dir p) = butlast (item_key base hash)"
proof (rule path_key_Dir [of _ _ "drop 4 hash"])
  show "path_key p = butlast (item_key base hash) @ [drop 4 hash]"
    using ItemDataPath_key [OF assms] by (simp add: item_key_def butlast_append)
  show "p = filepath_Clean (base @ ''/derived_media/'' @ take 2 hash @ ''/'' @ take 2 (drop 2 hash) @ ''/'' @ drop 4 hash)"
    using assms by (simp add: ItemDataPath_def path_join_def hex_hash_def split: if_splits)
qed (use hex_parts [OF assms(2)] in \<open>auto simp: path_name_def\<close>)

lemma path_not_Nil: "path_key p \<noteq> [] \<Longrightarrow> p \<noteq> []"
  by (auto simp: path_key_def is_rooted_def clean_elems_def clean_step_def)

text \<open>Names of variants, and what a generation writes.\<close>

lemma variant_name: "v \<in> set variants \<Longrightarrow> path_name (vs_name v @ ''.webp'')"
  by (auto simp: variants_def path_name_def)

lemma variant_names_distinct: "v \<in> set variants \<Longrightarrow> v' \<in> set variants \<Longrightarrow> vs_name v = vs_name v' \<Longrightarrow> v = v'"
  by (auto simp: variants_def)

lemma atomicWrite_paths:
  assumes "atomicWrite env p d = (True, d')"
  shows "paths_of d' = insert (path_key p) (paths_of d)"
  using assms by (auto simp: atomicWrite_def Let_def split: write_outcome.splits if_splits)

lemma generateVariant_paths:
  assumes "generateVariant env out e v d = (True, d')" and "path_name (vs_name v @ ''.webp'')" and "out \<noteq> []"
  shows "paths_of d' = paths_of d \<union> (if vs_size v < e then {path_key out @ [vs_name v @ ''.webp'']} else {})"
  using assms atomicWrite_paths [of env _ d d'] path_key_join [of out "[vs_name v @ ''.webp'']"]
  by (auto simp: generateVariant_def Let_def split: if_splits)

lemma generate_each_paths:
  assumes "generate_each (generateVariant env out e) vs d = (True, d')"
    and "\<forall>v \<in> set vs. path_name (vs_name v @ ''.webp'')" and "out \<noteq> []"
  shows "paths_of d' = paths_of d \<union> (\<lambda>v. path_key out @ [vs_name v @ ''.webp'']) ` {v \<in> set vs. vs_size v < e}"
  using assms
proof (induction vs arbitrary: d)
  case (Cons v vs)
  obtain d1 where d1: "generateVariant env out e v d = (True, d1)" "generate_each (generateVariant env out e) vs d1 = (True, d')"
    using Cons.prems(1) by (auto split: prod.splits bool.splits)
  have "paths_of d1 = paths_of d \<union> (if vs_size v < e then {path_key out @ [vs_name v @ ''.webp'']} else {})"
    using generateVariant_paths [OF d1(1)] Cons.prems by simp
  then show ?case using Cons.IH [OF d1(2)] Cons.prems by auto
qed simp

lemma paths_RemoveAll:
  assumes "os_RemoveAll e p d = (True, d')"
  shows "paths_of d' = {q \<in> paths_of d. \<not> prefix (path_key p) q}"
  using assms by (auto simp: os_RemoveAll_def Let_def paths_of_def)

lemma paths_RenameDir:
  assumes "os_RenameDir e a b d = (True, d')"
  shows "paths_of d' = (\<lambda>q. if prefix (path_key a) q then path_key b @ drop (length (path_key a)) q else q) ` paths_of d"
proof -
  have "d' = map (move_node (path_key a) (path_key b)) d"
    using assms by (simp add: os_RenameDir_def Let_def split: if_splits)
  moreover have "n_path (move_node j k n) = (if prefix j (n_path n) then k @ drop (length j) (n_path n) else n_path n)" for j k n
    by (simp add: move_node_def)
  ultimately show ?thesis by (simp only: paths_of_def set_map image_image)
qed

lemma MkdirTemp_cases:
  assumes "os_MkdirTemp env parent d = Some (tmp, d')" and "parent \<noteq> []" and "path_name (temp_dir env)"
  shows "path_key tmp = path_key parent @ [temp_dir env]" and "paths_of d' = insert (path_key tmp) (paths_of d)"
    and "\<forall>q \<in> paths_of d. \<not> prefix (path_key tmp) q"
  using assms path_key_join [of parent "[temp_dir env]"]
  by (auto simp: os_MkdirTemp_def Let_def paths_of_def list_ex_iff split: if_splits)

text \<open>The way a generation that succeeds takes.\<close>

lemma GenerateItemVariants_steps:
  assumes "GenerateItemVariants env src base hash d = Some (True, d')"
  obtains final d1 tmp d2 d3 d4 where "ItemDataPath base hash = Some final"
    and "os_MkdirTemp env (filepath_Dir final) d1 = Some (tmp, d2)" and "generateAllVariants env src tmp d2 = (True, d3)"
    and "os_RemoveAll (disk_env.truncate env) final d3 = (True, d4)"
    and "os_RenameDir (disk_env.truncate env) tmp final d4 = (True, d')"
proof -
  obtain final where final: "ItemDataPath base hash = Some final"
    using assms by (auto simp: GenerateItemVariants_def bind_eq_Some_conv)
  obtain ok1 d1 where d1: "os_MkdirAll (disk_env.truncate env) (filepath_Dir final) d = (ok1, d1)" by fastforce
  have ok1: "ok1" using assms by (cases ok1) (simp_all add: GenerateItemVariants_def final d1)
  obtain tmp d2 where d2: "os_MkdirTemp env (filepath_Dir final) d1 = Some (tmp, d2)"
    using assms ok1 by (cases "os_MkdirTemp env (filepath_Dir final) d1") (auto simp: GenerateItemVariants_def final d1)
  obtain ok3 d3 where d3: "generateAllVariants env src tmp d2 = (ok3, d3)" by fastforce
  have ok3: "ok3" using assms ok1 by (cases ok3) (simp_all add: GenerateItemVariants_def final d1 d2 d3 drop_temp_def)
  obtain ok4 d4 where d4: "os_RemoveAll (disk_env.truncate env) final d3 = (ok4, d4)" by fastforce
  have ok4: "ok4" using assms ok1 ok3 by (cases ok4) (simp_all add: GenerateItemVariants_def final d1 d2 d3 d4 drop_temp_def)
  obtain ok5 d5 where d5: "os_RenameDir (disk_env.truncate env) tmp final d4 = (ok5, d5)" by fastforce
  have "ok5 \<and> d5 = d'" using assms ok1 ok3 ok4
    by (cases ok5) (simp_all add: GenerateItemVariants_def final d1 d2 d3 d4 d5 drop_temp_def)
  then show ?thesis using that [of final d1 tmp d2 d3 d4] final d2 d3 ok3 d4 ok4 d5 by simp
qed

lemma generateAllVariants_paths:
  assumes "generateAllVariants env src out d = (True, d')" and "out \<noteq> []" and "image_size env src = Some (w, h)"
  shows "paths_of d' = paths_of d \<union> (\<lambda>v. path_key out @ [vs_name v @ ''.webp'']) ` {v \<in> set variants. vs_size v < max w h}"
  using assms variant_name
  by (intro generate_each_paths) (auto simp: generateAllVariants_def load_image_def split: option.splits if_splits)

text \<open>Moving the temporary directory into the place that was cleared.\<close>

lemma moved_below:
  assumes "length k = length t" and "t \<noteq> k" and "\<forall>q \<in> P. \<not> prefix t q"
  shows "{q \<in> (\<lambda>q. if prefix t q then k @ drop (length t) q else q)
      ` {q \<in> insert t P \<union> (\<lambda>v. t @ [f v]) ` V. \<not> prefix k q}. strict_prefix k q} = (\<lambda>v. k @ [f v]) ` V" (is "?L = ?R")
proof
  have apart: "\<not> prefix k (t @ e)" for e
    using assms(1,2) by (metis append_eq_append_conv prefix_def)
  show "?L \<subseteq> ?R"
  proof
    fix q assume "q \<in> ?L"
    then obtain q0 where q0: "q0 \<in> insert t P \<union> (\<lambda>v. t @ [f v]) ` V" "\<not> prefix k q0"
      and q: "q = (if prefix t q0 then k @ drop (length t) q0 else q0)" "strict_prefix k q" by blast
    have "prefix t q0" using q q0(2) by (cases "prefix t q0") (auto simp: strict_prefix_def)
    then have "q0 = t \<or> q0 \<in> (\<lambda>v. t @ [f v]) ` V" using q0(1) assms(3) by blast
    then show "q \<in> ?R" using q \<open>prefix t q0\<close> by auto
  qed
  show "?R \<subseteq> ?L"
  proof
    fix q assume "q \<in> ?R"
    then obtain v where v: "v \<in> V" "q = k @ [f v]" by blast
    then have "q = (if prefix t (t @ [f v]) then k @ drop (length t) (t @ [f v]) else t @ [f v])" by simp
    moreover have "t @ [f v] \<in> {q \<in> insert t P \<union> (\<lambda>v. t @ [f v]) ` V. \<not> prefix k q}" using v apart by auto
    moreover have "strict_prefix k q" using v by (simp add: strict_prefix_def)
    ultimately show "q \<in> ?L" by blast
  qed
qed

lemma thumb_is_written:
  "k @ [''thumb.webp''] \<in> (\<lambda>v. k @ [vs_name v @ ''.webp'']) ` {v \<in> set variants. vs_size v < e} \<longleftrightarrow> 400 < e"
proof -
  have "k @ [''thumb.webp''] \<in> (\<lambda>v. k @ [vs_name v @ ''.webp'']) ` {v \<in> set variants. vs_size v < e}
      \<longleftrightarrow> list_ex (\<lambda>v. vs_size v < e \<and> vs_name v @ ''.webp'' = ''thumb.webp'') variants"
    by (simp add: image_iff list_ex_iff eq_commute [of "''thumb.webp''"]) blast
  then show ?thesis by (simp add: variants_def)
qed

text \<open>C18: When the variants of a photo have been generated, the directory of the item holds exactly the
  variants smaller than the photo, whatever it held before - deep zoom tiles are gone with it. The
  sentinel \<open>VariantsExist\<close> looks for is among them only for a photo of more than 400 pixels: the
  variants of a smaller one never count as present, and every scan generates them again.\<close>

theorem generated_variants:
  assumes run: "GenerateItemVariants env src base hash d = Some (True, d')"
    and hash: "hex_hash hash" and base: "base \<noteq> []" and temp: "path_name (temp_dir env)" "temp_dir env \<noteq> drop 4 hash"
    and img: "image_size env src = Some (w, h)"
  shows "{q \<in> paths_of d'. strict_prefix (item_key base hash) q}
      = (\<lambda>v. item_key base hash @ [vs_name v @ ''.webp'']) ` {v \<in> set variants. vs_size v < max w h}
    \<and> VariantsExist base hash d' = Some (400 < max w h)"
proof -
  obtain final d1 tmp d2 d3 d4 where final: "ItemDataPath base hash = Some final"
    and d2: "os_MkdirTemp env (filepath_Dir final) d1 = Some (tmp, d2)" and d3: "generateAllVariants env src tmp d2 = (True, d3)"
    and d4: "os_RemoveAll (disk_env.truncate env) final d3 = (True, d4)"
    and d5: "os_RenameDir (disk_env.truncate env) tmp final d4 = (True, d')"
    using run by (rule GenerateItemVariants_steps)
  define k where "k = item_key base hash"
  define t where "t = path_key tmp"
  have k: "path_key final = k" "path_key (filepath_Dir final) = butlast k"
    using ItemDataPath_key [OF base hash final] ItemDataPath_dir_key [OF base hash final] by (simp_all add: k_def)
  have kk: "k = butlast k @ [drop 4 hash]" "butlast k \<noteq> []" by (simp_all add: k_def item_key_def butlast_append)
  have "filepath_Dir final \<noteq> []" using k kk path_not_Nil by metis
  note tmp = MkdirTemp_cases [OF d2 this temp(1)]
  have t: "t = butlast k @ [temp_dir env]" using tmp(1) k by (simp add: t_def)
  have apart: "length k = length t" "t \<noteq> k"
    using t kk temp(2) by (metis length_append_singleton, metis append1_eq_conv)
  have fresh: "\<forall>q \<in> paths_of d1. \<not> prefix t q" using tmp(3) by (simp add: t_def)
  have "tmp \<noteq> []" using t path_not_Nil [of tmp] by (simp add: t_def)
  have "paths_of d3 = insert t (paths_of d1) \<union> (\<lambda>v. t @ [vs_name v @ ''.webp'']) ` {v \<in> set variants. vs_size v < max w h}"
    using generateAllVariants_paths [OF d3 \<open>tmp \<noteq> []\<close> img] tmp(2) by (simp add: t_def)
  then have below: "{q \<in> paths_of d'. strict_prefix k q} = (\<lambda>v. k @ [vs_name v @ ''.webp'']) ` {v \<in> set variants. vs_size v < max w h}"
    using moved_below [OF apart fresh, of "\<lambda>v. vs_name v @ ''.webp''" "{v \<in> set variants. vs_size v < max w h}"]
      paths_RenameDir [OF d5] paths_RemoveAll [OF d4] k(1) by (simp only: t_def [symmetric])
  have "path_key (path_join [final, ''thumb.webp'']) = k @ [''thumb.webp'']"
    using path_key_join [of final "[''thumb.webp'']"] k(1) path_not_Nil [of final] by (auto simp: k_def item_key_def)
  then have "VariantsExist base hash d' = Some (k @ [''thumb.webp''] \<in> paths_of d')"
    using final by (simp add: VariantsExist_def VariantPath_def file_exists_iff)
  moreover have "k @ [''thumb.webp''] \<in> {q \<in> paths_of d'. strict_prefix k q} \<longleftrightarrow> 400 < max w h"
    unfolding below by (rule thumb_is_written)
  then have "k @ [''thumb.webp''] \<in> paths_of d' \<longleftrightarrow> 400 < max w h" by (simp add: strict_prefix_def)
  ultimately have "VariantsExist base hash d' = Some (400 < max w h)" by (simp only:)
  then show ?thesis using below unfolding k_def by (rule conjI [rotated])
qed

text \<open>A run that shows it: a photo of 1000 by 600 pixels, whose item had tiles.\<close>

definition demo_image_env :: image_env where
  "demo_image_env = \<lparr> denied = (\<lambda>_. False), unreadable = (\<lambda>_. False), write_outcome = (\<lambda>_. Written),
     image_size = (\<lambda>_. Some (1000, 600)), bytes_size = (\<lambda>_. None), encode_ok = (\<lambda>_. True), dzsave_ok = (\<lambda>_. True),
     temp_dir = ''.bokeh-item-7'', frame_at = (\<lambda>_ _. []) \<rparr>"

definition demo_disk :: disk where
  "demo_disk =
     [\<lparr> n_path = [''/''], n_dir = True \<rparr>, \<lparr> n_path = [''/'', ''p.jpg''], n_dir = False \<rparr>,
      \<lparr> n_path = [''/'', ''d''], n_dir = True \<rparr>, \<lparr> n_path = [''/'', ''d'', ''derived_media''], n_dir = True \<rparr>,
      \<lparr> n_path = [''/'', ''d'', ''derived_media'', ''ab''], n_dir = True \<rparr>,
      \<lparr> n_path = [''/'', ''d'', ''derived_media'', ''ab'', ''cd''], n_dir = True \<rparr>,
      \<lparr> n_path = [''/'', ''d'', ''derived_media'', ''ab'', ''cd'', ''ef''], n_dir = True \<rparr>,
      \<lparr> n_path = [''/'', ''d'', ''derived_media'', ''ab'', ''cd'', ''ef'', ''tiles''], n_dir = True \<rparr>]"

lemma demo_generated: "fst (the (GenerateItemVariants demo_image_env ''/p.jpg'' ''/d'' ''abcdef'' demo_disk))"
  by code_simp

theorem generated_variants_witness:
  "{q \<in> paths_of (snd (the (GenerateItemVariants demo_image_env ''/p.jpg'' ''/d'' ''abcdef'' demo_disk))).
      strict_prefix (item_key ''/d'' ''abcdef'') q}
      = (\<lambda>v. item_key ''/d'' ''abcdef'' @ [vs_name v @ ''.webp'']) ` {v \<in> set variants. vs_size v < max 1000 600}
    \<and> VariantsExist ''/d'' ''abcdef'' (snd (the (GenerateItemVariants demo_image_env ''/p.jpg'' ''/d'' ''abcdef'' demo_disk)))
        = Some (400 < max 1000 (600 :: int))"
proof (rule generated_variants)
  have "GenerateItemVariants demo_image_env ''/p.jpg'' ''/d'' ''abcdef'' demo_disk \<noteq> None"
    by (simp add: GenerateItemVariants_def ItemDataPath_def)
  then show "GenerateItemVariants demo_image_env ''/p.jpg'' ''/d'' ''abcdef'' demo_disk
      = Some (True, snd (the (GenerateItemVariants demo_image_env ''/p.jpg'' ''/d'' ''abcdef'' demo_disk)))"
    using demo_generated by (auto simp: prod_eq_iff)
qed (simp_all add: hex_hash_def hex_char_def is_digit_def path_name_def demo_image_env_def)

end
