(* ===== verification/TimeFormat.thy ===== *)
theory TimeFormat
  imports DateLabels
begin

text \<open>
  The part of package \<open>time\<close> of the standard library that \<open>internal/jobs/utils/exifutil.go\<close> and
  \<open>internal/jobs/definitions\<close> use: the layouts \<open>2006:01:02 15:04:05\<close>, the same with \<open>-07:00\<close>
  behind it, \<open>-07:00\<close> alone, and \<open>Format("2006.01.02")\<close>. An instant is the number of
  nanoseconds since 1970; days are counted from the first of January of the year 1.
\<close>

section \<open>The calendar\<close>

definition is_leap :: "int \<Rightarrow> bool" where
  "is_leap y \<longleftrightarrow> y mod 4 = 0 \<and> (y mod 100 \<noteq> 0 \<or> y mod 400 = 0)"

definition days_before_year :: "int \<Rightarrow> int" where
  "days_before_year y = 365 * (y - 1) + (y - 1) div 4 - (y - 1) div 100 + (y - 1) div 400"

definition month_lengths :: "int \<Rightarrow> int list" where
  "month_lengths y = [31, if is_leap y then 29 else 28, 31, 30, 31, 30, 31, 31, 30, 31, 30, 31]"

definition days_in_month :: "int \<Rightarrow> int \<Rightarrow> int" where
  "days_in_month y m = month_lengths y ! nat (m - 1)"

definition days_of_civil :: "int \<Rightarrow> int \<Rightarrow> int \<Rightarrow> int" where
  "days_of_civil y m d = days_before_year y + sum_list (take (nat (m - 1)) (month_lengths y)) + d - 1"

definition unix_epoch_days :: int where
  "unix_epoch_days = 719162"

text \<open>The year a day falls into, searched from a year before it, and its month and day.\<close>

lemma div_pred:
  assumes "1 < (k :: int)"
  shows "y div k = (y - 1) div k + (if y mod k = 0 then 1 else 0)"
proof -
  define r where "r = (y - 1) mod k"
  have r: "0 \<le> r" "r < k" using assms by (simp_all add: r_def)
  have "y div k = (y - 1) div k + (r + 1) div k"
    using div_add1_eq [of "y - 1" 1 k] assms by (simp add: r_def)
  moreover have "y mod k = (r + 1) mod k" using mod_add_left_eq [of "y - 1" k 1] by (simp add: r_def)
  moreover have "(r + 1) div k = (if r + 1 = k then 1 else 0) \<and> ((r + 1) mod k = 0 \<longleftrightarrow> r + 1 = k)"
  proof (cases "r + 1 = k")
    case False
    then have "r + 1 < k" using r by simp
    then show ?thesis using r False by (simp add: div_pos_pos_trivial mod_pos_pos_trivial)
  qed (use assms in simp)
  ultimately show ?thesis by simp
qed

lemma leap_sum:
  fixes a4 b4 :: int
  assumes "a4 = b4 + (if P then 1 else 0)" "a100 = b100 + (if Q then 1 else 0)" "a400 = b400 + (if R then 1 else 0)"
    and "R \<Longrightarrow> Q" "Q \<Longrightarrow> P"
  shows "365 * y + a4 - a100 + a400
    = 365 * (y - 1) + b4 - b100 + b400 + (if P \<and> (\<not> Q \<or> R) then 366 else 365)"
  using assms by (cases P; cases Q; cases R) simp_all

lemma mod_400_100: "(y :: int) mod 400 = 0 \<Longrightarrow> y mod 100 = 0"
  by (auto simp: dvd_eq_mod_eq_0 [symmetric] elim!: dvd_trans [rotated])

lemma mod_100_4: "(y :: int) mod 100 = 0 \<Longrightarrow> y mod 4 = 0"
  by (auto simp: dvd_eq_mod_eq_0 [symmetric] elim!: dvd_trans [rotated])

lemma leap_step: "days_before_year (y + 1) = days_before_year y + (if is_leap y then 366 else 365)"
  unfolding days_before_year_def is_leap_def add_diff_cancel_right'
  by (rule leap_sum [OF div_pred div_pred div_pred mod_400_100 mod_100_4]) simp_all

lemma days_before_mono: "days_before_year a \<le> days_before_year (a + int k)"
proof (induction k)
  case (Suc k)
  have "days_before_year (a + int k + 1) = days_before_year (a + int k) + (if is_leap (a + int k) then 366 else 365)"
    by (rule leap_step)
  then show ?case using Suc by (simp add: add.commute [of 1] add.assoc [symmetric] split: if_splits)
qed simp

function year_from :: "int \<Rightarrow> int \<Rightarrow> int" where
  "year_from z y = (if days_before_year (y + 1) \<le> z then year_from z (y + 1) else y)"
  by pat_completeness auto
termination
  by (relation "measure (\<lambda>(z, y). nat (z - days_before_year y))") (auto simp: leap_step split: if_splits)

declare year_from.simps [simp del]

fun month_from :: "int list \<Rightarrow> int \<Rightarrow> int \<Rightarrow> int \<times> int" where
  "month_from [] m d = (m, d + 1)"
| "month_from (l # ls) m d = (if d < l then (m, d + 1) else month_from ls (m + 1) (d - l))"

definition civil_of_days :: "int \<Rightarrow> int \<times> int \<times> int" where
  "civil_of_days z = (let y = year_from z (z div 366) in (y, month_from (month_lengths y) 1 (z - days_before_year y)))"

section \<open>Parsing\<close>

definition is_year :: "string \<Rightarrow> bool" where
  "is_year s \<longleftrightarrow> 4 \<le> length s \<and> list_all is_digit (take 4 s)"

text \<open>\<open>getnum\<close>: two digits, or one where the layout allows it.\<close>

definition getnum :: "bool \<Rightarrow> string \<Rightarrow> (int \<times> string) option" where
  "getnum fixed s = (case s of
       [] \<Rightarrow> None
     | a # r \<Rightarrow>
         if \<not> is_digit a then None
         else case r of
           b # r' \<Rightarrow> if is_digit b then Some (int (10 * digit_val a + digit_val b), r')
                     else if fixed then None else Some (int (digit_val a), r)
         | [] \<Rightarrow> if fixed then None else Some (int (digit_val a), []))"

definition in_range :: "int \<Rightarrow> int \<Rightarrow> int \<Rightarrow> unit option" where
  "in_range lo hi x = (if lo \<le> x \<and> x \<le> hi then Some () else None)"

text \<open>A space of the layout stands for one space or more, and for the end of the value.\<close>

definition skip_space :: "string \<Rightarrow> string option" where
  "skip_space s = (if s \<noteq> [] \<and> hd s \<noteq> CHR '' '' then None else Some (dropWhile (\<lambda>c. c = CHR '' '') s))"

text \<open>A fraction behind the seconds, which the layout does not name: at most nine digits count.\<close>

definition fraction :: "string \<Rightarrow> int \<times> string" where
  "fraction s = (case s of
       c # d # r \<Rightarrow>
         if (c = CHR ''.'' \<or> c = CHR '','') \<and> is_digit d then
           let ds = take 9 (takeWhile is_digit (d # r)) in
           (int (dec_value 0 ds * 10 ^ (9 - length ds)), dropWhile is_digit (d # r))
         else (0, s)
     | _ \<Rightarrow> (0, s))"

text \<open>\<open>2006:01:02 15:04:05\<close>: the date and the time of day in nanoseconds, and what is left.\<close>

definition parse_date :: "string \<Rightarrow> ((int \<times> int \<times> int) \<times> string) option" where
  "parse_date s = do {
     s0 \<leftarrow> (if is_year s then Some (drop 4 s) else None);
     s1 \<leftarrow> literal (CHR '':'') s0;
     (m, s2) \<leftarrow> getnum True s1;
     in_range 1 12 m;
     s3 \<leftarrow> literal (CHR '':'') s2;
     (d, s4) \<leftarrow> getnum True s3;
     Some ((int (dec_value 0 (take 4 s)), m, d), s4) }"

definition parse_clock :: "string \<Rightarrow> (int \<times> string) option" where
  "parse_clock s = do {
     (h, s1) \<leftarrow> getnum False s;
     in_range 0 23 h;
     s2 \<leftarrow> literal (CHR '':'') s1;
     (mi, s3) \<leftarrow> getnum True s2;
     in_range 0 59 mi;
     s4 \<leftarrow> literal (CHR '':'') s3;
     (sec, s5) \<leftarrow> getnum True s4;
     in_range 0 59 sec;
     let (ns, s6) = fraction s5;
     Some (h * hour + mi * minute + sec * second + ns, s6) }"

definition parse_wall :: "string \<Rightarrow> (time \<times> string) option" where
  "parse_wall s = do {
     ((y, m, d), s1) \<leftarrow> parse_date s;
     s2 \<leftarrow> skip_space s1;
     (t, s3) \<leftarrow> parse_clock s2;
     in_range 1 (days_in_month y m) d;
     Some ((days_of_civil y m d - unix_epoch_days) * 24 * hour + t, s3) }"

text \<open>\<open>-07:00\<close>, in seconds.\<close>

definition parse_offset :: "string \<Rightarrow> (int \<times> string) option" where
  "parse_offset s =
     (if length s < 6 \<or> s ! 3 \<noteq> CHR '':'' then None
      else do {
        (h, _) \<leftarrow> getnum True (take 2 (drop 1 s));
        (m, _) \<leftarrow> getnum True (take 2 (drop 4 s));
        in_range 0 24 h;
        in_range 0 60 m;
        if hd s = CHR ''+'' then Some ((h * 60 + m) * 60, drop 6 s)
        else if hd s = CHR ''-'' then Some (- ((h * 60 + m) * 60), drop 6 s)
        else None })"

text \<open>\<open>time.Parse("2006:01:02 15:04:05-07:00", s)\<close>, \<open>time.Parse("-07:00", s)\<close> and
  \<open>time.ParseInLocation("2006:01:02 15:04:05", s, loc)\<close> for a zone of so many seconds.\<close>

definition time_Parse_zoned :: "string \<Rightarrow> time option" where
  "time_Parse_zoned s = do {
     (t, s1) \<leftarrow> parse_wall s;
     (off, s2) \<leftarrow> parse_offset s1;
     if s2 = [] then Some (t - off * second) else None }"

definition time_Parse_offset :: "string \<Rightarrow> int option" where
  "time_Parse_offset s = do { (off, s1) \<leftarrow> parse_offset s; if s1 = [] then Some off else None }"

definition time_ParseInLocation :: "string \<Rightarrow> int \<Rightarrow> time option" where
  "time_ParseInLocation s zone = do {
     (t, s1) \<leftarrow> parse_wall s;
     if s1 = [] then Some (t - zone * second) else None }"

section \<open>Formatting\<close>

definition format_date :: "time \<Rightarrow> string" where
  "format_date t =
     (let (y, m, d) = civil_of_days (t div (24 * hour) + unix_epoch_days) in
      sprintf_0d 4 y @ ''.'' @ sprintf_0d 2 m @ ''.'' @ sprintf_0d 2 d)"

section \<open>The days of the calendar and back\<close>

lemma year_from_finds:
  assumes "y0 \<le> y" and "days_before_year y \<le> z" and "z < days_before_year (y + 1)"
  shows "year_from z y0 = y"
  using assms(1)
proof (induction "nat (y - y0)" arbitrary: y0)
  case 0
  then show ?case using assms(3) by (simp add: year_from.simps)
next
  case (Suc n)
  then have "y0 + 1 \<le> y" by linarith
  then have "days_before_year (y0 + 1) \<le> z"
    using assms(2) days_before_mono [of "y0 + 1" "nat (y - (y0 + 1))"] by simp
  then have "year_from z y0 = year_from z (y0 + 1)" by (simp add: year_from.simps [of z y0])
  moreover have "n = nat (y - (y0 + 1))" using Suc(2) by simp
  ultimately show ?case using Suc(1) [of "y0 + 1"] \<open>y0 + 1 \<le> y\<close> by simp
qed

lemma month_from_finds:
  assumes "i < length ls" and "\<forall>l \<in> set ls. 0 < l" and "0 \<le> d" and "d < ls ! i"
  shows "month_from ls m (sum_list (take i ls) + d) = (m + int i, d + 1)"
  using assms
proof (induction ls arbitrary: i m)
  case (Cons l ls)
  show ?case
  proof (cases i)
    case 0
    then show ?thesis using Cons.prems by simp
  next
    case (Suc j)
    have "0 \<le> sum_list (take j ls)"
      using Cons.prems(2) by (intro sum_list_nonneg) (auto dest!: in_set_takeD intro: order_less_imp_le)
    then show ?thesis using Cons.IH [of j "m + 1"] Cons.prems Suc by (simp add: algebra_simps)
  qed
qed simp

lemma month_lengths_pos: "l \<in> set (month_lengths y) \<Longrightarrow> 0 < l"
  by (auto simp: month_lengths_def split: if_splits)

lemma days_in_year: "sum_list (month_lengths y) = (if is_leap y then 366 else 365)"
  by (simp add: month_lengths_def)

lemma civil_of_days_of_civil:
  assumes "1 \<le> y" and "1 \<le> m" "m \<le> 12" and "1 \<le> d" "d \<le> days_in_month y m"
  shows "civil_of_days (days_of_civil y m d) = (y, m, d)"
proof -
  define i where "i = nat (m - 1)"
  define ls where "ls = month_lengths y"
  define z where "z = days_of_civil y m d"
  have i: "i < length ls" "int i = m - 1" using assms by (auto simp: i_def ls_def month_lengths_def)
  have pos: "\<forall>l \<in> set ls. 0 < l" using month_lengths_pos by (auto simp: ls_def)
  have d: "0 \<le> d - 1" "d - 1 < ls ! i" using assms by (simp_all add: days_in_month_def i_def ls_def)
  have z: "z = days_before_year y + (sum_list (take i ls) + (d - 1))" by (simp add: z_def days_of_civil_def i_def ls_def)
  have "sum_list ls = sum_list (take i ls) + (ls ! i + sum_list (drop (Suc i) ls))"
    using i(1) by (metis id_take_nth_drop sum_list.append sum_list.Cons)
  moreover have "0 \<le> sum_list (drop (Suc i) ls)" "0 \<le> sum_list (take i ls)"
    using pos by (auto intro!: sum_list_nonneg dest!: in_set_takeD in_set_dropD intro: order_less_imp_le)
  ultimately have within: "days_before_year y \<le> z \<and> z < days_before_year (y + 1)"
    using z d leap_step [of y] days_in_year [of y] by (auto simp: ls_def)
  have "z div 366 \<le> y"
  proof -
    have "y div 4 \<le> y" using assms(1) by linarith
    moreover have "y div 400 \<le> y div 100" using assms(1) zdiv_mono2 [of y 100 400] by simp
    moreover have "days_before_year (y + 1) = 365 * y + y div 4 - y div 100 + y div 400"
      by (simp only: days_before_year_def add_diff_cancel_right')
    ultimately have "days_before_year (y + 1) \<le> 366 * y" by linarith
    then have "z < 366 * (y + 1)" using within by simp
    moreover have "z div 366 * 366 \<le> z" using pos_mod_sign [of 366 z] div_mult_mod_eq [of z 366] by linarith
    ultimately have "z div 366 * 366 < (y + 1) * 366" by (simp only: mult.commute [of 366])
    then have "z div 366 < y + 1" by (rule mult_right_less_imp_less) simp
    then show ?thesis by (simp only: zless_add1_eq order_le_less)
  qed
  then have "year_from z (z div 366) = y" using within by (intro year_from_finds) auto
  moreover have "month_from ls 1 (sum_list (take i ls) + (d - 1)) = (m, d)"
    using month_from_finds [OF i(1) pos d, of 1] i(2) by simp
  ultimately show ?thesis using z by (simp add: civil_of_days_def Let_def z_def ls_def)
qed

end
