(* ===== verification/Exif.thy ===== *)
theory Exif
  imports TimeFormat Complex_Main
begin

text \<open>
  \<open>internal/jobs/utils/exifutil.go\<close> (the field helpers) and the parsers of
  \<open>internal/jobs/definitions/metadata_scan_common.go\<close>, \<open>scan_video.go\<close> and \<open>scan_photo.go\<close>: typed
  values out of the JSON exiftool prints. A number of the JSON, at most fifteen digits long, is
  \<open>ENum m k\<close> for m divided by 10 to the k, and a \<open>float64\<close> is the rational number it stands for:
  rounding is not modelled. The spellings of infinities, of NaN and of hexadecimal floats are
  left out of \<open>ParseFloat\<close>.
\<close>

section \<open>Values\<close>

datatype exif_value =
    ENull
  | EStr string
  | ENum int nat
  | EBool bool
  | EList "exif_value list"
  | EObj string               \<comment> \<open>a structure, as \<open>%v\<close> prints it\<close>

type_synonym exif = "string \<Rightarrow> exif_value option"

definition num_value :: "int \<Rightarrow> nat \<Rightarrow> rat" where
  "num_value m k = of_int m / 10 ^ k"

text \<open>\<open>int(f)\<close>: towards zero; beyond 64 bits it is the least integer, as on amd64.\<close>

definition int_of_float :: "rat \<Rightarrow> int" where
  "int_of_float x = (let i = (if 0 \<le> x then \<lfloor>x\<rfloor> else \<lceil>x\<rceil>) in if in_i64 i then i else - (2 ^ 63))"

section \<open>\<open>%v\<close> of a float\<close>

text \<open>The significant digits without zeros at the end; the point stands behind \<open>dp\<close> of them.\<close>

definition significant :: "int \<Rightarrow> string" where
  "significant m = rev (dropWhile (\<lambda>c. c = CHR ''0'') (rev (nat_dec (nat \<bar>m\<bar>))))"

definition exponent_text :: "int \<Rightarrow> string" where
  "exponent_text e = ''e'' @ (if e < 0 then ''-'' else ''+'') @ pad_zeros 2 (nat_dec (nat \<bar>e\<bar>))"

definition float_text :: "int \<Rightarrow> nat \<Rightarrow> string" where
  "float_text m k =
     (if m = 0 then ''0''
      else
        let ds = significant m; dp = int (length (nat_dec (nat \<bar>m\<bar>))) - int k; nd = length ds in
        (if m < 0 then ''-'' else []) @
        (if dp - 1 < - 4 \<or> dp - 1 \<ge> 6 then
           [hd ds] @ (if nd > 1 then CHR ''.'' # tl ds else []) @ exponent_text (dp - 1)
         else if dp \<le> 0 then ''0.'' @ replicate (nat (- dp)) (CHR ''0'') @ ds
         else if int nd \<le> dp then ds @ replicate (nat dp - nd) (CHR ''0'')
         else take (nat dp) ds @ ''.'' @ drop (nat dp) ds))"

fun value_text :: "exif_value \<Rightarrow> string" where
  "value_text ENull = ''<nil>''"
| "value_text (EStr s) = s"
| "value_text (ENum m k) = float_text m k"
| "value_text (EBool b) = (if b then ''true'' else ''false'')"
| "value_text (EObj s) = s"
| "value_text (EList vs) = ''['' @ concat (case map value_text vs of [] \<Rightarrow> [] | t # ts \<Rightarrow> t # map (\<lambda>u. CHR '' '' # u) ts) @ '']''"

section \<open>\<open>strconv.ParseFloat\<close>\<close>

fun split_sign :: "string \<Rightarrow> bool \<times> string" where
  "split_sign [] = (False, [])"
| "split_sign (c # s) = (if c = CHR ''-'' then (True, s) else if c = CHR ''+'' then (False, s) else (False, c # s))"

definition parse_exponent :: "string \<Rightarrow> int option" where
  "parse_exponent s =
     (case s of
        [] \<Rightarrow> Some 0
      | c # r \<Rightarrow>
          if c \<noteq> CHR ''e'' \<and> c \<noteq> CHR ''E'' then None
          else let (neg, ds) = split_sign r in
            if ds = [] \<or> \<not> list_all is_digit ds then None
            else Some (if neg then - int (dec_value 0 ds) else int (dec_value 0 ds)))"

text \<open>A value that rounds to more than the largest \<open>float64\<close> is a range error.\<close>

definition strconv_ParseFloat :: "string \<Rightarrow> rat option" where
  "strconv_ParseFloat s =
     (let (neg, r) = split_sign s; ip = takeWhile is_digit r; r1 = dropWhile is_digit r;
          (fp, r2) = (case r1 of c # q \<Rightarrow> if c = CHR ''.'' then (takeWhile is_digit q, dropWhile is_digit q) else ([], r1)
                               | [] \<Rightarrow> ([], []))
      in if ip @ fp = [] then None
         else case parse_exponent r2 of
           None \<Rightarrow> None
         | Some e \<Rightarrow>
             let m = int (dec_value 0 (ip @ fp)); x = e - int (length fp);
                 v = (if 0 \<le> x then of_int (m * 10 ^ nat x) else of_int m / 10 ^ nat (- x)) in
             if v \<ge> 2 ^ 1024 - 2 ^ 970 then None else Some (if neg then - v else v))"

section \<open>Fields\<close>

text \<open>A field that is missing or null is None everywhere.\<close>

definition field :: "exif \<Rightarrow> string \<Rightarrow> exif_value option" where
  "field m key = (case m key of None \<Rightarrow> None | Some v \<Rightarrow> if v = ENull then None else Some v)"

definition ExifStr :: "exif \<Rightarrow> string \<Rightarrow> string option" where
  "ExifStr m key = map_option value_text (field m key)"

definition ExifInt :: "exif \<Rightarrow> string \<Rightarrow> int option" where
  "ExifInt m key = (case field m key of
       Some (ENum n k) \<Rightarrow> Some (int_of_float (num_value n k))
     | Some (EStr s) \<Rightarrow> (case strconv_Atoi s of (i, None) \<Rightarrow> Some i | (_, Some _) \<Rightarrow> None)
     | _ \<Rightarrow> None)"

definition ExifFloat :: "exif \<Rightarrow> string \<Rightarrow> rat option" where
  "ExifFloat m key = (case field m key of
       Some (ENum n k) \<Rightarrow> Some (num_value n k)
     | Some (EStr s) \<Rightarrow> strconv_ParseFloat s
     | _ \<Rightarrow> None)"

definition ExifStrArray :: "exif \<Rightarrow> string \<Rightarrow> string list" where
  "ExifStrArray m key = (case field m key of
       Some (EList vs) \<Rightarrow> filter (\<lambda>s. s \<noteq> []) (map (\<lambda>v. trim_space (value_text v)) (filter (\<lambda>v. v \<noteq> ENull) vs))
     | Some (EStr s) \<Rightarrow> (let t = trim_space s in if t = [] then [] else [t])
     | _ \<Rightarrow> [])"

definition str_field :: "exif \<Rightarrow> string \<Rightarrow> string option" where
  "str_field m key = (case field m key of Some (EStr s) \<Rightarrow> Some s | _ \<Rightarrow> None)"

definition ExifTime :: "exif \<Rightarrow> string \<Rightarrow> time option" where
  "ExifTime m key = (case str_field m key of None \<Rightarrow> None | Some s \<Rightarrow> time_ParseInLocation s 0)"

definition ExifTimeWithOffset :: "exif \<Rightarrow> string \<Rightarrow> string \<Rightarrow> time option" where
  "ExifTimeWithOffset m dateKey offsetKey =
     (case str_field m dateKey of
        None \<Rightarrow> None
      | Some s \<Rightarrow>
          (case time_Parse_zoned s of
             Some t \<Rightarrow> Some t
           | None \<Rightarrow>
               let zone = (if offsetKey = [] then None
                           else case str_field m offsetKey of None \<Rightarrow> None | Some z \<Rightarrow> time_Parse_offset z) in
               time_ParseInLocation s (case zone of None \<Rightarrow> 0 | Some secs \<Rightarrow> secs)))"

section \<open>The parsers of the scans\<close>

fun split_char :: "char \<Rightarrow> string \<Rightarrow> string list" where
  "split_char d [] = [[]]"
| "split_char d (c # s) =
     (if c = d then [] # split_char d s
      else case split_char d s of [] \<Rightarrow> [[c]] | e # es \<Rightarrow> (c # e) # es)"

text \<open>\<open>int16(n)\<close> keeps the low sixteen bits.\<close>

definition parseTrackNumber :: "string \<Rightarrow> int option" where
  "parseTrackNumber s =
     (let s = takeWhile (\<lambda>c. c \<noteq> CHR ''/'') (trim_space s) in
      case strconv_Atoi (trim_space s) of
        (n, None) \<Rightarrow> if n < 0 then None else Some (wrap16 n)
      | (_, Some _) \<Rightarrow> None)"

fun clock_total :: "string list \<Rightarrow> rat \<Rightarrow> rat option" where
  "clock_total [] acc = Some acc"
| "clock_total (p # ps) acc =
     (case strconv_ParseFloat (trim_space p) of
        None \<Rightarrow> None
      | Some f \<Rightarrow> clock_total ps (acc + f * 60 ^ length ps))"

text \<open>\<open>H:MM:SS\<close> or \<open>M:SS\<close>.\<close>

definition clock_duration :: "string \<Rightarrow> rat option" where
  "clock_duration s =
     (let parts = split_char (CHR '':'') s in
      if length parts < 2 \<or> length parts > 3 then None
      else case clock_total parts 0 of None \<Rightarrow> None | Some t \<Rightarrow> if t > 0 then Some t else None)"

definition parseDurationString :: "string \<Rightarrow> rat option" where
  "parseDurationString s =
     (let s = trim_space (trim_suffix (trim_suffix (trim_space s) '' s'') '' sec'') in
      case strconv_ParseFloat s of
        Some f \<Rightarrow> if f > 0 then Some f else clock_duration s
      | None \<Rightarrow> clock_duration s)"

definition parseDuration :: "exif \<Rightarrow> rat option" where
  "parseDuration m = (case field m ''Duration'' of
       Some (ENum n k) \<Rightarrow> if num_value n k > 0 then Some (num_value n k) else None
     | Some (EStr s) \<Rightarrow> parseDurationString s
     | _ \<Rightarrow> None)"

definition atoi_option :: "string \<Rightarrow> int option" where
  "atoi_option s = (case strconv_Atoi s of (n, None) \<Rightarrow> Some n | (_, Some _) \<Rightarrow> None)"

definition parseVideoBitrate :: "exif \<Rightarrow> int option" where
  "parseVideoBitrate m =
     (case str_field m ''AvgBitrate'' of
        None \<Rightarrow> None
      | Some s \<Rightarrow>
          let s = trim_space s in
          if has_suffix s '' Mbps'' then map_option (\<lambda>f. int_of_float (f * 1000)) (strconv_ParseFloat (trim_suffix s '' Mbps''))
          else if has_suffix s '' kbps'' then atoi_option (trim_suffix s '' kbps'')
          else if has_suffix s '' bps'' then map_option (\<lambda>n. go_div n 1000) (atoi_option (trim_suffix s '' bps''))
          else atoi_option s)"

text \<open>\<open>mod_time\<close> is the modification time of the file, when it can be read.\<close>

definition file_date :: "exif \<Rightarrow> string \<Rightarrow> time option" where
  "file_date m key = (case str_field m key of None \<Rightarrow> None | Some s \<Rightarrow> time_Parse_zoned s)"

definition earliest :: "time option list \<Rightarrow> time option" where
  "earliest ts = foldl (\<lambda>e t. case t of None \<Rightarrow> e
     | Some t \<Rightarrow> (case e of None \<Rightarrow> Some t | Some e' \<Rightarrow> if t < e' then Some t else Some e')) None ts"

definition createdAt :: "time option \<Rightarrow> exif \<Rightarrow> time option" where
  "createdAt mod_time m =
     (case ExifTimeWithOffset m ''DateTimeOriginal'' ''OffsetTimeOriginal'' of
        Some t \<Rightarrow> Some t
      | None \<Rightarrow>
          (case ExifTimeWithOffset m ''CreateDate'' ''OffsetTimeDigitized'' of
             Some t \<Rightarrow> Some t
           | None \<Rightarrow>
               (case ExifTimeWithOffset m ''ContentCreateDate'' [] of
                  Some t \<Rightarrow> Some t
                | None \<Rightarrow> earliest [file_date m ''FileCreateDate'', file_date m ''FileModifyDate'', mod_time])))"

text \<open>\<open>mergeKeywords\<close>: the first spelling of each keyword, in the order of the lists.\<close>

fun merge_loop :: "string list \<Rightarrow> string set \<Rightarrow> string list" where
  "merge_loop [] seen = []"
| "merge_loop (k # ks) seen =
     (if to_lower k \<in> seen then merge_loop ks seen else k # merge_loop ks (insert (to_lower k) seen))"

definition mergeKeywords :: "string list list \<Rightarrow> string list" where
  "mergeKeywords kws = merge_loop (concat kws) {}"

end
