(* ===== verification/ExifProps.thy ===== *)
theory ExifProps
  imports Exif "HOL-Library.Sublist"
begin

text \<open>
  What the readers of exiftool's fields give: instants that do not depend on where the offset is
  written, dates that print back, track numbers, keywords, and texts of numeric fields.
\<close>

section \<open>Instants\<close>

lemma literal_append: "literal c s = Some r \<Longrightarrow> literal c (s @ u) = Some (r @ u)"
  by (cases s) (simp_all split: if_splits)

lemma getnum_append: "getnum b s = Some (n, r) \<Longrightarrow> b \<or> r \<noteq> [] \<Longrightarrow> getnum b (s @ u) = Some (n, r @ u)"
  by (auto simp: getnum_def split: list.splits if_splits)

lemma dropWhile_append_left: "dropWhile P s \<noteq> [] \<Longrightarrow> dropWhile P (s @ u) = dropWhile P s @ u"
  by (induction s) auto

lemma skip_space_append:
  assumes "skip_space s = Some r" and "r \<noteq> []"
  shows "skip_space (s @ u) = Some (r @ u)"
proof -
  have r: "r = dropWhile (\<lambda>c. c = CHR '' '') s" and hd: "s \<noteq> [] \<longrightarrow> hd s = CHR '' ''"
    using assms(1) by (auto simp: skip_space_def split: if_splits)
  have "s \<noteq> []" using r assms(2) by auto
  then show ?thesis using hd r assms(2) dropWhile_append_left [of "\<lambda>c. c = CHR '' ''" s u] by (simp add: skip_space_def)
qed

definition starts_offset :: "string \<Rightarrow> bool" where
  "starts_offset u \<longleftrightarrow> u \<noteq> [] \<and> (hd u = CHR ''+'' \<or> hd u = CHR ''-'')"

lemma fraction_append:
  assumes "fraction s = (ns, [])" and "starts_offset u"
  shows "fraction (s @ u) = (ns, u)"
proof -
  obtain c u' where u: "u = c # u'" "c = CHR ''+'' \<or> c = CHR ''-''" using assms(2) by (cases u) (auto simp: starts_offset_def)
  have nd: "\<not> is_digit c" using u(2) by (auto simp: is_digit_def)
  show ?thesis
  proof (cases s)
    case Nil
    then show ?thesis using assms(1) u by (auto simp: fraction_def split: list.splits)
  next
    case (Cons a r)
    then obtain d r' where r: "r = d # r'" using assms(1) by (cases r) (simp_all add: fraction_def)
    then have f: "(a = CHR ''.'' \<or> a = CHR '','') \<and> is_digit d" and "dropWhile is_digit (d # r') = []"
      using assms(1) Cons by (simp_all add: fraction_def Let_def split: if_splits)
    then have all: "\<forall>x \<in> set (d # r'). is_digit x" by (simp only: dropWhile_eq_Nil_conv)
    have "takeWhile is_digit (d # r') = d # r'" using all by (simp only: takeWhile_eq_all_conv)
    moreover have "takeWhile is_digit (d # r' @ u) = d # r'" "dropWhile is_digit (d # r' @ u) = u"
      using all nd u(1) by (simp_all add: takeWhile_append dropWhile_append)
    ultimately have "takeWhile is_digit (d # r' @ u) = takeWhile is_digit (d # r')" "dropWhile is_digit (d # r' @ u) = u"
      by (simp_all only:)
    then show ?thesis using assms(1) f unfolding Cons r append_Cons
      by (simp only: fraction_def list.case Let_def) simp
  qed
qed

lemma parse_date_append: "parse_date s = Some (x, r) \<Longrightarrow> parse_date (s @ u) = Some (x, r @ u)"
  by (auto simp: parse_date_def is_year_def bind_eq_Some_conv literal_append getnum_append split: if_splits)

lemma parse_clock_append:
  assumes "parse_clock s = Some (t, [])" and "starts_offset u"
  shows "parse_clock (s @ u) = Some (t, u)"
proof -
  obtain h s1 s2 mi s3 s4 sec s5 where
    steps: "getnum False s = Some (h, s1)" "in_range 0 23 h = Some ()" "literal (CHR '':'') s1 = Some s2"
      "getnum True s2 = Some (mi, s3)" "in_range 0 59 mi = Some ()" "literal (CHR '':'') s3 = Some s4"
      "getnum True s4 = Some (sec, s5)" "in_range 0 59 sec = Some ()"
      and last: "(case fraction s5 of (ns, s6) \<Rightarrow> Some (h * hour + mi * minute + sec * second + ns, s6)) = Some (t, [])"
    using assms(1) by (auto simp: parse_clock_def bind_eq_Some_conv)
  obtain ns where ns: "fraction s5 = (ns, [])" "t = h * hour + mi * minute + sec * second + ns"
    using last by (cases "fraction s5") simp
  have "s1 \<noteq> []" using steps(3) by auto
  then show ?thesis
    using steps getnum_append [OF steps(1)] literal_append [OF steps(3)] getnum_append [OF steps(4)]
      literal_append [OF steps(6)] getnum_append [OF steps(7)] fraction_append [OF ns(1) assms(2)] ns(2)
    by (simp add: parse_clock_def)
qed

lemma parse_wall_append:
  assumes "parse_wall s = Some (t, [])" and "starts_offset u"
  shows "parse_wall (s @ u) = Some (t, u)"
proof -
  obtain y m d s1 s2 c where steps: "parse_date s = Some ((y, m, d), s1)" "skip_space s1 = Some s2"
    "parse_clock s2 = Some (c, [])" "in_range 1 (days_in_month y m) d = Some ()"
    "t = (days_of_civil y m d - unix_epoch_days) * 24 * hour + c"
    using assms(1) by (auto simp: parse_wall_def bind_eq_Some_conv)
  have "s2 \<noteq> []" using steps(3) by (auto simp: parse_clock_def getnum_def)
  then show ?thesis
    using steps parse_date_append [OF steps(1)] skip_space_append [OF steps(2)] parse_clock_append [OF steps(3) assms(2)]
    by (simp add: parse_wall_def)
qed

lemma parse_offset_starts: "parse_offset u = Some x \<Longrightarrow> starts_offset u"
  by (auto simp: parse_offset_def starts_offset_def bind_eq_Some_conv split: if_splits)

text \<open>An offset from UTC counts the same whether the camera wrote it into the date or into the field
  that goes with it: the instant is the time on the clock less the offset, and without one the
  clock showed UTC.\<close>

lemma offset_counts_once:
  assumes wall: "parse_wall s = Some (t, [])" and off: "time_Parse_offset z = Some secs" and key: "offsetKey \<noteq> []"
    and apart: "m dateKey = Some (EStr s)" "m offsetKey = Some (EStr z)" and joined: "m' dateKey = Some (EStr (s @ z))"
  shows "ExifTimeWithOffset m dateKey offsetKey = Some (t - secs * second)
    \<and> ExifTimeWithOffset m' dateKey offsetKey = Some (t - secs * second)
    \<and> ExifTimeWithOffset m dateKey [] = Some t"
proof -
  have z: "parse_offset z = Some (secs, [])"
    using off by (auto simp: time_Parse_offset_def bind_eq_Some_conv split: if_splits)
  have "time_Parse_zoned s = None" using wall by (simp add: time_Parse_zoned_def parse_offset_def)
  moreover have "time_Parse_zoned (s @ z) = Some (t - secs * second)"
    using parse_wall_append [OF wall parse_offset_starts [OF z]] z by (simp add: time_Parse_zoned_def)
  ultimately show ?thesis using assms
    by (simp add: ExifTimeWithOffset_def str_field_def field_def time_ParseInLocation_def)
qed

lemma offset_counts_once_witness:
  "ExifTimeWithOffset [''D'' \<mapsto> EStr ''2023:06:15 14:30:00'', ''O'' \<mapsto> EStr ''+02:00''] ''D'' ''O''
     = Some (1686839400 * second - 7200 * second)
   \<and> ExifTimeWithOffset [''D'' \<mapsto> EStr (''2023:06:15 14:30:00'' @ ''+02:00'')] ''D'' ''O''
     = Some (1686839400 * second - 7200 * second)
   \<and> ExifTimeWithOffset [''D'' \<mapsto> EStr ''2023:06:15 14:30:00'', ''O'' \<mapsto> EStr ''+02:00''] ''D'' [] = Some (1686839400 * second)"
proof (rule offset_counts_once)
  show "parse_wall ''2023:06:15 14:30:00'' = Some (1686839400 * second, [])" by code_simp
  show "time_Parse_offset ''+02:00'' = Some 7200" by code_simp
qed simp_all

section \<open>Dates that print back\<close>

lemma dec_value_zero:
  assumes "list_all is_digit ds" and "dec_value 0 ds = 0"
  shows "ds = replicate (length ds) (CHR ''0'')"
proof -
  have "\<forall>c \<in> set ds. c = CHR ''0''" using assms
  proof (induction ds rule: rev_induct)
    case (snoc c ds)
    then have "digit_val c = 0" "dec_value 0 ds = 0" by simp_all
    then show ?case using snoc digit_char_val [of c] by (simp add: digit_char_0)
  qed simp
  then show ?thesis by (simp add: replicate_length_same)
qed

lemma pad_dec_value:
  "list_all is_digit ds \<Longrightarrow> ds \<noteq> [] \<Longrightarrow> pad_zeros (length ds) (nat_dec (dec_value 0 ds)) = ds"
proof (induction ds rule: rev_induct)
  case (snoc c ds)
  define v where "v = dec_value 0 ds"
  have c: "is_digit c" "digit_val c < 10" and ds: "list_all is_digit ds" using snoc.prems(1) by simp_all
  show ?case
  proof (cases "v = 0")
    case True
    then have "nat_dec (dec_value 0 (ds @ [c])) = [c]"
      using c by (subst nat_dec.simps) (simp add: v_def [symmetric])
    moreover have "ds = replicate (length ds) (CHR ''0'')" using True ds dec_value_zero by (simp add: v_def)
    ultimately show ?thesis by (simp add: pad_zeros_def)
  next
    case False
    then have "ds \<noteq> []" by (auto simp: v_def)
    have "nat_dec (dec_value 0 (ds @ [c])) = nat_dec v @ [c]"
      using c False by (subst nat_dec.simps) (simp add: v_def [symmetric])
    then show ?thesis using snoc.IH [OF ds \<open>ds \<noteq> []\<close>] by (simp add: pad_zeros_def v_def)
  qed
qed simp

lemma sprintf_digits:
  assumes "list_all is_digit ds" and "length ds = w" and "0 < w"
  shows "sprintf_0d w (int (dec_value 0 ds)) = ds"
proof -
  have "ds \<noteq> []" using assms by auto
  then show ?thesis using pad_dec_value [of ds] assms by (simp add: sprintf_0d_def)
qed

lemma getnum_two: "getnum True s = Some (n, r) \<Longrightarrow>
    s = take 2 s @ r \<and> list_all is_digit (take 2 s) \<and> length (take 2 s) = 2 \<and> n = int (dec_value 0 (take 2 s))"
  by (auto simp: getnum_def split: list.splits if_splits)

lemma in_range_iff: "in_range lo hi x = Some () \<longleftrightarrow> lo \<le> x \<and> x \<le> hi"
  by (simp add: in_range_def)

lemma literal_Some: "literal c s = Some r \<Longrightarrow> s = c # r"
  by (cases s) (simp_all split: if_splits)

lemma parse_date_parts:
  assumes "parse_date s = Some ((y, m, d), r)"
  shows "y = int (dec_value 0 (take 4 s)) \<and> list_all is_digit (take 4 s) \<and> length (take 4 s) = 4
    \<and> m = int (dec_value 0 (take 2 (drop 5 s))) \<and> list_all is_digit (take 2 (drop 5 s)) \<and> length (take 2 (drop 5 s)) = 2
    \<and> d = int (dec_value 0 (take 2 (drop 8 s))) \<and> list_all is_digit (take 2 (drop 8 s)) \<and> length (take 2 (drop 8 s)) = 2
    \<and> 1 \<le> m \<and> m \<le> 12"
proof -
  obtain s1 s2 s3 where steps: "is_year s" "literal (CHR '':'') (drop 4 s) = Some s1" "getnum True s1 = Some (m, s2)"
      "in_range 1 12 m = Some ()" "literal (CHR '':'') s2 = Some s3" "getnum True s3 = Some (d, r)"
      "y = int (dec_value 0 (take 4 s))"
    using assms by (auto simp: parse_date_def bind_eq_Some_conv split: if_splits)
  have "drop 5 s = drop 1 (drop 4 s)" by simp
  then have s1: "s1 = drop 5 s" using literal_Some [OF steps(2)] by simp
  have s2: "s2 = drop 7 s" "s3 = drop 8 s"
  proof -
    have "s1 = take 2 s1 @ s2" "length (take 2 s1) = 2" using getnum_two [OF steps(3)] by simp_all
    then have "drop 2 s1 = s2" by (metis append_eq_conv_conj)
    then show s2: "s2 = drop 7 s" using s1 by simp
    have "drop 8 s = drop 1 (drop 7 s)" by simp
    then have "drop 8 s = drop 1 s2" using s2 by (simp only:)
    then show "s3 = drop 8 s" using literal_Some [OF steps(5)] by simp
  qed
  then show ?thesis using steps s1 getnum_two [OF steps(3)] getnum_two [OF steps(6)]
    by (simp add: is_year_def in_range_iff)
qed

lemma fraction_bounds: "0 \<le> fst (fraction s) \<and> fst (fraction s) < second"
proof -
  have v: "dec_value 0 ds < 10 ^ length ds" if "list_all is_digit ds" for ds
    using that
  proof (induction ds rule: rev_induct)
    case (snoc c ds)
    then have "dec_value 0 ds + 1 \<le> 10 ^ length ds" "digit_val c < 10" by simp_all
    then show ?case by simp
  qed simp
  have "dec_value 0 (take 9 (takeWhile is_digit u)) * 10 ^ (9 - length (take 9 (takeWhile is_digit u))) < 10 ^ 9" for u
  proof -
    define ds where "ds = take 9 (takeWhile is_digit u)"
    have l: "length ds \<le> 9" and "list_all is_digit ds"
      by (auto simp: ds_def list_all_iff dest!: in_set_takeD set_takeWhileD)
    then have "dec_value 0 ds * 10 ^ (9 - length ds) < 10 ^ length ds * 10 ^ (9 - length ds)" using v by simp
    also have "\<dots> = 10 ^ 9" using l by (simp only: power_add [symmetric] le_add_diff_inverse)
    finally show ?thesis by (simp only: ds_def)
  qed
  then have "int (dec_value 0 (take 9 (takeWhile is_digit u)) * 10 ^ (9 - length (take 9 (takeWhile is_digit u)))) < second" for u
    by (simp only: second_def of_nat_less_iff [symmetric, where 'a = int]) simp
  note small = this
  show ?thesis
  proof (cases "\<exists>c d r. s = c # d # r \<and> (c = CHR ''.'' \<or> c = CHR '','') \<and> is_digit d")
    case True
    then obtain c d r where s: "s = c # d # r" and f: "(c = CHR ''.'' \<or> c = CHR '','') \<and> is_digit d" by blast
    have "fst (fraction s) = int (dec_value 0 (take 9 (takeWhile is_digit (d # r))) * 10 ^ (9 - length (take 9 (takeWhile is_digit (d # r)))))"
      unfolding s fraction_def list.case Let_def if_P [OF f] by (rule fst_conv)
    then show ?thesis using small [of "d # r"] by (simp only: of_nat_0_le_iff simp_thms)
  next
    case False
    then have "fst (fraction s) = 0" by (auto simp: fraction_def split: list.split)
    then show ?thesis by simp
  qed
qed

lemma parse_clock_bounds:
  assumes "parse_clock s = Some (t, r)"
  shows "0 \<le> t \<and> t < 24 * hour"
proof -
  obtain h mi sec s5 where r: "0 \<le> h" "h \<le> 23" "0 \<le> mi" "mi \<le> 59" "0 \<le> sec" "sec \<le> 59"
      and "(case fraction s5 of (ns, s6) \<Rightarrow> Some (h * hour + mi * minute + sec * second + ns, s6)) = Some (t, r)"
    using assms by (auto simp: parse_clock_def bind_eq_Some_conv in_range_iff)
  then have "t = h * hour + mi * minute + sec * second + fst (fraction s5)" by (cases "fraction s5") simp
  then show ?thesis using r fraction_bounds [of s5] by (simp add: duration_defs)
qed



section \<open>Track numbers\<close>

lemma trim_space_solid: "\<forall>c \<in> set s. \<not> is_space c \<Longrightarrow> trim_space s = s"
proof -
  assume a: "\<forall>c \<in> set s. \<not> is_space c"
  have "dropWhile is_space u = u" if "\<forall>c \<in> set u. \<not> is_space c" for u using that by (cases u) simp_all
  from this [of s] this [of "rev s"] a show ?thesis by (simp add: trim_space_def)
qed

lemma nat_dec_plain: "c \<in> set (nat_dec n) \<Longrightarrow> \<not> is_space c \<and> c \<noteq> CHR ''/''"
  using nat_dec_digits [of n] by (auto simp: list_all_iff is_digit_def is_space_def)

text \<open>A track number is read back from the two spellings of a tag, the number alone and the number of
  how many, as long as it fits the sixteen bits of the column; a larger one is cut to its low
  sixteen bits without an error.\<close>

lemma track_number_reads_back:
  assumes "0 \<le> n" and "in_i64 n" and "\<forall>c \<in> set rest. \<not> is_space c"
  shows "parseTrackNumber (strconv_Itoa n) = Some (wrap16 n)
    \<and> parseTrackNumber (strconv_Itoa n @ ''/'' @ rest) = Some (wrap16 n)
    \<and> (n < 2 ^ 15 \<longrightarrow> wrap16 n = n) \<and> in_range (- (2 ^ 15)) (2 ^ 15 - 1) (wrap16 n) = Some ()"
proof -
  define ds where "ds = nat_dec (nat n)"
  have itoa: "strconv_Itoa n = ds" using assms(1) by (simp add: strconv_Itoa_def ds_def)
  have plain: "\<forall>c \<in> set ds. \<not> is_space c \<and> c \<noteq> CHR ''/''" using nat_dec_plain by (simp add: ds_def)
  have sp: "\<not> is_space (CHR ''/'')" by (simp add: is_space_def)
  have cut: "takeWhile (\<lambda>c. c \<noteq> CHR ''/'') ds = ds" "takeWhile (\<lambda>c. c \<noteq> CHR ''/'') (ds @ ''/'' @ rest) = ds"
    using plain by (auto simp: takeWhile_eq_all_conv takeWhile_append)
  have trim: "trim_space ds = ds" "trim_space (ds @ ''/'' @ rest) = ds @ ''/'' @ rest"
    using plain sp assms(3) by (intro trim_space_solid; simp; blast)+
  have atoi: "strconv_Atoi ds = (n, None)" using Atoi_Itoa [OF assms(2)] itoa by simp
  have "parseTrackNumber ds = Some (wrap16 n)" "parseTrackNumber (ds @ ''/'' @ rest) = Some (wrap16 n)"
    unfolding parseTrackNumber_def Let_def trim cut atoi using assms(1) by simp_all
  moreover have "n < 2 ^ 15 \<longrightarrow> wrap16 n = n" using assms(1) by (simp add: wrap16_def)
  moreover have "0 \<le> (n + 2 ^ 15) mod 2 ^ 16" "(n + 2 ^ 15) mod 2 ^ 16 < (2 ^ 16 :: int)" by simp_all
  then have "in_range (- (2 ^ 15)) (2 ^ 15 - 1) (wrap16 n) = Some ()"
    unfolding in_range_def wrap16_def by (simp del: pos_mod_sign pos_mod_bound)
  ultimately show ?thesis unfolding itoa by blast
qed

section \<open>Texts of numbers\<close>

lemma nat_dec_value_less: "list_all is_digit ds \<Longrightarrow> dec_value 0 ds < 10 ^ length ds"
proof (induction ds rule: rev_induct)
  case (snoc c ds)
  then have "dec_value 0 ds + 1 \<le> 10 ^ length ds" "digit_val c < 10" by simp_all
  then show ?case by simp
qed simp

lemma length_nat_dec_ge: "10 ^ k \<le> n \<Longrightarrow> k < length (nat_dec n)"
proof (rule ccontr)
  assume n: "10 ^ k \<le> n" and "\<not> k < length (nat_dec n)"
  then have "(10 :: nat) ^ length (nat_dec n) \<le> 10 ^ k" by (intro power_increasing) simp_all
  moreover have "n < 10 ^ length (nat_dec n)"
    using nat_dec_value_less [OF nat_dec_digits [of n]] by (simp add: dec_value_nat_dec)
  ultimately show False using n by linarith
qed

lemma length_nat_dec_le: "n < 10 ^ Suc k \<Longrightarrow> length (nat_dec n) \<le> Suc k"
proof (induction k arbitrary: n)
  case 0
  then show ?case by (subst nat_dec.simps) simp
next
  case (Suc k)
  then have "n div 10 < 10 ^ Suc k" by (simp add: less_mult_imp_div_less)
  then show ?case using Suc.IH [of "n div 10"] by (subst nat_dec.simps) simp
qed

lemma rev_dropWhile_zeros:
  "rev (dropWhile (\<lambda>c. c = z) (rev s)) @ replicate (length s - length (rev (dropWhile (\<lambda>c. c = z) (rev s)))) z = s"
proof (induction s rule: rev_induct)
  case (snoc c s)
  show ?case
  proof (cases "c = z")
    case True
    have "length (dropWhile (\<lambda>c. c = z) (rev s)) \<le> length s" by (metis length_dropWhile_le length_rev)
    then show ?thesis using True snoc by (simp add: Suc_diff_le replicate_append_same [symmetric] flip: append_assoc)
  qed simp
qed simp

text \<open>A tag whose text is a whole number - exiftool prints it without quotes - is stored as it stands
  only below a million: a title, an artist or an album of seven digits or more is stored in the
  notation with an exponent.\<close>

lemma numeric_tag_text:
  assumes "0 \<le> n" and "m key = Some (ENum n 0)"
  shows "ExifStr m key = Some (strconv_Itoa n) \<longleftrightarrow> n < 10 ^ 6"
proof -
  define ds where "ds = nat_dec (nat n)"
  have str: "ExifStr m key = Some (float_text n 0)" using assms(2) by (simp add: ExifStr_def field_def)
  have itoa: "strconv_Itoa n = ds" using assms(1) by (simp add: strconv_Itoa_def ds_def)
  show ?thesis
  proof (cases "n < 10 ^ 6")
    case True
    then have len: "length ds \<le> 6" using length_nat_dec_le [of "nat n" 5] assms(1) by (simp add: ds_def nat_less_iff)
    have "float_text n 0 = ds"
    proof (cases "n = 0")
      case True
      then show ?thesis by (simp add: float_text_def ds_def nat_dec.simps digit_char_0)
    next
      case False
      have "length (significant n) \<le> length ds"
        using assms(1) by (simp add: significant_def ds_def) (metis length_dropWhile_le length_rev)
      moreover have "ds \<noteq> []" by (simp add: ds_def)
      then have "0 < length ds" by simp
      moreover have "significant n @ replicate (length ds - length (significant n)) (CHR ''0'') = ds"
        using rev_dropWhile_zeros [of "CHR ''0''" ds] assms(1) by (simp add: significant_def ds_def)
      ultimately show ?thesis using False assms(1) len
        by (simp add: float_text_def Let_def ds_def [symmetric] nat_int)
    qed
    then show ?thesis using True str itoa by simp
  next
    case False
    then have "6 < length ds" using length_nat_dec_ge [of 6 "nat n"] assms(1) by (simp add: ds_def le_nat_iff)
    then have "CHR ''e'' \<in> set (float_text n 0)"
      using False assms(1) by (simp add: float_text_def Let_def ds_def [symmetric] exponent_text_def)
    moreover have "CHR ''e'' \<notin> set ds" using nat_dec_digits [of "nat n"] by (auto simp: ds_def list_all_iff is_digit_def)
    ultimately show ?thesis using False str itoa by auto
  qed
qed

section \<open>Keywords\<close>

lemma merge_loop_props:
  "subseq (merge_loop ks seen) ks \<and> distinct (map to_lower (merge_loop ks seen))
   \<and> to_lower ` set (merge_loop ks seen) = to_lower ` set ks - seen"
  by (induction ks seen rule: merge_loop.induct) (auto simp: subseq_Cons')

text \<open>The keywords of a photo are those of its two lists in their order, none of them twice whatever
  the case of its letters, and none lost.\<close>

lemma keywords_merged:
  "subseq (mergeKeywords [keywords1, keywords2]) (keywords1 @ keywords2)
   \<and> distinct (map to_lower (mergeKeywords [keywords1, keywords2]))
   \<and> to_lower ` set (mergeKeywords [keywords1, keywords2]) = to_lower ` (set keywords1 \<union> set keywords2)"
  using merge_loop_props [of "keywords1 @ keywords2" "{}"] by (simp add: mergeKeywords_def image_Un)

end
