(* ===== verification/JobWorld.thy ===== *)
theory JobWorld
  imports CollectionScan Imaging Exif AccountsRepo MetadataRepo AudioRepo
begin

text \<open>
  What the job definitions of \<open>internal/jobs/definitions\<close> share: the environment they run in, the
  disk as the rest of the dispatcher's world, loops with an early return, the readers of
  \<open>metadata_scan_common.go\<close>, and the thumbnails of \<open>cover_cycle.go\<close>. A run that panics is None;
  the handler the dispatcher gets turns it into an error, which stands for the end of the
  process.
\<close>

section \<open>The environment\<close>

datatype exif_outcome = Tags exif | ExtractFailed | ScannerBroken
datatype binary_outcome = Bytes string | NoBytes | BinaryScannerBroken
datatype ffmpeg_outcome = NotStarted | ExitedWithError | Exited

record job_env = image_env +
  media_path :: string
  data_path :: string
  transcode_kbps :: int
  time_now :: time
  random_pick :: "int \<Rightarrow> nat"
  exif_of :: "string \<Rightarrow> bool \<Rightarrow> exif_outcome"          \<comment> \<open>\<open>ExiftoolProcess.Extract\<close>\<close>
  embedded :: "string \<Rightarrow> string \<Rightarrow> binary_outcome"     \<comment> \<open>\<open>ExiftoolProcess.ExtractBinary\<close>\<close>
  binary_tag :: "string \<Rightarrow> string \<Rightarrow> string"           \<comment> \<open>\<open>exiftool -b\<close>, empty when it fails\<close>
  file_mod_time :: "string \<Rightarrow> time option"
  run_ffmpeg :: "string list \<Rightarrow> ffmpeg_outcome \<times> string list"  \<comment> \<open>and the files it wrote\<close>
  nice_path :: "string option"
  json_of :: "exif \<Rightarrow> string"

abbreviation disk_part :: "('e) job_env_scheme \<Rightarrow> disk_env" where
  "disk_part env \<equiv> disk_env.truncate env"

type_synonym job_disp = "disk dispatcher"
type_synonym job_result = "(string option \<times> SubJobSpec list) \<times> job_disp"
type_synonym job_run = "job_ctx \<Rightarrow> job_disp \<Rightarrow> job_result option"

definition on_disk :: "(disk \<Rightarrow> 'x \<times> disk) \<Rightarrow> job_disp \<Rightarrow> 'x \<times> job_disp" where
  "on_disk f d = (case f (d_world d) of (x, w) \<Rightarrow> (x, d\<lparr> d_world := w \<rparr>))"

text \<open>The same for an operation that may panic.\<close>

definition on_disk_opt :: "(disk \<Rightarrow> ('x \<times> disk) option) \<Rightarrow> job_disp \<Rightarrow> ('x \<times> job_disp) option" where
  "on_disk_opt f d = map_option (\<lambda>(x, w). (x, d\<lparr> d_world := w \<rparr>)) (f (d_world d))"

definition failed :: "string \<Rightarrow> job_disp \<Rightarrow> job_result option" where
  "failed msg d = Some ((Some msg, []), d)"

definition finished :: "job_disp \<Rightarrow> job_result option" where
  "finished d = Some ((None, []), d)"

text \<open>The handler that stands for a run in the registry.\<close>

definition crashing :: "job_run \<Rightarrow> disk handler" where
  "crashing run jc d = (case run jc d of Some x \<Rightarrow> x | None \<Rightarrow> ((Some ''panic'', []), d))"

text \<open>A loop over a list: the body ends the function with an error, or goes on.\<close>

fun for_each :: "('x \<Rightarrow> 's \<Rightarrow> (string option \<times> 's) option) \<Rightarrow> 'x list \<Rightarrow> 's \<Rightarrow> (string option \<times> 's) option" where
  "for_each f [] s = Some (None, s)"
| "for_each f (x # xs) s = (case f x s of
       None \<Rightarrow> None
     | Some (Some msg, s) \<Rightarrow> Some (Some msg, s)
     | Some (None, s) \<Rightarrow> for_each f xs s)"

section \<open>\<open>metadata_scan_common.go\<close>: reading a file's tags\<close>

definition exiftool_dead :: "job_disp \<Rightarrow> bool" where
  "exiftool_dead d = (case d_et d of None \<Rightarrow> False | Some et \<Rightarrow> et_dead et)"

definition break_exiftool :: "job_disp \<Rightarrow> job_disp" where
  "break_exiftool d = d\<lparr> d_et := map_option (\<lambda>et. et\<lparr> et_dead := True \<rparr>) (d_et d) \<rparr>"

definition extractExif :: "('e) job_env_scheme \<Rightarrow> job_ctx \<Rightarrow> string \<Rightarrow> bool \<Rightarrow> job_disp \<Rightarrow> exif \<times> job_disp" where
  "extractExif env jc path includeBinaryTags d =
     (if jc_et jc = None \<or> exiftool_dead d then (Map.empty, d)
      else case exif_of env path includeBinaryTags of
        Tags m \<Rightarrow> (m, d)
      | ExtractFailed \<Rightarrow> (Map.empty, d)
      | ScannerBroken \<Rightarrow> (Map.empty, break_exiftool d))"

definition ExtractBinary :: "('e) job_env_scheme \<Rightarrow> string \<Rightarrow> string \<Rightarrow> job_disp \<Rightarrow> string option \<times> job_disp" where
  "ExtractBinary env path tag d =
     (if exiftool_dead d then (None, d)
      else case embedded env path tag of
        Bytes b \<Rightarrow> (Some b, d)
      | NoBytes \<Rightarrow> (None, d)
      | BinaryScannerBroken \<Rightarrow> (None, break_exiftool d))"

section \<open>\<open>cover_cycle.go\<close>: thumbnails of artists and collections\<close>

definition GenerateThumbnailForArtist :: "('e) job_env_scheme \<Rightarrow> int \<Rightarrow> job_disp \<Rightarrow> bool \<times> job_disp" where
  "GenerateThumbnailForArtist env artistID =
     call_or (on_db (AlbumGetRandomNonCompilationIDByArtist (random_pick env artistID) artistID 0))
       (\<lambda>e d. (e = NoRows, d))
       (\<lambda>albumID d.
          if \<not> AlbumThumbnailExists (data_path env) albumID (d_world d) then (True, d)
          else on_disk (GenerateArtistThumbnail env (AlbumThumbnailPath (data_path env) albumID ''webp'') (data_path env) artistID) d)"

definition GenerateThumbnailForCollection ::
  "('e) job_env_scheme \<Rightarrow> int \<Rightarrow> job_disp \<Rightarrow> (bool \<times> job_disp) option" where
  "GenerateThumbnailForCollection env collectionID d =
     (case on_db (MediaItemRandomHashWithVariants (random_pick env collectionID) collectionID) d of
        (Inl e, d) \<Rightarrow> Some (e = NoRows, d)
      | (Inr hash, d) \<Rightarrow>
          map_option (\<lambda>thumb. on_disk (GenerateCollectionThumbnail env thumb (data_path env) collectionID) d)
            (VariantPath (data_path env) hash ''thumb'' ''webp''))"

text \<open>\<open>extractAndGenerateAlbumArt\<close> of \<open>scan_audio.go\<close>; the two images are made from the same bytes, and a
  failure of either is only logged.\<close>

definition generate_album_images :: "('e) job_env_scheme \<Rightarrow> string \<Rightarrow> int \<Rightarrow> job_disp \<Rightarrow> job_disp" where
  "generate_album_images env b albumID d =
     (let (_, d) = on_disk (GenerateAlbumThumbnailFromBytes env b (data_path env) albumID) d in
      snd (on_disk (GenerateAlbumCoverFromBytes env b (data_path env) albumID) d))"

definition extractAndGenerateAlbumArt ::
  "('e) job_env_scheme \<Rightarrow> job_ctx \<Rightarrow> string \<Rightarrow> int \<Rightarrow> job_disp \<Rightarrow> bool \<times> job_disp" where
  "extractAndGenerateAlbumArt env jc path albumID d =
     (if jc_et jc = None then (False, d)
      else case ExtractBinary env path ''Picture'' d of
        (pic, d) \<Rightarrow>
          if pic \<noteq> None \<and> pic \<noteq> Some [] then (True, generate_album_images env (the pic) albumID d)
          else case ExtractBinary env path ''CoverArt'' d of
            (None, d) \<Rightarrow> (False, d)
          | (Some b, d) \<Rightarrow> if b = [] then (False, d) else (True, generate_album_images env b albumID d))"

section \<open>\<open>scan_video.go\<close>: covers of videos\<close>

definition extractVideoCoverBytes :: "('e) job_env_scheme \<Rightarrow> string \<Rightarrow> exif \<Rightarrow> string" where
  "extractVideoCoverBytes env path m =
     (let pic = (if m ''Picture'' \<noteq> None then binary_tag env path ''-Picture'' else []) in
      if pic = [] \<and> m ''CoverArt'' \<noteq> None then binary_tag env path ''-CoverArt'' else pic)"

definition videoCoverAspectRatio :: "string \<Rightarrow> int \<times> int" where
  "videoCoverAspectRatio collType = (if collType = ''video:movie'' then (2, 3) else (4, 3))"

definition generateVideoCover ::
  "('e) job_env_scheme \<Rightarrow> string \<Rightarrow> string \<Rightarrow> string \<Rightarrow> int option \<Rightarrow> int \<times> int \<Rightarrow> job_disp \<Rightarrow> (bool \<times> job_disp) option" where
  "generateVideoCover env b path fileHash duration ratio d =
     (if b \<noteq> [] then on_disk_opt (GenerateVideoCoverFromBytes env b (data_path env) fileHash (fst ratio) (snd ratio)) d
      else case duration of
        Some secs \<Rightarrow>
          if secs > 0 then
            on_disk_opt (GenerateVideoCoverFromFrame env path (data_path env) fileHash secs (fst ratio) (snd ratio)) d
          else Some (False, d)
      | None \<Rightarrow> Some (False, d))"

end
