(* ===== verification/JobsMaintenance.thy ===== *)
theory JobsMaintenance
  imports JobWorld
begin

text \<open>
  The jobs that keep the library in order: \<open>device_cleanup.go\<close>, \<open>integrity.go\<close>, \<open>orphan.go\<close>,
  \<open>cover_cycle.go\<close>, \<open>dzi_gen.go\<close>, \<open>thumbnail_scan.go\<close> and \<open>video_transcode.go\<close> of
  \<open>internal/jobs/definitions\<close>, with \<open>SetNice\<close> of \<open>internal/jobs/utils/nice.go\<close>.
\<close>

section \<open>Device cleanup\<close>

text \<open>\<open>fmt.Sprintf\<close> of a number between two texts.\<close>

definition counted :: "string \<Rightarrow> int \<Rightarrow> string \<Rightarrow> string" where
  "counted before n after = before @ strconv_Itoa n @ after"

definition DeviceCleanupMeta :: JobMeta where
  "DeviceCleanupMeta = \<lparr> Description = ''Remove inactive device sessions'', TotalSteps = 0, SupportsSubjobs = False, MaxConcurrency = 0 \<rparr>"

definition deviceStaleAge :: duration where
  "deviceStaleAge = 365 * 24 * hour"

definition HandleDeviceCleanup :: "time \<Rightarrow> 'w handler" where
  "HandleDeviceCleanup now jc d =
     (let d = progress jc ''starting device cleanup'' d in
      case on_db (DevicesStaleNonBanned (now - deviceStaleAge)) d of
        (Inl _, d) \<Rightarrow> ((Some ''list stale devices'', []), d)
      | (Inr ids, d) \<Rightarrow>
          if ids = [] then ((None, []), progress jc ''no stale devices to remove'' d)
          else
            let d = progress jc (counted ''removing '' (int (length ids)) '' stale devices'') d in
            case on_db (DevicesDeleteByID ids) d of
              (Inl _, d) \<Rightarrow> ((Some ''delete stale devices'', []), d)
            | (Inr _, d) \<Rightarrow>
                ((None, []), progress jc (counted ''device cleanup complete: '' (int (length ids)) '' stale devices removed'') d))"

section \<open>Integrity check\<close>

definition IntegrityCheckMeta :: JobMeta where
  "IntegrityCheckMeta = \<lparr> Description = ''Prune stale items and check for missing files'', TotalSteps = 0, SupportsSubjobs = False,
     MaxConcurrency = 0 \<rparr>"

text \<open>The state of the loop: how many items were pruned, and the dispatcher.\<close>

definition prune_one :: "('e) job_env_scheme \<Rightarrow> string \<times> int \<Rightarrow> int \<times> job_disp \<Rightarrow> (string option \<times> int \<times> job_disp) option" where
  "prune_one env item s = (case (item, s) of ((hash, i), (pruned, d)) \<Rightarrow>
     if d_cancelled d then Some (Some ''context canceled'', pruned, d)
     else case on_db (DeleteMediaItem i) d of
       (Inl _, d) \<Rightarrow> Some (None, pruned, d)
     | (Inr _, d) \<Rightarrow>
         map_option (\<lambda>itemPath. (None, pruned + 1, snd (on_disk (os_RemoveAll (disk_part env) itemPath) d)))
           (ItemDataPath (data_path env) hash))"

definition pruneStaleItems :: "('e) job_env_scheme \<Rightarrow> job_ctx \<Rightarrow> job_disp \<Rightarrow> (string option \<times> int \<times> job_disp) option" where
  "pruneStaleItems env jc d =
     (case on_db MediaItemsStale d of
        (Inl _, d) \<Rightarrow> Some (Some ''query stale items'', 0, d)
      | (Inr items, d) \<Rightarrow>
          if items = [] then Some (None, 0, progress jc ''no stale items to prune'' d)
          else for_each (prune_one env) items
            (0, progress jc (counted ''pruning '' (int (length items)) '' stale items'') d))"

definition check_derivative ::
  "('e) job_env_scheme \<Rightarrow> time option \<times> string \<times> string \<times> int \<Rightarrow> int \<times> job_disp \<Rightarrow> (int \<times> job_disp) option" where
  "check_derivative env item s = (case (item, s) of ((transcoded, hash, _, i), (requeued, d)) \<Rightarrow>
     if transcoded = None then Some (requeued, d)
     else map_option (\<lambda>manifest.
       if file_exists manifest (d_world d) then (requeued, d)
       else case on_db (VideoClearTranscodedAt i) d of
         (Inl _, d) \<Rightarrow> (requeued, d)
       | (Inr _, d) \<Rightarrow>
           (case on_db (JobIsActive ''video_transcode_item'' i) d of
              (r, d) \<Rightarrow>
                if r = Inr True then (requeued, d)
                else case on_db (JobCreate ''video_transcode_item'' (Some i) (Some ''media_item'') None) d of
                  (Inl _, d) \<Rightarrow> (requeued, d)
                | (Inr _, d) \<Rightarrow> (requeued + 1, d)))
       (VideoHLSManifest (data_path env) hash))"

text \<open>A cancelled context ends the loop, and what was queued until then counts.\<close>

fun check_derivatives ::
  "('e) job_env_scheme \<Rightarrow> (time option \<times> string \<times> string \<times> int) list \<Rightarrow> int \<times> job_disp \<Rightarrow> (int \<times> job_disp) option" where
  "check_derivatives env [] s = Some s"
| "check_derivatives env (x # xs) s =
     (if d_cancelled (snd s) then Some s
      else case check_derivative env x s of None \<Rightarrow> None | Some s \<Rightarrow> check_derivatives env xs s)"

definition checkVideoDerivatives :: "('e) job_env_scheme \<Rightarrow> job_ctx \<Rightarrow> job_disp \<Rightarrow> (int \<times> job_disp) option" where
  "checkVideoDerivatives env jc d =
     (case on_db VideosForIntegrityCheck (progress jc ''checking video derivatives'' d) of
        (Inl _, d) \<Rightarrow> Some (0, d)
      | (Inr items, d) \<Rightarrow> check_derivatives env items (0, d))"

definition integrity_run :: "('e) job_env_scheme \<Rightarrow> job_run" where
  "integrity_run env jc d =
     (case pruneStaleItems env jc (progress jc ''starting integrity check'' d) of
        None \<Rightarrow> None
      | Some (Some msg, _, d) \<Rightarrow> failed (''prune stale items: '' @ msg) d
      | Some (None, pruned, d) \<Rightarrow>
          (case checkVideoDerivatives env jc d of
             None \<Rightarrow> None
           | Some (requeued, d) \<Rightarrow>
               let d = (if requeued > 0 then TriggerImmediately d else d) in
               finished (progress jc (counted ''integrity check complete: '' pruned
                 (counted '' stale items pruned, '' requeued '' video jobs re-queued'')) d)))"

definition HandleIntegrityCheck :: "('e) job_env_scheme \<Rightarrow> disk handler" where
  "HandleIntegrityCheck env = crashing (integrity_run env)"

section \<open>Orphan cleanup\<close>

definition OrphanMeta :: JobMeta where
  "OrphanMeta = \<lparr> Description = ''Remove orphaned derived files'', TotalSteps = 0, SupportsSubjobs = False, MaxConcurrency = 0 \<rparr>"

definition orphanBatchSize :: nat where
  "orphanBatchSize = 256"

text \<open>The variables of the handler: the entries not looked up yet, the counters and the dispatcher.\<close>

record orphan_run =
  or_batch :: "(string \<times> string) list"
  or_checked :: int
  or_cleaned :: int
  or_disp :: job_disp

definition clean_entry :: "('e) job_env_scheme \<Rightarrow> string set \<Rightarrow> string \<times> string \<Rightarrow> orphan_run \<Rightarrow> orphan_run" where
  "clean_entry env existing entry s =
     (let s = s\<lparr> or_checked := or_checked s + 1 \<rparr> in
      if fst entry \<in> existing then s
      else case on_disk (os_RemoveAll (disk_part env) (snd entry)) (or_disp s) of
        (False, d) \<Rightarrow> s\<lparr> or_disp := d \<rparr>
      | (True, d) \<Rightarrow> s\<lparr> or_disp := d, or_cleaned := or_cleaned s + 1 \<rparr>)"

definition flush_orphans :: "('e) job_env_scheme \<Rightarrow> orphan_run \<Rightarrow> string option \<times> orphan_run" where
  "flush_orphans env s =
     (if or_batch s = [] then (None, s)
      else case on_db (MediaItemFindExistingHashes (map fst (or_batch s))) (or_disp s) of
        (Inl _, d) \<Rightarrow> (Some ''batch hash lookup'', s\<lparr> or_disp := d \<rparr>)
      | (Inr existing, d) \<Rightarrow>
          (None, (fold (clean_entry env existing) (or_batch s) (s\<lparr> or_disp := d \<rparr>))\<lparr> or_batch := [] \<rparr>))"

definition visit_l3 ::
  "('e) job_env_scheme \<Rightarrow> string \<Rightarrow> string \<Rightarrow> string \<times> bool \<Rightarrow> orphan_run \<Rightarrow> (string option \<times> orphan_run) option" where
  "visit_l3 env l1 l2 l3 s =
     (if d_cancelled (or_disp s) then Some (Some ''context canceled'', s)
      else if \<not> snd l3 then Some (None, s)
      else
        let hash = l1 @ l2 @ fst l3 in
        map_option (\<lambda>leafPath.
          let s = s\<lparr> or_batch := or_batch s @ [(hash, leafPath)] \<rparr> in
          if length (or_batch s) \<ge> orphanBatchSize then flush_orphans env s else (None, s))
          (ItemDataPath (data_path env) hash))"

definition visit_l2 ::
  "('e) job_env_scheme \<Rightarrow> string \<Rightarrow> string \<Rightarrow> string \<times> bool \<Rightarrow> orphan_run \<Rightarrow> (string option \<times> orphan_run) option" where
  "visit_l2 env l1Path l1 l2 s =
     (if \<not> snd l2 \<or> length (fst l2) \<noteq> 2 then Some (None, s)
      else case os_ReadDir (disk_part env) (l1Path @ ''/'' @ fst l2) (d_world (or_disp s)) of
        None \<Rightarrow> Some (None, s)
      | Some entries \<Rightarrow> for_each (visit_l3 env l1 (fst l2)) entries s)"

definition visit_l1 ::
  "('e) job_env_scheme \<Rightarrow> string \<Rightarrow> string \<times> bool \<Rightarrow> orphan_run \<Rightarrow> (string option \<times> orphan_run) option" where
  "visit_l1 env derivedPath l1 s =
     (if \<not> snd l1 \<or> length (fst l1) \<noteq> 2 then Some (None, s)
      else case os_ReadDir (disk_part env) (derivedPath @ ''/'' @ fst l1) (d_world (or_disp s)) of
        None \<Rightarrow> Some (None, s)
      | Some entries \<Rightarrow> for_each (visit_l2 env (derivedPath @ ''/'' @ fst l1) (fst l1)) entries s)"

definition orphan_run_job :: "('e) job_env_scheme \<Rightarrow> job_run" where
  "orphan_run_job env jc d =
     (let d = progress jc ''starting orphan cleanup'' d; derivedPath = data_path env @ ''/derived_media'' in
      case os_ReadDir (disk_part env) derivedPath (d_world d) of
        None \<Rightarrow> failed ''read data path'' d
      | Some entries \<Rightarrow>
          (case for_each (visit_l1 env derivedPath) entries \<lparr> or_batch = [], or_checked = 0, or_cleaned = 0, or_disp = d \<rparr> of
             None \<Rightarrow> None
           | Some (Some msg, s) \<Rightarrow> failed msg (or_disp s)
           | Some (None, s) \<Rightarrow>
               (case flush_orphans env s of
                  (Some msg, s) \<Rightarrow> failed msg (or_disp s)
                | (None, s) \<Rightarrow>
                    finished (progress jc (counted ''orphan cleanup complete: '' (or_checked s)
                      (counted '' checked, '' (or_cleaned s) '' removed'')) (or_disp s)))))"

definition HandleOrphanCleanup :: "('e) job_env_scheme \<Rightarrow> disk handler" where
  "HandleOrphanCleanup env = crashing (orphan_run_job env)"

section \<open>Cover cycle\<close>

definition CoverCycleMeta :: JobMeta where
  "CoverCycleMeta = \<lparr> Description = ''Cycle auto-generated collection and artist thumbnails to bring some variety to your collection views'',
     TotalSteps = 0, SupportsSubjobs = False, MaxConcurrency = 0 \<rparr>"

text \<open>The state of both loops: how many thumbnails were cycled, and the dispatcher.\<close>

definition cycle_one ::
  "(int \<Rightarrow> job_disp \<Rightarrow> (bool \<times> job_disp) option) \<Rightarrow> int \<Rightarrow> int \<times> job_disp \<Rightarrow> (string option \<times> int \<times> job_disp) option" where
  "cycle_one generate i s = (case s of (n, d) \<Rightarrow>
     if d_cancelled d then Some (Some ''context canceled'', n, d)
     else case generate i d of
       None \<Rightarrow> None
     | Some (ok, d) \<Rightarrow> Some (None, if ok then n + 1 else n, d))"

definition cover_cycle_run :: "('e) job_env_scheme \<Rightarrow> job_run" where
  "cover_cycle_run env jc d =
     (case on_db CollectionsWithNonManualThumbnailIDs (progress jc ''starting cover cycle'' d) of
        (Inl _, d) \<Rightarrow> failed ''list collections'' d
      | (Inr collIDs, d) \<Rightarrow>
     (case for_each (cycle_one (GenerateThumbnailForCollection env)) collIDs (0, d) of
        None \<Rightarrow> None
      | Some (Some msg, _, d) \<Rightarrow> failed msg d
      | Some (None, colls, d) \<Rightarrow>
          let colls_text = counted [] colls (counted ''/'' (int (length collIDs)) '' collection thumbnails'') in
     (case on_db ArtistsWithoutManualThumbnail (progress jc (''cycled '' @ colls_text @ ''; starting artist thumbnails'') d) of
        (Inl _, d) \<Rightarrow> failed ''list artists'' d
      | (Inr artistIDs, d) \<Rightarrow>
     (case for_each (cycle_one (\<lambda>i d. Some (GenerateThumbnailForArtist env i d))) artistIDs (0, d) of
        None \<Rightarrow> None
      | Some (Some msg, _, d) \<Rightarrow> failed msg d
      | Some (None, updated, d) \<Rightarrow>
          finished (progress jc (''cycled '' @ colls_text @ counted '', '' updated (counted ''/'' (int (length artistIDs)) '' artist thumbnails'')) d)))))"

definition HandleCoverCycle :: "('e) job_env_scheme \<Rightarrow> disk handler" where
  "HandleCoverCycle env = crashing (cover_cycle_run env)"

section \<open>Deep zoom tiles\<close>

definition DZIGenMeta :: JobMeta where
  "DZIGenMeta = \<lparr> Description = ''Generate DZI tiles for a collection'', TotalSteps = 1, SupportsSubjobs = True, MaxConcurrency = 0 \<rparr>"

definition DZIGenItemMeta :: JobMeta where
  "DZIGenItemMeta = \<lparr> Description = ''Generate DZI tiles for a single photo'', TotalSteps = 1, SupportsSubjobs = False, MaxConcurrency = 0 \<rparr>"

definition HandleDZIGen :: "'w handler" where
  "HandleDZIGen jc d =
     (case related_id (jc_job jc) of
        None \<Rightarrow> ((Some ''dzi_gen job has no related_id'', []), d)
      | Some collectionID \<Rightarrow>
          let (jc, d) = SetStep jc 1 d; d = progress jc ''Enqueuing DZI generation sub-jobs'' d in
          (case on_db (PhotoItemIDsByCollection collectionID) d of
             (Inl _, d) \<Rightarrow> ((Some ''list photo items'', []), d)
           | (Inr ids, d) \<Rightarrow>
               if ids \<noteq> [] \<and> d_cancelled d then ((Some ''context canceled'', []), d)
               else ((None, fold (\<lambda>i. AddSubJob ''dzi_gen_item'' (Some i) (Some ''media_item'')) ids []), d)))"

definition dzi_gen_item_run :: "('e) job_env_scheme \<Rightarrow> job_run" where
  "dzi_gen_item_run env jc d =
     (case related_id (jc_job jc) of
        None \<Rightarrow> failed ''dzi_gen_item job has no related_id'' d
      | Some itemID \<Rightarrow>
          (case on_db (MediaItemForProcessing itemID) d of
             (Inl _, d) \<Rightarrow> failed ''fetch media item'' d
           | (Inr (relativePath, _, fileHash), d) \<Rightarrow>
               (case on_disk_opt (GenerateDZIIfNotPresent env (path_join [media_path env, relativePath]) (data_path env) fileHash) d of
                  None \<Rightarrow> None
                | Some (None, d) \<Rightarrow> failed ''generate DZI'' d
                | Some (Some generated, d) \<Rightarrow> finished d)))"

definition HandleDZIGenItem :: "('e) job_env_scheme \<Rightarrow> disk handler" where
  "HandleDZIGenItem env = crashing (dzi_gen_item_run env)"

section \<open>Thumbnail scan\<close>

definition ThumbnailScanMeta :: JobMeta where
  "ThumbnailScanMeta = \<lparr> Description = ''Rebuild missing thumbnails for a collection'', TotalSteps = 3, SupportsSubjobs = False,
     MaxConcurrency = 0 \<rparr>"

definition scan_collection_thumbnail :: "('e) job_env_scheme \<Rightarrow> int \<Rightarrow> job_disp \<Rightarrow> (string option \<times> job_disp) option" where
  "scan_collection_thumbnail env cid d =
     (if d_cancelled d then Some (Some ''context canceled'', d)
      else if CollectionThumbnailExists (data_path env) cid (d_world d) then Some (None, d)
      else map_option (\<lambda>(_, d). (None, d)) (GenerateThumbnailForCollection env cid d))"

definition scan_album_thumbnail ::
  "('e) job_env_scheme \<Rightarrow> job_ctx \<Rightarrow> int \<Rightarrow> job_disp \<Rightarrow> (string option \<times> job_disp) option" where
  "scan_album_thumbnail env jc albumID d =
     (if d_cancelled d then Some (Some ''context canceled'', d)
      else if AlbumThumbnailExists (data_path env) albumID (d_world d) \<and> AlbumCoverExists (data_path env) albumID (d_world d)
      then Some (None, d)
      else case on_db (AlbumTrackRelPathsWithEmbeddedArt albumID) d of
        (Inl _, d) \<Rightarrow> Some (None, d)
      | (Inr [], d) \<Rightarrow> Some (None, d)
      | (Inr (p # _), d) \<Rightarrow> Some (None, snd (extractAndGenerateAlbumArt env jc (path_join [media_path env, p]) albumID d)))"

definition scan_video_thumbnail ::
  "('e) job_env_scheme \<Rightarrow> job_ctx \<Rightarrow> int \<times> int \<Rightarrow> VideoThumbnailItem \<Rightarrow> job_disp \<Rightarrow> (string option \<times> job_disp) option" where
  "scan_video_thumbnail env jc ratio v d =
     (if d_cancelled d then Some (Some ''context canceled'', d)
      else if vt_manual v then Some (None, d)
      else case VariantPath (data_path env) (vt_hash v) ''cover'' ''webp'' of
        None \<Rightarrow> None
      | Some coverPath \<Rightarrow>
          if file_exists coverPath (d_world d) then Some (None, d)
          else
            let path = path_join [media_path env, vt_path v]; (m, d) = extractExif env jc path True d in
            map_option (\<lambda>(_, d). (None, d))
              (generateVideoCover env (extractVideoCoverBytes env path m) path (vt_hash v) (vt_duration v) ratio d))"

text \<open>The third step, which ends the job without an error when the videos cannot be listed.\<close>

definition scan_videos_step :: "('e) job_env_scheme \<Rightarrow> int \<Rightarrow> job_run" where
  "scan_videos_step env collectionID jc d =
     (let (jc, d) = SetStep jc 3 d; d = progress jc ''Regenerating missing video covers'' d in
      case on_db (VideoItemsForThumbnailScan collectionID) d of
        (Inl _, d) \<Rightarrow> finished d
      | (Inr videos, d) \<Rightarrow>
          (case on_db (CollectionGet collectionID) d of
             (r, d) \<Rightarrow>
               let collType = (case r of Inl _ \<Rightarrow> [] | Inr c \<Rightarrow> coll_type c) in
               (case for_each (scan_video_thumbnail env jc (videoCoverAspectRatio collType)) videos d of
                  None \<Rightarrow> None
                | Some (Some msg, d) \<Rightarrow> failed msg d
                | Some (None, d) \<Rightarrow> finished d)))"

definition thumbnail_scan_run :: "('e) job_env_scheme \<Rightarrow> job_run" where
  "thumbnail_scan_run env jc d =
     (case related_id (jc_job jc) of
        None \<Rightarrow> failed ''thumbnail_scan job has no related_id'' d
      | Some collectionID \<Rightarrow>
          let (jc, d) = SetStep jc 1 d; d = progress jc ''Generating missing collection thumbnails'' d in
     (case on_db (CollectionGetDescendantCollectionIDs collectionID) d of
        (Inl _, d) \<Rightarrow> failed ''list descendant collections'' d
      | (Inr collIDs, d) \<Rightarrow>
     (case for_each (scan_collection_thumbnail env) (collectionID # collIDs) d of
        None \<Rightarrow> None
      | Some (Some msg, d) \<Rightarrow> failed msg d
      | Some (None, d) \<Rightarrow>
          let (jc, d) = SetStep jc 2 d; d = progress jc ''Regenerating missing album thumbnails'' d;
              (r, d) = on_db (AlbumIDsInCollection collectionID) d in
     (case for_each (scan_album_thumbnail env jc) (case r of Inl _ \<Rightarrow> [] | Inr ids \<Rightarrow> ids) d of
        None \<Rightarrow> None
      | Some (Some msg, d) \<Rightarrow> failed msg d
      | Some (None, d) \<Rightarrow> scan_videos_step env collectionID jc d))))"

definition HandleThumbnailScan :: "('e) job_env_scheme \<Rightarrow> disk handler" where
  "HandleThumbnailScan env = crashing (thumbnail_scan_run env)"

section \<open>Transcodes\<close>

definition VideoTranscodeMeta :: JobMeta where
  "VideoTranscodeMeta = \<lparr> Description = ''Transcode videos to HLS format'', TotalSteps = 0, SupportsSubjobs = True, MaxConcurrency = 1 \<rparr>"

definition VideoTranscodeItemMeta :: JobMeta where
  "VideoTranscodeItemMeta = \<lparr> Description = ''Transcode a single video to HLS format'', TotalSteps = 1, SupportsSubjobs = False,
     MaxConcurrency = 0 \<rparr>"

definition HandleVideoTranscode :: "'w handler" where
  "HandleVideoTranscode jc d = ((None, []), d)"

definition transcode_args :: "string \<Rightarrow> int \<Rightarrow> string \<Rightarrow> string \<Rightarrow> string list" where
  "transcode_args src kbps segPattern manifestPath =
     [''ffmpeg'', ''-i'', src, ''-c:v'', ''libx264'', ''-preset'', ''slow'', ''-crf'', ''23'',
      ''-maxrate'', strconv_Itoa kbps @ ''k'', ''-bufsize'', strconv_Itoa (wrap64 (kbps * 2)) @ ''k'',
      ''-c:a'', ''aac'', ''-b:a'', ''128k'', ''-hls_time'', ''6'', ''-hls_playlist_type'', ''vod'',
      ''-hls_segment_filename'', segPattern, manifestPath]"

definition SetNice :: "string option \<Rightarrow> int \<Rightarrow> string list \<Rightarrow> string list" where
  "SetNice nice value args = (case nice of None \<Rightarrow> args | Some p \<Rightarrow> [p, ''-n'', strconv_Itoa value] @ args)"

definition wrote_files :: "string list \<Rightarrow> job_disp \<Rightarrow> job_disp" where
  "wrote_files fs d = d\<lparr> d_world := fold (\<lambda>f. put_file (path_key f)) fs (d_world d) \<rparr>"

definition transcode_file :: "('e) job_env_scheme \<Rightarrow> int \<Rightarrow> string \<Rightarrow> string \<Rightarrow> job_run" where
  "transcode_file env itemID relativePath fileHash jc d =
     (case VideoHLSDir (data_path env) fileHash of
        None \<Rightarrow> None
      | Some outDir \<Rightarrow>
          (case on_disk (os_MkdirAll (disk_part env) outDir) d of
             (False, d) \<Rightarrow> failed ''mkdir hls dir'' d
           | (True, d) \<Rightarrow>
               let args = SetNice (nice_path env) 19 (transcode_args (path_join [media_path env, relativePath]) (transcode_kbps env)
                     (path_join [outDir, ''seg_%05d.ts'']) (path_join [outDir, ''manifest.m3u8''])) in
               (case run_ffmpeg env args of
                  (NotStarted, _) \<Rightarrow> failed ''start ffmpeg transcode'' d
                | (ExitedWithError, fs) \<Rightarrow> failed ''ffmpeg transcode'' (wrote_files fs d)
                | (Exited, fs) \<Rightarrow> finished (ignore_db (VideoSetTranscodedAt itemID (time_now env)) (wrote_files fs d)))))"

definition video_transcode_item_run :: "('e) job_env_scheme \<Rightarrow> job_run" where
  "video_transcode_item_run env jc d =
     (case related_id (jc_job jc) of
        None \<Rightarrow> failed ''video_transcode_item job has no related_id'' d
      | Some itemID \<Rightarrow>
          (case on_db (VideoMetadataForTranscode itemID) d of
             (Inl _, d) \<Rightarrow> failed ''fetch video_metadata'' d
           | (Inr (bitrate, transcoded), d) \<Rightarrow>
               if transcoded \<noteq> None then finished d
               else if (case bitrate of None \<Rightarrow> False | Some b \<Rightarrow> b \<le> transcode_kbps env) then finished d
               else case on_db (MediaItemForProcessing itemID) d of
                 (Inl _, d) \<Rightarrow> failed ''fetch media item'' d
               | (Inr (relativePath, _, fileHash), d) \<Rightarrow> transcode_file env itemID relativePath fileHash jc d))"

definition HandleVideoTranscodeItem :: "('e) job_env_scheme \<Rightarrow> disk handler" where
  "HandleVideoTranscodeItem env = crashing (video_transcode_item_run env)"

end
