(* ===== verification/JobsProps.thy ===== *)
theory JobsProps
  imports JobsMaintenance DispatcherProps ImagingProps
begin

text \<open>
  What the jobs of \<open>internal/jobs/definitions\<close> do to the tables and to the disk.
\<close>

section \<open>Progress reports\<close>

lemma progress_sel [simp]:
  "d_world (progress jc msg d) = d_world d" "d_cancelled (progress jc msg d) = d_cancelled d"
  "d_et (progress jc msg d) = d_et d"
  "devices (d_db (progress jc msg d)) = devices (d_db d)"
  "media_items (d_db (progress jc msg d)) = media_items (d_db d)"
  "video_meta (d_db (progress jc msg d)) = video_meta (d_db d)"
  "collections (d_db (progress jc msg d)) = collections (d_db d)"
  "clock (d_db (progress jc msg d)) = clock (d_db d)"
  by (auto simp: progress_def ignore_db_def on_db_def JobUpdateProgress_def sql_def update_job_def
      split: prod.splits list.splits bool.splits)

lemma progress_healthy [simp]: "faults (d_db d) = [] \<Longrightarrow> faults (d_db (progress jc msg d)) = []"
  by (simp add: progress_def ignore_db_def on_db_def JobUpdateProgress_def update_job_def)

section \<open>Devices\<close>

definition stale_device :: "time \<Rightarrow> device \<Rightarrow> bool" where
  "stale_device now dev \<longleftrightarrow> banned_at dev = None \<and> last_seen_at dev < now - 365 * 24 * hour"

lemma delete_by_id:
  assumes "distinct (map device_id ds)"
  shows "filter (\<lambda>x. device_id x \<notin> set (map device_id (filter P ds))) ds = filter (\<lambda>x. \<not> P x) ds"
proof (rule filter_cong [OF refl])
  fix x assume "x \<in> set ds"
  then show "device_id x \<notin> set (map device_id (filter P ds)) \<longleftrightarrow> \<not> P x"
    using assms by (auto simp: distinct_map inj_on_def)
qed

text \<open>The device cleanup removes exactly the devices that are not banned and were not seen for a year,
  all of them or, when it ends with an error, none; it queues nothing.\<close>

lemma device_cleanup_removes_stale:
  assumes "distinct (map device_id (devices (d_db d)))" and "HandleDeviceCleanup now jc d = ((err, buf), d')"
  shows "devices (d_db d') = (if err = None then filter (\<lambda>x. \<not> stale_device now x) (devices (d_db d)) else devices (d_db d))
    \<and> buf = []"
proof -
  define d0 where "d0 = progress jc ''starting device cleanup'' d"
  have d0: "devices (d_db d0) = devices (d_db d)" by (simp add: d0_def)
  obtain r d1 where q: "on_db (DevicesStaleNonBanned (now - deviceStaleAge)) d0 = (r, d1)" by fastforce
  have d1: "devices (d_db d1) = devices (d_db d)"
    and ids: "\<And>ids. r = Inr ids \<Longrightarrow> ids = map device_id (filter (stale_device now) (devices (d_db d)))"
    using q d0 by (auto simp: on_db_def DevicesStaleNonBanned_def sql_def stale_device_def [abs_def] deviceStaleAge_def
        split: prod.splits list.splits bool.splits)
  show ?thesis
  proof (cases r)
    case (Inl e)
    then show ?thesis using assms(2) q d1 by (auto simp: HandleDeviceCleanup_def d0_def [symmetric])
  next
    case (Inr found)
    show ?thesis
    proof (cases "found = []")
      case True
      then have "filter (\<lambda>x. \<not> stale_device now x) (devices (d_db d)) = devices (d_db d)"
        using ids [OF Inr] by (auto simp: filter_id_conv filter_empty_conv)
      then show ?thesis using assms(2) q d1 Inr True by (auto simp: HandleDeviceCleanup_def d0_def [symmetric])
    next
      case False
      define d2 where "d2 = progress jc (counted ''removing '' (int (length found)) '' stale devices'') d1"
      obtain r' d3 where del: "on_db (DevicesDeleteByID found) d2 = (r', d3)" by fastforce
      have "devices (d_db d3) = (case r' of Inl _ \<Rightarrow> devices (d_db d) | Inr _ \<Rightarrow> filter (\<lambda>x. \<not> stale_device now x) (devices (d_db d)))"
        using del d1 False ids [OF Inr] delete_by_id [OF assms(1), of "stale_device now"]
        by (auto simp: d2_def on_db_def DevicesDeleteByID_def delete_devices_def sql_def split: prod.splits list.splits bool.splits)
      then show ?thesis using assms(2) q Inr False del
        by (auto simp: HandleDeviceCleanup_def d0_def [symmetric] d2_def [symmetric] split: sum.splits)
    qed
  qed
qed

definition cleanup_device :: "int \<Rightarrow> time \<Rightarrow> time option \<Rightarrow> device" where
  "cleanup_device i seen banned = \<lparr> device_id = i, device_uuid = [], device_user = 1, refresh_token_hash = None,
     previous_refresh_token_hash = None, expires_at = None, device_name = [], banned_at = banned, access_history = [],
     device_created_at = 0, last_seen_at = seen \<rparr>"

definition cleanup_devices :: "device list" where
  "cleanup_devices = [cleanup_device 1 0 None, cleanup_device 2 (400 * 24 * hour) None, cleanup_device 3 0 (Some 1)]"

definition maintenance_job :: job where
  "maintenance_job = \<lparr> job_id = 1, job_type = ''device_cleanup'', status = Running, related_id = None, related_type = None,
     job_log = None, error_message = None, queued_at = 0, started_at = None, completed_at = None, parent_job_id = None,
     current_step = 0, subjobs_enqueued = 0 \<rparr>"

definition maintenance_ctx :: job_ctx where
  "maintenance_ctx = \<lparr> jc_job = maintenance_job, jc_et = None, jc_dispatcher = True \<rparr>"

definition demo_disp :: "db \<Rightarrow> disk \<Rightarrow> job_disp" where
  "demo_disp s w = NewDispatcher s [] w"

section \<open>Integrity check\<close>

definition stale_item :: "time \<Rightarrow> media_item \<Rightarrow> bool" where
  "stale_item now m \<longleftrightarrow> (case item_missing_since m of None \<Rightarrow> False | Some t \<Rightarrow> t < now - 90 * 24 * hour)"

lemma RemoveAll_free:
  assumes "\<forall>k. \<not> denied e k"
  shows "os_RemoveAll e p w = (True, filter (\<lambda>n. \<not> prefix (path_key p) (n_path n)) w)"
  using assms by (intro RemoveAll_allowed) simp

lemma prune_one_healthy:
  assumes "prune_one env (h, i) (n, d) = Some (None, n1, d1)" and "faults (d_db d) = []" and "\<forall>k. \<not> denied env k"
    and "data_path env \<noteq> []" and "hex_hash h"
  shows "faults (d_db d1) = [] \<and> media_items (d_db d1) = filter (\<lambda>m. item_id m \<noteq> i) (media_items (d_db d))
    \<and> d_world d1 = filter (\<lambda>x. \<not> prefix (item_key (data_path env) h) (n_path x)) (d_world d)"
proof -
  obtain p where p: "ItemDataPath (data_path env) h = Some p"
    using assms(5) by (simp add: ItemDataPath_def hex_hash_def)
  have "path_key p = item_key (data_path env) h" by (rule ItemDataPath_key [OF assms(4,5) p])
  moreover have "\<forall>k. \<not> denied (disk_part env) k" using assms(3) by (simp add: disk_env.defs)
  note RemoveAll_free [OF this, of p]
  ultimately show ?thesis using assms(1,2) p
    by (auto simp: prune_one_def on_db_healthy DeleteMediaItem_def delete_items_def on_disk_def Let_def split: if_splits)
qed

lemma prune_loop:
  assumes "for_each (prune_one env) items (n, d) = Some (None, n1, d1)" and "faults (d_db d) = []" and "\<forall>k. \<not> denied env k"
    and "data_path env \<noteq> []" and "\<forall>(h, i) \<in> set items. hex_hash h"
  shows "faults (d_db d1) = [] \<and> media_items (d_db d1) = filter (\<lambda>m. item_id m \<notin> snd ` set items) (media_items (d_db d))
    \<and> d_world d1 = filter (\<lambda>x. \<forall>h \<in> fst ` set items. \<not> prefix (item_key (data_path env) h) (n_path x)) (d_world d)"
  using assms
proof (induction items arbitrary: n d)
  case (Cons x items)
  obtain h i where x: "x = (h, i)" by fastforce
  obtain msg n2 d2 where one: "prune_one env (h, i) (n, d) = Some (msg, n2, d2)"
    using Cons.prems(1) x by (cases "prune_one env (h, i) (n, d)") auto
  then have msg: "msg = None" and rest: "for_each (prune_one env) items (n2, d2) = Some (None, n1, d1)"
    using Cons.prems(1) x by (auto split: option.splits)
  have "hex_hash h" using Cons.prems(5) x by simp
  note step = prune_one_healthy [OF one [unfolded msg] Cons.prems(2,3,4) this]
  show ?case using Cons.IH [OF rest] Cons.prems(3-5) step x by (simp add: conj_commute)
qed simp

lemma on_db_keeps:
  assumes "\<And>s. media_items (snd (stmt s)) = media_items s"
  shows "d_world (snd (on_db (sql stmt) d)) = d_world d \<and> media_items (d_db (snd (on_db (sql stmt) d))) = media_items (d_db d)"
proof -
  have "media_items (snd (sql stmt (d_db d))) = media_items (d_db d)"
    by (rule sql_preserves [where P = "\<lambda>t. media_items t = media_items (d_db d)"]) (simp_all add: assms)
  then show ?thesis by (simp add: on_db_def split_beta)
qed

lemma derivative_statements_keep:
  "d_world (snd (on_db (VideoClearTranscodedAt i) d)) = d_world d \<and> media_items (d_db (snd (on_db (VideoClearTranscodedAt i) d))) = media_items (d_db d)"
  "d_world (snd (on_db (JobIsActive ty i) d)) = d_world d \<and> media_items (d_db (snd (on_db (JobIsActive ty i) d))) = media_items (d_db d)"
  "d_world (snd (on_db (JobCreate ty r rt p) d)) = d_world d \<and> media_items (d_db (snd (on_db (JobCreate ty r rt p) d))) = media_items (d_db d)"
  "d_world (snd (on_db VideosForIntegrityCheck d)) = d_world d \<and> media_items (d_db (snd (on_db VideosForIntegrityCheck d))) = media_items (d_db d)"
  unfolding VideoClearTranscodedAt_def JobIsActive_def JobCreate_def VideosForIntegrityCheck_def
  by (rule on_db_keeps, simp add: update_video_def Let_def split: option.split)+

lemma check_derivative_keeps:
  assumes "check_derivative env x (n, d) = Some (n1, d1)"
  shows "d_world d1 = d_world d \<and> media_items (d_db d1) = media_items (d_db d)"
proof -
  obtain t h ct i where x: "x = (t, h, ct, i)" by (cases x)
  obtain r2 d2 where q2: "on_db (VideoClearTranscodedAt i) d = (r2, d2)" by fastforce
  obtain r3 d3 where q3: "on_db (JobIsActive ''video_transcode_item'' i) d2 = (r3, d3)" by fastforce
  obtain r4 d4 where q4: "on_db (JobCreate ''video_transcode_item'' (Some i) (Some ''media_item'') None) d3 = (r4, d4)" by fastforce
  show ?thesis
    using assms x q2 q3 q4 derivative_statements_keep(1) [of i d] derivative_statements_keep(2) [of "''video_transcode_item''" i d2]
      derivative_statements_keep(3) [of "''video_transcode_item''" "Some i" "Some ''media_item''" None d3]
    by (auto simp: check_derivative_def split: if_splits sum.splits)
qed

lemma check_derivatives_keep:
  "check_derivatives env xs (n, d) = Some (n1, d1) \<Longrightarrow> d_world d1 = d_world d \<and> media_items (d_db d1) = media_items (d_db d)"
proof (induction xs arbitrary: n d)
  case (Cons x xs)
  show ?case
  proof (cases "d_cancelled d")
    case False
    then obtain n2 d2 where "check_derivative env x (n, d) = Some (n2, d2)" "check_derivatives env xs (n2, d2) = Some (n1, d1)"
      using Cons.prems by (auto split: option.splits)
    then show ?thesis using Cons.IH check_derivative_keeps by fastforce
  qed (use Cons.prems in simp)
qed simp

lemma pruneStaleItems_healthy:
  assumes "pruneStaleItems env jc d = Some (None, n, d1)" and "faults (d_db d) = []" and "\<forall>k. \<not> denied env k"
    and "data_path env \<noteq> []" and "\<forall>m \<in> set (media_items (d_db d)). hex_hash (file_hash m)"
    and "distinct (map item_id (media_items (d_db d)))"
  shows "media_items (d_db d1) = filter (\<lambda>m. \<not> stale_item (clock (d_db d)) m) (media_items (d_db d))
    \<and> d_world d1 = filter (\<lambda>x. \<forall>m \<in> set (media_items (d_db d)). stale_item (clock (d_db d)) m
        \<longrightarrow> \<not> prefix (item_key (data_path env) (file_hash m)) (n_path x)) (d_world d)"
proof -
  define P where "P = stale_item (clock (d_db d))"
  define items where "items = map (\<lambda>m. (file_hash m, item_id m)) (filter P (media_items (d_db d)))"
  have q: "on_db MediaItemsStale d = (Inr items, d)"
    using assms(2) by (simp add: on_db_healthy MediaItemsStale_def items_def P_def stale_item_def [abs_def])
  show ?thesis
  proof (cases "items = []")
    case True
    then have none: "\<forall>m \<in> set (media_items (d_db d)). \<not> P m" by (simp add: items_def filter_empty_conv)
    moreover have "media_items (d_db d1) = media_items (d_db d)" "d_world d1 = d_world d"
      using assms(1) q True by (auto simp: pruneStaleItems_def)
    ultimately show ?thesis by (simp add: P_def)
  next
    case False
    define d0 where "d0 = progress jc (counted ''pruning '' (int (length items)) '' stale items'') d"
    have d0: "faults (d_db d0) = []" "media_items (d_db d0) = media_items (d_db d)" "d_world d0 = d_world d"
      using assms(2) by (simp_all add: d0_def)
    have loop: "for_each (prune_one env) items (0, d0) = Some (None, n, d1)"
      using assms(1) q False by (simp add: pruneStaleItems_def d0_def)
    have "\<forall>(h, i) \<in> set items. hex_hash h" using assms(5) by (auto simp: items_def)
    note swept = prune_loop [OF loop d0(1) assms(3,4) this]
    have ids: "snd ` set items = item_id ` {m \<in> set (media_items (d_db d)). P m}"
      and hashes: "fst ` set items = file_hash ` {m \<in> set (media_items (d_db d)). P m}"
      by (auto simp: items_def image_iff)
    have "filter (\<lambda>m. item_id m \<notin> snd ` set items) (media_items (d_db d)) = filter (\<lambda>m. \<not> P m) (media_items (d_db d))"
      using assms(6) unfolding ids by (intro filter_cong [OF refl]) (auto simp: distinct_map inj_on_def)
    moreover have "(\<forall>h \<in> fst ` set items. \<not> prefix (item_key (data_path env) h) q)
        \<longleftrightarrow> (\<forall>m \<in> set (media_items (d_db d)). P m \<longrightarrow> \<not> prefix (item_key (data_path env) (file_hash m)) q)" for q
      unfolding hashes by blast
    ultimately show ?thesis using swept d0 by (simp add: P_def)
  qed
qed

text \<open>C38: The integrity check deletes exactly the items that have been missing for ninety days, and
  everything derived from their contents - also when another item of the library has the same
  content: that item stays, and its variants, tiles and transcode are gone.\<close>

theorem pruning_takes_shared_data:
  assumes run: "integrity_run env jc d = Some ((None, buf), d')" and healthy: "faults (d_db d) = []" "\<forall>k. \<not> denied env k"
    and base: "data_path env \<noteq> []" and hashes: "\<forall>m \<in> set (media_items (d_db d)). hex_hash (file_hash m)"
    and ids: "distinct (map item_id (media_items (d_db d)))"
  shows "media_items (d_db d') = filter (\<lambda>m. \<not> stale_item (clock (d_db d)) m) (media_items (d_db d))
    \<and> d_world d' = filter (\<lambda>x. \<forall>m \<in> set (media_items (d_db d)). stale_item (clock (d_db d)) m
        \<longrightarrow> \<not> prefix (item_key (data_path env) (file_hash m)) (n_path x)) (d_world d)
    \<and> (\<forall>m \<in> set (media_items (d_db d)). \<forall>m' \<in> set (media_items (d_db d)).
        stale_item (clock (d_db d)) m \<and> \<not> stale_item (clock (d_db d)) m' \<and> file_hash m' = file_hash m
        \<longrightarrow> m' \<in> set (media_items (d_db d')) \<and> (\<forall>q \<in> paths_of (d_world d'). \<not> prefix (item_key (data_path env) (file_hash m')) q))"
proof -
  define d0 where "d0 = progress jc ''starting integrity check'' d"
  obtain pr where pr: "pruneStaleItems env jc d0 = Some pr" using run by (auto simp: integrity_run_def d0_def [symmetric] split: option.splits)
  obtain msg n d1 where "pr = (msg, n, d1)" by (cases pr)
  then have prune: "pruneStaleItems env jc d0 = Some (None, n, d1)"
    using run pr by (cases msg) (auto simp: integrity_run_def d0_def [symmetric] failed_def)
  obtain cd where cd: "checkVideoDerivatives env jc d1 = Some cd"
    using run prune by (cases "checkVideoDerivatives env jc d1") (auto simp: integrity_run_def d0_def [symmetric])
  obtain k d2 where check: "checkVideoDerivatives env jc d1 = Some (k, d2)" using cd by (cases cd) simp
  have d2: "d_world d2 = d_world d1 \<and> media_items (d_db d2) = media_items (d_db d1)"
  proof -
    obtain r d3 where q: "on_db VideosForIntegrityCheck (progress jc ''checking video derivatives'' d1) = (r, d3)" by fastforce
    then have "d_world d3 = d_world d1 \<and> media_items (d_db d3) = media_items (d_db d1)"
      using derivative_statements_keep(4) [of "progress jc ''checking video derivatives'' d1"] by simp
    moreover have "d_world d2 = d_world d3 \<and> media_items (d_db d2) = media_items (d_db d3)"
      using check q check_derivatives_keep [of env _ 0 d3 k d2] by (auto simp: checkVideoDerivatives_def split: sum.splits)
    ultimately show ?thesis by simp
  qed
  have d': "d_world d' = d_world d2 \<and> media_items (d_db d') = media_items (d_db d2)"
    using run prune check by (auto simp: integrity_run_def d0_def [symmetric] finished_def TriggerImmediately_def)
  have d0: "faults (d_db d0) = []" "media_items (d_db d0) = media_items (d_db d)" "clock (d_db d0) = clock (d_db d)" "d_world d0 = d_world d"
    using healthy(1) by (simp_all add: d0_def)
  have exact: "media_items (d_db d') = filter (\<lambda>m. \<not> stale_item (clock (d_db d)) m) (media_items (d_db d))"
    "d_world d' = filter (\<lambda>x. \<forall>m \<in> set (media_items (d_db d)). stale_item (clock (d_db d)) m
        \<longrightarrow> \<not> prefix (item_key (data_path env) (file_hash m)) (n_path x)) (d_world d)"
    using pruneStaleItems_healthy [OF prune d0(1) healthy(2) base] hashes ids d0 d2 d' by simp_all
  have gone: "\<not> prefix (item_key (data_path env) (file_hash m)) q"
    if "m \<in> set (media_items (d_db d))" "stale_item (clock (d_db d)) m" "q \<in> paths_of (d_world d')" for m q
    using that(1,2) that(3) [unfolded exact(2) paths_of_def] by auto
  have stays: "m' \<in> set (media_items (d_db d'))"
    if "m' \<in> set (media_items (d_db d))" "\<not> stale_item (clock (d_db d)) m'" for m'
    using that by (simp add: exact(1))
  show ?thesis
  proof (intro conjI ballI impI)
    fix m m' q
    assume "m \<in> set (media_items (d_db d))" and m': "m' \<in> set (media_items (d_db d))"
      and c: "stale_item (clock (d_db d)) m \<and> \<not> stale_item (clock (d_db d)) m' \<and> file_hash m' = file_hash m"
    then show "m' \<in> set (media_items (d_db d'))" using stays by blast
    assume "q \<in> paths_of (d_world d')"
    then show "\<not> prefix (item_key (data_path env) (file_hash m')) q" using gone [of m q] \<open>m \<in> _\<close> c by metis
  qed (fact exact)+
qed

text \<open>Two items of one content, of which one has been missing since the first day.\<close>

definition shared_item :: "int \<Rightarrow> time option \<Rightarrow> media_item" where
  "shared_item i missing = \<lparr> item_id = i, item_collection = 1, title = [], item_path = [], file_size_bytes = 1,
     file_hash = ''abcdef'', mime_type = ''image/jpeg'', file_modified_at = None, item_missing_since = missing,
     indexed_at = 0, item_created_at = 0, hidden_at = None \<rparr>"

definition shared_db :: db where
  "shared_db = (empty_db (100 * 24 * hour))\<lparr> media_items := [shared_item 1 (Some 0), shared_item 2 None] \<rparr>"

definition demo_job_env :: job_env where
  "demo_job_env = image_env.extend demo_image_env
     \<lparr> media_path = ''/m'', data_path = ''/d'', transcode_kbps = 4000, time_now = 100 * 24 * hour, random_pick = (\<lambda>_. 0),
        exif_of = (\<lambda>_ _. ExtractFailed), embedded = (\<lambda>_ _. NoBytes), binary_tag = (\<lambda>_ _. []), file_mod_time = (\<lambda>_. None),
        run_ffmpeg = (\<lambda>_. (Exited, [])), nice_path = None, json_of = (\<lambda>_. []) \<rparr>"

lemma demo_job_env_sel [simp]:
  "denied demo_job_env = (\<lambda>_. False)" "unreadable demo_job_env = (\<lambda>_. False)" "data_path demo_job_env = ''/d''"
  "transcode_kbps demo_job_env = 4000" "time_now demo_job_env = 100 * 24 * hour" "media_path demo_job_env = ''/m''"
  "run_ffmpeg demo_job_env = (\<lambda>_. (Exited, []))" "nice_path demo_job_env = None"
  by (simp_all add: demo_job_env_def image_env.defs demo_image_env_def)

lemma demo_integrity_ends:
  "map_option fst (integrity_run demo_job_env maintenance_ctx (demo_disp shared_db demo_disk)) = Some (None, [])"
  by code_simp

theorem pruning_takes_shared_data_witness:
  "\<exists>d'. integrity_run demo_job_env maintenance_ctx (demo_disp shared_db demo_disk) = Some ((None, []), d')
    \<and> shared_item 2 None \<in> set (media_items (d_db d'))
    \<and> (\<forall>q \<in> paths_of (d_world d'). \<not> prefix (item_key ''/d'' ''abcdef'') q)"
proof -
  obtain d' where d': "integrity_run demo_job_env maintenance_ctx (demo_disp shared_db demo_disk) = Some ((None, []), d')"
    using demo_integrity_ends by (auto simp: map_option_eq_Some)
  have s: "d_db (demo_disp shared_db demo_disk) = shared_db" by (simp add: demo_disp_def NewDispatcher_def)
  have db: "media_items shared_db = [shared_item 1 (Some 0), shared_item 2 None]" "clock shared_db = 100 * 24 * hour" "faults shared_db = []"
    by (simp_all add: shared_db_def empty_db_def)
  have item: "file_hash (shared_item i t) = ''abcdef''" "item_id (shared_item i t) = i" "item_missing_since (shared_item i t) = t" for i t
    by (simp_all add: shared_item_def)
  have "hex_hash ''abcdef''" by (simp add: hex_hash_def hex_char_def)
  then have hyps: "faults (d_db (demo_disp shared_db demo_disk)) = []" "\<forall>k. \<not> denied demo_job_env k" "data_path demo_job_env \<noteq> []"
    "\<forall>m \<in> set (media_items (d_db (demo_disp shared_db demo_disk))). hex_hash (file_hash m)"
    "distinct (map item_id (media_items (d_db (demo_disp shared_db demo_disk))))"
    by (simp_all add: s db item)
  have stale: "stale_item (100 * 24 * hour) (shared_item 1 (Some 0))" "\<not> stale_item (100 * 24 * hour) (shared_item 2 None)"
    by (simp_all add: stale_item_def item hour_pos)
  have in_db: "shared_item 1 (Some 0) \<in> set (media_items shared_db)" "shared_item 2 None \<in> set (media_items shared_db)"
    by (simp_all add: db)
  note all = pruning_takes_shared_data [OF d' hyps, THEN conjunct2, THEN conjunct2, unfolded s db(2)]
  show ?thesis using d' bspec [OF bspec [OF all in_db(1)] in_db(2)] stale by (simp only: item demo_job_env_sel simp_thms) blast
qed

section \<open>Orphan cleanup\<close>

text \<open>A disk as an operating system keeps it: no path twice, every node in a directory, and names that
  are names.\<close>

definition tree_disk :: "disk \<Rightarrow> bool" where
  "tree_disk w \<longleftrightarrow> distinct (map n_path w)
     \<and> (\<forall>n \<in> set w. butlast (n_path n) \<noteq> [] \<longrightarrow> is_directory (butlast (n_path n)) w)
     \<and> (\<forall>n \<in> set w. \<forall>e \<in> set (tl (n_path n)). path_name e)"

lemma node_at_distinct:
  assumes "distinct (map n_path w)"
  shows "node_at k w = Some n \<longleftrightarrow> n \<in> set w \<and> n_path n = k"
  using assms
proof (induction w)
  case (Cons m w)
  then show ?case by (cases "n_path m = k") (auto simp: node_at_def image_iff)
qed (simp add: node_at_def)

lemma is_directory_distinct:
  assumes "distinct (map n_path w)"
  shows "is_directory k w \<longleftrightarrow> (\<exists>n \<in> set w. n_path n = k \<and> n_dir n)"
proof (cases "node_at k w")
  case None
  then show ?thesis using node_at_distinct [OF assms, of k] by (auto simp: is_directory_def)
next
  case (Some m)
  then have "\<forall>n \<in> set w. n_path n = k \<longrightarrow> n = m" and "m \<in> set w \<and> n_path m = k"
    using node_at_distinct [OF assms, of k] by (metis option.inject)+
  then show ?thesis using Some by (auto simp: is_directory_def)
qed

lemma ReadDir_entries:
  assumes "\<not> unreadable e (path_key p)" and "is_directory (path_key p) w"
  shows "\<exists>es. os_ReadDir e p w = Some es
    \<and> (\<forall>name b. (name, b) \<in> set es \<longleftrightarrow> (\<exists>n \<in> set w. n_path n = path_key p @ [name] \<and> n_dir n = b))"
proof -
  have "(name, b) \<in> set (List.map_filter (entry_of (path_key p)) w) \<longleftrightarrow> (\<exists>n \<in> set w. n_path n = path_key p @ [name] \<and> n_dir n = b)" for name b
    by (auto simp: List.map_filter_def entry_of_def image_iff split: if_splits) (metis append_butlast_last_id)+
  then show ?thesis using assms by (simp add: os_ReadDir_def Let_def)
qed

lemma item_path_key:
  assumes "base \<noteq> []" and "path_name (take 2 h)" "path_name (take 2 (drop 2 h))" "path_name (drop 4 h)"
  shows "\<exists>p. ItemDataPath base h = Some p \<and> path_key p = item_key base h"
proof -
  have "\<not> length h < 4" using assms(4) by (auto simp: path_name_def)
  then show ?thesis
    using assms path_key_join [of base "[''derived_media'', take 2 h, take 2 (drop 2 h), drop 4 h]"]
    by (simp add: ItemDataPath_def item_key_def)
qed

lemma item_key_parts:
  assumes "length l1 = 2" "length l2 = 2"
  shows "item_key base (l1 @ l2 @ l3) = path_key base @ [''derived_media'', l1, l2, l3]"
  using assms by (simp add: item_key_def)

text \<open>What the walk over the directories keeps: the hashes it has come across are those that are looked
  up already and those of the batch, and the disk is the first one without the orphans looked up.\<close>

definition without :: "string \<Rightarrow> string set \<Rightarrow> disk \<Rightarrow> disk" where
  "without base hs w = filter (\<lambda>n. \<forall>h \<in> hs. \<not> prefix (item_key base h) (n_path n)) w"

definition orphan_inv :: "('e) job_env_scheme \<Rightarrow> media_item list \<Rightarrow> disk \<Rightarrow> string set \<Rightarrow> orphan_run \<Rightarrow> bool" where
  "orphan_inv env M w P s \<longleftrightarrow> (\<exists>Q. P = Q \<union> fst ` set (or_batch s)
     \<and> d_world (or_disp s) = without (data_path env) (Q - file_hash ` set M) w)
     \<and> faults (d_db (or_disp s)) = [] \<and> \<not> d_cancelled (or_disp s) \<and> media_items (d_db (or_disp s)) = M
     \<and> (\<forall>(h, p) \<in> set (or_batch s). path_key p = item_key (data_path env) h)"

lemma without_without: "without base A (without base B w) = without base (A \<union> B) w"
  by (auto simp: without_def conj_commute intro!: filter_cong)

lemma clean_fold:
  assumes "\<forall>k. \<not> denied env k" and "\<forall>(h, p) \<in> set b. path_key p = item_key (data_path env) h"
  shows "\<exists>d. or_disp (fold (clean_entry env ex) b s) = d \<and> d_db d = d_db (or_disp s) \<and> d_cancelled d = d_cancelled (or_disp s)
    \<and> d_world d = without (data_path env) (fst ` set b - ex) (d_world (or_disp s))"
  using assms(2)
proof (induction b arbitrary: s)
  case (Cons x b)
  obtain h p where x: "x = (h, p)" by fastforce
  have free: "\<forall>k. \<not> denied (disk_part env) k" using assms(1) by (simp add: disk_env.defs)
  define s1 where "s1 = clean_entry env ex (h, p) s"
  have s1: "d_db (or_disp s1) = d_db (or_disp s) \<and> d_cancelled (or_disp s1) = d_cancelled (or_disp s)
      \<and> d_world (or_disp s1) = without (data_path env) ({h} - ex) (d_world (or_disp s))"
    using Cons.prems x RemoveAll_free [OF free, of p]
    by (auto simp: s1_def clean_entry_def on_disk_def without_def Let_def insert_Diff_if)
  have "\<forall>(h, p) \<in> set b. path_key p = item_key (data_path env) h" using Cons.prems by simp
  moreover have "fst ` set (x # b) - ex = (fst ` set b - ex) \<union> ({h} - ex)" by (auto simp: x)
  ultimately show ?case using Cons.IH [of s1] s1
    by (simp only: fold_simps x s1_def [symmetric] without_without)
qed (simp add: without_def)

lemma flush_keeps:
  assumes "orphan_inv env M w P s" and "\<forall>k. \<not> denied env k"
  shows "\<exists>s'. flush_orphans env s = (None, s') \<and> orphan_inv env M w P s' \<and> or_batch s' = []"
proof (cases "or_batch s = []")
  case True
  then show ?thesis using assms(1) by (simp add: flush_orphans_def)
next
  case False
  obtain Q where Q: "P = Q \<union> fst ` set (or_batch s)" "d_world (or_disp s) = without (data_path env) (Q - file_hash ` set M) w"
    using assms(1) by (auto simp: orphan_inv_def)
  define ex where "ex = set (filter (\<lambda>h. h \<in> set (map fst (or_batch s))) (map file_hash M))"
  have healthy: "faults (d_db (or_disp s)) = []" "media_items (d_db (or_disp s)) = M" "\<not> d_cancelled (or_disp s)"
    and b: "\<forall>(h, p) \<in> set (or_batch s). path_key p = item_key (data_path env) h"
    using assms(1) by (simp_all add: orphan_inv_def)
  have q: "on_db (MediaItemFindExistingHashes (map fst (or_batch s))) (or_disp s) = (Inr ex, or_disp s)"
    using healthy by (simp add: on_db_healthy MediaItemFindExistingHashes_def ex_def)
  define s1 where "s1 = fold (clean_entry env ex) (or_batch s) s"
  have run: "flush_orphans env s = (None, s1\<lparr> or_batch := [] \<rparr>)"
    using False q by (simp add: flush_orphans_def s1_def)
  have s1: "d_db (or_disp s1) = d_db (or_disp s)" "d_cancelled (or_disp s1) = d_cancelled (or_disp s)"
    "d_world (or_disp s1) = without (data_path env) (fst ` set (or_batch s) - ex) (d_world (or_disp s))"
    using clean_fold [OF assms(2) b, of ex s] by (simp_all add: s1_def)
  have "fst ` set (or_batch s) - ex \<union> (Q - file_hash ` set M) = P - file_hash ` set M"
    unfolding Q(1) ex_def by (auto simp: image_iff)
  then have "d_world (or_disp s1) = without (data_path env) (P - file_hash ` set M) w"
    using s1(3) Q(2) by (simp add: without_without)
  then show ?thesis using run s1 healthy by (simp add: orphan_inv_def)
qed

lemma for_each_walk:
  assumes "\<And>x P s. x \<in> set xs \<Longrightarrow> orphan_inv env M w P s \<Longrightarrow> \<exists>s'. f x s = Some (None, s') \<and> orphan_inv env M w (P \<union> C x) s'"
    and "orphan_inv env M w P s"
  shows "\<exists>s'. for_each f xs s = Some (None, s') \<and> orphan_inv env M w (P \<union> (\<Union>x \<in> set xs. C x)) s'"
  using assms
proof (induction xs arbitrary: P s)
  case (Cons x xs)
  obtain s1 where s1: "f x s = Some (None, s1)" "orphan_inv env M w (P \<union> C x) s1" using Cons.prems by fastforce
  have "\<exists>s'. for_each f xs s1 = Some (None, s') \<and> orphan_inv env M w (P \<union> C x \<union> (\<Union>x \<in> set xs. C x)) s'"
    using Cons.prems(1) s1(2) by (intro Cons.IH) simp_all
  then show ?case using s1(1) by (simp add: Un_assoc)
qed simp

lemma visit_l3_keeps:
  assumes "orphan_inv env M w P s" and "\<forall>k. \<not> denied env k" and "data_path env \<noteq> []"
    and "path_name l1" "path_name l2" "path_name (fst l3)" "length l1 = 2" "length l2 = 2"
  shows "\<exists>s'. visit_l3 env l1 l2 l3 s = Some (None, s') \<and> orphan_inv env M w (P \<union> (if snd l3 then {l1 @ l2 @ fst l3} else {})) s'"
proof (cases "snd l3")
  case False
  then show ?thesis using assms(1) by (simp add: visit_l3_def orphan_inv_def)
next
  case True
  define h where "h = l1 @ l2 @ fst l3"
  have "path_name (take 2 h)" "path_name (take 2 (drop 2 h))" "path_name (drop 4 h)" using assms by (simp_all add: h_def)
  then obtain p where p: "ItemDataPath (data_path env) h = Some p" "path_key p = item_key (data_path env) h"
    using item_path_key assms(3) by blast
  define s1 where "s1 = s\<lparr> or_batch := or_batch s @ [(h, p)] \<rparr>"
  have "orphan_inv env M w (P \<union> {h}) s1" using assms(1) p(2) by (auto simp: orphan_inv_def s1_def)
  moreover have "visit_l3 env l1 l2 l3 s = Some (if length (or_batch s1) \<ge> orphanBatchSize then flush_orphans env s1 else (None, s1))"
    using True assms(1) p(1) by (simp add: visit_l3_def orphan_inv_def h_def [symmetric] s1_def Let_def)
  ultimately show ?thesis using flush_keeps [of env M w "P \<union> {h}" s1] assms(2) True by (auto simp: h_def)
qed

text \<open>The directories two levels below the derived files are never removed, and neither are the entries
  of one that were not looked up.\<close>

definition leaves :: "string \<Rightarrow> disk \<Rightarrow> string \<Rightarrow> string \<Rightarrow> string set" where
  "leaves base w l1 l2 = {l1 @ l2 @ l3 |l3. is_directory (path_key base @ [''derived_media'', l1, l2, l3]) w}"

definition level :: "disk \<Rightarrow> string list \<Rightarrow> string set" where
  "level w k = {l. length l = 2 \<and> is_directory (k @ [l]) w}"

lemma short_key_stays:
  assumes "length k < length (path_key base) + 4" and "n_path n = k"
  shows "\<not> prefix (item_key base h) (n_path n)"
  using assms prefix_length_le [of "item_key base h" k] by (auto simp: item_key_def)

lemma without_short:
  assumes "length k < length (path_key base) + 4"
  shows "is_directory k (without base hs w) = is_directory k w"
proof -
  have "node_at k (without base hs w) = node_at k w"
    unfolding node_at_def without_def using short_key_stays [OF assms]
    by (induction w) auto
  then show ?thesis by (simp add: is_directory_def)
qed

lemma tree_disk_name: "tree_disk w \<Longrightarrow> is_directory (k @ [l]) w \<Longrightarrow> k \<noteq> [] \<Longrightarrow> path_name l"
  by (cases k) (auto simp: tree_disk_def is_directory_distinct)

lemma tree_disk_parent: "tree_disk w \<Longrightarrow> is_directory (k @ [l]) w \<Longrightarrow> k \<noteq> [] \<Longrightarrow> is_directory k w"
  by (auto simp: tree_disk_def is_directory_distinct)

lemma item_key_hash:
  assumes "item_key base h = path_key base @ [''derived_media'', l1, l2, l3]"
  shows "h = l1 @ l2 @ l3"
proof -
  have "take 2 h = l1" "take 2 (drop 2 h) = l2" "drop 2 (drop 2 h) = l3" using assms by (simp_all add: item_key_def)
  then show ?thesis by (metis append_take_drop_id)
qed

lemma visit_l2_keeps:
  assumes inv: "orphan_inv env M w P s" and free: "\<forall>k. \<not> denied env k" "\<forall>k. \<not> unreadable env k" and base: "data_path env \<noteq> []"
    and tree: "tree_disk w" and l1: "path_name l1" "length l1 = 2" and key: "path_key (l1Path @ ''/'' @ fst l2) = path_key (data_path env) @ [''derived_media'', l1, fst l2]"
    and l2: "snd l2 \<Longrightarrow> length (fst l2) = 2 \<Longrightarrow> is_directory (path_key (data_path env) @ [''derived_media'', l1, fst l2]) w"
  shows "\<exists>s'. visit_l2 env l1Path l1 l2 s = Some (None, s')
    \<and> orphan_inv env M w (P \<union> (if snd l2 \<and> length (fst l2) = 2 then leaves (data_path env) w l1 (fst l2) else {})) s'"
proof (cases "snd l2 \<and> length (fst l2) = 2")
  case False
  then show ?thesis using inv by (auto simp: visit_l2_def)
next
  case True
  define k where "k = path_key (data_path env) @ [''derived_media'', l1, fst l2]"
  obtain Q where Q: "P = Q \<union> fst ` set (or_batch s)" "d_world (or_disp s) = without (data_path env) (Q - file_hash ` set M) w"
    using inv by (auto simp: orphan_inv_def)
  have dir: "is_directory k w" using l2 True by (simp add: k_def)
  then have dir': "is_directory k (d_world (or_disp s))" using without_short [of k "data_path env"] by (simp add: Q(2) k_def)
  have name2: "path_name (fst l2)"
    using tree_disk_name [OF tree, of "path_key (data_path env) @ [''derived_media'', l1]" "fst l2"] dir by (simp add: k_def)
  have "\<not> unreadable (disk_part env) (path_key (l1Path @ ''/'' @ fst l2))" using free(2) by (simp add: disk_env.defs)
  then obtain es where es: "os_ReadDir (disk_part env) (l1Path @ ''/'' @ fst l2) (d_world (or_disp s)) = Some es"
    and mem: "\<forall>name b. (name, b) \<in> set es \<longleftrightarrow> (\<exists>n \<in> set (d_world (or_disp s)). n_path n = k @ [name] \<and> n_dir n = b)"
    using ReadDir_entries [of "disk_part env" "l1Path @ ''/'' @ fst l2" "d_world (or_disp s)"] dir' key by (auto simp: k_def)
  define C where "C = (\<lambda>l3 :: string \<times> bool. if snd l3 then {l1 @ fst l2 @ fst l3} else {})"
  have names: "path_name (fst l3)" if "l3 \<in> set es" for l3
  proof -
    have "\<exists>n \<in> set w. n_path n = k @ [fst l3]" using mem that by (cases l3) (auto simp: Q(2) without_def)
    then show ?thesis using tree by (auto simp: tree_disk_def k_def tl_append split: list.splits)
  qed
  have step: "\<exists>s'. visit_l3 env l1 (fst l2) l3 s = Some (None, s') \<and> orphan_inv env M w (P \<union> C l3) s'"
    if "l3 \<in> set es" "orphan_inv env M w P s" for l3 P s
    unfolding C_def using visit_l3_keeps [OF that(2) free(1) base l1(1) name2 names [OF that(1)] l1(2)] True by blast
  have "\<exists>s'. for_each (visit_l3 env l1 (fst l2)) es s = Some (None, s') \<and> orphan_inv env M w (P \<union> (\<Union>x \<in> set es. C x)) s'"
    by (rule for_each_walk [OF step inv])
  moreover have "P \<union> (\<Union>x \<in> set es. C x) = P \<union> leaves (data_path env) w l1 (fst l2)"
  proof -
    have seen: "h \<in> (\<Union>x \<in> set es. C x) \<longleftrightarrow> (\<exists>l3. h = l1 @ fst l2 @ l3 \<and> (\<exists>n \<in> set (d_world (or_disp s)). n_path n = k @ [l3] \<and> n_dir n))" for h
    proof -
      have "h \<in> (\<Union>x \<in> set es. C x) \<longleftrightarrow> (\<exists>l3. (l3, True) \<in> set es \<and> h = l1 @ fst l2 @ l3)"
        by (force simp: C_def split: if_splits)
      then show ?thesis by (simp only: mem) blast
    qed
    have there: "h \<in> leaves (data_path env) w l1 (fst l2) \<longleftrightarrow> (\<exists>l3. h = l1 @ fst l2 @ l3 \<and> (\<exists>n \<in> set w. n_path n = k @ [l3] \<and> n_dir n))" for h
      using tree by (auto simp: leaves_def k_def tree_disk_def is_directory_distinct)
    have same: "n \<in> set (d_world (or_disp s))" if n: "n \<in> set w" "n_path n = k @ [l3]" "l1 @ fst l2 @ l3 \<notin> P" for n l3
    proof -
      have "\<not> prefix (item_key (data_path env) h) (n_path n)" if "h \<in> Q" for h
      proof
        assume "prefix (item_key (data_path env) h) (n_path n)"
        then have "item_key (data_path env) h = path_key (data_path env) @ [''derived_media'', l1, fst l2, l3]"
          using n(2) by (auto simp: prefix_def item_key_def k_def)
        then have "h = l1 @ fst l2 @ l3"
          by (rule item_key_hash)
        then show False using n(3) that Q(1) by blast
      qed
      then show ?thesis using n(1) Q(2) by (simp add: without_def)
    qed
    have "set (d_world (or_disp s)) \<subseteq> set w" using Q(2) by (auto simp: without_def)
    show ?thesis
    proof (intro equalityI subsetI)
      fix h assume "h \<in> P \<union> (\<Union>x \<in> set es. C x)"
      then show "h \<in> P \<union> leaves (data_path env) w l1 (fst l2)"
        using \<open>set _ \<subseteq> set w\<close> unfolding Un_iff seen there by blast
    next
      fix h assume "h \<in> P \<union> leaves (data_path env) w l1 (fst l2)"
      then show "h \<in> P \<union> (\<Union>x \<in> set es. C x)"
        using same unfolding Un_iff seen there by blast
    qed
  qed
  ultimately show ?thesis using es True by (simp add: visit_l2_def)
qed

text \<open>The derived directories of the first two levels, with every leaf below them.\<close>

definition leaf_hashes :: "string \<Rightarrow> disk \<Rightarrow> string \<Rightarrow> string set" where
  "leaf_hashes base w l1 = (\<Union>l2 \<in> level w (path_key base @ [''derived_media'', l1]). leaves base w l1 l2)"

definition all_hashes :: "string \<Rightarrow> disk \<Rightarrow> string set" where
  "all_hashes base w = (\<Union>l1 \<in> level w (path_key base @ [''derived_media'']). leaf_hashes base w l1)"

text \<open>A directory of one of the upper levels is read as it was in the beginning.\<close>

lemma read_level:
  assumes inv: "orphan_inv env M w P s" and readable: "\<forall>k. \<not> unreadable env k" and tree: "tree_disk w"
    and dir: "is_directory k w" and short: "length k + 1 < length (path_key (data_path env)) + 4" and key: "path_key p = k"
  shows "\<exists>es. os_ReadDir (disk_part env) p (d_world (or_disp s)) = Some es
    \<and> (\<forall>x \<in> set es. snd x \<longrightarrow> is_directory (k @ [fst x]) w)
    \<and> {fst x |x. x \<in> set es \<and> snd x \<and> length (fst x) = 2} = level w k"
proof -
  obtain Q where Q: "d_world (or_disp s) = without (data_path env) Q w"
    using inv by (auto simp: orphan_inv_def)
  have "is_directory (path_key p) (d_world (or_disp s))" using without_short [of k "data_path env"] short dir key by (simp add: Q)
  moreover have "\<not> unreadable (disk_part env) (path_key p)" using readable by (simp add: disk_env.defs)
  ultimately obtain es where es: "os_ReadDir (disk_part env) p (d_world (or_disp s)) = Some es"
    and mem: "\<forall>name b. (name, b) \<in> set es \<longleftrightarrow> (\<exists>n \<in> set (d_world (or_disp s)). n_path n = k @ [name] \<and> n_dir n = b)"
    using ReadDir_entries [of "disk_part env" p "d_world (or_disp s)"] unfolding key by blast
  have "n \<in> set (d_world (or_disp s)) \<longleftrightarrow> n \<in> set w" if "n_path n = k @ [name]" for n name
    using short_key_stays [of "k @ [name]" "data_path env" n] short that by (simp add: Q without_def)
  then have "(name, True) \<in> set es \<longleftrightarrow> is_directory (k @ [name]) w" for name
    using mem tree by (auto simp: tree_disk_def is_directory_distinct)
  then have "x \<in> set es \<and> snd x \<longleftrightarrow> snd x \<and> is_directory (k @ [fst x]) w" for x by (cases x) auto
  then show ?thesis using es by (auto simp: level_def) (metis fst_conv snd_conv)
qed

lemma visit_l1_keeps:
  assumes inv: "orphan_inv env M w P s" and free: "\<forall>k. \<not> denied env k" "\<forall>k. \<not> unreadable env k" and base: "data_path env \<noteq> []"
    and tree: "tree_disk w" and derived: "path_key derived = path_key (data_path env) @ [''derived_media'']" "derived \<noteq> []"
    and l1: "snd l1 \<Longrightarrow> is_directory (path_key (data_path env) @ [''derived_media'', fst l1]) w"
  shows "\<exists>s'. visit_l1 env derived l1 s = Some (None, s')
    \<and> orphan_inv env M w (P \<union> (if snd l1 \<and> length (fst l1) = 2 then leaf_hashes (data_path env) w (fst l1) else {})) s'"
proof (cases "snd l1 \<and> length (fst l1) = 2")
  case False
  then show ?thesis using inv by (auto simp: visit_l1_def)
next
  case True
  define k where "k = path_key (data_path env) @ [''derived_media'', fst l1]"
  have dir: "is_directory k w" using l1 True by (simp add: k_def)
  have name1: "path_name (fst l1)"
    using tree_disk_name [OF tree, of "path_key (data_path env) @ [''derived_media'']" "fst l1"] dir by (simp add: k_def)
  have key: "path_key (derived @ ''/'' @ fst l1) = k" using path_key_slash [OF derived(2) name1] derived(1) by (simp add: k_def)
  obtain es where es: "os_ReadDir (disk_part env) (derived @ ''/'' @ fst l1) (d_world (or_disp s)) = Some es"
    and dirs: "\<forall>x \<in> set es. snd x \<longrightarrow> is_directory (k @ [fst x]) w"
    and level: "{fst x |x. x \<in> set es \<and> snd x \<and> length (fst x) = 2} = level w k"
    using read_level [OF inv free(2) tree dir _ key] by (auto simp: k_def)
  define C where "C = (\<lambda>l2 :: string \<times> bool. if snd l2 \<and> length (fst l2) = 2 then leaves (data_path env) w (fst l1) (fst l2) else {})"
  have step: "\<exists>s'. visit_l2 env (derived @ ''/'' @ fst l1) (fst l1) l2 s = Some (None, s') \<and> orphan_inv env M w (P \<union> C l2) s'"
    if "l2 \<in> set es" "orphan_inv env M w P s" for l2 P s
  proof (cases "snd l2")
    case d2: True
    then have d: "is_directory (k @ [fst l2]) w" using dirs that(1) by blast
    have "path_name (fst l2)" by (rule tree_disk_name [OF tree d]) (simp add: k_def)
    then have "path_key ((derived @ ''/'' @ fst l1) @ ''/'' @ fst l2) = k @ [fst l2]"
      using path_key_slash [of "derived @ ''/'' @ fst l1" "fst l2"] key by simp
    then show ?thesis unfolding C_def using d True
      by (intro visit_l2_keeps [OF that(2) free base tree name1]) (simp_all add: k_def)
  next
    case False
    then show ?thesis using that(2) by (simp add: visit_l2_def C_def)
  qed
  have "\<exists>s'. for_each (visit_l2 env (derived @ ''/'' @ fst l1) (fst l1)) es s = Some (None, s')
      \<and> orphan_inv env M w (P \<union> (\<Union>x \<in> set es. C x)) s'"
    by (rule for_each_walk [where C = C, OF step inv])
  moreover have "(\<Union>x \<in> set es. C x) = leaf_hashes (data_path env) w (fst l1)"
    unfolding leaf_hashes_def k_def [symmetric] level [symmetric] by (force simp: C_def split: if_splits)
  ultimately show ?thesis using es True by (simp add: visit_l1_def)
qed

text \<open>The hashes the walk comes across are those of the leaf directories.\<close>

lemma all_hashes_iff:
  assumes "tree_disk w"
  shows "h \<in> all_hashes base w \<longleftrightarrow> 4 < length h \<and> is_directory (item_key base h) w"
proof
  assume "h \<in> all_hashes base w"
  then obtain l1 l2 l3 where h: "h = l1 @ l2 @ l3" "length l1 = 2" "length l2 = 2"
    and d: "is_directory (path_key base @ [''derived_media'', l1, l2, l3]) w"
    by (auto simp: all_hashes_def leaf_hashes_def leaves_def level_def)
  have "path_name l3" using tree_disk_name [OF assms, of "path_key base @ [''derived_media'', l1, l2]" l3] d by simp
  then show "4 < length h \<and> is_directory (item_key base h) w"
    using h d item_key_parts [OF h(2,3)] by (auto simp: path_name_def)
next
  assume h: "4 < length h \<and> is_directory (item_key base h) w"
  define l1 where "l1 = take 2 h"
  define l2 where "l2 = take 2 (drop 2 h)"
  define l3 where "l3 = drop 4 h"
  have len: "length l1 = 2" "length l2 = 2" using h by (auto simp: l1_def l2_def min_def)
  have "item_key base h = path_key base @ [''derived_media'', l1, l2, l3]" by (simp add: item_key_def l1_def l2_def l3_def)
  then have d3: "is_directory ((path_key base @ [''derived_media'', l1, l2]) @ [l3]) w" and eq: "h = l1 @ l2 @ l3"
    using h item_key_hash by auto
  have d2: "is_directory ((path_key base @ [''derived_media'', l1]) @ [l2]) w"
    using tree_disk_parent [OF assms d3] by simp
  have "is_directory ((path_key base @ [''derived_media'']) @ [l1]) w"
    using tree_disk_parent [OF assms d2] by simp
  then show "h \<in> all_hashes base w"
    using d2 d3 len by (auto simp: all_hashes_def leaf_hashes_def leaves_def level_def eq)
qed

text \<open>C13: The orphan cleanup removes exactly the derived directories whose name is a hash of no item, with
  all they hold: a directory of a hash some item still has stays, and no orphan is left, however
  the lookups are batched. It never touches an item.\<close>

theorem orphan_cleanup_exact:
  assumes healthy: "faults (d_db d) = []" "\<not> d_cancelled d" and free: "\<forall>k. \<not> denied env k" "\<forall>k. \<not> unreadable env k"
    and base: "data_path env \<noteq> []" and tree: "tree_disk (d_world d)"
    and derived: "is_directory (path_key (data_path env) @ [''derived_media'']) (d_world d)"
  shows "\<exists>d'. orphan_run_job env jc d = Some ((None, []), d') \<and> media_items (d_db d') = media_items (d_db d)
    \<and> d_world d' = filter (\<lambda>n. \<forall>h. 4 < length h \<and> is_directory (item_key (data_path env) h) (d_world d)
          \<and> h \<notin> file_hash ` set (media_items (d_db d)) \<longrightarrow> \<not> prefix (item_key (data_path env) h) (n_path n)) (d_world d)"
proof -
  define w where "w = d_world d"
  define M where "M = media_items (d_db d)"
  define d0 where "d0 = progress jc ''starting orphan cleanup'' d"
  define s0 where "s0 = \<lparr> or_batch = [], or_checked = 0, or_cleaned = 0, or_disp = d0 \<rparr>"
  define path where "path = data_path env @ ''/derived_media''"
  have key: "path_key path = path_key (data_path env) @ [''derived_media'']"
    using path_key_slash [OF base, of "''derived_media''"] by (simp add: path_def)
  have inv0: "orphan_inv env M w {} s0"
    using healthy by (auto simp: orphan_inv_def s0_def d0_def w_def M_def without_def)
  obtain es where es: "os_ReadDir (disk_part env) path (d_world (or_disp s0)) = Some es"
    and dirs: "\<forall>x \<in> set es. snd x \<longrightarrow> is_directory ((path_key (data_path env) @ [''derived_media'']) @ [fst x]) w"
    and level: "{fst x |x. x \<in> set es \<and> snd x \<and> length (fst x) = 2} = level w (path_key (data_path env) @ [''derived_media''])"
    using read_level [OF inv0 free(2) tree [folded w_def] derived [folded w_def] _ key] by auto
  define C where "C = (\<lambda>l1 :: string \<times> bool. if snd l1 \<and> length (fst l1) = 2 then leaf_hashes (data_path env) w (fst l1) else {})"
  have step: "\<exists>s'. visit_l1 env path l1 s = Some (None, s') \<and> orphan_inv env M w (P \<union> C l1) s'"
    if "l1 \<in> set es" "orphan_inv env M w P s" for l1 P s
    unfolding C_def using dirs that(1) key base
    by (intro visit_l1_keeps [OF that(2) free base tree [folded w_def]]) (auto simp: path_def)
  obtain s1 where s1: "for_each (visit_l1 env path) es s0 = Some (None, s1)" "orphan_inv env M w ({} \<union> (\<Union>x \<in> set es. C x)) s1"
    using for_each_walk [where xs = es and f = "visit_l1 env path" and C = C, OF step inv0] by blast
  have all: "(\<Union>x \<in> set es. C x) = all_hashes (data_path env) w"
    unfolding all_hashes_def level [symmetric] by (force simp: C_def split: if_splits)
  obtain s2 where s2: "flush_orphans env s1 = (None, s2)" "orphan_inv env M w (all_hashes (data_path env) w) s2" "or_batch s2 = []"
    using flush_keeps [OF s1(2) free(1)] all by auto
  have "\<exists>d'. orphan_run_job env jc d = Some ((None, []), d') \<and> d_world d' = d_world (or_disp s2) \<and> media_items (d_db d') = media_items (d_db (or_disp s2))"
    using es s1(1) s2(1) by (simp add: orphan_run_job_def finished_def d0_def [symmetric] path_def [symmetric] s0_def [symmetric] Let_def)
      (simp add: s0_def finished_def)
  moreover have "d_world (or_disp s2) = without (data_path env) (all_hashes (data_path env) w - file_hash ` set M) w"
    and "media_items (d_db (or_disp s2)) = M"
    using s2(2,3) by (auto simp: orphan_inv_def)
  moreover have "without (data_path env) (all_hashes (data_path env) w - file_hash ` set M) w
      = filter (\<lambda>n. \<forall>h. 4 < length h \<and> is_directory (item_key (data_path env) h) w \<and> h \<notin> file_hash ` set M
          \<longrightarrow> \<not> prefix (item_key (data_path env) h) (n_path n)) w"
    unfolding without_def by (rule filter_cong [OF refl]) (use all_hashes_iff [OF tree [folded w_def]] in blast)
  ultimately show ?thesis unfolding w_def [symmetric] M_def [symmetric] by metis
qed

lemma demo_tree: "tree_disk demo_disk"
  by (auto simp: tree_disk_def demo_disk_def path_name_def is_directory_def node_at_def)

theorem orphan_cleanup_exact_witness:
  "\<exists>d'. orphan_run_job demo_job_env maintenance_ctx (demo_disp (empty_db 0) demo_disk) = Some ((None, []), d')
    \<and> media_items (d_db d') = [] \<and> [''/'', ''d'', ''derived_media'', ''ab'', ''cd'', ''ef'', ''tiles''] \<notin> paths_of (d_world d')"
proof -
  have key: "path_key ''/d'' = [''/'', ''d'']" by code_simp
  define d :: job_disp where "d = demo_disp (empty_db 0) demo_disk"
  have d: "faults (d_db d) = []" "\<not> d_cancelled d" "d_world d = demo_disk" "media_items (d_db d) = []"
    by (simp_all add: d_def demo_disp_def NewDispatcher_def empty_db_def)
  have dirs: "is_directory (path_key (data_path demo_job_env) @ [''derived_media'']) (d_world d)"
    "is_directory (item_key ''/d'' ''abcdef'') (d_world d)"
    by (simp_all add: d key item_key_def demo_disk_def is_directory_def node_at_def)
  obtain d' where d': "orphan_run_job demo_job_env maintenance_ctx d = Some ((None, []), d')" "media_items (d_db d') = media_items (d_db d)"
    "d_world d' = filter (\<lambda>n. \<forall>h. 4 < length h \<and> is_directory (item_key (data_path demo_job_env) h) (d_world d)
          \<and> h \<notin> file_hash ` set (media_items (d_db d)) \<longrightarrow> \<not> prefix (item_key (data_path demo_job_env) h) (n_path n)) (d_world d)"
    using orphan_cleanup_exact [of d demo_job_env maintenance_ctx] d demo_tree dirs(1) by auto
  have "\<not> prefix (item_key ''/d'' ''abcdef'') q" if "q \<in> paths_of (d_world d')" for q
    using that dirs(2) d(4) unfolding d'(3) by (auto simp: paths_of_def)
  then have "[''/'', ''d'', ''derived_media'', ''ab'', ''cd'', ''ef'', ''tiles''] \<notin> paths_of (d_world d')"
    by (force simp: item_key_def key)
  then show ?thesis using d' d(4) unfolding d_def by auto
qed

end
