(* ===== verification/ScanJobs.thy ===== *)
theory ScanJobs
  imports JobWorld
begin

text \<open>
  The jobs that read one file: \<open>scan_photo.go\<close>, \<open>scan_video.go\<close> and \<open>scan_audio.go\<close> of
  \<open>internal/jobs/definitions\<close>. A value that does not fit its column makes the statement fail;
  a \<open>numeric\<close> column rounds half away from zero.
\<close>

section \<open>Columns\<close>

definition in_i32 :: "int \<Rightarrow> bool" where
  "in_i32 x \<longleftrightarrow> - (2 ^ 31) \<le> x \<and> x < 2 ^ 31"

definition fits :: "(int \<Rightarrow> bool) \<Rightarrow> int option \<Rightarrow> bool" where
  "fits P x \<longleftrightarrow> (case x of None \<Rightarrow> True | Some i \<Rightarrow> P i)"

text \<open>\<open>numeric\<close> with k decimals, in units of its last one, and its bound on the number of digits.\<close>

definition numeric_units :: "nat \<Rightarrow> rat \<Rightarrow> int" where
  "numeric_units k x = (if 0 \<le> x then \<lfloor>x * 10 ^ k + 1 / 2\<rfloor> else - \<lfloor>1 / 2 - x * 10 ^ k\<rfloor>)"

definition numeric_fits :: "nat \<Rightarrow> int \<Rightarrow> bool" where
  "numeric_fits digits u \<longleftrightarrow> \<bar>u\<bar> < 10 ^ digits"

definition bound :: "bool \<Rightarrow> 'a statement \<Rightarrow> 'a statement" where
  "bound ok stmt = (if ok then stmt else sql (\<lambda>s. (Inl BadQuery, s)))"

definition video_fits :: "video_values \<Rightarrow> bool" where
  "video_fits x \<longleftrightarrow> fits in_i32 (vv_duration x) \<and> fits in_i32 (vv_width x) \<and> fits in_i32 (vv_height x) \<and> fits in_i32 (vv_bitrate x)"

definition photo_fits :: "photo_metadata \<Rightarrow> bool" where
  "photo_fits p \<longleftrightarrow> fits in_i32 (width_px p) \<and> fits in_i32 (height_px p) \<and> fits in_i32 (iso p)
     \<and> fits (numeric_fits 4) (aperture_tenths p) \<and> fits (numeric_fits 6) (focal_length_tenths p)
     \<and> fits (numeric_fits 6) (focal_length_35mm_tenths p)"

definition audio_fits :: "audio_metadata \<Rightarrow> bool" where
  "audio_fits m \<longleftrightarrow> fits (numeric_fits 8) (duration_hundredths m)"

definition fits_i16 :: "int option \<Rightarrow> bool" where
  "fits_i16 = fits (\<lambda>i. - (2 ^ 15) \<le> i \<and> i < 2 ^ 15)"

section \<open>Shared steps\<close>

text \<open>A thumbnail for the collection of the item, when it has none; errors are only logged.\<close>

definition auto_collection_thumbnail :: "('e) job_env_scheme \<Rightarrow> int \<Rightarrow> job_disp \<Rightarrow> job_disp option" where
  "auto_collection_thumbnail env itemID d =
     (case on_db (MediaItemCollectionID itemID) d of
        (Inl _, d) \<Rightarrow> Some d
      | (Inr collID, d) \<Rightarrow>
          if CollectionThumbnailExists (data_path env) collID (d_world d) then Some d
          else map_option snd (GenerateThumbnailForCollection env collID d))"

definition or_else :: "'a option \<Rightarrow> 'a option \<Rightarrow> 'a option" where
  "or_else a b = (case a of None \<Rightarrow> b | Some x \<Rightarrow> Some x)"

definition not_blank :: "string option \<Rightarrow> bool" where
  "not_blank s \<longleftrightarrow> (case s of None \<Rightarrow> False | Some t \<Rightarrow> trim_space t \<noteq> [])"

section \<open>Photos\<close>

definition ScanPhotoMeta :: JobMeta where
  "ScanPhotoMeta = \<lparr> Description = ''Extract photo metadata and generate image variants'', TotalSteps = 1, SupportsSubjobs = False,
     MaxConcurrency = 0 \<rparr>"

definition stripped_keys :: "string list" where
  "stripped_keys = [''Directory'', ''SourceFile'', ''PreviewImage'', ''ThumbnailImage'', ''TiffMeteringImage'']"

definition strip_exif :: "exif \<Rightarrow> exif" where
  "strip_exif m = fold (\<lambda>k m. m(k := None)) stripped_keys m"

text \<open>An orientation of five to eight turns the picture by a quarter.\<close>

definition photo_dimensions :: "exif \<Rightarrow> int option \<times> int option" where
  "photo_dimensions m =
     (let w = ExifInt m ''ImageWidth''; h = ExifInt m ''ImageHeight'' in
      case ExifInt m ''Orientation'' of
        Some o' \<Rightarrow> if 5 \<le> o' \<and> o' \<le> 8 then (h, w) else (w, h)
      | None \<Rightarrow> (w, h))"

definition photo_row :: "('e) job_env_scheme \<Rightarrow> int \<Rightarrow> string \<Rightarrow> exif \<Rightarrow> photo_metadata" where
  "photo_row env itemID path m =
     \<lparr> pm_item = itemID, width_px = fst (photo_dimensions m), height_px = snd (photo_dimensions m),
       pm_created_at = createdAt (file_mod_time env path) m,
       camera_make = ExifStr m ''Make'', camera_model = ExifStr m ''Model'',
       lens_model = or_else (ExifStr m ''Lens'') (or_else (ExifStr m ''LensModel'')
         (or_else (ExifStr m ''LensInfo'') (ExifStr m ''LensID''))),
       shutter_speed = ExifStr m ''ExposureTime'',
       aperture_tenths = map_option (numeric_units 1) (ExifFloat m ''FNumber''),
       iso = or_else (ExifInt m ''ISO'') (ExifInt m ''PhotographicSensitivity''),
       focal_length_tenths = map_option (numeric_units 1) (ExifFloat m ''FocalLength''),
       focal_length_35mm_tenths = map_option (numeric_units 1)
         (or_else (ExifFloat m ''FocalLengthIn35mmFormat'') (ExifFloat m ''FocalLenIn35mmFilm'')),
       color_space = ExifStr m ''ColorSpace'',
       pm_description = or_else (ExifStr m ''Description'') (or_else (ExifStr m ''ImageDescription'') (ExifStr m ''Caption-Abstract'')),
       pm_keywords = mergeKeywords [ExifStrArray m ''Keywords'', ExifStrArray m ''Subject''],
       variants_generated_at = None, exif_raw = Some (json_of env m) \<rparr>"

text \<open>The steps after the metadata: the variants, their mark, and the thumbnail of the collection.\<close>

definition photo_files :: "('e) job_env_scheme \<Rightarrow> int \<Rightarrow> string \<Rightarrow> string \<Rightarrow> job_run" where
  "photo_files env itemID path fileHash jc d = do {
     present \<leftarrow> VariantsExist (data_path env) fileHash (d_world d);
     (ok, d) \<leftarrow> (if present then Some (True, d) else on_disk_opt (GenerateItemVariants env path (data_path env) fileHash) d);
     if \<not> ok then failed ''generate variants'' d
     else case on_db (PhotoUpdateVariants itemID) d of
       (Inl _, d) \<Rightarrow> failed ''update variants_generated_at'' d
     | (Inr _, d) \<Rightarrow> do { d \<leftarrow> auto_collection_thumbnail env itemID d; finished d } }"

definition scan_photo_run :: "('e) job_env_scheme \<Rightarrow> job_run" where
  "scan_photo_run env jc d =
     (case related_id (jc_job jc) of
        None \<Rightarrow> failed ''scan_photo job has no related_id'' d
      | Some itemID \<Rightarrow>
          (case on_db (MediaItemForProcessing itemID) d of
             (Inl _, d) \<Rightarrow> failed ''fetch media item'' d
           | (Inr (relativePath, _, fileHash), d) \<Rightarrow>
               let path = path_join [media_path env, relativePath];
                   (m, d) = extractExif env jc path False d;
                   d = (case ExifStr m ''Title'' of
                          None \<Rightarrow> d | Some t \<Rightarrow> if t = [] then d else ignore_db (MediaItemUpdateTitle itemID t) d);
                   row = photo_row env itemID path (strip_exif m) in
               (case on_db (bound (photo_fits row) (PhotoUpsert row)) d of
                  (Inl _, d) \<Rightarrow> failed ''upsert photo_metadata'' d
                | (Inr _, d) \<Rightarrow> photo_files env itemID path fileHash jc d)))"

definition HandleScanPhoto :: "('e) job_env_scheme \<Rightarrow> disk handler" where
  "HandleScanPhoto env = crashing (scan_photo_run env)"

section \<open>Videos\<close>

definition ScanVideoMeta :: JobMeta where
  "ScanVideoMeta = \<lparr> Description = ''Extract video metadata and generate thumbnail'', TotalSteps = 1, SupportsSubjobs = False,
     MaxConcurrency = 0 \<rparr>"

text \<open>\<open>\((\d{4})\)\s*$\<close>: the year in parentheses at the end of a name.\<close>

definition re_space :: "char \<Rightarrow> bool" where
  "re_space c \<longleftrightarrow> c \<in> {CHR '' '', CHR 0x09, CHR 0x0A, CHR 0x0C, CHR 0x0D}"

definition year_suffix :: "string \<Rightarrow> string option" where
  "year_suffix s =
     (let t = rev (dropWhile re_space (rev s)); e = drop (length t - 6) t in
      if length e = 6 \<and> hd e = CHR ''('' \<and> last e = CHR '')'' \<and> list_all is_digit (take 4 (tl e)) then Some (take 4 (tl e)) else None)"

definition video_values_of :: "exif \<Rightarrow> string option \<Rightarrow> video_values" where
  "video_values_of m date =
     \<lparr> vv_duration = map_option int_of_float (parseDuration m),
       vv_width = ExifInt m ''ImageWidth'', vv_height = ExifInt m ''ImageHeight'', vv_bitrate = parseVideoBitrate m,
       vv_video_codec = or_else (ExifStr m ''VideoCodec'') (ExifStr m ''CompressorID''),
       vv_audio_codec = or_else (ExifStr m ''AudioFormat'') (ExifStr m ''AudioCodec''),
       vv_date = date, vv_author = None \<rparr>"

text \<open>The title and the date of a video: from its tags, from its name, from the year in the name, from
  its timestamp. The panic of the name's parser is None.\<close>

definition video_title_date :: "string \<Rightarrow> exif \<Rightarrow> time option \<Rightarrow> (string option \<times> string option) option" where
  "video_title_date basename m exifDate = do {
     let tag = (if not_blank (ExifStr m ''Title'') then ExifStr m ''Title'' else None);
     (stripped, prefix) \<leftarrow> ExtractDatePrefixStr basename;
     let name_title = (if prefix \<noteq> None \<and> tag = None \<and> stripped \<noteq> [] then Some stripped else tag);
     Some (name_title, or_else prefix (or_else (year_suffix basename) (map_option format_date exifDate))) }"

definition video_cover :: "('e) job_env_scheme \<Rightarrow> string \<Rightarrow> string \<Rightarrow> exif \<Rightarrow> string \<Rightarrow> int \<Rightarrow> job_disp \<Rightarrow> job_disp option" where
  "video_cover env path fileHash m collType itemID d =
     (let (notManual, s) = VideoHasManualThumbnail itemID (d_db d); d = d\<lparr> d_db := s \<rparr> in
      if \<not> notManual then Some d
      else do {
        coverPath \<leftarrow> VariantPath (data_path env) fileHash ''cover'' ''webp'';
        if file_exists coverPath (d_world d) then Some d
        else map_option snd (generateVideoCover env (extractVideoCoverBytes env path m) path fileHash
          (map_option int_of_float (parseDuration m)) (videoCoverAspectRatio collType) d) })"

definition attach_transcode :: "('e) job_env_scheme \<Rightarrow> job_ctx \<Rightarrow> int \<Rightarrow> exif \<Rightarrow> job_disp \<Rightarrow> job_disp" where
  "attach_transcode env jc itemID m d =
     (case parseVideoBitrate m of
        None \<Rightarrow> d
      | Some b \<Rightarrow>
          if b > transcode_kbps env \<and> transcode_kbps env > 0 then
            (case on_db (VideoNeedsTranscode itemID) d of
               (Inr True, d) \<Rightarrow> AttachTranscodeSubJob jc itemID d
             | (_, d) \<Rightarrow> d)
          else d)"

text \<open>The steps after the metadata: the cover, the thumbnail of a collection of home movies, and the
  transcode.\<close>

definition video_files :: "('e) job_env_scheme \<Rightarrow> int \<Rightarrow> string \<Rightarrow> string \<Rightarrow> exif \<Rightarrow> string \<Rightarrow> job_run" where
  "video_files env itemID path fileHash m collType jc d = do {
     d \<leftarrow> video_cover env path fileHash m collType itemID d;
     d \<leftarrow> (if collType = ''video:home_movie'' then auto_collection_thumbnail env itemID d else Some d);
     finished (attach_transcode env jc itemID m d) }"

definition scan_video_run :: "('e) job_env_scheme \<Rightarrow> job_run" where
  "scan_video_run env jc d =
     (case related_id (jc_job jc) of
        None \<Rightarrow> failed ''scan_video job has no related_id'' d
      | Some itemID \<Rightarrow>
          (case on_db (MediaItemForProcessing itemID) d of
             (Inl _, d) \<Rightarrow> failed ''fetch media item'' d
           | (Inr (relativePath, _, fileHash), d) \<Rightarrow>
               let path = path_join [media_path env, relativePath];
                   (m, d) = extractExif env jc path True d;
                   (r, d) = on_db (MediaItemRootCollectionType itemID) d;
                   collType = (case r of Inl _ \<Rightarrow> [] | Inr t \<Rightarrow> t);
                   basename = trim_suffix (filepath_Base_of path) (filepath_Ext path) in
               do {
                 (ttl, date) \<leftarrow> video_title_date basename m (createdAt (file_mod_time env path) m);
                 let d = (if not_blank ttl then ignore_db (MediaItemUpdateTitle itemID (the ttl)) d else d);
                 (case on_db (bound (video_fits (video_values_of m date)) (VideoUpsert itemID (video_values_of m date))) d of
                    (Inl _, d) \<Rightarrow> failed ''upsert video_metadata'' d
                  | (Inr _, d) \<Rightarrow> video_files env itemID path fileHash m collType jc d) }))"

definition HandleScanVideo :: "('e) job_env_scheme \<Rightarrow> disk handler" where
  "HandleScanVideo env = crashing (scan_video_run env)"

section \<open>Audio\<close>

definition ScanAudioMeta :: JobMeta where
  "ScanAudioMeta = \<lparr> Description = ''Extract audio metadata, album art, and update library'', TotalSteps = 1, SupportsSubjobs = False,
     MaxConcurrency = 0 \<rparr>"

definition text_or :: "string option \<Rightarrow> string \<Rightarrow> string" where
  "text_or s fallback = (if not_blank s then the s else fallback)"

definition audio_title :: "string \<Rightarrow> exif \<Rightarrow> string" where
  "audio_title path m = text_or (ExifStr m ''Title'')
     (trim_suffix (filepath_Base_of path) (filepath_Ext (filepath_Base_of path)))"

text \<open>An artist that cannot be stored has the id 0.\<close>

definition track_artist :: "exif \<Rightarrow> job_disp \<Rightarrow> int \<times> job_disp" where
  "track_artist m d = (case on_db (ArtistUpsert (text_or (ExifStr m ''Artist'') ''Unknown Artist'')) d of
     (Inl _, d) \<Rightarrow> (0, d) | (Inr i, d) \<Rightarrow> (i, d))"

definition track_album_artist :: "exif \<Rightarrow> int \<Rightarrow> job_disp \<Rightarrow> int option \<times> job_disp" where
  "track_album_artist m artistID d =
     (let name = text_or (ExifStr m ''AlbumArtist'') [] in
      if name = [] then (None, d)
      else if name = text_or (ExifStr m ''Artist'') ''Unknown Artist'' then (Some artistID, d)
      else case on_db (ArtistUpsert name) d of (Inl _, d) \<Rightarrow> (None, d) | (Inr i, d) \<Rightarrow> (Some i, d))"

definition tag_year :: "exif \<Rightarrow> int option" where
  "tag_year m = map_option wrap16 (ExifInt m ''Year'')"

definition track_album :: "exif \<Rightarrow> int \<Rightarrow> int option \<Rightarrow> int \<Rightarrow> job_disp \<Rightarrow> (int option \<times> bool) \<times> job_disp" where
  "track_album m artistID albumArtistID rootID d =
     (if rootID = 0 then ((None, False), d)
      else
        let compilation = (ExifInt m ''Compilation'' = Some 1);
            (aa, d) = (if compilation then
                (case on_db (ArtistUpsert ''Various Artists'') d of (Inl _, d) \<Rightarrow> (albumArtistID, d) | (Inr v, d) \<Rightarrow> (Some v, d))
              else (or_else albumArtistID (Some artistID), d)) in
        (case on_db (AlbumUpsert (text_or (ExifStr m ''Album'') ''Unknown Album'') aa (tag_year m) (ExifStr m ''Genre'') rootID compilation) d of
           (Inl _, d) \<Rightarrow> ((None, False), d)
         | (Inr (i, manual), d) \<Rightarrow> ((Some i, manual), d)))"

definition has_picture :: "exif \<Rightarrow> bool" where
  "has_picture m \<longleftrightarrow> m ''Picture'' \<noteq> None \<or> m ''CoverArt'' \<noteq> None"

definition track_row :: "int \<Rightarrow> exif \<Rightarrow> int \<Rightarrow> int option \<Rightarrow> int option \<Rightarrow> audio_metadata" where
  "track_row itemID m artistID albumArtistID albumID =
     \<lparr> am_item = itemID, am_artist = (if artistID \<noteq> 0 then Some artistID else None), am_album_artist = albumArtistID,
       am_album = albumID,
       track_number = (case ExifStr m ''Track'' of None \<Rightarrow> None | Some t \<Rightarrow> parseTrackNumber t),
       disc_number = (case ExifStr m ''PartOfSet'' of None \<Rightarrow> None | Some t \<Rightarrow> parseTrackNumber t),
       duration_hundredths = map_option (numeric_units 2) (parseDuration m),
       am_genre = ExifStr m ''Genre'', am_year = tag_year m, replay_gain_hundredths = None,
       has_embedded_art = has_picture m, processed_at = None \<rparr>"

text \<open>The art of the album, and the thumbnail of an artist who has none.\<close>

definition audio_art :: "('e) job_env_scheme \<Rightarrow> job_ctx \<Rightarrow> string \<Rightarrow> int \<Rightarrow> int \<Rightarrow> job_disp \<Rightarrow> job_disp" where
  "audio_art env jc path albumID artistID d =
     (let d = (if AlbumThumbnailExists (data_path env) albumID (d_world d) then d
               else snd (extractAndGenerateAlbumArt env jc path albumID d)) in
      case on_db (ArtistGet artistID) d of
        (Inl _, d) \<Rightarrow> d
      | (Inr a, d) \<Rightarrow>
          if \<not> artist_manual_thumbnail a \<and> \<not> ArtistThumbnailExists (data_path env) artistID (d_world d)
             \<and> AlbumThumbnailExists (data_path env) albumID (d_world d)
          then snd (on_disk (GenerateArtistThumbnail env (AlbumThumbnailPath (data_path env) albumID ''webp'') (data_path env) artistID) d)
          else d)"

definition HandleScanAudio :: "('e) job_env_scheme \<Rightarrow> disk handler" where
  "HandleScanAudio env jc d =
     (case related_id (jc_job jc) of
        None \<Rightarrow> ((Some ''scan_audio job has no related_id'', []), d)
      | Some itemID \<Rightarrow>
          (case on_db (MediaItemForProcessing itemID) d of
             (Inl _, d) \<Rightarrow> ((Some ''fetch media item'', []), d)
           | (Inr (relativePath, _, _), d) \<Rightarrow>
               let path = path_join [media_path env, relativePath];
                   (m, d) = extractExif env jc path True d;
                   d = ignore_db (MediaItemUpdateTitle itemID (audio_title path m)) d;
                   (artistID, d) = track_artist m d;
                   (albumArtistID, d) = track_album_artist m artistID d;
                   (r, d) = on_db (MediaItemRootCollectionID itemID) d;
                   ((albumID, manual), d) = track_album m artistID albumArtistID (case r of Inl _ \<Rightarrow> 0 | Inr rootID \<Rightarrow> rootID) d;
                   row = track_row itemID m artistID albumArtistID albumID in
               (case on_db (bound (audio_fits row) (AudioTrackUpsert row)) d of
                  (Inl _, d) \<Rightarrow> ((Some ''upsert audio_metadata'', []), d)
                | (Inr _, d) \<Rightarrow>
                    ((None, []),
                     if has_picture m \<and> albumID \<noteq> None \<and> \<not> manual then audio_art env jc path (the albumID) artistID d else d))))"

end
