(* ===== verification/ScanJobsProps.thy ===== *)
theory ScanJobsProps
  imports ScanJobs JobsProps
begin

text \<open>
  What the jobs that read a file leave in the database: rows whose numbers fit their columns and
  whose references exist, and no transcode for a bitrate exiftool gives as a number.
\<close>

section \<open>Well-typed metadata\<close>

definition refers :: "int option \<Rightarrow> int list \<Rightarrow> bool" where
  "refers r ids \<longleftrightarrow> (case r of None \<Rightarrow> True | Some i \<Rightarrow> i \<in> set ids)"

definition video_row_fits :: "video_metadata \<Rightarrow> bool" where
  "video_row_fits v \<longleftrightarrow> fits in_i32 (duration_seconds v) \<and> fits in_i32 (vm_width v) \<and> fits in_i32 (vm_height v)
     \<and> fits in_i32 (bitrate_kbps v)"

definition track_fits :: "audio_metadata \<Rightarrow> bool" where
  "track_fits m \<longleftrightarrow> audio_fits m \<and> fits_i16 (track_number m) \<and> fits_i16 (disc_number m) \<and> fits_i16 (am_year m)"

text \<open>One row per item, the numbers in the ranges of their columns, and every reference to a row that
  is there.\<close>

definition photos_typed :: "db \<Rightarrow> bool" where
  "photos_typed s \<longleftrightarrow> distinct (map pm_item (photo_meta s))
     \<and> (\<forall>p \<in> set (photo_meta s). photo_fits p \<and> pm_item p \<in> item_id ` set (media_items s))"

definition videos_typed :: "db \<Rightarrow> bool" where
  "videos_typed s \<longleftrightarrow> distinct (map vm_item (video_meta s))
     \<and> (\<forall>v \<in> set (video_meta s). video_row_fits v \<and> vm_item v \<in> item_id ` set (media_items s))"

definition albums_typed :: "db \<Rightarrow> bool" where
  "albums_typed s \<longleftrightarrow> (\<forall>a \<in> set (albums s). fits_i16 (album_year a) \<and> refers (album_artist a) (map artist_id (artists s))
     \<and> find_collection (album_root a) s \<noteq> None)"

definition tracks_typed :: "db \<Rightarrow> bool" where
  "tracks_typed s \<longleftrightarrow> distinct (map am_item (audio_meta s))
     \<and> (\<forall>m \<in> set (audio_meta s). track_fits m \<and> am_item m \<in> item_id ` set (media_items s)
          \<and> refers (am_artist m) (map artist_id (artists s)) \<and> refers (am_album_artist m) (map artist_id (artists s))
          \<and> refers (am_album m) (map album_id (albums s)))"

definition library_typed :: "db \<Rightarrow> bool" where
  "library_typed s \<longleftrightarrow> photos_typed s \<and> videos_typed s \<and> albums_typed s \<and> tracks_typed s"

lemmas typed_defs = library_typed_def photos_typed_def videos_typed_def albums_typed_def tracks_typed_def

named_theorems typed_steps "statements that keep the library typed"

definition keeps_typed :: "'a statement \<Rightarrow> bool" where
  "keeps_typed stmt \<longleftrightarrow> (\<forall>s. library_typed s \<longrightarrow> library_typed (snd (stmt s)))"

lemma typed_faults [simp]: "library_typed (s\<lparr> faults := fs \<rparr>) = library_typed s"
  by (simp add: typed_defs find_collection_def)

lemma keeps_typed_sql:
  assumes "\<And>s. library_typed s \<Longrightarrow> library_typed (snd (f s))"
  shows "keeps_typed (sql f)"
  unfolding keeps_typed_def
proof (intro allI impI)
  fix s assume "library_typed s"
  then show "library_typed (snd (sql f s))" by (rule_tac sql_preserves) (simp_all add: assms)
qed

lemma keeps_typed_read: "(\<And>s. snd (f s) = s) \<Longrightarrow> keeps_typed (sql f)"
  by (rule keeps_typed_sql) simp

lemma keeps_typed_call_or:
  assumes "keeps_typed m" and "\<And>e. keeps_typed (h e)" and "\<And>a. keeps_typed (k a)"
  shows "keeps_typed (call_or m h k)"
  unfolding keeps_typed_def
proof (intro allI impI)
  fix s assume s: "library_typed s"
  have "library_typed s'" if "m s = (r, s')" for r s'
    using assms(1) s that unfolding keeps_typed_def by (metis snd_conv)
  then show "library_typed (snd (call_or m h k s))"
    using assms(2,3) unfolding keeps_typed_def by (intro call_or_rule [where Q = "\<lambda>x. library_typed (snd x)"]) auto
qed

lemma typed_reads [typed_steps]:
  "keeps_typed (MediaItemForProcessing i)" "keeps_typed (MediaItemCollectionID i)" "keeps_typed (MediaItemRootCollectionID i)"
  "keeps_typed (MediaItemRootCollectionType i)" "keeps_typed (VideoNeedsTranscode i)" "keeps_typed (select_video f i)"
  "keeps_typed (ArtistGet i)" "keeps_typed JobGetTranscodeParent"
  "keeps_typed (AlbumGetRandomNonCompilationIDByArtist n i j)"
  unfolding MediaItemForProcessing_def MediaItemCollectionID_def MediaItemRootCollectionID_def MediaItemRootCollectionType_def
    VideoNeedsTranscode_def select_video_def select_item_def ArtistGet_def JobGetTranscodeParent_def
    AlbumGetRandomNonCompilationIDByArtist_def
  by (rule keeps_typed_read, simp)+

lemma typed_other_tables:
  assumes "photo_meta t = photo_meta s" "video_meta t = video_meta s" "audio_meta t = audio_meta s" "albums t = albums s"
    "map artist_id (artists t) = map artist_id (artists s)" "map item_id (media_items t) = map item_id (media_items s)"
    "collections t = collections s"
  shows "library_typed t = library_typed s"
proof -
  have "item_id ` set (media_items t) = item_id ` set (media_items s)" using assms(6) by (metis set_map)
  then show ?thesis using assms by (simp add: typed_defs find_collection_def)
qed

lemma typed_title [typed_steps]: "keeps_typed (MediaItemUpdateTitle i t)"
  unfolding MediaItemUpdateTitle_def set_item_def
proof (rule keeps_typed_sql)
  fix s assume s: "library_typed s"
  have "map item_id (media_items (update_item i (\<lambda>m. m\<lparr> title := t \<rparr>) s)) = map item_id (media_items s)"
    by (simp add: update_item_def)
  then show "library_typed (snd (Inr (), update_item i (\<lambda>m. m\<lparr> title := t \<rparr>) s))"
    using s by (subst snd_conv, subst typed_other_tables) (simp_all add: update_item_def)
qed

lemma typed_job_create [typed_steps]: "keeps_typed (JobCreate ty rid rty p)"
  unfolding JobCreate_def by (rule keeps_typed_sql) (simp add: typed_defs find_collection_def split: option.split)

lemma typed_random_levels: "keeps_typed (random_hash_levels n rnd ids)"
proof (induction n arbitrary: ids)
  case (Suc n)
  have step: "keeps_typed (call_or (sql (\<lambda>s. (Inr (g s), s))) (\<lambda>e s. (Inl e, s)) (random_hash_levels n rnd))" for g
    by (rule keeps_typed_call_or [OF keeps_typed_read]) (simp_all add: Suc [unfolded keeps_typed_def] keeps_typed_def)
  have "keeps_typed (call_or (sql (\<lambda>s. (f s, s)))
     (\<lambda>e s. if e \<noteq> NoRows then (Inl e, s)
        else call_or (sql (\<lambda>s. (Inr (g s), s))) (\<lambda>e s. (Inl e, s)) (random_hash_levels n rnd) s) (\<lambda>h s. (Inr h, s)))" for f g
    using step [of g] by (intro keeps_typed_call_or keeps_typed_read) (auto simp: keeps_typed_def)
  then show ?case unfolding keeps_typed_def by simp
qed (simp add: keeps_typed_def)

lemma typed_random [typed_steps]: "keeps_typed (MediaItemRandomHashWithVariants rnd i)"
  unfolding MediaItemRandomHashWithVariants_def by (rule typed_random_levels)

lemma find_none_notin: "find (\<lambda>x. f x = i) xs = None \<longleftrightarrow> i \<notin> f ` set xs"
  by (auto simp: find_None_iff)

lemma item_exists_image: "item_exists i s \<longleftrightarrow> i \<in> item_id ` set (media_items s)"
  by (auto simp: item_exists_def list_ex_iff)

lemma keeps_typed_bound: "(ok \<Longrightarrow> keeps_typed stmt) \<Longrightarrow> keeps_typed (bound ok stmt)"
  by (simp add: bound_def keeps_typed_read)

lemma update_photo_typed:
  assumes "library_typed s" and "\<And>p. photo_fits p \<Longrightarrow> P (pm_item p) \<Longrightarrow> photo_fits (f p)" and "\<And>p. P (pm_item p) \<Longrightarrow> pm_item (f p) = pm_item p"
  shows "library_typed (update_photo P f s)"
proof -
  have ids: "map pm_item (photo_meta (update_photo P f s)) = map pm_item (photo_meta s)"
    unfolding update_photo_def using assms(3) by simp
  have "photos_typed (update_photo P f s)"
    using assms unfolding photos_typed_def ids by (auto simp: update_photo_def library_typed_def photos_typed_def)
  then show ?thesis using assms(1) by (simp add: typed_defs update_photo_def find_collection_def)
qed

lemma update_video_typed:
  assumes "library_typed s" and "\<And>v. video_row_fits v \<Longrightarrow> vm_item v = i \<Longrightarrow> video_row_fits (f v)" and "\<And>v. vm_item (f v) = vm_item v"
  shows "library_typed (update_video i f s)"
proof -
  have ids: "map vm_item (video_meta (update_video i f s)) = map vm_item (video_meta s)"
    unfolding update_video_def using assms(3) by simp
  have "videos_typed (update_video i f s)"
    using assms unfolding videos_typed_def ids by (auto simp: update_video_def library_typed_def videos_typed_def)
  then show ?thesis using assms(1) by (simp add: typed_defs update_video_def find_collection_def)
qed

lemma typed_photo_upsert:
  assumes "photo_fits row"
  shows "keeps_typed (PhotoUpsert row)"
  unfolding PhotoUpsert_def
proof (rule keeps_typed_sql)
  fix s assume s: "library_typed s"
  have row: "photo_fits (row\<lparr> variants_generated_at := None \<rparr>)" using assms by (simp add: photo_fits_def)
  have known: "library_typed (update_photo (\<lambda>j. j = pm_item row) (\<lambda>_. row\<lparr> variants_generated_at := None \<rparr>) s)"
    by (rule update_photo_typed [OF s]) (simp_all add: row)
  have fresh: "library_typed (s\<lparr> photo_meta := photo_meta s @ [row\<lparr> variants_generated_at := None \<rparr>] \<rparr>)"
    if "find_photo (pm_item row) s = None" and "item_exists (pm_item row) s"
    using s that row by (auto simp: typed_defs find_photo_def find_none_notin item_exists_image find_collection_def)
  show "library_typed (snd (let row = row\<lparr> variants_generated_at := None \<rparr>; i = pm_item row in
     if find_photo i s \<noteq> None then (Inr (), update_photo (\<lambda>j. j = i) (\<lambda>_. row) s)
     else if \<not> item_exists i s then (Inl ForeignKeyViolation, s)
     else (Inr (), s\<lparr> photo_meta := photo_meta s @ [row] \<rparr>)))"
    using s known fresh by (simp add: Let_def)
qed

lemma typed_photo_variants [typed_steps]: "keeps_typed (PhotoUpdateVariants i)"
  unfolding PhotoUpdateVariants_def
  by (rule keeps_typed_sql, subst snd_conv, rule update_photo_typed) (simp_all add: photo_fits_def)

lemma typed_video_upsert:
  assumes "video_fits x"
  shows "keeps_typed (VideoUpsert i x)"
  unfolding VideoUpsert_def
proof (rule keeps_typed_sql)
  fix s assume s: "library_typed s"
  have row: "video_row_fits (set_video_values x v)" for v
    using assms by (simp add: video_fits_def video_row_fits_def set_video_values_def)
  have key: "vm_item (set_video_values x v) = vm_item v" for v by (simp add: set_video_values_def)
  have known: "library_typed (update_video i (set_video_values x) s)"
    by (rule update_video_typed [OF s]) (simp_all add: row key)
  have fresh: "library_typed (s\<lparr> video_meta := video_meta s @ [set_video_values x (blank_video i)] \<rparr>)"
    if "find_video i s = None" and "item_exists i s"
    using s that row
    by (auto simp: typed_defs find_video_def find_none_notin item_exists_image find_collection_def key blank_video_def)
  show "library_typed (snd (if find_video i s \<noteq> None then (Inr (), update_video i (set_video_values x) s)
     else if \<not> item_exists i s then (Inl ForeignKeyViolation, s)
     else (Inr (), s\<lparr> video_meta := video_meta s @ [set_video_values x (blank_video i)] \<rparr>)))"
    using s known fresh by auto
qed

lemma refers_more: "refers r ids \<Longrightarrow> refers r (ids @ js)"
  by (auto simp: refers_def split: option.splits)

lemma typed_artist [typed_steps]: "keeps_typed (ArtistUpsert name)"
  unfolding ArtistUpsert_def
  by (rule keeps_typed_sql) (auto simp: typed_defs find_collection_def intro: refers_more split: option.split)

lemma typed_album:
  assumes "fits_i16 year"
  shows "keeps_typed (AlbumUpsert name aid year genre rid compil)"
  unfolding AlbumUpsert_def
proof (rule keeps_typed_sql)
  fix s assume s: "library_typed s"
  have ref: "refers aid (map artist_id (artists s))" if "\<not> (case aid of None \<Rightarrow> False | Some a \<Rightarrow> find_artist a s = None)"
    using that by (auto simp: refers_def find_artist_def find_none_notin split: option.splits)
  show "library_typed (snd (let key = (\<lambda>r. case r of None \<Rightarrow> 0 | Some a \<Rightarrow> a) in
     case find (\<lambda>al. album_name al = name \<and> key (album_artist al) = key aid \<and> album_root al = rid) (albums s) of
       Some al \<Rightarrow> (Inr (album_id al, manual_cover al), s)
     | None \<Rightarrow>
         if find_collection rid s = None \<or> (case aid of None \<Rightarrow> False | Some a \<Rightarrow> find_artist a s = None)
         then (Inl ForeignKeyViolation, s)
         else (Inr (next_album s, False), s\<lparr> albums := albums s @
           [\<lparr> album_id = next_album s, album_name = name, album_artist = aid, album_year = year, album_genre = genre,
              album_root = rid, is_compilation = compil, manual_cover = False, album_created_at = clock s \<rparr>],
           next_album := next_album s + 1 \<rparr>)))"
    using s ref assms unfolding Let_def
    by (auto simp: typed_defs find_collection_def intro: refers_more split: option.splits)
qed

lemma tracks_typed_update:
  "tracks_typed (s\<lparr> audio_meta := ms \<rparr>) \<longleftrightarrow> distinct (map am_item ms)
     \<and> (\<forall>m \<in> set ms. track_fits m \<and> am_item m \<in> item_id ` set (media_items s)
          \<and> refers (am_artist m) (map artist_id (artists s)) \<and> refers (am_album_artist m) (map artist_id (artists s))
          \<and> refers (am_album m) (map album_id (albums s)))"
  by (simp add: tracks_typed_def)

lemma typed_track:
  assumes "track_fits row"
  shows "keeps_typed (AudioTrackUpsert row)"
  unfolding AudioTrackUpsert_def
proof (rule keeps_typed_sql)
  fix s assume s: "library_typed s"
  define row' where "row' = row\<lparr> processed_at := Some (clock s) \<rparr>"
  have row': "track_fits row'" using assms by (simp add: row'_def track_fits_def audio_fits_def)
  define ok where "ok \<longleftrightarrow> item_exists (am_item row') s \<and> refers (am_artist row') (map artist_id (artists s))
    \<and> refers (am_album_artist row') (map artist_id (artists s)) \<and> refers (am_album row') (map album_id (albums s))"
  have ids: "map am_item (map (\<lambda>m. if am_item m = am_item row' then row' else m) (audio_meta s)) = map am_item (audio_meta s)" by simp
  have known: "library_typed (s\<lparr> audio_meta := map (\<lambda>m. if am_item m = am_item row' then row' else m) (audio_meta s) \<rparr>)" if ok
  proof -
    have "tracks_typed (s\<lparr> audio_meta := map (\<lambda>m. if am_item m = am_item row' then row' else m) (audio_meta s) \<rparr>)"
      using s row' that unfolding tracks_typed_update ids
      by (auto simp: ok_def library_typed_def tracks_typed_def item_exists_image)
    then show ?thesis using s by (simp add: typed_defs find_collection_def)
  qed
  have fresh: "library_typed (s\<lparr> audio_meta := audio_meta s @ [row'] \<rparr>)"
    if ok and "\<not> list_ex (\<lambda>m. am_item m = am_item row') (audio_meta s)"
    using s row' that by (auto simp: typed_defs ok_def item_exists_image find_collection_def list_ex_iff)
  have "library_typed (snd (if \<not> ok then (Inl ForeignKeyViolation, s)
     else if list_ex (\<lambda>m. am_item m = am_item row') (audio_meta s)
     then (Inr (), s\<lparr> audio_meta := map (\<lambda>m. if am_item m = am_item row' then row' else m) (audio_meta s) \<rparr>)
     else (Inr (), s\<lparr> audio_meta := audio_meta s @ [row'] \<rparr>)))"
    using s known fresh by auto
  then show "library_typed (snd (let row = row\<lparr> processed_at := Some (clock s) \<rparr>;
         known = (\<lambda>r tab. case r of None \<Rightarrow> True | Some i \<Rightarrow> i \<in> set tab) in
     if \<not> item_exists (am_item row) s \<or> \<not> known (am_artist row) (map artist_id (artists s))
        \<or> \<not> known (am_album_artist row) (map artist_id (artists s)) \<or> \<not> known (am_album row) (map album_id (albums s))
     then (Inl ForeignKeyViolation, s)
     else if list_ex (\<lambda>m. am_item m = am_item row) (audio_meta s)
     then (Inr (), s\<lparr> audio_meta := map (\<lambda>m. if am_item m = am_item row then row else m) (audio_meta s) \<rparr>)
     else (Inr (), s\<lparr> audio_meta := audio_meta s @ [row] \<rparr>)))"
    unfolding ok_def row'_def refers_def Let_def by (simp only: de_Morgan_conj)
qed

section \<open>The jobs keep the library typed\<close>

abbreviation typed_disp :: "job_disp \<Rightarrow> bool" where
  "typed_disp d \<equiv> library_typed (d_db d)"

lemma on_db_typed:
  "keeps_typed stmt \<Longrightarrow> typed_disp d \<Longrightarrow> on_db stmt d = (r, d') \<Longrightarrow> typed_disp d'"
  by (auto simp: on_db_def keeps_typed_def split_beta)

lemma on_db_snd [dest]: "keeps_typed stmt \<Longrightarrow> typed_disp d \<Longrightarrow> typed_disp (snd (on_db stmt d))"
  by (simp add: on_db_def keeps_typed_def split_beta)

lemma ignore_db_typed: "keeps_typed stmt \<Longrightarrow> typed_disp d \<Longrightarrow> typed_disp (ignore_db stmt d)"
  by (simp add: ignore_db_def on_db_def keeps_typed_def split_beta)

lemma on_disk_db [simp]: "d_db (snd (on_disk f d)) = d_db d"
  by (simp add: on_disk_def split_beta)

lemma on_disk_opt_db: "on_disk_opt f d = Some (x, d') \<Longrightarrow> d_db d' = d_db d"
  by (auto simp: on_disk_opt_def)

lemma extractExif_db: "extractExif env jc path b d = (m, d') \<Longrightarrow> d_db d' = d_db d"
  by (auto simp: extractExif_def break_exiftool_def split: if_splits exif_outcome.splits)

lemma ExtractBinary_db: "ExtractBinary env path tag d = (m, d') \<Longrightarrow> d_db d' = d_db d"
  by (auto simp: ExtractBinary_def break_exiftool_def split: if_splits binary_outcome.splits)

lemma collection_thumbnail_typed:
  assumes "GenerateThumbnailForCollection env i d = Some (b, d')" and "typed_disp d"
  shows "typed_disp d'"
proof -
  obtain r d1 where q: "on_db (MediaItemRandomHashWithVariants (random_pick env i) i) d = (r, d1)" by fastforce
  have d1: "typed_disp d1" using on_db_typed [OF typed_random assms(2) q] .
  have "d_db d' = d_db d1" if "on_disk f d1 = (b, d')" for f using on_disk_db [of f d1] that by simp
  then show ?thesis using assms(1) q d1 by (auto simp: GenerateThumbnailForCollection_def split: sum.splits)
qed

lemma auto_thumbnail_typed:
  assumes "auto_collection_thumbnail env i d = Some d'" and "typed_disp d"
  shows "typed_disp d'"
proof -
  obtain r d1 where q: "on_db (MediaItemCollectionID i) d = (r, d1)" by fastforce
  have d1: "typed_disp d1" using on_db_typed [OF typed_reads(2) assms(2) q] .
  show ?thesis using assms(1) q d1
    by (auto simp: auto_collection_thumbnail_def split: sum.splits if_splits dest: collection_thumbnail_typed)
qed

lemma photo_files_typed:
  assumes "photo_files env i path hash jc d = Some (x, d')" and "typed_disp d"
  shows "typed_disp d'"
proof -
  obtain present ok d1 where "(if present then Some (True, d) else on_disk_opt (GenerateItemVariants env path (data_path env) hash) d) = Some (ok, d1)"
    and rest: "(if \<not> ok then failed ''generate variants'' d1 else case on_db (PhotoUpdateVariants i) d1 of
       (Inl _, d) \<Rightarrow> failed ''update variants_generated_at'' d
     | (Inr _, d) \<Rightarrow> do { d \<leftarrow> auto_collection_thumbnail env i d; finished d }) = Some (x, d')"
    using assms(1) unfolding photo_files_def by (auto simp: bind_eq_Some_conv)
  then have d1: "typed_disp d1" using assms(2) by (auto split: if_splits dest: on_disk_opt_db)
  obtain r d2 where q: "on_db (PhotoUpdateVariants i) d1 = (r, d2)" by fastforce
  have d2: "typed_disp d2" using on_db_typed [OF typed_photo_variants d1 q] .
  show ?thesis using rest q d1 d2
    by (auto simp: failed_def finished_def bind_eq_Some_conv split: if_splits sum.splits dest: auto_thumbnail_typed)
qed

lemma transcode_parent_typed:
  assumes "findOrCreateTranscodeParent d = (r, d')" and "typed_disp d"
  shows "typed_disp d'"
proof -
  obtain r1 d1 where q1: "on_db JobGetTranscodeParent d = (r1, d1)" by fastforce
  obtain r2 d2 where q2: "on_db (JobCreate ''video_transcode'' None None None) d1 = (r2, d2)" by fastforce
  note d1 = on_db_typed [OF typed_reads(8) assms(2) q1]
  note d2 = on_db_typed [OF typed_job_create d1 q2]
  show ?thesis using assms(1) q1 q2 d1 d2 by (auto simp: findOrCreateTranscodeParent_def call_or_def split: sum.splits if_splits)
qed

lemma attach_typed:
  assumes "typed_disp d"
  shows "typed_disp (AttachTranscodeSubJob jc i d)"
proof -
  obtain r d1 where q: "findOrCreateTranscodeParent d = (r, d1)" by fastforce
  have d1: "typed_disp d1" using transcode_parent_typed [OF q assms] .
  have "typed_disp (snd (on_db (JobCreate ty a b c) d1))" for ty a b c by (rule on_db_snd [OF typed_job_create d1])
  then show ?thesis using assms q d1 by (simp add: AttachTranscodeSubJob_def call_or_def split: sum.splits)
qed

lemma attach_transcode_typed:
  assumes "typed_disp d"
  shows "typed_disp (attach_transcode env jc i m d)"
proof -
  obtain r d1 where q: "on_db (VideoNeedsTranscode i) d = (r, d1)" by fastforce
  have d1: "typed_disp d1" using on_db_typed [OF typed_reads(5) assms q] .
  show ?thesis using assms q d1 attach_typed
    by (auto simp: attach_transcode_def split: option.splits sum.splits bool.splits)
qed

lemma generateVideoCover_db: "generateVideoCover env b path hash dur ratio d = Some (ok, d') \<Longrightarrow> d_db d' = d_db d"
  by (auto simp: generateVideoCover_def dest: on_disk_opt_db split: if_splits option.splits)

lemma video_cover_typed:
  assumes "video_cover env path hash m ty i d = Some d'" and "typed_disp d"
  shows "typed_disp d'"
proof -
  obtain b s where q: "VideoHasManualThumbnail i (d_db d) = (b, s)" by fastforce
  have "library_typed s" using assms(2) q typed_reads(6) [of vm_manual_thumbnail i, unfolded keeps_typed_def, rule_format, of "d_db d"]
    by (auto simp: VideoHasManualThumbnail_def split: prod.splits sum.splits)
  then have d1: "typed_disp (d\<lparr> d_db := s \<rparr>)" by simp
  show ?thesis using assms(1) q d1
    by (auto simp: video_cover_def bind_eq_Some_conv Let_def simp del: dispatcher.select_convs dispatcher.update_convs
      dest!: generateVideoCover_db split: if_splits)
qed

lemma video_files_typed:
  assumes "video_files env i path hash m ty jc d = Some (x, d')" and "typed_disp d"
  shows "typed_disp d'"
proof -
  obtain d1 where d1: "video_cover env path hash m ty i d = Some d1" 
    and d': "(if ty = ''video:home_movie'' then auto_collection_thumbnail env i d1 else Some d1) \<bind> (\<lambda>d. finished (attach_transcode env jc i m d)) = Some (x, d')"
    using assms(1) by (auto simp: video_files_def bind_eq_Some_conv)
  have "typed_disp d1" using video_cover_typed [OF d1 assms(2)] .
  moreover obtain d2 where "(if ty = ''video:home_movie'' then auto_collection_thumbnail env i d1 else Some d1) = Some d2"
    and "d' = attach_transcode env jc i m d2"
    using d' by (auto simp: finished_def bind_eq_Some_conv)
  ultimately show ?thesis by (auto intro: attach_transcode_typed dest: auto_thumbnail_typed split: if_splits)
qed

lemma track_artist_typed: "track_artist m d = (i, d') \<Longrightarrow> typed_disp d \<Longrightarrow> typed_disp d'"
  using on_db_typed [OF typed_artist, of d "text_or (ExifStr m ''Artist'') ''Unknown Artist''"]
  by (auto simp: track_artist_def split: prod.splits sum.splits)

lemma track_album_artist_typed: "track_album_artist m j d = (i, d') \<Longrightarrow> typed_disp d \<Longrightarrow> typed_disp d'"
  using on_db_typed [OF typed_artist, of d "text_or (ExifStr m ''AlbumArtist'') []"]
  by (auto simp: track_album_artist_def Let_def split: prod.splits sum.splits if_splits)

lemma wrap16_fits: "- (2 ^ 15) \<le> wrap16 n \<and> wrap16 n < 2 ^ 15"
  unfolding wrap16_def by (simp del: pos_mod_sign pos_mod_bound) (smt (verit) pos_mod_bound pos_mod_sign)

lemma tag_year_fits: "fits_i16 (tag_year m)"
  using wrap16_fits by (simp add: fits_i16_def fits_def tag_year_def split: option.split)

lemma parsed_number_fits: "fits_i16 (parseTrackNumber s)"
  using wrap16_fits by (simp add: fits_i16_def fits_def parseTrackNumber_def Let_def split: option.split prod.split)

lemma track_album_typed:
  assumes "track_album m i j k d = (x, d')" and "typed_disp d"
  shows "typed_disp d'"
proof (cases "k = 0")
  case False
  obtain r1 d1 where q1: "on_db (ArtistUpsert ''Various Artists'') d = (r1, d1)" by fastforce
  have d1: "typed_disp d1" using on_db_typed [OF typed_artist assms(2) q1] .
  define aa d2 where "aa = (if ExifInt m ''Compilation'' = Some 1 then (case r1 of Inl _ \<Rightarrow> j | Inr v \<Rightarrow> Some v) else or_else j (Some i))"
    and "d2 = (if ExifInt m ''Compilation'' = Some 1 then d1 else d)"
  obtain r3 d3 where q3: "on_db (AlbumUpsert (text_or (ExifStr m ''Album'') ''Unknown Album'') aa (tag_year m) (ExifStr m ''Genre'') k
    (ExifInt m ''Compilation'' = Some 1)) d2 = (r3, d3)" by fastforce
  have "typed_disp d2" using d1 assms(2) by (simp add: d2_def)
  then have "typed_disp d3" by (rule on_db_typed [OF typed_album [OF tag_year_fits] _ q3])
  moreover have "d' = d3"
    using assms(1) False q1 q3 by (auto simp: track_album_def aa_def d2_def Let_def split: if_splits sum.splits)
  ultimately show ?thesis by simp
qed (use assms in \<open>simp add: track_album_def\<close>)

lemma album_art_db: "d_db (snd (extractAndGenerateAlbumArt env jc path i d)) = d_db d"
proof -
  obtain a d1 where q1: "ExtractBinary env path ''Picture'' d = (a, d1)" by fastforce
  obtain b d2 where q2: "ExtractBinary env path ''CoverArt'' d1 = (b, d2)" by fastforce
  have "d_db (generate_album_images env c i e) = d_db e" for c e
    by (simp add: generate_album_images_def split_beta)
  then show ?thesis using q1 q2 ExtractBinary_db [OF q1] ExtractBinary_db [OF q2]
    by (auto simp: extractAndGenerateAlbumArt_def split: option.splits)
qed

lemma audio_art_typed:
  assumes "typed_disp d"
  shows "typed_disp (audio_art env jc path i j d)"
proof -
  define d1 where "d1 = (if AlbumThumbnailExists (data_path env) i (d_world d) then d
               else snd (extractAndGenerateAlbumArt env jc path i d))"
  have d1: "typed_disp d1" using assms by (simp add: d1_def album_art_db)
  obtain r d2 where q: "on_db (ArtistGet j) d1 = (r, d2)" by fastforce
  have "typed_disp d2" using on_db_typed [OF typed_reads(7) d1 q] .
  then show ?thesis using q unfolding audio_art_def d1_def [symmetric] Let_def by (auto split: sum.splits)
qed

lemma scan_photo_typed:
  assumes "typed_disp d" and "scan_photo_run env jc d = Some (x, d')"
  shows "typed_disp d'"
proof (cases "related_id (jc_job jc)")
  case (Some i)
  obtain r d1 where q1: "on_db (MediaItemForProcessing i) d = (r, d1)" by fastforce
  have d1: "typed_disp d1" using on_db_typed [OF typed_reads(1) assms(1) q1] .
  show ?thesis
  proof (cases r)
    case (Inr y)
    obtain rel mime hash where y: "y = (rel, mime, hash)" by (cases y)
    let ?path = "path_join [media_path env, rel]"
    obtain m d2 where q2: "extractExif env jc ?path False d1 = (m, d2)" by fastforce
    define d3 where "d3 = (case ExifStr m ''Title'' of
      None \<Rightarrow> d2 | Some t \<Rightarrow> if t = [] then d2 else ignore_db (MediaItemUpdateTitle i t) d2)"
    have "typed_disp d2" using d1 extractExif_db [OF q2] by simp
    then have d3: "typed_disp d3" using ignore_db_typed [OF typed_title] by (simp add: d3_def split: option.split)
    define row where "row = photo_row env i ?path (strip_exif m)"
    obtain r4 d4 where q4: "on_db (bound (photo_fits row) (PhotoUpsert row)) d3 = (r4, d4)" by fastforce
    have d4: "typed_disp d4" using on_db_typed [OF keeps_typed_bound [OF typed_photo_upsert] d3 q4] .
    have "(case (r4, d4) of (Inl _, d) \<Rightarrow> failed ''upsert photo_metadata'' d | (Inr _, d) \<Rightarrow> photo_files env i ?path hash jc d) = Some (x, d')"
      using assms(2) Some q1 Inr y q2 q4
      unfolding scan_photo_run_def d3_def [symmetric] row_def [symmetric]
      by (simp add: Let_def d3_def [symmetric] row_def [symmetric])
    then show ?thesis using d4 by (auto simp: failed_def split: sum.splits dest: photo_files_typed)
  qed (use assms(2) Some q1 d1 in \<open>auto simp: scan_photo_run_def failed_def\<close>)
qed (use assms in \<open>auto simp: scan_photo_run_def failed_def\<close>)

lemma scan_video_typed:
  assumes "typed_disp d" and "scan_video_run env jc d = Some (x, d')"
  shows "typed_disp d'"
proof (cases "related_id (jc_job jc)")
  case (Some i)
  obtain r d1 where q1: "on_db (MediaItemForProcessing i) d = (r, d1)" by fastforce
  have d1: "typed_disp d1" using on_db_typed [OF typed_reads(1) assms(1) q1] .
  show ?thesis
  proof (cases r)
    case (Inr y)
    obtain rel mime hash where y: "y = (rel, mime, hash)" by (cases y)
    let ?path = "path_join [media_path env, rel]"
    obtain m d2 where q2: "extractExif env jc ?path True d1 = (m, d2)" by fastforce
    have d2: "typed_disp d2" using d1 extractExif_db [OF q2] by simp
    obtain r3 d3 where q3: "on_db (MediaItemRootCollectionType i) d2 = (r3, d3)" by fastforce
    have d3: "typed_disp d3" using on_db_typed [OF typed_reads(4) d2 q3] .
    define ty where "ty = (case r3 of Inl _ \<Rightarrow> [] | Inr t \<Rightarrow> t)"
    define base where "base = trim_suffix (filepath_Base_of ?path) (filepath_Ext ?path)"
    define ok where "ok = (\<lambda>(ttl, date). let d = (if not_blank ttl then ignore_db (MediaItemUpdateTitle i (the ttl)) d3 else d3) in
      (case on_db (bound (video_fits (video_values_of m date)) (VideoUpsert i (video_values_of m date))) d of
         (Inl _, d) \<Rightarrow> failed ''upsert video_metadata'' d
       | (Inr _, d) \<Rightarrow> video_files env i ?path hash m ty jc d))"
    have "video_title_date base m (createdAt (file_mod_time env ?path) m) \<bind> ok = Some (x, d')"
      using assms(2) Some q1 Inr y q2 q3 unfolding scan_video_run_def ok_def ty_def base_def
      by (simp add: Let_def )
    then obtain ttl date where end_run: "ok (ttl, date) = Some (x, d')" by (auto simp: bind_eq_Some_conv)
    define d4 where "d4 = (if not_blank ttl then ignore_db (MediaItemUpdateTitle i (the ttl)) d3 else d3)"
    have d4: "typed_disp d4" using d3 ignore_db_typed [OF typed_title] by (simp add: d4_def)
    obtain r5 d5 where q5: "on_db (bound (video_fits (video_values_of m date)) (VideoUpsert i (video_values_of m date))) d4 = (r5, d5)"
      by fastforce
    have d5: "typed_disp d5" using on_db_typed [OF keeps_typed_bound [OF typed_video_upsert] d4 q5] .
    have "(case (r5, d5) of (Inl _, d) \<Rightarrow> failed ''upsert video_metadata'' d | (Inr _, d) \<Rightarrow> video_files env i ?path hash m ty jc d) = Some (x, d')"
      using end_run q5 by (simp add: ok_def d4_def)
    then show ?thesis using d5 by (auto simp: failed_def split: sum.splits dest: video_files_typed)
  qed (use assms(2) Some q1 d1 in \<open>auto simp: scan_video_run_def failed_def\<close>)
qed (use assms in \<open>auto simp: scan_video_run_def failed_def\<close>)

lemma scan_audio_typed:
  assumes "typed_disp d"
  shows "typed_disp (snd (HandleScanAudio env jc d))"
proof (cases "related_id (jc_job jc)")
  case (Some i)
  obtain r d1 where q1: "on_db (MediaItemForProcessing i) d = (r, d1)" by fastforce
  have d1: "typed_disp d1" using on_db_typed [OF typed_reads(1) assms q1] .
  show ?thesis
  proof (cases r)
    case (Inr y)
    obtain rel mime hash where y: "y = (rel, mime, hash)" by (cases y)
    let ?path = "path_join [media_path env, rel]"
    obtain m d2 where q2: "extractExif env jc ?path True d1 = (m, d2)" by fastforce
    define d3 where "d3 = ignore_db (MediaItemUpdateTitle i (audio_title ?path m)) d2"
    have "typed_disp d2" using d1 extractExif_db [OF q2] by simp
    then have d3: "typed_disp d3" using ignore_db_typed [OF typed_title] by (simp add: d3_def)
    obtain artist d4 where q4: "track_artist m d3 = (artist, d4)" by fastforce
    obtain aa d5 where q5: "track_album_artist m artist d4 = (aa, d5)" by fastforce
    have d5: "typed_disp d5" by (rule track_album_artist_typed [OF q5 track_artist_typed [OF q4 d3]])
    obtain r6 d6 where q6: "on_db (MediaItemRootCollectionID i) d5 = (r6, d6)" by fastforce
    have d6: "typed_disp d6" using on_db_typed [OF typed_reads(3) d5 q6] .
    define k where "k = (case r6 of Inl _ \<Rightarrow> 0 | Inr rid \<Rightarrow> rid)"
    obtain album manual d7 where q7: "track_album m artist aa k d6 = ((album, manual), d7)" by (metis surj_pair)
    have d7: "typed_disp d7" by (rule track_album_typed [OF q7 d6])
    define row where "row = track_row i m artist aa album"
    have number: "fits_i16 (case t of None \<Rightarrow> None | Some t \<Rightarrow> parseTrackNumber t)" for t
      by (cases t) (simp_all add: parsed_number_fits, simp add: fits_i16_def fits_def)
    have row: "track_fits row" if "audio_fits row"
      using that tag_year_fits number by (simp add: row_def track_fits_def track_row_def)
    obtain r8 d8 where q8: "on_db (bound (audio_fits row) (AudioTrackUpsert row)) d7 = (r8, d8)" by fastforce
    have d8: "typed_disp d8" using on_db_typed [OF keeps_typed_bound [OF typed_track [OF row]] d7 q8] .
    have "HandleScanAudio env jc d = (case (r8, d8) of (Inl _, d) \<Rightarrow> ((Some ''upsert audio_metadata'', []), d)
      | (Inr _, d) \<Rightarrow> ((None, []),
          if has_picture m \<and> album \<noteq> None \<and> \<not> manual then audio_art env jc ?path (the album) artist d else d))"
      using Some q1 Inr y q2 q4 q5 q6 q7 q8 unfolding HandleScanAudio_def
      by (simp add: Let_def k_def d3_def row_def)
    then show ?thesis using d8 audio_art_typed by (auto split: sum.splits)
  qed (use Some q1 d1 in \<open>auto simp: HandleScanAudio_def\<close>)
qed (use assms in \<open>auto simp: HandleScanAudio_def\<close>)


definition tagged_env :: "exif \<Rightarrow> job_env" where
  "tagged_env m = demo_job_env\<lparr> exif_of := (\<lambda>_ _. Tags m) \<rparr>"

definition track_ctx :: job_ctx where
  "track_ctx = maintenance_ctx\<lparr> jc_job := maintenance_job\<lparr> related_id := Some 2 \<rparr>, jc_et := Some \<lparr> et_dead = False \<rparr> \<rparr>"

lemma demo_track:
  "map (\<lambda>m. (am_item m, am_artist m)) (audio_meta (d_db (snd (HandleScanAudio (tagged_env [''Artist'' \<mapsto> EStr ''A'']) track_ctx (demo_disp shared_db [])))))
     = [(2, Some 1)]"
  by code_simp

lemma shared_typed: "library_typed (d_db (demo_disp shared_db []))"
  by (simp add: typed_defs demo_disp_def NewDispatcher_def shared_db_def empty_db_def)


end
