(* ===== verification/Transcoder.thy ===== *)
theory Transcoder
  imports JobsProps
begin

text \<open>
  \<open>internal/transcoder/transcoder.go\<close>: the ffmpeg processes that run now, whether they are paused, and
  the job that starts one. A process is started inside the critical section that also enters
  it in the map, so every entry of the map has a process; the operating system delivers a signal
  to a process that has not ended. No part of the server uses this package.
\<close>

section \<open>The processes\<close>

datatype proc = ProcRunning | ProcStopped | ProcEnded

record transcodes =
  activeCmds :: "int \<Rightarrow> proc option"
  isPaused :: bool

definition no_transcodes :: transcodes where
  "no_transcodes = \<lparr> activeCmds = Map.empty, isPaused = False \<rparr>"

text \<open>\<open>SIGSTOP\<close> and \<open>SIGCONT\<close>.\<close>

fun sig_stop :: "proc \<Rightarrow> proc" where
  "sig_stop ProcRunning = ProcStopped"
| "sig_stop p = p"

fun sig_cont :: "proc \<Rightarrow> proc" where
  "sig_cont ProcStopped = ProcRunning"
| "sig_cont p = p"

definition PauseActive :: "transcodes \<Rightarrow> transcodes" where
  "PauseActive t =
     (if isPaused t then t
      else t\<lparr> activeCmds := (\<lambda>j. map_option sig_stop (activeCmds t j)), isPaused := True \<rparr>)"

definition ResumeActive :: "transcodes \<Rightarrow> transcodes" where
  "ResumeActive t =
     (if \<not> isPaused t then t
      else t\<lparr> activeCmds := (\<lambda>j. map_option sig_cont (activeCmds t j)), isPaused := False \<rparr>)"

section \<open>The job\<close>

text \<open>What the first part of the handler comes to: the end of the job, or a process to wait for, with the
  way it is going to end and the files it is going to write.\<close>

datatype begun = Ended "string option" | Waiting int ffmpeg_outcome "string list"

type_synonym transcode_world = "transcodes \<times> job_disp"

text \<open>From \<open>activeMu.Lock\<close> to \<open>activeMu.Unlock\<close>.\<close>

definition launch :: "('e) job_env_scheme \<Rightarrow> int \<Rightarrow> int \<Rightarrow> string \<Rightarrow> string \<Rightarrow> transcode_world \<Rightarrow> begun \<times> transcode_world" where
  "launch env jobID itemID path outDir = (\<lambda>(t, d).
     let args = SetNice (nice_path env) 10 (transcode_args path (transcode_kbps env)
           (path_join [outDir, ''seg_%05d.ts'']) (path_join [outDir, ''manifest.m3u8'']));
         d = ignore_db (JobUpdateProgress jobID (''transcoding '' @ path)) d in
     (case run_ffmpeg env args of
        (NotStarted, _) \<Rightarrow> (Ended (Some ''start ffmpeg transcode''), t\<lparr> activeCmds := (activeCmds t)(jobID := None) \<rparr>, d)
      | (outcome, fs) \<Rightarrow>
          (Waiting itemID outcome fs,
           t\<lparr> activeCmds := (activeCmds t)(jobID \<mapsto> if isPaused t then ProcStopped else ProcRunning) \<rparr>, d)))"

definition skip_job :: "int \<Rightarrow> job_disp \<Rightarrow> job_disp" where
  "skip_job jobID d = ignore_db (JobDelete jobID) d"

definition transcode_begin :: "('e) job_env_scheme \<Rightarrow> job \<Rightarrow> transcode_world \<Rightarrow> (begun \<times> transcode_world) option" where
  "transcode_begin env j = (\<lambda>(t, d).
     (case related_id j of
        None \<Rightarrow> Some (Ended (Some ''transcode job has no related_id''), t, d)
      | Some itemID \<Rightarrow>
          (case on_db (VideoMetadataForTranscode itemID) d of
             (Inl _, d) \<Rightarrow> Some (Ended (Some ''fetch video_metadata''), t, d)
           | (Inr (bitrate, transcoded), d) \<Rightarrow>
               if transcoded \<noteq> None then Some (Ended None, t, skip_job (job_id j) d)
               else if (case bitrate of None \<Rightarrow> False | Some b \<Rightarrow> b \<le> transcode_kbps env) then Some (Ended None, t, skip_job (job_id j) d)
               else case on_db (MediaItemForProcessing itemID) d of
                 (Inl _, d) \<Rightarrow> Some (Ended (Some ''fetch media item''), t, d)
               | (Inr (relativePath, _, fileHash), d) \<Rightarrow>
                   (case VideoHLSDir (data_path env) fileHash of
                      None \<Rightarrow> None
                    | Some outDir \<Rightarrow>
                        (case on_disk (os_MkdirAll (disk_part env) outDir) d of
                           (False, d) \<Rightarrow> Some (Ended (Some ''mkdir hls dir''), t, d)
                         | (True, d) \<Rightarrow>
                             Some (launch env (job_id j) itemID (path_join [media_path env, relativePath]) outDir (t, d)))))))"

text \<open>The process ends, in whatever state it is.\<close>

definition process_ends :: "int \<Rightarrow> transcodes \<Rightarrow> transcodes" where
  "process_ends jobID t = t\<lparr> activeCmds := (activeCmds t)(jobID := map_option (\<lambda>_. ProcEnded) (activeCmds t jobID)) \<rparr>"

text \<open>The handler after \<open>cmd.Wait\<close>.\<close>

definition transcode_end ::
  "('e) job_env_scheme \<Rightarrow> job \<Rightarrow> int \<Rightarrow> ffmpeg_outcome \<Rightarrow> string list \<Rightarrow> transcode_world \<Rightarrow> string option \<times> transcode_world" where
  "transcode_end env j itemID outcome fs = (\<lambda>(t, d).
     let t = t\<lparr> activeCmds := (activeCmds t)(job_id j := None) \<rparr>; d = wrote_files fs d in
     if outcome = Exited then
       (None, t, skip_job (job_id j) (ignore_db (VideoSetTranscodedAt itemID (time_now env)) d))
     else (Some ''ffmpeg transcode'', t, d))"

text \<open>The handler when nothing else happens meanwhile.\<close>

definition HandleTranscode :: "('e) job_env_scheme \<Rightarrow> job \<Rightarrow> transcode_world \<Rightarrow> (string option \<times> transcode_world) option" where
  "HandleTranscode env j w = (case transcode_begin env j w of
     None \<Rightarrow> None
   | Some (Ended r, w) \<Rightarrow> Some (r, w)
   | Some (Waiting itemID outcome fs, t, d) \<Rightarrow> Some (transcode_end env j itemID outcome fs (process_ends (job_id j) t, d)))"

section \<open>What can happen\<close>

text \<open>The jobs that wait for their process are part of the state of the steps.\<close>

type_synonym transcode_state = "(int \<Rightarrow> (job \<times> int \<times> ffmpeg_outcome \<times> string list) option) \<times> transcode_world"

inductive transcode_step :: "('e) job_env_scheme \<Rightarrow> transcode_state \<Rightarrow> transcode_state \<Rightarrow> bool" for env where
  Pause: "transcode_step env (ws, t, d) (ws, PauseActive t, d)"
| Resume: "transcode_step env (ws, t, d) (ws, ResumeActive t, d)"
| BeginEnds: "ws (job_id j) = None \<Longrightarrow> transcode_begin env j (t, d) = Some (Ended r, w) \<Longrightarrow> transcode_step env (ws, t, d) (ws, w)"
| BeginWaits: "ws (job_id j) = None \<Longrightarrow> transcode_begin env j (t, d) = Some (Waiting i r fs, w) \<Longrightarrow>
    transcode_step env (ws, t, d) (ws(job_id j \<mapsto> (j, i, r, fs)), w)"
| Exit: "transcode_step env (ws, t, d) (ws, process_ends i t, d)"
| Finish: "ws k = Some (j, i, r, fs) \<Longrightarrow> activeCmds t k = Some ProcEnded \<Longrightarrow>
    transcode_step env (ws, t, d) (ws(k := None), snd (transcode_end env j i r fs (t, d)))"
| Elsewhere: "transcode_step env (ws, t, d) (ws, t, d')"

inductive_cases transcode_stepE: "transcode_step env s s'"

inductive transcode_reachable :: "('e) job_env_scheme \<Rightarrow> transcode_state \<Rightarrow> bool" for env where
  Init: "transcode_reachable env (Map.empty, no_transcodes, d)"
| Step: "transcode_reachable env s \<Longrightarrow> transcode_step env s s' \<Longrightarrow> transcode_reachable env s'"

section \<open>Pausing\<close>

text \<open>The waiting jobs are the entries of the map, each under its own number; while transcodes are paused
  no process runs, and otherwise none is stopped.\<close>

definition transcode_inv :: "transcode_state \<Rightarrow> bool" where
  "transcode_inv s = (case s of (ws, t, d) \<Rightarrow>
     (\<forall>k. (ws k = None) = (activeCmds t k = None))
     \<and> (\<forall>k j i r fs. ws k = Some (j, i, r, fs) \<longrightarrow> job_id j = k)
     \<and> (\<forall>k. activeCmds t k \<noteq> Some (if isPaused t then ProcRunning else ProcStopped)))"

lemma sig_simps [simp]:
  "sig_stop p \<noteq> ProcRunning" "sig_cont p \<noteq> ProcStopped"
  "sig_stop p = ProcEnded \<longleftrightarrow> p = ProcEnded" "sig_cont p = ProcEnded \<longleftrightarrow> p = ProcEnded"
  by (cases p; simp)+

lemma begin_ended:
  assumes "transcode_begin env j (t, d) = Some (Ended r, t', d')" and "activeCmds t (job_id j) = None"
  shows "t' = t"
proof -
  have "t\<lparr> activeCmds := (activeCmds t)(job_id j := None) \<rparr> = t" using assms(2) by (cases t) (auto simp: fun_upd_idem)
  then show ?thesis using assms(1)
    by (auto simp: transcode_begin_def launch_def Let_def
        split: option.splits prod.splits sum.splits if_splits bool.splits ffmpeg_outcome.splits)
qed

lemma begin_waits:
  assumes "transcode_begin env j (t, d) = Some (Waiting i r fs, t', d')"
  shows "t' = t\<lparr> activeCmds := (activeCmds t)(job_id j \<mapsto> if isPaused t then ProcStopped else ProcRunning) \<rparr>"
  using assms by (auto simp: transcode_begin_def launch_def Let_def
        split: option.splits prod.splits sum.splits if_splits bool.splits ffmpeg_outcome.splits)

lemma transcode_inv_step:
  assumes "transcode_step env s s'" and "transcode_inv s"
  shows "transcode_inv s'"
  using assms
proof (induction rule: transcode_step.induct)
  case (BeginEnds ws j t d r w)
  obtain t' d' where w: "w = (t', d')" by (cases w)
  have "t' = t" using BeginEnds w by (intro begin_ended [of env j t d r t' d']) (auto simp: transcode_inv_def)
  then show ?case using BeginEnds.prems w by (simp add: transcode_inv_def)
next
  case (BeginWaits ws j t d i r fs w)
  obtain t' d' where w: "w = (t', d')" by (cases w)
  then have t': "t' = t\<lparr> activeCmds := (activeCmds t)(job_id j \<mapsto> if isPaused t then ProcStopped else ProcRunning) \<rparr>"
    using BeginWaits.hyps(2) by (intro begin_waits) simp
  show ?case using BeginWaits.prems unfolding w t' by (auto simp: transcode_inv_def)
next
  case (Finish ws k j i r fs t d)
  then have "job_id j = k" by (auto simp: transcode_inv_def)
  then show ?case using Finish.prems by (auto simp: transcode_inv_def transcode_end_def Let_def)
qed (auto simp: transcode_inv_def PauseActive_def ResumeActive_def process_ends_def)

text \<open>C39: However pauses, resumptions, starts and ends of background transcodes interleave, while they
  are paused no process runs - a job that starts one then stops it before anyone else can see
  it - and while they are not, none is left stopped; a process is listed exactly as long as
  its job waits for it.\<close>

theorem transcodes_follow_the_gate:
  assumes "transcode_reachable env (ws, t, d)"
  shows "(\<forall>k. activeCmds t k \<noteq> Some (if isPaused t then ProcRunning else ProcStopped))
    \<and> (\<forall>k. ws k = None \<longleftrightarrow> activeCmds t k = None)"
proof -
  have "transcode_inv s" if "transcode_reachable env s" for s
    using that
  proof (induction rule: transcode_reachable.induct)
    case (Init d)
    show ?case by (simp add: transcode_inv_def no_transcodes_def)
  qed (rule transcode_inv_step)
  then show ?thesis using assms by (fastforce simp: transcode_inv_def)
qed

definition transcode_job :: job where
  "transcode_job = \<lparr> job_id = 7, job_type = ''transcode'', status = Running, related_id = Some 1, related_type = None,
     job_log = None, error_message = None, queued_at = 0, started_at = None, completed_at = None, parent_job_id = None,
     current_step = 0, subjobs_enqueued = 0 \<rparr>"

definition transcode_db :: db where
  "transcode_db = (empty_db 0)\<lparr> media_items := [\<lparr> item_id = 1, item_collection = 1, title = [], item_path = ''a.mkv'', file_size_bytes = 1,
     file_hash = ''abcdef'', mime_type = ''video/x-matroska'', file_modified_at = None, item_missing_since = None,
     indexed_at = 0, item_created_at = 0, hidden_at = None \<rparr>], video_meta := [blank_video 1], jobs := [transcode_job] \<rparr>"

definition paused_begin :: "(begun \<times> transcode_world) option" where
  "paused_begin = transcode_begin demo_job_env transcode_job (PauseActive no_transcodes, demo_disp transcode_db [])"

lemma launch_demo:
  "launch demo_job_env k i path dir (t, d) = (Waiting i Exited [],
     t\<lparr> activeCmds := (activeCmds t)(k \<mapsto> if isPaused t then ProcStopped else ProcRunning) \<rparr>,
     ignore_db (JobUpdateProgress k (''transcoding '' @ path)) d)"
  by (simp add: launch_def Let_def)

lemma transcode_db_reads:
  "fst (on_db (VideoMetadataForTranscode 1) (demo_disp transcode_db [])) = Inr (None, None)"
  "fst (on_db (MediaItemForProcessing 1) (demo_disp transcode_db [])) = Inr (''a.mkv'', ''video/x-matroska'', ''abcdef'')"
  "map_option (\<lambda>x. fst (on_disk (os_MkdirAll (disk_part demo_job_env) x) (demo_disp transcode_db []))) (VideoHLSDir ''/d'' ''abcdef'') = Some True"
  by code_simp+

lemma reads_stay:
  "faults (d_db d) = [] \<Longrightarrow> snd (on_db (VideoMetadataForTranscode i) d) = d"
  "faults (d_db d) = [] \<Longrightarrow> snd (on_db (MediaItemForProcessing i) d) = d"
  by (simp_all add: on_db_def VideoMetadataForTranscode_def select_video_def MediaItemForProcessing_def select_item_def)

lemma begin_demo:
  obtains dir s2 where "\<forall>t. transcode_begin demo_job_env transcode_job (t, demo_disp transcode_db [])
    = Some (launch demo_job_env 7 1 (path_join [media_path demo_job_env, ''a.mkv'']) dir (t, s2))"
proof -
  define s where "s = demo_disp transcode_db []"
  have s: "faults (d_db s) = []" by (simp add: s_def demo_disp_def NewDispatcher_def transcode_db_def empty_db_def)
  have reads: "on_db (VideoMetadataForTranscode 1) s = (Inr (None, None), s)"
    "on_db (MediaItemForProcessing 1) s = (Inr (''a.mkv'', ''video/x-matroska'', ''abcdef''), s)"
    using transcode_db_reads(1,2) reads_stay [OF s, of 1] by (simp_all add: s_def prod_eq_iff)
  obtain dir s2 where dir: "VideoHLSDir ''/d'' ''abcdef'' = Some dir" "on_disk (os_MkdirAll (disk_part demo_job_env) dir) s = (True, s2)"
    using transcode_db_reads(3) by (auto simp: s_def map_option_eq_Some prod_eq_iff)
  show ?thesis
    by (rule that [of dir s2]) (use reads dir in \<open>simp add: transcode_begin_def transcode_job_def s_def [symmetric] del: demo_job_env_sel(6)\<close>)
qed

lemma paused_begin_waits:
  obtains t d where "paused_begin = Some (Waiting 1 Exited [], t, d)" and "isPaused t" and "activeCmds t 7 = Some ProcStopped"
proof -
  obtain dir s2 where begun: "\<forall>t. transcode_begin demo_job_env transcode_job (t, demo_disp transcode_db [])
    = Some (launch demo_job_env 7 1 (path_join [media_path demo_job_env, ''a.mkv'']) dir (t, s2))" by (rule begin_demo)
  show ?thesis
    by (rule that [OF begun [rule_format, of "PauseActive no_transcodes", folded paused_begin_def, unfolded launch_demo]])
      (simp_all add: PauseActive_def no_transcodes_def)
qed

text \<open>A transcode that starts while the others are paused.\<close>

theorem transcodes_follow_the_gate_witness:
  "\<exists>ws t d. transcode_reachable demo_job_env (ws, t, d) \<and> isPaused t \<and> activeCmds t 7 = Some ProcStopped
     \<and> (\<forall>k. activeCmds t k \<noteq> Some ProcRunning) \<and> ws 7 \<noteq> None"
proof -
  obtain t d where b: "paused_begin = Some (Waiting 1 Exited [], t, d)" and t: "isPaused t" "activeCmds t 7 = Some ProcStopped"
    by (rule paused_begin_waits)
  have "transcode_reachable demo_job_env (Map.empty, PauseActive no_transcodes, demo_disp transcode_db [])"
    by (rule transcode_reachable.Step [OF transcode_reachable.Init transcode_step.Pause])
  moreover have "transcode_step demo_job_env (Map.empty, PauseActive no_transcodes, demo_disp transcode_db [])
      (Map.empty(job_id transcode_job \<mapsto> (transcode_job, 1, Exited, [])), t, d)"
    by (rule transcode_step.BeginWaits [OF _ b [unfolded paused_begin_def]]) simp
  ultimately have reach: "transcode_reachable demo_job_env (Map.empty(job_id transcode_job \<mapsto> (transcode_job, 1, Exited, [])), t, d)"
    by (rule transcode_reachable.Step)
  have id: "job_id transcode_job = 7" by (simp add: transcode_job_def)
  have "(Map.empty(job_id transcode_job \<mapsto> (transcode_job, 1, Exited, []))) 7 \<noteq> None" by (simp add: id)
  moreover have "\<forall>k. activeCmds t k \<noteq> Some ProcRunning"
    using transcodes_follow_the_gate [OF reach, THEN conjunct1] t(1) by simp
  ultimately show ?thesis using reach t by blast
qed

section \<open>What the job leaves\<close>

lemma on_disk_keeps_db [simp]: "d_db (snd (on_disk f d)) = d_db d"
  by (simp add: on_disk_def split_beta)

lemma skip_job_gone:
  "faults (d_db d) = [] \<Longrightarrow> k \<notin> job_id ` set (jobs (d_db (skip_job k d)))"
  "faults (d_db d) = [] \<Longrightarrow> video_meta (d_db (skip_job k d)) = video_meta (d_db d)"
  using tree_levels_start [of "[k]" job_id parent_job_id "jobs (d_db d)" "length (jobs (d_db d))"]
  by (auto simp: skip_job_def ignore_db_def on_db_def JobDelete_def delete_jobs_def job_exists_def Let_def)

lemma mark_transcoded:
  assumes "faults (d_db d) = []"
  shows "faults (d_db (ignore_db (VideoSetTranscodedAt i now) d)) = []
    \<and> (\<forall>v \<in> set (video_meta (d_db (ignore_db (VideoSetTranscodedAt i now) d))). vm_item v = i \<longrightarrow> transcoded_at v = Some now)"
  using assms by (simp add: ignore_db_def VideoSetTranscodedAt_def on_db_healthy update_video_def ball_Un)

lemma start_and_leave:
  assumes "activeCmds t k = None"
  shows "(process_ends k (t\<lparr> activeCmds := (activeCmds t)(k \<mapsto> p) \<rparr>))
    \<lparr> activeCmds := (activeCmds (process_ends k (t\<lparr> activeCmds := (activeCmds t)(k \<mapsto> p) \<rparr>)))(k := None) \<rparr> = t"
  using assms by (cases t) (simp add: process_ends_def fun_upd_idem)

lemma launch_keeps:
  assumes "launch env k i path dir (t, d) = (b, t', d')" and "faults (d_db d) = []"
  shows "video_meta (d_db d') = video_meta (d_db d) \<and> map job_id (jobs (d_db d')) = map job_id (jobs (d_db d)) \<and> faults (d_db d') = []"
proof -
  have "d' = ignore_db (JobUpdateProgress k (''transcoding '' @ path)) d"
    using assms(1) by (auto simp: launch_def Let_def split: prod.splits ffmpeg_outcome.splits)
  then show ?thesis using assms(2) by (auto simp: ignore_db_def on_db_def JobUpdateProgress_def update_job_def)
qed

definition undisturbed :: "job_disp \<Rightarrow> job_disp \<Rightarrow> bool" where
  "undisturbed d d' \<longleftrightarrow> video_meta (d_db d') = video_meta (d_db d) \<and> map job_id (jobs (d_db d')) = map job_id (jobs (d_db d))
     \<and> faults (d_db d') = []"

lemma begin_outcome:
  assumes "transcode_begin env j (t, d) = Some (b, t1, d1)" and "faults (d_db d) = []" and "related_id j = Some i"
  shows "b = Ended None \<and> d1 = skip_job (job_id j) d
    \<or> ((\<exists>msg. b = Ended (Some msg)) \<or> (\<exists>r fs. b = Waiting i r fs)) \<and> undisturbed d d1"
proof -
  note stay = reads_stay [OF assms(2), of i]
  obtain q1 where q1: "on_db (VideoMetadataForTranscode i) d = (q1, d)" using stay(1) by (metis surjective_pairing)
  obtain q2 where q2: "on_db (MediaItemForProcessing i) d = (q2, d)" using stay(2) by (metis surjective_pairing)
  have self: "undisturbed d d" using assms(2) by (simp add: undisturbed_def)
  show ?thesis
  proof (cases q1)
    case (Inl e)
    then show ?thesis using assms(1,3) q1 self by (simp add: transcode_begin_def) blast
  next
    case (Inr v)
    obtain bitrate transcoded where v: "v = (bitrate, transcoded)" by (cases v)
    show ?thesis
    proof (cases "transcoded \<noteq> None \<or> (case bitrate of None \<Rightarrow> False | Some b \<Rightarrow> b \<le> transcode_kbps env)")
      case True
      then show ?thesis using assms(1,3) q1 Inr v by (auto simp: transcode_begin_def split: if_splits)
    next
      case needed: False
      show ?thesis
      proof (cases q2)
        case (Inl e)
        then show ?thesis using needed assms(1,3) q1 q2 \<open>q1 = Inr v\<close> v self by (simp add: transcode_begin_def) blast
      next
        case (Inr w)
        obtain rel mime hash where w: "w = (rel, mime, hash)" by (cases w)
        obtain dir where dir: "VideoHLSDir (data_path env) hash = Some dir"
          using needed assms(1,3) q1 q2 \<open>q1 = Inr v\<close> v Inr w by (auto simp: transcode_begin_def split: option.splits)
        obtain ok d2 where mk: "on_disk (os_MkdirAll (disk_part env) dir) d = (ok, d2)" by fastforce
        have d2: "undisturbed d d2" "faults (d_db d2) = []" using arg_cong [OF mk, of "\<lambda>x. d_db (snd x)"] self
          by (auto simp: undisturbed_def)
        have step: "Some (b, t1, d1) = (if ok then Some (launch env (job_id j) i (path_join [media_path env, rel]) dir (t, d2))
            else Some (Ended (Some ''mkdir hls dir''), t, d2))"
          using needed assms(1,3) q1 q2 \<open>q1 = Inr v\<close> v Inr w dir mk by (auto simp: transcode_begin_def)
        have launched: "undisturbed d d3 \<and> ((\<exists>msg. c = Ended (Some msg)) \<or> (\<exists>r fs. c = Waiting i r fs))"
          if l: "launch env (job_id j) i p dir (t, d2) = (c, t3, d3)" for p c t3 d3
          using launch_keeps [OF l d2(2)] d2 l
          by (auto simp: undisturbed_def launch_def Let_def split: prod.splits ffmpeg_outcome.splits)
        show ?thesis
        proof (cases ok)
          case True
          then show ?thesis using launched [of "path_join [media_path env, rel]" b t1 d1] step by simp
        qed (use step d2(1) in simp)
      qed
    qed
  qed
qed

text \<open>A background transcode that succeeds, or that is not needed because the video is transcoded or
  its bitrate is low enough, removes its own job; one that encoded marks every row of the
  video with the time. One that fails keeps its job, and the video stays without a mark, so
  that another run can make it up. The processes are what they were before.\<close>

lemma transcode_job_outcome:
  assumes "HandleTranscode env j (t, d) = Some (r, t', d')" and "faults (d_db d) = []"
    and "activeCmds t (job_id j) = None" and "related_id j = Some i"
  shows "t' = t
    \<and> (r = None \<longrightarrow> job_id j \<notin> job_id ` set (jobs (d_db d'))
        \<and> (video_meta (d_db d') = video_meta (d_db d)
           \<or> (\<forall>v \<in> set (video_meta (d_db d')). vm_item v = i \<longrightarrow> transcoded_at v = Some (time_now env))))
    \<and> (r \<noteq> None \<longrightarrow> video_meta (d_db d') = video_meta (d_db d) \<and> map job_id (jobs (d_db d')) = map job_id (jobs (d_db d)))"
proof -
  obtain b t1 d1 where begun: "transcode_begin env j (t, d) = Some (b, t1, d1)"
    and rest: "(case b of Ended r \<Rightarrow> Some (r, t1, d1)
       | Waiting i r fs \<Rightarrow> Some (transcode_end env j i r fs (process_ends (job_id j) t1, d1))) = Some (r, t', d')"
    using assms(1) by (auto simp: HandleTranscode_def split: option.splits begun.splits)
  show ?thesis
  proof (cases b)
    case (Ended m)
    have "t1 = t" using begin_ended [of env j t d m t1 d1] begun Ended assms(3) by blast
    then show ?thesis using begin_outcome [OF begun assms(2,4)] skip_job_gone [OF assms(2)] Ended rest
      by (auto simp: undisturbed_def)
  next
    case (Waiting k o' fs)
    have d1: "k = i" "undisturbed d d1" using begin_outcome [OF begun assms(2,4)] Waiting by auto
    have started: "t1 = t\<lparr> activeCmds := (activeCmds t)(job_id j \<mapsto> if isPaused t then ProcStopped else ProcRunning) \<rparr>"
      by (rule begin_waits [OF begun [unfolded Waiting]])
    have t1: "(process_ends (job_id j) t1)\<lparr> activeCmds := (activeCmds (process_ends (job_id j) t1))(job_id j := None) \<rparr> = t"
      unfolding started by (rule start_and_leave [OF assms(3)])
    have db: "d_db (wrote_files fs d1) = d_db d1" by (simp add: wrote_files_def)
    define d2 where "d2 = ignore_db (VideoSetTranscodedAt i (time_now env)) (wrote_files fs d1)"
    have marked: "faults (d_db d2) = []" "\<forall>v \<in> set (video_meta (d_db d2)). vm_item v = i \<longrightarrow> transcoded_at v = Some (time_now env)"
      using mark_transcoded [of "wrote_files fs d1" i "time_now env"] d1(2) unfolding d2_def undisturbed_def db by simp_all
    have finish: "transcode_end env j i o' fs (process_ends (job_id j) t1, d1)
        = (if o' = Exited then (None, t, skip_job (job_id j) d2) else (Some ''ffmpeg transcode'', t, wrote_files fs d1))"
      by (simp only: transcode_end_def d2_def Let_def prod.case t1)
    have "Some (transcode_end env j i o' fs (process_ends (job_id j) t1, d1)) = Some (r, t', d')"
      using rest Waiting d1(1) by simp
    then consider (Good) "r = None" "t' = t" "d' = skip_job (job_id j) d2" | (Bad) "r = Some ''ffmpeg transcode''" "t' = t" "d' = wrote_files fs d1"
      unfolding finish by (cases "o' = Exited") auto
    then show ?thesis
    proof cases
      case Good
      then show ?thesis using marked(2) skip_job_gone [OF marked(1), of "job_id j"] by simp
    next
      case Bad
      then show ?thesis using d1(2) db by (simp add: undisturbed_def)
    qed
  qed
qed

end
