(* ===== verification/Exiftool.thy ===== *)
theory Exiftool
  imports JobWorld
begin

text \<open>
  The exiftool process of \<open>internal/jobs/utils/exifutil.go\<close>: the requests the server writes to it, the
  lines it answers with, and when it counts as dead. What the process still prints, line by
  line, whether its standard input takes a request and whether the scanner ends with an error
  are the environment's; parsing JSON is a parameter.
\<close>

section \<open>Base 64\<close>

definition base64_value :: "char \<Rightarrow> nat option" where
  "base64_value c =
     (let n = of_char c in
      if 65 \<le> n \<and> n \<le> 90 then Some (n - 65) else if 97 \<le> n \<and> n \<le> 122 then Some (n - 71)
      else if 48 \<le> n \<and> n \<le> 57 then Some (n + 4) else if c = CHR ''+'' then Some 62
      else if c = CHR ''/'' then Some 63 else None)"

fun decode_groups :: "string \<Rightarrow> string option" where
  "decode_groups [] = Some []"
| "decode_groups (a # b # c # d # s) = do {
     x \<leftarrow> base64_value a;
     y \<leftarrow> base64_value b;
     let c1 = char_of (x * 4 + y div 16);
     if c = CHR ''='' then (if d = CHR ''='' \<and> s = [] then Some [c1] else None)
     else do {
       z \<leftarrow> base64_value c;
       let c2 = char_of (y mod 16 * 16 + z div 4);
       if d = CHR ''='' then (if s = [] then Some [c1, c2] else None)
       else do {
         w \<leftarrow> base64_value d;
         r \<leftarrow> decode_groups s;
         Some (c1 # c2 # char_of (z mod 4 * 64 + w) # r) } } }"
| "decode_groups _ = None"

text \<open>\<open>base64.StdEncoding.DecodeString\<close> skips line breaks.\<close>

definition base64_decode :: "string \<Rightarrow> string option" where
  "base64_decode s = decode_groups (filter (\<lambda>c. c \<noteq> CHR 0x0A \<and> c \<noteq> CHR 0x0D) s)"

section \<open>The process\<close>

record ExiftoolProcess =
  ep_requests :: "string list"        \<comment> \<open>what was written to its standard input\<close>
  ep_writable :: bool
  ep_lines :: "string list"           \<comment> \<open>what the scanner is still going to return\<close>
  ep_scan_error :: bool               \<comment> \<open>what \<open>Err\<close> says behind the last line\<close>
  ep_dead :: bool

definition IsDead :: "ExiftoolProcess \<Rightarrow> bool" where
  "IsDead e = ep_dead e"

definition NewExiftoolProcess :: "string list \<Rightarrow> bool \<Rightarrow> ExiftoolProcess" where
  "NewExiftoolProcess ls err = \<lparr> ep_requests = [], ep_writable = True, ep_lines = ls, ep_scan_error = err, ep_dead = False \<rparr>"

text \<open>The lines up to the sentinel, each with its line break, and whether the sentinel came.\<close>

fun read_answer :: "string list \<Rightarrow> string \<times> bool \<times> string list" where
  "read_answer [] = ([], False, [])"
| "read_answer (l # ls) =
     (if l = ''{ready}'' then ([], True, ls)
      else case read_answer ls of (t, found, rest) \<Rightarrow> (l @ [CHR 0x0A] @ t, found, rest))"

text \<open>The steps of both requests: write, read, look for an error of the scanner, parse.\<close>

definition request ::
  "(string \<Rightarrow> exif list option) \<Rightarrow> string \<Rightarrow> string \<Rightarrow> ExiftoolProcess \<Rightarrow> (string + exif) \<times> ExiftoolProcess" where
  "request parse_json cmd path e =
     (if \<not> ep_writable e then (Inl ''write to exiftool'', e)
      else
        let (answer, found, rest) = read_answer (ep_lines e);
            e = e\<lparr> ep_requests := ep_requests e @ [cmd], ep_lines := rest \<rparr> in
        if \<not> found \<and> ep_scan_error e then (Inl ''read from exiftool'', e\<lparr> ep_dead := True \<rparr>)
        else case parse_json answer of
          None \<Rightarrow> (Inl ''parse exiftool json'', e)
        | Some [] \<Rightarrow> (Inl (''no exiftool results for '' @ path), e)
        | Some (m # _) \<Rightarrow> (Inr m, e))"

definition line_break :: string where
  "line_break = [CHR 0x0A]"

definition Extract ::
  "(string \<Rightarrow> exif list option) \<Rightarrow> string \<Rightarrow> bool \<Rightarrow> ExiftoolProcess \<Rightarrow> (string + exif) \<times> ExiftoolProcess" where
  "Extract parse_json path includeBinaryTags =
     (let cmd = path @ line_break @ ''-execute'' @ line_break in
      request parse_json (if includeBinaryTags then cmd else ''--binary'' @ line_break @ cmd) path)"

definition ExtractBinaryField ::
  "(string \<Rightarrow> exif list option) \<Rightarrow> string \<Rightarrow> string \<Rightarrow> ExiftoolProcess \<Rightarrow> (string + string) \<times> ExiftoolProcess" where
  "ExtractBinaryField parse_json path fld e =
     (case request parse_json (''-b'' @ line_break @ ''-'' @ fld @ line_break @ path @ line_break @ ''-execute'' @ line_break) path e of
        (Inl msg, e) \<Rightarrow> (Inl msg, e)
      | (Inr m, e) \<Rightarrow>
          (case field m fld of
             None \<Rightarrow> (Inl ''field not found'', e)
           | Some (EStr s) \<Rightarrow>
               (case base64_decode (trim_prefix s ''base64:'') of
                  None \<Rightarrow> (Inl ''illegal base64 data'', e)
                | Some b \<Rightarrow> (Inr b, e))
           | Some _ \<Rightarrow> (Inl ''unexpected type for field'', e)))"

definition CloseExiftool :: "ExiftoolProcess \<Rightarrow> ExiftoolProcess" where
  "CloseExiftool e = e\<lparr> ep_requests := ep_requests e @ [''-stay_open'' @ line_break @ ''false'' @ line_break], ep_writable := False \<rparr>"

text \<open>What the jobs see of a request, and of the process as the dispatcher keeps it.\<close>

definition outcome_of :: "(string + exif) \<times> ExiftoolProcess \<Rightarrow> exif_outcome" where
  "outcome_of r = (case r of (Inr m, _) \<Rightarrow> Tags m | (Inl _, e) \<Rightarrow> if IsDead e then ScannerBroken else ExtractFailed)"

definition dispatcher_view :: "ExiftoolProcess \<Rightarrow> exiftool" where
  "dispatcher_view e = \<lparr> et_dead = IsDead e \<rparr>"

section \<open>Staying in step\<close>

lemma read_answer_ready:
  "''{ready}'' \<notin> set ls \<Longrightarrow> read_answer (ls @ ''{ready}'' # rest) = (concat (map (\<lambda>l. l @ [CHR 0x0A]) ls), True, rest)"
  by (induction ls) auto

text \<open>One answer per request: the lines before the sentinel.\<close>

definition answers :: "string list list \<Rightarrow> string list" where
  "answers as = concat (map (\<lambda>ls. ls @ [''{ready}'']) as)"

fun extract_all ::
  "(string \<Rightarrow> exif list option) \<Rightarrow> string list \<Rightarrow> ExiftoolProcess \<Rightarrow> (string + exif) list \<times> ExiftoolProcess" where
  "extract_all parse_json [] e = ([], e)"
| "extract_all parse_json (p # ps) e =
     (case Extract parse_json p True e of (r, e) \<Rightarrow>
        (case extract_all parse_json ps e of (rs, e) \<Rightarrow> (r # rs, e)))"

text \<open>What the answer to one request comes to.\<close>

definition reading :: "(string \<Rightarrow> exif list option) \<Rightarrow> string \<Rightarrow> string list \<Rightarrow> string + exif" where
  "reading parse_json path ls = (case parse_json (concat (map (\<lambda>l. l @ [CHR 0x0A]) ls)) of
     None \<Rightarrow> Inl ''parse exiftool json'' | Some [] \<Rightarrow> Inl (''no exiftool results for '' @ path) | Some (m # _) \<Rightarrow> Inr m)"

lemma extract_step:
  assumes "ep_writable e" and "''{ready}'' \<notin> set ls" and "ep_lines e = ls @ ''{ready}'' # rest"
  shows "fst (Extract pj p b e) = reading pj p ls \<and> ep_lines (snd (Extract pj p b e)) = rest
    \<and> ep_writable (snd (Extract pj p b e)) \<and> ep_dead (snd (Extract pj p b e)) = ep_dead e"
  using assms by (simp add: Extract_def request_def reading_def read_answer_ready Let_def split: option.split list.split)

text \<open>While the process answers every request with lines that end in the sentinel, the n-th file
  gets the n-th answer, whatever became of the ones before, and the process stays alive.\<close>

lemma exiftool_stays_in_step:
  assumes "length paths = length as" and "\<forall>ls \<in> set as. ''{ready}'' \<notin> set ls"
    and "ep_writable e" and "ep_lines e = answers as" and "\<not> ep_dead e"
  shows "fst (extract_all parse_json paths e) = map2 (reading parse_json) paths as
    \<and> \<not> IsDead (snd (extract_all parse_json paths e)) \<and> ep_lines (snd (extract_all parse_json paths e)) = []"
  using assms
proof (induction paths as arbitrary: e rule: list_induct2)
  case Nil
  then show ?case by (simp add: IsDead_def answers_def)
next
  case (Cons p ps ls as)
  have lines: "ep_lines e = ls @ ''{ready}'' # answers as" using Cons.prems(3) by (simp add: answers_def)
  obtain r e1 where x: "Extract parse_json p True e = (r, e1)" by fastforce
  have "r = reading parse_json p ls \<and> ep_lines e1 = answers as \<and> ep_writable e1 \<and> \<not> ep_dead e1"
    using extract_step [OF Cons.prems(2) _ lines, of parse_json p True] Cons.prems(1,4) x by simp
  then show ?case using Cons.IH [of e1] Cons.prems(1) x by (simp add: split_beta)
qed

definition echo_json :: "string \<Rightarrow> exif list option" where
  "echo_json s = (if s = [] then None else Some [[''Title'' \<mapsto> EStr s]])"

section \<open>A process that has ended\<close>

text \<open>A process that has ended - it prints nothing more, which is no error of the scanner - is
  never given up: every further request fails, it does not count as dead, and the dispatcher
  hands the same process to every later job.\<close>

lemma ended_exiftool_is_kept:
  assumes "ep_lines e = []" and "\<not> ep_scan_error e" and "\<not> IsDead e" and "parse_json [] = None"
    and "d_et d = Some (dispatcher_view (snd (extract_all parse_json paths e)))"
  shows "list_all (\<lambda>r. \<exists>msg. r = Inl msg) (fst (extract_all parse_json paths e))
    \<and> getExiftool d = (Inr (dispatcher_view (snd (extract_all parse_json paths e))), d)"
proof -
  have "list_all (\<lambda>r. \<exists>msg. r = Inl msg) (fst (extract_all parse_json paths e)) \<and> \<not> IsDead (snd (extract_all parse_json paths e))"
    using assms(1-4)
  proof (induction paths arbitrary: e)
    case (Cons p ps)
    obtain r e1 where x: "Extract parse_json p True e = (r, e1)" by fastforce
    have "ep_lines e1 = [] \<and> \<not> ep_scan_error e1 \<and> \<not> IsDead e1 \<and> (\<exists>msg. r = Inl msg)"
      using Cons.prems x by (auto simp: Extract_def request_def IsDead_def Let_def split: if_splits)
    then show ?case using Cons.IH [of e1] Cons.prems(4) x by (simp add: split_beta)
  qed simp
  then show ?thesis using assms(5) by (simp add: getExiftool_def dispatcher_view_def)
qed

lemma ended_exiftool_is_kept_witness:
  "getExiftool ((NewDispatcher (empty_db 0) [] ())\<lparr> d_et := Some \<lparr> et_dead = False \<rparr> \<rparr>)
     = (Inr \<lparr> et_dead = False \<rparr>, (NewDispatcher (empty_db 0) [] ())\<lparr> d_et := Some \<lparr> et_dead = False \<rparr> \<rparr>)
   \<and> fst (extract_all echo_json [''a''] (NewExiftoolProcess [] False)) = [Inl ''parse exiftool json'']"
proof -
  have step: "extract_all echo_json [''a''] (NewExiftoolProcess [] False)
      = ([Inl ''parse exiftool json''], (NewExiftoolProcess [] False)\<lparr> ep_requests := [''a'' @ line_break @ ''-execute'' @ line_break] \<rparr>)"
    by (simp add: NewExiftoolProcess_def Extract_def request_def echo_json_def)
  then have "dispatcher_view (snd (extract_all echo_json [''a''] (NewExiftoolProcess [] False))) = \<lparr> et_dead = False \<rparr>"
    by (simp add: dispatcher_view_def IsDead_def NewExiftoolProcess_def)
  then show ?thesis
    using ended_exiftool_is_kept [of "NewExiftoolProcess [] False" echo_json "(NewDispatcher (empty_db 0) [] ())\<lparr> d_et := Some \<lparr> et_dead = False \<rparr> \<rparr>" "[''a'']"]
      step by (simp add: NewExiftoolProcess_def IsDead_def echo_json_def)
qed

end
