(* ===== verification/Server.thy ===== *)
theory Server
  imports ScanJobs JobsMaintenance DeviceGuard AdminApi
begin

text \<open>
  \<open>internal/config/config.go\<close> and \<open>cmd/server/main.go\<close>: the configuration from the environment
  variables, the line a log record becomes, and the start of the server: recovery, the guard's
  bans, the dispatcher and the handlers it gets. Connecting and migrating are the
  environment's, as is the random secret; the listener and the ways the process ends are in the
  theory \<open>Lifecycle\<close>.
\<close>

section \<open>Base 64\<close>

text \<open>\<open>base64.RawURLEncoding.EncodeToString\<close>.\<close>

definition base64_url :: "nat \<Rightarrow> char" where
  "base64_url i =
     (if i < 26 then char_of (65 + i) else if i < 52 then char_of (71 + i) else if i < 62 then char_of (i - 4)
      else if i = 62 then CHR ''-'' else CHR ''_'')"

fun raw_url_encode :: "string \<Rightarrow> string" where
  "raw_url_encode [] = []"
| "raw_url_encode [a] = (let n = of_char a * 16 in map base64_url [n div 64, n mod 64])"
| "raw_url_encode [a, b] = (let n = (of_char a * 256 + of_char b) * 4 in map base64_url [n div 4096, n div 64 mod 64, n mod 64])"
| "raw_url_encode (a # b # c # s) =
     (let n = (of_char a * 256 + of_char b) * 256 + of_char c in
      map base64_url [n div 262144, n div 4096 mod 64, n div 64 mod 64, n mod 64] @ raw_url_encode s)"

section \<open>The configuration\<close>

record Config =
  DatabaseURL :: string
  DataPath :: string
  MediaPath :: string
  Port :: string
  JWTSecret :: string
  LogLevel :: string
  LogPath :: string
  ClientOrigin :: string
  TranscodeBitrateKbps :: int
  Production :: bool

text \<open>\<open>os.Getenv\<close> gives the empty string for a variable that is not set.\<close>

definition getenv_or :: "(string \<Rightarrow> string) \<Rightarrow> string \<Rightarrow> string \<Rightarrow> string" where
  "getenv_or getenv key fallback = (if getenv key \<noteq> [] then getenv key else fallback)"

text \<open>The last argument is what \<open>crypto/rand\<close> fills the key with, or None when it fails.\<close>

definition Load :: "(string \<Rightarrow> string) \<Rightarrow> string option \<Rightarrow> string + Config" where
  "Load getenv key =
     (let env = getenv_or getenv;
          cfg = \<lparr> DatabaseURL = env ''DATABASE_URL'' [], DataPath = env ''DATA_PATH'' ''./data'', MediaPath = env ''MEDIA_PATH'' ''/media'',
            Port = env ''PORT'' ''3000'', JWTSecret = env ''JWT_SECRET'' [], LogLevel = env ''LOG_LEVEL'' ''warn'',
            LogPath = env ''LOG_PATH'' [], ClientOrigin = env ''CLIENT_ORIGIN'' [], TranscodeBitrateKbps = 0,
            Production = (env ''DEPLOY_ENV'' [] = ''production'') \<rparr> in
      if DatabaseURL cfg = [] then Inl ''DATABASE_URL is required''
      else if JWTSecret cfg = [] then
        (case key of
           None \<Rightarrow> Inl ''generating JWT secret''
         | Some b \<Rightarrow> Inr (cfg\<lparr> JWTSecret := raw_url_encode b \<rparr>))
      else Inr cfg)"

section \<open>Logging\<close>

definition level_debug :: int where "level_debug = - 4"
definition level_info :: int where "level_info = 0"
definition level_warn :: int where "level_warn = 4"
definition level_error :: int where "level_error = 8"

text \<open>The level \<open>setupLogger\<close> gives the handler.\<close>

definition log_level :: "string \<Rightarrow> int" where
  "log_level s =
     (if s = ''debug'' then level_debug else if s = ''info'' then level_info
      else if s = ''warn'' then level_warn else level_error)"

definition log_enabled :: "int \<Rightarrow> int \<Rightarrow> bool" where
  "log_enabled handler_level l \<longleftrightarrow> l \<ge> handler_level"

text \<open>\<open>slog.Level.String\<close>.\<close>

definition level_name :: "string \<Rightarrow> int \<Rightarrow> string" where
  "level_name base d = (if d = 0 then base else base @ (if d < 0 then [] else ''+'') @ strconv_Itoa d)"

definition level_string :: "int \<Rightarrow> string" where
  "level_string l =
     (if l < level_info then level_name ''DEBUG'' (l - level_debug)
      else if l < level_warn then level_name ''INFO'' (l - level_info)
      else if l < level_error then level_name ''WARN'' (l - level_warn)
      else level_name ''ERROR'' (l - level_error))"

definition pad_right :: "nat \<Rightarrow> string \<Rightarrow> string" where
  "pad_right w s = s @ replicate (w - length s) (CHR '' '')"

text \<open>The part of a file name from the first \<open>internal/\<close> on.\<close>

fun from_internal :: "string \<Rightarrow> string option" where
  "from_internal [] = None"
| "from_internal (c # s) = (if prefix ''internal/'' (c # s) then Some (c # s) else from_internal s)"

definition source_text :: "(string \<times> int) option \<Rightarrow> string" where
  "source_text frame = (case frame of
       None \<Rightarrow> []
     | Some (file, line) \<Rightarrow>
         (case from_internal file of Some f \<Rightarrow> f | None \<Rightarrow> filepath_Base_of file) @ '':'' @ strconv_Itoa line)"

text \<open>The arguments: the timestamp, the level, the frame of the caller, the message and the attributes,
  each with its value as \<open>%v\<close> prints it.\<close>

definition flat_line :: "string \<Rightarrow> int \<Rightarrow> (string \<times> int) option \<Rightarrow> string \<Rightarrow> (string \<times> string) list \<Rightarrow> string" where
  "flat_line ts l frame msg attrs =
     ts @ '' ['' @ pad_right 5 (level_string l) @ ''] ['' @ source_text frame @ ''] '' @ msg
     @ concat (map (\<lambda>(k, v). '' '' @ k @ ''='' @ v) attrs) @ [CHR 0x0A]"

section \<open>The handlers\<close>

text \<open>The calls of \<open>dispatcher.Register\<close>, in their order.\<close>

definition registrations :: "scan_env \<Rightarrow> ('e) job_env_scheme \<Rightarrow> (string \<times> JobMeta \<times> disk handler) list" where
  "registrations senv env =
     [(''collection_scan'', CollectionScanMeta, HandleCollectionScan senv),
      (''scan_photo'', ScanPhotoMeta, HandleScanPhoto env),
      (''scan_video'', ScanVideoMeta, HandleScanVideo env),
      (''scan_audio'', ScanAudioMeta, HandleScanAudio env),
      (''thumbnail_scan'', ThumbnailScanMeta, HandleThumbnailScan env),
      (''video_transcode'', VideoTranscodeMeta, HandleVideoTranscode),
      (''video_transcode_item'', VideoTranscodeItemMeta, HandleVideoTranscodeItem env),
      (''orphan_cleanup'', OrphanMeta, HandleOrphanCleanup env),
      (''integrity_check'', IntegrityCheckMeta, HandleIntegrityCheck env),
      (''device_cleanup'', DeviceCleanupMeta, HandleDeviceCleanup (time_now env)),
      (''cover_cycle'', CoverCycleMeta, HandleCoverCycle env),
      (''dzi_gen'', DZIGenMeta, HandleDZIGen),
      (''dzi_gen_item'', DZIGenItemMeta, HandleDZIGenItem env)]"

definition register_all :: "(string \<times> JobMeta \<times> 'w handler) list \<Rightarrow> 'w registry" where
  "register_all rs = fold (\<lambda>(ty, meta, h). Register ty meta h) rs Map.empty"

text \<open>The dispatcher has been started before the first call: a job that is taken meanwhile sees the
  first k of them.\<close>

definition registry_after :: "nat \<Rightarrow> scan_env \<Rightarrow> ('e) job_env_scheme \<Rightarrow> disk registry" where
  "registry_after k senv env = register_all (take k (registrations senv env))"

definition server_registry :: "scan_env \<Rightarrow> ('e) job_env_scheme \<Rightarrow> disk registry" where
  "server_registry senv env = register_all (registrations senv env)"

section \<open>The start\<close>

text \<open>The bitrate is that of the table, unless it cannot be read.\<close>

definition load_bitrate :: "Config \<Rightarrow> db \<Rightarrow> Config \<times> db" where
  "load_bitrate cfg s = (case ServerConfigTranscodeBitrate s of
     (Inl _, s) \<Rightarrow> (cfg, s) | (Inr kbps, s) \<Rightarrow> (cfg\<lparr> TranscodeBitrateKbps := kbps \<rparr>, s))"

record 'c started =
  st_config :: Config
  st_guard :: "'c guard"
  st_dispatcher :: job_disp

text \<open>From \<open>config.Load\<close> to the start of the dispatcher; \<open>connects\<close> is whether the migrations and the
  connection succeed, the empty guard has the cache \<open>c\<close>.\<close>

definition startup ::
  "(string \<Rightarrow> string) \<Rightarrow> string option \<Rightarrow> bool \<Rightarrow> disk_env \<Rightarrow> 'c \<Rightarrow> db \<Rightarrow> disk \<Rightarrow> (string + 'c started) \<times> db \<times> disk" where
  "startup getenv key connects denv c s w =
     (case Load getenv key of
        Inl msg \<Rightarrow> (Inl (''config: '' @ msg), s, w)
      | Inr cfg \<Rightarrow>
          if \<not> connects then (Inl ''db'', s, w)
          else
            let (cfg, s) = load_bitrate cfg s in
            (case JobsResetStuck s of
               (Inl _, s) \<Rightarrow> (Inl ''recovery'', s, w)
             | (Inr _, s) \<Rightarrow>
                 (case PhotoCountPendingVariants s of
                    (Inl _, s) \<Rightarrow> (Inl ''count incomplete variants'', s, w)
                  | (Inr _, s) \<Rightarrow>
                      (case os_MkdirAll denv (DataPath cfg) w of
                         (False, w) \<Rightarrow> (Inl ''data path'', s, w)
                       | (True, w) \<Rightarrow>
                           (case LoadBanned (NewDeviceGuard c) s of
                              (Inl _, s) \<Rightarrow> (Inl ''load banned devices'', s, w)
                            | (Inr g, s) \<Rightarrow>
                                (Inr \<lparr> st_config = cfg, st_guard = g, st_dispatcher = NewDispatcher s [] w \<rparr>, s, w))))))"

text \<open>\<open>INSERT INTO jobs_schedule\<close> of the schema, and what the handlers of the routes and the
  scheduler enqueue on their own.\<close>

definition default_schedules :: "string list" where
  "default_schedules = [''collection_scan'', ''integrity_check'', ''device_cleanup'', ''cover_cycle'']"

definition started_by_code :: "string list" where
  "started_by_code = default_schedules @ [''video_transcode'', ''video_transcode_item'']"

end
