(* ===== verification/ServerProps.thy ===== *)
theory ServerProps
  imports Server JobsProps ScanJobsProps
begin

text \<open>
  What the start of the server guarantees, and that the handlers it registers are enough for the
  jobs the server creates.
\<close>

section \<open>The start\<close>

lemma raw_url_length: "length (raw_url_encode s) = (4 * length s + 2) div 3"
proof (induction s rule: raw_url_encode.induct)
  case (4 a b c s)
  then show ?case by (simp add: Let_def)
qed (simp_all add: Let_def)

lemma LoadBanned_bans:
  assumes "LoadBanned (NewDeviceGuard c) s = (Inr g, s')"
  shows "banned g = device_id ` {dev \<in> set (devices s). banned_at dev \<noteq> None} \<and> jobs s' = jobs s \<and> devices s' = devices s"
  using assms
  by (auto simp: LoadBanned_def DeviceGetBannedIDs_def sql_def NewDeviceGuard_def split: sum.splits prod.splits list.splits bool.splits)

lemma Load_ok:
  assumes "Load getenv key = Inr cfg" and "\<forall>k. key = Some k \<longrightarrow> length k = 32"
  shows "getenv ''DATABASE_URL'' \<noteq> [] \<and> (if getenv ''JWT_SECRET'' \<noteq> [] then JWTSecret cfg = getenv ''JWT_SECRET'' else length (JWTSecret cfg) = 43)"
proof -
  have url: "getenv ''DATABASE_URL'' \<noteq> []"
    using assms(1) unfolding Load_def getenv_or_def Let_def by (cases "getenv ''DATABASE_URL'' = []") simp_all
  show ?thesis
  proof (cases "getenv ''JWT_SECRET'' = []")
    case True
    then obtain k where "key = Some k" and "JWTSecret cfg = raw_url_encode k"
      using assms(1) url unfolding Load_def getenv_or_def Let_def by (cases key) auto
    then show ?thesis using assms(2) True url by (simp add: raw_url_length)
  next
    case False
    then show ?thesis using assms(1) url unfolding Load_def getenv_or_def Let_def by auto
  qed
qed

text \<open>The steps of a start that succeeds.\<close>

lemma startup_steps:
  assumes "startup getenv key connects denv c s w = (Inr st, s', w')"
  obtains cfg cfg1 s1 u s2 n s3 g s4 w1 where "Load getenv key = Inr cfg" and "load_bitrate cfg s = (cfg1, s1)"
    and "JobsResetStuck s1 = (Inr u, s2)" and "PhotoCountPendingVariants s2 = (Inr n, s3)"
    and "LoadBanned (NewDeviceGuard c) s3 = (Inr g, s4)"
    and "st = \<lparr> st_config = cfg1, st_guard = g, st_dispatcher = NewDispatcher s4 [] w1 \<rparr>"
proof -
  obtain cfg where cfg: "Load getenv key = Inr cfg" using assms by (auto simp: startup_def split: sum.splits)
  obtain cfg1 s1 where bit: "load_bitrate cfg s = (cfg1, s1)" by fastforce
  obtain u s2 where reset: "JobsResetStuck s1 = (Inr u, s2)" using assms cfg bit by (auto simp: startup_def split: if_splits sum.splits prod.splits)
  obtain n s3 where count: "PhotoCountPendingVariants s2 = (Inr n, s3)"
    using assms cfg bit reset by (auto simp: startup_def split: if_splits sum.splits prod.splits)
  obtain w1 where mk: "os_MkdirAll denv (DataPath cfg1) w = (True, w1)"
    using assms cfg bit reset count by (auto simp: startup_def split: if_splits sum.splits prod.splits bool.splits)
  obtain g s4 where bans: "LoadBanned (NewDeviceGuard c) s3 = (Inr g, s4)"
    using assms cfg bit reset count mk by (auto simp: startup_def split: if_splits sum.splits prod.splits)
  have "st = \<lparr> st_config = cfg1, st_guard = g, st_dispatcher = NewDispatcher s4 [] w1 \<rparr>"
    using assms cfg bit reset count mk bans by (auto simp: startup_def split: if_splits)
  then show ?thesis using that cfg bit reset count bans by blast
qed

text \<open>C40: A start that succeeds leaves no job running that the last process left behind, every banned
  device in the guard, and a secret for the tokens: the one of the environment, or 43 random
  characters; it fails without a database URL.\<close>

theorem startup_recovers:
  assumes "startup getenv key connects denv c s w = (Inr st, s', w')"
    and "\<forall>k. key = Some k \<longrightarrow> length k = 32"
  shows "(\<forall>j \<in> set (jobs (d_db (st_dispatcher st))). status j \<noteq> Running)
    \<and> banned (st_guard st) = device_id ` {dev \<in> set (devices s). banned_at dev \<noteq> None}
    \<and> getenv ''DATABASE_URL'' \<noteq> []
    \<and> (if getenv ''JWT_SECRET'' \<noteq> [] then JWTSecret (st_config st) = getenv ''JWT_SECRET''
       else length (JWTSecret (st_config st)) = 43)"
proof -
  obtain cfg cfg1 s1 u s2 n s3 g s4 w1 where cfg: "Load getenv key = Inr cfg" and bit: "load_bitrate cfg s = (cfg1, s1)"
    and reset: "JobsResetStuck s1 = (Inr u, s2)" and count: "PhotoCountPendingVariants s2 = (Inr n, s3)"
    and bans: "LoadBanned (NewDeviceGuard c) s3 = (Inr g, s4)"
    and st: "st = \<lparr> st_config = cfg1, st_guard = g, st_dispatcher = NewDispatcher s4 [] w1 \<rparr>"
    using assms(1) by (rule startup_steps)
  have s1: "devices s1 = devices s" "JWTSecret cfg1 = JWTSecret cfg"
    using bit by (auto simp: load_bitrate_def ServerConfigTranscodeBitrate_def sql_def split: list.splits bool.splits)
  have s2: "devices s2 = devices s1" "\<forall>j \<in> set (jobs s2). status j \<noteq> Running"
    using reset by (auto simp: JobsResetStuck_def sql_def split: list.splits bool.splits)
  have s3: "devices s3 = devices s2" "jobs s3 = jobs s2"
    using count by (auto simp: PhotoCountPendingVariants_def sql_def split: list.splits bool.splits)
  have secret: "if getenv ''JWT_SECRET'' \<noteq> [] then JWTSecret cfg = getenv ''JWT_SECRET'' else length (JWTSecret cfg) = 43"
    and url: "getenv ''DATABASE_URL'' \<noteq> []"
    using Load_ok [OF cfg assms(2)] by simp_all
  show ?thesis using LoadBanned_bans [OF bans] s1 s2 s3 secret url by (simp add: st NewDispatcher_def)
qed

definition demo_getenv :: "string \<Rightarrow> string" where
  "demo_getenv k = (if k = ''DATABASE_URL'' then ''postgres://localhost'' else [])"

definition demo_db :: db where
  "demo_db = (empty_db 5)\<lparr> jobs := [maintenance_job], devices := cleanup_devices \<rparr>"

lemma demo_data_dir: "fst (os_MkdirAll (disk_part demo_job_env) ''./data'' [])"
  by (simp add: os_MkdirAll_def node_at_def is_directory_def Let_def list_ex_iff disk_env.defs)

lemma demo_starts:
  assumes "faults s = []"
  obtains st s' w' where "startup demo_getenv (Some (replicate 32 (CHR ''x''))) True (disk_part demo_job_env) () s [] = (Inr st, s', w')"
    and "faults (d_db (st_dispatcher st)) = []"
proof -
  obtain w where w: "os_MkdirAll (disk_part demo_job_env) ''./data'' [] = (True, w)"
    by (rule that [of "snd (os_MkdirAll (disk_part demo_job_env) ''./data'' [])"]) (simp add: prod_eq_iff demo_data_dir)
  obtain cfg where cfg: "Load demo_getenv (Some (replicate 32 (CHR ''x''))) = Inr cfg" "DataPath cfg = ''./data''"
    by (simp add: Load_def getenv_or_def demo_getenv_def)
  show ?thesis
    using that cfg w assms
    by (simp add: NewDispatcher_def startup_def load_bitrate_def ServerConfigTranscodeBitrate_def JobsResetStuck_def PhotoCountPendingVariants_def
        LoadBanned_def DeviceGetBannedIDs_def)
qed

theorem startup_recovers_witness:
  "\<exists>st s' w'. startup demo_getenv (Some (replicate 32 (CHR ''x''))) True (disk_part demo_job_env) () demo_db [] = (Inr st, s', w')
    \<and> (\<forall>j \<in> set (jobs (d_db (st_dispatcher st))). status j \<noteq> Running) \<and> banned (st_guard st) = {3}
    \<and> length (JWTSecret (st_config st)) = 43"
proof -
  obtain st s' w' where run: "startup demo_getenv (Some (replicate 32 (CHR ''x''))) True (disk_part demo_job_env) () demo_db [] = (Inr st, s', w')"
    by (rule demo_starts [of demo_db]) (simp add: demo_db_def empty_db_def)
  have "filter (\<lambda>dev. banned_at dev \<noteq> None) (devices demo_db) = [cleanup_device 3 0 (Some 1)]"
    by (simp add: demo_db_def cleanup_devices_def cleanup_device_def)
  then have "device_id ` {dev \<in> set (devices demo_db). banned_at dev \<noteq> None} = {3}"
    unfolding set_filter [symmetric] by (simp add: cleanup_device_def)
  then show ?thesis
    using startup_recovers [OF run] run by (simp add: demo_getenv_def)
qed

section \<open>Every job has a handler\<close>

text \<open>Runs that hand out no sub-jobs.\<close>

definition no_subs :: "job_result option \<Rightarrow> bool" where
  "no_subs r \<longleftrightarrow> (case r of None \<Rightarrow> True | Some x \<Rightarrow> snd (fst x) = [])"

lemma no_subs_ends [simp]: "no_subs (failed msg d)" "no_subs (finished d)" "no_subs None"
  by (simp_all add: no_subs_def failed_def finished_def)

lemma no_subs_bind [intro!]: "(\<And>x. no_subs (f x)) \<Longrightarrow> no_subs (Option.bind m f)"
  by (cases m) simp_all

lemma crashing_no_subs: "no_subs (run jc d) \<Longrightarrow> snd (fst (crashing run jc d)) = []"
  by (auto simp: crashing_def no_subs_def split: option.splits)

lemma photo_no_subs: "no_subs (scan_photo_run env jc d)"
  unfolding scan_photo_run_def photo_files_def
  by (auto simp: Let_def split: option.split sum.split prod.split)

lemma video_no_subs: "no_subs (scan_video_run env jc d)"
  unfolding scan_video_run_def video_files_def
  by (auto simp: Let_def split: option.split sum.split prod.split)

lemma audio_no_subs: "snd (fst (HandleScanAudio env jc d)) = []"
  unfolding HandleScanAudio_def
  by (simp add: Let_def split: option.split sum.split prod.split)

lemma thumbnail_no_subs: "no_subs (thumbnail_scan_run env jc d)"
  unfolding thumbnail_scan_run_def scan_videos_step_def
  by (auto simp: Let_def split: option.split sum.split prod.split)

lemma transcode_no_subs: "no_subs (video_transcode_item_run env jc d)"
  unfolding video_transcode_item_run_def transcode_file_def
  by (auto simp: Let_def split: option.split sum.split prod.split bool.split ffmpeg_outcome.split)

lemma orphan_no_subs: "no_subs (orphan_run_job env jc d)"
  unfolding orphan_run_job_def
  by (auto simp: Let_def split: option.split prod.split)

lemma integrity_no_subs: "no_subs (integrity_run env jc d)"
  unfolding integrity_run_def
  by (auto simp: Let_def split: option.split prod.split)

lemma cleanup_no_subs: "snd (fst (HandleDeviceCleanup now jc d)) = []"
  unfolding HandleDeviceCleanup_def
  by (simp add: Let_def split: sum.split prod.split)

lemma cycle_no_subs: "no_subs (cover_cycle_run env jc d)"
  unfolding cover_cycle_run_def
  by (auto simp: Let_def split: option.split sum.split prod.split)

lemma dzi_item_no_subs: "no_subs (dzi_gen_item_run env jc d)"
  unfolding dzi_gen_item_run_def
  by (auto simp: Let_def split: option.split sum.split prod.split)

text \<open>The sub-jobs of a collection's scan and of its tiles.\<close>

definition handed_out :: "string set \<Rightarrow> SubJobSpec list \<Rightarrow> bool" where
  "handed_out T buf \<longleftrightarrow> (\<forall>sp \<in> set buf. spec_type sp \<in> T)"

lemma handed_out_Nil [simp]: "handed_out T []"
  by (simp add: handed_out_def)

lemma handed_out_add: "handed_out T buf \<Longrightarrow> ty \<in> T \<Longrightarrow> handed_out T (AddSubJob ty i rt buf)"
  by (auto simp: handed_out_def AddSubJob_def)

lemma scan_db_buf: "scan_db stmt a = (r, a') \<Longrightarrow> sa_buf a' = sa_buf a"
  by (auto simp: scan_db_def split: prod.splits)

lemma scan_db_handed: "scan_db stmt a = (r, a') \<Longrightarrow> handed_out T (sa_buf a) \<Longrightarrow> handed_out T (sa_buf a')"
  by (simp add: scan_db_buf)

lemma queue_scan_buf: "handed_out T (sa_buf a) \<Longrightarrow> ty \<in> T \<Longrightarrow> handed_out T (sa_buf (queue_scan ty i a))"
  by (simp add: queue_scan_def handed_out_add)

lemma scan_error_buf [simp]: "sa_buf (scan_error a) = sa_buf a"
  by (simp add: scan_error_def)

lemma refresh_buf: "handed_out T (sa_buf a) \<Longrightarrow> ty \<in> T \<Longrightarrow> handed_out T (sa_buf (refresh_file ty k sz h m a))"
  by (auto simp: refresh_file_def intro: queue_scan_buf dest: scan_db_handed split: prod.split sum.split)

lemma compare_buf: "handed_out T (sa_buf a) \<Longrightarrow> ty \<in> T \<Longrightarrow> handed_out T (sa_buf (compare_file env p ty k sz m a))"
  using scan_db_buf [of "MediaItemUpdateModifiedAt (ks_id k) m" a, OF prod.collapse [symmetric]]
  by (auto simp: compare_file_def Let_def intro: queue_scan_buf refresh_buf split: option.split)

lemma known_buf: "handed_out T (sa_buf a) \<Longrightarrow> ty \<in> T \<Longrightarrow> handed_out T (sa_buf (known_file env p ty k sz m a))"
  by (auto simp: known_file_def intro: compare_buf dest: scan_db_handed split: prod.split sum.split)

lemma new_buf: "handed_out T (sa_buf a) \<Longrightarrow> ty \<in> T \<Longrightarrow> handed_out T (sa_buf (new_file env ids p rp mi ty sz m a))"
  by (auto simp: new_file_def intro: queue_scan_buf dest: scan_db_handed split: option.split prod.split sum.split)

definition scan_types :: "string set" where
  "scan_types = {''scan_photo'', ''scan_video'', ''scan_audio''}"

lemma scan_job_type_in: "scan_job_type mime = Some ty \<Longrightarrow> ty \<in> scan_types"
  by (auto simp: scan_job_type_def mimeToScanJobType_def scan_types_def split: if_splits)

lemma scan_file_buf:
  assumes "handed_out scan_types (sa_buf a)"
  shows "handed_out scan_types (sa_buf (scan_file env cat known ids e a))"
proof -
  have "handed_out scan_types (sa_buf (a\<lparr> sa_walked := sa_walked a + 1 \<rparr>))"
    "handed_out scan_types (sa_buf (a\<lparr> sa_walked := sa_walked a + 1, sa_seen := s \<rparr>))" for s
    using assms by simp_all
  then show ?thesis using assms
    by (auto simp: scan_file_def Let_def dest: scan_job_type_in intro: known_buf new_buf split: option.split prod.split)
qed

lemma scan_files_handed: "handed_out scan_types (snd (fst (scan_files env jc cid path cat ids d)))"
proof -
  have folded: "handed_out scan_types (sa_buf (fold (scan_file env cat known ids) es a))" if "handed_out scan_types (sa_buf a)" for known es a
    using that by (induction es arbitrary: a) (simp_all add: scan_file_buf)
  have "handed_out scan_types (sa_buf (fold (scan_file env cat known ids) es
      \<lparr> sa_seen = [], sa_buf = [], sa_walked = 0, sa_queued = 0, sa_errors = 0, sa_disp = x \<rparr>))" for known es x
    by (rule folded) simp
  then show ?thesis
    by (auto simp: scan_files_def Let_def split: prod.split sum.split option.split)
qed

lemma collection_scan_handed: "handed_out scan_types (snd (fst (HandleCollectionScan env jc d)))"
  by (auto simp: HandleCollectionScan_def Let_def scan_files_handed split: prod.split sum.split option.split)

lemma dzi_handed: "handed_out {''dzi_gen_item''} (snd (fst (HandleDZIGen jc d)))"
proof -
  have "handed_out {''dzi_gen_item''} (fold (\<lambda>i. AddSubJob ''dzi_gen_item'' (Some i) (Some ''media_item'')) ids buf)"
    if "handed_out {''dzi_gen_item''} buf" for ids buf
    using that by (induction ids arbitrary: buf) (simp_all add: handed_out_add)
  then show ?thesis
    by (auto simp: HandleDZIGen_def Let_def split: prod.split sum.split option.split)
qed

lemmas registry_defs = server_registry_def register_all_def registrations_def Register_def

lemma registered: "server_registry senv env ty = Some (meta, h) \<Longrightarrow> (ty, meta, h) \<in> set (registrations senv env)"
  by (auto simp: registry_defs split: if_splits)

lemma sub_job_handlers:
  assumes "ty \<in> scan_types \<union> {''dzi_gen_item''}"
  obtains m h where "server_registry senv env ty = Some (m, h)" and "\<not> SupportsSubjobs m" and "ty \<in> set subJobTypes"
  using assms that
  by (auto simp: scan_types_def registry_defs subJobTypes_def ScanPhotoMeta_def ScanVideoMeta_def ScanAudioMeta_def DZIGenItemMeta_def)

text \<open>Whatever sub-job a registered handler hands out, its own type is one that may have sub-jobs,
  and the sub-job's type is reserved for sub-jobs and has a handler that hands out none; the
  jobs the server starts on its own, by its schedules or for a transcode, have handlers, too.\<close>

lemma sub_jobs_have_handlers:
  assumes "server_registry senv env ty = Some (meta, h)" and "sp \<in> set (snd (fst (h jc d)))"
  shows "SupportsSubjobs meta \<and> spec_type sp \<in> set subJobTypes
    \<and> (\<exists>m h'. server_registry senv env (spec_type sp) = Some (m, h') \<and> \<not> SupportsSubjobs m)
    \<and> (\<forall>t \<in> set started_by_code. server_registry senv env t \<noteq> None)"
proof -
  have quiet: "snd (fst (crashing run jc d)) = []" if "no_subs (run jc d)" for run using that by (rule crashing_no_subs [of run jc d])
  note silent = photo_no_subs video_no_subs thumbnail_no_subs transcode_no_subs orphan_no_subs integrity_no_subs cycle_no_subs dzi_item_no_subs
  have "(ty, meta, h) \<in> set (registrations senv env)" by (rule registered [OF assms(1)])
  then have "(meta, h) = (CollectionScanMeta, HandleCollectionScan senv) \<or> (meta, h) = (DZIGenMeta, HandleDZIGen)"
    using assms(2)
    by (auto simp: registrations_def HandleScanPhoto_def HandleScanVideo_def audio_no_subs HandleThumbnailScan_def HandleVideoTranscode_def
        HandleVideoTranscodeItem_def HandleOrphanCleanup_def HandleIntegrityCheck_def cleanup_no_subs HandleCoverCycle_def HandleDZIGenItem_def
        quiet silent)
  then have "SupportsSubjobs meta \<and> spec_type sp \<in> scan_types \<union> {''dzi_gen_item''}"
    using assms(2) collection_scan_handed [of senv jc d] dzi_handed [of jc d]
    by (auto simp: handed_out_def CollectionScanMeta_def DZIGenMeta_def)
  moreover have "\<forall>t \<in> set started_by_code. server_registry senv env t \<noteq> None"
    by (simp add: started_by_code_def default_schedules_def registry_defs)
  ultimately show ?thesis by (meson sub_job_handlers)
qed

definition no_files :: scan_env where
  "no_files = \<lparr> scan_media_path = ''/m'', walk_dir = (\<lambda>_. []), stat_file = (\<lambda>_. None), contents = (\<lambda>_. None), blake2b_hex = id \<rparr>"

definition tiles_ctx :: job_ctx where
  "tiles_ctx = maintenance_ctx\<lparr> jc_job := maintenance_job\<lparr> related_id := Some 1 \<rparr> \<rparr>"

definition tiles_db :: db where
  "tiles_db = (empty_db 0)\<lparr> media_items := [shared_item 4 None], collections := [\<lparr> coll_id = 1, parent_collection_id = None,
     root_collection_id = Some 1, coll_name = [], coll_type = ''image:photo'', coll_path = None, is_enabled = True,
     manual_thumbnail = False, last_scanned_at = None, coll_missing_since = None, coll_created_at = 0 \<rparr>] \<rparr>"

definition tiles_sub_job :: SubJobSpec where
  "tiles_sub_job = \<lparr> spec_related_id = Some 4, spec_related_type = Some ''media_item'', spec_type = ''dzi_gen_item'' \<rparr>"

lemma demo_tiles: "snd (fst (HandleDZIGen tiles_ctx (demo_disp tiles_db []))) = [tiles_sub_job]"
  by code_simp

lemma sub_jobs_have_handlers_witness:
  "\<exists>h. server_registry no_files demo_job_env ''dzi_gen'' = Some (DZIGenMeta, h)
    \<and> tiles_sub_job \<in> set (snd (fst (h tiles_ctx (demo_disp tiles_db []))))
    \<and> SupportsSubjobs DZIGenMeta \<and> server_registry no_files demo_job_env (spec_type tiles_sub_job) \<noteq> None"
proof -
  have reg: "server_registry no_files demo_job_env ''dzi_gen'' = Some (DZIGenMeta, HandleDZIGen)" by (simp add: registry_defs)
  have sub: "tiles_sub_job \<in> set (snd (fst (HandleDZIGen tiles_ctx (demo_disp tiles_db []))))" by (simp add: demo_tiles)
  show ?thesis using sub_jobs_have_handlers [OF reg sub] reg sub by blast
qed

end
