(* ===== verification/Lifecycle.thy ===== *)
theory Lifecycle
  imports StreamingProps ServerProps
begin

text \<open>
  The rest of \<open>run\<close> in \<open>cmd/server/main.go\<close> and \<open>internal/db/db.go\<close>: the connection, the server that is
  started, the ways it ends, and what a restart makes of the jobs the last process left behind. The process is what the operating
  system would see of it; the database outlives it.
\<close>

section \<open>The connection\<close>

text \<open>The steps of pgx and golang-migrate with the errors they end in; a schema that needs no change is
  no error.\<close>

definition Open :: "string option \<Rightarrow> string option \<Rightarrow> string option" where
  "Open new_err ping_err = (case new_err of
       Some e \<Rightarrow> Some (''pgxpool.New: '' @ e)
     | None \<Rightarrow> map_option (\<lambda>e. ''db ping: '' @ e) ping_err)"

datatype migrate_up = Migrated | NoChange | UpFails string

definition Migrate :: "string option \<Rightarrow> string option \<Rightarrow> migrate_up \<Rightarrow> string option" where
  "Migrate src_err instance_err up = (case src_err of
       Some e \<Rightarrow> Some (''iofs.New: '' @ e)
     | None \<Rightarrow>
         (case instance_err of
            Some e \<Rightarrow> Some (''migrate.New: '' @ e)
          | None \<Rightarrow> (case up of UpFails e \<Rightarrow> Some (''migrate.Up: '' @ e) | _ \<Rightarrow> None)))"

section \<open>The running server\<close>

text \<open>Where the log goes: a file that cannot be opened falls back to the standard output.\<close>

datatype log_output = Stdout | LogFile string

definition log_output_of :: "(string \<Rightarrow> bool) \<Rightarrow> string \<Rightarrow> log_output" where
  "log_output_of can_open logPath = (if logPath \<noteq> [] \<and> can_open logPath then LogFile logPath else Stdout)"

text \<open>The fields of \<open>http.Server\<close> the code sets.\<close>

record http_server =
  Addr :: string
  ReadTimeout :: duration
  WriteTimeout :: duration
  IdleTimeout :: duration

definition http_server_of :: "Config \<Rightarrow> http_server" where
  "http_server_of cfg = \<lparr> Addr = CHR '':'' # Port cfg, ReadTimeout = 30 * second, WriteTimeout = 120 * second,
     IdleTimeout = 120 * second \<rparr>"

definition shutdown_timeout :: duration where
  "shutdown_timeout = 30 * second"

text \<open>\<open>p_exit\<close> is the exit status, None while the process runs.\<close>

record 'c process =
  p_started :: "'c started"
  p_server :: http_server
  p_sweeper :: bool
  p_scheduler :: bool
  p_listening :: bool
  p_vips :: bool
  p_pool :: bool
  p_streams :: streaming
  p_exit :: "nat option"

definition serve :: "streaming \<Rightarrow> 'c started \<Rightarrow> 'c process" where
  "serve strs st = \<lparr> p_started = st, p_server = http_server_of (st_config st), p_sweeper = True, p_scheduler = True,
     p_listening = True, p_vips = True, p_pool = True, p_streams = strs, p_exit = None \<rparr>"

section \<open>The end\<close>

text \<open>The listener fails, or a signal arrives; then the connections end before the timeout or not.\<close>

datatype run_end = ListenFails | Signalled bool

text \<open>\<open>Stop\<close> waits for the run loop, which has come to rest and sees the cancelled context.\<close>

definition Dispatcher_Stop :: "'w dispatcher \<Rightarrow> 'w dispatcher" where
  "Dispatcher_Stop d = closeExiftool (d\<lparr> d_cancelled := True \<rparr>)"

text \<open>The deferred calls, the last one first.\<close>

definition run_deferred :: "'c process \<Rightarrow> 'c process" where
  "run_deferred p = p\<lparr> p_vips := False, p_pool := False \<rparr>"

fun finish :: "run_end \<Rightarrow> 'c process \<Rightarrow> 'c process" where
  "finish ListenFails p = p\<lparr> p_exit := Some 1 \<rparr>"
| "finish (Signalled in_time) p =
     (let p = p\<lparr> p_scheduler := False \<rparr>; p = p\<lparr> p_listening := False \<rparr> in
      if \<not> in_time then (run_deferred p)\<lparr> p_exit := Some 1 \<rparr>
      else
        let st = p_started p in
        (run_deferred (p\<lparr> p_started := st\<lparr> st_dispatcher := Dispatcher_Stop (st_dispatcher st) \<rparr> \<rparr>))\<lparr> p_exit := Some 0 \<rparr>)"

text \<open>\<open>run\<close> as a whole, and the exit status of \<open>main\<close>.\<close>

definition run_server ::
  "(string \<Rightarrow> string) \<Rightarrow> string option \<Rightarrow> string option \<Rightarrow> string option \<Rightarrow> disk_env \<Rightarrow> 'c \<Rightarrow> streaming \<Rightarrow> run_end
    \<Rightarrow> db \<Rightarrow> disk \<Rightarrow> (string + 'c process) \<times> db \<times> disk" where
  "run_server getenv key migrate_err open_err denv c strs e s w =
     (case Load getenv key of
        Inl msg \<Rightarrow> (Inl (''config: '' @ msg), s, w)
      | Inr cfg \<Rightarrow>
          (case migrate_err of
             Some m \<Rightarrow> (Inl (''migrate: '' @ m), s, w)
           | None \<Rightarrow>
               (case open_err of
                  Some m \<Rightarrow> (Inl (''db: '' @ m), s, w)
                | None \<Rightarrow>
                    (case startup getenv key True denv c s w of
                       (Inl msg, s, w) \<Rightarrow> (Inl msg, s, w)
                     | (Inr st, s, w) \<Rightarrow> (Inr (finish e (serve strs st)), s, w)))))"

definition main_exit :: "string + 'c process \<Rightarrow> nat option" where
  "main_exit r = (case r of Inl _ \<Rightarrow> Some 1 | Inr p \<Rightarrow> p_exit p)"

abbreviation p_disp :: "'c process \<Rightarrow> job_disp" where
  "p_disp p \<equiv> st_dispatcher (p_started p)"

section \<open>Lemmas\<close>

lemma Stop_sel [simp]:
  "d_db (Dispatcher_Stop d) = d_db d" "d_cancelled (Dispatcher_Stop d)" "d_et (Dispatcher_Stop d) = None" "d_world (Dispatcher_Stop d) = d_world d"
  by (simp_all add: Dispatcher_Stop_def closeExiftool_def split: option.split)

text \<open>The loop takes nothing up any more.\<close>

lemma stopped_loop_rests: "run_event hs fuel ev (Dispatcher_Stop d) = Some (Dispatcher_Stop d)"
proof -
  have "d_cancelled (Dispatcher_Stop d)" "closeExiftool (Dispatcher_Stop d) = Dispatcher_Stop d"
    by (simp_all add: closeExiftool_def [of "Dispatcher_Stop d"])
  then show ?thesis by (simp add: run_event_def)
qed

lemma finish_db [simp]: "d_db (p_disp (finish e p)) = d_db (p_disp p)"
  by (cases e) (simp_all add: Let_def run_deferred_def)

text \<open>A shutdown in time leaves a dispatcher that takes nothing up; one that runs into the timeout never
  stops it. Either way the live streams are left alone: their ffmpeg processes and directories
  outlive the server.\<close>

lemma finish_leaves_streams: "p_streams (finish e p) = p_streams p"
  by (cases e) (simp_all add: Let_def run_deferred_def)

lemma finish_stops_in_time: "d_cancelled (p_disp (finish e p)) \<longleftrightarrow> e = Signalled True \<or> d_cancelled (p_disp p)"
  by (cases e) (simp_all add: Let_def run_deferred_def)

lemma startup_jobs:
  assumes "startup getenv key connects denv c s w = (Inr st, s', w')"
  shows "jobs (d_db (st_dispatcher st)) = map (\<lambda>j. if status j = Running then j\<lparr> status := Queued, started_at := None \<rparr> else j) (jobs s)"
    and "d_queue (st_dispatcher st) = []"
proof -
  obtain cfg cfg1 s1 u s2 n s3 g s4 w1 where bit: "load_bitrate cfg s = (cfg1, s1)"
    and reset: "JobsResetStuck s1 = (Inr u, s2)" and count: "PhotoCountPendingVariants s2 = (Inr n, s3)"
    and bans: "LoadBanned (NewDeviceGuard c) s3 = (Inr g, s4)"
    and st: "st = \<lparr> st_config = cfg1, st_guard = g, st_dispatcher = NewDispatcher s4 [] w1 \<rparr>"
    using assms by (rule startup_steps)
  have "jobs s1 = jobs s" using bit by (auto simp: load_bitrate_def ServerConfigTranscodeBitrate_def sql_def split: list.splits bool.splits)
  moreover have "jobs s2 = map (\<lambda>j. if status j = Running then j\<lparr> status := Queued, started_at := None \<rparr> else j) (jobs s1)"
    using reset by (auto simp: JobsResetStuck_def sql_def split: list.splits bool.splits)
  moreover have "jobs s3 = jobs s2" using count by (auto simp: PhotoCountPendingVariants_def sql_def split: list.splits bool.splits)
  ultimately show "jobs (d_db (st_dispatcher st)) = map (\<lambda>j. if status j = Running then j\<lparr> status := Queued, started_at := None \<rparr> else j) (jobs s)"
    using LoadBanned_bans [OF bans] by (simp add: st NewDispatcher_def)
  show "d_queue (st_dispatcher st) = []" by (simp add: st NewDispatcher_def)
qed

text \<open>Only a shutdown in time of a server that came up ends without an error.\<close>

lemma clean_exit:
  assumes "main_exit (fst (run_server getenv key migrate_err open_err denv c strs e s w)) = Some 0"
  shows "e = Signalled True \<and> migrate_err = None \<and> open_err = None
    \<and> (\<exists>st. fst (startup getenv key True denv c s w) = Inr st)"
  using assms by (cases e) (auto simp: main_exit_def run_server_def run_deferred_def serve_def Let_def split: sum.splits option.splits prod.splits if_splits)

declare finish.simps [simp del]

section \<open>The restart\<close>

text \<open>C10: However the server ends, after the next start and its first poll every top-level job that had
  not ended is in the queue, and every job that was running, sub-jobs included, is queued again
  in the database.\<close>

theorem restart_resumes_jobs:
  assumes "startup getenv key connects denv c (d_db (p_disp (finish e p))) w = (Inr st, s', w')"
    and "faults (d_db (st_dispatcher st)) = []" and "j \<in> set (jobs (d_db (p_disp p)))"
  shows "(parent_job_id j = None \<longrightarrow> is_terminal (status j) \<or> job_id j \<in> set (map q_id (d_queue (loadFromDB (st_dispatcher st)))))
    \<and> (status j = Running \<longrightarrow> j\<lparr> status := Queued, started_at := None \<rparr> \<in> set (jobs (d_db (loadFromDB (st_dispatcher st)))))"
proof -
  let ?d = "st_dispatcher st" and ?k = "if status j = Running then j\<lparr> status := Queued, started_at := None \<rparr> else j"
  have k: "?k \<in> set (jobs (d_db ?d))"
    using assms(3) unfolding startup_jobs(1) [OF assms(1)] finish_db set_map by (rule imageI)
  have load: "loadFromDB ?d = ?d\<lparr> d_queue := load_rows (d_db ?d) \<rparr>"
    by (simp add: loadFromDB_healthy [OF assms(2)] startup_jobs(2) [OF assms(1)])
  have "job_id j \<in> set (map q_id (load_rows (d_db ?d)))" if "parent_job_id j = None" "\<not> is_terminal (status j)"
  proof -
    have "loadable ?k" using that by (cases "status j") (simp_all add: loadable_def is_terminal_def)
    then have "job_id ?k \<in> job_id ` set (filter loadable (jobs (d_db ?d)))" using k by (intro imageI) simp
    then show ?thesis unfolding load_rows_ids by (simp split: if_splits)
  qed
  then show ?thesis using k by (auto simp: load)
qed

definition interrupted_db :: db where
  "interrupted_db = (empty_db 5)\<lparr> jobs := [maintenance_job] \<rparr>"

definition interrupted :: "unit process" where
  "interrupted = serve (stream_init 0 \<lparr> paused = False \<rparr>)
     \<lparr> st_config = \<lparr> DatabaseURL = ''postgres://localhost'', DataPath = ''./data'', MediaPath = ''./media'', Port = ''3000'', JWTSecret = ''key'',
        LogLevel = ''info'', LogPath = [], ClientOrigin = [], TranscodeBitrateKbps = 4000, Production = True \<rparr>,
       st_guard = NewDeviceGuard (), st_dispatcher = NewDispatcher interrupted_db [] [] \<rparr>"

theorem restart_resumes_jobs_witness:
  "\<exists>st s' w'. startup demo_getenv (Some (replicate 32 (CHR ''x''))) True (disk_part demo_job_env) ()
        (d_db (p_disp (finish (Signalled False) interrupted))) [] = (Inr st, s', w')
    \<and> 1 \<in> set (map q_id (d_queue (loadFromDB (st_dispatcher st))))
    \<and> maintenance_job\<lparr> status := Queued \<rparr> \<in> set (jobs (d_db (loadFromDB (st_dispatcher st))))"
proof -
  have db: "d_db (p_disp interrupted) = interrupted_db"
    by (simp add: interrupted_def serve_def NewDispatcher_def)
  then have healthy: "faults (d_db (p_disp (finish (Signalled False) interrupted))) = []"
    by (simp add: interrupted_db_def empty_db_def)
  obtain st s' w' where run: "startup demo_getenv (Some (replicate 32 (CHR ''x''))) True (disk_part demo_job_env) ()
      (d_db (p_disp (finish (Signalled False) interrupted))) [] = (Inr st, s', w')" and f: "faults (d_db (st_dispatcher st)) = []"
    using healthy by (rule demo_starts)
  have "maintenance_job \<in> set (jobs (d_db (p_disp interrupted)))" by (simp add: db interrupted_db_def)
  from restart_resumes_jobs [OF run f this] run show ?thesis by (auto simp: maintenance_job_def is_terminal_def)
qed

end
