(* ===== verification/Router.thy ===== *)
theory Router
  imports MediaRoutes AdminApi
begin

text \<open>
  \<open>internal/api/router.go\<close> with the middleware of \<open>internal/api/middleware.go\<close>: the table of the routes, the
  groups with their guards, and the way of a request through the recoverer, the real address, the
  request logger, CORS and the route's guard to its handler. chi's choice of a route, its RealIP and
  the answer of rs/cors to a preflight request are parameters.
\<close>

section \<open>Patterns\<close>

text \<open>A route's pattern: its segments are literal, a parameter, or a star for the rest.\<close>

datatype segment = Lit string | Param string | CatchAll

definition segment_of :: "string \<Rightarrow> segment" where
  "segment_of s =
     (if s = ''*'' then CatchAll
      else if has_prefix s ''{'' \<and> has_suffix s ''}'' then Param (trim_suffix (trim_prefix s ''{'') ''}'')
      else Lit s)"

definition parse_pattern :: "string \<Rightarrow> segment list" where
  "parse_pattern p = map segment_of (split_slash p)"

text \<open>The parameters with which the segments of a path fit a pattern.\<close>

fun fits :: "segment list \<Rightarrow> string list \<Rightarrow> (string \<times> string) list option" where
  "fits [] [] = Some []"
| "fits (Lit s # ss) (p # ps) = (if s = p then fits ss ps else None)"
| "fits (Param n # ss) (p # ps) = map_option (\<lambda>rest. (n, p) # rest) (fits ss ps)"
| "fits [CatchAll] (p # ps) = Some [(''*'', join_slash (p # ps))]"
| "fits _ _ = None"

section \<open>The table\<close>

text \<open>What the decoders of the handlers make of the body of a request, and what the environment does
  while a stream is opened or waited for.\<close>

record forms =
  f_login :: "login_body option"
  f_refresh :: "refresh_body option"
  f_message :: "raw_message option"
  f_user :: "user_body option"
  f_collection :: "collection_body option"
  f_ids :: "int list option"
  f_job :: "job_body option"
  f_schedule :: "schedule_body option"
  f_position :: "int option"
  f_show_position :: "(int \<times> int) option"
  f_upload :: upload
  f_open :: open_env
  f_select :: manifest_select
  f_wait :: serve_env
  f_ticks :: "db list"

datatype target =
    ToVersion
  | ToHealth
  | ToPublic "forms \<Rightarrow> request \<Rightarrow> auth_call"
  | ToAuth "forms \<Rightarrow> request \<Rightarrow> auth_call"
  | ToMedia "forms \<Rightarrow> media_call"
  | ToAdmin "forms \<Rightarrow> admin_call"
  | ToCover "forms \<Rightarrow> cover_call"
  | ToJobEvents

text \<open>The method, the pattern and the handler.\<close>

type_synonym route = "string \<times> string \<times> target"

definition public_routes :: "route list" where
  "public_routes =
     [(''GET'', ''/api/v1/system/version'', ToVersion),
      (''GET'', ''/api/v1/system/health'', ToHealth),
      (''GET'', ''/api/v1/auth/providers'', ToPublic (\<lambda>f r. CallProviders)),
      (''POST'', ''/api/v1/auth/login'', ToPublic (\<lambda>f r. CallLogin r (f_login f))),
      (''POST'', ''/api/v1/auth/refresh'', ToPublic (\<lambda>f r. CallRefresh r (f_refresh f)))]"

definition authenticated_routes :: "route list" where
  "authenticated_routes =
     [(''GET'', ''/api/v1/auth/me'', ToAuth (\<lambda>f. CallMe)),
      (''POST'', ''/api/v1/auth/logout'', ToAuth (\<lambda>f. CallLogout)),
      (''POST'', ''/api/v1/auth/credentials'', ToAuth (\<lambda>f r. CallCredentials r (f_message f))),
      (''GET'', ''/api/v1/auth/devices'', ToAuth (\<lambda>f. CallListDevices)),
      (''DELETE'', ''/api/v1/auth/devices/{id}'', ToAuth (\<lambda>f. CallDeleteDevice)),
      (''POST'', ''/api/v1/auth/devices/{id}/ban'', ToAuth (\<lambda>f. CallBan)),
      (''DELETE'', ''/api/v1/auth/devices/{id}/ban'', ToAuth (\<lambda>f. CallUnban)),
      (''GET'', ''/api/v1/collections'', ToMedia (\<lambda>f. media_call.ListCollections)),
      (''GET'', ''/api/v1/collections/{id}'', ToMedia (\<lambda>f. GetCollection)),
      (''GET'', ''/api/v1/collections/{id}/collections'', ToMedia (\<lambda>f. ListChildren)),
      (''GET'', ''/api/v1/collections/{id}/photos'', ToMedia (\<lambda>f. ListPhotos)),
      (''GET'', ''/api/v1/collections/{id}/photos/stats'', ToMedia (\<lambda>f. PhotoStats)),
      (''GET'', ''/api/v1/collections/{id}/videos'', ToMedia (\<lambda>f. ListVideos)),
      (''GET'', ''/api/v1/collections/{id}/items/{item_id}'', ToMedia (\<lambda>f. GetVideoItem)),
      (''GET'', ''/images/{id}/{variant}'', ToMedia (\<lambda>f. ServeVariant)),
      (''HEAD'', ''/images/{id}/{variant}'', ToMedia (\<lambda>f. ServeVariant)),
      (''GET'', ''/images/{id}/exif'', ToMedia (\<lambda>f. GetExif)),
      (''GET'', ''/images/{id}/tiles/image.dzi'', ToMedia (\<lambda>f. DziManifest)),
      (''GET'', ''/images/{id}/tiles/*'', ToMedia (\<lambda>f. DziTile)),
      (''GET'', ''/images/collections/{id}/cover'', ToMedia (\<lambda>f. CollectionCover)),
      (''GET'', ''/images/artists/{id}/cover'', ToMedia (\<lambda>f. ArtistImage)),
      (''GET'', ''/images/albums/{albumId}/thumb'', ToMedia (\<lambda>f. AlbumThumbnail)),
      (''GET'', ''/images/albums/{albumId}/cover'', ToMedia (\<lambda>f. AlbumCover)),
      (''GET'', ''/api/v1/collections/{collectionId}/artists'', ToMedia (\<lambda>f. ListArtists)),
      (''GET'', ''/api/v1/collections/{collectionId}/artists/{artistId}/albums'', ToMedia (\<lambda>f. ListArtistAlbums)),
      (''GET'', ''/api/v1/collections/{collectionId}/albums/{albumId}/tracks'', ToMedia (\<lambda>f. ListAlbumTracks)),
      (''GET'', ''/api/v1/collections/{collectionId}/shows'', ToMedia (\<lambda>f. ListShows)),
      (''GET'', ''/api/v1/collections/{collectionId}/shows/{artistId}/episodes'', ToMedia (\<lambda>f. ListShowEpisodes)),
      (''PUT'', ''/api/v1/audio-shows/{artistId}/bookmark'', ToMedia (\<lambda>f. UpsertShowBookmark (f_show_position f))),
      (''GET'', ''/audio/{id}/stream'', ToMedia (\<lambda>f. StreamAudio)),
      (''HEAD'', ''/audio/{id}/stream'', ToMedia (\<lambda>f. StreamAudio)),
      (''GET'', ''/videos/{id}/stream'', ToMedia (\<lambda>f. StreamVideo)),
      (''HEAD'', ''/videos/{id}/stream'', ToMedia (\<lambda>f. StreamVideo)),
      (''GET'', ''/videos/{id}/raw'', ToMedia (\<lambda>f. RawVideo)),
      (''HEAD'', ''/videos/{id}/raw'', ToMedia (\<lambda>f. RawVideo)),
      (''GET'', ''/videos/{id}/hls/manifest.m3u8'', ToMedia (\<lambda>f. HlsManifest)),
      (''GET'', ''/videos/{id}/hls/{segment}'', ToMedia (\<lambda>f. HlsSegment)),
      (''GET'', ''/videos/{id}/live/manifest.m3u8'', ToMedia (\<lambda>f. LiveManifest (f_open f) (f_select f))),
      (''GET'', ''/videos/{id}/live/{segment}'', ToMedia (\<lambda>f. LiveSegment (f_wait f))),
      (''GET'', ''/images/videos/{id}/cover'', ToMedia (\<lambda>f. VideoCover)),
      (''PUT'', ''/api/v1/collections/{id}/items/{item_id}/bookmark'', ToMedia (\<lambda>f. UpsertBookmark (f_position f))),
      (''DELETE'', ''/api/v1/collections/{id}/items/{item_id}/bookmark'', ToMedia (\<lambda>f. DeleteBookmark)),
      (''GET'', ''/api/v1/search/photos'', ToMedia (\<lambda>f. FindPhotos)),
      (''GET'', ''/api/v1/search/photos/collections'', ToMedia (\<lambda>f. FindPhotoCollections)),
      (''GET'', ''/api/v1/search/videos'', ToMedia (\<lambda>f. FindVideos)),
      (''GET'', ''/api/v1/search/audio/artists'', ToMedia (\<lambda>f. FindArtists)),
      (''GET'', ''/api/v1/search/audio/albums'', ToMedia (\<lambda>f. FindAlbums)),
      (''GET'', ''/api/v1/search/audio/tracks'', ToMedia (\<lambda>f. FindTracks))]"

definition admin_routes :: "route list" where
  "admin_routes =
     [(''GET'', ''/api/v1/admin/users'', ToAdmin (\<lambda>f. ListUsers)),
      (''POST'', ''/api/v1/admin/users'', ToAdmin (\<lambda>f. CreateUserCall (f_user f))),
      (''DELETE'', ''/api/v1/admin/users/{id}'', ToAdmin (\<lambda>f. DeleteUser)),
      (''POST'', ''/api/v1/admin/users/{id}/credentials'', ToAdmin (\<lambda>f. ChangeUserCredentials (f_message f))),
      (''GET'', ''/api/v1/admin/users/{id}/devices'', ToAdmin (\<lambda>f. ListUserDevices)),
      (''DELETE'', ''/api/v1/admin/users/{id}/devices'', ToAdmin (\<lambda>f. RevokeAllUserDevices)),
      (''DELETE'', ''/api/v1/admin/users/{id}/devices/{deviceId}'', ToAdmin (\<lambda>f. RevokeUserDevice)),
      (''GET'', ''/api/v1/admin/collections'', ToAdmin (\<lambda>f. admin_call.ListCollections)),
      (''POST'', ''/api/v1/admin/collections'', ToAdmin (\<lambda>f. CreateCollectionCall (f_collection f))),
      (''DELETE'', ''/api/v1/admin/collections/{id}'', ToAdmin (\<lambda>f. DeleteCollection)),
      (''POST'', ''/api/v1/admin/collections/{id}/cover'', ToAdmin (\<lambda>f. UploadCollectionCover (f_upload f))),
      (''DELETE'', ''/api/v1/admin/collections/{id}/cover'', ToAdmin (\<lambda>f. DeleteCollectionCover)),
      (''DELETE'', ''/api/v1/admin/collections/{id}/derivatives'', ToAdmin (\<lambda>f. DeleteDerivatives)),
      (''GET'', ''/api/v1/admin/collections/{id}/users'', ToAdmin (\<lambda>f. ListCollectionUsers)),
      (''POST'', ''/api/v1/admin/collections/{id}/users'', ToAdmin (\<lambda>f. GrantUsersCollectionAccess (f_ids f))),
      (''GET'', ''/api/v1/admin/jobs'', ToAdmin (\<lambda>f. ListJobs)),
      (''POST'', ''/api/v1/admin/jobs'', ToAdmin (\<lambda>f. CreateJobCall (f_job f))),
      (''GET'', ''/api/v1/admin/jobs/{id}'', ToAdmin (\<lambda>f. GetJob)),
      (''GET'', ''/api/v1/admin/jobs/{id}/events'', ToJobEvents),
      (''GET'', ''/api/v1/admin/schedules'', ToAdmin (\<lambda>f. ListSchedules)),
      (''PUT'', ''/api/v1/admin/schedules/{name}'', ToAdmin (\<lambda>f. UpsertSchedule (f_schedule f))),
      (''DELETE'', ''/api/v1/admin/schedules/{name}'', ToAdmin (\<lambda>f. DeleteSchedule)),
      (''GET'', ''/api/v1/admin/users/{userId}/collection_access'', ToAdmin (\<lambda>f. GetCollectionAccess)),
      (''PATCH'', ''/api/v1/admin/users/{userId}/collection_access'', ToAdmin (\<lambda>f. GrantCollectionAccess (f_ids f))),
      (''POST'', ''/api/v1/admin/users/{userId}/collection_access'', ToAdmin (\<lambda>f. SetCollectionAccess (f_ids f))),
      (''DELETE'', ''/api/v1/admin/users/{userId}/collection_access/{collectionId}'', ToAdmin (\<lambda>f. RevokeCollectionAccess)),
      (''POST'', ''/api/v1/admin/media/{id}/hide'', ToAdmin (\<lambda>f. HideMediaItem)),
      (''DELETE'', ''/api/v1/admin/media/{id}/hide'', ToAdmin (\<lambda>f. UnhideMediaItem)),
      (''POST'', ''/api/v1/admin/media/{id}/cover'', ToCover (\<lambda>f. UploadCover (f_upload f))),
      (''DELETE'', ''/api/v1/admin/media/{id}/cover'', ToCover (\<lambda>f. DeleteCover)),
      (''POST'', ''/api/v1/admin/artists/{id}/image'', ToCover (\<lambda>f. UploadArtistImage (f_upload f))),
      (''DELETE'', ''/api/v1/admin/artists/{id}/image'', ToCover (\<lambda>f. DeleteArtistImage)),
      (''POST'', ''/api/v1/admin/albums/{albumId}/cover'', ToCover (\<lambda>f. UploadAlbumCover (f_upload f))),
      (''DELETE'', ''/api/v1/admin/albums/{albumId}/cover'', ToCover (\<lambda>f. DeleteAlbumCover)),
      (''GET'', ''/api/v1/admin/directories'', ToAdmin (\<lambda>f. ListDirectories)),
      (''GET'', ''/api/v1/admin/directories/*'', ToAdmin (\<lambda>f. ListDirectories))]"

datatype route_group = Public | Authenticated | Administrator

definition NewRouter :: "(route_group \<times> route) list" where
  "NewRouter = map (Pair Public) public_routes @ map (Pair Authenticated) authenticated_routes
     @ map (Pair Administrator) admin_routes"

text \<open>What chi is told of the routes.\<close>

definition route_keys :: "(string \<times> string) list" where
  "route_keys = map (\<lambda>(g, m, p, t). (m, p)) NewRouter"

section \<open>Requests and answers\<close>

text \<open>A request with the three headers RealIP reads; \<open>in_request\<close> is what the handlers read of it.\<close>

record incoming =
  in_method :: string
  in_path :: string
  in_true_client_ip :: string
  in_x_real_ip :: string
  in_x_forwarded_for :: string
  in_request :: request
  in_forms :: forms

datatype http_payload =
    AuthJson auth_payload
  | MediaBody media_payload
  | AdminJson admin_payload
  | VersionJson string string string
  | HealthJson
  | EventStream "job list"

type_synonym http_response = "http_payload response"

datatype mux_answer = Routed nat "(string \<times> string) list" | MethodNotAllowed | NotFound

record cors_options =
  AllowedOrigins :: "string list"
  AllowedMethods :: "string list"
  AllowedHeaders :: "string list"
  AllowCredentials :: bool
  MaxAge :: int

definition cors_of :: "string \<Rightarrow> cors_options" where
  "cors_of clientOrigin = \<lparr> AllowedOrigins = [clientOrigin],
     AllowedMethods = [''GET'', ''POST'', ''PUT'', ''PATCH'', ''DELETE'', ''HEAD'', ''OPTIONS''],
     AllowedHeaders = [''Content-Type'', ''Authorization''], AllowCredentials = True, MaxAge = 300 \<rparr>"

text \<open>The variables of \<open>internal/version/version.go\<close>, which the linker may replace.\<close>

record build_info =
  Version :: string
  Commit :: string
  BuiltAt :: string

definition default_build :: build_info where
  "default_build = \<lparr> Version = ''dev'', Commit = ''unknown'', BuiltAt = ''unknown'' \<rparr>"

text \<open>\<open>mux\<close> is chi's choice of a route, \<open>real_ip\<close> the address its RealIP finds in the headers, the empty
  string for none, and \<open>preflight\<close> the answer of rs/cors, None when it passes the request on.\<close>

record ('c, 'a, 'l, 'w) router_env =
  renv :: "('c, 'a, 'l, 'w) media_env"
  build :: build_info
  client_origin :: string
  mux :: "(string \<times> string) list \<Rightarrow> string \<Rightarrow> string \<Rightarrow> mux_answer"
  real_ip :: "string \<Rightarrow> string \<Rightarrow> string \<Rightarrow> string"
  preflight :: "cors_options \<Rightarrow> incoming \<Rightarrow> http_response option"

abbreviation router_auth :: "('c, 'a, 'l, 'w) router_env \<Rightarrow> ('c, 'a, 'l) auth_env" where
  "router_auth env \<equiv> aenv (menv (renv env))"

section \<open>Handlers\<close>

definition answer :: "('p \<Rightarrow> http_payload) \<Rightarrow> ('s \<Rightarrow> 'p response \<times> 's) \<Rightarrow> 's \<Rightarrow> http_response \<times> 's" where
  "answer f h st = (case h st of (resp, st) \<Rightarrow> (map_response f resp, st))"

text \<open>The handlers of the account behind the guard of their group.\<close>

fun auth_handler :: "('c, 'a, 'l) auth_env \<Rightarrow> auth_call \<Rightarrow> claims \<Rightarrow> ('c, 'a, 'l, auth_response) op" where
  "auth_handler env (CallMe r) c = me c"
| "auth_handler env (CallLogout r) c = logout env c"
| "auth_handler env (CallCredentials r b) c = changeCredentials (DefaultPlugins env) b c"
| "auth_handler env (CallListDevices r) c = listDevices c"
| "auth_handler env (CallDeleteDevice r) c = deleteDevice env r c"
| "auth_handler env (CallBan r) c = banDevice env r c"
| "auth_handler env (CallUnban r) c = unbanDevice r c"
| "auth_handler env q c = serve_auth env q"

definition serveHealth :: "('c, 'a, 'l, 'w, http_response) media_op" where
  "serveHealth = call_or (select (sql (\<lambda>s. (Inr (), s)))) (fail 503 ''database unavailable'')
     (\<lambda>_ st. (writeJSON 200 HealthJson, st))"

text \<open>The writer a handler is given: whether it is an \<open>http.Flusher\<close>. The recorder of the logger embeds
  the interface \<open>http.ResponseWriter\<close>, which has no method \<open>Flush\<close>.\<close>

record writer =
  is_flusher :: bool

definition statusRecorder :: "writer \<Rightarrow> writer" where
  "statusRecorder w = \<lparr> is_flusher = False \<rparr>"

text \<open>A handler that needs claims and has none dereferences a nil pointer.\<close>

definition with_claims :: "claims option \<Rightarrow> (claims \<Rightarrow> 's \<Rightarrow> http_response \<times> 's) \<Rightarrow> 's \<Rightarrow> http_response \<times> 's" where
  "with_claims c h st = (case c of None \<Rightarrow> (recovered, st) | Some c \<Rightarrow> h c st)"

fun run_target ::
  "('c, 'a, 'l, 'w) router_env \<Rightarrow> writer \<Rightarrow> forms \<Rightarrow> request \<Rightarrow> target \<Rightarrow> claims option \<Rightarrow> ('c, 'a, 'l, 'w, http_response) media_op" where
  "run_target env w f r ToVersion c st =
     (writeJSON 200 (VersionJson (Version (build env)) (Commit (build env)) (BuiltAt (build env))), st)"
| "run_target env w f r ToHealth c st = serveHealth st"
| "run_target env w f r (ToPublic q) c st = answer AuthJson (on_app (on_srv (serve_auth (router_auth env) (q f r)))) st"
| "run_target env w f r (ToAuth q) c st =
     with_claims c (\<lambda>c. answer AuthJson (on_app (on_srv (auth_handler (router_auth env) (q f r) c)))) st"
| "run_target env w f r (ToMedia q) c st = with_claims c (\<lambda>c. answer MediaBody (media_handler (renv env) (q f) r c)) st"
| "run_target env w f r (ToAdmin q) c st =
     with_claims c (\<lambda>c. answer AdminJson (on_app (admin_handler (menv (renv env)) (q f) r c))) st"
| "run_target env w f r (ToCover q) c st = with_claims c (\<lambda>c. answer MediaBody (cover_handler (renv env) (q f) r c)) st"
| "run_target env w f r ToJobEvents c st =
     (case jobEvents (is_flusher w) r (f_ticks f) of
        Inl resp \<Rightarrow> (map_response AdminJson resp, st)
      | Inr js \<Rightarrow> (writeJSON 200 (EventStream js), st))"

section \<open>The way of a request\<close>

text \<open>The middleware of a group.\<close>

definition guarded ::
  "('c, 'a, 'l, 'w) router_env \<Rightarrow> route_group \<Rightarrow> request \<Rightarrow> (claims option \<Rightarrow> ('c, 'a, 'l, 'w, http_response) media_op)
    \<Rightarrow> ('c, 'a, 'l, 'w, http_response) media_op" where
  "guarded env g r nxt =
     (if g = Public then nxt None
      else call_or (on_app (on_srv (check_token (router_auth env) (g = Administrator) r))) (\<lambda>resp st. (resp, st)) (\<lambda>c. nxt (Some c)))"

definition routeHTTP ::
  "('c, 'a, 'l, 'w) router_env \<Rightarrow> writer \<Rightarrow> incoming \<Rightarrow> ('c, 'a, 'l, 'w, http_response) media_op" where
  "routeHTTP env w q st =
     (case mux env route_keys (in_method q) (in_path q) of
        NotFound \<Rightarrow> (write_status 404, st)
      | MethodNotAllowed \<Rightarrow> (write_status 405, st)
      | Routed i ps \<Rightarrow>
          (case NewRouter ! i of (g, m, p, t) \<Rightarrow>
             let r = (in_request q)\<lparr> url_params := ps \<rparr> in
             guarded env g r (run_target env w (in_forms q) r t) st))"

definition cors_handler ::
  "('c, 'a, 'l, 'w) router_env \<Rightarrow> (incoming \<Rightarrow> ('c, 'a, 'l, 'w, http_response) media_op)
    \<Rightarrow> incoming \<Rightarrow> ('c, 'a, 'l, 'w, http_response) media_op" where
  "cors_handler env nxt q st =
     (if client_origin env = [] then nxt q st
      else case preflight env (cors_of (client_origin env)) q of Some resp \<Rightarrow> (resp, st) | None \<Rightarrow> nxt q st)"

text \<open>The first status counts; none is 200.\<close>

definition WriteHeader :: "nat \<Rightarrow> nat \<Rightarrow> nat" where
  "WriteHeader code recorded = (if recorded = 0 then code else recorded)"

definition access_line :: "nat \<Rightarrow> incoming \<Rightarrow> string" where
  "access_line recorded q =
     (let st = (if recorded = 0 then 200 else recorded) in
      ''['' @ strconv_Itoa (int st) @ ''] '' @ in_method q @ '' '' @ in_path q)"

definition requestLogger ::
  "(writer \<Rightarrow> incoming \<Rightarrow> ('c, 'a, 'l, 'w, http_response) media_op)
    \<Rightarrow> writer \<Rightarrow> incoming \<Rightarrow> ('c, 'a, 'l, 'w, http_response \<times> string) media_op" where
  "requestLogger nxt w q st =
     (case nxt (statusRecorder w) q st of (resp, st) \<Rightarrow> ((resp, access_line (WriteHeader (resp_status resp) 0) q), st))"

definition RealIP :: "('c, 'a, 'l, 'w) router_env \<Rightarrow> incoming \<Rightarrow> incoming" where
  "RealIP env q =
     (let ip = real_ip env (in_true_client_ip q) (in_x_real_ip q) (in_x_forwarded_for q) in
      if ip = [] then q else q\<lparr> in_request := (in_request q)\<lparr> remote_addr := ip \<rparr> \<rparr>)"

text \<open>The answer, the line of the log and the state.\<close>

definition serve_http ::
  "('c, 'a, 'l, 'w) router_env \<Rightarrow> writer \<Rightarrow> incoming \<Rightarrow> ('c, 'a, 'l, 'w, http_response \<times> string) media_op" where
  "serve_http env w q = requestLogger (\<lambda>w. cors_handler env (routeHTTP env w)) w (RealIP env q)"

section \<open>The routes and the handlers behind their guards\<close>

text \<open>What the guard answers does not depend on what the handler would have.\<close>

lemma check_token_response:
  "check_token env a r sv = map_prod (map_sum (map_response f) id) id (check_token env a r sv)"
  by (auto simp: check_token_def map_response_def writeError_def Let_def split: option.split prod.split)

lemma guarded_answer:
  fixes f :: "'p \<Rightarrow> http_payload"
  shows "call_or (on_app (on_srv (check_token env a r))) (\<lambda>resp st. (resp, st)) (\<lambda>c. answer f (h c)) st
    = answer f (call_or (on_app (on_srv (check_token env a r))) (\<lambda>resp st. (resp, st)) h) st"
proof -
  obtain res :: "'p response + claims" and sv where Pair: "check_token env a r (srv (mapp st)) = (res, sv)"
    by (metis surj_pair)
  have res': "check_token env a r (srv (mapp st)) = (map_sum (map_response f) id res, sv)"
    using check_token_response [of env a r "srv (mapp st)" f] by (simp add: Pair)
  show ?thesis
    using Pair res' by (cases res) (simp_all add: call_or_def on_app_def on_srv_def answer_def split: prod.split)
qed

lemma routed_handlers:
  "guarded env Authenticated r (run_target env w f r (ToMedia q)) st = answer MediaBody (serve_media (renv env) (q f) r) st"
  "guarded env Administrator r (run_target env w f r (ToCover qc)) st = answer MediaBody (serve_cover_admin (renv env) (qc f) r) st"
proof -
  have "(\<lambda>c. run_target env w f r (ToMedia q) (Some c)) = (\<lambda>c. answer MediaBody (media_handler (renv env) (q f) r c))"
    "(\<lambda>c. run_target env w f r (ToCover qc) (Some c)) = (\<lambda>c. answer MediaBody (cover_handler (renv env) (qc f) r c))"
    by (simp_all add: fun_eq_iff with_claims_def)
  then show "guarded env Authenticated r (run_target env w f r (ToMedia q)) st = answer MediaBody (serve_media (renv env) (q f) r) st"
    "guarded env Administrator r (run_target env w f r (ToCover qc)) st = answer MediaBody (serve_cover_admin (renv env) (qc f) r) st"
    by (simp_all add: guarded_def serve_media_def serve_cover_admin_def guarded_answer)
qed

end
