(* ===== verification/RouterProps.thy ===== *)
theory RouterProps
  imports Router MediaProps
begin

text \<open>
  What the table of the routes and the middleware around it guarantee: nothing but five public requests is
  answered without a token, the paths of the administrator need an administrator's; and what they
  break: the address of a client is what its headers say, and the stream of a job's events.
\<close>

section \<open>Paths and patterns\<close>

text \<open>chi answers with a route of the table, for the method asked, that fits the path.\<close>

definition documented_mux :: "((string \<times> string) list \<Rightarrow> string \<Rightarrow> string \<Rightarrow> mux_answer) \<Rightarrow> bool" where
  "documented_mux m \<longleftrightarrow> (\<forall>keys meth path i ps. m keys meth path = Routed i ps \<longrightarrow>
     i < length keys \<and> fst (keys ! i) = meth \<and> fits (parse_pattern (snd (keys ! i))) (split_slash path) = Some ps)"

text \<open>A pattern that no path with these first segments fits.\<close>

fun diverges :: "segment list \<Rightarrow> string list \<Rightarrow> bool" where
  "diverges (Lit s # ss) (p # ps) \<longleftrightarrow> s \<noteq> p \<or> diverges ss ps"
| "diverges (Param n # ss) (p # ps) \<longleftrightarrow> diverges ss ps"
| "diverges [] (p # ps) \<longleftrightarrow> True"
| "diverges _ _ \<longleftrightarrow> False"

lemma diverges_fits: "diverges pat pre \<Longrightarrow> fits pat (pre @ rest) = None"
  by (induction pat pre rule: diverges.induct) auto

fun literal :: "segment list \<Rightarrow> string list option" where
  "literal [] = Some []"
| "literal (Lit s # ss) = map_option ((#) s) (literal ss)"
| "literal _ = None"

lemma literal_fits: "literal pat = Some es \<Longrightarrow> fits pat ps = Some qs \<Longrightarrow> ps = es"
  by (induction pat ps arbitrary: es qs rule: fits.induct) (auto split: if_splits)

definition admin_segments :: "string list" where
  "admin_segments = [[], ''api'', ''v1'', ''admin'']"

lemma admin_path:
  assumes "has_prefix p ''/api/v1/admin/''"
  obtains rest where "split_slash p = admin_segments @ rest"
proof -
  obtain s where "p = ''/api/v1/admin/'' @ s"
    using assms unfolding has_prefix_def by (metis append_take_drop_id)
  then have "p = ''/api/v1/admin'' @ ''/'' @ s" by simp
  then have "split_slash p = split_slash ''/api/v1/admin'' @ split_slash s" by (simp only: split_slash_append)
  then show ?thesis by (intro that [of "split_slash s"]) (simp add: admin_segments_def)
qed

lemma user_routes_diverge: "list_all (\<lambda>(m, p, t). diverges (parse_pattern p) admin_segments) (public_routes @ authenticated_routes)"
  by code_simp

section \<open>Who may call\<close>

definition public_requests :: "(string \<times> string) list" where
  "public_requests = [(''GET'', ''/api/v1/system/version''), (''GET'', ''/api/v1/system/health''), (''GET'', ''/api/v1/auth/providers''),
     (''POST'', ''/api/v1/auth/login''), (''POST'', ''/api/v1/auth/refresh'')]"

lemma public_table: "map (\<lambda>(m, p, t). (m, p)) public_routes = public_requests"
  by code_simp

lemma public_literal: "list_all (\<lambda>(m, p). literal (parse_pattern p) = Some (split_slash p)) public_requests"
  by code_simp

definition valid_bearer :: "('c, 'a, 'l) auth_env \<Rightarrow> bool \<Rightarrow> request \<Rightarrow> ('c, 'a, 'l) server \<Rightarrow> bool" where
  "valid_bearer env adminOnly r sv \<longleftrightarrow> request_token r \<noteq> [] \<and> (\<exists>c. ParseToken env (request_token r) (server_now sv) = Some c
     \<and> \<not> fst (IsBlocked (revoked_ops env) (claims_device c) (server_now sv) (sguard sv)) \<and> (adminOnly \<longrightarrow> claims_is_admin c))"

text \<open>The states that differ at most in the cache of the guard, which drops an entry that has expired.\<close>

definition same_but_cache :: "('c, 'a, 'l, 'w) media_app \<Rightarrow> ('c, 'a, 'l, 'w) media_app \<Rightarrow> bool" where
  "same_but_cache st st' \<longleftrightarrow> (\<exists>g. banned g = banned (sguard (srv (mapp st)))
     \<and> st' = st\<lparr> mapp := (mapp st)\<lparr> srv := (srv (mapp st))\<lparr> sguard := g \<rparr> \<rparr> \<rparr>)"

lemma same_but_cache_refl [simp]: "same_but_cache st st"
  unfolding same_but_cache_def by (rule exI [of _ "sguard (srv (mapp st))"]) simp

lemma IsBlocked_banned: "banned (snd (IsBlocked ops i now g)) = banned g"
  by (simp add: IsBlocked_def Let_def split: prod.split option.split)

lemma token_denied:
  assumes "\<not> valid_bearer env a r sv"
  shows "\<exists>resp g. check_token env a r sv = (Inl resp, sv\<lparr> sguard := g \<rparr>) \<and> resp_status resp \<in> {401, 403}
    \<and> banned g = banned (sguard sv)"
proof (cases "request_token r = [] \<or> ParseToken env (request_token r) (server_now sv) = None")
  case True
  then have "\<exists>resp. check_token env a r sv = (Inl resp, sv) \<and> resp_status resp \<in> {401, 403}"
    by (cases "request_token r = []") (auto simp: check_token_def writeError_def Let_def)
  moreover have "sv = sv\<lparr> sguard := sguard sv \<rparr>" by simp
  ultimately show ?thesis by metis
next
  case False
  then obtain c where c: "ParseToken env (request_token r) (server_now sv) = Some c" by auto
  let ?b = "IsBlocked (revoked_ops env) (claims_device c) (server_now sv) (sguard sv)"
  have "\<exists>resp. check_token env a r sv = (Inl resp, sv\<lparr> sguard := snd ?b \<rparr>) \<and> resp_status resp \<in> {401, 403}"
    using False assms c by (auto simp: check_token_def valid_bearer_def writeError_def Let_def split: prod.split)
  then show ?thesis using IsBlocked_banned by blast
qed

lemma token_accepted:
  assumes "valid_bearer env a r sv"
  shows "\<exists>c g. check_token env a r sv = (Inr c, sv\<lparr> sguard := g \<rparr>)"
proof -
  obtain c where c: "ParseToken env (request_token r) (server_now sv) = Some c" "a \<longrightarrow> claims_is_admin c"
    and free: "\<not> fst (IsBlocked (revoked_ops env) (claims_device c) (server_now sv) (sguard sv))" and "request_token r \<noteq> []"
    using assms by (auto simp: valid_bearer_def)
  then show ?thesis by (cases "IsBlocked (revoked_ops env) (claims_device c) (server_now sv) (sguard sv)") (auto simp: check_token_def Let_def)
qed

lemma guarded_denied:
  assumes "g \<noteq> Public" and "\<not> valid_bearer (router_auth env) (g = Administrator) r (srv (mapp st))"
    and "guarded env g r nxt st = (resp, st')"
  shows "resp_status resp \<in> {401, 403} \<and> same_but_cache st st'"
proof -
  obtain e :: http_response and gd where run: "check_token (router_auth env) (g = Administrator) r (srv (mapp st)) = (Inl e, (srv (mapp st))\<lparr> sguard := gd \<rparr>)"
    and e: "resp_status e \<in> {401, 403}" and gd: "banned gd = banned (sguard (srv (mapp st)))"
    using token_denied [OF assms(2)] by blast
  have "on_app (on_srv (check_token (router_auth env) (g = Administrator) r)) st
      = (Inl e, st\<lparr> mapp := (mapp st)\<lparr> srv := (srv (mapp st))\<lparr> sguard := gd \<rparr> \<rparr> \<rparr>)"
    by (simp add: on_app_def on_srv_def run)
  then have "(resp, st') = (e, st\<lparr> mapp := (mapp st)\<lparr> srv := (srv (mapp st))\<lparr> sguard := gd \<rparr> \<rparr> \<rparr>)"
    using assms(1,3) by (simp add: guarded_def)
  then show ?thesis using e gd by (auto simp: same_but_cache_def)
qed

text \<open>The group of the route that is found.\<close>

lemma routed:
  assumes "documented_mux (mux env)" and "mux env route_keys meth path = Routed i ps"
  obtains g p t where "NewRouter ! i = (g, meth, p, t)" and "(g, meth, p, t) \<in> set NewRouter"
    and "fits (parse_pattern p) (split_slash path) = Some ps"
proof -
  have i: "i < length NewRouter" and key: "fst (route_keys ! i) = meth" "fits (parse_pattern (snd (route_keys ! i))) (split_slash path) = Some ps"
    using assms unfolding documented_mux_def route_keys_def by (metis length_map)+
  obtain g m p t where r: "NewRouter ! i = (g, m, p, t)" by (cases "NewRouter ! i") auto
  have "m = meth" "fits (parse_pattern p) (split_slash path) = Some ps"
    using key i r by (simp_all add: route_keys_def)
  then show ?thesis using that r i nth_mem by metis
qed

lemma public_route:
  assumes "(Public, m, p, t) \<in> set NewRouter" and "fits (parse_pattern p) (split_slash path) = Some ps"
  shows "(m, path) \<in> set public_requests"
proof -
  have "(m, p, t) \<in> set public_routes" using assms(1) by (auto simp: NewRouter_def)
  then have mp: "(m, p) \<in> set public_requests" using public_table by (force simp flip: public_table)
  then have "literal (parse_pattern p) = Some (split_slash p)" using public_literal by (auto simp: list_all_iff)
  then have "split_slash path = split_slash p" using assms(2) literal_fits by blast
  then show ?thesis using mp join_split by metis
qed

lemma admin_route:
  assumes "(g, m, p, t) \<in> set NewRouter" and "fits (parse_pattern p) (split_slash path) = Some ps" and "has_prefix path ''/api/v1/admin/''"
  shows "g = Administrator"
proof (rule ccontr)
  assume "g \<noteq> Administrator"
  then have "(m, p, t) \<in> set (public_routes @ authenticated_routes)" using assms(1) by (auto simp: NewRouter_def)
  then have "diverges (parse_pattern p) admin_segments" using user_routes_diverge unfolding list_all_iff by blast
  moreover obtain rest where "split_slash path = admin_segments @ rest" using assms(3) by (rule admin_path)
  ultimately show False using assms(2) diverges_fits [of "parse_pattern p" admin_segments rest] by simp
qed

lemma request_token_update [simp]:
  "request_token (r\<lparr> url_params := ps \<rparr>) = request_token r" "request_token (r\<lparr> remote_addr := a \<rparr>) = request_token r"
  by (simp_all add: request_token_def QueryGet_def Let_def cong: if_cong)

lemma RealIP_same [simp]:
  "in_method (RealIP env q) = in_method q" "in_path (RealIP env q) = in_path q"
  "request_token (in_request (RealIP env q)) = request_token (in_request q)" "in_forms (RealIP env q) = in_forms q"
  by (simp_all add: RealIP_def Let_def)

lemma no_route_denied:
  assumes "documented_mux (mux env)" and "(in_method q, in_path q) \<notin> set public_requests"
    and "\<not> valid_bearer (router_auth env) (has_prefix (in_path q) ''/api/v1/admin/'') (in_request q) (srv (mapp st))"
    and "routeHTTP env w q st = (resp, st')"
  shows "resp_status resp \<in> {401, 403, 404, 405} \<and> same_but_cache st st'"
proof (cases "mux env route_keys (in_method q) (in_path q)")
  case (Routed i ps)
  obtain g p t where r: "NewRouter ! i = (g, in_method q, p, t)" "(g, in_method q, p, t) \<in> set NewRouter"
    and f: "fits (parse_pattern p) (split_slash (in_path q)) = Some ps"
    using assms(1) Routed by (rule routed)
  let ?r = "(in_request q)\<lparr> url_params := ps \<rparr>"
  have "g \<noteq> Public" using public_route r(2) f assms(2) by blast
  moreover have "\<not> valid_bearer (router_auth env) (g = Administrator) ?r (srv (mapp st))"
    using assms(3) admin_route [OF r(2) f] by (auto simp: valid_bearer_def)
  moreover have "guarded env g ?r (run_target env w (in_forms q) ?r t) st = (resp, st')"
    using assms(4) Routed r(1) by (simp add: routeHTTP_def Let_def)
  ultimately have "resp_status resp \<in> {401, 403} \<and> same_but_cache st st'" by (rule guarded_denied)
  then show ?thesis by auto
qed (use assms(4) in \<open>auto simp: routeHTTP_def write_status_def\<close>)

text \<open>C1: Without a token that is valid, of a device that is not blocked, and under \<open>/api/v1/admin/\<close> an
  administrator's, a request is turned away and changes nothing but the guard's cache; only
  the version, the health, the providers, the login and the refresh are open, and what CORS answers
  by itself.\<close>

theorem routes_need_a_token:
  assumes "documented_mux (mux env)" and "(in_method q, in_path q) \<notin> set public_requests"
    and "\<not> valid_bearer (router_auth env) (has_prefix (in_path q) ''/api/v1/admin/'') (in_request q) (srv (mapp st))"
    and "serve_http env w q st = ((resp, line), st')"
  shows "same_but_cache st st' \<and> (resp_status resp \<in> {401, 403, 404, 405}
    \<or> client_origin env \<noteq> [] \<and> preflight env (cors_of (client_origin env)) (RealIP env q) = Some resp)"
proof -
  let ?q = "RealIP env q" and ?w = "statusRecorder w"
  have run: "cors_handler env (routeHTTP env ?w) ?q st = (resp, st')"
    using assms(4) by (auto simp: serve_http_def requestLogger_def split: prod.splits)
  show ?thesis
  proof (cases "client_origin env \<noteq> [] \<and> preflight env (cors_of (client_origin env)) ?q \<noteq> None")
    case True
    then show ?thesis using run by (auto simp: cors_handler_def)
  next
    case False
    then have "routeHTTP env ?w ?q st = (resp, st')" using run by (auto simp: cors_handler_def split: if_splits)
    moreover have "\<not> valid_bearer (router_auth env) (has_prefix (in_path ?q) ''/api/v1/admin/'') (in_request ?q) (srv (mapp st))"
      using assms(3) by (simp add: valid_bearer_def)
    ultimately show ?thesis using no_route_denied [of env ?q st ?w] assms(1,2) by auto
  qed
qed

text \<open>A choice of a route: the first that fits.\<close>

fun first_fit :: "nat \<Rightarrow> (string \<times> string) list \<Rightarrow> string \<Rightarrow> string \<Rightarrow> mux_answer" where
  "first_fit n [] meth path = NotFound"
| "first_fit n ((m, p) # ks) meth path =
     (if m = meth then (case fits (parse_pattern p) (split_slash path) of
          Some ps \<Rightarrow> Routed n ps | None \<Rightarrow> first_fit (Suc n) ks meth path)
      else first_fit (Suc n) ks meth path)"

lemma first_fit_found:
  "first_fit n ks meth path = Routed i ps \<Longrightarrow> n \<le> i \<and> i < n + length ks \<and> fst (ks ! (i - n)) = meth
     \<and> fits (parse_pattern (snd (ks ! (i - n)))) (split_slash path) = Some ps"
proof (induction n ks meth path rule: first_fit.induct)
  case (2 n m p ks meth path)
  show ?case
  proof (cases "m = meth \<and> fits (parse_pattern p) (split_slash path) \<noteq> None")
    case True
    then show ?thesis using 2(3) by auto
  next
    case False
    then have "first_fit (Suc n) ks meth path = Routed i ps" using 2(3) by (auto split: if_splits)
    moreover have "Suc n \<le> i \<and> i < Suc n + length ks \<and> fst (ks ! (i - Suc n)) = meth
      \<and> fits (parse_pattern (snd (ks ! (i - Suc n)))) (split_slash path) = Some ps"
      using 2 False calculation by (cases "m = meth") auto
    ultimately show ?thesis by (auto simp: nth_Cons' Suc_diff_Suc)
  qed
qed simp

lemma first_fit_documented: "documented_mux (first_fit 0)"
  using first_fit_found [of 0] by (force simp: documented_mux_def)

text \<open>The first header that is set.\<close>

definition first_header :: "string \<Rightarrow> string \<Rightarrow> string \<Rightarrow> string" where
  "first_header a b c = (let ip = (if a \<noteq> [] then a else if b \<noteq> [] then b else c) in if ParseIP ip = None then [] else ip)"

definition demo_router ::
  "((int \<times> time) list, (string \<times> time list) list, (string \<times> time) list, unit) router_env" where
  "demo_router = \<lparr> renv = demo_media_env, build = default_build, client_origin = [], mux = first_fit 0,
     real_ip = first_header, preflight = (\<lambda>_ _. None) \<rparr>"

definition demo_forms :: forms where
  "demo_forms = \<lparr> f_login = Some (demo_login ''bob'' ''pw2'' ''sofa''), f_refresh = None, f_message = None, f_user = None,
     f_collection = None, f_ids = None, f_job = None, f_schedule = None, f_position = None, f_show_position = None,
     f_upload = UploadNoFile, f_open = sample_env, f_select = ManifestReady, f_wait = waiting_env, f_ticks = [] \<rparr>"

definition demo_incoming :: "string \<Rightarrow> string \<Rightarrow> string option \<Rightarrow> string \<Rightarrow> incoming" where
  "demo_incoming meth path token header = \<lparr> in_method = meth, in_path = path, in_true_client_ip = header,
     in_x_real_ip = [], in_x_forwarded_for = [],
     in_request = demo_request\<lparr> remote_addr := ''203.0.113.9:5000'', cookie_access_token := token \<rparr>, in_forms = demo_forms \<rparr>"

theorem routes_need_a_token_witness:
  "\<exists>resp line st'. serve_http demo_router \<lparr> is_flusher = True \<rparr> (demo_incoming ''DELETE'' ''/api/v1/admin/users/2'' None []) demo_media_app
      = ((resp, line), st')
    \<and> same_but_cache demo_media_app st' \<and> resp_status resp \<in> {401, 403, 404, 405}"
proof -
  let ?q = "demo_incoming ''DELETE'' ''/api/v1/admin/users/2'' None []"
  obtain resp line st' where run: "serve_http demo_router \<lparr> is_flusher = True \<rparr> ?q demo_media_app = ((resp, line), st')"
    by (metis surj_pair)
  have mux: "documented_mux (mux demo_router)" by (simp add: demo_router_def first_fit_documented)
  have closed: "(in_method ?q, in_path ?q) \<notin> set public_requests" by (simp add: demo_incoming_def public_requests_def)
  have "request_token (in_request ?q) = []" by (simp add: demo_incoming_def demo_request_def request_token_def QueryGet_def lookup_param_def trim_space_def trim_left_space_def has_prefix_def Let_def)
  then have bearer: "\<not> valid_bearer (router_auth demo_router) a (in_request ?q) (srv (mapp demo_media_app))" for a
    by (simp add: valid_bearer_def ParseToken_def demo_router_def demo_media_env_def demo_admin_env_def demo_env_def)
  show ?thesis
    using routes_need_a_token [OF mux closed bearer run] run by (auto simp: demo_router_def)
qed

section \<open>What the middleware breaks\<close>

text \<open>RealIP takes the header True-Client-IP for the address of the client when it is one.\<close>

definition documented_real_ip :: "(string \<Rightarrow> string \<Rightarrow> string \<Rightarrow> string) \<Rightarrow> bool" where
  "documented_real_ip f \<longleftrightarrow> (\<forall>a b c. ParseIP a \<noteq> None \<longrightarrow> f a b c = a)"

lemma ParseIP_Nil: "ParseIP [] = None"
  by code_simp

lemma serve_http_route:
  assumes "client_origin env = []" and "mux env route_keys (in_method q) (in_path q) = Routed i ps" and "NewRouter ! i = (g, m, p, t)"
  shows "fst (fst (serve_http env w q st)) = fst (guarded env g ((in_request (RealIP env q))\<lparr> url_params := ps \<rparr>)
      (run_target env (statusRecorder w) (in_forms q) ((in_request (RealIP env q))\<lparr> url_params := ps \<rparr>) t) st)"
    and "snd (serve_http env w q st) = snd (guarded env g ((in_request (RealIP env q))\<lparr> url_params := ps \<rparr>)
      (run_target env (statusRecorder w) (in_forms q) ((in_request (RealIP env q))\<lparr> url_params := ps \<rparr>) t) st)"
  using assms by (simp_all add: serve_http_def requestLogger_def cors_handler_def routeHTTP_def Let_def split: prod.split)

text \<open>C19: The address of a client is what its own header says: a login that sends True-Client-IP runs as
  if it came from that address, wherever it comes from. The rule that lets a user log in from
  the local network only, and the count of failed logins, go by it.\<close>

theorem client_names_its_address:
  fixes st :: "('c, 'a, 'l, 'w) media_app"
  assumes "documented_real_ip (real_ip env)" and "ParseIP (in_true_client_ip q) \<noteq> None" and "client_origin env = []"
    and "mux env route_keys (in_method q) (in_path q) = Routed i ps"
    and "NewRouter ! i = (Public, ''POST'', ''/api/v1/auth/login'', ToPublic (\<lambda>f r. CallLogin r (f_login f)))"
  defines "r \<equiv> (in_request q)\<lparr> remote_addr := in_true_client_ip q, url_params := ps \<rparr>"
  defines "run \<equiv> login (router_auth env) (DefaultPlugins (router_auth env)) r (f_login (in_forms q)) (srv (mapp st))"
  shows "fst (fst (serve_http env w q st)) = map_response AuthJson (fst run) \<and> srv (mapp (snd (serve_http env w q st))) = snd run"
proof -
  have "in_true_client_ip q \<noteq> []" using assms(2) ParseIP_Nil by auto
  then have "in_request (RealIP env q) = (in_request q)\<lparr> remote_addr := in_true_client_ip q \<rparr>"
    using assms(1,2) by (simp add: RealIP_def documented_real_ip_def)
  then show ?thesis
    unfolding serve_http_route [OF assms(3,4,5)]
    by (simp add: guarded_def answer_def on_app_def on_srv_def run_def r_def split: prod.split)
qed

lemma login_route: "mux demo_router route_keys ''POST'' ''/api/v1/auth/login'' = Routed 3 []"
  "NewRouter ! 3 = (Public, ''POST'', ''/api/v1/auth/login'', ToPublic (\<lambda>f r. CallLogin r (f_login f)))"
   apply (simp add: demo_router_def) apply code_simp
  by (simp add: NewRouter_def public_routes_def)

text \<open>Bob may log in from the local network only.\<close>

definition bob_request :: "string \<Rightarrow> request" where
  "bob_request addr = demo_request\<lparr> remote_addr := addr, cookie_access_token := None, url_params := [] \<rparr>"

definition bob_login :: "string \<Rightarrow> auth_response" where
  "bob_login addr = fst (login demo_env (DefaultPlugins demo_env) (bob_request addr) (Some (demo_login ''bob'' ''pw2'' ''sofa''))
     (demo_server\<lparr> sdb := demo_media_db \<rparr>))"

lemma demo_addresses: "isLocalRequest ''127.0.0.1''" "\<not> isLocalRequest ''203.0.113.9:5000''"
  by code_simp+

lemma loopback_parses: "ParseIP ''127.0.0.1'' \<noteq> None"
proof -
  have "dotted 127 0 0 1 = ''127.0.0.1''" by code_simp
  then show ?thesis using ParseIP_dotted [of 127 0 0 1] by simp
qed

lemma bob_logs_in: "resp_status (bob_login ''127.0.0.1'') = 200" "resp_status (bob_login ''203.0.113.9:5000'') = 401"
  by (simp_all add: bob_login_def bob_request_def demo_media_db_def demo_addresses demo_runs writeError_def)

theorem client_names_its_address_witness:
  "resp_status (fst (fst (serve_http demo_router \<lparr> is_flusher = True \<rparr>
      (demo_incoming ''POST'' ''/api/v1/auth/login'' None ''127.0.0.1'') demo_media_app))) = 200
    \<and> resp_status (bob_login (remote_addr (in_request (demo_incoming ''POST'' ''/api/v1/auth/login'' None [])))) = 401"
proof -
  let ?q = "demo_incoming ''POST'' ''/api/v1/auth/login'' None ''127.0.0.1''"
  have real: "documented_real_ip (real_ip demo_router)" using ParseIP_Nil by (auto simp: documented_real_ip_def demo_router_def first_header_def)
  have ip: "ParseIP (in_true_client_ip ?q) \<noteq> None" by (simp add: demo_incoming_def loopback_parses)
  have route: "mux demo_router route_keys (in_method ?q) (in_path ?q) = Routed 3 []"
    by (simp add: demo_incoming_def login_route)
  have none: "client_origin demo_router = []" by (simp add: demo_router_def)
  have parts: "router_auth demo_router = demo_env" "srv (mapp demo_media_app) = demo_server\<lparr> sdb := demo_media_db \<rparr>"
    "(in_request ?q)\<lparr> remote_addr := in_true_client_ip ?q, url_params := [] \<rparr> = bob_request ''127.0.0.1''"
    "f_login (in_forms ?q) = Some (demo_login ''bob'' ''pw2'' ''sofa'')"
    by (simp_all add: demo_router_def demo_media_env_def demo_admin_env_def demo_media_app_def demo_incoming_def demo_forms_def bob_request_def)
  have "fst (fst (serve_http demo_router \<lparr> is_flusher = True \<rparr> ?q demo_media_app)) = map_response AuthJson (bob_login ''127.0.0.1'')"
    using client_names_its_address [OF real ip none route login_route(2), of "\<lparr> is_flusher = True \<rparr>" demo_media_app]
    unfolding parts bob_login_def by blast
  moreover have "remote_addr (in_request (demo_incoming ''POST'' ''/api/v1/auth/login'' None [])) = ''203.0.113.9:5000''"
    by (simp add: demo_incoming_def)
  ultimately show ?thesis by (simp add: bob_logs_in map_response_def)
qed

text \<open>C35: The stream of a job's events never starts: the logger's recorder hides that the connection can
  flush, so every administrator gets an error instead, whatever writer the server was given.\<close>

theorem job_events_never_stream:
  assumes "client_origin env = []" and "mux env route_keys (in_method q) (in_path q) = Routed i ps"
    and "NewRouter ! i = (Administrator, ''GET'', ''/api/v1/admin/jobs/{id}/events'', ToJobEvents)"
    and "valid_bearer (router_auth env) True (in_request q) (srv (mapp st))"
    and "strconv_Atoi (lookup_param ps ''id'') = (j, None)"
  shows "fst (fst (serve_http env w q st)) = writeError 500 ''streaming not supported''"
proof -
  let ?r = "(in_request (RealIP env q))\<lparr> url_params := ps \<rparr>"
  have "valid_bearer (router_auth env) True ?r (srv (mapp st))" using assms(4) by (simp add: valid_bearer_def)
  then obtain c sv where "check_token (router_auth env) True ?r (srv (mapp st)) = (Inr c :: http_response + claims, sv)"
    using token_accepted by blast
  then have "guarded env Administrator ?r nxt st = nxt (Some c) (st\<lparr> mapp := (mapp st)\<lparr> srv := sv \<rparr> \<rparr>)" for nxt
    by (simp add: guarded_def on_app_def on_srv_def)
  moreover have "URLParam ?r ''id'' = lookup_param ps ''id''" by (simp add: URLParam_def)
  ultimately show ?thesis
    unfolding serve_http_route [OF assms(1,2,3)]
    using assms(5) by (simp add: jobEvents_def urlIntParam_def statusRecorder_def map_response_def writeError_def)
qed

lemma events_route: "mux demo_router route_keys ''GET'' ''/api/v1/admin/jobs/1/events'' = Routed 71 [(''id'', ''1'')]"
  "NewRouter ! 71 = (Administrator, ''GET'', ''/api/v1/admin/jobs/{id}/events'', ToJobEvents)"
   apply (simp add: demo_router_def) apply code_simp
  by (simp add: NewRouter_def public_routes_def authenticated_routes_def admin_routes_def)

lemma demo_admin_bearer:
  "valid_bearer (router_auth demo_router) True (in_request (demo_incoming meth path (Some ''jwt:1'') h)) (srv (mapp demo_media_app))"
proof -
  have "request_token (in_request (demo_incoming meth path (Some ''jwt:1'') h)) = ''jwt:1''"
    by (simp add: demo_incoming_def demo_request_def request_token_def trim_space_def trim_left_space_def is_space_def Let_def)
  then show ?thesis
    by (simp add: valid_bearer_def ParseToken_def demo_router_def demo_media_env_def demo_admin_env_def demo_media_app_def demo_env_def
        server_now_def demo_media_db_def AuthApi.demo_db_def demo_server_def empty_db_def token_key_def IsBlocked_def NewDeviceGuard_def
        list_lru_def list_get_def duration_defs)
qed

theorem job_events_never_stream_witness:
  "fst (fst (serve_http demo_router \<lparr> is_flusher = True \<rparr>
      (demo_incoming ''GET'' ''/api/v1/admin/jobs/1/events'' (Some ''jwt:1'') []) demo_media_app))
    = writeError 500 ''streaming not supported''"
proof (rule job_events_never_stream)
  let ?q = "demo_incoming ''GET'' ''/api/v1/admin/jobs/1/events'' (Some ''jwt:1'') []"
  show "client_origin demo_router = []" by (simp add: demo_router_def)
  show "mux demo_router route_keys (in_method ?q) (in_path ?q) = Routed 71 [(''id'', ''1'')]"
    by (simp add: demo_incoming_def events_route)
  show "NewRouter ! 71 = (Administrator, ''GET'', ''/api/v1/admin/jobs/{id}/events'', ToJobEvents)" by (rule events_route)
  show "strconv_Atoi (lookup_param [(''id'', ''1'')] ''id'') = (1, None)"
    by (simp add: lookup_param_def strconv_Atoi_def strconv_ParseUint_def is_digit_def digit_val_def)
  show "valid_bearer (router_auth demo_router) True (in_request ?q) (srv (mapp demo_media_app))"
    by (rule demo_admin_bearer)
qed

end
