(* ===== verification/Views.thy ===== *)
theory Views
  imports Router
begin

text \<open>
  What the answers look like to a client: the structs of \<open>internal/models/models.go\<close> and of the
  searches as \<open>encoding/json\<close> writes them by their tags, and the maps the handlers wrap them in. An
  object is the list of its members in the order they are written; a pointer with \<open>omitempty\<close> that is nil
  and a false \<open>bool\<close> with it leave no member. Times, decimals and texts are leaves.
\<close>

section \<open>JSON\<close>

datatype json =
    JNull
  | JBool bool
  | JInt int
  | JDec int nat                       \<comment> \<open>\<open>JDec m k\<close> is m divided by 10 to the k\<close>
  | JStr string
  | JTime time
  | JArr "json list"
  | JObj "(string \<times> json) list"
  | JRaw string

type_synonym members = "(string \<times> json) list"

definition ptr :: "('a \<Rightarrow> json) \<Rightarrow> 'a option \<Rightarrow> json" where
  "ptr f x = (case x of None \<Rightarrow> JNull | Some v \<Rightarrow> f v)"

definition omitempty :: "string \<Rightarrow> ('a \<Rightarrow> json) \<Rightarrow> 'a option \<Rightarrow> members" where
  "omitempty n f x = (case x of None \<Rightarrow> [] | Some v \<Rightarrow> [(n, f v)])"

definition omitfalse :: "string \<Rightarrow> bool \<Rightarrow> members" where
  "omitfalse n b = (if b then [(n, JBool True)] else [])"

definition objects :: "('a \<Rightarrow> members) \<Rightarrow> 'a list \<Rightarrow> json" where
  "objects f xs = JArr (map (\<lambda>x. JObj (f x)) xs)"

definition ints :: "int list \<Rightarrow> json" where
  "ints is = JArr (map JInt is)"

text \<open>The names of the members, at any depth.\<close>

fun json_keys :: "json \<Rightarrow> string set" where
  "json_keys (JArr js) = (\<Union>j \<in> set js. json_keys j)"
| "json_keys (JObj ms) = (\<Union>(n, j) \<in> set ms. insert n (json_keys j))"
| "json_keys _ = {}"

section \<open>The views\<close>

definition collection_view_json :: "collection_view \<Rightarrow> string option \<Rightarrow> members" where
  "collection_view_json v date =
     omitempty ''parent_collection_id'' JInt (cv_parent v) @ omitempty ''date'' JStr date
     @ [(''name'', JStr (cv_name v)), (''type'', JStr (cv_type v)), (''id'', JInt (cv_id v))]"

text \<open>\<open>models.Collection\<close>, for the administrator; the column of the date is NULL.\<close>

definition collection_json :: "collection \<Rightarrow> members" where
  "collection_json c =
     [(''created_at'', JTime (coll_created_at c))]
     @ omitempty ''parent_collection_id'' JInt (parent_collection_id c)
     @ omitempty ''relative_path'' JStr (coll_path c)
     @ omitempty ''last_scanned_at'' JTime (last_scanned_at c)
     @ omitempty ''missing_since'' JTime (coll_missing_since c)
     @ [(''name'', JStr (coll_name c)), (''type'', JStr (coll_type c)), (''id'', JInt (coll_id c)),
        (''root_collection_id'', JInt (case root_collection_id c of None \<Rightarrow> 0 | Some i \<Rightarrow> i)),
        (''is_enabled'', JBool (is_enabled c)), (''manual_thumbnail'', JBool (manual_thumbnail c))]"

definition photo_item_json :: "PhotoItem \<Rightarrow> members" where
  "photo_item_json p =
     (let m = pi_meta p in
      omitempty ''created_at'' JTime (pm_created_at m)
      @ omitempty ''variants_generated_at'' JTime (variants_generated_at m)
      @ omitempty ''camera_model'' JStr (camera_model m)
      @ omitempty ''lens_model'' JStr (lens_model m)
      @ omitempty ''shutter_speed'' JStr (shutter_speed m)
      @ omitempty ''aperture'' (\<lambda>n. JDec n 1) (aperture_tenths m)
      @ omitempty ''iso'' JInt (iso m)
      @ omitempty ''focal_length_mm'' (\<lambda>n. JDec n 1) (focal_length_tenths m)
      @ omitempty ''focal_length_35mm_equiv'' (\<lambda>n. JDec n 1) (focal_length_35mm_tenths m)
      @ omitempty ''width_px'' JInt (width_px m)
      @ omitempty ''height_px'' JInt (height_px m)
      @ omitempty ''collection_name'' JStr (pi_collection_name p)
      @ [(''title'', JStr (pi_title p)), (''mime_type'', JStr (pi_mime_type p)), (''id'', JInt (pi_id p)),
         (''ordinal'', JInt (pi_ordinal p))]
      @ omitfalse ''missing'' (pi_missing p))"

definition video_item_json :: "VideoItemView \<Rightarrow> members" where
  "video_item_json v =
     omitempty ''transcoded_at'' JTime (Option.bind (vi_video v) transcoded_at)
     @ omitempty ''date'' JStr (vi_date v)
     @ omitempty ''author'' JStr (Option.bind (vi_video v) author)
     @ omitempty ''video_codec'' JStr (Option.bind (vi_video v) video_codec)
     @ omitempty ''audio_codec'' JStr (Option.bind (vi_video v) audio_codec)
     @ [(''title'', JStr (vi_title v)), (''mime_type'', JStr (vi_mime_type v))]
     @ omitempty ''duration_seconds'' JInt (Option.bind (vi_video v) duration_seconds)
     @ omitempty ''width'' JInt (Option.bind (vi_video v) vm_width)
     @ omitempty ''height'' JInt (Option.bind (vi_video v) vm_height)
     @ omitempty ''bitrate_kbps'' JInt (Option.bind (vi_video v) bitrate_kbps)
     @ omitempty ''bookmark_seconds'' JInt (vi_bookmark v)
     @ [(''id'', JInt (vi_id v)), (''manual_thumbnail'', JBool (case vi_video v of None \<Rightarrow> False | Some r \<Rightarrow> vm_manual_thumbnail r))]
     @ omitfalse ''missing'' (vi_missing v)"

definition month_json :: "(int \<times> int) \<times> int \<Rightarrow> members" where
  "month_json = (\<lambda>((year, month), n). [(''year'', JInt year), (''month'', JInt month), (''count'', JInt n)])"

definition access_entry_json :: "access_entry \<Rightarrow> members" where
  "access_entry_json e = [(''last_seen'', JTime (ae_time e)), (''ip'', JStr (ae_ip e)), (''agent'', JStr (ae_agent e))]"

definition device_view_json :: "device_view \<Rightarrow> members" where
  "device_view_json d =
     [(''last_seen_at'', JTime (dv_last_seen d)), (''created_at'', JTime (dv_created d))]
     @ omitempty ''banned_at'' JTime (dv_banned_at d)
     @ [(''device_name'', JStr (dv_name d)), (''access_history'', objects access_entry_json (dv_history d)), (''id'', JInt (dv_id d))]"

definition artist_json :: "artist \<Rightarrow> members" where
  "artist_json a = [(''created_at'', JTime (artist_created_at a)), (''name'', JStr (artist_name a)), (''sort_name'', JStr (sort_name a)),
     (''id'', JInt (artist_id a)), (''manual_thumbnail'', JBool (artist_manual_thumbnail a))]"

definition artist_summary_json :: "artist \<Rightarrow> members" where
  "artist_summary_json a = [(''name'', JStr (artist_name a)), (''sort_name'', JStr (sort_name a)), (''id'', JInt (artist_id a))]"

definition album_json :: "album \<Rightarrow> members" where
  "album_json a =
     [(''created_at'', JTime (album_created_at a))]
     @ omitempty ''artist_id'' JInt (album_artist a)
     @ omitempty ''year'' JInt (album_year a)
     @ omitempty ''genre'' JStr (album_genre a)
     @ [(''name'', JStr (album_name a)), (''id'', JInt (album_id a)), (''root_collection_id'', JInt (album_root a)),
        (''is_compilation'', JBool (is_compilation a)), (''manual_cover'', JBool (manual_cover a))]"

definition album_summary_json :: "AlbumSummary \<Rightarrow> members" where
  "album_summary_json a =
     omitempty ''year'' JInt (as_year a)
     @ [(''name'', JStr (as_album_name a)), (''album_id'', JInt (as_album_id a)), (''track_count'', JInt (as_tracks a)),
        (''total_duration'', JDec (as_hundredths a) 2)]"

definition show_json :: "int \<times> string \<times> bool \<Rightarrow> members" where
  "show_json = (\<lambda>(i, name, manual). [(''show_id'', JInt i), (''name'', JStr name), (''manual_thumbnail'', JBool manual)])"

definition track_json :: "TrackView \<Rightarrow> members" where
  "track_json t =
     omitempty ''track_number'' JInt (tv_number t)
     @ omitempty ''disc_number'' JInt (tv_disc t)
     @ omitempty ''duration_seconds'' (\<lambda>n. JDec n 2) (tv_hundredths t)
     @ omitempty ''artist_name'' JStr (tv_artist t)
     @ [(''title'', JStr (tv_title t)), (''mime_type'', JStr (tv_mime_type t)), (''id'', JInt (tv_id t))]
     @ omitfalse ''missing'' (tv_missing t)"

text \<open>The album of an episode stands before the missing mark.\<close>

definition episode_json :: "string \<times> TrackView \<Rightarrow> members" where
  "episode_json = (\<lambda>(album, t).
     omitempty ''track_number'' JInt (tv_number t)
     @ omitempty ''disc_number'' JInt (tv_disc t)
     @ omitempty ''duration_seconds'' (\<lambda>n. JDec n 2) (tv_hundredths t)
     @ omitempty ''artist_name'' JStr (tv_artist t)
     @ [(''title'', JStr (tv_title t)), (''mime_type'', JStr (tv_mime_type t)), (''id'', JInt (tv_id t)), (''album_name'', JStr album)]
     @ omitfalse ''missing'' (tv_missing t))"

definition show_bookmark_json :: "show_bookmark \<Rightarrow> members" where
  "show_bookmark_json b = [(''last_listened_at'', JTime (sb_last_listened b)), (''media_item_id'', JInt (sb_item b)),
     (''position_seconds'', JInt (sb_position b))]"

fun status_text :: "job_status \<Rightarrow> string" where
  "status_text Queued = ''queued''"
| "status_text Running = ''running''"
| "status_text RunningSubJobs = ''running_sub_jobs''"
| "status_text Done = ''done''"
| "status_text Failed = ''failed''"

text \<open>\<open>models.Job\<close>, in the events of a job.\<close>

definition job_json :: "job \<Rightarrow> members" where
  "job_json j =
     [(''queued_at'', JTime (queued_at j))]
     @ omitempty ''related_id'' JInt (related_id j)
     @ omitempty ''related_type'' JStr (related_type j)
     @ omitempty ''parent_job_id'' JInt (parent_job_id j)
     @ omitempty ''log'' JStr (job_log j)
     @ omitempty ''error_message'' JStr (error_message j)
     @ omitempty ''started_at'' JTime (started_at j)
     @ omitempty ''completed_at'' JTime (completed_at j)
     @ [(''type'', JStr (job_type j)), (''status'', JStr (status_text (status j))), (''id'', JInt (job_id j)),
        (''current_step'', JInt (current_step j)), (''subjobs_enqueued'', JInt (subjobs_enqueued j))]"

definition job_response_json :: "jobResponse \<Rightarrow> members" where
  "job_response_json j =
     [(''updated_at'', JTime (jr_updated_at j)), (''created_at'', JTime (jr_created_at j)),
      (''related_id'', ptr JInt (jr_related_id j)), (''log'', ptr JStr (jr_log j)),
      (''related_name'', ptr JStr (jr_related_name j)), (''related_type'', ptr JStr (jr_related_type j)),
      (''type'', JStr (jr_type j)), (''status'', JStr (status_text (jr_status j))), (''step'', JInt (jr_step j)),
      (''subjobs_enqueued'', JInt (jr_subjobs_enqueued j)), (''total_sub_jobs'', JInt (jr_total j)),
      (''subjobs_completed'', JInt (jr_completed j)), (''total_steps'', JInt (jr_total_steps j)), (''id'', JInt (jr_id j)),
      (''supports_sub_jobs'', JBool (jr_supports_sub_jobs j))]"

definition schedule_json :: "job_schedule \<Rightarrow> members" where
  "schedule_json s =
     [(''updated_at'', JTime (sched_updated_at s))] @ omitempty ''description'' JStr (sched_description s)
     @ [(''name'', JStr (sched_name s)), (''cron'', JStr (sched_cron s))]"

definition video_hit_json :: "VideoSearchHit \<Rightarrow> members" where
  "video_hit_json h =
     omitempty ''date'' JStr (vh_date h)
     @ [(''title'', JStr (vh_title h)), (''collection_name'', JStr (vh_collection_name h)), (''collection_path'', ints (vh_collection_path h)),
        (''id'', JInt (vh_id h))]"

definition photo_collection_hit_json :: "PhotoCollectionSearchHit \<Rightarrow> members" where
  "photo_collection_hit_json h =
     omitempty ''date'' JStr (ch_date h)
     @ [(''name'', JStr (ch_name h)), (''collection_path'', ints (ch_collection_path h)), (''id'', JInt (ch_id h))]"

definition artist_hit_json :: "AudioArtistSearchHit \<Rightarrow> members" where
  "artist_hit_json h = [(''name'', JStr (ah_name h)), (''id'', JInt (ah_id h)), (''collection_id'', JInt (ah_collection_id h))]"

definition album_hit_json :: "AudioAlbumSearchHit \<Rightarrow> members" where
  "album_hit_json h =
     omitempty ''year'' JInt (bh_year h) @ omitempty ''artist_id'' JInt (bh_artist_id h)
     @ [(''name'', JStr (bh_name h)), (''id'', JInt (bh_id h)), (''collection_id'', JInt (bh_collection_id h))]"

definition track_hit_json :: "AudioTrackSearchHit \<Rightarrow> members" where
  "track_hit_json h =
     omitempty ''album_id'' JInt (th_album_id h) @ omitempty ''artist_id'' JInt (th_artist_id h)
     @ omitempty ''duration_seconds'' (\<lambda>n. JDec n 2) (th_hundredths h)
     @ omitempty ''artist_name'' JStr (th_artist_name h) @ omitempty ''album_name'' JStr (th_album_name h)
     @ [(''title'', JStr (th_title h)), (''collection_type'', JStr (th_collection_type h)), (''id'', JInt (th_id h)),
        (''collection_id'', JInt (th_collection_id h))]"

section \<open>The bodies\<close>

text \<open>The maps of the handlers; their keys are written in order.\<close>

definition tokens_json :: "string \<Rightarrow> int \<Rightarrow> string \<Rightarrow> int \<Rightarrow> int \<Rightarrow> members" where
  "tokens_json access ttl refreshTok refresh_ttl device =
     [(''access_token'', JStr access), (''access_token_expires_in'', JInt ttl), (''device_id'', JInt device),
      (''refresh_token'', JStr refreshTok), (''refresh_token_expires_in'', JInt refresh_ttl)]"

definition me_json :: "int \<Rightarrow> string \<Rightarrow> bool \<Rightarrow> int \<Rightarrow> members" where
  "me_json i name admin device =
     [(''device_id'', JInt device), (''id'', JInt i), (''is_admin'', JBool admin), (''name'', JStr name)]"

definition provider_json :: "string \<Rightarrow> members" where
  "provider_json p = [(''name'', JStr p)]"

fun auth_json :: "auth_payload \<Rightarrow> json" where
  "auth_json (Tokens access ttl refreshTok refresh_ttl device) = JObj (tokens_json access ttl refreshTok refresh_ttl device)"
| "auth_json (Providers ps) = objects provider_json ps"
| "auth_json (Devices ds) = objects device_view_json ds"
| "auth_json (Me i name admin device) = JObj (me_json i name admin device)"

definition page_json :: "string \<Rightarrow> json \<Rightarrow> int \<Rightarrow> int \<Rightarrow> members" where
  "page_json name items offset limit = [(name, items), (''limit'', JInt limit), (''offset'', JInt offset)]"

definition video_page_json :: "VideoItemView list \<Rightarrow> int \<Rightarrow> int option \<Rightarrow> int \<Rightarrow> members" where
  "video_page_json items page next_page sz =
     [(''items'', objects video_item_json items), (''next_page'', ptr JInt next_page), (''page'', JInt page), (''page_size'', JInt sz)]"

definition artist_page_json :: "artist list \<Rightarrow> int \<Rightarrow> int \<Rightarrow> int \<Rightarrow> members" where
  "artist_page_json as tot page sz =
     [(''artists'', objects artist_summary_json as), (''page'', JInt page), (''page_size'', JInt sz), (''total_count'', JInt tot)]"

definition artist_albums_json :: "artist \<Rightarrow> AlbumSummary list \<Rightarrow> members" where
  "artist_albums_json a as = [(''albums'', objects album_summary_json as), (''artist'', JObj (artist_json a))]"

definition album_tracks_json :: "album \<Rightarrow> TrackView list \<Rightarrow> int \<Rightarrow> int \<Rightarrow> members" where
  "album_tracks_json a ts tot discs =
     [(''album'', JObj (album_json a)), (''disc_count'', JInt discs), (''total_duration'', JDec tot 2), (''tracks'', objects track_json ts)]"

definition show_episodes_json :: "artist \<Rightarrow> (string \<times> TrackView) list \<Rightarrow> show_bookmark option \<Rightarrow> members" where
  "show_episodes_json a es b =
     [(''bookmark'', ptr (\<lambda>b. JObj (show_bookmark_json b)) b), (''episodes'', objects episode_json es), (''show'', JObj (artist_json a))]"

definition photo_months_json :: "int \<Rightarrow> ((int \<times> int) \<times> int) list \<Rightarrow> members" where
  "photo_months_json tot counts = [(''months'', objects month_json counts), (''total'', JInt tot)]"

definition video_hits_json :: "VideoSearchHit list \<Rightarrow> VideoSearchHit list \<Rightarrow> int \<Rightarrow> int \<Rightarrow> members" where
  "video_hits_json movies homeMovies offset limit =
     [(''limit'', JInt limit), (''offset'', JInt offset), (''video:home_movie'', objects video_hit_json homeMovies),
      (''video:movie'', objects video_hit_json movies)]"

definition artist_hits_json :: "AudioArtistSearchHit list \<Rightarrow> AudioArtistSearchHit list \<Rightarrow> int \<Rightarrow> int \<Rightarrow> members" where
  "artist_hits_json as ss offset limit =
     [(''artists'', objects artist_hit_json as), (''limit'', JInt limit), (''offset'', JInt offset), (''shows'', objects artist_hit_json ss)]"

definition track_hits_json :: "AudioTrackSearchHit list \<Rightarrow> int \<Rightarrow> int \<Rightarrow> members" where
  "track_hits_json hs offset limit = [(''limit'', JInt limit), (''offset'', JInt offset), (''tracks'', objects track_hit_json hs)]"

text \<open>A file, an image and a redirection are no JSON.\<close>

fun media_json :: "media_payload \<Rightarrow> json list" where
  "media_json (RawJson j) = [JRaw j]"
| "media_json (OneCollection v) = [JObj (collection_view_json v None)]"
| "media_json (CollectionViews vs) = [objects (\<lambda>(v, date). collection_view_json v date) vs]"
| "media_json (VideoPage items page next_page sz) = [JObj (video_page_json items page next_page sz)]"
| "media_json (VideoItem v) = [JObj (video_item_json v)]"
| "media_json (ArtistPage as tot page sz) = [JObj (artist_page_json as tot page sz)]"
| "media_json (ArtistAlbums a as) = [JObj (artist_albums_json a as)]"
| "media_json (AlbumTracks a ts tot discs) = [JObj (album_tracks_json a ts tot discs)]"
| "media_json (Shows ss) = [JObj [(''shows'', objects show_json ss)]]"
| "media_json (Episodes a es b) = [JObj (show_episodes_json a es b)]"
| "media_json (PhotoPage items offset limit) = [JObj (page_json ''items'' (objects photo_item_json items) offset limit)]"
| "media_json (PhotoMonths tot counts) = [JObj (photo_months_json tot counts)]"
| "media_json (VideoHits movies homeMovies offset limit) = [JObj (video_hits_json movies homeMovies offset limit)]"
| "media_json (PhotoCollectionHits hs offset limit) = [JObj (page_json ''collections'' (objects photo_collection_hit_json hs) offset limit)]"
| "media_json (ArtistHits as ss offset limit) = [JObj (artist_hits_json as ss offset limit)]"
| "media_json (AlbumHits hs offset limit) = [JObj (page_json ''albums'' (objects album_hit_json hs) offset limit)]"
| "media_json (TrackHits hs offset limit) = [JObj (track_hits_json hs offset limit)]"
| "media_json StatusOk = [JObj [(''status'', JStr ''ok'')]]"
| "media_json _ = []"

definition job_page_json :: "jobResponse list \<Rightarrow> int \<Rightarrow> int \<Rightarrow> int \<Rightarrow> members" where
  "job_page_json js tot page limit =
     [(''jobs'', objects job_response_json js), (''limit'', JInt limit), (''page'', JInt page), (''total'', JInt tot)]"

definition user_json :: "int \<times> string \<Rightarrow> members" where
  "user_json = (\<lambda>(i, name). [(''name'', JStr name), (''id'', JInt i)])"

definition directory_json :: "string \<times> string \<Rightarrow> members" where
  "directory_json = (\<lambda>(name, ty). [(''name'', JStr name), (''type'', JStr ty)])"

definition version_json :: "string \<Rightarrow> string \<Rightarrow> string \<Rightarrow> members" where
  "version_json v commit built = [(''built_at'', JStr built), (''commit'', JStr commit), (''version'', JStr v)]"

fun admin_json :: "admin_payload \<Rightarrow> json" where
  "admin_json (FromAuth p) = auth_json p"
| "admin_json (CreatedCollection i j) = JObj [(''id'', JInt i), (''scan_job_id'', JInt j)]"
| "admin_json (CollectionList cs) = objects collection_json cs"
| "admin_json (JobPage js tot page limit) = JObj (job_page_json js tot page limit)"
| "admin_json (OneJob j) = JObj (job_response_json j)"
| "admin_json (DeletedCount n) = JObj [(''deleted'', JInt n)]"
| "admin_json (ScheduleList ss) = objects schedule_json ss"
| "admin_json (UserList us) = objects user_json us"
| "admin_json (CreatedUser i) = JObj [(''id'', JInt i)]"
| "admin_json (IdList is) = ints is"
| "admin_json (DirectoryList ds) = objects directory_json ds"

fun http_json :: "http_payload \<Rightarrow> json list" where
  "http_json (AuthJson p) = [auth_json p]"
| "http_json (MediaBody p) = media_json p"
| "http_json (AdminJson p) = [admin_json p]"
| "http_json (VersionJson v c b) = [JObj (version_json v c b)]"
| "http_json HealthJson = [JObj [(''status'', JStr ''ok'')]]"
| "http_json (EventStream js) = map (\<lambda>j. JObj (job_json j)) js"

text \<open>\<open>http.StatusText\<close> for the statuses the code writes with a message.\<close>

definition StatusText :: "nat \<Rightarrow> string" where
  "StatusText code = (case map_of [(400, ''Bad Request''), (401, ''Unauthorized''), (403, ''Forbidden''), (404, ''Not Found''),
     (409, ''Conflict''), (429, ''Too Many Requests''), (500, ''Internal Server Error''), (503, ''Service Unavailable'')] code of
     None \<Rightarrow> [] | Some t \<Rightarrow> t)"

definition error_json :: "nat \<Rightarrow> string \<Rightarrow> json" where
  "error_json code msg = JObj [(''error'', JStr (StatusText code)), (''message'', JStr msg), (''statusCode'', JInt (int code))]"

definition body_json :: "http_response \<Rightarrow> json list" where
  "body_json resp = (case resp_content resp of
       NoContent \<Rightarrow> [] | ErrorBody code msg \<Rightarrow> [error_json code msg] | JsonBody p \<Rightarrow> http_json p)"

section \<open>Which members there are\<close>

text \<open>What no client is told: paths, hashes, secrets.\<close>

definition private_keys :: "string set" where
  "private_keys = {''relative_path'', ''file_hash'', ''device_uuid'', ''refresh_token_hash'', ''previous_refresh_token_hash'',
     ''auth_data'', ''password_hash'', ''exif_raw'', ''media_path''}"

definition harmless :: "json \<Rightarrow> bool" where
  "harmless j \<longleftrightarrow> json_keys j \<inter> private_keys = {}"

lemma harmless_leaf [simp]: "harmless JNull" "harmless (JBool b)" "harmless (JInt i)" "harmless (JDec m k)" "harmless (JStr s)"
  "harmless (JTime t)" "harmless (JRaw s)"
  by (simp_all add: harmless_def)

lemma harmless_arr [simp]: "harmless (JArr js) \<longleftrightarrow> (\<forall>j \<in> set js. harmless j)"
  by (auto simp: harmless_def)

lemma harmless_obj [simp]:
  "harmless (JObj [])" "harmless (JObj ((n, j) # ms)) \<longleftrightarrow> n \<notin> private_keys \<and> harmless j \<and> harmless (JObj ms)"
  "harmless (JObj (ms @ ns)) \<longleftrightarrow> harmless (JObj ms) \<and> harmless (JObj ns)"
  by (auto simp: harmless_def)

lemma harmless_omit [simp]:
  "n \<notin> private_keys \<Longrightarrow> (\<And>v. harmless (f v)) \<Longrightarrow> harmless (JObj (omitempty n f x))"
  "n \<notin> private_keys \<Longrightarrow> harmless (JObj (omitfalse n b))"
  by (simp_all add: omitempty_def omitfalse_def split: option.split)

lemma harmless_objects: "(\<And>x. harmless (JObj (f x))) \<Longrightarrow> harmless (objects f xs)"
  by (simp add: objects_def)

lemma harmless_ptr: "(\<And>x. harmless (f x)) \<Longrightarrow> harmless (ptr f x)"
  by (simp add: ptr_def split: option.split)

lemma harmless_ints [simp]: "harmless (ints is)"
  by (simp add: ints_def)

lemmas public_name = private_keys_def

lemma harmless_views:
  "harmless (JObj (collection_view_json v d))" "harmless (JObj (photo_item_json p))" "harmless (JObj (video_item_json vi))"
  "harmless (JObj (month_json mo))" "harmless (JObj (device_view_json dv))" "harmless (JObj (artist_json a))" "harmless (JObj (artist_summary_json a))"
  "harmless (JObj (album_json al))" "harmless (JObj (album_summary_json asu))" "harmless (JObj (show_json sh))" "harmless (JObj (track_json tr))"
  "harmless (JObj (episode_json ep))" "harmless (JObj (show_bookmark_json sb))" "harmless (JObj (job_json j))"
  "harmless (JObj (video_hit_json vh))" "harmless (JObj (photo_collection_hit_json ph))" "harmless (JObj (artist_hit_json ah))"
  "harmless (JObj (album_hit_json alh))" "harmless (JObj (track_hit_json th))"
  by (simp_all add: collection_view_json_def photo_item_json_def Let_def video_item_json_def month_json_def device_view_json_def
      access_entry_json_def harmless_objects artist_json_def artist_summary_json_def album_json_def album_summary_json_def show_json_def track_json_def
      episode_json_def show_bookmark_json_def job_json_def video_hit_json_def photo_collection_hit_json_def artist_hit_json_def album_hit_json_def
      track_hit_json_def public_name split: prod.split)

lemmas auth_maps = tokens_json_def me_json_def provider_json_def

lemmas media_maps = page_json_def video_page_json_def artist_page_json_def artist_albums_json_def album_tracks_json_def
  show_episodes_json_def photo_months_json_def video_hits_json_def artist_hits_json_def track_hits_json_def

lemmas admin_maps = job_page_json_def user_json_def directory_json_def version_json_def

lemma harmless_auth: "harmless (auth_json p)"
  by (cases p) (simp_all add: harmless_objects harmless_views auth_maps public_name)

lemma harmless_media: "j \<in> set (media_json p) \<Longrightarrow> harmless j"
  by (cases p) (auto simp: harmless_objects harmless_views harmless_ptr media_maps public_name intro!: harmless_objects split: prod.split)

end
