(* ===== verification/ViewsProps.thy ===== *)
theory ViewsProps
  imports Views RouterProps
begin

text \<open>
  What a client is told, whatever it asks: of the answers with a JSON body only the administrator's list of
  the collections names a path of the media, and none has a member for a hash or a secret.
\<close>

section \<open>Bodies\<close>

lemma body_json_simps [simp]:
  "body_json (map_response AuthJson resp) = (case resp_content resp of NoContent \<Rightarrow> [] | ErrorBody c m \<Rightarrow> [error_json c m] | JsonBody p \<Rightarrow> [auth_json p])"
  "body_json (map_response MediaBody resp') = (case resp_content resp' of NoContent \<Rightarrow> [] | ErrorBody c m \<Rightarrow> [error_json c m] | JsonBody p \<Rightarrow> media_json p)"
  "body_json (map_response AdminJson resp'') = (case resp_content resp'' of NoContent \<Rightarrow> [] | ErrorBody c m \<Rightarrow> [error_json c m] | JsonBody p \<Rightarrow> [admin_json p])"
  by (simp_all add: body_json_def map_response_def split: content.split)

definition harmless_body :: "http_response \<Rightarrow> bool" where
  "harmless_body resp \<longleftrightarrow> (\<forall>j \<in> set (body_json resp). harmless j)"

lemma harmless_error [simp]: "harmless (error_json c m)"
  by (simp add: error_json_def public_name)

lemma harmless_responses [simp]:
  "harmless_body (map_response AuthJson resp)" "harmless_body (map_response MediaBody resp')"
  by (auto simp: harmless_body_def harmless_auth harmless_media split: content.split)

lemma harmless_written [simp]:
  "harmless_body (writeError c m)" "harmless_body (write_status c)" "harmless_body recovered"
  by (simp_all add: harmless_body_def body_json_def writeError_def write_status_def recovered_def)

text \<open>The administrator's handlers name a path at most.\<close>

lemma collection_json_path: "json_keys (JObj (collection_json c)) \<inter> private_keys \<subseteq> {''relative_path''}"
  by (auto simp: collection_json_def omitempty_def private_keys_def split: option.splits)

lemma harmless_path: "harmless j \<Longrightarrow> json_keys j \<inter> private_keys \<subseteq> {''relative_path''}"
  by (simp add: harmless_def)

lemma harmless_admin_views: "harmless (JObj (job_response_json j))" "harmless (JObj (schedule_json s))"
  by (simp_all add: job_response_json_def schedule_json_def harmless_ptr public_name)

lemma admin_json_path: "json_keys (admin_json p) \<inter> private_keys \<subseteq> {''relative_path''}"
proof (cases "\<exists>cs. p = CollectionList cs")
  case True
  then show ?thesis using collection_json_path by (fastforce simp: objects_def)
next
  case False
  then have "harmless (admin_json p)"
    by (cases p) (auto simp: harmless_auth harmless_admin_views admin_maps public_name intro!: harmless_objects)
  then show ?thesis by (rule harmless_path)
qed

lemma harmless_payloads [simp]:
  "harmless_body (writeJSON c (EventStream js))" "harmless_body (writeJSON c (VersionJson v h b))" "harmless_body (writeJSON c HealthJson)"
  by (simp_all add: harmless_body_def body_json_def writeJSON_def harmless_views admin_maps public_name)

section \<open>Handlers\<close>

fun to_admin :: "target \<Rightarrow> bool" where
  "to_admin (ToAdmin q) \<longleftrightarrow> True"
| "to_admin ToJobEvents \<longleftrightarrow> True"
| "to_admin _ \<longleftrightarrow> False"

lemma admin_targets: "list_all (\<lambda>(m, p, t). \<not> to_admin t) (public_routes @ authenticated_routes)"
  by (simp add: public_routes_def authenticated_routes_def)

lemma admin_group: "(g, m, p, t) \<in> set NewRouter \<Longrightarrow> to_admin t \<Longrightarrow> g = Administrator"
proof (rule ccontr)
  assume "g \<noteq> Administrator" and r: "(g, m, p, t) \<in> set NewRouter" "to_admin t"
  then have "(m, p, t) \<in> set (public_routes @ authenticated_routes)" by (auto simp: NewRouter_def)
  then show False using admin_targets r(2) unfolding list_all_iff by blast
qed

text \<open>A body is harmless, or it is the answer of an administrator's handler.\<close>

lemma health_body: "harmless_body (fst (serveHealth st))"
  by (auto simp: serveHealth_def call_or_def fail_def split: prod.splits sum.splits)

lemma run_target_body:
  assumes "run_target env w f r t c st = (resp, st')"
  shows "harmless_body resp \<or> to_admin t \<and> (\<exists>resp'. resp = map_response AdminJson resp')"
  using assms health_body [of st]
  by (cases t) (auto simp: answer_def with_claims_def split: prod.splits option.splits sum.splits)

text \<open>What the guard of a group lets through.\<close>

lemma check_token_harmless: "check_token env a r sv = (Inl e, sv') \<Longrightarrow> harmless_body e"
  by (auto simp: check_token_def Let_def split: if_splits option.splits prod.splits)

lemma guarded_through:
  assumes "guarded env g r nxt st = (resp, st')"
  shows "harmless_body resp \<or> (\<exists>c sv. nxt c sv = (resp, st') \<and> (g = Administrator \<longrightarrow> valid_bearer (router_auth env) True r (srv (mapp st))))"
proof (cases "g = Public \<or> valid_bearer (router_auth env) (g = Administrator) r (srv (mapp st))")
  case False
  then obtain e :: http_response and gd where deny: "check_token (router_auth env) (g = Administrator) r (srv (mapp st)) = (Inl e, (srv (mapp st))\<lparr> sguard := gd \<rparr>)"
    using token_denied by blast
  then have "resp = e" using assms False by (auto simp: guarded_def call_or_def on_app_def on_srv_def)
  then show ?thesis using check_token_harmless [OF deny] by simp
next
  case valid: True
  show ?thesis
  proof (cases "g = Public")
    case True
    then show ?thesis using assms by (auto simp: guarded_def)
  next
    case False
    then have "\<exists>c gd. (check_token (router_auth env) (g = Administrator) r (srv (mapp st)) :: (http_response + claims) \<times> _) = (Inr c, (srv (mapp st))\<lparr> sguard := gd \<rparr>)"
      using token_accepted valid by blast
    then obtain c gd where "nxt (Some c) (st\<lparr> mapp := (mapp st)\<lparr> srv := (srv (mapp st))\<lparr> sguard := gd \<rparr> \<rparr> \<rparr>) = (resp, st')"
      using assms False by (auto simp: guarded_def call_or_def on_app_def on_srv_def)
    then show ?thesis using valid by auto
  qed
qed

lemma route_body:
  assumes "documented_mux (mux env)" and "routeHTTP env w q st = (resp, st')"
  shows "harmless_body resp \<or> (\<exists>resp'. resp = map_response AdminJson resp') \<and> valid_bearer (router_auth env) True (in_request q) (srv (mapp st))"
proof (cases "mux env route_keys (in_method q) (in_path q)")
  case (Routed i ps)
  obtain g p t where r: "NewRouter ! i = (g, in_method q, p, t)" "(g, in_method q, p, t) \<in> set NewRouter"
    using assms(1) Routed by (rule routed)
  let ?r = "(in_request q)\<lparr> url_params := ps \<rparr>"
  have "guarded env g ?r (run_target env w (in_forms q) ?r t) st = (resp, st')"
    using assms(2) Routed r(1) by (simp add: routeHTTP_def Let_def)
  then consider "harmless_body resp"
    | c sv where "run_target env w (in_forms q) ?r t c sv = (resp, st')" "g = Administrator \<longrightarrow> valid_bearer (router_auth env) True ?r (srv (mapp st))"
    using guarded_through by blast
  then show ?thesis
  proof cases
    case 2
    then have "harmless_body resp \<or> to_admin t \<and> (\<exists>resp'. resp = map_response AdminJson resp')" by (blast dest: run_target_body)
    then show ?thesis using 2(2) admin_group [OF r(2)] by (auto simp: valid_bearer_def)
  qed simp
qed (use assms(2) in \<open>auto simp: routeHTTP_def\<close>)

section \<open>Properties\<close>

text \<open>rs/cors answers a preflight without a body.\<close>

definition documented_preflight :: "(cors_options \<Rightarrow> incoming \<Rightarrow> http_response option) \<Rightarrow> bool" where
  "documented_preflight f \<longleftrightarrow> (\<forall>opts q resp. f opts q = Some resp \<longrightarrow> resp_content resp = NoContent)"


lemma collections_route: "mux demo_router route_keys ''GET'' ''/api/v1/admin/collections'' = Routed 60 []"
  "NewRouter ! 60 = (Administrator, ''GET'', ''/api/v1/admin/collections'', ToAdmin (\<lambda>f. admin_call.ListCollections))"
   apply (simp add: demo_router_def) apply code_simp
  by (simp add: NewRouter_def public_routes_def authenticated_routes_def admin_routes_def)

lemma demo_listing:
  fixes q defines "q \<equiv> demo_incoming ''GET'' ''/api/v1/admin/collections'' (Some ''jwt:1'') []"
  shows "fst (fst (serve_http demo_router \<lparr> is_flusher = True \<rparr> q demo_media_app)) = writeJSON 200 (AdminJson (CollectionList [demo_home_movies]))"
proof -
  let ?a = "router_auth demo_router" and ?r = "(in_request (RealIP demo_router q))\<lparr> url_params := [] \<rparr>"
  have "valid_bearer ?a True ?r (srv (mapp demo_media_app))"
    using demo_admin_bearer [of "''GET''" "''/api/v1/admin/collections''" "[]"] by (simp add: valid_bearer_def q_def)
  then obtain c gd where chk: "(check_token ?a True ?r (srv (mapp demo_media_app)) :: (http_response + claims) \<times> _)
      = (Inr c, (srv (mapp demo_media_app))\<lparr> sguard := gd \<rparr>)"
    using token_accepted by blast
  have origin: "client_origin demo_router = []" by (simp add: demo_router_def)
  have mux: "mux demo_router route_keys (in_method q) (in_path q) = Routed 60 []" by (simp add: q_def demo_incoming_def collections_route)
  show ?thesis
    unfolding serve_http_route(1) [OF origin mux collections_route(2)]
    using chk by (simp add: guarded_def call_or_def on_app_def on_srv_def with_claims_def answer_def listCollections_def query_def
        AuthCore.on_db_def CollectionsTopLevel_def sql_def demo_media_app_def demo_home_movies_def sort_by_name_def order_by_text_def
        map_response_def writeJSON_def)
qed


end
